(* ===== verification/Prelude.thy ===== *)
theory Prelude
  imports Main "HOL-Library.Word" "HOL-Library.Monad_Syntax"
begin

text \<open>
  Shared vocabulary of the development: the machine integers of the target (a 32-bit SH4, where
  \<^verbatim>\<open>unsigned long\<close> has 32 bits), C arrays as lists with checked accesses, checked unsigned
  division, and the list and word lemmas that the component theories use.

  A value of type \<open>'a option\<close> is the outcome of a piece of C code: \<open>Some\<close> is the outcome the
  C standard defines, \<open>None\<close> stands for undefined behaviour (an access outside an array or a
  division by zero) or for a wait that never ends.
\<close>

unbundle bit_operations_syntax

type_synonym u8 = "8 word"
type_synonym u16 = "16 word"
type_synonym u32 = "32 word"

named_theorems arr_simps \<open>unfolding rules for array accesses\<close>
named_theorems frame_simps \<open>what an operation leaves unchanged\<close>

section \<open>C arrays and division\<close>

definition arr_get :: "'a list \<Rightarrow> nat \<Rightarrow> 'a option" where
  "arr_get xs i = (if i < length xs then Some (xs ! i) else None)"

definition arr_set :: "'a list \<Rightarrow> nat \<Rightarrow> 'a \<Rightarrow> 'a list option" where
  "arr_set xs i v = (if i < length xs then Some (xs[i := v]) else None)"

text \<open>\<open>arr_copy dst d src s n\<close> is \<^verbatim>\<open>memcpy(dst + d, src + s, n)\<close> on two distinct arrays.\<close>

definition arr_copy :: "'a list \<Rightarrow> nat \<Rightarrow> 'a list \<Rightarrow> nat \<Rightarrow> nat \<Rightarrow> 'a list option" where
  "arr_copy dst d src s n =
     (if d + n \<le> length dst \<and> s + n \<le> length src
      then Some (take d dst @ take n (drop s src) @ drop (d + n) dst) else None)"

definition arr_slice :: "'a list \<Rightarrow> nat \<Rightarrow> nat \<Rightarrow> 'a list option" where
  "arr_slice xs s n = (if s + n \<le> length xs then Some (take n (drop s xs)) else None)"

definition udiv :: "'a::len word \<Rightarrow> 'a word \<Rightarrow> 'a word option" where
  "udiv a b = (if b = 0 then None else Some (a div b))"

lemma arr_get_Some_iff [arr_simps]: "arr_get xs i = Some x \<longleftrightarrow> i < length xs \<and> x = xs ! i"
  by (auto simp: arr_get_def)

lemma arr_get_None_iff [arr_simps]: "arr_get xs i = None \<longleftrightarrow> length xs \<le> i"
  by (simp add: arr_get_def not_less)

lemma arr_set_Some_iff [arr_simps]: "arr_set xs i v = Some ys \<longleftrightarrow> i < length xs \<and> ys = xs[i := v]"
  by (auto simp: arr_set_def)

lemma arr_set_None_iff [arr_simps]: "arr_set xs i v = None \<longleftrightarrow> length xs \<le> i"
  by (simp add: arr_set_def not_less)

lemma arr_copy_Some_iff [arr_simps]:
  "arr_copy dst d src s n = Some ys \<longleftrightarrow>
     d + n \<le> length dst \<and> s + n \<le> length src \<and>
     ys = take d dst @ take n (drop s src) @ drop (d + n) dst"
  by (auto simp: arr_copy_def)

lemma arr_copy_None_iff [arr_simps]:
  "arr_copy dst d src s n = None \<longleftrightarrow> length dst < d + n \<or> length src < s + n"
  by (auto simp: arr_copy_def)

lemma arr_slice_Some_iff [arr_simps]:
  "arr_slice xs s n = Some ys \<longleftrightarrow> s + n \<le> length xs \<and> ys = take n (drop s xs)"
  by (auto simp: arr_slice_def)

lemma arr_copy_length: "arr_copy dst d src s n = Some ys \<Longrightarrow> length ys = length dst"
  by (auto simp: arr_simps)

lemma arr_set_length: "arr_set xs i v = Some ys \<Longrightarrow> length ys = length xs"
  by (auto simp: arr_simps)

lemma udiv_Some_iff: "udiv a b = Some c \<longleftrightarrow> b \<noteq> 0 \<and> c = a div b"
  by (auto simp: udiv_def)

lemma udiv_None_iff: "udiv a b = None \<longleftrightarrow> b = 0"
  by (simp add: udiv_def)

text \<open>
  Every outcome of a fallible step satisfies a predicate: \<open>pred_option\<close> of the library, with the rules
  that take it through a sequence of steps.
\<close>

lemma ok_bind:
  "pred_option Q m \<Longrightarrow> (\<And>x. Q x \<Longrightarrow> pred_option P (f x)) \<Longrightarrow> pred_option P (m \<bind> f)"
  by (cases m) auto

lemma ok_bind_any: "(\<And>x. pred_option P (f x)) \<Longrightarrow> pred_option P (m \<bind> f)"
  by (cases m) auto

lemma ok_value: "pred_option (\<lambda>x. m = Some x) m"
  by (cases m) auto

text \<open>A step that has an outcome, which satisfies a predicate.\<close>

definition yields :: "('a \<Rightarrow> bool) \<Rightarrow> 'a option \<Rightarrow> bool" where
  "yields Q m \<longleftrightarrow> (\<exists>x. m = Some x \<and> Q x)"

lemma yields_bind: "yields Q m \<Longrightarrow> (\<And>x. Q x \<Longrightarrow> yields P (f x)) \<Longrightarrow> yields P (m \<bind> f)"
  by (auto simp: yields_def)

lemma yields_Some [simp]: "yields Q (Some x) = Q x"
  by (simp add: yields_def)

lemma yieldsD: "yields Q m \<Longrightarrow> m = Some x \<Longrightarrow> Q x"
  by (simp add: yields_def)

lemma yields_defined: "yields Q m \<Longrightarrow> m \<noteq> None"
  by (auto simp: yields_def)

section \<open>Words\<close>

lemma u8_cases_upt: "(\<forall>b :: u8. P b) \<longleftrightarrow> (\<forall>n \<in> set [0..<256]. P (word_of_nat n))"
proof
  assume *: "\<forall>n \<in> set [0..<256]. P (word_of_nat n)"
  show "\<forall>b. P b"
  proof
    fix b :: u8
    have "unat b < 256" using unsigned_less [of b, where ?'a = nat] by simp
    then show "P b" using bspec [OF *, of "unat b"] by simp
  qed
qed simp

lemma unat_u8_less: "unat (b :: u8) < 256"
  using unsigned_less [of b, where ?'a = nat] by simp

lemma unat_u16_less: "unat (b :: u16) < 65536"
  using unsigned_less [of b, where ?'a = nat] by simp

lemma unat_u32_less: "unat (b :: u32) < 4294967296"
  using unsigned_less [of b, where ?'a = nat] by simp

lemma unat_and_le: "unat (a AND b) \<le> unat (b :: 'a::len word)"
  by (metis word_and_le1 word_le_nat_alt)

lemma unat_u16_Suc: "unat (w :: u16) < 65535 \<Longrightarrow> unat (w + 1) = Suc (unat w)"
  by (simp add: unat_word_ariths)

lemma unat_u16_add: "unat (w :: u16) + n < 65536 \<Longrightarrow> unat (w + word_of_nat n) = unat w + n"
  by (simp add: unat_word_ariths unat_of_nat)

lemma unat_word_of_nat_u32: "n < 4294967296 \<Longrightarrow> unat (word_of_nat n :: u32) = n"
  by (simp add: unat_of_nat)

lemma unat_diff_u32: "b \<le> a \<Longrightarrow> unat (a - b) = unat a - unat (b :: u32)"
  by (rule unat_sub)

lemma unat_add_u32: "unat a + unat b < 4294967296 \<Longrightarrow> unat (a + b) = unat a + unat (b :: u32)"
  by (simp add: unat_word_ariths)

lemma unat_ucast_u8_u32: "unat (ucast (b :: u8) :: u32) = unat b"
  using unat_u8_less [of b] by (simp add: unsigned_ucast_eq take_bit_nat_eq_self)

lemma ucast_u32_u8 [simp]: "ucast (ucast (b :: u8) :: u32) = b"
  by (rule bit_word_eqI) (auto simp: bit_simps)

lemma ucast_u8_minus_1: "ucast (ucast r - 1 :: u32) = r - (1 :: u8)"
proof -
  have "uint r mod 4294967296 = uint r" using uint_lt2p [of r] by simp
  then show ?thesis
    by (simp add: unsigned_ucast_eq word_eq_iff_unsigned [where ?'a = int] uint_word_ariths take_bit_eq_mod mod_mod_cancel)
qed

lemma ucast_low_byte: "ucast (v AND 0xFF) = (ucast v :: u8)" for v :: u32
proof -
  have "ucast (v AND mask 8) = (ucast v :: u8)" by (rule bit_word_eqI) (auto simp: bit_simps)
  then show ?thesis by (simp add: mask_eq_exp_minus_1)
qed

section \<open>Lists\<close>

lemma take_drop_nth_Cons:
  "i < length xs \<Longrightarrow> 0 < n \<Longrightarrow> take n (drop i xs) = xs ! i # take (n - 1) (drop (Suc i) xs)"
  by (simp add: Cons_nth_drop_Suc [symmetric] take_Cons')

lemma take_drop_Suc_snoc:
  "s \<le> i \<Longrightarrow> i < length xs \<Longrightarrow>
     take (Suc i - s) (drop s xs) = take (i - s) (drop s xs) @ [xs ! i]"
  by (simp add: Suc_diff_le take_Suc_conv_app_nth)

lemma take_drop_update_end:
  "s \<le> i \<Longrightarrow> i < length xs \<Longrightarrow>
     take (Suc i - s) (drop s (xs[i := v])) = take (i - s) (drop s xs) @ [v]"
  by (subst take_drop_Suc_snoc) (simp_all add: drop_update_swap)

lemma take_Suc_drop_append:
  "i < length xs \<Longrightarrow> take i xs @ [xs ! i] = take (Suc i) xs"
  by (simp add: take_Suc_conv_app_nth)

section \<open>Line codes\<close>

text \<open>
  A card with the inverse convention sends each byte complemented and with its bits reversed. The
  receiver decodes with the same function as the sender encodes, which is all the clients of a
  line code rely on.
\<close>

locale line_code =
  fixes code :: "u8 \<Rightarrow> u8"
  assumes involutive: "code (code b) = b"
begin

lemma map_code_cancel: "map code (map code bs) = bs"
  by (simp add: comp_def involutive)

lemma code_eq_iff: "code a = b \<longleftrightarrow> a = code b"
  using involutive by metis

lemma inj_code: "inj code"
  by (rule inj_on_inverseI [where g = code]) (rule involutive)

end

section \<open>Loops that wait for a condition\<close>

fun iterate :: "('s \<Rightarrow> 's) \<Rightarrow> nat \<Rightarrow> 's \<Rightarrow> 's" where
  "iterate f 0 s = s"
| "iterate f (Suc n) s = iterate f n (f s)"

lemma iterate_keeps: "(\<And>s. P s \<Longrightarrow> P (f s)) \<Longrightarrow> P s \<Longrightarrow> P (iterate f n s)"
  by (induction n arbitrary: s) auto

text \<open>
  The interface of the drivers' wait loops: the loop pauses (and whoever else runs meanwhile changes
  the state) while it is \<open>busy\<close>, and returns only if the condition ends after finitely many pauses.
\<close>

locale wait_loop =
  fixes pause :: "'s \<Rightarrow> 's" and busy :: "'s \<Rightarrow> bool"
    and wait :: "'s \<Rightarrow> 'a option" and result :: "'s \<Rightarrow> 'a"
  assumes wait_step: "wait d = (if busy d then wait (pause d) else Some (result d))"
    and wait_finite: "wait d = Some r \<Longrightarrow> \<exists>n. \<not> busy (iterate pause n d)"
begin

lemma wait_reaches:
  "(\<And>k. k < n \<Longrightarrow> busy (iterate pause k d)) \<Longrightarrow> \<not> busy (iterate pause n d) \<Longrightarrow>
     wait d = Some (result (iterate pause n d))"
proof (induction n arbitrary: d)
  case 0
  then show ?case by (subst wait_step) simp
next
  case (Suc n)
  have "busy d" using Suc.prems(1) [of 0] by simp
  moreover have "busy (iterate pause k (pause d))" if "k < n" for k
    using Suc.prems(1) [of "Suc k"] that by simp
  ultimately show ?case using Suc.IH Suc.prems(2) by (subst wait_step) simp
qed

lemma wait_None_iff: "wait d = None \<longleftrightarrow> (\<forall>n. busy (iterate pause n d))"
proof
  assume none: "wait d = None"
  show "\<forall>n. busy (iterate pause n d)"
  proof (rule ccontr)
    assume "\<not> ?thesis"
    then obtain n where "\<not> busy (iterate pause n d)" "\<And>k. k < n \<Longrightarrow> busy (iterate pause k d)"
      using exists_least_iff [of "\<lambda>n. \<not> busy (iterate pause n d)"] by auto
    then show False using wait_reaches [of n d] none by auto
  qed
next
  assume "\<forall>n. busy (iterate pause n d)"
  then show "wait d = None" using wait_finite by (metis not_None_eq)
qed

lemma wait_SomeE:
  assumes "wait d = Some r"
  obtains n where "r = result (iterate pause n d)" "\<not> busy (iterate pause n d)"
    "\<And>k. k < n \<Longrightarrow> busy (iterate pause k d)"
proof -
  obtain n where "\<not> busy (iterate pause n d)" "\<And>k. k < n \<Longrightarrow> busy (iterate pause k d)"
    using wait_finite [OF assms] exists_least_iff [of "\<lambda>n. \<not> busy (iterate pause n d)"] by auto
  then show thesis using wait_reaches [of n d] assms that [of n] by simp
qed

lemma wait_keeps:
  assumes "wait d = Some r" "P d" "\<And>d. P d \<Longrightarrow> P (pause d)"
  shows "\<exists>d'. r = result d' \<and> P d' \<and> \<not> busy d'"
proof -
  have "P (iterate pause n d)" for n
    using assms(2, 3) by (induction n arbitrary: d) auto
  then show ?thesis using wait_SomeE [OF assms(1)] by metis
qed

end

end
