(* ===== verification/Atr.thy ===== *)
theory Atr
  imports Prelude
begin

text \<open>
  The answer to reset of an ISO 7816 card: \<^verbatim>\<open>src/smartcard/atr.c\<close> with the data types of
  \<^verbatim>\<open>atr.h\<close>. The parser \<open>ATR_InitFromArray\<close>, the printer \<open>ATR_GetRaw\<close> and every
  accessor are modelled.

  The \<^verbatim>\<open>unsigned\<close> counters of the code (\<^verbatim>\<open>pointer\<close>, \<^verbatim>\<open>pn\<close>, \<^verbatim>\<open>length\<close>) are natural
  numbers: none of them passes \<open>33 + 15\<close>, so nothing wraps. The interface bytes are the code's
  two-dimensional array, a list of seven rows of four entries whose accesses are checked, so that
  a write past the last row is the outcome \<open>None\<close>.
\<close>

section \<open>Data\<close>

datatype ATR_result = ATR_OK | ATR_NOT_FOUND | ATR_MALFORMED | ATR_IO_ERROR

abbreviation (input) ATR_MAX_SIZE :: nat where "ATR_MAX_SIZE \<equiv> 33"
abbreviation (input) ATR_MAX_HISTORICAL :: nat where "ATR_MAX_HISTORICAL \<equiv> 15"
abbreviation (input) ATR_MAX_PROTOCOLS :: nat where "ATR_MAX_PROTOCOLS \<equiv> 7"
abbreviation (input) ATR_MAX_IB :: nat where "ATR_MAX_IB \<equiv> 4"
abbreviation (input) ATR_CONVENTION_DIRECT :: nat where "ATR_CONVENTION_DIRECT \<equiv> 0"
abbreviation (input) ATR_CONVENTION_INVERSE :: nat where "ATR_CONVENTION_INVERSE \<equiv> 1"
abbreviation (input) ATR_PROTOCOL_TYPE_T0 :: u8 where "ATR_PROTOCOL_TYPE_T0 \<equiv> 0"
abbreviation (input) ATR_INTERFACE_BYTE_TA :: nat where "ATR_INTERFACE_BYTE_TA \<equiv> 0"
abbreviation (input) ATR_INTERFACE_BYTE_TB :: nat where "ATR_INTERFACE_BYTE_TB \<equiv> 1"
abbreviation (input) ATR_INTERFACE_BYTE_TC :: nat where "ATR_INTERFACE_BYTE_TC \<equiv> 2"
abbreviation (input) ATR_INTERFACE_BYTE_TD :: nat where "ATR_INTERFACE_BYTE_TD \<equiv> 3"
abbreviation (input) ATR_PARAMETER_F :: nat where "ATR_PARAMETER_F \<equiv> 0"
abbreviation (input) ATR_PARAMETER_D :: nat where "ATR_PARAMETER_D \<equiv> 1"
abbreviation (input) ATR_PARAMETER_I :: nat where "ATR_PARAMETER_I \<equiv> 2"
abbreviation (input) ATR_PARAMETER_P :: nat where "ATR_PARAMETER_P \<equiv> 3"
abbreviation (input) ATR_PARAMETER_N :: nat where "ATR_PARAMETER_N \<equiv> 4"
abbreviation (input) ATR_INTEGER_VALUE_FI :: nat where "ATR_INTEGER_VALUE_FI \<equiv> 0"
abbreviation (input) ATR_INTEGER_VALUE_DI :: nat where "ATR_INTEGER_VALUE_DI \<equiv> 1"
abbreviation (input) ATR_INTEGER_VALUE_II :: nat where "ATR_INTEGER_VALUE_II \<equiv> 2"
abbreviation (input) ATR_INTEGER_VALUE_PI1 :: nat where "ATR_INTEGER_VALUE_PI1 \<equiv> 3"
abbreviation (input) ATR_INTEGER_VALUE_N :: nat where "ATR_INTEGER_VALUE_N \<equiv> 4"
abbreviation (input) ATR_INTEGER_VALUE_PI2 :: nat where "ATR_INTEGER_VALUE_PI2 \<equiv> 5"
abbreviation (input) ATR_DEFAULT_F :: u32 where "ATR_DEFAULT_F \<equiv> 372"
abbreviation (input) ATR_DEFAULT_D :: u32 where "ATR_DEFAULT_D \<equiv> 1000000"
abbreviation (input) ATR_DEFAULT_I :: u32 where "ATR_DEFAULT_I \<equiv> 50"
abbreviation (input) ATR_DEFAULT_N :: u32 where "ATR_DEFAULT_N \<equiv> 0"
abbreviation (input) ATR_DEFAULT_P :: u32 where "ATR_DEFAULT_P \<equiv> 5"

record ib_entry =
  ib_value :: u8
  ib_present :: bool

record ATR =
  atr_length :: nat
  atr_TS :: u8
  atr_T0 :: u8
  atr_ib :: "ib_entry list list"
  atr_TCK :: ib_entry
  atr_pn :: nat
  atr_hb :: "u8 list"
  atr_hbn :: nat

text \<open>The arrays of the struct have their declared sizes.\<close>

definition wf_ATR :: "ATR \<Rightarrow> bool" where
  "wf_ATR a \<longleftrightarrow> length (atr_ib a) = ATR_MAX_PROTOCOLS \<and>
     (\<forall>row \<in> set (atr_ib a). length row = ATR_MAX_IB) \<and> length (atr_hb a) = ATR_MAX_HISTORICAL"

definition zero_ATR :: ATR where
  "zero_ATR = \<lparr>atr_length = 0, atr_TS = 0, atr_T0 = 0,
     atr_ib = replicate ATR_MAX_PROTOCOLS (replicate ATR_MAX_IB \<lparr>ib_value = 0, ib_present = False\<rparr>),
     atr_TCK = \<lparr>ib_value = 0, ib_present = False\<rparr>, atr_pn = 0,
     atr_hb = replicate ATR_MAX_HISTORICAL 0, atr_hbn = 0\<rparr>"

definition atr_fs_table :: "u32 list" where
  "atr_fs_table = [3570000, 5000000, 6000000, 8000000, 12000000, 16000000, 20000000, 0,
                   0, 5000000, 7500000, 10000000, 15000000, 20000000, 0, 0]"

definition atr_num_ib_table :: "nat list" where
  "atr_num_ib_table = [0, 1, 1, 2, 1, 2, 2, 3, 1, 2, 2, 3, 2, 3, 3, 4]"

definition atr_f_table :: "u32 list" where
  "atr_f_table = [372, 372, 558, 744, 1116, 1488, 1860, 0, 0, 512, 768, 1024, 1536, 2048, 0, 0]"

definition atr_d_table :: "u32 list" where
  "atr_d_table = [0, 1000000, 2000000, 4000000, 8000000, 16000000, 32000000, 64000000,
                  12000000, 20000000, 500000, 250000, 125000, 62500, 31250, 15625]"

definition atr_i_table :: "u32 list" where
  "atr_i_table = [25, 50, 100, 0]"

definition INVERT_BYTE :: "u8 \<Rightarrow> u8" where
  "INVERT_BYTE a =
     ((push_bit 7 a AND 0x80) OR (push_bit 5 a AND 0x40) OR
      (push_bit 3 a AND 0x20) OR (push_bit 1 a AND 0x10) OR
      (drop_bit 1 a AND 0x08) OR (drop_bit 3 a AND 0x04) OR
      (drop_bit 5 a AND 0x02) OR (drop_bit 7 a AND 0x01))"

definition GetClockRate :: "u32 \<Rightarrow> u32" where
  "GetClockRate mhz =
     (if mhz = 357 \<or> mhz = 358 then 372 * 9600
      else if mhz = 368 then 384 * 9600
      else mhz * 10000)"

section \<open>Parsing: ATR_InitFromArray\<close>

definition get_ib :: "ATR \<Rightarrow> nat \<Rightarrow> nat \<Rightarrow> ib_entry option" where
  "get_ib a i c = do { row \<leftarrow> arr_get (atr_ib a) i; arr_get row c }"

definition set_ib :: "ATR \<Rightarrow> nat \<Rightarrow> nat \<Rightarrow> ib_entry \<Rightarrow> ATR option" where
  "set_ib a i c e = do {
     row \<leftarrow> arr_get (atr_ib a) i;
     row' \<leftarrow> arr_set row c e;
     rows \<leftarrow> arr_set (atr_ib a) i row';
     Some (a\<lparr>atr_ib := rows\<rparr>) }"

text \<open>
  One of the four blocks of the loop: the byte at position \<open>c\<close> of row \<open>i\<close> is present when its
  bit is set in the format byte \<open>TDi\<close>, written \<^verbatim>\<open>(TDi | mask) == 0xFF\<close> in the code.
\<close>

definition read_ib ::
  "u8 list \<Rightarrow> u8 \<Rightarrow> nat \<Rightarrow> nat \<Rightarrow> u8 \<Rightarrow> ATR \<times> nat \<Rightarrow> (ATR \<times> nat) option" where
  "read_ib buffer TDi i c msk = (\<lambda>(a, pointer).
     if TDi OR msk = 0xFF
     then do {
       v \<leftarrow> arr_get buffer (pointer + 1);
       a' \<leftarrow> set_ib a i c \<lparr>ib_value = v, ib_present = True\<rparr>;
       Some (a', pointer + 1) }
     else do {
       e \<leftarrow> get_ib a i c;
       a' \<leftarrow> set_ib a i c (e\<lparr>ib_present := False\<rparr>);
       Some (a', pointer) })"

text \<open>The number of interface bytes a format byte announces.\<close>

definition num_ib :: "u8 \<Rightarrow> nat" where
  "num_ib TDi = atr_num_ib_table ! unat (drop_bit 4 (0xF0 AND TDi))"

text \<open>The four blocks of one round of the loop, for TA, TB, TC and TD of row \<open>i\<close>.\<close>

definition read_row :: "u8 list \<Rightarrow> u8 \<Rightarrow> nat \<Rightarrow> ATR \<times> nat \<Rightarrow> (ATR \<times> nat) option" where
  "read_row buffer TDi i s = do {
     s1 \<leftarrow> read_ib buffer TDi i ATR_INTERFACE_BYTE_TA 0xEF s;
     s2 \<leftarrow> read_ib buffer TDi i ATR_INTERFACE_BYTE_TB 0xDF s1;
     s3 \<leftarrow> read_ib buffer TDi i ATR_INTERFACE_BYTE_TC 0xBF s2;
     read_ib buffer TDi i ATR_INTERFACE_BYTE_TD 0x7F s3 }"

text \<open>
  The loop over the interface bytes. \<open>Inl\<close> is the early \<^verbatim>\<open>return (ATR_MALFORMED)\<close>, with the
  struct as far as it was filled; \<open>Inr\<close> is the state in which the loop is left.
\<close>

function atr_ib_loop ::
  "u8 list \<Rightarrow> nat \<Rightarrow> u8 \<Rightarrow> ATR \<Rightarrow> nat \<Rightarrow> nat \<Rightarrow> (ATR + ATR \<times> nat \<times> nat) option" where
  "atr_ib_loop buffer len TDi a pointer i =
     (if \<not> pointer < len then Some (Inr (a, pointer, i))
      else if pointer + num_ib TDi \<ge> len
      then Some (Inl a)
      else do {
        (a1, p1) \<leftarrow> read_row buffer TDi i (a, pointer);
        if TDi OR 0x7F = 0xFF
        then do {
          TDi' \<leftarrow> arr_get buffer p1;
          let a2 = a1\<lparr>atr_TCK := (atr_TCK a1)\<lparr>ib_present := TDi' AND 0x0F \<noteq> ATR_PROTOCOL_TYPE_T0\<rparr>\<rparr>;
          if i \<ge> ATR_MAX_PROTOCOLS then Some (Inl a2)
          else atr_ib_loop buffer len TDi' a2 p1 (i + 1) }
        else Some (Inr (a1, p1, i)) })"
  by pat_completeness auto
termination
  by (relation "measure (\<lambda>(buffer, len, TDi, a, pointer, i). ATR_MAX_PROTOCOLS - i)") auto

declare atr_ib_loop.simps [simp del]

text \<open>
  The local array \<^verbatim>\<open>buffer\<close>: \<open>len\<close> bytes of the argument, complemented and bit-reversed for a
  card with the inverse convention. Only these bytes are initialised, so the list ends there.
\<close>

definition atr_local_copy :: "u8 list \<Rightarrow> nat \<Rightarrow> u8 list option" where
  "atr_local_copy atr_buffer len = do {
     b0 \<leftarrow> arr_get atr_buffer 0;
     bytes \<leftarrow> arr_slice atr_buffer 0 len;
     if len > ATR_MAX_SIZE then None
     else Some (if b0 = 0x03 then map (\<lambda>b. NOT (INVERT_BYTE b)) bytes else bytes) }"

text \<open>
  After the loop: the historical bytes, the check byte and the length. \<open>Inl\<close> is again the early
  \<^verbatim>\<open>return (ATR_MALFORMED)\<close>.
\<close>

definition atr_tail :: "u8 list \<Rightarrow> nat \<Rightarrow> ATR \<Rightarrow> nat \<Rightarrow> (ATR + ATR) option" where
  "atr_tail buffer len a pointer =
     (if pointer + atr_hbn a \<ge> len then Some (Inl a)
      else do {
        hb' \<leftarrow> arr_copy (atr_hb a) 0 buffer (pointer + 1) (atr_hbn a);
        let a1 = a\<lparr>atr_hb := hb'\<rparr>;
        let p1 = pointer + atr_hbn a;
        if ib_present (atr_TCK a1)
        then if p1 + 1 \<ge> len then Some (Inl a1)
          else do {
            v \<leftarrow> arr_get buffer (p1 + 1);
            Some (Inr (a1\<lparr>atr_TCK := (atr_TCK a1)\<lparr>ib_value := v\<rparr>, atr_length := p1 + 2\<rparr>)) }
        else Some (Inr (a1\<lparr>atr_length := p1 + 1\<rparr>)) })"

text \<open>The last two checks, made for an ATR with a single row of interface bytes.\<close>

definition atr_check_first :: "ATR \<Rightarrow> nat \<Rightarrow> ATR_result option" where
  "atr_check_first a i =
     (if atr_pn a = 1
      then do {
        ta \<leftarrow> get_ib a i ATR_INTERFACE_BYTE_TA;
        fs \<leftarrow> arr_get atr_fs_table (unat (drop_bit 4 (ib_value ta AND 0xF0)));
        if ib_present ta \<and> fs = 0 then Some ATR_MALFORMED
        else do {
          tb \<leftarrow> get_ib a i ATR_INTERFACE_BYTE_TB;
          Some (if ib_present tb \<and> ib_value tb > 0x80 then ATR_MALFORMED else ATR_OK) } }
      else Some ATR_OK)"

definition ATR_InitFromArray :: "ATR \<Rightarrow> u8 list \<Rightarrow> nat \<Rightarrow> (ATR_result \<times> ATR) option" where
  "ATR_InitFromArray a0 atr_buffer len =
     (if len < 2 then Some (ATR_MALFORMED, a0)
      else do {
        buffer \<leftarrow> atr_local_copy atr_buffer len;
        ts \<leftarrow> arr_get buffer 0;
        TDi \<leftarrow> arr_get buffer 1;
        loop \<leftarrow> atr_ib_loop buffer len TDi
          (a0\<lparr>atr_TS := ts, atr_T0 := TDi, atr_hbn := unat (TDi AND 0x0F),
              atr_TCK := (atr_TCK a0)\<lparr>ib_present := False\<rparr>\<rparr>) 1 0;
        case loop of
          Inl a \<Rightarrow> Some (ATR_MALFORMED, a)
        | Inr (a2, pointer, i) \<Rightarrow> do {
            tail \<leftarrow> atr_tail buffer len (a2\<lparr>atr_pn := Suc i\<rparr>) pointer;
            case tail of
              Inl a \<Rightarrow> Some (ATR_MALFORMED, a)
            | Inr a3 \<Rightarrow> do { rc \<leftarrow> atr_check_first a3 i; Some (rc, a3) } } })"

section \<open>Accessors\<close>

text \<open>
  An accessor with an output argument returns the error code (\<open>Inl\<close>) or, with \<open>ATR_OK\<close>, the
  value it stores through the pointer (\<open>Inr\<close>).
\<close>

definition ATR_GetConvention :: "ATR \<Rightarrow> ATR_result + nat" where
  "ATR_GetConvention a =
     (if atr_TS a = 0x3B then Inr ATR_CONVENTION_DIRECT
      else if atr_TS a = 0x3F then Inr ATR_CONVENTION_INVERSE
      else Inl ATR_MALFORMED)"

definition ATR_GetSize :: "ATR \<Rightarrow> ATR_result + nat" where
  "ATR_GetSize a = Inr (atr_length a)"

definition ATR_GetNumberOfProtocols :: "ATR \<Rightarrow> ATR_result + nat" where
  "ATR_GetNumberOfProtocols a = Inr (atr_pn a)"

definition ATR_GetProtocolType :: "ATR \<Rightarrow> nat \<Rightarrow> (ATR_result + u8) option" where
  "ATR_GetProtocolType a number_protocol =
     (if number_protocol > atr_pn a \<or> number_protocol < 2 then Some (Inl ATR_NOT_FOUND)
      else do {
        td \<leftarrow> get_ib a (number_protocol - 2) ATR_INTERFACE_BYTE_TD;
        Some (Inr (if ib_present td then ib_value td AND 0x0F else ATR_PROTOCOL_TYPE_T0)) })"

definition ATR_GetInterfaceByte :: "ATR \<Rightarrow> nat \<Rightarrow> nat \<Rightarrow> (ATR_result + u8) option" where
  "ATR_GetInterfaceByte a number character =
     (if number > atr_pn a \<or> number < 1 then Some (Inl ATR_NOT_FOUND)
      else do {
        e \<leftarrow> get_ib a (number - 1) character;
        Some (if ib_present e \<and>
                 (character = ATR_INTERFACE_BYTE_TA \<or> character = ATR_INTERFACE_BYTE_TB \<or>
                  character = ATR_INTERFACE_BYTE_TC \<or> character = ATR_INTERFACE_BYTE_TD)
              then Inr (ib_value e) else Inl ATR_NOT_FOUND) })"

definition ib_field :: "ATR \<Rightarrow> nat \<Rightarrow> nat \<Rightarrow> (u8 \<Rightarrow> u8) \<Rightarrow> (ATR_result + u8) option" where
  "ib_field a i c f = do {
     e \<leftarrow> get_ib a i c;
     Some (if ib_present e then Inr (f (ib_value e)) else Inl ATR_NOT_FOUND) }"

definition ATR_GetIntegerValue :: "ATR \<Rightarrow> nat \<Rightarrow> (ATR_result + u8) option" where
  "ATR_GetIntegerValue a name =
     (if name = ATR_INTEGER_VALUE_FI
      then ib_field a 0 ATR_INTERFACE_BYTE_TA (\<lambda>v. drop_bit 4 (v AND 0xF0))
      else if name = ATR_INTEGER_VALUE_DI
      then ib_field a 0 ATR_INTERFACE_BYTE_TA (\<lambda>v. v AND 0x0F)
      else if name = ATR_INTEGER_VALUE_II
      then ib_field a 0 ATR_INTERFACE_BYTE_TB (\<lambda>v. drop_bit 5 (v AND 0x60))
      else if name = ATR_INTEGER_VALUE_PI1
      then ib_field a 0 ATR_INTERFACE_BYTE_TB (\<lambda>v. v AND 0x1F)
      else if name = ATR_INTEGER_VALUE_PI2
      then ib_field a 1 ATR_INTERFACE_BYTE_TB (\<lambda>v. v)
      else if name = ATR_INTEGER_VALUE_N
      then ib_field a 0 ATR_INTERFACE_BYTE_TC (\<lambda>v. v)
      else Some (Inl ATR_NOT_FOUND))"

definition ATR_GetParameter :: "ATR \<Rightarrow> nat \<Rightarrow> (ATR_result + u32) option" where
  "ATR_GetParameter a name =
     (if name = ATR_PARAMETER_F
      then do { r \<leftarrow> ATR_GetIntegerValue a ATR_INTEGER_VALUE_FI;
        (case r of
          Inr FI \<Rightarrow> do { v \<leftarrow> arr_get atr_f_table (unat FI); Some (Inr v) }
        | Inl _ \<Rightarrow> Some (Inr ATR_DEFAULT_F)) }
      else if name = ATR_PARAMETER_D
      then do { r \<leftarrow> ATR_GetIntegerValue a ATR_INTEGER_VALUE_DI;
        (case r of
          Inr DI \<Rightarrow> do { v \<leftarrow> arr_get atr_d_table (unat DI); Some (Inr v) }
        | Inl _ \<Rightarrow> Some (Inr ATR_DEFAULT_D)) }
      else if name = ATR_PARAMETER_I
      then do { r \<leftarrow> ATR_GetIntegerValue a ATR_INTEGER_VALUE_II;
        (case r of
          Inr II \<Rightarrow> do { v \<leftarrow> arr_get atr_i_table (unat II); Some (Inr v) }
        | Inl _ \<Rightarrow> Some (Inr ATR_DEFAULT_I)) }
      else if name = ATR_PARAMETER_P
      then do { r2 \<leftarrow> ATR_GetIntegerValue a ATR_INTEGER_VALUE_PI2;
        (case r2 of
          Inr PI2 \<Rightarrow> Some (Inr (ucast PI2))
        | Inl _ \<Rightarrow> do { r1 \<leftarrow> ATR_GetIntegerValue a ATR_INTEGER_VALUE_PI1;
            Some (case r1 of Inr PI1 \<Rightarrow> Inr (ucast PI1) | Inl _ \<Rightarrow> Inr ATR_DEFAULT_P) }) }
      else if name = ATR_PARAMETER_N
      then do { r \<leftarrow> ATR_GetIntegerValue a ATR_INTEGER_VALUE_N;
        Some (case r of Inr N \<Rightarrow> Inr (ucast N) | Inl _ \<Rightarrow> Inr ATR_DEFAULT_N) }
      else Some (Inl ATR_NOT_FOUND))"

text \<open>
  \<^verbatim>\<open>GetParameterD\<close> and \<^verbatim>\<open>GetParameterF\<close> keep the value in a static variable and return it, so
  an error would return the value of the previous call; \<open>prev\<close> is that variable.
\<close>

definition GetParameterD :: "ATR \<Rightarrow> u32 \<Rightarrow> u32 option" where
  "GetParameterD a prev = do {
     r \<leftarrow> ATR_GetParameter a ATR_INTEGER_VALUE_DI;
     Some (case r of Inr v \<Rightarrow> v | Inl _ \<Rightarrow> prev) }"

definition GetParameterF :: "ATR \<Rightarrow> u32 \<Rightarrow> u32 option" where
  "GetParameterF a prev = do {
     r \<leftarrow> ATR_GetParameter a ATR_INTEGER_VALUE_FI;
     Some (case r of Inr v \<Rightarrow> v | Inl _ \<Rightarrow> prev) }"

definition ATR_GetHistoricalBytes :: "ATR \<Rightarrow> u8 list \<Rightarrow> (ATR_result + u8 list \<times> nat) option" where
  "ATR_GetHistoricalBytes a hist =
     (if atr_hbn a = 0 then Some (Inl ATR_NOT_FOUND)
      else do { h \<leftarrow> arr_copy hist 0 (atr_hb a) 0 (atr_hbn a); Some (Inr (h, atr_hbn a)) })"

definition ATR_GetCheckByte :: "ATR \<Rightarrow> ATR_result + u8" where
  "ATR_GetCheckByte a =
     (if \<not> ib_present (atr_TCK a) then Inl ATR_NOT_FOUND else Inr (ib_value (atr_TCK a)))"

definition ATR_GetFsMax :: "ATR \<Rightarrow> (ATR_result + u32) option" where
  "ATR_GetFsMax a = do {
     r \<leftarrow> ATR_GetIntegerValue a ATR_INTEGER_VALUE_FI;
     (case r of
       Inr FI \<Rightarrow> do { v \<leftarrow> arr_get atr_fs_table (unat FI); Some (Inr v) }
     | Inl _ \<Rightarrow> Some (Inr (atr_fs_table ! 1))) }"

section \<open>Printing: ATR_GetRaw\<close>

definition raw_put_ib :: "ATR \<Rightarrow> nat \<Rightarrow> nat \<Rightarrow> u8 list \<times> nat \<Rightarrow> (u8 list \<times> nat) option" where
  "raw_put_ib a i c = (\<lambda>(buffer, j). do {
     e \<leftarrow> get_ib a i c;
     if ib_present e
     then do { b \<leftarrow> arr_set buffer j (ib_value e); Some (b, j + 1) }
     else Some (buffer, j) })"

fun raw_ib_loop :: "ATR \<Rightarrow> nat \<Rightarrow> nat \<Rightarrow> u8 list \<times> nat \<Rightarrow> (u8 list \<times> nat) option" where
  "raw_ib_loop a i 0 s = Some s"
| "raw_ib_loop a i (Suc n) s = do {
     s1 \<leftarrow> raw_put_ib a i ATR_INTERFACE_BYTE_TA s;
     s2 \<leftarrow> raw_put_ib a i ATR_INTERFACE_BYTE_TB s1;
     s3 \<leftarrow> raw_put_ib a i ATR_INTERFACE_BYTE_TC s2;
     s4 \<leftarrow> raw_put_ib a i ATR_INTERFACE_BYTE_TD s3;
     raw_ib_loop a (Suc i) n s4 }"

definition ATR_GetRaw :: "ATR \<Rightarrow> u8 list \<Rightarrow> (u8 list \<times> nat) option" where
  "ATR_GetRaw a buffer0 = do {
     b1 \<leftarrow> arr_set buffer0 0 (atr_TS a);
     b2 \<leftarrow> arr_set b1 1 (atr_T0 a);
     (b3, j3) \<leftarrow> raw_ib_loop a 0 (atr_pn a) (b2, 2);
     (b4, j4) \<leftarrow> (if atr_hbn a > 0
                  then do { b \<leftarrow> arr_copy b3 j3 (atr_hb a) 0 (atr_hbn a); Some (b, j3 + atr_hbn a) }
                  else Some (b3, j3));
     if ib_present (atr_TCK a)
     then do { b5 \<leftarrow> arr_set b4 j4 (ib_value (atr_TCK a)); Some (b5, j4 + 1) }
     else Some (b4, j4) }"

section \<open>The inverse convention\<close>

lemma bit_INVERT_BYTE: "n < 8 \<Longrightarrow> bit (INVERT_BYTE b) n = bit b (7 - n)"
proof -
  assume "n < 8"
  then consider "n = 0" | "n = 1" | "n = 2" | "n = 3" | "n = 4" | "n = 5" | "n = 6" | "n = 7" by linarith
  then show ?thesis by cases (simp_all add: INVERT_BYTE_def bit_simps bit_double_iff [unfolded mult.commute [of 2]])
qed

interpretation inverse_code: line_code "\<lambda>b. NOT (INVERT_BYTE b)"
  by unfold_locales (rule bit_word_eqI, simp add: bit_not_iff bit_INVERT_BYTE less_imp_diff_less)

section \<open>The bytes of a parsed ATR\<close>

text \<open>\<open>raw_bytes\<close> is the byte string a struct stands for, in the order of ISO 7816-3.\<close>

definition ib_bytes :: "ib_entry list \<Rightarrow> u8 list" where
  "ib_bytes row = map ib_value (filter ib_present row)"

definition raw_bytes :: "ATR \<Rightarrow> u8 list" where
  "raw_bytes a = [atr_TS a, atr_T0 a] @ concat (map ib_bytes (take (atr_pn a) (atr_ib a))) @
     take (atr_hbn a) (atr_hb a) @
     (if ib_present (atr_TCK a) then [ib_value (atr_TCK a)] else [])"

section \<open>One row of interface bytes\<close>

lemma num_ib_bits:
  "num_ib T = of_bool (T OR 0xEF = 0xFF) + of_bool (T OR 0xDF = 0xFF) +
     of_bool (T OR 0xBF = 0xFF) + of_bool (T OR 0x7F = 0xFF)"
proof -
  have "\<forall>T. num_ib T = of_bool (T OR 0xEF = 0xFF) + of_bool (T OR 0xDF = 0xFF) +
     of_bool (T OR 0xBF = 0xFF) + of_bool (T OR 0x7F = 0xFF)"
    by (subst u8_cases_upt) code_simp
  then show ?thesis by blast
qed

lemma wf_ATR_row: "wf_ATR a \<Longrightarrow> i < 7 \<Longrightarrow> length (atr_ib a ! i) = 4"
  by (simp add: wf_ATR_def)

lemma get_ib_wf: "wf_ATR a \<Longrightarrow> c < 4 \<Longrightarrow> get_ib a i c = (if i < 7 then Some (atr_ib a ! i ! c) else None)"
  by (auto simp: get_ib_def wf_ATR_row arr_get_def wf_ATR_def)

lemma set_ib_wf: "wf_ATR a \<Longrightarrow> c < 4 \<Longrightarrow>
    set_ib a i c e = (if i < 7 then Some (a\<lparr>atr_ib := (atr_ib a)[i := (atr_ib a ! i)[c := e]]\<rparr>) else None)"
  by (auto simp: set_ib_def wf_ATR_row arr_get_def arr_set_def wf_ATR_def)

lemma wf_ATR_update_row: "wf_ATR a \<Longrightarrow> length row = 4 \<Longrightarrow> wf_ATR (a\<lparr>atr_ib := (atr_ib a)[i := row]\<rparr>)"
  by (auto simp: wf_ATR_def dest!: set_update_subset_insert [THEN subsetD])

lemma wf_ATR_simps [simp]:
  "wf_ATR (a\<lparr>atr_TCK := x\<rparr>) = wf_ATR a" "wf_ATR (a\<lparr>atr_pn := m\<rparr>) = wf_ATR a"
  "wf_ATR (a\<lparr>atr_TS := v\<rparr>) = wf_ATR a" "wf_ATR (a\<lparr>atr_T0 := v\<rparr>) = wf_ATR a"
  "wf_ATR (a\<lparr>atr_hbn := m\<rparr>) = wf_ATR a" "wf_ATR (a\<lparr>atr_length := m\<rparr>) = wf_ATR a"
  by (simp_all add: wf_ATR_def)

lemma length_atr_tables [simp]:
  "length atr_fs_table = 16" "length atr_f_table = 16" "length atr_d_table = 16" "length atr_i_table = 4"
  by (simp_all add: atr_fs_table_def atr_f_table_def atr_d_table_def atr_i_table_def)

text \<open>The entry and the row that one round of the loop leaves behind.\<close>

definition ib_read :: "u8 list \<Rightarrow> u8 \<Rightarrow> u8 \<Rightarrow> nat \<Rightarrow> ib_entry \<Rightarrow> ib_entry" where
  "ib_read buffer T msk p e =
     (if T OR msk = 0xFF then \<lparr>ib_value = buffer ! (p + 1), ib_present = True\<rparr>
      else e\<lparr>ib_present := False\<rparr>)"

lemma read_ib_wf:
  assumes "wf_ATR a" "c < 4"
  shows "read_ib buffer T i c msk (a, p) =
    (if i < 7 \<and> (T OR msk = 0xFF \<longrightarrow> p + 1 < length buffer)
     then Some (a\<lparr>atr_ib := (atr_ib a)[i := (atr_ib a ! i)[c := ib_read buffer T msk p (atr_ib a ! i ! c)]]\<rparr>,
                p + of_bool (T OR msk = 0xFF))
     else None)"
  using assms by (auto simp: read_ib_def get_ib_wf set_ib_wf arr_get_def ib_read_def)

definition new_row :: "u8 list \<Rightarrow> u8 \<Rightarrow> nat \<Rightarrow> ib_entry list \<Rightarrow> ib_entry list" where
  "new_row buffer T p row =
    (let p1 = p + of_bool (T OR 0xEF = 0xFF); p2 = p1 + of_bool (T OR 0xDF = 0xFF);
         p3 = p2 + of_bool (T OR 0xBF = 0xFF) in
     [ib_read buffer T 0xEF p (row ! 0), ib_read buffer T 0xDF p1 (row ! 1),
      ib_read buffer T 0xBF p2 (row ! 2), ib_read buffer T 0x7F p3 (row ! 3)])"

lemma length_new_row [simp]: "length (new_row buffer T p row) = 4"
  by (simp add: new_row_def Let_def)

lemma list4: "length row = 4 \<Longrightarrow> row = [row ! 0, row ! 1, row ! 2, row ! 3]"
  by (cases row rule: list.exhaust) (auto simp: length_Suc_conv numeral_eq_Suc)

lemma list4_updates:
  assumes "length row = 4" shows "row[0 := a, Suc 0 := b, 2 := c, 3 := d] = [a, b, c, d]"
  by (subst list4 [OF assms]) (simp add: numeral_eq_Suc)

lemma read_row_wf:
  assumes wf: "wf_ATR a" and p: "p + num_ib T < length buffer"
  shows "read_row buffer T i (a, p) =
    (if i < 7 then Some (a\<lparr>atr_ib := (atr_ib a)[i := new_row buffer T p (atr_ib a ! i)]\<rparr>, p + num_ib T)
     else None)"
proof (cases "i < 7")
  case True
  have len: "length (atr_ib a) = 7" using wf by (simp add: wf_ATR_def)
  show ?thesis using True p
    by (auto simp: read_row_def read_ib_wf wf wf_ATR_update_row wf_ATR_row len num_ib_bits
        list4_updates new_row_def Let_def)
qed (simp add: read_row_def read_ib_wf wf)

lemma ib_bytes_new_row:
  assumes "p + num_ib T < length buffer"
  shows "ib_bytes (new_row buffer T p row) = take (num_ib T) (drop (p + 1) buffer)"
  using assms by (auto simp: ib_bytes_def new_row_def Let_def num_ib_bits ib_read_def take_drop_nth_Cons)

lemma atr_ib_loop_wf:
  assumes "wf_ATR a" "len \<le> length buffer" "p < len"
  shows "atr_ib_loop buffer len T a p i =
    (if p + num_ib T \<ge> len then Some (Inl a)
     else if i \<ge> 7 then None
     else let a1 = a\<lparr>atr_ib := (atr_ib a)[i := new_row buffer T p (atr_ib a ! i)]\<rparr>; p1 = p + num_ib T in
       if T OR 0x7F = 0xFF
       then atr_ib_loop buffer len (buffer ! p1)
         (a1\<lparr>atr_TCK := (atr_TCK a1)\<lparr>ib_present := buffer ! p1 AND 0x0F \<noteq> 0\<rparr>\<rparr>) p1 (i + 1)
       else Some (Inr (a1, p1, i)))"
  using assms
  by (subst atr_ib_loop.simps) (simp add: read_row_wf Let_def arr_get_def)


section \<open>The loop\<close>

definition same_head :: "ATR \<Rightarrow> ATR \<Rightarrow> bool" where
  "same_head a b \<longleftrightarrow> atr_TS a = atr_TS b \<and> atr_T0 a = atr_T0 b \<and> atr_hb a = atr_hb b \<and>
     atr_hbn a = atr_hbn b \<and> atr_pn a = atr_pn b \<and> atr_length a = atr_length b"

lemma atr_ib_loop_Inr:
  assumes "atr_ib_loop buffer len T a p i = Some (Inr (a', p', i'))"
    and "wf_ATR a" "len \<le> length buffer" "p < len"
  shows "wf_ATR a' \<and> same_head a' a \<and> i \<le> i' \<and> i' < 7 \<and> p \<le> p' \<and> p' < len \<and>
    take i (atr_ib a') = take i (atr_ib a) \<and>
    concat (map ib_bytes (drop i (take (Suc i') (atr_ib a')))) = take (p' - p) (drop (p + 1) buffer)"
  using assms
proof (induction "7 - i" arbitrary: T a p i rule: less_induct)
  case less
  let ?row = "new_row buffer T p (atr_ib a ! i)"
  let ?a1 = "a\<lparr>atr_ib := (atr_ib a)[i := ?row]\<rparr>" and ?p1 = "p + num_ib T"
  have step: "\<not> ?p1 \<ge> len" "i < 7" using less.prems
    by (auto simp: atr_ib_loop_wf split: if_splits)
  have row: "ib_bytes ?row = take (num_ib T) (drop (p + 1) buffer)"
    using step less.prems by (simp add: ib_bytes_new_row)
  have len: "length (atr_ib a) = 7" using less.prems by (simp add: wf_ATR_def)
  show ?case
  proof (cases "T OR 0x7F = 0xFF")
    case False
    with less.prems step have "a' = ?a1" "p' = ?p1" "i' = i"
      by (auto simp: atr_ib_loop_wf Let_def)
    then show ?thesis using step less.prems row len
      by (simp add: wf_ATR_update_row same_head_def take_Suc_conv_app_nth)
  next
    case True
    let ?a2 = "?a1\<lparr>atr_TCK := (atr_TCK ?a1)\<lparr>ib_present := buffer ! ?p1 AND 0x0F \<noteq> 0\<rparr>\<rparr>"
    have wf2: "wf_ATR ?a2" using less.prems(2) by (simp add: wf_ATR_update_row)
    have rec: "atr_ib_loop buffer len (buffer ! ?p1) ?a2 ?p1 (i + 1) = Some (Inr (a', p', i'))"
      using less.prems step True by (simp add: atr_ib_loop_wf Let_def)
    have IH: "wf_ATR a' \<and> same_head a' ?a2 \<and> i + 1 \<le> i' \<and> i' < 7 \<and> ?p1 \<le> p' \<and> p' < len \<and>
      take (i + 1) (atr_ib a') = take (i + 1) (atr_ib ?a2) \<and>
      concat (map ib_bytes (drop (i + 1) (take (Suc i') (atr_ib a')))) = take (p' - ?p1) (drop (?p1 + 1) buffer)"
      by (rule less.hyps [OF _ rec wf2]) (use step less.prems in auto)
    have ri: "atr_ib a' ! i = ?row"
    proof -
      have "atr_ib a' ! i = take (i + 1) (atr_ib a') ! i" by simp
      also have "\<dots> = take (i + 1) (atr_ib ?a2) ! i" using IH by simp
      also have "\<dots> = ?row" using step len by simp
      finally show ?thesis .
    qed
    have "drop i (take (Suc i') (atr_ib a')) = atr_ib a' ! i # drop (Suc i) (take (Suc i') (atr_ib a'))"
      using IH Cons_nth_drop_Suc [of i "take (Suc i') (atr_ib a')"] by (simp add: wf_ATR_def)
    moreover have "take (p' - p) (drop (p + 1) buffer) =
       take (num_ib T) (drop (p + 1) buffer) @ take (p' - ?p1) (drop (?p1 + 1) buffer)"
    proof -
      have "p' - p = num_ib T + (p' - ?p1)" using IH by simp
      then show ?thesis by (simp add: take_add drop_drop add.commute add.left_commute)
    qed
    moreover have "take i (atr_ib a') = take i (atr_ib a)"
    proof -
      have "take i (take (i + 1) (atr_ib a')) = take i (take (i + 1) (atr_ib ?a2))" using IH by simp
      then show ?thesis by simp
    qed
    ultimately show ?thesis using IH step row ri by (simp add: same_head_def)
  qed
qed


section \<open>Printing\<close>

text \<open>The output array of which a prefix \<open>out\<close> has been written.\<close>

definition written :: "u8 list \<Rightarrow> u8 list \<Rightarrow> u8 list \<times> nat" where
  "written buf out = (out @ drop (length out) buf, length out)"

lemma written_snoc:
  "length out < length buf \<Longrightarrow>
     written buf (out @ [v]) = ((out @ drop (length out) buf)[length out := v], length out + 1)"
  by (simp add: written_def list_update_append Cons_nth_drop_Suc [symmetric])

lemma raw_put_ib_written:
  assumes "wf_ATR a" "i < 7" "c < 4"
    and "length (out @ ib_bytes [atr_ib a ! i ! c]) \<le> length buf"
  shows "raw_put_ib a i c (written buf out) = Some (written buf (out @ ib_bytes [atr_ib a ! i ! c]))"
proof (cases "ib_present (atr_ib a ! i ! c)")
  case True
  then have "length out < length buf" using assms by (simp add: ib_bytes_def)
  with True assms show ?thesis
    by (simp add: ib_bytes_def written_snoc) (simp add: raw_put_ib_def written_def get_ib_wf arr_set_def)
next
  case False
  with assms show ?thesis by (simp add: ib_bytes_def raw_put_ib_def written_def get_ib_wf)
qed

lemma ib_bytes_row:
  assumes "length row = 4"
  shows "ib_bytes row = ib_bytes [row ! 0] @ ib_bytes [row ! 1] @ ib_bytes [row ! 2] @ ib_bytes [row ! 3]"
  by (subst list4 [OF assms]) (simp add: ib_bytes_def)

lemma raw_row:
  assumes wf: "wf_ATR a" and i: "i < 7" and len: "length (out @ ib_bytes (atr_ib a ! i)) \<le> length buf"
  shows "raw_ib_loop a i (Suc n) (written buf out) =
    raw_ib_loop a (Suc i) n (written buf (out @ ib_bytes (atr_ib a ! i)))"
  using len ib_bytes_row [OF wf_ATR_row [OF wf i]]
  by (simp add: raw_put_ib_written [OF wf i])

lemma raw_ib_loop_written:
  assumes "wf_ATR a" "i + n \<le> 7"
    and "length (out @ concat (map ib_bytes (take n (drop i (atr_ib a))))) \<le> length buf"
  shows "raw_ib_loop a i n (written buf out) =
    Some (written buf (out @ concat (map ib_bytes (take n (drop i (atr_ib a))))))"
  using assms
proof (induction n arbitrary: i out)
  case (Suc n)
  have split: "take (Suc n) (drop i (atr_ib a)) = atr_ib a ! i # take n (drop (Suc i) (atr_ib a))"
    using Suc.prems by (subst take_drop_nth_Cons) (auto simp: wf_ATR_def)
  have "raw_ib_loop a i (Suc n) (written buf out) =
    raw_ib_loop a (Suc i) n (written buf (out @ ib_bytes (atr_ib a ! i)))"
    using Suc.prems split by (intro raw_row) auto
  also have "\<dots> = Some (written buf ((out @ ib_bytes (atr_ib a ! i)) @
      concat (map ib_bytes (take n (drop (Suc i) (atr_ib a))))))"
    using Suc.prems split by (intro Suc.IH) auto
  finally show ?case using split by simp
qed simp


lemma ATR_GetRaw_bytes:
  assumes wf: "wf_ATR a" and pn: "atr_pn a \<le> 7" and hbn: "atr_hbn a \<le> 15"
    and len: "length (raw_bytes a) \<le> length buf"
  shows "ATR_GetRaw a buf = Some (written buf (raw_bytes a))"
proof -
  define ib where "ib = concat (map ib_bytes (take (atr_pn a) (atr_ib a)))"
  define o3 where "o3 = [atr_TS a, atr_T0 a] @ ib"
  define o4 where "o4 = o3 @ take (atr_hbn a) (atr_hb a)"
  have raw: "raw_bytes a = o4 @ (if ib_present (atr_TCK a) then [ib_value (atr_TCK a)] else [])"
    by (simp add: raw_bytes_def o4_def o3_def ib_def)
  have len4: "length o4 \<le> length buf" using len raw by simp
  have hb: "length (atr_hb a) = 15" using wf by (simp add: wf_ATR_def)
  obtain x y r where buf: "buf = x # y # r"
    using len raw o4_def o3_def by (cases buf; cases "tl buf") auto
  have b1: "arr_set buf 0 (atr_TS a) = Some (atr_TS a # y # r)"
    and b2: "arr_set (atr_TS a # y # r) 1 (atr_T0 a) = Some (atr_TS a # atr_T0 a # r)"
    by (simp_all add: arr_set_def buf)
  have loop: "raw_ib_loop a 0 (atr_pn a) (atr_TS a # atr_T0 a # r, 2) =
      Some (o3 @ drop (length o3) buf, length o3)"
    using raw_ib_loop_written [OF wf, of 0 "atr_pn a" "[atr_TS a, atr_T0 a]" buf] pn len4
    by (simp add: o3_def o4_def ib_def written_def buf numeral_2_eq_2)
  have hist: "(if 0 < atr_hbn a
      then arr_copy (o3 @ drop (length o3) buf) (length o3) (atr_hb a) 0 (atr_hbn a) \<bind>
        (\<lambda>b. Some (b, length o3 + atr_hbn a))
      else Some (o3 @ drop (length o3) buf, length o3)) = Some (o4 @ drop (length o4) buf, length o4)"
    using hbn len4 hb
    by (auto simp: arr_copy_def o4_def min_def drop_drop add.commute)
  have tck: "(if ib_present (atr_TCK a)
      then arr_set (o4 @ drop (length o4) buf) (length o4) (ib_value (atr_TCK a)) \<bind>
        (\<lambda>b5. Some (b5, length o4 + 1))
      else Some (o4 @ drop (length o4) buf, length o4)) = Some (written buf (raw_bytes a))"
    using len raw by (auto simp: written_snoc arr_set_def) (simp_all add: written_def)
  show ?thesis
    unfolding ATR_GetRaw_def b1 Option.bind.simps b2 loop prod.case hist tck ..
qed

section \<open>Round trip\<close>

lemma atr_local_copy_Some:
  "atr_local_copy buf n = Some buffer \<Longrightarrow> length buffer = n \<and> n \<le> 33 \<and> n \<le> length buf"
  by (auto simp: atr_local_copy_def Option.bind_eq_Some_conv arr_simps split: if_splits)

lemma atr_local_copy_eq:
  "0 < n \<Longrightarrow> n \<le> length buf \<Longrightarrow> atr_local_copy buf n =
     (if n \<le> 33 then Some (if buf ! 0 = 0x03 then map (\<lambda>b. NOT (INVERT_BYTE b)) (take n buf) else take n buf)
      else None)"
  by (cases buf) (auto simp: atr_local_copy_def arr_get_def arr_slice_def)

lemma unat_and_15: "unat (b AND 0x0F :: u8) \<le> 15"
  using unat_and_le [of b "0x0F"] by simp


lemma atr_tail_Inr:
  assumes tail: "atr_tail buffer len a p = Some (Inr a')" and wf: "wf_ATR a" and hbn: "atr_hbn a \<le> 15"
    and len: "len \<le> length buffer"
  shows "wf_ATR a' \<and> atr_pn a' = atr_pn a \<and> atr_hbn a' = atr_hbn a \<and> atr_ib a' = atr_ib a \<and>
    atr_TS a' = atr_TS a \<and> atr_T0 a' = atr_T0 a \<and> p < atr_length a' \<and> atr_length a' \<le> len \<and>
    take (atr_hbn a) (atr_hb a') @ (if ib_present (atr_TCK a') then [ib_value (atr_TCK a')] else []) =
      take (atr_length a' - (p + 1)) (drop (p + 1) buffer)"
proof -
  have hb: "length (atr_hb a) = 15" using wf by (simp add: wf_ATR_def)
  have "p + atr_hbn a < len" using tail by (auto simp: atr_tail_def split: if_splits)
  then show ?thesis using tail wf hbn len hb
    by (auto simp: atr_tail_def arr_copy_def arr_get_def wf_ATR_def Let_def take_Suc_conv_app_nth split: if_splits)
qed

lemma ATR_Init_OK:
  assumes init: "ATR_InitFromArray a0 buf n = Some (ATR_OK, a)" and wf0: "wf_ATR a0"
  obtains buffer where "atr_local_copy buf n = Some buffer" "wf_ATR a" "atr_pn a \<le> 7" "atr_hbn a \<le> 15"
    "raw_bytes a = take (atr_length a) buffer" "atr_length a \<le> n" 
proof -
  from init obtain buffer where n: "2 \<le> n" and buffer: "atr_local_copy buf n = Some buffer"
    by (auto simp: ATR_InitFromArray_def Option.bind_eq_Some_conv split: if_splits)
  note len = atr_local_copy_Some [OF buffer]
  have b01: "arr_get buffer 0 = Some (buffer ! 0)" "arr_get buffer 1 = Some (buffer ! 1)"
    using len n by (simp_all add: arr_get_def)
  define a1 where "a1 = a0\<lparr>atr_TS := buffer ! 0, atr_T0 := buffer ! 1,
     atr_hbn := unat (buffer ! 1 AND 0x0F), atr_TCK := (atr_TCK a0)\<lparr>ib_present := False\<rparr>\<rparr>"
  have wf1: "wf_ATR a1" using wf0 by (simp add: a1_def wf_ATR_def)
  from init n obtain lp where lp: "atr_ib_loop buffer n (buffer ! 1) a1 1 0 = Some lp"
    and rest: "(case lp of Inl a \<Rightarrow> Some (ATR_MALFORMED, a)
        | Inr (a2, pointer, i) \<Rightarrow> atr_tail buffer n (a2\<lparr>atr_pn := Suc i\<rparr>) pointer \<bind>
            (\<lambda>tail. case tail of Inl a \<Rightarrow> Some (ATR_MALFORMED, a)
              | Inr a3 \<Rightarrow> atr_check_first a3 i \<bind> (\<lambda>rc. Some (rc, a3)))) = Some (ATR_OK, a)"
    unfolding ATR_InitFromArray_def buffer b01 Option.bind.simps a1_def [symmetric]
    by (auto simp: Option.bind_eq_Some_conv split: if_splits)
  from rest obtain a2 p i where "lp = Inr (a2, p, i)" by (cases lp) auto
  with lp rest have loop: "atr_ib_loop buffer n (buffer ! 1) a1 1 0 = Some (Inr (a2, p, i))"
    and tail: "atr_tail buffer n (a2\<lparr>atr_pn := Suc i\<rparr>) p = Some (Inr a)"
    by (simp, cases "atr_tail buffer n (a2\<lparr>atr_pn := Suc i\<rparr>) p")
      (auto simp: Option.bind_eq_Some_conv split: sum.split_asm)
  from atr_ib_loop_Inr [OF loop wf1] len n have L:
    "wf_ATR a2" "same_head a2 a1" "i < 7" "1 \<le> p" "p < n"
    "concat (map ib_bytes (take (Suc i) (atr_ib a2))) = take (p - 1) (drop 2 buffer)"
    by (simp_all add: numeral_2_eq_2)
  have hbn: "atr_hbn a2 \<le> 15" "atr_TS a2 = buffer ! 0" "atr_T0 a2 = buffer ! 1"
    using L(2) unat_and_15 by (simp_all add: same_head_def a1_def)
  have wf2: "wf_ATR (a2\<lparr>atr_pn := Suc i\<rparr>)" using L(1) by (simp add: wf_ATR_def)
  note T = atr_tail_Inr [OF tail wf2, simplified, OF hbn(1)]
  have "raw_bytes a = [buffer ! 0, buffer ! 1] @ take (p - 1) (drop 2 buffer) @
     take (atr_length a - (p + 1)) (drop (p + 1) buffer)"
    using T L hbn len by (simp add: raw_bytes_def)
  also have "[buffer ! 0, buffer ! 1] = take 2 buffer"
    using len n by (cases buffer; cases "tl buffer") auto
  also have "take 2 buffer @ take (p - 1) (drop 2 buffer) @ take (atr_length a - (p + 1)) (drop (p + 1) buffer) =
      take (atr_length a) buffer"
    using T L len take_add [of 2 "p - 1" buffer] take_add [of "p + 1" "atr_length a - (p + 1)" buffer]
    by (simp add: append_assoc [symmetric] del: append_assoc)
  finally show ?thesis using that buffer T L hbn len by simp
qed

text \<open>
  C10. Parsing and printing agree: when \<open>ATR_InitFromArray\<close> accepts an ATR, \<open>ATR_GetRaw\<close> of the
  parsed struct succeeds on a buffer of \<open>ATR_MAX_SIZE\<close> bytes, reports the parsed length, and writes
  exactly the bytes that were parsed (after decoding the convention).
\<close>

theorem ATR_roundtrip:
  assumes "wf_ATR a0" "ATR_InitFromArray a0 buf n = Some (ATR_OK, a)" "length out = ATR_MAX_SIZE"
  shows "\<exists>buffer out'. atr_local_copy buf n = Some buffer \<and>
     ATR_GetRaw a out = Some (out', atr_length a) \<and> take (atr_length a) out' = take (atr_length a) buffer"
proof -
  obtain buffer where b: "atr_local_copy buf n = Some buffer" "wf_ATR a" "atr_pn a \<le> 7" "atr_hbn a \<le> 15"
    "raw_bytes a = take (atr_length a) buffer" "atr_length a \<le> n"
    using ATR_Init_OK [OF assms(2,1)] by metis
  note len = atr_local_copy_Some [OF b(1)]
  have l: "length (raw_bytes a) = atr_length a" using b len by simp
  with ATR_GetRaw_bytes [of a out] b len assms(3)
  have "ATR_GetRaw a out = Some (written out (raw_bytes a))" by simp
  with l b show ?thesis by (simp add: written_def)
qed

section \<open>Memory safety\<close>

text \<open>The number of rows of interface bytes that fit in the first \<open>len\<close> bytes of the buffer.\<close>

function ib_rows :: "u8 list \<Rightarrow> nat \<Rightarrow> u8 \<Rightarrow> nat \<Rightarrow> nat" where
  "ib_rows buffer len T p =
     (if p + num_ib T \<ge> len then 0
      else if T OR 0x7F = 0xFF then Suc (ib_rows buffer len (buffer ! (p + num_ib T)) (p + num_ib T))
      else 1)"
  by pat_completeness auto
termination
  by (relation "measure (\<lambda>(buffer, len, T, p). len - p)") (auto simp: num_ib_bits)

declare ib_rows.simps [simp del]

lemma atr_ib_loop_None_iff:
  assumes "wf_ATR a" "len \<le> length buffer" "p < len" "i \<le> 7"
  shows "atr_ib_loop buffer len T a p i = None \<longleftrightarrow> 7 < i + ib_rows buffer len T p"
  using assms
proof (induction buffer len T p arbitrary: a i rule: ib_rows.induct)
  case (1 buffer len T p)
  let ?p1 = "p + num_ib T"
  let ?a1 = "a\<lparr>atr_ib := (atr_ib a)[i := new_row buffer T p (atr_ib a ! i)]\<rparr>"
  let ?a2 = "?a1\<lparr>atr_TCK := (atr_TCK ?a1)\<lparr>ib_present := buffer ! ?p1 AND 0x0F \<noteq> 0\<rparr>\<rparr>"
  show ?case
  proof (cases "\<not> len \<le> ?p1 \<and> i < 7 \<and> T OR 0x7F = 0xFF")
    case True
    have "wf_ATR ?a2" using "1.prems"(1) by (simp add: wf_ATR_update_row)
    then have "atr_ib_loop buffer len (buffer ! ?p1) ?a2 ?p1 (Suc i) = None \<longleftrightarrow>
        7 < Suc i + ib_rows buffer len (buffer ! ?p1) ?p1"
      using True "1.prems" by (intro "1.IH") auto
    with True "1.prems" show ?thesis
      by (simp add: atr_ib_loop_wf ib_rows.simps [of buffer len T p] Let_def)
  next
    case False
    with "1.prems" show ?thesis
      by (auto simp: atr_ib_loop_wf ib_rows.simps [of buffer len T p] Let_def)
  qed
qed

lemma atr_tail_defined:
  "wf_ATR a \<Longrightarrow> atr_hbn a \<le> 15 \<Longrightarrow> len \<le> length buffer \<Longrightarrow> atr_tail buffer len a p \<noteq> None"
  by (auto simp: atr_tail_def arr_copy_def arr_get_def wf_ATR_def Let_def)

lemma unat_drop_bit_4: "unat (drop_bit 4 (v AND 0xF0 :: u8)) < 16"
proof -
  have "\<forall>v. unat (drop_bit 4 (v AND 0xF0 :: u8)) < 16" by (subst u8_cases_upt) code_simp
  then show ?thesis by blast
qed

lemma atr_check_first_defined: "wf_ATR a \<Longrightarrow> i < 7 \<Longrightarrow> atr_check_first a i \<noteq> None"
  using unat_drop_bit_4 [of "ib_value (atr_ib a ! i ! 0)"]
  by (auto simp: atr_check_first_def get_ib_wf arr_get_def)

text \<open>
  C37. Exact memory safety of the ATR parser: on an array that holds the \<open>n\<close> bytes, the parser is
  undefined (it writes outside \<^verbatim>\<open>buffer\<close> or outside \<^verbatim>\<open>ib\<close>) precisely when \<open>n\<close> passes
  \<open>ATR_MAX_SIZE\<close>, or when the bytes chain more than \<open>ATR_MAX_PROTOCOLS\<close> rows of interface bytes:
  the code tests \<^verbatim>\<open>pn >= ATR_MAX_PROTOCOLS\<close> only after it has written row \<^verbatim>\<open>pn\<close>.
\<close>

theorem ATR_InitFromArray_defined_iff:
  assumes "wf_ATR a" "n \<le> length buf"
  shows "ATR_InitFromArray a buf n = None \<longleftrightarrow> 2 \<le> n \<and>
    (ATR_MAX_SIZE < n \<or>
     (\<exists>buffer. atr_local_copy buf n = Some buffer \<and> ATR_MAX_PROTOCOLS < ib_rows buffer n (buffer ! 1) 1))"
proof (cases "n < 2 \<or> 33 < n")
  case True
  with assms have "33 < n \<Longrightarrow> atr_local_copy buf n = None"
    by (auto simp: atr_local_copy_eq)
  with True show ?thesis by (auto simp: ATR_InitFromArray_def)
next
  case False
  with assms obtain buffer where n: "2 \<le> n" "n \<le> 33" and buffer: "atr_local_copy buf n = Some buffer"
    by (auto simp: atr_local_copy_eq)
  note len = atr_local_copy_Some [OF buffer]
  have b01: "arr_get buffer 0 = Some (buffer ! 0)" "arr_get buffer 1 = Some (buffer ! 1)"
    using len n by (simp_all add: arr_get_def)
  define a1 where "a1 = a\<lparr>atr_TS := buffer ! 0, atr_T0 := buffer ! 1,
     atr_hbn := unat (buffer ! 1 AND 0x0F), atr_TCK := (atr_TCK a)\<lparr>ib_present := False\<rparr>\<rparr>"
  have wf1: "wf_ATR a1" and h: "atr_hbn a1 \<le> 15"
    using assms unat_and_15 by (simp_all add: a1_def wf_ATR_def)
  let ?loop = "atr_ib_loop buffer n (buffer ! 1) a1 1 0"
  have rest: "atr_tail buffer n (a2\<lparr>atr_pn := Suc i\<rparr>) p \<bind>
      (\<lambda>tail. case tail of Inl a \<Rightarrow> Some (ATR_MALFORMED, a)
         | Inr a3 \<Rightarrow> atr_check_first a3 i \<bind> (\<lambda>rc. Some (rc, a3))) \<noteq> None"
    if "?loop = Some (Inr (a2, p, i))" for a2 p i
  proof -
    have wf2: "wf_ATR (a2\<lparr>atr_pn := Suc i\<rparr>)" and h2: "atr_hbn a2 \<le> 15" and i: "i < 7"
      using atr_ib_loop_Inr [OF that wf1] len n h by (auto simp: wf_ATR_def same_head_def)
    obtain t where t: "atr_tail buffer n (a2\<lparr>atr_pn := Suc i\<rparr>) p = Some t"
      using atr_tail_defined [OF wf2, of n buffer p] h2 len by auto
    then show ?thesis using atr_tail_Inr [OF _ wf2, of buffer n p] h2 len atr_check_first_defined i
      by (cases t) (auto simp: Option.bind_eq_None_conv)
  qed
  have "ATR_InitFromArray a buf n = None \<longleftrightarrow> ?loop = None"
    unfolding ATR_InitFromArray_def buffer b01 Option.bind.simps a1_def [symmetric]
    using n rest by (cases ?loop) (auto split: sum.splits)
  also have "\<dots> \<longleftrightarrow> 7 < ib_rows buffer n (buffer ! 1) 1"
    using atr_ib_loop_None_iff [OF wf1, of n buffer 1 0] len n by simp
  finally show ?thesis using n buffer by auto
qed

definition sample_atr :: "u8 list" where
  "sample_atr = [0x3B, 0x92, 0x11, 0x01, 0xAA, 0xBB, 0x05]"

lemma sample_atr_parses:
  "map_option fst (ATR_InitFromArray zero_ATR sample_atr 7) = Some ATR_OK"
  by code_simp

lemma wf_zero_ATR: "wf_ATR zero_ATR"
  by (simp add: wf_ATR_def zero_ATR_def)

theorem ATR_roundtrip_witness:
  "\<exists>a buffer out'. ATR_InitFromArray zero_ATR sample_atr 7 = Some (ATR_OK, a) \<and>
     atr_local_copy sample_atr 7 = Some buffer \<and>
     ATR_GetRaw a (replicate 33 0) = Some (out', atr_length a) \<and>
     take (atr_length a) out' = take (atr_length a) buffer"
proof -
  obtain a where a: "ATR_InitFromArray zero_ATR sample_atr 7 = Some (ATR_OK, a)"
    using sample_atr_parses by auto
  show ?thesis using ATR_roundtrip [OF wf_zero_ATR a, of "replicate 33 0"] a by auto
qed

theorem ATR_InitFromArray_defined_iff_witness:
  "ATR_InitFromArray zero_ATR [0x3B, 0x80, 0x80, 0x80, 0x80, 0x80, 0x80, 0x80, 0x00] 9 = None"
proof -
  let ?b = "[0x3B, 0x80, 0x80, 0x80, 0x80, 0x80, 0x80, 0x80, 0x00] :: u8 list"
  have "atr_local_copy ?b 9 = Some ?b" by code_simp
  moreover have "ib_rows ?b 9 (?b ! 1) 1 = 8" by code_simp
  ultimately show ?thesis
    using ATR_InitFromArray_defined_iff [OF wf_zero_ATR, of 9 ?b] by auto
qed

text \<open>
  C40. The two conventions parse alike: the line image of an ATR that starts with 0x3F (every byte
  complemented and bit-reversed, so that it starts with 0x03) gives the same result and the same
  struct as the decoded bytes.
\<close>

theorem ATR_inverse_convention:
  assumes "2 \<le> length xs" "hd xs = 0x3F"
  shows "ATR_InitFromArray a (map (\<lambda>b. NOT (INVERT_BYTE b)) xs) n = ATR_InitFromArray a xs n"
proof -
  have x0: "xs ! 0 = 0x3F" using assms by (cases xs) auto
  have inv: "NOT (INVERT_BYTE 0x3F) = 0x03" by (simp add: INVERT_BYTE_def)
  have "atr_local_copy (map (\<lambda>b. NOT (INVERT_BYTE b)) xs) n = atr_local_copy xs n"
    using assms x0 inv
    by (auto simp: atr_local_copy_def arr_get_def arr_slice_def take_map comp_def inverse_code.involutive)
  then show ?thesis by (simp add: ATR_InitFromArray_def)
qed

text \<open>The sample in inverse convention: \<^verbatim>\<open>3F 92 11 01 AA BB 05\<close> as it appears on the line.\<close>

theorem ATR_inverse_convention_witness:
  "ATR_InitFromArray zero_ATR [0x03, 0xB6, 0x77, 0x7F, 0xAA, 0x22, 0x5F] 7 =
     ATR_InitFromArray zero_ATR [0x3F, 0x92, 0x11, 0x01, 0xAA, 0xBB, 0x05] 7"
proof -
  have "map (\<lambda>b. NOT (INVERT_BYTE b)) [0x3F, 0x92, 0x11, 0x01, 0xAA, 0xBB, 0x05] =
      [0x03, 0xB6, 0x77, 0x7F, 0xAA, 0x22, 0x5F]"
    by code_simp
  then show ?thesis
    using ATR_inverse_convention [of "[0x3F, 0x92, 0x11, 0x01, 0xAA, 0xBB, 0x05]" zero_ATR 7] by simp
qed

section \<open>The parser keeps the shape of the struct\<close>

lemma set_ib_keeps:
  assumes "wf_ATR a" "set_ib a i c e = Some a'"
  shows "wf_ATR a'"
proof -
  have a': "i < length (atr_ib a)" "a' = a\<lparr>atr_ib := (atr_ib a)[i := (atr_ib a ! i)[c := e]]\<rparr>"
    using assms(2) by (auto simp: set_ib_def bind_eq_Some_conv arr_simps)
  have "length ((atr_ib a ! i)[c := e]) = 4"
    using wf_ATR_row [OF assms(1), of i] a'(1) assms(1) by (simp add: wf_ATR_def)
  then show ?thesis unfolding a'(2) by (rule wf_ATR_update_row [OF assms(1)])
qed

lemma read_ib_keeps: "wf_ATR (fst s) \<Longrightarrow> read_ib buffer T i c msk s = Some s' \<Longrightarrow> wf_ATR (fst s')"
  by (auto simp: read_ib_def case_prod_unfold bind_eq_Some_conv intro: set_ib_keeps split: if_splits)

lemma read_row_keeps: "wf_ATR (fst s) \<Longrightarrow> read_row buffer T i s = Some s' \<Longrightarrow> wf_ATR (fst s')"
  unfolding read_row_def bind_eq_Some_conv using read_ib_keeps by metis

lemma atr_ib_loop_keeps:
  assumes "wf_ATR a" "atr_ib_loop buffer len T a p i = Some r"
  shows "wf_ATR (case r of Inl b \<Rightarrow> b | Inr (b, _) \<Rightarrow> b)"
  using assms
proof (induction buffer len T a p i arbitrary: r rule: atr_ib_loop.induct)
  case (1 buffer len T a p i)
  show ?case
  proof (cases "p < len \<and> \<not> p + num_ib T \<ge> len")
    case False
    then have "r = Inr (a, p, i) \<or> r = Inl a"
      using "1.prems"(2) by (simp add: atr_ib_loop.simps [of buffer len T a p i] split: if_splits)
    then show ?thesis using "1.prems"(1) by auto
  next
    case True
    then obtain a1 p1 where row: "read_row buffer T i (a, p) = Some (a1, p1)"
      using "1.prems"(2) by (auto simp: atr_ib_loop.simps [of buffer len T a p i] bind_eq_Some_conv)
    have wf1: "wf_ATR a1" using read_row_keeps [of "(a, p)" buffer T i] row "1.prems"(1) by simp
    show ?thesis
    proof (cases "T OR 0x7F = 0xFF \<and> \<not> i \<ge> ATR_MAX_PROTOCOLS")
      case True
      then obtain T' where T': "arr_get buffer p1 = Some T'"
        "atr_ib_loop buffer len T' (a1\<lparr>atr_TCK := (atr_TCK a1)\<lparr>ib_present := T' AND 0x0F \<noteq> 0\<rparr>\<rparr>) p1 (i + 1) = Some r"
        using "1.prems"(2) \<open>p < len \<and> _\<close> row
        by (auto simp: atr_ib_loop.simps [of buffer len T a p i] bind_eq_Some_conv Let_def)
      show ?thesis
        using True \<open>p < len \<and> _\<close> T'(2) wf1 "1.IH" [OF _ _ row refl _ T'(1) refl] by auto
    next
      case False
      then show ?thesis
        using "1.prems"(2) \<open>p < len \<and> _\<close> row wf1
        by (auto simp: atr_ib_loop.simps [of buffer len T a p i] bind_eq_Some_conv Let_def split: if_splits)
    qed
  qed
qed

lemma atr_tail_keeps:
  "wf_ATR a \<Longrightarrow> atr_tail buffer len a p = Some r \<Longrightarrow> wf_ATR (case r of Inl b \<Rightarrow> b | Inr b \<Rightarrow> b)"
  by (auto simp: atr_tail_def bind_eq_Some_conv Let_def wf_ATR_def arr_simps split: if_splits)

lemma ATR_InitFromArray_keeps:
  assumes "wf_ATR a" "ATR_InitFromArray a buf n = Some (rc, a')"
  shows "wf_ATR a'"
proof (cases "n < 2")
  case False
  obtain buffer ts T0 loop where
    loop: "atr_ib_loop buffer n T0 (a\<lparr>atr_TS := ts, atr_T0 := T0, atr_hbn := unat (T0 AND 0x0F),
        atr_TCK := (atr_TCK a)\<lparr>ib_present := False\<rparr>\<rparr>) 1 0 = Some loop"
    and rest: "(case loop of
          Inl a \<Rightarrow> Some (ATR_MALFORMED, a)
        | Inr (a2, pointer, i) \<Rightarrow> do {
            tail \<leftarrow> atr_tail buffer n (a2\<lparr>atr_pn := Suc i\<rparr>) pointer;
            case tail of
              Inl a \<Rightarrow> Some (ATR_MALFORMED, a)
            | Inr a3 \<Rightarrow> do { rc \<leftarrow> atr_check_first a3 i; Some (rc, a3) } }) = Some (rc, a')"
    using assms(2) False by (auto simp: ATR_InitFromArray_def bind_eq_Some_conv)
  have "wf_ATR (case loop of Inl b \<Rightarrow> b | Inr (b, _) \<Rightarrow> b)"
    using atr_ib_loop_keeps [OF _ loop] assms(1) by simp
  then show ?thesis
    using rest atr_tail_keeps [of "fst (projr loop)\<lparr>atr_pn := Suc (snd (snd (projr loop)))\<rparr>" buffer n "fst (snd (projr loop))"]
    apply (auto simp: bind_eq_Some_conv split: sum.splits)
    subgoal for a p i tail by (cases tail) auto
    done
qed (use assms in \<open>simp add: ATR_InitFromArray_def\<close>)

section \<open>Parameters\<close>

lemma ATR_GetIntegerValue_defined: "wf_ATR a \<Longrightarrow> \<exists>r. ATR_GetIntegerValue a name = Some r"
  by (simp add: ATR_GetIntegerValue_def ib_field_def get_ib_wf)

lemma ATR_GetParameter_F:
  "wf_ATR a \<Longrightarrow> ATR_GetParameter a ATR_PARAMETER_F = Some (Inr
    (if ib_present (atr_ib a ! 0 ! 0)
     then atr_f_table ! unat (drop_bit 4 (ib_value (atr_ib a ! 0 ! 0) AND 0xF0)) else ATR_DEFAULT_F))"
  using unat_drop_bit_4 [of "ib_value (atr_ib a ! 0 ! 0)"]
  by (simp add: ATR_GetParameter_def ATR_GetIntegerValue_def ib_field_def get_ib_wf arr_get_def)

lemma ATR_GetParameter_D:
  "wf_ATR a \<Longrightarrow> ATR_GetParameter a ATR_PARAMETER_D = Some (Inr
    (if ib_present (atr_ib a ! 0 ! 0)
     then atr_d_table ! unat (ib_value (atr_ib a ! 0 ! 0) AND 0x0F) else ATR_DEFAULT_D))"
  using unat_and_15 [of "ib_value (atr_ib a ! 0 ! 0)"]
  by (auto simp: ATR_GetParameter_def ATR_GetIntegerValue_def ib_field_def get_ib_wf arr_get_def)

end
