(* ===== verification/Sci_Types.thy ===== *)
theory Sci_Types
  imports Atr
begin

text \<open>
  The data of the smart card driver: \<^verbatim>\<open>src/smartcard/sci.h\<close> with the chip headers
  \<^verbatim>\<open>sci_7100.h\<close>, \<^verbatim>\<open>sci_7105.h\<close> and \<^verbatim>\<open>sci_7111.h\<close>.

  \<^item> The preprocessor: the set of macros a build defines is a value (\<open>config\<close>), so each
    \<^verbatim>\<open>#if\<close> of the source is a test on it.
  \<^item> The control block of a card slot is the record \<open>SCI_CONTROL_BLOCK\<close>; the driver's globals
    (\<^verbatim>\<open>sci_cb\<close>, \<^verbatim>\<open>sci_driver_init\<close>, the static variables of \<^verbatim>\<open>GetParameterF\<close> and
    \<^verbatim>\<open>GetParameterD\<close>) are the record \<open>drv\<close>, with the state \<open>world\<close> of everything outside the
    driver. A pointer \<^verbatim>\<open>SCI_CONTROL_BLOCK *sci\<close> is an index into \<open>sci_cb\<close>.
  \<^item> What the driver calls in the kernel (memory mapped I/O, pins, interrupts, sleeping, threads,
    copies from and to user space) is the parameter \<open>kernel\<close>, a record of functions. A sleep
    returns the whole driver state, since interrupt handlers and other threads run meanwhile.
\<close>

section \<open>Build configuration\<close>

datatype macro =
    CONFIG_CPU_SUBTYPE_STB7100 | CONFIG_CPU_SUBTYPE_STX7100 | CONFIG_SH_ST_MB442 | CONFIG_SH_ST_MB411
  | CONFIG_CPU_SUBTYPE_STX7111 | CONFIG_CPU_SUBTYPE_STX7105
  | UFS912 | SPARK | SPARK7162 | HS7110 | HS7119 | HS7420 | HS7429 | HS7810A | HS7819 | ATEMIO520
  | OPT9600MINI | VITAMIN_HD5000 | HS8200 | HL101 | VIP1_V1 | FS9000 | HS9510
  | CUBEREVO | CUBEREVO_MINI | CUBEREVO_MINI2 | CUBEREVO_250HD | CUBEREVO_9500HD | CUBEREVO_2000HD
  | CUBEREVO_MINI_FTA | CUBEREVO_3000HD
  | IPBOX9900 | IPBOX99 | IPBOX55 | ARIVALINK200 | ADB_BOX | CONFIG_PROC_FS

record config =
  defs :: "macro list"
  LINUX_VERSION_CODE :: nat

definition defined :: "config \<Rightarrow> macro list \<Rightarrow> bool" where
  "defined cfg ms \<longleftrightarrow> list_ex (\<lambda>m. List.member (defs cfg) m) ms"

abbreviation (input) KERNEL_VERSION_2_6_30 :: nat where "KERNEL_VERSION_2_6_30 \<equiv> 132638"
abbreviation (input) KERNEL_VERSION_2_6_32 :: nat where "KERNEL_VERSION_2_6_32 \<equiv> 132640"

datatype chip_header = sci_7100 | sci_7111 | sci_7105 | no_chip_header

definition chip :: "config \<Rightarrow> chip_header" where
  "chip cfg =
     (if defined cfg [CONFIG_CPU_SUBTYPE_STB7100, CONFIG_CPU_SUBTYPE_STX7100, CONFIG_SH_ST_MB442,
                      CONFIG_SH_ST_MB411] then sci_7100
      else if defined cfg [CONFIG_CPU_SUBTYPE_STX7111, UFS912, SPARK, HS7110, HS7119, HS7420, HS7429,
                           HS7810A, HS7819, ATEMIO520, OPT9600MINI, VITAMIN_HD5000] then sci_7111
      else if defined cfg [CONFIG_CPU_SUBTYPE_STX7105, HS8200] then sci_7105
      else no_chip_header)"

definition CUBEBOX :: "config \<Rightarrow> bool" where
  "CUBEBOX cfg \<longleftrightarrow> chip cfg = sci_7100 \<and>
     defined cfg [CUBEREVO, CUBEREVO_MINI, CUBEREVO_MINI2, CUBEREVO_250HD, CUBEREVO_9500HD,
                  CUBEREVO_2000HD, CUBEREVO_MINI_FTA, CUBEREVO_3000HD]"

definition IPBOX :: "config \<Rightarrow> bool" where
  "IPBOX cfg \<longleftrightarrow> chip cfg = sci_7100 \<and> defined cfg [IPBOX9900, IPBOX99, IPBOX55, ARIVALINK200]"

definition SUPPORT_NO_VOLTAGE :: "config \<Rightarrow> bool" where
  "SUPPORT_NO_VOLTAGE cfg \<longleftrightarrow>
     (case chip cfg of
        sci_7100 \<Rightarrow> defined cfg [HS9510, FS9000] \<or> CUBEBOX cfg \<or> IPBOX cfg \<or> defined cfg [ADB_BOX]
      | sci_7111 \<Rightarrow> True | sci_7105 \<Rightarrow> True | no_chip_header \<Rightarrow> False)"

definition SUPPORT_NO_AUTOSET :: "config \<Rightarrow> bool" where
  "SUPPORT_NO_AUTOSET cfg \<longleftrightarrow>
     (case chip cfg of
        sci_7100 \<Rightarrow> defined cfg [HS9510, FS9000] \<or> CUBEBOX cfg \<or> IPBOX cfg \<or> defined cfg [ADB_BOX]
      | sci_7111 \<Rightarrow> True | sci_7105 \<Rightarrow> True | no_chip_header \<Rightarrow> False)"

definition STX7105_SETPOWERLOW :: "config \<Rightarrow> bool" where
  "STX7105_SETPOWERLOW cfg \<longleftrightarrow> chip cfg = sci_7105"

definition SCI_NUMBER_OF_CONTROLLERS :: "config \<Rightarrow> nat" where
  "SCI_NUMBER_OF_CONTROLLERS cfg =
     (if defined cfg [HL101, VIP1_V1, HS8200, FS9000, CUBEREVO, ADB_BOX, SPARK7162, IPBOX9900]
      then 2 else 1)"

definition chip_base :: "config \<Rightarrow> u32 \<Rightarrow> u32 \<Rightarrow> u32" where
  "chip_base cfg b7100 b711x = (if chip cfg = sci_7100 then b7100 else b711x)"

definition SYS_CFG_BASE_ADDRESS :: "config \<Rightarrow> u32" where
  "SYS_CFG_BASE_ADDRESS cfg = chip_base cfg 0x19001000 0xFE001000"
definition PIO0_BASE_ADDRESS :: "config \<Rightarrow> u32" where
  "PIO0_BASE_ADDRESS cfg = chip_base cfg 0x18020000 0xFD020000"
definition PIO1_BASE_ADDRESS :: "config \<Rightarrow> u32" where
  "PIO1_BASE_ADDRESS cfg = chip_base cfg 0x18021000 0xFD021000"
definition PIO3_BASE_ADDRESS :: "config \<Rightarrow> u32" where
  "PIO3_BASE_ADDRESS cfg = chip_base cfg 0x18023000 0xFD023000"
definition PIO4_BASE_ADDRESS :: "config \<Rightarrow> u32" where
  "PIO4_BASE_ADDRESS cfg = chip_base cfg 0x18024000 0xFD024000"
definition SCI0_BASE_ADDRESS :: "config \<Rightarrow> u32" where
  "SCI0_BASE_ADDRESS cfg = chip_base cfg 0x18048000 0xFD048000"
definition SCI1_BASE_ADDRESS :: "config \<Rightarrow> u32" where
  "SCI1_BASE_ADDRESS cfg = chip_base cfg 0x18049000 0xFD049000"
definition ASC0_BASE_ADDRESS :: "config \<Rightarrow> u32" where
  "ASC0_BASE_ADDRESS cfg = chip_base cfg 0x18030000 0xFD030000"
definition ASC1_BASE_ADDRESS :: "config \<Rightarrow> u32" where
  "ASC1_BASE_ADDRESS cfg = chip_base cfg 0x18031000 0xFD031000"

abbreviation (input) SYS_CFG5 :: u32 where "SYS_CFG5 \<equiv> 0x114"
abbreviation (input) SYS_CFG7 :: u32 where "SYS_CFG7 \<equiv> 0x11C"
abbreviation (input) SYS_CFG19 :: u32 where "SYS_CFG19 \<equiv> 0x14C"
abbreviation (input) SYS_CFG20 :: u32 where "SYS_CFG20 \<equiv> 0x150"
abbreviation (input) EPLD_BASE_ADDRESS :: u32 where "EPLD_BASE_ADDRESS \<equiv> 0x07000000"
abbreviation (input) EPLD_SCREG :: u32 where "EPLD_SCREG \<equiv> 0x08"

text \<open>
  The register offsets of the two serial controllers are equal in all three chip headers, so one
  set of names serves for \<^verbatim>\<open>ASC0_...\<close> and \<^verbatim>\<open>ASC1_...\<close>.
\<close>

abbreviation (input) ASC_BAUDRATE :: u32 where "ASC_BAUDRATE \<equiv> 0x00"
abbreviation (input) ASC_TX_BUF :: u32 where "ASC_TX_BUF \<equiv> 0x04"
abbreviation (input) ASC_RX_BUF :: u32 where "ASC_RX_BUF \<equiv> 0x08"
abbreviation (input) ASC_CTRL :: u32 where "ASC_CTRL \<equiv> 0x0C"
abbreviation (input) ASC_INT_EN :: u32 where "ASC_INT_EN \<equiv> 0x10"
abbreviation (input) ASC_STA :: u32 where "ASC_STA \<equiv> 0x14"
abbreviation (input) ASC_GUARDTIME :: u32 where "ASC_GUARDTIME \<equiv> 0x18"
abbreviation (input) ASC_TX_RST :: u32 where "ASC_TX_RST \<equiv> 0x20"
abbreviation (input) ASC_RX_RST :: u32 where "ASC_RX_RST \<equiv> 0x24"
abbreviation (input) PIO_SET_POUT :: u32 where "PIO_SET_POUT \<equiv> 0x04"
abbreviation (input) PIO_CLR_POUT :: u32 where "PIO_CLR_POUT \<equiv> 0x08"
abbreviation (input) SCI0_INT_RX_TX :: nat where "SCI0_INT_RX_TX \<equiv> 123"
abbreviation (input) SCI1_INT_RX_TX :: nat where "SCI1_INT_RX_TX \<equiv> 122"

section \<open>Constants of sci.h\<close>

abbreviation (input) SCI_BUFFER_SIZE :: nat where "SCI_BUFFER_SIZE \<equiv> 1024"
abbreviation (input) SCI_CLK_GLOBAL :: u32 where "SCI_CLK_GLOBAL \<equiv> 100000000"
abbreviation (input) CLOCK_ENABLE_MASK :: u32 where "CLOCK_ENABLE_MASK \<equiv> 2"
abbreviation (input) CLOCK_SOURCE_MASK :: u32 where "CLOCK_SOURCE_MASK \<equiv> 1"
abbreviation (input) CLOCK_SOURCE_GLOBAL :: u32 where "CLOCK_SOURCE_GLOBAL \<equiv> 0"
abbreviation (input) SCI_UNKNOWN_CLASS :: u8 where "SCI_UNKNOWN_CLASS \<equiv> 0"
abbreviation (input) SCI_CLASS_A :: u8 where "SCI_CLASS_A \<equiv> 1"
abbreviation (input) SCI_CLASS_B :: u8 where "SCI_CLASS_B \<equiv> 2"
abbreviation (input) SCI_CLASS_AB :: u8 where "SCI_CLASS_AB \<equiv> 3"
abbreviation (input) SCI_VCC_3 :: u32 where "SCI_VCC_3 \<equiv> 3"
abbreviation (input) SCI_VCC_5 :: u32 where "SCI_VCC_5 \<equiv> 5"
abbreviation (input) SCI_SYNC :: "32 word" where "SCI_SYNC \<equiv> 1"
abbreviation (input) SCI_CLOCK_STOP_DISABLED :: u32 where "SCI_CLOCK_STOP_DISABLED \<equiv> 0"
abbreviation (input) UNINVERT :: u8 where "UNINVERT \<equiv> 0x00"
abbreviation (input) INVERT :: u8 where "INVERT \<equiv> 0x01"
abbreviation (input) NO_DEFINED :: u8 where "NO_DEFINED \<equiv> 0xFF"
abbreviation (input) PARITY_ODD :: u32 where "PARITY_ODD \<equiv> 0x20"
abbreviation (input) GT_DEFAULT :: u32 where "GT_DEFAULT \<equiv> 2"
abbreviation (input) HW_FIFO_SIZE :: nat where "HW_FIFO_SIZE \<equiv> 16"
abbreviation (input) RX_FULL_IRQ :: u8 where "RX_FULL_IRQ \<equiv> 1"
abbreviation (input) TX_EMPTY_IRQ :: u8 where "TX_EMPTY_IRQ \<equiv> 2"
abbreviation (input) RX_FULL_TX_EMPTY_IRQ :: u8 where "RX_FULL_TX_EMPTY_IRQ \<equiv> 3"
abbreviation (input) TX_HALF_EMPTY_IRQ :: u8 where "TX_HALF_EMPTY_IRQ \<equiv> 4"
abbreviation (input) MAX_ATR_LEN :: nat where "MAX_ATR_LEN \<equiv> 33"
abbreviation (input) STB_SYS_CLK :: u32 where "STB_SYS_CLK \<equiv> 63000000"

type_synonym SCI_ERROR = int

abbreviation (input) SCI_ERROR_OK :: int where "SCI_ERROR_OK \<equiv> 0"
abbreviation (input) SCI_ERROR_DRIVER_NOT_INITIALIZED :: int where
  "SCI_ERROR_DRIVER_NOT_INITIALIZED \<equiv> -1000"
abbreviation (input) SCI_ERROR_CARD_NOT_PRESENT :: int where "SCI_ERROR_CARD_NOT_PRESENT \<equiv> -995"
abbreviation (input) SCI_ERROR_CARD_NOT_ACTIVATED :: int where
  "SCI_ERROR_CARD_NOT_ACTIVATED \<equiv> -994"
abbreviation (input) SCI_ERROR_PARAMETER_OUT_OF_RANGE :: int where
  "SCI_ERROR_PARAMETER_OUT_OF_RANGE \<equiv> -989"
abbreviation (input) SCI_ERROR_CLOCK_STOP_DISABLED :: int where
  "SCI_ERROR_CLOCK_STOP_DISABLED \<equiv> -987"
abbreviation (input) SCI_ERROR_VCC_INVALID :: int where "SCI_ERROR_VCC_INVALID \<equiv> -985"
abbreviation (input) SCI_ERROR_SCI_INVALID :: int where "SCI_ERROR_SCI_INVALID \<equiv> -984"

section \<open>The control block and the driver state\<close>

datatype BASE_ADDR =
    BASE_ADDRESS_SYSCFG | BASE_ADDRESS_PIO0 | BASE_ADDRESS_PIO1 | BASE_ADDRESS_PIO3
  | BASE_ADDRESS_PIO4 | BASE_ADDRESS_ASC0 | BASE_ADDRESS_ASC1 | BASE_ADDRESS_SCI0
  | BASE_ADDRESS_SCI1 | BASE_ADDRESS_FPGA

datatype SCI_CARD_STATUS = SCI_CARD_NOT_PRESENT | SCI_CARD_PRESENT

datatype SCI_ATR_STATUS = SCI_WITHOUT_ATR | SCI_ATR_READY

record SCI_MODES =
  emv2000 :: int
  dma :: int
  man_act :: int
  rw_mode :: int

record SCI_PARAMETERS =
  p_T :: u8
  p_f :: u32
  p_ETU :: u32
  p_WWT :: u32
  p_CWT :: u32
  p_BWT :: u32
  p_EGT :: u32
  p_clock_stop_polarity :: u32
  p_check :: u8
  p_P :: u8
  p_I :: u8
  p_U :: u8

text \<open>A pin handle is a number, or nothing for the null pointer.\<close>

type_synonym pin = "nat option"

record SCI_CONTROL_BLOCK =
  base_address_syscfg :: u32
  base_address_pio0 :: u32
  base_address_pio1 :: u32
  base_address_pio3 :: u32
  base_address_pio4 :: u32
  base_address_asc :: u32
  base_address_sci :: u32
  cb_WWT :: u32
  cb_ETU :: u32
  cb_FI :: u32
  cb_DI :: u32
  cb_CLOCK :: u32
  card_detect :: SCI_CARD_STATUS
  cb_error :: int
  waiting :: u32
  sci_modes :: SCI_MODES
  sci_parameters :: SCI_PARAMETERS
  write_buf :: "u8 list"
  read_buf :: "u8 list"
  driver_inuse :: u32
  atr_status :: SCI_ATR_STATUS
  rx_rptr :: u16
  rx_wptr :: u16
  tx_rptr :: u16
  tx_wptr :: u16
  clk :: u32
  cb_atr :: ATR
  atr_len :: u8
  atr_buf :: "u8 list"
  cb_byte_invert :: u8
  irq_mode :: u8
  sci_atr_class :: u8
  cb_id :: u8
  pio_port :: u8
  pin_rxd :: pin
  pin_txd :: pin
  pin_reset :: pin
  pin_detect :: pin
  pin_cmdvcc :: pin
  pin_clock :: pin
  cb_thread :: "nat option"
  polling :: u32

record 'w drv =
  sci_cb :: "nat \<Rightarrow> SCI_CONTROL_BLOCK"
  sci_driver_init :: u32
  param_F :: u32
  param_D :: u32
  world :: 'w

definition upd_cb :: "nat \<Rightarrow> (SCI_CONTROL_BLOCK \<Rightarrow> SCI_CONTROL_BLOCK) \<Rightarrow> 'w drv \<Rightarrow> 'w drv" where
  "upd_cb i f d = d\<lparr>sci_cb := (sci_cb d)(i := f (sci_cb d i))\<rparr>"

lemma upd_cb_simps [simp]:
  "sci_cb (upd_cb i f d) = (sci_cb d)(i := f (sci_cb d i))"
  "sci_driver_init (upd_cb i f d) = sci_driver_init d"
  "param_F (upd_cb i f d) = param_F d" "param_D (upd_cb i f d) = param_D d"
  "world (upd_cb i f d) = world d"
  by (simp_all add: upd_cb_def)

section \<open>Well-formed control blocks\<close>

text \<open>
  The invariant of a slot: its number is its index, the buffers have the sizes \<^verbatim>\<open>sci.h\<close> declares,
  the transmit pointers are ordered and inside the buffer, the receive pointer is inside the buffer
  (or just behind it), and the interrupt selection is one the driver knows.
\<close>

definition wf_cb :: "nat \<Rightarrow> SCI_CONTROL_BLOCK \<Rightarrow> bool" where
  "wf_cb i cb \<longleftrightarrow>
     cb_id cb = of_nat i \<and>
     length (read_buf cb) = SCI_BUFFER_SIZE \<and> length (write_buf cb) = SCI_BUFFER_SIZE \<and>
     length (atr_buf cb) = MAX_ATR_LEN \<and> wf_ATR (cb_atr cb) \<and>
     unat (rx_rptr cb) \<le> SCI_BUFFER_SIZE \<and>
     tx_wptr cb \<le> tx_rptr cb \<and> unat (tx_rptr cb) \<le> SCI_BUFFER_SIZE"

definition wf_drv :: "config \<Rightarrow> 'w drv \<Rightarrow> bool" where
  "wf_drv cfg d \<longleftrightarrow> (\<forall>i < SCI_NUMBER_OF_CONTROLLERS cfg. wf_cb i (sci_cb d i))"

lemma wf_drv_cong: "sci_cb d' = sci_cb d \<Longrightarrow> wf_drv cfg d' \<longleftrightarrow> wf_drv cfg d"
  by (simp add: wf_drv_def)

lemma wf_drv_upd_cb:
  "wf_drv cfg d \<Longrightarrow> (i < SCI_NUMBER_OF_CONTROLLERS cfg \<Longrightarrow> wf_cb i (sci_cb d i) \<Longrightarrow> wf_cb i (f (sci_cb d i)))
     \<Longrightarrow> wf_drv cfg (upd_cb i f d)"
  by (simp add: wf_drv_def)

lemma wf_drv_fun_upd:
  "wf_drv cfg d \<Longrightarrow> sci_cb d' = (sci_cb d)(i := cb) \<Longrightarrow>
     (i < SCI_NUMBER_OF_CONTROLLERS cfg \<Longrightarrow> wf_cb i (sci_cb d i) \<Longrightarrow> wf_cb i cb) \<Longrightarrow> wf_drv cfg d'"
  by (simp add: wf_drv_def)

lemma wf_cb_unaffected [simp]:
  "wf_cb i (cb\<lparr>base_address_syscfg := v_base_address_syscfg\<rparr>) \<longleftrightarrow> wf_cb i cb"
  "wf_cb i (cb\<lparr>base_address_pio0 := v_base_address_pio0\<rparr>) \<longleftrightarrow> wf_cb i cb"
  "wf_cb i (cb\<lparr>base_address_pio1 := v_base_address_pio1\<rparr>) \<longleftrightarrow> wf_cb i cb"
  "wf_cb i (cb\<lparr>base_address_pio3 := v_base_address_pio3\<rparr>) \<longleftrightarrow> wf_cb i cb"
  "wf_cb i (cb\<lparr>base_address_pio4 := v_base_address_pio4\<rparr>) \<longleftrightarrow> wf_cb i cb"
  "wf_cb i (cb\<lparr>base_address_asc := v_base_address_asc\<rparr>) \<longleftrightarrow> wf_cb i cb"
  "wf_cb i (cb\<lparr>base_address_sci := v_base_address_sci\<rparr>) \<longleftrightarrow> wf_cb i cb"
  "wf_cb i (cb\<lparr>cb_WWT := v_cb_WWT\<rparr>) \<longleftrightarrow> wf_cb i cb"
  "wf_cb i (cb\<lparr>cb_ETU := v_cb_ETU\<rparr>) \<longleftrightarrow> wf_cb i cb"
  "wf_cb i (cb\<lparr>cb_FI := v_cb_FI\<rparr>) \<longleftrightarrow> wf_cb i cb"
  "wf_cb i (cb\<lparr>cb_DI := v_cb_DI\<rparr>) \<longleftrightarrow> wf_cb i cb"
  "wf_cb i (cb\<lparr>cb_CLOCK := v_cb_CLOCK\<rparr>) \<longleftrightarrow> wf_cb i cb"
  "wf_cb i (cb\<lparr>card_detect := v_card_detect\<rparr>) \<longleftrightarrow> wf_cb i cb"
  "wf_cb i (cb\<lparr>cb_error := v_cb_error\<rparr>) \<longleftrightarrow> wf_cb i cb"
  "wf_cb i (cb\<lparr>waiting := v_waiting\<rparr>) \<longleftrightarrow> wf_cb i cb"
  "wf_cb i (cb\<lparr>sci_modes := v_sci_modes\<rparr>) \<longleftrightarrow> wf_cb i cb"
  "wf_cb i (cb\<lparr>sci_parameters := v_sci_parameters\<rparr>) \<longleftrightarrow> wf_cb i cb"
  "wf_cb i (cb\<lparr>driver_inuse := v_driver_inuse\<rparr>) \<longleftrightarrow> wf_cb i cb"
  "wf_cb i (cb\<lparr>atr_status := v_atr_status\<rparr>) \<longleftrightarrow> wf_cb i cb"
  "wf_cb i (cb\<lparr>rx_wptr := v_rx_wptr\<rparr>) \<longleftrightarrow> wf_cb i cb"
  "wf_cb i (cb\<lparr>clk := v_clk\<rparr>) \<longleftrightarrow> wf_cb i cb"
  "wf_cb i (cb\<lparr>atr_len := v_atr_len\<rparr>) \<longleftrightarrow> wf_cb i cb"
  "wf_cb i (cb\<lparr>cb_byte_invert := v_cb_byte_invert\<rparr>) \<longleftrightarrow> wf_cb i cb"
  "wf_cb i (cb\<lparr>irq_mode := v_irq_mode\<rparr>) \<longleftrightarrow> wf_cb i cb"
  "wf_cb i (cb\<lparr>sci_atr_class := v_sci_atr_class\<rparr>) \<longleftrightarrow> wf_cb i cb"
  "wf_cb i (cb\<lparr>pio_port := v_pio_port\<rparr>) \<longleftrightarrow> wf_cb i cb"
  "wf_cb i (cb\<lparr>pin_rxd := v_pin_rxd\<rparr>) \<longleftrightarrow> wf_cb i cb"
  "wf_cb i (cb\<lparr>pin_txd := v_pin_txd\<rparr>) \<longleftrightarrow> wf_cb i cb"
  "wf_cb i (cb\<lparr>pin_reset := v_pin_reset\<rparr>) \<longleftrightarrow> wf_cb i cb"
  "wf_cb i (cb\<lparr>pin_detect := v_pin_detect\<rparr>) \<longleftrightarrow> wf_cb i cb"
  "wf_cb i (cb\<lparr>pin_cmdvcc := v_pin_cmdvcc\<rparr>) \<longleftrightarrow> wf_cb i cb"
  "wf_cb i (cb\<lparr>pin_clock := v_pin_clock\<rparr>) \<longleftrightarrow> wf_cb i cb"
  "wf_cb i (cb\<lparr>cb_thread := v_cb_thread\<rparr>) \<longleftrightarrow> wf_cb i cb"
  "wf_cb i (cb\<lparr>polling := v_polling\<rparr>) \<longleftrightarrow> wf_cb i cb"
  by (simp_all add: wf_cb_def)

lemma wf_drv_fun_upd_iff:
  "sci_cb d' = (sci_cb d)(i := cb) \<Longrightarrow> (wf_cb i cb \<longleftrightarrow> wf_cb i (sci_cb d i)) \<Longrightarrow>
     wf_drv cfg d' \<longleftrightarrow> wf_drv cfg d"
  by (auto simp: wf_drv_def)

lemma SCI_NUMBER_OF_CONTROLLERS_cases:
  "SCI_NUMBER_OF_CONTROLLERS cfg = 1 \<or> SCI_NUMBER_OF_CONTROLLERS cfg = 2"
  by (simp add: SCI_NUMBER_OF_CONTROLLERS_def)

lemma wf_cb_id:
  "wf_drv cfg d \<Longrightarrow> i < SCI_NUMBER_OF_CONTROLLERS cfg \<Longrightarrow> cb_id (sci_cb d i) = of_nat i \<and> i < 2"
  using SCI_NUMBER_OF_CONTROLLERS_cases [of cfg]
  by (auto simp: wf_drv_def wf_cb_def)

section \<open>The kernel\<close>

record 'w kernel =
  ioremap :: "u32 \<Rightarrow> u32 \<Rightarrow> 'w \<Rightarrow> u32 \<times> 'w"
  iounmap :: "u32 \<Rightarrow> 'w \<Rightarrow> 'w"
  ctrl_inl :: "u32 \<Rightarrow> 'w \<Rightarrow> u32 \<times> 'w"
  ctrl_outl :: "u32 \<Rightarrow> u32 \<Rightarrow> 'w \<Rightarrow> 'w"
  ctrl_outw :: "u16 \<Rightarrow> u32 \<Rightarrow> 'w \<Rightarrow> 'w"
  stpio_set_pin :: "pin \<Rightarrow> u32 \<Rightarrow> 'w \<Rightarrow> 'w"
  stpio_get_pin :: "pin \<Rightarrow> 'w \<Rightarrow> u32 \<times> 'w"
  stpio_request_pin :: "u8 \<Rightarrow> nat \<Rightarrow> 'w \<Rightarrow> pin \<times> 'w"
  stpio_free_pin :: "pin \<Rightarrow> 'w \<Rightarrow> 'w"
  request_irq :: "nat \<Rightarrow> 'w \<Rightarrow> int \<times> 'w"
  free_irq :: "nat \<Rightarrow> 'w \<Rightarrow> 'w"
  disable_irq :: "nat \<Rightarrow> 'w \<Rightarrow> 'w"
  enable_irq :: "nat \<Rightarrow> 'w \<Rightarrow> 'w"
  kthread_run :: "nat \<Rightarrow> 'w \<Rightarrow> nat option \<times> 'w"
  copy_params_from_user :: "u32 \<Rightarrow> 'w \<Rightarrow> SCI_PARAMETERS \<times> 'w"
  copy_params_to_user :: "u32 \<Rightarrow> SCI_PARAMETERS \<Rightarrow> 'w \<Rightarrow> 'w"
  copy_modes_to_user :: "u32 \<Rightarrow> SCI_MODES \<Rightarrow> 'w \<Rightarrow> 'w"
  copy_ulong_from_user :: "u32 \<Rightarrow> 'w \<Rightarrow> u32 \<times> 'w"
  copy_uint_to_user :: "u32 \<Rightarrow> u32 \<Rightarrow> 'w \<Rightarrow> 'w"
  copy_bytes_from_user :: "u32 \<Rightarrow> nat \<Rightarrow> 'w \<Rightarrow> u8 list \<times> 'w"
  copy_bytes_to_user :: "u32 \<Rightarrow> u8 list \<Rightarrow> 'w \<Rightarrow> 'w"
  stack_modes :: "'w \<Rightarrow> SCI_MODES"
  register_chrdev_region :: "nat \<Rightarrow> 'w \<Rightarrow> int \<times> 'w"
  unregister_chrdev_region :: "nat \<Rightarrow> 'w \<Rightarrow> 'w"
  cdev_add :: "nat \<Rightarrow> 'w \<Rightarrow> int \<times> 'w"
  cdev_del :: "'w \<Rightarrow> 'w"
  class_create :: "'w \<Rightarrow> 'w"
  class_destroy :: "'w \<Rightarrow> 'w"
  device_create :: "nat \<Rightarrow> nat \<Rightarrow> 'w \<Rightarrow> 'w"
  device_destroy :: "nat \<Rightarrow> 'w \<Rightarrow> 'w"
  create_proc_read_entry :: "'w \<Rightarrow> bool \<times> 'w"
  remove_proc_entry :: "'w \<Rightarrow> 'w"
  msleep :: "nat \<Rightarrow> 'w drv \<Rightarrow> 'w drv"

text \<open>
  \<open>hw f\<close> runs a step \<open>f\<close> of the outside world, \<open>hw_get f\<close> one that returns a value. Neither
  touches the driver's own data.
\<close>

definition hw :: "('w \<Rightarrow> 'w) \<Rightarrow> 'w drv \<Rightarrow> 'w drv" where
  "hw f d = d\<lparr>world := f (world d)\<rparr>"

definition hw_get :: "('w \<Rightarrow> 'a \<times> 'w) \<Rightarrow> 'w drv \<Rightarrow> 'a \<times> 'w drv" where
  "hw_get f d = (let (v, w) = f (world d) in (v, d\<lparr>world := w\<rparr>))"

text \<open>
  The interface between the driver's logic and the hardware: an operation that only moves the
  outside world. Everything the driver keeps in its control blocks is untouched by it.
\<close>

locale hw_op =
  fixes oper :: "'w drv \<Rightarrow> 'w drv"
  assumes oper_world: "\<exists>w. oper d = d\<lparr>world := w\<rparr>"
begin

lemma oper_frame:
  "sci_cb (oper d) = sci_cb d" "sci_driver_init (oper d) = sci_driver_init d"
  "param_F (oper d) = param_F d" "param_D (oper d) = param_D d"
  using oper_world [of d] by auto

lemma oper_keeps: "P (sci_cb d) \<Longrightarrow> P (sci_cb (oper d))"
  by (simp add: oper_frame)

lemma oper_wf: "wf_drv cfg (oper d) \<longleftrightarrow> wf_drv cfg d"
  by (simp add: wf_drv_def oper_frame)

lemma oper_upd_cb: "sci_cb (oper (upd_cb i f d)) = sci_cb (upd_cb i f (oper d))"
  by (simp add: oper_frame)

end

interpretation hw_step: hw_op "hw f" for f :: "'w \<Rightarrow> 'w"
  by unfold_locales (auto simp: hw_def)

interpretation hw_get_step: hw_op "\<lambda>d. snd (hw_get f d)" for f :: "'w \<Rightarrow> 'a \<times> 'w"
  by unfold_locales (auto simp: hw_get_def split: prod.split)

declare hw_step.oper_frame [simp] hw_get_step.oper_frame [simp]
  hw_step.oper_wf [simp] hw_get_step.oper_wf [simp]

text \<open>
  What the driver relies on when it sleeps: whoever runs meanwhile keeps the slots well-formed.
  That the driver's own handlers do so is shown with them.
\<close>

definition sleep_ok :: "'w kernel \<Rightarrow> config \<Rightarrow> bool" where
  "sleep_ok K cfg \<longleftrightarrow> (\<forall>n d. wf_drv cfg d \<longrightarrow> wf_drv cfg (msleep K n d))"

lemma wf_drv_sleep: "sleep_ok K cfg \<Longrightarrow> wf_drv cfg d \<Longrightarrow> wf_drv cfg (msleep K n d)"
  by (simp add: sleep_ok_def)

section \<open>Sleeping\<close>

text \<open>The state after \<open>n\<close> sleeps of \<open>ms\<close> milliseconds.\<close>

abbreviation sleeps :: "'w kernel \<Rightarrow> nat \<Rightarrow> nat \<Rightarrow> 'w drv \<Rightarrow> 'w drv" where
  "sleeps K ms \<equiv> iterate (msleep K ms)"

end
