(* ===== verification/Sci_Machine.thy ===== *)
theory Sci_Machine
  imports Sci_Types
begin

text \<open>
  A concrete machine on which the smart card driver can be run: a register file, a serial
  controller at the address of slot 0 on the STx7111 with a receive FIFO, a transmit FIFO of 16 bytes
  and a log of the line, the last value of each pin, and a user buffer. It is used to evaluate the model on concrete
  inputs; no property depends on it.
\<close>

record machine =
  m_regs :: "u32 \<Rightarrow> u32"
  m_rx :: "u8 list"
  m_overrun :: bool
  m_fifo :: "u8 list"
  m_tx :: "u8 list"
  m_pins :: "pin \<Rightarrow> u32"
  m_user_in :: "u8 list"
  m_user_params :: SCI_PARAMETERS
  m_user_clock :: u32
  m_user_out :: "u8 list"

abbreviation (input) M_ASC :: u32 where "M_ASC \<equiv> 0xFD030000"

text \<open>The status word: bytes wait, transmitter empty, half empty, overrun, transmitter full.\<close>

definition m_status :: "machine \<Rightarrow> u32" where
  "m_status w =
     (if m_rx w = [] then 0 else 1) OR (if m_fifo w = [] then 2 else 0) OR
     (if length (m_fifo w) \<le> 8 then 4 else 0) OR (if m_overrun w \<and> length (m_rx w) = 16 then 0x20 else 0) OR
     (if length (m_fifo w) = 16 then 0x200 else 0)"

definition m_read :: "u32 \<Rightarrow> machine \<Rightarrow> u32 \<times> machine" where
  "m_read a w =
     (if a = M_ASC + ASC_STA then (m_status w, w)
      else if a = M_ASC + ASC_RX_BUF then
        (case m_rx w of [] \<Rightarrow> (0, w) | b # q \<Rightarrow> (ucast b, w\<lparr>m_rx := q, m_overrun := False\<rparr>))
      else (m_regs w a, w))"

definition m_write :: "u32 \<Rightarrow> u32 \<Rightarrow> machine \<Rightarrow> machine" where
  "m_write v a w =
     (if a = M_ASC + ASC_TX_BUF then (if length (m_fifo w) < 16 then w\<lparr>m_fifo := m_fifo w @ [ucast v]\<rparr> else w)
      else if a = M_ASC + ASC_TX_RST then w\<lparr>m_fifo := []\<rparr>
      else if a = M_ASC + ASC_RX_RST then w\<lparr>m_rx := []\<rparr>
      else w\<lparr>m_regs := (m_regs w)(a := v)\<rparr>)"

text \<open>The controller sends its FIFO; the receiver sees the bytes too, up to the size of its own.\<close>

definition m_line :: "machine \<Rightarrow> machine" where
  "m_line w = w\<lparr>m_rx := take 16 (m_rx w @ m_fifo w), m_tx := m_tx w @ m_fifo w, m_fifo := [],
     m_overrun := m_fifo w = [] \<and> m_overrun w \<or> 16 < length (m_rx w @ m_fifo w)\<rparr>"

definition m_modes :: SCI_MODES where
  "m_modes = \<lparr>emv2000 = 0, dma = 0, man_act = 0, rw_mode = 1\<rparr>"

definition m_params :: SCI_PARAMETERS where
  "m_params = \<lparr>p_T = 0, p_f = 4, p_ETU = 372, p_WWT = 9600, p_CWT = 8203, p_BWT = 971, p_EGT = 0,
     p_clock_stop_polarity = 0, p_check = 1, p_P = 5, p_I = 50, p_U = SCI_CLASS_A\<rparr>"

definition machine_kernel :: "machine kernel" where
  "machine_kernel = \<lparr>
     ioremap = (\<lambda>a n w. (a, w)),
     iounmap = (\<lambda>a w. w),
     ctrl_inl = m_read,
     ctrl_outl = m_write,
     ctrl_outw = (\<lambda>v a. m_write (ucast v) a),
     stpio_set_pin = (\<lambda>p v w. w\<lparr>m_pins := (m_pins w)(p := v)\<rparr>),
     stpio_get_pin = (\<lambda>p w. (m_pins w p, w)),
     stpio_request_pin = (\<lambda>port n w. (Some (8 * unat port + n), w)),
     stpio_free_pin = (\<lambda>p w. w),
     request_irq = (\<lambda>n w. (0, w)),
     free_irq = (\<lambda>n w. w),
     disable_irq = (\<lambda>n w. w),
     enable_irq = (\<lambda>n w. w),
     kthread_run = (\<lambda>i w. (Some i, w)),
     copy_params_from_user = (\<lambda>a w. (m_user_params w, w)),
     copy_params_to_user = (\<lambda>a p w. w\<lparr>m_user_params := p\<rparr>),
     copy_modes_to_user = (\<lambda>a m w. w),
     copy_ulong_from_user = (\<lambda>a w. (m_user_clock w, w)),
     copy_uint_to_user = (\<lambda>a v w. w),
     copy_bytes_from_user = (\<lambda>a n w. (take n (m_user_in w), w)),
     copy_bytes_to_user = (\<lambda>a bs w. w\<lparr>m_user_out := m_user_out w @ bs\<rparr>),
     stack_modes = (\<lambda>w. m_modes),
     register_chrdev_region = (\<lambda>n w. (0, w)),
     unregister_chrdev_region = (\<lambda>n w. w),
     cdev_add = (\<lambda>n w. (0, w)),
     cdev_del = (\<lambda>w. w),
     class_create = (\<lambda>w. w),
     class_destroy = (\<lambda>w. w),
     device_create = (\<lambda>m i w. w),
     device_destroy = (\<lambda>m w. w),
     create_proc_read_entry = (\<lambda>w. (True, w)),
     remove_proc_entry = (\<lambda>w. w),
     msleep = (\<lambda>n d. d)\<rparr>"

definition machine_start :: machine where
  "machine_start = \<lparr>m_regs = (\<lambda>_. 0), m_rx = [], m_overrun = False, m_fifo = [], m_tx = [], m_pins = (\<lambda>_. 0), m_user_in = [],
     m_user_params = m_params, m_user_clock = 357, m_user_out = []\<rparr>"

definition machine_cfg :: config where
  "machine_cfg = \<lparr>defs = [CONFIG_CPU_SUBTYPE_STX7111, SPARK], LINUX_VERSION_CODE = KERNEL_VERSION_2_6_32\<rparr>"

definition machine_cb :: SCI_CONTROL_BLOCK where
  "machine_cb = \<lparr>
     base_address_syscfg = 0xFE001000, base_address_pio0 = 0xFD020000, base_address_pio1 = 0,
     base_address_pio3 = 0, base_address_pio4 = 0xFD024000, base_address_asc = M_ASC,
     base_address_sci = 0xFD048000,
     cb_WWT = 0, cb_ETU = 0, cb_FI = 0, cb_DI = 0, cb_CLOCK = 0,
     card_detect = SCI_CARD_PRESENT, cb_error = 0, waiting = 0,
     sci_modes = m_modes, sci_parameters = m_params,
     write_buf = replicate 1024 0, read_buf = replicate 1024 0,
     driver_inuse = 0, atr_status = SCI_WITHOUT_ATR,
     rx_rptr = 0, rx_wptr = 0, tx_rptr = 0, tx_wptr = 0,
     clk = 357, cb_atr = zero_ATR, atr_len = 0, atr_buf = replicate 33 0,
     cb_byte_invert = NO_DEFINED, irq_mode = RX_FULL_IRQ, sci_atr_class = SCI_UNKNOWN_CLASS,
     cb_id = 0, pio_port = 0,
     pin_rxd = Some 1, pin_txd = Some 0, pin_reset = Some 4, pin_detect = Some 7,
     pin_cmdvcc = Some 5, pin_clock = Some 3, cb_thread = Some 0, polling = 1\<rparr>"

definition machine_drv :: "machine drv" where
  "machine_drv = \<lparr>sci_cb = (\<lambda>_. machine_cb), sci_driver_init = 1, param_F = 0, param_D = 0,
     world = machine_start\<rparr>"

definition with_cb :: "(SCI_CONTROL_BLOCK \<Rightarrow> SCI_CONTROL_BLOCK) \<Rightarrow> machine drv" where
  "with_cb f = upd_cb 0 f machine_drv"

lemma SCI_NUMBER_OF_CONTROLLERS_machine [simp]: "SCI_NUMBER_OF_CONTROLLERS machine_cfg = 1"
  by (simp add: SCI_NUMBER_OF_CONTROLLERS_def defined_def machine_cfg_def)

end
