(* ===== verification/Sci_Reg.thy ===== *)
theory Sci_Reg
  imports Sci_Machine
begin

text \<open>
  The register layer of \<^verbatim>\<open>src/smartcard/sci_drv.c\<close>: reading and writing the registers of the
  serial controllers, selecting the interrupt, setting the card voltage and clock, resetting the
  card and initialising a slot. A function \<open>f K cfg i ... d\<close> is the C function on the control
  block \<^verbatim>\<open>&sci_cb[i]\<close> in the driver state \<open>d\<close>, on the kernel \<open>K\<close> and in the build \<open>cfg\<close>;
  \<open>option\<close> results are for the functions that divide or wait.
\<close>

section \<open>Registers\<close>

definition reg_address :: "SCI_CONTROL_BLOCK \<Rightarrow> BASE_ADDR \<Rightarrow> u32 \<Rightarrow> u32 option" where
  "reg_address cb base reg =
     (case base of
        BASE_ADDRESS_SYSCFG \<Rightarrow> Some (base_address_syscfg cb + reg)
      | BASE_ADDRESS_PIO0 \<Rightarrow> Some (base_address_pio0 cb + reg)
      | BASE_ADDRESS_PIO1 \<Rightarrow> Some (base_address_pio1 cb + reg)
      | BASE_ADDRESS_PIO3 \<Rightarrow> Some (base_address_pio3 cb + reg)
      | BASE_ADDRESS_PIO4 \<Rightarrow> Some (base_address_pio4 cb + reg)
      | BASE_ADDRESS_ASC0 \<Rightarrow> Some (base_address_asc cb + reg)
      | BASE_ADDRESS_ASC1 \<Rightarrow> Some (base_address_asc cb + reg)
      | BASE_ADDRESS_SCI0 \<Rightarrow> Some (base_address_sci cb + reg)
      | BASE_ADDRESS_SCI1 \<Rightarrow> Some (base_address_sci cb + reg)
      | _ \<Rightarrow> None)"

definition get_reg :: "'w kernel \<Rightarrow> nat \<Rightarrow> BASE_ADDR \<Rightarrow> u32 \<Rightarrow> 'w drv \<Rightarrow> u32 \<times> 'w drv" where
  "get_reg K i base reg d =
     (case reg_address (sci_cb d i) base reg of
        None \<Rightarrow> (0, d)
      | Some a \<Rightarrow>
          (let (map_base, d) = hw_get (ioremap K a 4) d in
           if map_base = 0 then (0, d)
           else let (val, d) = hw_get (ctrl_inl K map_base) d;
                    d = hw (iounmap K map_base) d
                in (val, d)))"

definition set_reg ::
    "'w kernel \<Rightarrow> nat \<Rightarrow> BASE_ADDR \<Rightarrow> u32 \<Rightarrow> u32 \<Rightarrow> u32 \<Rightarrow> 'w drv \<Rightarrow> 'w drv" where
  "set_reg K i base reg bits msk d =
     (case reg_address (sci_cb d i) base reg of
        None \<Rightarrow> d
      | Some a \<Rightarrow>
          (let (map_base, d) = hw_get (ioremap K a 4) d in
           if map_base = 0 then d
           else let (val, d) = hw_get (ctrl_inl K map_base) d;
                    val = val AND NOT msk;
                    val = val OR bits;
                    d = hw (ctrl_outl K val map_base) d
                in hw (iounmap K map_base) d))"

definition set_reg_writeonly ::
    "'w kernel \<Rightarrow> nat \<Rightarrow> BASE_ADDR \<Rightarrow> u32 \<Rightarrow> u32 \<Rightarrow> 'w drv \<Rightarrow> 'w drv" where
  "set_reg_writeonly K i base reg bits d =
     (case reg_address (sci_cb d i) base reg of
        None \<Rightarrow> d
      | Some a \<Rightarrow>
          (let (map_base, d) = hw_get (ioremap K a 4) d in
           if map_base = 0 then d
           else let d = hw (ctrl_outl K bits map_base) d
                in hw (iounmap K map_base) d))"

definition set_reg_writeonly16 ::
    "'w kernel \<Rightarrow> nat \<Rightarrow> BASE_ADDR \<Rightarrow> u32 \<Rightarrow> u16 \<Rightarrow> 'w drv \<Rightarrow> 'w drv" where
  "set_reg_writeonly16 K i base reg bits d =
     (case reg_address (sci_cb d i) base reg of
        None \<Rightarrow> d
      | Some a \<Rightarrow>
          (let (map_base, d) = hw_get (ioremap K a 4) d in
           if map_base = 0 then d
           else let d = hw (ctrl_outw K bits map_base) d
                in hw (iounmap K map_base) d))"

section \<open>Selecting the interrupt\<close>

text \<open>The branch of \<^verbatim>\<open>set_serial_irq\<close> for one controller; the two branches differ in \<open>asc\<close> only.\<close>

definition set_serial_irq_asc ::
    "'w kernel \<Rightarrow> nat \<Rightarrow> BASE_ADDR \<Rightarrow> u8 \<Rightarrow> 'w drv \<Rightarrow> 'w drv" where
  "set_serial_irq_asc K i asc type d =
     (if type = RX_FULL_IRQ then
        let d = upd_cb i (\<lambda>cb. cb\<lparr>irq_mode := RX_FULL_IRQ\<rparr>) d
        in set_reg K i asc ASC_INT_EN (ucast RX_FULL_IRQ) 0x1FF d
      else if type = TX_EMPTY_IRQ then
        let d = upd_cb i (\<lambda>cb. cb\<lparr>irq_mode := TX_EMPTY_IRQ\<rparr>) d
        in set_reg K i asc ASC_INT_EN (ucast TX_EMPTY_IRQ) 0x1FF d
      else if type = RX_FULL_TX_EMPTY_IRQ then
        let d = upd_cb i (\<lambda>cb. cb\<lparr>irq_mode := RX_FULL_TX_EMPTY_IRQ\<rparr>) d
        in set_reg K i asc ASC_INT_EN (ucast RX_FULL_TX_EMPTY_IRQ) 0x1FF d
      else if type = TX_HALF_EMPTY_IRQ OR RX_FULL_TX_EMPTY_IRQ then
        let d = upd_cb i (\<lambda>cb. cb\<lparr>irq_mode := TX_HALF_EMPTY_IRQ OR RX_FULL_TX_EMPTY_IRQ\<rparr>) d
        in set_reg K i asc ASC_INT_EN (ucast (TX_HALF_EMPTY_IRQ OR RX_FULL_TX_EMPTY_IRQ)) 0x1FF d
      else d)"

definition set_serial_irq :: "'w kernel \<Rightarrow> nat \<Rightarrow> u8 \<Rightarrow> 'w drv \<Rightarrow> 'w drv" where
  "set_serial_irq K i type d =
     (if cb_id (sci_cb d i) = 0 then set_serial_irq_asc K i BASE_ADDRESS_ASC0 type d
      else if cb_id (sci_cb d i) = 1 then set_serial_irq_asc K i BASE_ADDRESS_ASC1 type d
      else d)"

section \<open>Voltage\<close>

definition NO_VOLTAGE_CONTROL :: "config \<Rightarrow> bool" where
  "NO_VOLTAGE_CONTROL cfg \<longleftrightarrow>
     SUPPORT_NO_VOLTAGE cfg \<or> defined cfg [SPARK, HL101, VIP1_V1, HS8200, ADB_BOX]"

definition smartcard_voltage_config ::
    "'w kernel \<Rightarrow> config \<Rightarrow> nat \<Rightarrow> u32 \<Rightarrow> 'w drv \<Rightarrow> int \<times> 'w drv" where
  "smartcard_voltage_config K cfg i vcc d =
     (let class = (\<lambda>c. upd_cb i (\<lambda>cb. cb\<lparr>sci_atr_class := c\<rparr>)) in
      if cb_id (sci_cb d i) = 0 then
        if vcc = SCI_VCC_3 then
          let d = class SCI_CLASS_B d in
          (SCI_ERROR_OK,
           if NO_VOLTAGE_CONTROL cfg \<or> defined cfg [VITAMIN_HD5000] then d
           else set_reg_writeonly K i BASE_ADDRESS_PIO4 PIO_CLR_POUT 0x40 d)
        else if vcc = SCI_VCC_5 then
          let d = class SCI_CLASS_A d in
          (SCI_ERROR_OK,
           if NO_VOLTAGE_CONTROL cfg \<or> defined cfg [VITAMIN_HD5000] then d
           else set_reg_writeonly K i BASE_ADDRESS_PIO4 PIO_SET_POUT 0x40 d)
        else
          let d = class SCI_CLASS_A d in
          (SCI_ERROR_VCC_INVALID,
           if NO_VOLTAGE_CONTROL cfg then d
           else set_reg_writeonly K i BASE_ADDRESS_PIO4 PIO_SET_POUT 0x40 d)
      else if cb_id (sci_cb d i) = 1 then
        if vcc = SCI_VCC_3 then
          let d = class SCI_CLASS_B d in
          (SCI_ERROR_OK,
           if NO_VOLTAGE_CONTROL cfg then d
           else set_reg_writeonly K i BASE_ADDRESS_PIO3 PIO_CLR_POUT 0x40 d)
        else if vcc = SCI_VCC_5 then
          let d = class SCI_CLASS_A d in
          (SCI_ERROR_OK,
           if NO_VOLTAGE_CONTROL cfg then d
           else set_reg_writeonly K i BASE_ADDRESS_PIO3 PIO_SET_POUT 0x40 d)
        else
          let d = class SCI_CLASS_A d in
          (SCI_ERROR_VCC_INVALID,
           if NO_VOLTAGE_CONTROL cfg then d
           else set_reg_writeonly K i BASE_ADDRESS_PIO3 PIO_CLR_POUT 0x40 d)
      else (SCI_ERROR_SCI_INVALID, d))"

section \<open>The card clock\<close>

text \<open>
  \<open>reg_update K a f\<close> is the block that \<^verbatim>\<open>SCI_SetClockSource\<close> repeats: map the register at \<open>a\<close>,
  give up if that fails, and otherwise replace its value \<open>v\<close> by \<open>f v\<close>.
\<close>

definition reg_update :: "'w kernel \<Rightarrow> u32 \<Rightarrow> (u32 \<Rightarrow> u32) \<Rightarrow> 'w drv \<Rightarrow> bool \<times> 'w drv" where
  "reg_update K a f d =
     (let (reg_address, d) = hw_get (ioremap K a 4) d in
      if reg_address = 0 then (False, d)
      else let (val, d) = hw_get (ctrl_inl K reg_address) d;
               d = hw (ctrl_outl K (f val) reg_address) d
           in (True, hw (iounmap K reg_address) d))"

text \<open>The first block of \<^verbatim>\<open>SCI_SetClockSource\<close>, compiled for the STx7100 and STx7111 families.\<close>

definition SetClockSource_7100_7111 :: "'w kernel \<Rightarrow> config \<Rightarrow> 'w drv \<Rightarrow> bool \<times> 'w drv" where
  "SetClockSource_7100_7111 K cfg d =
     (let (reg_address, d) = hw_get (ioremap K (SYS_CFG_BASE_ADDRESS cfg + SYS_CFG7) 4) d in
      if reg_address = 0 then (False, d)
      else
        let (val, d) = hw_get (ctrl_inl K reg_address) d;
            val = val OR 0x1B0;
            val = (if CUBEBOX cfg \<or> IPBOX cfg then val OR push_bit 7 1
                   else val AND NOT (push_bit 7 1));
            val = val OR push_bit 8 1;
            d = hw (ctrl_outl K val reg_address) d;
            d = hw (iounmap K reg_address) d;
            (reg_address, d) =
              (if defined cfg [CONFIG_CPU_SUBTYPE_STX7111, UFS912, SPARK, HS7110, HS7119, HS7420,
                               HS7429, HS7810A, HS7819, ATEMIO520, OPT9600MINI, VITAMIN_HD5000]
               then hw_get (ioremap K (SYS_CFG_BASE_ADDRESS cfg + SYS_CFG5) 4) d
               else (reg_address, d))
        in if reg_address = 0 then (False, d)
           else let (val, d) = hw_get (ctrl_inl K reg_address) d;
                    d = hw (ctrl_outl K (val AND NOT (push_bit 23 1)) reg_address) d
                in (True, hw (iounmap K reg_address) d))"

text \<open>The second block, compiled for the STx7105.\<close>

definition SetClockSource_7105 :: "'w kernel \<Rightarrow> config \<Rightarrow> 'w drv \<Rightarrow> bool \<times> 'w drv" where
  "SetClockSource_7105 K cfg d =
     (let (_, d) = reg_update K (EPLD_BASE_ADDRESS div EPLD_SCREG)
                     (\<lambda>val. (val AND NOT 0x77) OR 0x77) d;
          (ok, d) = reg_update K (SYS_CFG_BASE_ADDRESS cfg + SYS_CFG7)
                     (\<lambda>val. let val = (val AND NOT 0xdf8) OR 0xdf8 in
                            if STX7105_SETPOWERLOW cfg
                            then (((val AND NOT (push_bit 7 1)) AND NOT (push_bit 11 1))
                                  OR push_bit 3 1) OR push_bit 8 1
                            else val) d
      in if \<not> ok then (False, d)
      else let (ok, d) = reg_update K (SYS_CFG_BASE_ADDRESS cfg + SYS_CFG19)
                          (\<lambda>val. (val AND NOT 0xff00) OR 0xff00) d
      in if \<not> ok then (False, d)
      else let (ok, d) = reg_update K (SYS_CFG_BASE_ADDRESS cfg + SYS_CFG20)
                          (\<lambda>val. (val AND NOT 0xff00) OR 0xff00) d
      in if \<not> ok then (False, d)
      else if STX7105_SETPOWERLOW cfg
      then reg_update K (SYS_CFG_BASE_ADDRESS cfg + SYS_CFG7) (\<lambda>val. val AND NOT (push_bit 23 1)) d
      else (True, d))"

text \<open>The last part: select the clock source of the slot in its control register.\<close>

definition SetClockSource_ctrl :: "'w kernel \<Rightarrow> nat \<Rightarrow> 'w drv \<Rightarrow> int \<times> 'w drv" where
  "SetClockSource_ctrl K i d =
     (let (reg_address, d) = hw_get (ioremap K (base_address_sci (sci_cb d i) + 4) 4) d
      in if reg_address = 0 then (0, d)
      else let (val, d) = hw_get (ctrl_inl K reg_address) d;
               d = hw (ctrl_outl K (val AND NOT CLOCK_SOURCE_MASK) reg_address) d;
               (val, d) = hw_get (ctrl_inl K reg_address) d;
               d = hw (ctrl_outl K (val OR CLOCK_SOURCE_GLOBAL) reg_address) d
           in (1, hw (iounmap K reg_address) d))"

definition SCI_SetClockSource :: "'w kernel \<Rightarrow> config \<Rightarrow> nat \<Rightarrow> 'w drv \<Rightarrow> int \<times> 'w drv" where
  "SCI_SetClockSource K cfg i d =
     (let (ok, d) =
        (if defined cfg [CONFIG_CPU_SUBTYPE_STB7100, CONFIG_CPU_SUBTYPE_STX7100, CONFIG_SH_ST_MB442,
                         CONFIG_SH_ST_MB411, CONFIG_CPU_SUBTYPE_STX7111, HS7110, HS7119, HS7420,
                         HS7429, HS7810A, HS7819, ATEMIO520, OPT9600MINI, UFS912, SPARK]
         then SetClockSource_7100_7111 K cfg d else (True, d))
      in if \<not> ok then (0, d)
      else let (ok, d) =
        (if defined cfg [CONFIG_CPU_SUBTYPE_STX7105, HS8200]
         then SetClockSource_7105 K cfg d else (True, d))
      in if \<not> ok then (0, d) else SetClockSource_ctrl K i d)"

definition SCI_ClockEnable :: "'w kernel \<Rightarrow> nat \<Rightarrow> 'w drv \<Rightarrow> int \<times> 'w drv" where
  "SCI_ClockEnable K i d =
     (let (reg_address, d) = hw_get (ioremap K (base_address_sci (sci_cb d i) + 4) 4) d in
      if reg_address = 0 then (0, d)
      else let (val, d) = hw_get (ctrl_inl K reg_address) d;
               d = hw (ctrl_outl K (val OR CLOCK_ENABLE_MASK) reg_address) d
           in (1, hw (iounmap K reg_address) d))"

definition SCI_ClockDisable :: "'w kernel \<Rightarrow> nat \<Rightarrow> 'w drv \<Rightarrow> int \<times> 'w drv" where
  "SCI_ClockDisable K i d =
     (let (reg_address, d) = hw_get (ioremap K (base_address_sci (sci_cb d i) + 4) 4) d in
      if reg_address = 0 then (0, d)
      else let (val, d) = hw_get (ctrl_inl K reg_address) d;
               d = hw (ctrl_outl K (val OR NOT CLOCK_ENABLE_MASK) reg_address) d
           in (1, hw (iounmap K reg_address) d))"

definition SCI_Set_Clock :: "'w kernel \<Rightarrow> nat \<Rightarrow> 'w drv \<Rightarrow> (int \<times> 'w drv) option" where
  "SCI_Set_Clock K i d =
     do {
       clkdiv \<leftarrow> udiv SCI_CLK_GLOBAL (2 * 10000 * (clk (sci_cb d i) - 1));
       let val = (if 0 < clkdiv \<and> clkdiv < 0x1F then clkdiv else 0x0e);
       let (reg_address, d) = hw_get (ioremap K (base_address_sci (sci_cb d i)) 4) d;
       if reg_address = 0 then Some (0, d)
       else let d = hw (ctrl_outl K val reg_address) d
            in Some (1, hw (iounmap K reg_address) d)
     }"

definition smartcard_clock_config ::
    "'w kernel \<Rightarrow> nat \<Rightarrow> u32 \<Rightarrow> 'w drv \<Rightarrow> (int \<times> 'w drv) option" where
  "smartcard_clock_config K i clock d =
     do {
       let d = upd_cb i (\<lambda>cb. cb\<lparr>clk := clock\<rparr>) d;
       (ok, d) \<leftarrow> SCI_Set_Clock K i d;
       if ok = 0 then Some (SCI_ERROR_VCC_INVALID, d)
       else Some (SCI_ERROR_OK, msleep K 3 d)
     }"

section \<open>Card reset and slot initialisation\<close>

text \<open>
  The pin that switches the card's supply is low active except on the ADB box; \<open>cmdvcc_off\<close> and
  \<open>cmdvcc_on\<close> are the two \<^verbatim>\<open>#if defined(ADB_BOX)\<close> blocks the source repeats.
\<close>

definition cmdvcc_off :: "'w kernel \<Rightarrow> config \<Rightarrow> nat \<Rightarrow> 'w drv \<Rightarrow> 'w drv" where
  "cmdvcc_off K cfg i d =
     hw (stpio_set_pin K (pin_cmdvcc (sci_cb d i)) (if defined cfg [ADB_BOX] then 0 else 1)) d"

definition cmdvcc_on :: "'w kernel \<Rightarrow> config \<Rightarrow> nat \<Rightarrow> 'w drv \<Rightarrow> 'w drv" where
  "cmdvcc_on K cfg i d =
     hw (stpio_set_pin K (pin_cmdvcc (sci_cb d i)) (if defined cfg [ADB_BOX] then 1 else 0)) d"

definition set_reset_pin :: "'w kernel \<Rightarrow> nat \<Rightarrow> u32 \<Rightarrow> 'w drv \<Rightarrow> 'w drv" where
  "set_reset_pin K i v d = hw (stpio_set_pin K (pin_reset (sci_cb d i)) v) d"

text \<open>Resetting the transmit and the receive FIFO of a controller.\<close>

definition asc_fifo_reset :: "'w kernel \<Rightarrow> nat \<Rightarrow> BASE_ADDR \<Rightarrow> 'w drv \<Rightarrow> 'w drv" where
  "asc_fifo_reset K i asc d =
     (let d = set_reg_writeonly K i asc ASC_TX_RST 0xFF d
      in set_reg_writeonly K i asc ASC_RX_RST 0xFF d)"

definition sci_fifo_reset :: "'w kernel \<Rightarrow> nat \<Rightarrow> 'w drv \<Rightarrow> 'w drv" where
  "sci_fifo_reset K i d =
     (if cb_id (sci_cb d i) = 0 then asc_fifo_reset K i BASE_ADDRESS_ASC0 d
      else if cb_id (sci_cb d i) = 1 then asc_fifo_reset K i BASE_ADDRESS_ASC1 d
      else d)"

definition smartcard_reset ::
    "'w kernel \<Rightarrow> config \<Rightarrow> nat \<Rightarrow> u8 \<Rightarrow> 'w drv \<Rightarrow> 'w drv" where
  "smartcard_reset K cfg i wait d =
     (let power_cycle = (\<lambda>irq d.
        let d = hw (disable_irq K irq) d;
            d = cmdvcc_off K cfg i d;
            d = set_reset_pin K i 0 d;
            d = msleep K 500 d
        in cmdvcc_on K cfg i d)
      in if cb_id (sci_cb d i) \<noteq> 0 \<and> cb_id (sci_cb d i) \<noteq> 1 then d
      else
        let d = (if cb_id (sci_cb d i) = 0 then power_cycle SCI0_INT_RX_TX d
                 else power_cycle SCI1_INT_RX_TX d);
            d = msleep K 6 d;
            d = upd_cb i (\<lambda>cb. cb\<lparr>rx_rptr := 0, rx_wptr := 0, tx_rptr := 0, tx_wptr := 0\<rparr>) d;
            d = msleep K 100 d;
            d = (if cb_id (sci_cb d i) = 0 then
                   let d = asc_fifo_reset K i BASE_ADDRESS_ASC0 d;
                       d = set_serial_irq K i RX_FULL_IRQ d;
                       d = hw (enable_irq K SCI0_INT_RX_TX) d;
                       d = msleep K 20 d
                   in set_reset_pin K i 1 d
                 else if cb_id (sci_cb d i) = 1 then
                   let d = asc_fifo_reset K i BASE_ADDRESS_ASC1 d;
                       d = set_serial_irq K i RX_FULL_IRQ d
                   in hw (enable_irq K SCI1_INT_RX_TX) d
                 else d)
        in set_reset_pin K i 1 d)"

definition sci_cb_init :: "nat \<Rightarrow> 'w drv \<Rightarrow> 'w drv" where
  "sci_cb_init i = upd_cb i (\<lambda>cb. cb\<lparr>
     atr_status := SCI_WITHOUT_ATR,
     waiting := 0,
     sci_modes := \<lparr>emv2000 = 0, dma = 0, man_act = 0, rw_mode = 1\<rparr>,
     cb_error := SCI_ERROR_OK,
     sci_parameters := \<lparr>p_T = 0, p_f = 4500000, p_ETU = 372, p_WWT = 9600, p_CWT = 8203, p_BWT = 0,
       p_EGT = 0, p_clock_stop_polarity = SCI_CLOCK_STOP_DISABLED, p_check = 1, p_P = 5, p_I = 50,
       p_U = SCI_CLASS_A\<rparr>,
     cb_DI := 0, cb_FI := 0, cb_ETU := 0, cb_WWT := 0, cb_CLOCK := 0,
     rx_rptr := 0, rx_wptr := 0, tx_rptr := 0, tx_wptr := 0,
     atr_len := 0,
     cb_byte_invert := NO_DEFINED,
     sci_atr_class := SCI_UNKNOWN_CLASS\<rparr>)"

text \<open>The register values of both controllers that \<^verbatim>\<open>sci_hw_init\<close> and \<^verbatim>\<open>sci_init\<close> set.\<close>

definition asc_defaults :: "'w kernel \<Rightarrow> nat \<Rightarrow> BASE_ADDR \<Rightarrow> 'w drv \<Rightarrow> 'w drv" where
  "asc_defaults K i asc d =
     (let d = set_reg K i asc ASC_CTRL 0x2787 0x3FFF d;
          d = set_reg K i asc ASC_BAUDRATE 0x28B 0xFFFF d
      in set_reg K i asc ASC_GUARDTIME GT_DEFAULT 0x1FF d)"

definition sci_hw_init ::
    "'w kernel \<Rightarrow> config \<Rightarrow> nat \<Rightarrow> 'w drv \<Rightarrow> (SCI_ERROR \<times> 'w drv) option" where
  "sci_hw_init K cfg i d =
     do {
       let d = set_reset_pin K i 0 d;
       let (rc, d) =
         (if cb_id (sci_cb d i) = 0 then
            (SCI_ERROR_OK, snd (smartcard_voltage_config K cfg i SCI_VCC_5
                                  (asc_defaults K i BASE_ADDRESS_ASC0 d)))
          else if cb_id (sci_cb d i) = 1 then
            (SCI_ERROR_OK, snd (smartcard_voltage_config K cfg i SCI_VCC_5
                                  (asc_defaults K i BASE_ADDRESS_ASC1 d)))
          else (SCI_ERROR_DRIVER_NOT_INITIALIZED, d));
       (_, d) \<leftarrow> smartcard_clock_config K i 357 d;
       let d = sci_cb_init i d;
       Some (rc, sci_fifo_reset K i d)
     }"

section \<open>What register operations leave alone\<close>

lemma world_unchanged [intro]: "\<exists>w. d = d\<lparr>world := w\<rparr>"
  by (rule exI [where x = "world d"]) simp

lemmas world_ops = hw_def hw_get_def Let_def

interpretation get_reg_step: hw_op "\<lambda>d. snd (get_reg K i base reg d)"
  for K :: "'w kernel" and i base reg
  by unfold_locales (auto simp: get_reg_def world_ops split: prod.split option.split)

interpretation set_reg_step: hw_op "set_reg K i base reg bits msk"
  for K :: "'w kernel" and i base reg bits msk
  by unfold_locales (auto simp: set_reg_def world_ops split: prod.split option.split)

interpretation set_reg_writeonly_step: hw_op "set_reg_writeonly K i base reg bits"
  for K :: "'w kernel" and i base reg bits
  by unfold_locales (auto simp: set_reg_writeonly_def world_ops split: prod.split option.split)

interpretation set_reg_writeonly16_step: hw_op "set_reg_writeonly16 K i base reg bits"
  for K :: "'w kernel" and i base reg bits
  by unfold_locales (auto simp: set_reg_writeonly16_def world_ops split: prod.split option.split)

interpretation reg_update_step: hw_op "\<lambda>d. snd (reg_update K a f d)"
  for K :: "'w kernel" and a f
  by unfold_locales (auto simp: reg_update_def world_ops split: prod.split)

interpretation SCI_ClockEnable_step: hw_op "\<lambda>d. snd (SCI_ClockEnable K i d)"
  for K :: "'w kernel" and i
  by unfold_locales (auto simp: SCI_ClockEnable_def world_ops split: prod.split)

interpretation SCI_ClockDisable_step: hw_op "\<lambda>d. snd (SCI_ClockDisable K i d)"
  for K :: "'w kernel" and i
  by unfold_locales (auto simp: SCI_ClockDisable_def world_ops split: prod.split)

interpretation cmdvcc_off_step: hw_op "cmdvcc_off K cfg i" for K :: "'w kernel" and cfg i
  by unfold_locales (auto simp: cmdvcc_off_def hw_def)

interpretation cmdvcc_on_step: hw_op "cmdvcc_on K cfg i" for K :: "'w kernel" and cfg i
  by unfold_locales (auto simp: cmdvcc_on_def hw_def)

interpretation set_reset_pin_step: hw_op "set_reset_pin K i v" for K :: "'w kernel" and i v
  by unfold_locales (auto simp: set_reset_pin_def hw_def)

lemmas reg_frames [simp] =
  get_reg_step.oper_frame get_reg_step.oper_wf
  set_reg_step.oper_frame set_reg_step.oper_wf
  set_reg_writeonly_step.oper_frame set_reg_writeonly_step.oper_wf
  set_reg_writeonly16_step.oper_frame set_reg_writeonly16_step.oper_wf
  reg_update_step.oper_frame reg_update_step.oper_wf
  SCI_ClockEnable_step.oper_frame SCI_ClockEnable_step.oper_wf
  SCI_ClockDisable_step.oper_frame SCI_ClockDisable_step.oper_wf
  cmdvcc_off_step.oper_frame cmdvcc_off_step.oper_wf
  cmdvcc_on_step.oper_frame cmdvcc_on_step.oper_wf
  set_reset_pin_step.oper_frame set_reset_pin_step.oper_wf

lemma asc_frame [simp]:
  "sci_cb (asc_defaults K i asc d) = sci_cb d" "sci_cb (asc_fifo_reset K i asc d) = sci_cb d"
  "sci_driver_init (asc_defaults K i asc d) = sci_driver_init d"
  "sci_driver_init (asc_fifo_reset K i asc d) = sci_driver_init d"
  "wf_drv cfg (asc_defaults K i asc d) \<longleftrightarrow> wf_drv cfg d"
  "wf_drv cfg (asc_fifo_reset K i asc d) \<longleftrightarrow> wf_drv cfg d"
  by (simp_all add: asc_defaults_def asc_fifo_reset_def Let_def)

lemma sci_fifo_reset_frame [simp]:
  "sci_cb (sci_fifo_reset K i d) = sci_cb d"
  "sci_driver_init (sci_fifo_reset K i d) = sci_driver_init d"
  "wf_drv cfg (sci_fifo_reset K i d) \<longleftrightarrow> wf_drv cfg d"
  by (simp_all add: sci_fifo_reset_def)

section \<open>Registers as the outside world sees them\<close>

text \<open>
  Every register access maps the register, accesses it and removes the mapping. \<open>mmio_read\<close> and
  \<open>mmio_write\<close> are that whole sequence on the physical address; the laws of the hardware are stated
  about them.
\<close>

definition mmio_read :: "'w kernel \<Rightarrow> u32 \<Rightarrow> 'w \<Rightarrow> u32 \<times> 'w" where
  "mmio_read K a w =
     (let (m, w) = ioremap K a 4 w in
      if m = 0 then (0, w) else let (v, w) = ctrl_inl K m w in (v, iounmap K m w))"

definition mmio_write :: "'w kernel \<Rightarrow> u32 \<Rightarrow> u32 \<Rightarrow> 'w \<Rightarrow> 'w" where
  "mmio_write K a v w =
     (let (m, w) = ioremap K a 4 w in
      if m = 0 then w else iounmap K m (ctrl_outl K v m w))"

definition mmio_modify :: "'w kernel \<Rightarrow> u32 \<Rightarrow> (u32 \<Rightarrow> u32) \<Rightarrow> 'w \<Rightarrow> 'w" where
  "mmio_modify K a f w =
     (let (m, w) = ioremap K a 4 w in
      if m = 0 then w
      else let (v, w) = ctrl_inl K m w in iounmap K m (ctrl_outl K (f v) m w))"

lemma get_reg_mmio:
  "reg_address (sci_cb d i) base reg = Some a \<Longrightarrow> get_reg K i base reg d = hw_get (mmio_read K a) d"
  by (simp add: get_reg_def mmio_read_def world_ops split: prod.split)

lemma set_reg_mmio:
  "reg_address (sci_cb d i) base reg = Some a \<Longrightarrow>
     set_reg K i base reg bits msk d = hw (mmio_modify K a (\<lambda>v. (v AND NOT msk) OR bits)) d"
  by (simp add: set_reg_def mmio_modify_def world_ops split: prod.split)

lemma set_reg_writeonly_mmio:
  "reg_address (sci_cb d i) base reg = Some a \<Longrightarrow>
     set_reg_writeonly K i base reg bits d = hw (mmio_write K a bits) d"
  by (simp add: set_reg_writeonly_def mmio_write_def world_ops split: prod.split)

lemma reg_address_asc [simp]:
  "reg_address cb BASE_ADDRESS_ASC0 reg = Some (base_address_asc cb + reg)"
  "reg_address cb BASE_ADDRESS_ASC1 reg = Some (base_address_asc cb + reg)"
  by (simp_all add: reg_address_def)

lemma hw_simps [simp]:
  "world (hw f d) = f (world d)" "fst (hw_get g d) = fst (g (world d))"
  "world (snd (hw_get g d)) = snd (g (world d))"
  by (simp_all add: hw_def hw_get_def split: prod.split)

section \<open>Interrupt selection\<close>

text \<open>The four interrupt selections the driver knows.\<close>

definition irq_selections :: "u8 list" where
  "irq_selections = [RX_FULL_IRQ, TX_EMPTY_IRQ, RX_FULL_TX_EMPTY_IRQ, 7]"

lemma set_serial_irq_cb:
  "sci_cb (set_serial_irq K i type d) =
     (if cb_id (sci_cb d i) \<in> {0, 1} \<and> type \<in> set irq_selections
      then (sci_cb d)(i := (sci_cb d i)\<lparr>irq_mode := type\<rparr>) else sci_cb d)"
  by (auto simp: set_serial_irq_def set_serial_irq_asc_def irq_selections_def Let_def)

lemma set_serial_irq_world:
  assumes "cb_id (sci_cb d i) \<in> {0, 1}" "type \<in> set irq_selections"
  shows "world (set_serial_irq K i type d) =
     mmio_modify K (base_address_asc (sci_cb d i) + ASC_INT_EN)
       (\<lambda>v. (v AND NOT 0x1FF) OR ucast type) (world d)"
  using assms
  by (auto simp: set_serial_irq_def set_serial_irq_asc_def irq_selections_def Let_def set_reg_mmio)

lemma set_serial_irq_globals [simp]:
  "sci_driver_init (set_serial_irq K i type d) = sci_driver_init d"
  "param_F (set_serial_irq K i type d) = param_F d"
  "param_D (set_serial_irq K i type d) = param_D d"
  by (simp_all add: set_serial_irq_def set_serial_irq_asc_def Let_def)

section \<open>The clock divider\<close>

text \<open>The value \<^verbatim>\<open>SCI_Set_Clock\<close> writes for the requested clock \<open>c\<close>, where the division is defined.\<close>

lemma clkdiv_zero_iff: "20000 * x = (0 :: u32) \<longleftrightarrow> unat x mod 2 ^ 27 = 0"
proof -
  have "20000 * x = (0 :: u32) \<longleftrightarrow> unat (20000 * x) = 0" by (simp only: unat_eq_0)
  also have "\<dots> \<longleftrightarrow> (20000 * unat x) mod 4294967296 = 0" by (simp add: unat_word_ariths)
  also have "\<dots> \<longleftrightarrow> unat x mod 134217728 = 0"
  proof -
    have "coprime ((2 :: nat) ^ 27) (5 ^ 4)"
      by (simp only: coprime_power_left_iff coprime_power_right_iff) (simp add: coprime_iff_gcd_eq_1 gcd_non_0_nat)
    then have cop: "coprime (134217728 :: nat) 625" by simp
    have "32 * 134217728 dvd 32 * (625 * unat x) \<longleftrightarrow> 134217728 dvd unat x"
      by (subst nat_mult_dvd_cancel_disj)
         (simp add: coprime_dvd_mult_right_iff [OF cop])
    then show ?thesis by (simp add: dvd_eq_mod_eq_0)
  qed
  finally show ?thesis by simp
qed

definition clkdiv_val :: "u32 \<Rightarrow> u32" where
  "clkdiv_val c = (let q = SCI_CLK_GLOBAL div (2 * 10000 * (c - 1)) in if 0 < q \<and> q < 0x1F then q else 0x0e)"

lemma SCI_Set_Clock_eq:
  "SCI_Set_Clock K i d =
     (if unat (clk (sci_cb d i) - 1) mod 2 ^ 27 = 0 then None
      else Some (if fst (ioremap K (base_address_sci (sci_cb d i)) 4 (world d)) = 0 then 0 else 1,
                 hw (mmio_write K (base_address_sci (sci_cb d i)) (clkdiv_val (clk (sci_cb d i)))) d))"
  unfolding SCI_Set_Clock_def udiv_def clkdiv_zero_iff [symmetric] 
  by (simp add: clkdiv_val_def mmio_write_def world_ops del: right_diff_distrib_numeral split: prod.split)

lemma clkdiv_exact:
  fixes c :: u32
  assumes "2 \<le> unat c" "unat c < 214749"
  shows "unat ((100000000 :: u32) div (20000 * (c - 1))) = 5000 div (unat c - 1)"
proof -
  have "unat (c - 1) = unat c - 1"
    using assms by (metis One_nat_def Suc_leD Suc_1 unat_1 unat_sub word_le_nat_alt)
  then have "unat (20000 * (c - 1)) = 20000 * (unat c - 1)"
    using assms by (simp add: unat_word_ariths del: right_diff_distrib_numeral)
  then show ?thesis
    using div_mult_mult1 [of 20000 "5000::nat" "unat c - 1"] by (simp add: unat_div del: right_diff_distrib_numeral)
qed
lemma clkdiv_val_eq:
  assumes "2 \<le> unat c" "unat c < 214749"
  shows "unat (clkdiv_val c) = (if 163 \<le> unat c \<and> unat c \<le> 5001 then 5000 div (unat c - 1) else 14)"
proof -
  define q :: u32 where "q = 100000000 div (20000 * (c - 1))"
  have q: "unat q = 5000 div (unat c - 1)"
    using clkdiv_exact [OF assms] by (simp add: q_def)
  have "0 < unat q \<longleftrightarrow> unat c \<le> 5001"
    unfolding q using assms by (simp add: div_greater_zero_iff) arith
  moreover have "unat q < 31 \<longleftrightarrow> 163 \<le> unat c"
    unfolding q using assms by (simp add: div_less_iff_less_mult) arith
  moreover have "clkdiv_val c = (if 0 < unat q \<and> unat q < 31 then q else 14)"
    by (simp add: clkdiv_val_def q_def word_less_nat_alt Let_def del: right_diff_distrib_numeral)
  ultimately show ?thesis by (simp add: q)
qed

section \<open>Starting and stopping the clock\<close>

lemma SCI_ClockEnable_world:
  "world (snd (SCI_ClockEnable K i d)) =
     mmio_modify K (base_address_sci (sci_cb d i) + 4) (\<lambda>v. v OR CLOCK_ENABLE_MASK) (world d)"
  by (simp add: SCI_ClockEnable_def mmio_modify_def world_ops split: prod.split)

lemma SCI_ClockDisable_world:
  "world (snd (SCI_ClockDisable K i d)) =
     mmio_modify K (base_address_sci (sci_cb d i) + 4) (\<lambda>v. v OR NOT CLOCK_ENABLE_MASK) (world d)"
  by (simp add: SCI_ClockDisable_def mmio_modify_def world_ops split: prod.split)

lemma or_not_and: "(v OR NOT m) AND m = v AND (m :: 'a::len word)"
  by (rule bit_word_eqI) (auto simp: bit_simps)

section \<open>The voltage class and the state after initialisation\<close>

lemma smartcard_voltage_config_cb:
  "sci_cb (snd (smartcard_voltage_config K cfg i vcc d)) =
     (if cb_id (sci_cb d i) \<in> {0, 1}
      then (sci_cb d)(i := (sci_cb d i)\<lparr>sci_atr_class := if vcc = SCI_VCC_3 then SCI_CLASS_B else SCI_CLASS_A\<rparr>)
      else sci_cb d)"
  by (auto simp: smartcard_voltage_config_def Let_def)

lemma smartcard_voltage_config_rc:
  "fst (smartcard_voltage_config K cfg i vcc d) =
     (if cb_id (sci_cb d i) \<notin> {0, 1} then SCI_ERROR_SCI_INVALID
      else if vcc \<in> {SCI_VCC_3, SCI_VCC_5} then SCI_ERROR_OK else SCI_ERROR_VCC_INVALID)"
  by (auto simp: smartcard_voltage_config_def Let_def)

lemma smartcard_clock_config_357:
  "\<exists>r d'. smartcard_clock_config K i 357 d = Some (r, d') \<and>
     (d' = msleep K 3 (hw f (upd_cb i (\<lambda>cb. cb\<lparr>clk := 357\<rparr>) d)) \<or> d' = hw f (upd_cb i (\<lambda>cb. cb\<lparr>clk := 357\<rparr>) d))" if
    "f = mmio_write K (base_address_sci (sci_cb d i)) 14"
proof -
  have "unat (356 :: u32) = 356" "clkdiv_val 357 = 14"
    by (simp_all add: clkdiv_val_def)
  then show ?thesis
   by (simp add: smartcard_clock_config_def SCI_Set_Clock_eq Let_def that)
qed


text \<open>The state of a slot before its control block is reset: the part of \<^verbatim>\<open>sci_hw_init\<close> up to the clock.\<close>

lemma sci_hw_init_clock:
  obtains m e c where
    "sci_hw_init K cfg i d =
       Some (if cb_id (sci_cb d i) \<in> {0, 1} then SCI_ERROR_OK else SCI_ERROR_DRIVER_NOT_INITIALIZED,
             sci_fifo_reset K i (sci_cb_init i m))"
    "m = msleep K 3 e \<or> m = e"
    "sci_cb e = (sci_cb d)(i := (sci_cb d i)\<lparr>sci_atr_class := c, clk := 357\<rparr>)"
proof -
  define d0 where "d0 = set_reset_pin K i 0 d"
  define d1 where "d1 = (if cb_id (sci_cb d i) = 0 then
            snd (smartcard_voltage_config K cfg i SCI_VCC_5 (asc_defaults K i BASE_ADDRESS_ASC0 d0))
          else if cb_id (sci_cb d i) = 1 then
            snd (smartcard_voltage_config K cfg i SCI_VCC_5 (asc_defaults K i BASE_ADDRESS_ASC1 d0))
          else d0)"
  define d2 where "d2 = hw (mmio_write K (base_address_sci (sci_cb d1 i)) 14)
                          (upd_cb i (\<lambda>cb. cb\<lparr>clk := 357\<rparr>) d1)"
  obtain r m where clock: "smartcard_clock_config K i 357 d1 = Some (r, m)"
    and m: "m = msleep K 3 d2 \<or> m = d2"
    unfolding d2_def using smartcard_clock_config_357 [OF refl] by blast
  have "sci_cb d1 = (sci_cb d)(i := (sci_cb d i)\<lparr>sci_atr_class := sci_atr_class (sci_cb d1 i)\<rparr>)"
    by (auto simp: d1_def d0_def smartcard_voltage_config_cb)
  then have "sci_cb d2 = (sci_cb d)(i := (sci_cb d i)\<lparr>sci_atr_class := sci_atr_class (sci_cb d1 i), clk := 357\<rparr>)"
    unfolding d2_def by (metis fun_upd_same fun_upd_upd hw_step.oper_frame(1) upd_cb_simps(1))
  moreover have "sci_hw_init K cfg i d =
       Some (if cb_id (sci_cb d i) \<in> {0, 1} then SCI_ERROR_OK else SCI_ERROR_DRIVER_NOT_INITIALIZED,
             sci_fifo_reset K i (sci_cb_init i m))"
    using clock by (simp add: sci_hw_init_def d1_def d0_def Let_def split: if_splits)
  ultimately show thesis using that m by blast
qed

lemma set_serial_irq_wf [simp]: "wf_drv cfg (set_serial_irq K i type d) \<longleftrightarrow> wf_drv cfg d"
  by (rule wf_drv_fun_upd_iff [where i = i and cb = "sci_cb (set_serial_irq K i type d) i"])
     (auto simp: set_serial_irq_cb)

lemma smartcard_voltage_config_wf [simp]:
  "wf_drv cfg (snd (smartcard_voltage_config K cfg' i vcc d)) \<longleftrightarrow> wf_drv cfg d"
  by (rule wf_drv_fun_upd_iff [where i = i and
        cb = "sci_cb (snd (smartcard_voltage_config K cfg' i vcc d)) i"])
     (auto simp: smartcard_voltage_config_cb)

lemma wf_drv_reset_pointers:
  "wf_drv cfg d \<Longrightarrow>
     wf_drv cfg (upd_cb i (\<lambda>cb. cb\<lparr>rx_rptr := 0, rx_wptr := 0, tx_rptr := 0, tx_wptr := 0\<rparr>) d)"
  by (erule wf_drv_upd_cb) (simp add: wf_cb_def)

lemma smartcard_reset_wf:
  "sleep_ok K cfg \<Longrightarrow> wf_drv cfg d \<Longrightarrow> wf_drv cfg (smartcard_reset K cfg' i wait d)"
  by (simp add: smartcard_reset_def Let_def wf_drv_sleep wf_drv_reset_pointers)

lemma sci_cb_init_wf: "wf_drv cfg d \<Longrightarrow> wf_drv cfg (sci_cb_init i d)"
  unfolding sci_cb_init_def by (erule wf_drv_upd_cb) (simp add: wf_cb_def)

lemma sci_hw_init_wf:
  assumes "sleep_ok K cfg" "wf_drv cfg d" "sci_hw_init K cfg i d = Some (rc, d')"
  shows "wf_drv cfg d'"
proof -
  obtain m e c where m: "d' = sci_fifo_reset K i (sci_cb_init i m)" "m = msleep K 3 e \<or> m = e"
      "sci_cb e = (sci_cb d)(i := (sci_cb d i)\<lparr>sci_atr_class := c, clk := 357\<rparr>)"
    using sci_hw_init_clock [of K cfg i d thesis] assms(3) by auto
  have "wf_drv cfg e" using assms(2) by (rule wf_drv_fun_upd [OF _ m(3)]) simp
  then have "wf_drv cfg m" using m(2) wf_drv_sleep [OF assms(1)] by blast
  then show ?thesis unfolding m(1) by (simp add: sci_cb_init_wf)
qed

section \<open>Properties of the register layer\<close>

text \<open>
  \<^verbatim>\<open>SCI_Set_Clock\<close> for a requested clock \<open>c\<close> (in units of 10 kHz) below 2147.49 MHz, where its
  arithmetic does not wrap: it succeeds exactly if the divider register can be mapped, and writes
  there the divider \<open>5000 div (c - 1)\<close> of half the 100 MHz source when \<open>c\<close> is from 1.63 MHz to
  50.01 MHz, and otherwise the divider 14 of the default clock of 3.57 MHz.
\<close>

theorem SCI_Set_Clock_divider:
  assumes "clk (sci_cb d i) = c" "2 \<le> unat c" "unat c < 214749"
  shows "SCI_Set_Clock K i d =
     Some (if fst (ioremap K (base_address_sci (sci_cb d i)) 4 (world d)) = 0 then 0 else 1,
           hw (mmio_write K (base_address_sci (sci_cb d i))
                (of_nat (if 163 \<le> unat c \<and> unat c \<le> 5001 then 5000 div (unat c - 1) else 14))) d)"
proof -
  have "unat (c - 1) = unat c - 1"
    using assms by (metis One_nat_def Suc_leD Suc_1 unat_1 unat_sub word_le_nat_alt)
  then have "unat (c - 1) mod 2 ^ 27 \<noteq> 0"
    using assms by simp
  moreover have "clkdiv_val c =
     of_nat (if 163 \<le> unat c \<and> unat c \<le> 5001 then 5000 div (unat c - 1) else 14)"
    unfolding clkdiv_val_eq [OF assms(2, 3), symmetric] by simp
  ultimately show ?thesis by (simp add: SCI_Set_Clock_eq assms(1))
qed

text \<open>The default clock of 3.57 MHz gets the divider 14.\<close>

theorem SCI_Set_Clock_divider_witness:
  "SCI_Set_Clock machine_kernel 0 machine_drv =
     Some (1, hw (mmio_write machine_kernel 0xFD048000 14) machine_drv)"
  using SCI_Set_Clock_divider [of machine_drv 0 357 machine_kernel]
  by (simp add: machine_drv_def machine_cb_def machine_kernel_def)

text \<open>
  \<^verbatim>\<open>SCI_Set_Clock\<close> divides by zero exactly for the clock values 1 and 1 plus a multiple of
  \<^verbatim>\<open>2^27\<close>, which a program can request with \<^verbatim>\<open>IOCTL_SET_CLOCK\<close>.
\<close>

theorem SCI_Set_Clock_None_iff:
  "SCI_Set_Clock K i d = None \<longleftrightarrow> unat (clk (sci_cb d i) - 1) mod 2 ^ 27 = 0"
  by (simp add: SCI_Set_Clock_eq)

text \<open>
  \<^verbatim>\<open>SCI_ClockDisable\<close> does not stop the clock: the value it writes back has the enable bit
  of the value read, and every other bit set.
\<close>

theorem SCI_ClockDisable_keeps_enable:
  "\<exists>f. world (snd (SCI_ClockDisable K i d)) =
         mmio_modify K (base_address_sci (sci_cb d i) + 4) f (world d) \<and>
       (\<forall>v. f v AND CLOCK_ENABLE_MASK = v AND CLOCK_ENABLE_MASK \<and> f v OR CLOCK_ENABLE_MASK = -1)"
proof (intro exI conjI allI)
  fix v :: u32
  show "(v OR NOT CLOCK_ENABLE_MASK) OR CLOCK_ENABLE_MASK = -1"
    by (rule bit_word_eqI) (auto simp: bit_simps)
qed (rule SCI_ClockDisable_world, rule or_not_and)

text \<open>
  \<^verbatim>\<open>sci_hw_init\<close> always returns, whatever runs while it sleeps, with success exactly for
  slots 0 and 1, and leaves the slot empty: all buffer pointers at 0, no ATR, no line convention
  chosen, the default card parameters, and the voltage class unknown although 5 V were selected.
\<close>

theorem sci_hw_init_fresh:
  "\<exists>rc d'. sci_hw_init K cfg i d = Some (rc, d') \<and>
     (rc = SCI_ERROR_OK \<longleftrightarrow> cb_id (sci_cb d i) = 0 \<or> cb_id (sci_cb d i) = 1) \<and>
     (let cb = sci_cb d' i in
        rx_rptr cb = 0 \<and> rx_wptr cb = 0 \<and> tx_rptr cb = 0 \<and> tx_wptr cb = 0 \<and>
        atr_status cb = SCI_WITHOUT_ATR \<and> atr_len cb = 0 \<and> cb_byte_invert cb = NO_DEFINED \<and>
        p_ETU (sci_parameters cb) = 372 \<and> sci_atr_class cb = SCI_UNKNOWN_CLASS)"
  using sci_hw_init_clock [of K cfg i d thesis]
  by (auto simp: sci_cb_init_def Let_def intro: sci_hw_init_clock [of K cfg i d])

end
