(* ===== verification/Sci_Irq.thy ===== *)
theory Sci_Irq
  imports Sci_Reg
begin

text \<open>
  The interrupt handlers of \<^verbatim>\<open>src/smartcard/sci_drv.c\<close>. The receive side takes bytes from the
  serial controller, finds the line convention of the card from the first byte of its answer to
  reset, decodes each byte and stores it in \<^verbatim>\<open>read_buf\<close> at \<^verbatim>\<open>rx_rptr\<close>; the transmit side sends from
  \<^verbatim>\<open>write_buf\<close> at \<^verbatim>\<open>tx_wptr\<close> as many bytes as the FIFO of the controller takes. The two handlers of
  the source are the same text for the two controllers, here one definition with the slot, its
  controller and its interrupt number as arguments.
\<close>

section \<open>The byte table\<close>

definition byte_invert :: "u8 list" where
  "byte_invert =
    [0xFF, 0x7F, 0xBF, 0x3F, 0xDF, 0x5F, 0x9F, 0x1F, 0xEF, 0x6F, 0xAF, 0x2F, 0xCF, 0x4F, 0x8F, 0x0F,
     0xF7, 0x77, 0xB7, 0x37, 0xD7, 0x57, 0x97, 0x17, 0xE7, 0x67, 0xA7, 0x27, 0xC7, 0x47, 0x87, 0x07,
     0xFB, 0x7B, 0xBB, 0x3B, 0xDB, 0x5B, 0x9B, 0x1B, 0xEB, 0x6B, 0xAB, 0x2B, 0xCB, 0x4B, 0x8B, 0x0B,
     0xF3, 0x73, 0xB3, 0x33, 0xD3, 0x53, 0x93, 0x13, 0xE3, 0x63, 0xA3, 0x23, 0xC3, 0x43, 0x83, 0x03,
     0xFD, 0x7D, 0xBD, 0x3D, 0xDD, 0x5D, 0x9D, 0x1D, 0xED, 0x6D, 0xAD, 0x2D, 0xCD, 0x4D, 0x8D, 0x0D,
     0xF5, 0x75, 0xB5, 0x35, 0xD5, 0x55, 0x95, 0x15, 0xE5, 0x65, 0xA5, 0x25, 0xC5, 0x45, 0x85, 0x05,
     0xF9, 0x79, 0xB9, 0x39, 0xD9, 0x59, 0x99, 0x19, 0xE9, 0x69, 0xA9, 0x29, 0xC9, 0x49, 0x89, 0x09,
     0xF1, 0x71, 0xB1, 0x31, 0xD1, 0x51, 0x91, 0x11, 0xE1, 0x61, 0xA1, 0x21, 0xC1, 0x41, 0x81, 0x01,
     0xFE, 0x7E, 0xBE, 0x3E, 0xDE, 0x5E, 0x9E, 0x1E, 0xEE, 0x6E, 0xAE, 0x2E, 0xCE, 0x4E, 0x8E, 0x0E,
     0xF6, 0x76, 0xB6, 0x36, 0xD6, 0x56, 0x96, 0x16, 0xE6, 0x66, 0xA6, 0x26, 0xC6, 0x46, 0x86, 0x06,
     0xFA, 0x7A, 0xBA, 0x3A, 0xDA, 0x5A, 0x9A, 0x1A, 0xEA, 0x6A, 0xAA, 0x2A, 0xCA, 0x4A, 0x8A, 0x0A,
     0xF2, 0x72, 0xB2, 0x32, 0xD2, 0x52, 0x92, 0x12, 0xE2, 0x62, 0xA2, 0x22, 0xC2, 0x42, 0x82, 0x02,
     0xFC, 0x7C, 0xBC, 0x3C, 0xDC, 0x5C, 0x9C, 0x1C, 0xEC, 0x6C, 0xAC, 0x2C, 0xCC, 0x4C, 0x8C, 0x0C,
     0xF4, 0x74, 0xB4, 0x34, 0xD4, 0x54, 0x94, 0x14, 0xE4, 0x64, 0xA4, 0x24, 0xC4, 0x44, 0x84, 0x04,
     0xF8, 0x78, 0xB8, 0x38, 0xD8, 0x58, 0x98, 0x18, 0xE8, 0x68, 0xA8, 0x28, 0xC8, 0x48, 0x88, 0x08,
     0xF0, 0x70, 0xB0, 0x30, 0xD0, 0x50, 0x90, 0x10, 0xE0, 0x60, 0xA0, 0x20, 0xC0, 0x40, 0x80, 0x00]"

definition uninvert_byte :: "u8 \<Rightarrow> u8" where
  "uninvert_byte b = byte_invert ! unat b"

section \<open>Receiving\<close>

text \<open>
  What both \<^verbatim>\<open>red_read\<close> and the handlers do with a received word: detect the convention, decode,
  and store. An index beyond the end of \<^verbatim>\<open>read_buf\<close> is undefined behaviour.
\<close>

definition rx_convention :: "u8 \<Rightarrow> SCI_CONTROL_BLOCK \<Rightarrow> SCI_CONTROL_BLOCK" where
  "rx_convention b cb =
     (if atr_status cb \<noteq> SCI_ATR_READY \<and> cb_byte_invert cb = NO_DEFINED then
        if b = 0x03 then cb\<lparr>cb_byte_invert := INVERT\<rparr>
        else if b = 0x3B then cb\<lparr>cb_byte_invert := UNINVERT\<rparr>
        else cb
      else cb)"

definition rx_store :: "u32 \<Rightarrow> SCI_CONTROL_BLOCK \<Rightarrow> SCI_CONTROL_BLOCK option" where
  "rx_store data cb =
     (let b = ucast data;
          cb = rx_convention b cb;
          b = (if cb_byte_invert cb = INVERT then uninvert_byte b else b)
      in if unat (rx_rptr cb) < SCI_BUFFER_SIZE
         then Some (cb\<lparr>read_buf := (read_buf cb)[unat (rx_rptr cb) := b], rx_rptr := rx_rptr cb + 1\<rparr>)
         else None)"

definition rx_put :: "nat \<Rightarrow> u32 \<Rightarrow> 'w drv \<Rightarrow> 'w drv option" where
  "rx_put i data d =
     (case rx_store data (sci_cb d i) of
        None \<Rightarrow> None | Some cb \<Rightarrow> Some (upd_cb i (\<lambda>_. cb) d))"

fun red_read_loop :: "'w kernel \<Rightarrow> nat \<Rightarrow> nat \<Rightarrow> 'w drv \<Rightarrow> 'w drv option" where
  "red_read_loop K i 0 d = Some d"
| "red_read_loop K i (Suc n) d =
     (if cb_id (sci_cb d i) = 0 \<or> cb_id (sci_cb d i) = 1 then
        let (data, d) = get_reg K i (if cb_id (sci_cb d i) = 0 then BASE_ADDRESS_ASC0
                                     else BASE_ADDRESS_ASC1) ASC_RX_BUF d
        in (case rx_put i data d of None \<Rightarrow> None | Some d \<Rightarrow> red_read_loop K i n d)
      else red_read_loop K i n d)"

definition red_read :: "'w kernel \<Rightarrow> nat \<Rightarrow> 'w drv \<Rightarrow> 'w drv option" where
  "red_read K i d = red_read_loop K i 16 d"

lemma rx_store_rptr:
  assumes "rx_store data cb = Some cb'"
  shows "unat (rx_rptr cb) < SCI_BUFFER_SIZE \<and> unat (rx_rptr cb') = Suc (unat (rx_rptr cb))"
  using assms
  by (auto simp: rx_store_def rx_convention_def Let_def unat_u16_Suc split: if_splits)

text \<open>
  The loop of the handlers over the pending bytes, on the last status word \<open>res\<close>. It ends with
  \<open>(True, d)\<close> where the source returns after an overrun, and with the status and \<open>(False, d)\<close> where
  it goes on to the transmit side.
\<close>

function rx_loop ::
    "'w kernel \<Rightarrow> nat \<Rightarrow> BASE_ADDR \<Rightarrow> u32 \<Rightarrow> 'w drv \<Rightarrow> (u32 \<times> bool \<times> 'w drv) option" where
  "rx_loop K i asc res d =
     (if res AND 1 \<noteq> 0 then
        if res AND 0x20 \<noteq> 0 then
          (case red_read K i d of None \<Rightarrow> None | Some d \<Rightarrow> Some (0, True, d))
        else
          (case rx_put i (fst (get_reg K i asc ASC_RX_BUF d)) (snd (get_reg K i asc ASC_RX_BUF d)) of
             None \<Rightarrow> None
           | Some d' \<Rightarrow>
               let (res', d'') = get_reg K i asc ASC_STA d' in
               if res' AND 1 \<noteq> 0 then rx_loop K i asc res' d'' else Some (res', False, d''))
      else
        let (res', d') = get_reg K i asc ASC_STA d in
        if res' AND 1 \<noteq> 0 then rx_loop K i asc res' d' else Some (res', False, d'))"
  by pat_completeness auto
termination
  apply (relation "measures [\<lambda>(K, i, asc, res, d). SCI_BUFFER_SIZE - unat (rx_rptr (sci_cb d i)),
                             \<lambda>(K, i, asc, res, d). of_bool (res AND 1 = 0)]")
  subgoal by simp
  subgoal for K i asc res d d' p res' d''
    using get_reg_step.oper_frame(1) [of K i asc ASC_STA d']
    by (auto simp: rx_put_def case_prod_unfold split: option.splits dest!: rx_store_rptr)
  subgoal for K i asc res d p res' d'
    using get_reg_step.oper_frame(1) [of K i asc ASC_STA d]
    by (cases "get_reg K i asc ASC_STA d") (auto simp: case_prod_unfold)
  done

declare rx_loop.simps [simp del]

section \<open>Transmitting\<close>

fun tx_loop :: "'w kernel \<Rightarrow> nat \<Rightarrow> BASE_ADDR \<Rightarrow> nat \<Rightarrow> 'w drv \<Rightarrow> 'w drv option" where
  "tx_loop K i asc 0 d = Some d"
| "tx_loop K i asc (Suc n) d =
     (let cb = sci_cb d i in
      case arr_get (write_buf cb) (unat (tx_wptr cb)) of
        None \<Rightarrow> None
      | Some b \<Rightarrow>
          let d = (if cb_byte_invert cb = INVERT
                   then set_reg_writeonly K i asc ASC_TX_BUF (ucast (uninvert_byte b)) d
                   else set_reg_writeonly K i asc ASC_TX_BUF (ucast b) d);
              d = upd_cb i (\<lambda>cb. cb\<lparr>tx_wptr := tx_wptr cb + 1, rx_wptr := rx_wptr cb + 1\<rparr>) d
          in tx_loop K i asc n d)"

text \<open>The number of bytes sent at once: the pointers are promoted to \<^verbatim>\<open>int\<close>, the size is a byte.\<close>

definition tx_size :: "int \<Rightarrow> SCI_CONTROL_BLOCK \<Rightarrow> u8" where
  "tx_size limit cb =
     (if uint (tx_rptr cb) - uint (tx_wptr cb) > limit then word_of_int limit
      else word_of_int (uint (tx_rptr cb) - uint (tx_wptr cb)))"

definition tx_burst ::
    "'w kernel \<Rightarrow> nat \<Rightarrow> BASE_ADDR \<Rightarrow> int \<Rightarrow> u32 \<Rightarrow> 'w drv \<Rightarrow> 'w drv option" where
  "tx_burst K i asc limit res d =
     (if res AND 0x200 \<noteq> 0x200 then
        case tx_loop K i asc (unat (tx_size limit (sci_cb d i))) d of
          None \<Rightarrow> None
        | Some d \<Rightarrow>
            Some (if tx_rptr (sci_cb d i) = tx_wptr (sci_cb d i)
                  then set_serial_irq K i RX_FULL_IRQ d else d)
      else Some d)"

section \<open>The handlers\<close>

definition irq_enter :: "'w kernel \<Rightarrow> config \<Rightarrow> nat \<Rightarrow> BASE_ADDR \<Rightarrow> nat \<Rightarrow> 'w drv \<Rightarrow> 'w drv" where
  "irq_enter K cfg i asc irq d =
     (if LINUX_VERSION_CODE cfg < KERNEL_VERSION_2_6_32 then hw (disable_irq K irq) d
      else set_reg K i asc ASC_INT_EN 0 0x1FF d)"

definition irq_leave :: "'w kernel \<Rightarrow> config \<Rightarrow> nat \<Rightarrow> BASE_ADDR \<Rightarrow> nat \<Rightarrow> 'w drv \<Rightarrow> 'w drv" where
  "irq_leave K cfg i asc irq d =
     (if LINUX_VERSION_CODE cfg < KERNEL_VERSION_2_6_32 then hw (enable_irq K irq) d
      else set_reg K i asc ASC_INT_EN (ucast (irq_mode (sci_cb d i))) 0x1FF d)"

definition rx_active :: "u32 \<Rightarrow> u8 \<Rightarrow> bool" where
  "rx_active res mode \<longleftrightarrow>
     res AND ucast RX_FULL_IRQ \<noteq> 0 \<and>
     (mode = RX_FULL_IRQ \<or> mode = RX_FULL_TX_EMPTY_IRQ \<or>
      mode = TX_HALF_EMPTY_IRQ OR RX_FULL_TX_EMPTY_IRQ)"

definition tx_active :: "u32 \<Rightarrow> u8 \<Rightarrow> bool" where
  "tx_active res mode \<longleftrightarrow>
     res AND ucast TX_EMPTY_IRQ \<noteq> 0 \<and>
     (mode = TX_EMPTY_IRQ \<or> mode = RX_FULL_TX_EMPTY_IRQ \<or>
      mode = TX_HALF_EMPTY_IRQ OR RX_FULL_TX_EMPTY_IRQ)"

definition tx_half_active :: "u32 \<Rightarrow> u8 \<Rightarrow> bool" where
  "tx_half_active res mode \<longleftrightarrow>
     res AND ucast TX_HALF_EMPTY_IRQ \<noteq> 0 \<and> mode = TX_HALF_EMPTY_IRQ OR RX_FULL_TX_EMPTY_IRQ"

definition irq_transmit ::
    "'w kernel \<Rightarrow> nat \<Rightarrow> BASE_ADDR \<Rightarrow> u32 \<Rightarrow> 'w drv \<Rightarrow> 'w drv option" where
  "irq_transmit K i asc res d =
     (if tx_active res (irq_mode (sci_cb d i)) then tx_burst K i asc (int HW_FIFO_SIZE) res d
      else if tx_half_active res (irq_mode (sci_cb d i))
      then tx_burst K i asc (int HW_FIFO_SIZE div 2) res d
      else Some d)"

definition sci_irq_rx_tx_handler ::
    "'w kernel \<Rightarrow> config \<Rightarrow> nat \<Rightarrow> BASE_ADDR \<Rightarrow> nat \<Rightarrow> 'w drv \<Rightarrow> 'w drv option" where
  "sci_irq_rx_tx_handler K cfg i asc irq d =
     (let d = irq_enter K cfg i asc irq d;
          (res, d) = get_reg K i asc ASC_STA d
      in case (if rx_active res (irq_mode (sci_cb d i)) then rx_loop K i asc res d
               else Some (res, False, d)) of
           None \<Rightarrow> None
         | Some (res, returned, d) \<Rightarrow>
             if returned then Some (irq_leave K cfg i asc irq d)
             else (case irq_transmit K i asc res d of
                     None \<Rightarrow> None | Some d \<Rightarrow> Some (irq_leave K cfg i asc irq d)))"

definition sci_irq1_rx_tx_handler :: "'w kernel \<Rightarrow> config \<Rightarrow> 'w drv \<Rightarrow> 'w drv option" where
  "sci_irq1_rx_tx_handler K cfg = sci_irq_rx_tx_handler K cfg 1 BASE_ADDRESS_ASC1 SCI1_INT_RX_TX"

definition sci_irq0_rx_tx_handler :: "'w kernel \<Rightarrow> config \<Rightarrow> 'w drv \<Rightarrow> 'w drv option" where
  "sci_irq0_rx_tx_handler K cfg = sci_irq_rx_tx_handler K cfg 0 BASE_ADDRESS_ASC0 SCI0_INT_RX_TX"

section \<open>The byte table inverts the line code\<close>

lemma byte_invert_table: "byte_invert = map (\<lambda>n. NOT (INVERT_BYTE (word_of_nat n))) [0..<256]"
  by (simp add: INVERT_BYTE_def upt_rec byte_invert_def)

lemma uninvert_byte_eq: "uninvert_byte b = NOT (INVERT_BYTE b)"
  using unat_u8_less [of b] by (simp add: uninvert_byte_def byte_invert_table del: upt_rec_numeral)

interpretation byte_invert_code: line_code uninvert_byte
  by unfold_locales (simp add: uninvert_byte_eq inverse_code.involutive)

section \<open>What a received byte does to the slot\<close>

text \<open>
  The convention after a byte, and the value of a line byte under a convention; \<open>rx_decode\<close> is the
  decoding of a whole byte string, with the convention it ends in.
\<close>

definition next_convention :: "SCI_ATR_STATUS \<Rightarrow> u8 \<Rightarrow> u8 \<Rightarrow> u8" where
  "next_convention st conv b =
     (if st = SCI_WITHOUT_ATR \<and> conv = NO_DEFINED
      then if b = 0x03 then INVERT else if b = 0x3B then UNINVERT else NO_DEFINED
      else conv)"

definition line_byte :: "u8 \<Rightarrow> u8 \<Rightarrow> u8" where
  "line_byte conv b = (if conv = INVERT then uninvert_byte b else b)"

fun rx_decode :: "SCI_ATR_STATUS \<Rightarrow> u8 \<Rightarrow> u8 list \<Rightarrow> u8 \<times> u8 list" where
  "rx_decode st conv [] = (conv, [])"
| "rx_decode st conv (b # bs) =
     (let conv = next_convention st conv b; (c, out) = rx_decode st conv bs
      in (c, line_byte conv b # out))"

lemma rx_convention_eq:
  "rx_convention b cb = cb\<lparr>cb_byte_invert := next_convention (atr_status cb) (cb_byte_invert cb) b\<rparr>"
  by (cases "atr_status cb") (auto simp: rx_convention_def next_convention_def)

lemma rx_store_eq:
  "rx_store data cb =
     (if unat (rx_rptr cb) < SCI_BUFFER_SIZE then
        let c = next_convention (atr_status cb) (cb_byte_invert cb) (ucast data) in
        Some (cb\<lparr>cb_byte_invert := c,
                 read_buf := (read_buf cb)[unat (rx_rptr cb) := line_byte c (ucast data)],
                 rx_rptr := rx_rptr cb + 1\<rparr>)
      else None)"
  by (simp add: rx_store_def rx_convention_eq line_byte_def Let_def)

lemma rx_decode_length [simp]: "length (snd (rx_decode st conv bs)) = length bs"
  by (induction bs arbitrary: conv) (simp_all add: Let_def case_prod_unfold)

section \<open>Every interrupt keeps the slots well-formed\<close>

text \<open>\<open>tx_sent n cb\<close> is the slot after \<open>n\<close> bytes have left the transmit buffer.\<close>

definition tx_sent :: "nat \<Rightarrow> SCI_CONTROL_BLOCK \<Rightarrow> SCI_CONTROL_BLOCK" where
  "tx_sent n cb = cb\<lparr>tx_wptr := tx_wptr cb + of_nat n, rx_wptr := rx_wptr cb + of_nat n\<rparr>"

lemma tx_sent_line:
  assumes "wf_cb i cb" "n \<le> unat (tx_rptr cb) - unat (tx_wptr cb)"
  shows "wf_cb i (tx_sent n cb)" "unat (tx_wptr (tx_sent n cb)) = unat (tx_wptr cb) + n"
    "tx_rptr (tx_sent n cb) = tx_wptr (tx_sent n cb) \<longleftrightarrow> n = unat (tx_rptr cb) - unat (tx_wptr cb)"
proof -
  have le: "unat (tx_wptr cb) \<le> unat (tx_rptr cb)" "unat (tx_rptr cb) \<le> SCI_BUFFER_SIZE"
    using assms by (auto simp: wf_cb_def word_le_nat_alt)
  have w: "unat (tx_wptr cb + of_nat n) = unat (tx_wptr cb) + n"
    using assms le by (intro unat_u16_add) simp
  then show "unat (tx_wptr (tx_sent n cb)) = unat (tx_wptr cb) + n"
    by (simp add: tx_sent_def)
  show "wf_cb i (tx_sent n cb)"
    using assms le w by (auto simp: wf_cb_def tx_sent_def word_le_nat_alt)
  show "tx_rptr (tx_sent n cb) = tx_wptr (tx_sent n cb) \<longleftrightarrow> n = unat (tx_rptr cb) - unat (tx_wptr cb)"
    using le w assms(2) by (auto simp: tx_sent_def word_unat_eq_iff)
qed

lemma tx_size_eq:
  assumes "tx_wptr cb \<le> tx_rptr cb" "limit \<le> 255"
  shows "unat (tx_size (int limit) cb) = min limit (unat (tx_rptr cb) - unat (tx_wptr cb))"
proof -
  have le: "unat (tx_wptr cb) \<le> unat (tx_rptr cb)" using assms by (simp add: word_le_nat_alt)
  then have diff: "uint (tx_rptr cb) - uint (tx_wptr cb) = int (unat (tx_rptr cb) - unat (tx_wptr cb))"
    by (simp add: of_nat_diff)
  have "unat (word_of_int (int n) :: u8) = n" if "n \<le> 255" for n
    using that by (simp add: unat_of_nat)
  then show ?thesis using assms(2) unfolding tx_size_def diff by (simp add: min_def)
qed

lemma rx_store_cb:
  assumes "rx_store data cb = Some cb'"
  shows "cb_id cb' = cb_id cb" "wf_cb i cb \<Longrightarrow> wf_cb i cb'"
  using assms rx_store_rptr [OF assms]
  by (auto simp: rx_store_eq wf_cb_def Let_def split: if_splits)

lemma rx_put_wf:
  assumes "wf_drv cfg d" "rx_put i data d = Some d'"
  shows "wf_drv cfg d'"
proof -
  obtain cb' where cb': "rx_store data (sci_cb d i) = Some cb'" "d' = upd_cb i (\<lambda>_. cb') d"
    using assms(2) by (auto simp: rx_put_def split: option.splits)
  show ?thesis unfolding cb'(2)
    by (rule wf_drv_upd_cb [OF assms(1)]) (rule rx_store_cb(2) [OF cb'(1)])
qed

lemma red_read_loop_wf:
  "wf_drv cfg d \<Longrightarrow> red_read_loop K i n d = Some d' \<Longrightarrow> wf_drv cfg d'"
proof (induction n arbitrary: d)
  case (Suc n)
  show ?case
  proof (cases "cb_id (sci_cb d i) = 0 \<or> cb_id (sci_cb d i) = 1")
    case True
    let ?g = "get_reg K i (if cb_id (sci_cb d i) = 0 then BASE_ADDRESS_ASC0 else BASE_ADDRESS_ASC1)
                ASC_RX_BUF d"
    obtain e where e: "rx_put i (fst ?g) (snd ?g) = Some e" "red_read_loop K i n e = Some d'"
      using Suc.prems(2) True by (auto simp: case_prod_unfold Let_def split: option.splits)
    then have "wf_drv cfg e" using rx_put_wf [OF _ e(1)] Suc.prems(1) by simp
    then show ?thesis using Suc.IH e(2) by blast
  next
    case False
    then show ?thesis using Suc.prems Suc.IH by simp
  qed
qed simp

lemma rx_loop_wf:
  "wf_drv cfg d \<Longrightarrow> rx_loop K i asc res d = Some (res', r, d') \<Longrightarrow> wf_drv cfg d'"
proof (induction K i asc res d rule: rx_loop.induct)
  case (1 K i asc res d)
  note unfolded = "1.prems"(2) [unfolded rx_loop.simps [of K i asc res d]]
  let ?g = "get_reg K i asc ASC_RX_BUF d"
  consider (overrun) e where "red_read K i d = Some e" "d' = e"
    | (byte) e where "res AND 1 \<noteq> 0" "\<not> res AND 0x20 \<noteq> 0" "rx_put i (fst ?g) (snd ?g) = Some e"
    | (idle) "\<not> res AND 1 \<noteq> 0"
    using unfolded by (auto split: if_splits option.splits)
  then show ?case
  proof cases
    case overrun
    then show ?thesis using red_read_loop_wf "1.prems"(1) by (auto simp: red_read_def)
  next
    case byte
    obtain s f where sf: "get_reg K i asc ASC_STA e = (s, f)" by fastforce
    have "wf_drv cfg f"
      using rx_put_wf [OF _ byte(3)] "1.prems"(1) get_reg_step.oper_wf [of cfg K i asc ASC_STA e] sf by simp
    then show ?thesis
      using "1.IH"(1) [OF byte sf [symmetric] refl] unfolded byte sf by (auto split: if_splits)
  next
    case idle
    obtain s f where sf: "get_reg K i asc ASC_STA d = (s, f)" by fastforce
    have "wf_drv cfg f"
      using "1.prems"(1) get_reg_step.oper_wf [of cfg K i asc ASC_STA d] sf by simp
    then show ?thesis
      using "1.IH"(2) [OF idle sf [symmetric] refl] unfolded idle sf by (auto split: if_splits)
  qed
qed

lemma tx_loop_wf:
  assumes "wf_drv cfg d" "i < SCI_NUMBER_OF_CONTROLLERS cfg" "tx_loop K i asc n d = Some d'"
    "n \<le> unat (tx_rptr (sci_cb d i)) - unat (tx_wptr (sci_cb d i))"
  shows "wf_drv cfg d'"
  using assms
proof (induction K i asc n d rule: tx_loop.induct)
  case (2 K i asc n d)
  let ?cb = "sci_cb d i"
  have wf: "wf_cb i ?cb" using "2.prems" by (simp add: wf_drv_def)
  have "wf_cb i (tx_sent 1 ?cb)" "unat (tx_wptr (tx_sent 1 ?cb)) = unat (tx_wptr ?cb) + 1"
    using tx_sent_line [OF wf, of 1] "2.prems"(4) by auto
  then have wf': "wf_cb i (?cb\<lparr>tx_wptr := tx_wptr ?cb + 1, rx_wptr := rx_wptr ?cb + 1\<rparr>)"
    "unat (tx_wptr ?cb + 1) = unat (tx_wptr ?cb) + 1"
    by (simp_all add: tx_sent_def)
  show ?case
    using "2.prems" wf' "2.IH"
    by (auto simp: Let_def wf_drv_upd_cb split: option.splits if_splits)
qed simp

lemma red_read_loop_None_iff:
  "red_read_loop K i n d = None \<longleftrightarrow>
     (cb_id (sci_cb d i) = 0 \<or> cb_id (sci_cb d i) = 1) \<and> 0 < n \<and>
     SCI_BUFFER_SIZE < unat (rx_rptr (sci_cb d i)) + n"
proof (induction n arbitrary: d)
  case (Suc n)
  show ?case
  proof (cases "cb_id (sci_cb d i) = 0 \<or> cb_id (sci_cb d i) = 1")
    case True
    let ?g = "get_reg K i (if cb_id (sci_cb d i) = 0 then BASE_ADDRESS_ASC0 else BASE_ADDRESS_ASC1) ASC_RX_BUF d"
    show ?thesis
    proof (cases "rx_store (fst ?g) (sci_cb d i)")
      case None
      then show ?thesis using True by (auto simp: rx_put_def case_prod_unfold rx_store_eq Let_def split: if_splits)
    next
      case (Some cb')
      then show ?thesis
        using True rx_store_rptr [OF Some] rx_store_cb(1) [OF Some] Suc.IH
        by (auto simp: rx_put_def case_prod_unfold Let_def)
    qed
  next
    case False
    then show ?thesis using Suc.IH by auto
  qed
qed simp

text \<open>
  After an overrun the handler reads sixteen words whatever the room left, so \<^verbatim>\<open>red_read\<close> writes
  beyond the end of \<^verbatim>\<open>read_buf\<close> exactly when the slot is 0 or 1 and fewer than sixteen bytes are free.
\<close>

theorem red_read_overflow:
  "red_read K i d = None \<longleftrightarrow>
     (cb_id (sci_cb d i) = 0 \<or> cb_id (sci_cb d i) = 1) \<and> SCI_BUFFER_SIZE - 16 < unat (rx_rptr (sci_cb d i))"
  by (auto simp: red_read_def red_read_loop_None_iff)

lemma irq_frame [simp]:
  "wf_drv c (irq_enter K cfg i asc irq d) \<longleftrightarrow> wf_drv c d"
  "wf_drv c (irq_leave K cfg i asc irq d) \<longleftrightarrow> wf_drv c d"
  by (simp_all add: irq_enter_def irq_leave_def)

lemma tx_burst_wf:
  assumes "wf_drv cfg d" "i < SCI_NUMBER_OF_CONTROLLERS cfg" "n \<le> 255"
    "tx_burst K i asc (int n) res d = Some d'"
  shows "wf_drv cfg d'"
proof -
  have "tx_wptr (sci_cb d i) \<le> tx_rptr (sci_cb d i)"
    using assms(1, 2) by (simp add: wf_drv_def wf_cb_def)
  then have size: "unat (tx_size (int n) (sci_cb d i)) \<le> unat (tx_rptr (sci_cb d i)) - unat (tx_wptr (sci_cb d i))"
    using tx_size_eq [OF _ assms(3)] by simp
  show ?thesis
    using assms(4) tx_loop_wf [OF assms(1, 2) _ size] assms(1)
    by (auto simp: tx_burst_def split: if_splits option.splits)
qed

lemma irq_transmit_wf:
  assumes "wf_drv cfg d" "i < SCI_NUMBER_OF_CONTROLLERS cfg" "irq_transmit K i asc res d = Some d'"
  shows "wf_drv cfg d'"
  using assms tx_burst_wf [OF assms(1, 2), of 16] tx_burst_wf [OF assms(1, 2), of 8]
  by (auto simp: irq_transmit_def split: if_splits)

lemma irq_handler_wf:
  assumes "wf_drv cfg d" "i < SCI_NUMBER_OF_CONTROLLERS cfg"
    "sci_irq_rx_tx_handler K cfg' i asc irq d = Some d'"
  shows "wf_drv cfg d'"
proof -
  obtain res d1 where get: "get_reg K i asc ASC_STA (irq_enter K cfg' i asc irq d) = (res, d1)"
    by fastforce
  have wf1: "wf_drv cfg d1"
    using get_reg_step.oper_wf [of cfg K i asc ASC_STA "irq_enter K cfg' i asc irq d"] get assms(1) by simp
  obtain res2 r d2 where d2: "(if rx_active res (irq_mode (sci_cb d1 i)) then rx_loop K i asc res d1
        else Some (res, False, d1)) = Some (res2, r, d2)"
      "(if r then Some (irq_leave K cfg' i asc irq d2)
        else (case irq_transmit K i asc res2 d2 of
                None \<Rightarrow> None | Some d \<Rightarrow> Some (irq_leave K cfg' i asc irq d))) = Some d'"
    using assms(3) get by (auto simp: sci_irq_rx_tx_handler_def split: option.splits)
  have "wf_drv cfg d2" using d2(1) wf1 rx_loop_wf by (auto split: if_splits)
  then show ?thesis
    using d2(2) irq_transmit_wf [OF _ assms(2)] by (auto split: if_splits option.splits)
qed

end
