(* ===== verification/Sci_Line.thy ===== *)
theory Sci_Line
  imports Sci_Irq
begin

text \<open>
  The interrupt handlers as a transmission protocol. The serial controller is a parameter: \<open>uart\<close>
  names what the driver relies on, with the bytes in its two FIFOs, the bytes it has put on the line
  and its overrun flag as functions of the outside world. The abstract machine \<open>line\<close> is a half-duplex
  line with an echo; the refinement lemmas show that one call of a handler is one step of it, and
  the properties follow from runs of the abstract machine, in which the controller moves any number
  of bytes between two interrupts.
\<close>

section \<open>The serial controller\<close>

record 'w asc_view =
  u_rx :: "'w \<Rightarrow> u8 list"
  u_tx :: "'w \<Rightarrow> u8 list"
  u_out :: "'w \<Rightarrow> u8 list"
  u_ovr :: "'w \<Rightarrow> bool"

definition asc_same :: "'w asc_view \<Rightarrow> 'w \<Rightarrow> 'w \<Rightarrow> bool" where
  "asc_same U w w' \<longleftrightarrow>
     u_rx U w' = u_rx U w \<and> u_tx U w' = u_tx U w \<and> u_out U w' = u_out U w \<and> u_ovr U w' = u_ovr U w"

text \<open>
  The status word: bit 0 is set while received bytes wait, bit 1 while the transmit FIFO is empty,
  bit 2 while it is at least half empty, bit 9 while it is full, bit 5 after an overrun.
\<close>

definition asc_status :: "'w asc_view \<Rightarrow> 'w \<Rightarrow> u32 \<Rightarrow> bool" where
  "asc_status U w v \<longleftrightarrow>
     (v AND 1 \<noteq> 0 \<longleftrightarrow> u_rx U w \<noteq> []) \<and> (v AND 2 \<noteq> 0 \<longleftrightarrow> u_tx U w = []) \<and>
     (v AND 4 \<noteq> 0 \<longleftrightarrow> length (u_tx U w) \<le> 8) \<and> (v AND 0x20 \<noteq> 0 \<longleftrightarrow> u_ovr U w) \<and>
     (v AND 0x200 \<noteq> 0 \<longleftrightarrow> length (u_tx U w) = 16)"

text \<open>
  The registers, as long as a handler runs: reading the receive register takes the first waiting
  byte and does not cause an overrun, which is only reported while the receive FIFO is full; a byte
  written while the transmit FIFO has room is put at its end; reading the status and masking the
  interrupt move no data. Nothing is said of an empty receiver or a full transmitter.
\<close>

definition uart :: "'w kernel \<Rightarrow> u32 \<Rightarrow> 'w asc_view \<Rightarrow> bool" where
  "uart K base U \<longleftrightarrow>
     (\<forall>w. asc_status U w (fst (mmio_read K (base + ASC_STA) w)) \<and>
          asc_same U w (snd (mmio_read K (base + ASC_STA) w))) \<and>
     (\<forall>w. u_ovr U w \<longrightarrow> length (u_rx U w) = 16) \<and>
     (\<forall>w b q. u_rx U w = b # q \<longrightarrow>
        (let (v, w') = mmio_read K (base + ASC_RX_BUF) w in
         ucast v = b \<and> u_rx U w' = q \<and> u_tx U w' = u_tx U w \<and> u_out U w' = u_out U w \<and>
         (u_ovr U w' \<longrightarrow> u_ovr U w))) \<and>
     (\<forall>v w. length (u_tx U w) < 16 \<longrightarrow>
        (let w' = mmio_write K (base + ASC_TX_BUF) v w in
         u_tx U w' = u_tx U w @ [ucast v] \<and> u_rx U w' = u_rx U w \<and> u_out U w' = u_out U w \<and>
         u_ovr U w' = u_ovr U w)) \<and>
     (\<forall>f w. asc_same U w (mmio_modify K (base + ASC_INT_EN) f w)) \<and>
     (\<forall>n w. asc_same U w (disable_irq K n w) \<and> asc_same U w (enable_irq K n w))"

definition is_asc :: "BASE_ADDR \<Rightarrow> bool" where
  "is_asc asc \<longleftrightarrow> asc = BASE_ADDRESS_ASC0 \<or> asc = BASE_ADDRESS_ASC1"

lemma asc_mmio:
  assumes "is_asc asc"
  shows "get_reg K i asc reg d = hw_get (mmio_read K (base_address_asc (sci_cb d i) + reg)) d"
    "set_reg K i asc reg bits msk d =
       hw (mmio_modify K (base_address_asc (sci_cb d i) + reg) (\<lambda>v. (v AND NOT msk) OR bits)) d"
    "set_reg_writeonly K i asc reg bits d =
       hw (mmio_write K (base_address_asc (sci_cb d i) + reg) bits) d"
  using assms by (auto simp: is_asc_def get_reg_mmio set_reg_mmio set_reg_writeonly_mmio)

lemma uart_sta:
  assumes "uart K base U"
  shows "asc_status U w (fst (mmio_read K (base + ASC_STA) w))"
    "asc_same U w (snd (mmio_read K (base + ASC_STA) w))" "u_ovr U w \<Longrightarrow> length (u_rx U w) = 16"
    "asc_same U w (mmio_modify K (base + ASC_INT_EN) f w)"
    "asc_same U w (disable_irq K n w)" "asc_same U w (enable_irq K n w)"
  using assms by (auto simp: uart_def)

lemma uart_rx:
  assumes "uart K base U" "u_rx U w = b # q"
  shows "ucast (fst (mmio_read K (base + ASC_RX_BUF) w)) = b"
    "u_rx U (snd (mmio_read K (base + ASC_RX_BUF) w)) = q"
    "u_tx U (snd (mmio_read K (base + ASC_RX_BUF) w)) = u_tx U w"
    "u_out U (snd (mmio_read K (base + ASC_RX_BUF) w)) = u_out U w"
    "\<not> u_ovr U w \<Longrightarrow> \<not> u_ovr U (snd (mmio_read K (base + ASC_RX_BUF) w))"
  using assms unfolding uart_def by (auto simp: case_prod_unfold Let_def)

lemma uart_tx:
  assumes "uart K base U" "length (u_tx U w) < 16"
  shows "u_tx U (mmio_write K (base + ASC_TX_BUF) v w) = u_tx U w @ [ucast v]"
    "u_rx U (mmio_write K (base + ASC_TX_BUF) v w) = u_rx U w"
    "u_out U (mmio_write K (base + ASC_TX_BUF) v w) = u_out U w"
  using assms unfolding uart_def by (auto simp: Let_def)

lemma asc_sameD:
  assumes "asc_same U w w'"
  shows "u_rx U w' = u_rx U w" "u_tx U w' = u_tx U w" "u_out U w' = u_out U w" "u_ovr U w' = u_ovr U w"
    "asc_status U w' v \<longleftrightarrow> asc_status U w v"
  using assms by (simp_all add: asc_same_def asc_status_def)

lemma asc_same_trans: "asc_same U w w' \<Longrightarrow> asc_same U w' w'' \<Longrightarrow> asc_same U w w''"
  by (simp add: asc_same_def)

lemma asc_same_refl [simp]: "asc_same U w w"
  by (simp add: asc_same_def)

lemma hw_get_split: "hw_get f d = (fst (f (world d)), snd (hw_get f d))"
  by (simp add: hw_get_def split: prod.split)

section \<open>The receive loop\<close>

definition rx_all :: "u8 list \<Rightarrow> SCI_CONTROL_BLOCK \<Rightarrow> SCI_CONTROL_BLOCK" where
  "rx_all bs cb =
     (let (c, out) = rx_decode (atr_status cb) (cb_byte_invert cb) bs; r = unat (rx_rptr cb) in
      cb\<lparr>cb_byte_invert := c,
         read_buf := take r (read_buf cb) @ out @ drop (r + length bs) (read_buf cb),
         rx_rptr := rx_rptr cb + of_nat (length bs)\<rparr>)"

lemma rx_all_Nil [simp]: "rx_all [] cb = cb"
  by (simp add: rx_all_def)

lemma rx_all_Cons:
  assumes "rx_store data cb = Some cb'" "ucast data = b" "length (read_buf cb) = SCI_BUFFER_SIZE"
    "unat (rx_rptr cb) + length (b # bs) \<le> SCI_BUFFER_SIZE"
  shows "rx_all bs cb' = rx_all (b # bs) cb"
proof -
  let ?c = "next_convention (atr_status cb) (cb_byte_invert cb) b"
  let ?r = "unat (rx_rptr cb)"
  obtain c out where dec: "rx_decode (atr_status cb) ?c bs = (c, out)" by fastforce
  have len: "length out = length bs" using rx_decode_length [of "atr_status cb" ?c bs] dec by simp
  have r: "unat (rx_rptr cb + 1) = Suc ?r" using assms by (intro unat_u16_Suc) simp
  have "take (Suc ?r) ((read_buf cb)[?r := x]) = take ?r (read_buf cb) @ [x]" for x
    using assms by (simp add: take_Suc_conv_app_nth)
  then show ?thesis using assms dec len r
    by (auto simp: rx_store_eq rx_all_def Let_def add.assoc add.commute)
qed

text \<open>One round of the receive loop.\<close>

lemma rx_loop_byte:
  assumes "uart K base U" "is_asc asc" "base_address_asc (sci_cb d i) = base"
    "asc_status U (world d) res" "\<not> u_ovr U (world d)" "u_rx U (world d) = b # bs"
  obtains (full) "SCI_BUFFER_SIZE \<le> unat (rx_rptr (sci_cb d i))" "rx_loop K i asc res d = None"
  | (stored) data cb' res' d' where
      "rx_store data (sci_cb d i) = Some cb'" "ucast data = b"
      "sci_cb d' = (sci_cb d)(i := cb')" "u_rx U (world d') = bs" "u_tx U (world d') = u_tx U (world d)"
      "u_out U (world d') = u_out U (world d)" "\<not> u_ovr U (world d')" "asc_status U (world d') res'"
      "rx_loop K i asc res d =
         (if bs \<noteq> [] then rx_loop K i asc res' d' else Some (res', False, d'))"
proof -
  let ?rx = "mmio_read K (base + ASC_RX_BUF)" and ?sta = "mmio_read K (base + ASC_STA)"
  let ?data = "fst (?rx (world d))"
  define d1 where "d1 = snd (hw_get ?rx d)"
  note rx = uart_rx [OF assms(1, 6)]
  have res: "res AND 1 \<noteq> 0" "res AND 0x20 = 0" using assms(4-6) by (simp_all add: asc_status_def)
  have get: "get_reg K i asc ASC_RX_BUF d = (?data, d1)"
    using assms hw_get_split [of ?rx d] by (simp add: asc_mmio d1_def)
  show thesis
  proof (cases "rx_store ?data (sci_cb d i)")
    case None
    then have "rx_loop K i asc res d = None"
      using get res by (subst rx_loop.simps) (simp add: rx_put_def d1_def)
    moreover have "SCI_BUFFER_SIZE \<le> unat (rx_rptr (sci_cb d i))"
      using None by (simp add: rx_store_eq Let_def split: if_splits)
    ultimately show thesis using full by blast
  next
    case (Some cb')
    define d2 where "d2 = upd_cb i (\<lambda>_. cb') d1"
    define d3 where "d3 = snd (hw_get ?sta d2)"
    let ?res = "fst (?sta (world d2))"
    have "base_address_asc cb' = base"
      using Some assms(3) by (auto simp: rx_store_eq Let_def split: if_splits)
    then have get': "get_reg K i asc ASC_STA d2 = (?res, d3)"
      using assms hw_get_split [of ?sta d2] by (simp add: asc_mmio d2_def d3_def)
    have same: "asc_same U (world d2) (world d3)" "asc_status U (world d2) ?res"
      by (simp_all add: d3_def uart_sta [OF assms(1)])
    have w2: "u_rx U (world d2) = bs" "u_tx U (world d2) = u_tx U (world d)"
      "u_out U (world d2) = u_out U (world d)" "\<not> u_ovr U (world d2)"
      using rx assms(5) by (simp_all add: d1_def d2_def)
    have cb: "sci_cb d3 = (sci_cb d)(i := cb')" by (simp add: d1_def d2_def d3_def)
    have put: "rx_put i ?data d1 = Some d2"
      using Some by (simp add: rx_put_def d1_def d2_def)
    have "?res AND 1 \<noteq> 0 \<longleftrightarrow> bs \<noteq> []" using same(2) w2(1) by (simp add: asc_status_def)
    then have "rx_loop K i asc res d = (if bs \<noteq> [] then rx_loop K i asc ?res d3 else Some (?res, False, d3))"
      using get get' put res by (subst rx_loop.simps) simp
    then show thesis
      using stored [OF Some rx(1) cb] w2 same asc_sameD [OF same(1)] by simp
  qed
qed

text \<open>What the receiver leaves behind once it has handed over its bytes.\<close>

definition rx_drained :: "'w asc_view \<Rightarrow> nat \<Rightarrow> 'w drv \<Rightarrow> 'w drv \<Rightarrow> bool" where
  "rx_drained U i d d' \<longleftrightarrow>
     sci_cb d' = (sci_cb d)(i := rx_all (u_rx U (world d)) (sci_cb d i)) \<and>
     u_rx U (world d') = [] \<and> u_tx U (world d') = u_tx U (world d) \<and> u_out U (world d') = u_out U (world d)"

lemma rx_drained_step:
  assumes "rx_drained U i d1 d'" "sci_cb d1 = (sci_cb d)(i := cb')"
    "rx_all (u_rx U (world d1)) cb' = rx_all (u_rx U (world d)) (sci_cb d i)"
    "u_tx U (world d1) = u_tx U (world d)" "u_out U (world d1) = u_out U (world d)"
  shows "rx_drained U i d d'"
  using assms by (simp add: rx_drained_def)

lemma rx_loop_drains:
  assumes "uart K base U" "is_asc asc" "base_address_asc (sci_cb d i) = base"
    "asc_status U (world d) res" "\<not> u_ovr U (world d)" "u_rx U (world d) = bs" "bs \<noteq> []"
    "length (read_buf (sci_cb d i)) = SCI_BUFFER_SIZE"
    "unat (rx_rptr (sci_cb d i)) + length bs \<le> SCI_BUFFER_SIZE"
  shows "\<exists>res' d'. rx_loop K i asc res d = Some (res', False, d') \<and> rx_drained U i d d' \<and>
     asc_status U (world d') res'"
  using assms(3-)
proof (induction bs arbitrary: res d)
  case (Cons b bs)
  show ?case
    using assms(1, 2) Cons.prems(1-4)
  proof (cases rule: rx_loop_byte)
    case full
    then show ?thesis using Cons.prems by simp
  next
    case (stored data cb' res' d')
    note cb' = stored(1)
    have inv: "base_address_asc cb' = base" "length (read_buf cb') = SCI_BUFFER_SIZE"
      "unat (rx_rptr cb') + length bs \<le> SCI_BUFFER_SIZE"
      using cb' Cons.prems rx_store_rptr [OF cb']
      by (auto simp: rx_store_eq Let_def split: if_splits)
    have all: "rx_all (u_rx U (world d')) cb' = rx_all (u_rx U (world d)) (sci_cb d i)"
      using rx_all_Cons [OF cb' stored(2)] Cons.prems stored(4) by simp
    show ?thesis
    proof (cases "bs = []")
      case True
      then show ?thesis using stored all by (auto simp: rx_drained_def)
    next
      case False
      have "\<exists>r e. rx_loop K i asc res' d' = Some (r, False, e) \<and> rx_drained U i d' e \<and> asc_status U (world e) r"
        using Cons.prems False stored inv by (intro Cons.IH) simp_all
      then show ?thesis using stored(9) False rx_drained_step [OF _ stored(3) all stored(5, 6)] by auto
    qed
  qed
qed simp

lemma rx_loop_overflows:
  assumes "uart K base U" "is_asc asc" "base_address_asc (sci_cb d i) = base"
    "asc_status U (world d) res" "\<not> u_ovr U (world d)" "u_rx U (world d) = bs" "bs \<noteq> []"
    "SCI_BUFFER_SIZE < unat (rx_rptr (sci_cb d i)) + length bs"
  shows "rx_loop K i asc res d = None"
  using assms(3-)
proof (induction bs arbitrary: res d)
  case (Cons b bs)
  show ?case
    using assms(1, 2) Cons.prems(1-4)
  proof (cases rule: rx_loop_byte)
    case (stored data cb' res' d')
    have "base_address_asc cb' = base"
      using stored(1) Cons.prems by (auto simp: rx_store_eq Let_def split: if_splits)
    moreover have "bs \<noteq> []"
      using Cons.prems rx_store_rptr [OF stored(1)] by (cases bs) auto
    ultimately show ?thesis
      using stored Cons.prems rx_store_rptr [OF stored(1)] by (simp add: Cons.IH)
  qed
qed simp

text \<open>After an overrun all sixteen bytes of the full FIFO are read without looking at the status.\<close>

lemma red_read_loop_drains:
  assumes "uart K base U" "base_address_asc (sci_cb d i) = base" "cb_id (sci_cb d i) \<in> {0, 1}"
    "u_rx U (world d) = bs" "length (read_buf (sci_cb d i)) = SCI_BUFFER_SIZE"
    "unat (rx_rptr (sci_cb d i)) + length bs \<le> SCI_BUFFER_SIZE"
  shows "\<exists>d'. red_read_loop K i (length bs) d = Some d' \<and> rx_drained U i d d'"
  using assms(2-)
proof (induction bs arbitrary: d)
  case Nil
  then show ?case by (simp add: rx_drained_def)
next
  case (Cons b bs)
  define asc where "asc = (if cb_id (sci_cb d i) = 0 then BASE_ADDRESS_ASC0 else BASE_ADDRESS_ASC1)"
  let ?rx = "mmio_read K (base + ASC_RX_BUF)"
  let ?data = "fst (?rx (world d))"
  define d1 where "d1 = snd (hw_get ?rx d)"
  note rx = uart_rx [OF assms(1) Cons.prems(3)]
  have "is_asc asc" by (simp add: asc_def is_asc_def)
  then have get: "get_reg K i asc ASC_RX_BUF d = (?data, d1)"
    using Cons.prems hw_get_split [of ?rx d] by (simp add: asc_mmio d1_def)
  obtain cb' where cb': "rx_store ?data (sci_cb d i) = Some cb'"
    using Cons.prems(5) by (simp add: rx_store_eq Let_def)
  define d2 where "d2 = upd_cb i (\<lambda>_. cb') d1"
  have step: "red_read_loop K i (length (b # bs)) d = red_read_loop K i (length bs) d2"
    using Cons.prems(2) get cb' by (auto simp: asc_def rx_put_def d1_def d2_def Let_def)
  have w2: "sci_cb d2 = (sci_cb d)(i := cb')" "u_rx U (world d2) = bs" "u_tx U (world d2) = u_tx U (world d)"
    "u_out U (world d2) = u_out U (world d)"
    using rx by (simp_all add: d1_def d2_def)
  have inv: "base_address_asc cb' = base" "length (read_buf cb') = SCI_BUFFER_SIZE" "cb_id cb' = cb_id (sci_cb d i)"
      "unat (rx_rptr cb') + length bs \<le> SCI_BUFFER_SIZE"
    using cb' Cons.prems rx_store_rptr [OF cb'] by (auto simp: rx_store_eq Let_def split: if_splits)
  have all: "rx_all (u_rx U (world d2)) cb' = rx_all (u_rx U (world d)) (sci_cb d i)"
    using rx_all_Cons [OF cb' rx(1)] Cons.prems w2(2) by simp
  have "\<exists>e. red_read_loop K i (length bs) d2 = Some e \<and> rx_drained U i d2 e"
    using Cons.prems inv w2 by (intro Cons.IH) simp_all
  then show ?case unfolding step using rx_drained_step [OF _ w2(1) all w2(3, 4)] by blast
qed

section \<open>The transmit loop\<close>

definition tx_chunk :: "nat \<Rightarrow> SCI_CONTROL_BLOCK \<Rightarrow> u8 list" where
  "tx_chunk n cb = map (line_byte (cb_byte_invert cb)) (take n (drop (unat (tx_wptr cb)) (write_buf cb)))"

lemma tx_loop_sends:
  assumes "uart K base U" "is_asc asc" "base_address_asc (sci_cb d i) = base"
    "length (write_buf (sci_cb d i)) = SCI_BUFFER_SIZE"
    "unat (tx_wptr (sci_cb d i)) + n \<le> SCI_BUFFER_SIZE" "length (u_tx U (world d)) + n \<le> 16"
  shows "\<exists>d'. tx_loop K i asc n d = Some d' \<and> sci_cb d' = (sci_cb d)(i := tx_sent n (sci_cb d i)) \<and>
     u_tx U (world d') = u_tx U (world d) @ tx_chunk n (sci_cb d i) \<and>
     u_rx U (world d') = u_rx U (world d) \<and> u_out U (world d') = u_out U (world d)"
  using assms(3-)
proof (induction n arbitrary: d)
  case 0
  then show ?case by (simp add: tx_sent_def tx_chunk_def)
next
  case (Suc n)
  let ?cb = "sci_cb d i"
  let ?p = "unat (tx_wptr ?cb)"
  let ?b = "write_buf ?cb ! ?p"
  define d1 where "d1 = upd_cb i (\<lambda>cb. cb\<lparr>tx_wptr := tx_wptr cb + 1, rx_wptr := rx_wptr cb + 1\<rparr>)
     (hw (mmio_write K (base + ASC_TX_BUF) (ucast (line_byte (cb_byte_invert ?cb) ?b))) d)"
  have p: "?p < length (write_buf ?cb)" "unat (tx_wptr ?cb + 1) = Suc ?p"
    using Suc.prems by (auto intro: unat_u16_Suc)
  have cb1: "sci_cb d1 = (sci_cb d)(i := ?cb\<lparr>tx_wptr := tx_wptr ?cb + 1, rx_wptr := rx_wptr ?cb + 1\<rparr>)"
    by (simp add: d1_def)
  have chunk: "tx_chunk (Suc n) ?cb = line_byte (cb_byte_invert ?cb) ?b # tx_chunk n (sci_cb d1 i)"
    using p by (simp add: tx_chunk_def cb1 take_drop_nth_Cons)
  have sent: "tx_sent n (sci_cb d1 i) = tx_sent (Suc n) ?cb"
    by (simp add: tx_sent_def cb1)
  have room: "length (u_tx U (world d)) < 16" using Suc.prems by simp
  have w1: "u_tx U (world d1) = u_tx U (world d) @ [line_byte (cb_byte_invert ?cb) ?b]"
    "u_rx U (world d1) = u_rx U (world d)" "u_out U (world d1) = u_out U (world d)"
    by (simp_all add: d1_def uart_tx [OF assms(1) room])
  have "tx_loop K i asc (Suc n) d = tx_loop K i asc n d1"
    using p Suc.prems assms(2) by (simp add: arr_get_def Let_def d1_def asc_mmio line_byte_def)
  moreover have "\<exists>d'. tx_loop K i asc n d1 = Some d' \<and>
     sci_cb d' = (sci_cb d1)(i := tx_sent n (sci_cb d1 i)) \<and>
     u_tx U (world d') = u_tx U (world d1) @ tx_chunk n (sci_cb d1 i) \<and>
     u_rx U (world d') = u_rx U (world d1) \<and> u_out U (world d') = u_out U (world d1)"
    using Suc.prems p w1 by (intro Suc.IH) (simp_all add: cb1)
  ultimately show ?case
    unfolding chunk sent by (auto simp: cb1 w1 fun_eq_iff)
qed

section \<open>The abstract line\<close>

text \<open>
  \<open>received\<close> are the decoded bytes in the driver, of which the first \<open>skipped\<close> are not for the user;
  \<open>pending\<close> are the bytes still to be sent, \<open>in_fifo\<close> those handed to the transmitter, \<open>sent\<close> all
  bytes put on the line so far, \<open>on_wire\<close> those the receiver has not delivered yet.
\<close>

record line =
  received :: "u8 list"
  skipped :: u16
  pending :: "u8 list"
  in_fifo :: "u8 list"
  on_wire :: "u8 list"
  sent :: "u8 list"
  convention :: u8
  atr_known :: SCI_ATR_STATUS
  mode :: u8

definition line_receive :: "line \<Rightarrow> line" where
  "line_receive l =
     (let (c, out) = rx_decode (atr_known l) (convention l) (on_wire l) in
      l\<lparr>received := received l @ out, convention := c, on_wire := []\<rparr>)"

text \<open>
  How many bytes the transmitter may be given: its whole FIFO if that is empty, half of it if it is
  half empty and the interrupt for this case is enabled.
\<close>

definition send_limit :: "line \<Rightarrow> nat option" where
  "send_limit l =
     (if mode l = RX_FULL_IRQ then None
      else if in_fifo l = [] then Some 16
      else if mode l = 7 \<and> length (in_fifo l) \<le> 8 then Some 8
      else None)"

definition line_put :: "nat \<Rightarrow> line \<Rightarrow> line" where
  "line_put k l =
     (let chunk = take k (pending l); rest = drop k (pending l) in
      l\<lparr>pending := rest, in_fifo := in_fifo l @ map (line_byte (convention l)) chunk,
        skipped := skipped l + of_nat (length chunk),
        mode := if rest = [] then RX_FULL_IRQ else mode l\<rparr>)"

definition line_send :: "line \<Rightarrow> line" where
  "line_send l = (case send_limit l of None \<Rightarrow> l | Some k \<Rightarrow> line_put k l)"

text \<open>One interrupt; after an overrun it only receives.\<close>

definition line_step :: "bool \<Rightarrow> line \<Rightarrow> line" where
  "line_step overrun l = (if overrun then line_receive l else line_send (line_receive l))"

definition line_of :: "'w asc_view \<Rightarrow> nat \<Rightarrow> 'w drv \<Rightarrow> line" where
  "line_of U i d =
     (let cb = sci_cb d i in
      \<lparr>received = take (unat (rx_rptr cb)) (read_buf cb), skipped = rx_wptr cb,
       pending = take (unat (tx_rptr cb) - unat (tx_wptr cb)) (drop (unat (tx_wptr cb)) (write_buf cb)),
       in_fifo = u_tx U (world d), on_wire = u_rx U (world d), sent = u_out U (world d),
       convention = cb_byte_invert cb, atr_known = atr_status cb, mode = irq_mode cb\<rparr>)"

definition slot_ok :: "nat \<Rightarrow> 'w drv \<Rightarrow> bool" where
  "slot_ok i d \<longleftrightarrow> i < 2 \<and> wf_cb i (sci_cb d i) \<and>
     irq_mode (sci_cb d i) \<in> {RX_FULL_IRQ, RX_FULL_TX_EMPTY_IRQ, 7}"

lemma rx_all_line:
  assumes "wf_cb i cb" "unat (rx_rptr cb) + length bs \<le> SCI_BUFFER_SIZE"
  shows "wf_cb i (rx_all bs cb)"
    "unat (rx_rptr (rx_all bs cb)) = unat (rx_rptr cb) + length bs"
    "take (unat (rx_rptr cb) + length bs) (read_buf (rx_all bs cb)) =
       take (unat (rx_rptr cb)) (read_buf cb) @ snd (rx_decode (atr_status cb) (cb_byte_invert cb) bs)"
    "cb_byte_invert (rx_all bs cb) = fst (rx_decode (atr_status cb) (cb_byte_invert cb) bs)"
proof -
  obtain c out where dec: "rx_decode (atr_status cb) (cb_byte_invert cb) bs = (c, out)" by fastforce
  have len: "length out = length bs"
    using rx_decode_length [of "atr_status cb" "cb_byte_invert cb" bs] dec by simp
  have r: "unat (rx_rptr cb + of_nat (length bs)) = unat (rx_rptr cb) + length bs"
    using assms by (intro unat_u16_add) simp
  show "wf_cb i (rx_all bs cb)" using assms r by (simp add: rx_all_def Let_def dec wf_cb_def len)
  show "unat (rx_rptr (rx_all bs cb)) = unat (rx_rptr cb) + length bs"
    using r by (simp add: rx_all_def Let_def dec)
  show "cb_byte_invert (rx_all bs cb) = fst (rx_decode (atr_status cb) (cb_byte_invert cb) bs)"
    by (simp add: rx_all_def Let_def dec)
  show "take (unat (rx_rptr cb) + length bs) (read_buf (rx_all bs cb)) =
       take (unat (rx_rptr cb)) (read_buf cb) @ snd (rx_decode (atr_status cb) (cb_byte_invert cb) bs)"
    using assms by (simp add: rx_all_def Let_def dec len wf_cb_def)
qed

lemma rx_all_other [simp]:
  "tx_rptr (rx_all bs cb) = tx_rptr cb" "tx_wptr (rx_all bs cb) = tx_wptr cb"
  "rx_wptr (rx_all bs cb) = rx_wptr cb" "write_buf (rx_all bs cb) = write_buf cb"
  "irq_mode (rx_all bs cb) = irq_mode cb" "atr_status (rx_all bs cb) = atr_status cb"
  "base_address_asc (rx_all bs cb) = base_address_asc cb" "cb_id (rx_all bs cb) = cb_id cb"
  by (simp_all add: rx_all_def Let_def case_prod_unfold)

text \<open>The receive half of the handler.\<close>

lemma rx_drained_line:
  assumes "rx_drained U i d d'" "slot_ok i d" "base_address_asc (sci_cb d i) = base"
    "unat (rx_rptr (sci_cb d i)) + length (u_rx U (world d)) \<le> SCI_BUFFER_SIZE"
  shows "line_of U i d' = line_receive (line_of U i d)" "slot_ok i d'" "base_address_asc (sci_cb d' i) = base"
    "\<forall>j. j \<noteq> i \<longrightarrow> sci_cb d' j = sci_cb d j"
proof -
  have wf: "wf_cb i (sci_cb d i)" using assms(2) by (simp add: slot_ok_def)
  show "line_of U i d' = line_receive (line_of U i d)"
    using rx_all_line [OF wf assms(4)] assms(1)
    by (simp add: rx_drained_def line_of_def line_receive_def Let_def case_prod_unfold)
  show "slot_ok i d'" "base_address_asc (sci_cb d' i) = base" "\<forall>j. j \<noteq> i \<longrightarrow> sci_cb d' j = sci_cb d j"
    using assms rx_all_line(1) [OF wf assms(4)] by (simp_all add: slot_ok_def rx_drained_def)
qed

lemma irq_receive_refines:
  assumes "uart K base U" "is_asc asc" "base_address_asc (sci_cb d i) = base" "slot_ok i d"
    "asc_status U (world d) res"
    "unat (rx_rptr (sci_cb d i)) + length (u_rx U (world d)) \<le> SCI_BUFFER_SIZE"
  shows "\<exists>res' d'. (if rx_active res (irq_mode (sci_cb d i)) then rx_loop K i asc res d
                    else Some (res, False, d)) = Some (res', u_ovr U (world d), d') \<and>
     line_of U i d' = line_receive (line_of U i d) \<and>
     slot_ok i d' \<and> base_address_asc (sci_cb d' i) = base \<and>
     (\<forall>j. j \<noteq> i \<longrightarrow> sci_cb d' j = sci_cb d j) \<and> (u_ovr U (world d) \<or> asc_status U (world d') res')"
proof (cases "u_rx U (world d) = []")
  case True
  then have "\<not> u_ovr U (world d)" using uart_sta(3) [OF assms(1), of "world d"] by auto
  then show ?thesis
    using assms True by (simp add: rx_active_def asc_status_def line_receive_def line_of_def Let_def)
next
  case False
  have act: "rx_active res (irq_mode (sci_cb d i))"
    using False assms by (auto simp: rx_active_def slot_ok_def asc_status_def)
  have len: "length (read_buf (sci_cb d i)) = SCI_BUFFER_SIZE" "cb_id (sci_cb d i) \<in> {0, 1}"
    using assms(4) by (auto simp: slot_ok_def wf_cb_def less_2_cases_iff)
  note line = rx_drained_line [OF _ assms(4, 3, 6)]
  show ?thesis
  proof (cases "u_ovr U (world d)")
    case True
    then obtain d' where d': "red_read K i d = Some d'" "rx_drained U i d d'"
      using red_read_loop_drains [OF assms(1, 3) len(2) refl len(1) assms(6)] uart_sta(3) [OF assms(1), of "world d"]
      by (auto simp: red_read_def)
    have "rx_loop K i asc res d = Some (0, True, d')"
      using True False assms(5) d'(1) by (subst rx_loop.simps) (simp add: asc_status_def)
    then show ?thesis using act True line [OF d'(2)] by auto
  next
    case novr: False
    obtain res' d' where "rx_loop K i asc res d = Some (res', False, d')" "rx_drained U i d d'"
        "asc_status U (world d') res'"
      using rx_loop_drains [OF assms(1-3, 5) novr refl False len(1) assms(6)] by blast
    then show ?thesis using act novr line by auto
  qed
qed

lemma pending_chunk:
  assumes "p + m \<le> length ws" "n = min k m"
  shows "take k (take m (drop p ws)) = take n (drop p ws)"
    "drop k (take m (drop p ws)) = take (m - n) (drop (p + n) ws)"
    "drop k (take m (drop p ws)) = [] \<longleftrightarrow> m \<le> k" "length (take n (drop p ws)) = n"
  using assms by (auto simp: drop_take min_def add.commute)

lemma tx_burst_refines:
  assumes "uart K base U" "is_asc asc" "base_address_asc (sci_cb d i) = base" "slot_ok i d"
    "res AND 0x200 = 0" "length (u_tx U (world d)) + k \<le> 16"
  shows "\<exists>d'. tx_burst K i asc (int k) res d = Some d' \<and> line_of U i d' = line_put k (line_of U i d) \<and>
     slot_ok i d' \<and> base_address_asc (sci_cb d' i) = base \<and> (\<forall>j. j \<noteq> i \<longrightarrow> sci_cb d' j = sci_cb d j)"
proof -
  let ?cb = "sci_cb d i"
  define p m n where "p = unat (tx_wptr ?cb)" and "m = unat (tx_rptr ?cb) - p" and "n = min k m"
  have wf: "wf_cb i ?cb" using assms(4) by (simp add: slot_ok_def)
  have size: "unat (tx_size (int k) ?cb) = n"
    using tx_size_eq [of ?cb k] wf assms(6) by (simp add: wf_cb_def n_def m_def p_def)
  have len: "length (write_buf ?cb) = SCI_BUFFER_SIZE" and pm: "p + m \<le> SCI_BUFFER_SIZE"
    and rptr: "unat (tx_rptr ?cb) = p + m"
    using wf by (auto simp: wf_cb_def word_le_nat_alt p_def m_def)
  have fits: "unat (tx_wptr ?cb) + n \<le> SCI_BUFFER_SIZE" "length (u_tx U (world d)) + n \<le> 16"
    using pm assms(6) by (simp_all add: n_def p_def [symmetric])
  obtain d1 where d1: "tx_loop K i asc n d = Some d1" "sci_cb d1 = (sci_cb d)(i := tx_sent n ?cb)"
      "u_tx U (world d1) = u_tx U (world d) @ tx_chunk n ?cb" "u_rx U (world d1) = u_rx U (world d)"
      "u_out U (world d1) = u_out U (world d)"
    using tx_loop_sends [OF assms(1-3) len fits] by blast
  have "n \<le> unat (tx_rptr ?cb) - unat (tx_wptr ?cb)" by (simp add: n_def m_def p_def)
  note sent = tx_sent_line [OF wf this, folded p_def, folded m_def]
  define d2 where "d2 = (if tx_rptr (sci_cb d1 i) = tx_wptr (sci_cb d1 i)
                         then set_serial_irq K i RX_FULL_IRQ d1 else d1)"
  have idc: "cb_id (sci_cb d1 i) = 0 \<or> cb_id (sci_cb d1 i) = 1"
    using assms(4) wf d1(2) by (auto simp: slot_ok_def wf_cb_def tx_sent_def less_2_cases_iff)
  have step: "tx_burst K i asc (int k) res d = Some d2"
    using assms(5) d1(1) size by (simp add: tx_burst_def d2_def)
  have all_sent: "tx_rptr (sci_cb d1 i) = tx_wptr (sci_cb d1 i) \<longleftrightarrow> m \<le> k"
    using sent(3) by (auto simp: d1(2) n_def min_def)
  have cb2: "sci_cb d2 = (sci_cb d)(i := (tx_sent n ?cb)\<lparr>irq_mode :=
      if m \<le> k then RX_FULL_IRQ else irq_mode ?cb\<rparr>)"
    using idc unfolding d2_def all_sent
    by (auto simp: set_serial_irq_cb irq_selections_def d1(2) tx_sent_def fun_eq_iff)
  have "asc_same U (world d1) (world d2)"
    using idc assms(3)
    by (auto simp: d2_def set_serial_irq_world irq_selections_def d1(2) tx_sent_def uart_sta [OF assms(1)])
  note w2 = asc_sameD [OF this]
  have chunk: "take k (take m (drop p (write_buf ?cb))) = take n (drop p (write_buf ?cb))"
    "drop k (take m (drop p (write_buf ?cb))) = take (m - n) (drop (p + n) (write_buf ?cb))"
    "take (m - n) (drop (p + n) (write_buf ?cb)) = [] \<longleftrightarrow> m \<le> k"
    "length (take n (drop p (write_buf ?cb))) = n"
    using pending_chunk [of p m "write_buf ?cb" n k] pm len by (simp_all add: n_def)
  have "line_of U i d = \<lparr>received = take (unat (rx_rptr ?cb)) (read_buf ?cb), skipped = rx_wptr ?cb,
      pending = take m (drop p (write_buf ?cb)), in_fifo = u_tx U (world d), on_wire = u_rx U (world d),
      sent = u_out U (world d), convention = cb_byte_invert ?cb, atr_known = atr_status ?cb, mode = irq_mode ?cb\<rparr>"
    by (simp add: line_of_def Let_def m_def p_def)
  moreover have "line_of U i d2 = \<lparr>received = take (unat (rx_rptr ?cb)) (read_buf ?cb),
      skipped = rx_wptr ?cb + of_nat n, pending = take (m - n) (drop (p + n) (write_buf ?cb)),
      in_fifo = u_tx U (world d1), on_wire = u_rx U (world d1), sent = u_out U (world d1),
      convention = cb_byte_invert ?cb, atr_known = atr_status ?cb, mode = if m \<le> k then RX_FULL_IRQ else irq_mode ?cb\<rparr>"
    using sent(2) rptr by (simp add: line_of_def Let_def cb2 w2 tx_sent_def)
  ultimately have "line_of U i d2 = line_put k (line_of U i d)"
    by (simp only: line_put_def line.simps Let_def chunk d1(3-5) tx_chunk_def p_def [symmetric])
  moreover have "slot_ok i d2" "base_address_asc (sci_cb d2 i) = base"
    "\<forall>j. j \<noteq> i \<longrightarrow> sci_cb d2 j = sci_cb d j"
    using assms sent(1) by (auto simp: slot_ok_def cb2 tx_sent_def)
  ultimately show ?thesis using step by blast
qed

lemma irq_transmit_refines:
  assumes "uart K base U" "is_asc asc" "base_address_asc (sci_cb d i) = base" "slot_ok i d"
    "asc_status U (world d) res"
  shows "\<exists>d'. irq_transmit K i asc res d = Some d' \<and> line_of U i d' = line_send (line_of U i d) \<and>
     slot_ok i d' \<and> base_address_asc (sci_cb d' i) = base \<and> (\<forall>j. j \<noteq> i \<longrightarrow> sci_cb d' j = sci_cb d j)"
proof -
  have l: "mode (line_of U i d) = irq_mode (sci_cb d i)" "in_fifo (line_of U i d) = u_tx U (world d)"
    by (simp_all add: line_of_def Let_def)
  have res: "res AND 2 \<noteq> 0 \<longleftrightarrow> u_tx U (world d) = []" "res AND 4 \<noteq> 0 \<longleftrightarrow> length (u_tx U (world d)) \<le> 8"
    "length (u_tx U (world d)) \<le> 8 \<Longrightarrow> res AND 0x200 = 0"
    using assms(5) by (auto simp: asc_status_def)
  have mode: "irq_mode (sci_cb d i) \<in> {RX_FULL_IRQ, RX_FULL_TX_EMPTY_IRQ, 7}"
    using assms(4) by (simp add: slot_ok_def)
  have "irq_transmit K i asc res d =
      (case send_limit (line_of U i d) of None \<Rightarrow> Some d | Some k \<Rightarrow> tx_burst K i asc (int k) res d)"
    using mode by (auto simp: irq_transmit_def tx_active_def tx_half_active_def send_limit_def l res)
  moreover have "res AND 0x200 = 0 \<and> length (u_tx U (world d)) + k \<le> 16" if "send_limit (line_of U i d) = Some k" for k
    using that res(3) by (auto simp: send_limit_def l split: if_splits)
  ultimately show ?thesis
    using tx_burst_refines [OF assms(1-4)] assms(3, 4) by (cases "send_limit (line_of U i d)") (simp_all add: line_send_def)
qed

section \<open>One interrupt is one step of the line\<close>

lemma irq_enter_leave:
  assumes "uart K base U" "is_asc asc" "base_address_asc (sci_cb d i) = base"
  shows "sci_cb (irq_enter K cfg i asc irq d) = sci_cb d" "sci_cb (irq_leave K cfg i asc irq d) = sci_cb d"
    "asc_same U (world d) (world (irq_enter K cfg i asc irq d))"
    "asc_same U (world d) (world (irq_leave K cfg i asc irq d))"
  using assms by (simp_all add: irq_enter_def irq_leave_def asc_mmio uart_sta [OF assms(1)])

lemma line_of_cong: "sci_cb d' = sci_cb d \<Longrightarrow> asc_same U (world d) (world d') \<Longrightarrow> line_of U i d' = line_of U i d"
  by (simp add: line_of_def asc_same_def)

text \<open>The handlers' first steps: mask the interrupt and read the status.\<close>

lemma irq_status:
  assumes "uart K base U" "is_asc asc" "base_address_asc (sci_cb d i) = base"
    "get_reg K i asc ASC_STA (irq_enter K cfg i asc irq d) = (res, d1)"
  shows "sci_cb d1 = sci_cb d" "asc_same U (world d) (world d1)" "asc_status U (world d1) res"
proof -
  let ?d0 = "irq_enter K cfg i asc irq d"
  have "(res, d1) = hw_get (mmio_read K (base + ASC_STA)) ?d0"
    using assms(2-4) irq_enter_leave(1) [OF assms(1-3)] by (simp add: asc_mmio)
  then have d1: "d1 = snd (hw_get (mmio_read K (base + ASC_STA)) ?d0)"
    and res: "res = fst (mmio_read K (base + ASC_STA) (world ?d0))"
    by (metis snd_conv, metis fst_conv hw_simps(2))
  have same: "asc_same U (world ?d0) (world d1)" by (simp add: d1 uart_sta [OF assms(1)])
  show "sci_cb d1 = sci_cb d" using irq_enter_leave(1) [OF assms(1-3)] by (simp add: d1)
  show "asc_same U (world d) (world d1)" by (rule asc_same_trans [OF irq_enter_leave(3) [OF assms(1-3)] same])
  show "asc_status U (world d1) res" by (simp add: asc_sameD(5) [OF same] res uart_sta [OF assms(1)])
qed

lemma irq_handler_refines:
  assumes "uart K base U" "is_asc asc" "base_address_asc (sci_cb d i) = base" "slot_ok i d"
    "unat (rx_rptr (sci_cb d i)) + length (u_rx U (world d)) \<le> SCI_BUFFER_SIZE"
  shows "\<exists>d'. sci_irq_rx_tx_handler K cfg i asc irq d = Some d' \<and>
     line_of U i d' = line_step (u_ovr U (world d)) (line_of U i d) \<and>
     slot_ok i d' \<and> base_address_asc (sci_cb d' i) = base \<and> (\<forall>j. j \<noteq> i \<longrightarrow> sci_cb d' j = sci_cb d j)"
proof -
  obtain res d1 where get: "get_reg K i asc ASC_STA (irq_enter K cfg i asc irq d) = (res, d1)"
    by fastforce
  note d1 = irq_status [OF assms(1-3) get]
  note same = asc_sameD [OF d1(2)]
  have l1: "line_of U i d1 = line_of U i d" "slot_ok i d1" "base_address_asc (sci_cb d1 i) = base"
    "unat (rx_rptr (sci_cb d1 i)) + length (u_rx U (world d1)) \<le> SCI_BUFFER_SIZE"
    using d1 same assms by (simp_all add: line_of_cong [OF d1(1, 2)] slot_ok_def)
  obtain res2 d2 where
    d2: "(if rx_active res (irq_mode (sci_cb d i)) then rx_loop K i asc res d1 else Some (res, False, d1))
         = Some (res2, u_ovr U (world d), d2)"
      "line_of U i d2 = line_receive (line_of U i d)" "slot_ok i d2"
      "base_address_asc (sci_cb d2 i) = base" "\<forall>j. j \<noteq> i \<longrightarrow> sci_cb d2 j = sci_cb d j"
      "u_ovr U (world d) \<or> asc_status U (world d2) res2"
    using irq_receive_refines [OF assms(1, 2) l1(3, 2) d1(3) l1(4), unfolded d1(1) l1(1) same(4)]
    by (elim exE conjE) (rule that)
  have "\<exists>d3. (if u_ovr U (world d) then Some d2 else irq_transmit K i asc res2 d2) = Some d3 \<and>
      line_of U i d3 = line_step (u_ovr U (world d)) (line_of U i d) \<and> slot_ok i d3 \<and>
      base_address_asc (sci_cb d3 i) = base \<and> (\<forall>j. j \<noteq> i \<longrightarrow> sci_cb d3 j = sci_cb d2 j)"
    using irq_transmit_refines [OF assms(1, 2) d2(4, 3), of res2] d2(2-4, 6)
    by (cases "u_ovr U (world d)") (simp_all add: line_step_def)
  then obtain d3 where d3: "(if u_ovr U (world d) then Some d2 else irq_transmit K i asc res2 d2) = Some d3"
      "line_of U i d3 = line_step (u_ovr U (world d)) (line_of U i d)" "slot_ok i d3"
      "base_address_asc (sci_cb d3 i) = base" "\<forall>j. j \<noteq> i \<longrightarrow> sci_cb d3 j = sci_cb d2 j"
    by blast
  have "sci_irq_rx_tx_handler K cfg i asc irq d = Some (irq_leave K cfg i asc irq d3)"
    using d2(1) d3(1) get d1(1) by (simp add: sci_irq_rx_tx_handler_def split: if_splits)
  moreover note leave = irq_enter_leave(2, 4) [OF assms(1, 2) d3(4), of cfg irq]
  have "line_of U i (irq_leave K cfg i asc irq d3) = line_of U i d3" by (rule line_of_cong [OF leave])
  ultimately show ?thesis using d2(5) d3(2-5) leave(1) by (auto simp: slot_ok_def)
qed

lemma irq_handler_overflows:
  assumes "uart K base U" "is_asc asc" "base_address_asc (sci_cb d i) = base" "slot_ok i d"
    "SCI_BUFFER_SIZE < unat (rx_rptr (sci_cb d i)) + length (u_rx U (world d))"
  shows "sci_irq_rx_tx_handler K cfg i asc irq d = None"
proof -
  obtain res d1 where get: "get_reg K i asc ASC_STA (irq_enter K cfg i asc irq d) = (res, d1)"
    by fastforce
  note d1 = irq_status [OF assms(1-3) get]
  note same = asc_sameD [OF d1(2)]
  have wf: "unat (rx_rptr (sci_cb d i)) \<le> SCI_BUFFER_SIZE" "cb_id (sci_cb d i) = 0 \<or> cb_id (sci_cb d i) = 1"
    using assms(4) by (auto simp: slot_ok_def wf_cb_def less_2_cases_iff)
  then have ne: "u_rx U (world d1) \<noteq> []" using assms(5) same(1) by auto
  have act: "rx_active res (irq_mode (sci_cb d1 i))"
    using assms(4) d1 ne by (auto simp: rx_active_def slot_ok_def asc_status_def)
  have "rx_loop K i asc res d1 = None"
  proof (cases "u_ovr U (world d1)")
    case True
    then have "red_read K i d1 = None"
      using uart_sta(3) [OF assms(1) True] assms(5) wf d1(1) same(1) by (simp add: red_read_overflow)
    then show ?thesis using True ne d1(3) by (subst rx_loop.simps) (simp add: asc_status_def)
  next
    case False
    then show ?thesis
      using rx_loop_overflows [OF assms(1, 2) _ d1(3) False refl ne] assms(3, 5) d1(1) same(1) by simp
  qed
  then show ?thesis using get act by (simp add: sci_irq_rx_tx_handler_def)
qed

section \<open>Runs of interrupts\<close>

definition settled :: "line \<Rightarrow> bool" where
  "settled l \<longleftrightarrow> atr_known l = SCI_ATR_READY \<or> convention l \<noteq> NO_DEFINED"

lemma line_byte_involutive: "line_byte c (line_byte c b) = b"
  by (simp add: line_byte_def byte_invert_code.involutive)

lemma rx_decode_settled:
  "st = SCI_ATR_READY \<or> c \<noteq> NO_DEFINED \<Longrightarrow> rx_decode st c bs = (c, map (line_byte c) bs)"
  by (induction bs) (auto simp: next_convention_def)

lemma line_receive_echo:
  assumes "settled l" "on_wire l = map (line_byte (convention l)) e"
  shows "line_receive l = l\<lparr>received := received l @ e, on_wire := []\<rparr>"
  using assms by (simp add: line_receive_def rx_decode_settled settled_def comp_def line_byte_involutive)

definition line_fits :: "line \<Rightarrow> bool" where
  "line_fits l \<longleftrightarrow> length (received l) + length (on_wire l) \<le> SCI_BUFFER_SIZE"

lemma line_fits_iff:
  "slot_ok i d \<Longrightarrow> line_fits (line_of U i d) \<longleftrightarrow>
     unat (rx_rptr (sci_cb d i)) + length (u_rx U (world d)) \<le> SCI_BUFFER_SIZE"
  by (simp add: line_fits_def line_of_def Let_def slot_ok_def wf_cb_def min_absorb2)

text \<open>
  Between two interrupts the controller moves bytes from its transmit FIFO to the line, at least one if
  there is one; the receiver sees each of them too, as long as they fit into its FIFO of 16 bytes.
\<close>

definition transmits :: "'w asc_view \<Rightarrow> ('w \<Rightarrow> 'w) \<Rightarrow> bool" where
  "transmits U e \<longleftrightarrow>
     (\<forall>w. \<exists>k \<le> length (u_tx U w). (u_tx U w = [] \<or> 0 < k) \<and> u_tx U (e w) = drop k (u_tx U w) \<and>
        u_out U (e w) = u_out U w @ take k (u_tx U w) \<and>
        (\<not> u_ovr U w \<and> length (u_rx U w) + k \<le> 16 \<longrightarrow>
           u_rx U (e w) = u_rx U w @ take k (u_tx U w) \<and> \<not> u_ovr U (e w)))"

definition line_moves :: "nat \<Rightarrow> line \<Rightarrow> line" where
  "line_moves k l = l\<lparr>in_fifo := drop k (in_fifo l), sent := sent l @ take k (in_fifo l),
     on_wire := on_wire l @ take k (in_fifo l)\<rparr>"

text \<open>Interrupts, before each of which the world changes in a given way.\<close>

fun irq_run ::
    "'w kernel \<Rightarrow> config \<Rightarrow> nat \<Rightarrow> BASE_ADDR \<Rightarrow> nat \<Rightarrow> ('w \<Rightarrow> 'w) list \<Rightarrow> 'w drv \<Rightarrow> 'w drv option" where
  "irq_run K cfg i asc irq [] d = Some d"
| "irq_run K cfg i asc irq (e # es) d =
     (case sci_irq_rx_tx_handler K cfg i asc irq (hw e d) of
        None \<Rightarrow> None | Some d \<Rightarrow> irq_run K cfg i asc irq es d)"

text \<open>
  The state between two interrupts of a transmission of \<open>bs\<close>: the bytes on the line, those in the
  transmitter and those still to be sent are together \<open>bs\<close>; the echo of the first part is received.
\<close>

definition sending :: "u8 list \<Rightarrow> u8 list \<Rightarrow> u8 \<Rightarrow> line \<Rightarrow> bool" where
  "sending out bs c l \<longleftrightarrow> settled l \<and> convention l = c \<and> on_wire l = [] \<and> length (in_fifo l) \<le> 16 \<and>
     (mode l = RX_FULL_IRQ \<longrightarrow> pending l = []) \<and>
     (\<exists>F. received l @ F @ pending l = bs \<and> in_fifo l = map (line_byte c) F \<and>
        sent l = out @ map (line_byte c) (received l) \<and> skipped l = of_nat (length (received l @ F)))"

definition work :: "line \<Rightarrow> nat" where
  "work l = 2 * length (pending l) + length (in_fifo l) + of_bool (mode l \<noteq> RX_FULL_IRQ)"

lemma sending_receive:
  assumes "sending out bs c l" "l' = line_receive (line_moves k l)"
  shows "sending out bs c l'" "in_fifo l' = drop k (in_fifo l)" "pending l' = pending l" "mode l' = mode l"
proof -
  obtain F where l: "settled l" "convention l = c" "on_wire l = []" "length (in_fifo l) \<le> 16"
      "mode l = RX_FULL_IRQ \<longrightarrow> pending l = []" "received l @ F @ pending l = bs" "in_fifo l = map (line_byte c) F"
      "sent l = out @ map (line_byte c) (received l)" "skipped l = of_nat (length (received l @ F))"
    using assms(1) unfolding sending_def by blast
  have l': "l' = (line_moves k l)\<lparr>received := received l @ take k F, on_wire := []\<rparr>"
    unfolding assms(2) using line_receive_echo [of "line_moves k l" "take k F"] l(1-3, 7)
    by (simp add: line_moves_def settled_def take_map)
  show "in_fifo l' = drop k (in_fifo l)" "pending l' = pending l" "mode l' = mode l"
    by (simp_all add: l' line_moves_def)
  have F: "take k F @ drop k F = F" "length (take k F) + length (drop k F) = length F"
    by (simp, simp only: length_append [symmetric] append_take_drop_id)
  have "(received l @ take k F) @ drop k F @ pending l = bs" using l(6) F(1) by (metis append_assoc)
  then show "sending out bs c l'"
    unfolding sending_def using l F(2)
    by (intro conjI exI [of _ "drop k F"])
      (auto simp: l' line_moves_def settled_def drop_map take_map simp del: length_take length_drop of_nat_add)
qed

lemma sending_put:
  assumes "sending out bs c l" "length (in_fifo l) + k \<le> 16"
  shows "sending out bs c (line_put k l)"
proof -
  obtain F where l: "settled l" "convention l = c" "on_wire l = []"
      "received l @ F @ pending l = bs" "in_fifo l = map (line_byte c) F"
      "sent l = out @ map (line_byte c) (received l)" "skipped l = of_nat (length (received l @ F))"
    using assms(1) unfolding sending_def by blast
  show ?thesis
    unfolding sending_def using l assms
    by (intro conjI exI [of _ "F @ take k (pending l)"]) (auto simp: line_put_def settled_def Let_def sending_def)
qed

lemma send_limit_room: "send_limit l = Some k \<Longrightarrow> 0 < k \<and> length (in_fifo l) + k \<le> 16"
  by (auto simp: send_limit_def split: if_splits)

lemma sending_round:
  assumes "sending out bs c l" "in_fifo l = [] \<or> 0 < k" "l' = line_step False (line_moves k l)"
  shows "sending out bs c l'" "work l' \<le> work l - 1"
proof -
  define r where "r = line_receive (line_moves k l)"
  note r = sending_receive [OF assms(1) r_def]
  have l': "l' = line_send r" by (simp add: assms(3) line_step_def r_def)
  show "sending out bs c l'"
    unfolding l' line_send_def
    using r(1) sending_put [OF r(1)] send_limit_room [of r] by (cases "send_limit r") auto
  show "work l' \<le> work l - 1"
  proof (cases "send_limit r")
    case None
    then have "in_fifo l \<noteq> [] \<or> mode l = RX_FULL_IRQ" using r(2, 4) by (auto simp: send_limit_def split: if_splits)
    moreover have "mode l = RX_FULL_IRQ \<Longrightarrow> pending l = []" using assms(1) by (simp add: sending_def)
    ultimately show ?thesis
      using None r assms(2) by (cases "in_fifo l"; cases k) (auto simp: l' line_send_def work_def)
  next
    case (Some n)
    then have m: "mode l \<noteq> RX_FULL_IRQ" "0 < n" using r(4) send_limit_room [OF Some] by (auto simp: send_limit_def split: if_splits)
    then show ?thesis using Some r(2-4) by (cases "pending l") (auto simp: l' line_send_def line_put_def work_def Let_def)
  qed
qed

lemma irq_round:
  assumes "uart K base U" "is_asc asc" "base_address_asc (sci_cb d i) = base" "slot_ok i d" "transmits U e"
    "sending out bs c (line_of U i d)" "length bs \<le> SCI_BUFFER_SIZE"
  shows "\<exists>d'. sci_irq_rx_tx_handler K cfg i asc irq (hw e d) = Some d' \<and> slot_ok i d' \<and>
     base_address_asc (sci_cb d' i) = base \<and> sending out bs c (line_of U i d') \<and>
     work (line_of U i d') \<le> work (line_of U i d) - 1"
proof -
  let ?l = "line_of U i d" and ?d = "hw e d"
  have w: "u_tx U (world d) = in_fifo ?l" "u_rx U (world d) = []"
    using assms(6) by (simp_all add: line_of_def Let_def sending_def)
  have len: "length (u_tx U (world d)) \<le> 16" using assms(6) w(1) by (simp add: sending_def)
  have novr: "\<not> u_ovr U (world d)" using uart_sta(3) [OF assms(1), of "world d"] w(2) by auto
  obtain k where k: "in_fifo ?l = [] \<or> 0 < k" "u_tx U (e (world d)) = drop k (u_tx U (world d))"
      "u_out U (e (world d)) = u_out U (world d) @ take k (u_tx U (world d))"
      "u_rx U (e (world d)) = u_rx U (world d) @ take k (u_tx U (world d))" "\<not> u_ovr U (e (world d))"
    using spec [OF assms(5) [unfolded transmits_def], of "world d"] len w novr by auto
  have l: "line_of U i ?d = line_moves k ?l" using k(2-4) by (simp add: line_of_def line_moves_def Let_def)
  have ok: "slot_ok i ?d" "base_address_asc (sci_cb ?d i) = base" "\<not> u_ovr U (world ?d)"
    using assms(3, 4) k(5) by (simp_all add: slot_ok_def)
  obtain F where "received ?l @ F @ pending ?l = bs" "in_fifo ?l = map (line_byte c) F" "on_wire ?l = []"
    using assms(6) unfolding sending_def by blast
  then have "line_fits (line_moves k ?l)" using assms(7) by (auto simp: line_fits_def line_moves_def min_def)
  then have "unat (rx_rptr (sci_cb ?d i)) + length (u_rx U (world ?d)) \<le> SCI_BUFFER_SIZE"
    using line_fits_iff [OF ok(1), of U] l by simp
  from irq_handler_refines [OF assms(1, 2) ok(2, 1) this, of cfg irq]
  obtain d' where "sci_irq_rx_tx_handler K cfg i asc irq ?d = Some d'" "slot_ok i d'"
      "line_of U i d' = line_step False (line_moves k ?l)" "base_address_asc (sci_cb d' i) = base"
    using ok(3) l by auto
  then show ?thesis using sending_round [OF assms(6) k(1)] by blast
qed

lemma irq_run_sends:
  assumes "uart K base U" "is_asc asc" "base_address_asc (sci_cb d i) = base" "slot_ok i d"
    "\<forall>e \<in> set es. transmits U e" "sending out bs c (line_of U i d)" "length bs \<le> SCI_BUFFER_SIZE"
  shows "\<exists>d'. irq_run K cfg i asc irq es d = Some d' \<and> slot_ok i d' \<and> sending out bs c (line_of U i d') \<and>
     work (line_of U i d') \<le> work (line_of U i d) - length es"
  using assms(3-6)
proof (induction es arbitrary: d)
  case (Cons e es)
  obtain d1 where d1: "sci_irq_rx_tx_handler K cfg i asc irq (hw e d) = Some d1" "slot_ok i d1"
      "base_address_asc (sci_cb d1 i) = base" "sending out bs c (line_of U i d1)"
      "work (line_of U i d1) \<le> work (line_of U i d) - 1"
    using irq_round [OF assms(1, 2) Cons.prems(1, 2) _ Cons.prems(4) assms(7), of e cfg irq] Cons.prems(3) by auto
  obtain d' where "irq_run K cfg i asc irq es d1 = Some d'" "slot_ok i d'" "sending out bs c (line_of U i d')"
      "work (line_of U i d') \<le> work (line_of U i d1) - length es"
    using Cons.IH [OF d1(3, 2) _ d1(4)] Cons.prems(3) by auto
  then show ?case using d1(1, 5) by auto
qed simp

text \<open>A slot that has been loaded with \<open>bs\<close> and is idle otherwise.\<close>

lemma irq_exchange:
  assumes "uart K base U" "is_asc asc" "base_address_asc (sci_cb d i) = base" "slot_ok i d"
    "irq_mode (sci_cb d i) \<noteq> RX_FULL_IRQ" "u_rx U (world d) = []" "u_tx U (world d) = []"
    "atr_status (sci_cb d i) = SCI_ATR_READY \<or> cb_byte_invert (sci_cb d i) \<noteq> NO_DEFINED"
    "rx_rptr (sci_cb d i) = 0" "rx_wptr (sci_cb d i) = 0" "tx_wptr (sci_cb d i) = 0"
    "bs = take (unat (tx_rptr (sci_cb d i))) (write_buf (sci_cb d i))"
    "\<forall>e \<in> set es. transmits U e" "2 * length bs < length es"
  shows "\<exists>d'. irq_run K cfg i asc irq es d = Some d' \<and>
     u_out U (world d') = u_out U (world d) @ map (line_byte (cb_byte_invert (sci_cb d i))) bs \<and>
     u_tx U (world d') = [] \<and> take (unat (rx_rptr (sci_cb d' i))) (read_buf (sci_cb d' i)) = bs \<and>
     rx_wptr (sci_cb d' i) = rx_rptr (sci_cb d' i) \<and> irq_mode (sci_cb d' i) = RX_FULL_IRQ"
proof -
  let ?l = "line_of U i d" and ?c = "cb_byte_invert (sci_cb d i)" and ?out = "u_out U (world d)"
  have wf: "wf_cb i (sci_cb d i)" using assms(4) by (simp add: slot_ok_def)
  then have len: "length bs \<le> SCI_BUFFER_SIZE" using assms(12) by (simp add: wf_cb_def)
  have l: "sending ?out bs ?c ?l" "work ?l = 2 * length bs + 1"
    using assms(5-12) by (simp_all add: sending_def line_of_def settled_def work_def Let_def)
  obtain d' where d': "irq_run K cfg i asc irq es d = Some d'" "slot_ok i d'" "sending ?out bs ?c (line_of U i d')"
      "work (line_of U i d') \<le> work ?l - length es"
    using irq_run_sends [OF assms(1-4, 13) l(1) len] by blast
  have fin: "pending (line_of U i d') = []" "in_fifo (line_of U i d') = []" "mode (line_of U i d') = RX_FULL_IRQ"
    using d'(4) l(2) assms(14) by (auto simp: work_def split: if_splits)
  then have r: "received (line_of U i d') = bs" "skipped (line_of U i d') = of_nat (length bs)"
      "sent (line_of U i d') = ?out @ map (line_byte ?c) bs"
    using d'(3) by (auto simp: sending_def)
  have "length (received (line_of U i d')) = unat (rx_rptr (sci_cb d' i))"
    using d'(2) by (simp add: line_of_def Let_def slot_ok_def wf_cb_def min_absorb2)
  then show ?thesis using d'(1) r fin by (auto simp: line_of_def Let_def)
qed

section \<open>Properties\<close>

text \<open>
  C2. One interrupt of slot 0 is one step of the abstract line, whatever the state of the FIFOs: the
  handler decodes every waiting byte in order behind the bytes already received; then, unless the
  receiver has overrun, it hands the next bytes to the transmitter, encoded in the card's convention,
  sixteen of them if its FIFO is empty and eight if it is half empty and more than sixteen bytes were to
  be sent at the start, skips as many echoed bytes, and goes back to receiving when nothing is left to
  send. It is defined exactly if the waiting bytes fit into \<^verbatim>\<open>read_buf\<close>; other slots are untouched. The
  controller obeys \<open>uart\<close>, so that no byte moves on the line while the handler runs.
\<close>

theorem sci_irq0_refines_line:
  assumes "uart K (base_address_asc (sci_cb d 0)) U" "slot_ok 0 d"
  shows "case sci_irq0_rx_tx_handler K cfg d of
       None \<Rightarrow> \<not> line_fits (line_of U 0 d)
     | Some d' \<Rightarrow> line_fits (line_of U 0 d) \<and>
         line_of U 0 d' = line_step (u_ovr U (world d)) (line_of U 0 d) \<and> slot_ok 0 d' \<and>
         (\<forall>j. j \<noteq> 0 \<longrightarrow> sci_cb d' j = sci_cb d j)"
proof (cases "line_fits (line_of U 0 d)")
  case True
  then show ?thesis
    using irq_handler_refines [OF assms(1) _ refl assms(2), of BASE_ADDRESS_ASC0 cfg SCI0_INT_RX_TX]
    by (auto simp: line_fits_iff [OF assms(2)] is_asc_def sci_irq0_rx_tx_handler_def)
next
  case False
  then show ?thesis
    using irq_handler_overflows [OF assms(1) _ refl assms(2), of BASE_ADDRESS_ASC0 cfg SCI0_INT_RX_TX]
    by (auto simp: line_fits_iff [OF assms(2)] is_asc_def sci_irq0_rx_tx_handler_def)
qed

definition m_asc :: "machine asc_view" where
  "m_asc = \<lparr>u_rx = m_rx, u_tx = m_fifo, u_out = m_tx, u_ovr = (\<lambda>w. m_overrun w \<and> length (m_rx w) = 16)\<rparr>"

lemma m_asc_simps [simp]:
  "u_rx m_asc = m_rx" "u_tx m_asc = m_fifo" "u_out m_asc = m_tx"
  "u_ovr m_asc w \<longleftrightarrow> m_overrun w \<and> length (m_rx w) = 16"
  by (simp_all add: m_asc_def)

lemma m_status_ok: "asc_status m_asc w (m_status w)"
  by (simp add: asc_status_def m_status_def)

lemma machine_uart: "uart machine_kernel M_ASC m_asc"
  using m_status_ok
  by (simp add: uart_def asc_same_def mmio_read_def mmio_write_def mmio_modify_def machine_kernel_def m_read_def
      m_write_def Let_def split: list.split)

lemma machine_transmits: "transmits m_asc m_line"
  unfolding transmits_def
proof
  fix w
  show "\<exists>k \<le> length (u_tx m_asc w). (u_tx m_asc w = [] \<or> 0 < k) \<and> u_tx m_asc (m_line w) = drop k (u_tx m_asc w) \<and>
        u_out m_asc (m_line w) = u_out m_asc w @ take k (u_tx m_asc w) \<and>
        (\<not> u_ovr m_asc w \<and> length (u_rx m_asc w) + k \<le> 16 \<longrightarrow>
           u_rx m_asc (m_line w) = u_rx m_asc w @ take k (u_tx m_asc w) \<and> \<not> u_ovr m_asc (m_line w))"
    by (intro exI [of _ "length (m_fifo w)"]) (auto simp: m_line_def min_def)
qed

text \<open>
  A slot in the middle of a longer transmission: twelve bytes are left, one byte is still in the
  transmitter, and two bytes have come in, of which the first one fixes the convention.
\<close>

definition machine_busy :: "machine drv" where
  "machine_busy = (with_cb (\<lambda>cb. cb\<lparr>irq_mode := 7, write_buf := replicate 1024 0x3F, tx_rptr := 12\<rparr>))
     \<lparr>world := machine_start\<lparr>m_rx := [0x03, 0x3F], m_fifo := [0xA0]\<rparr>\<rparr>"

lemma machine_busy_ok: "slot_ok 0 machine_busy" "base_address_asc (sci_cb machine_busy 0) = M_ASC"
  by (simp_all add: slot_ok_def wf_cb_def machine_busy_def with_cb_def machine_drv_def machine_cb_def wf_zero_ATR)

theorem sci_irq0_refines_line_witness:
  "\<exists>d'. sci_irq0_rx_tx_handler machine_kernel machine_cfg machine_busy = Some d' \<and>
     received (line_of m_asc 0 d') = [0x3F, 0x03] \<and> convention (line_of m_asc 0 d') = INVERT \<and>
     in_fifo (line_of m_asc 0 d') = 0xA0 # replicate 8 0x03 \<and> length (pending (line_of m_asc 0 d')) = 4"
proof -
  have l: "line_of m_asc 0 machine_busy = \<lparr>received = [], skipped = 0, pending = replicate 12 0x3F,
      in_fifo = [0xA0], on_wire = [0x03, 0x3F], sent = [], convention = NO_DEFINED, atr_known = SCI_WITHOUT_ATR,
      mode = 7\<rparr>" "\<not> u_ovr m_asc (world machine_busy)"
    by (simp_all add: line_of_def machine_busy_def with_cb_def machine_drv_def machine_cb_def machine_start_def)
  have b: "line_byte INVERT 0x3F = 0x03" "line_byte INVERT 0x03 = 0x3F"
    by (simp_all add: line_byte_def uninvert_byte_eq INVERT_BYTE_def)
  have step: "line_step False (line_of m_asc 0 machine_busy) = \<lparr>received = [0x3F, 0x03], skipped = 8,
      pending = replicate 4 0x3F, in_fifo = 0xA0 # replicate 8 0x03, on_wire = [], sent = [], convention = INVERT,
      atr_known = SCI_WITHOUT_ATR, mode = 7\<rparr>"
    by (simp add: l line_step_def line_receive_def line_send_def send_limit_def line_put_def next_convention_def b)
  show ?thesis
    using sci_irq0_refines_line [of machine_kernel machine_busy m_asc machine_cfg]
      machine_uart machine_busy_ok l(2)
    by (auto simp: step [unfolded l] l(1) line_fits_def split: option.splits)
qed

end
