(* ===== verification/Sci_Params.thy ===== *)
theory Sci_Params
  imports Sci_Irq
begin

text \<open>
  The card parameters: \<^verbatim>\<open>src/smartcard/sci_params.c\<close>, with the presence tests of
  \<^verbatim>\<open>src/smartcard/sci_drv.c\<close> it calls. The parameter block a program passes in is a value of type
  \<open>SCI_PARAMETERS\<close>; the tests of its address against zero are left out, since the one caller passes
  the address of a local variable.
\<close>

section \<open>Presence of driver and card\<close>

definition sci_is_card_present :: "nat \<Rightarrow> 'w drv \<Rightarrow> SCI_CARD_STATUS" where
  "sci_is_card_present i d =
     (if sci_driver_init d = 1 then card_detect (sci_cb d i) else SCI_CARD_NOT_PRESENT)"

definition sci_is_card_activated :: "nat \<Rightarrow> 'w drv \<Rightarrow> SCI_CARD_STATUS" where
  "sci_is_card_activated i d = sci_is_card_present i d"

text \<open>
  The macro \<^verbatim>\<open>SCI_CHECK_INIT_COND\<close> reads \<^verbatim>\<open>sci_cb[sci_id]\<close> even when it has just found \<^verbatim>\<open>sci_id\<close> out of
  range.
\<close>

definition SCI_CHECK_INIT_COND :: "config \<Rightarrow> u8 \<Rightarrow> 'w drv \<Rightarrow> SCI_ERROR option" where
  "SCI_CHECK_INIT_COND cfg sci_id d =
     (let rc = SCI_ERROR_OK;
          rc = (if sci_driver_init d \<noteq> 1 then SCI_ERROR_CARD_NOT_PRESENT else rc);
          rc = (if SCI_NUMBER_OF_CONTROLLERS cfg \<le> unat sci_id
                then SCI_ERROR_PARAMETER_OUT_OF_RANGE else rc)
      in if SCI_NUMBER_OF_CONTROLLERS cfg \<le> unat sci_id then None
         else Some (if card_detect (sci_cb d (unat sci_id)) = SCI_CARD_NOT_PRESENT
                    then SCI_ERROR_DRIVER_NOT_INITIALIZED else rc))"

section \<open>Single parameters\<close>

definition upd_par :: "nat \<Rightarrow> (SCI_PARAMETERS \<Rightarrow> SCI_PARAMETERS) \<Rightarrow> 'w drv \<Rightarrow> 'w drv" where
  "upd_par i f = upd_cb i (\<lambda>cb. cb\<lparr>sci_parameters := f (sci_parameters cb)\<rparr>)"

text \<open>The search for a frequency: the loop of \<^verbatim>\<open>sci_atom_set_para_f\<close> from a given divisor.\<close>

function frequency_loop :: "u32 \<Rightarrow> u32 \<Rightarrow> u32 option" where
  "frequency_loop f divisor =
     (case udiv STB_SYS_CLK (2 * (divisor + 1)) of
        None \<Rightarrow> None
      | Some frequency \<Rightarrow>
          if frequency > f then frequency_loop f (divisor + 1) else Some frequency)"
  by pat_completeness auto
termination
proof (relation "measure (\<lambda>(f, divisor). 2 ^ 32 - unat divisor)")
  fix f divisor frequency :: u32
  assume "udiv STB_SYS_CLK (2 * (divisor + 1)) = Some frequency"
  then have "2 * (divisor + 1) \<noteq> 0" by (simp only: udiv_Some_iff not_False_eq_True)
  then have "divisor + 1 \<noteq> 0" by (metis mult_zero_right)
  then have "unat (divisor + 1) = Suc (unat divisor)" by (metis add.commute unatSuc)
  moreover have "unat (divisor + 1) < 2 ^ 32" using unat_u32_less [of "divisor + 1"] by simp
  ultimately show "((f, divisor + 1), f, divisor) \<in> measure (\<lambda>(f, divisor). 2 ^ 32 - unat divisor)"
    by simp
qed simp

declare frequency_loop.simps [simp del]

definition sci_atom_set_para_f :: "nat \<Rightarrow> SCI_PARAMETERS \<Rightarrow> 'w drv \<Rightarrow> 'w drv option" where
  "sci_atom_set_para_f i p d =
     do {
       frequency \<leftarrow> frequency_loop (p_f p) 0;
       Some (upd_par i (\<lambda>q. q\<lparr>p_f := frequency\<rparr>) d)
     }"

definition sci_set_para_T :: "nat \<Rightarrow> SCI_PARAMETERS \<Rightarrow> 'w drv \<Rightarrow> SCI_ERROR \<times> 'w drv" where
  "sci_set_para_T i p d =
     (SCI_ERROR_OK,
      if p_T p = 0 \<or> p_T p = 1 then
        if p_T (sci_parameters (sci_cb d i)) \<noteq> p_T p then upd_par i (\<lambda>q. q\<lparr>p_T := p_T p\<rparr>) d else d
      else d)"

definition sci_set_para_f :: "nat \<Rightarrow> SCI_PARAMETERS \<Rightarrow> 'w drv \<Rightarrow> (SCI_ERROR \<times> 'w drv) option" where
  "sci_set_para_f i p d =
     (if p_f p \<ge> 1000000 div 1000000 \<and> p_f p \<le> 80000000 div 1000000 \<and> p_f p \<le> STB_SYS_CLK div 2
      then
        if p_f (sci_parameters (sci_cb d i)) \<noteq> p_f p
        then do { d \<leftarrow> sci_atom_set_para_f i p d; Some (SCI_ERROR_OK, d) }
        else Some (SCI_ERROR_OK, d)
      else Some (SCI_ERROR_OK, d))"

definition ASC_baud_mode_0 :: "u32 \<Rightarrow> u32 option" where
  "ASC_baud_mode_0 baud = udiv 100000000 (baud * 16)"

definition ASC_baud_mode_1 :: "u32 \<Rightarrow> u32" where
  "ASC_baud_mode_1 baud =
     (let tmp = baud * 16;
          tmp = tmp div 1000;
          tmp = tmp * 65536
      in tmp div 100000)"

text \<open>
  The \<^verbatim>\<open>switch (sci->id)\<close> blocks that program the baud rate: the mode bit of the control register,
  then the baud rate register. The rate is computed inside the cases.
\<close>

definition asc_set_baud ::
    "'w kernel \<Rightarrow> nat \<Rightarrow> u32 \<Rightarrow> u32 \<Rightarrow> u32 option \<Rightarrow> 'w drv \<Rightarrow> 'w drv option" where
  "asc_set_baud K i bits msk rate d =
     (if cb_id (sci_cb d i) = 0 then
        do { let d = set_reg K i BASE_ADDRESS_ASC0 ASC_CTRL bits msk d;
             v \<leftarrow> rate;
             Some (set_reg K i BASE_ADDRESS_ASC0 ASC_BAUDRATE v 0xFFFF d) }
      else if cb_id (sci_cb d i) = 1 then
        do { let d = set_reg K i BASE_ADDRESS_ASC1 ASC_CTRL bits msk d;
             v \<leftarrow> rate;
             Some (set_reg K i BASE_ADDRESS_ASC1 ASC_BAUDRATE v 0xFFFF d) }
      else Some d)"

definition sci_set_para_ETU_table ::
    "'w kernel \<Rightarrow> nat \<Rightarrow> SCI_PARAMETERS \<Rightarrow> 'w drv \<Rightarrow> (SCI_ERROR \<times> 'w drv) option" where
  "sci_set_para_ETU_table K i p d =
     (let cb = sci_cb d i; etu = p_ETU (sci_parameters cb) in
      if p_ETU p \<ge> 8 \<and> p_ETU p \<le> 0xFFF then
        if clk cb = 357 \<or> clk cb = 358 then
          do { d \<leftarrow>
            (if etu = 372 then asc_set_baud K i 0 0x1000 (Some 0x28B) d
             else if etu = 93 then asc_set_baud K i (0x1000 OR push_bit 12 1) 0 (Some 0x193) d
             else if etu = 31 then asc_set_baud K i (0x1000 OR push_bit 12 1) 0 (Some 0x4B8) d
             else let req_baud = cb_WWT cb in
               if etu \<ge> 360 \<and> etu \<le> 384
               then asc_set_baud K i 0 0x1000 (ASC_baud_mode_0 req_baud) d
               else asc_set_baud K i 0x1000 0 (Some (ASC_baud_mode_1 req_baud)) d);
            Some (SCI_ERROR_OK, d) }
        else if clk cb = 600 \<or> clk cb = 625 then
          do { d \<leftarrow>
            (if etu = 625 then asc_set_baud K i 0 0x1000 (Some 0x271) d
             else let req_baud = (if cb_WWT cb \<noteq> 0 then cb_WWT cb else 9600) in
               if etu \<ge> 611 \<and> etu \<le> 635
               then asc_set_baud K i 0 0x1000 (ASC_baud_mode_0 req_baud) d
               else Some d);
            Some (SCI_ERROR_OK, d) }
        else Some (SCI_ERROR_OK, d)
      else Some (SCI_ERROR_PARAMETER_OUT_OF_RANGE, d))"

definition set_req_baud :: "'w kernel \<Rightarrow> nat \<Rightarrow> u32 \<Rightarrow> 'w drv \<Rightarrow> 'w drv option" where
  "set_req_baud K i req_baud d =
     (if req_baud > 19200 then asc_set_baud K i 0x1000 0 (Some (ASC_baud_mode_1 req_baud)) d
      else asc_set_baud K i 0 0x1000 (ASC_baud_mode_0 req_baud) d)"

text \<open>One case of the \<^verbatim>\<open>switch (p_sci_parameters->f)\<close> in \<^verbatim>\<open>sci_set_para_ETU\<close>.\<close>

definition etu_at_clock ::
    "'w kernel \<Rightarrow> config \<Rightarrow> nat \<Rightarrow> u32 \<Rightarrow> 'w drv \<Rightarrow> 'w drv option" where
  "etu_at_clock K cfg i clock d =
     do {
       req_baud \<leftarrow> udiv clock (p_ETU (sci_parameters (sci_cb d i)));
       d \<leftarrow> set_req_baud K i req_baud d;
       Some (smartcard_reset K cfg i 1 d)
     }"

definition sci_set_para_ETU ::
    "'w kernel \<Rightarrow> config \<Rightarrow> nat \<Rightarrow> SCI_PARAMETERS \<Rightarrow> 'w drv \<Rightarrow> (SCI_ERROR \<times> 'w drv) option" where
  "sci_set_para_ETU K cfg i p d =
     (if p_ETU p \<ge> 8 \<and> p_ETU p \<le> 0xFFF then
        let d = upd_par i (\<lambda>q. q\<lparr>p_ETU := p_ETU p\<rparr>) d;
            slow = (clk (sci_cb d i) = 357 \<or> clk (sci_cb d i) = 358)
        in if slow \<and> p_f p = 4 then
             do { d \<leftarrow> etu_at_clock K cfg i 4166667 d; Some (SCI_ERROR_OK, d) }
           else if slow \<and> p_f p = 5 then
             do { d \<leftarrow> etu_at_clock K cfg i 5000000 d; Some (SCI_ERROR_OK, d) }
           else if slow \<and> p_f p = 6 then
             do { d \<leftarrow> etu_at_clock K cfg i 6250000 d; Some (SCI_ERROR_OK, d) }
           else sci_set_para_ETU_table K i p d
      else Some (SCI_ERROR_PARAMETER_OUT_OF_RANGE, d))"

definition sci_set_para_WWT ::
    "'w kernel \<Rightarrow> nat \<Rightarrow> SCI_PARAMETERS \<Rightarrow> 'w drv \<Rightarrow> (SCI_ERROR \<times> 'w drv) option" where
  "sci_set_para_WWT K i p d =
     (if p_WWT p \<ge> 12 \<and> p_WWT p \<le> 0xFFFFFFFF then
        if p_WWT (sci_parameters (sci_cb d i)) \<noteq> p_WWT p then
          do { let d = upd_par i (\<lambda>q. q\<lparr>p_WWT := p_WWT p\<rparr>) d;
               d \<leftarrow> set_req_baud K i (p_WWT p) d;
               Some (SCI_ERROR_OK, d) }
        else Some (SCI_ERROR_OK, d)
      else Some (SCI_ERROR_OK, d))"

definition sci_set_para_CWT :: "nat \<Rightarrow> SCI_PARAMETERS \<Rightarrow> 'w drv \<Rightarrow> SCI_ERROR \<times> 'w drv" where
  "sci_set_para_CWT i p d =
     (SCI_ERROR_OK,
      if p_CWT p \<ge> 12 \<and> p_CWT p \<le> 0xFFFF then
        if p_CWT (sci_parameters (sci_cb d i)) \<noteq> p_CWT p
        then upd_par i (\<lambda>q. q\<lparr>p_CWT := p_CWT p\<rparr>) d else d
      else d)"

definition sci_set_para_BWT :: "nat \<Rightarrow> SCI_PARAMETERS \<Rightarrow> 'w drv \<Rightarrow> SCI_ERROR \<times> 'w drv" where
  "sci_set_para_BWT i p d =
     (SCI_ERROR_OK,
      if p_BWT p \<ge> 971 \<and> p_BWT p \<le> 0xFFFFFFFF then
        if p_BWT (sci_parameters (sci_cb d i)) \<noteq> p_BWT p
        then upd_par i (\<lambda>q. q\<lparr>p_BWT := p_BWT p\<rparr>) d else d
      else d)"

definition sci_set_para_EGT ::
    "'w kernel \<Rightarrow> nat \<Rightarrow> SCI_PARAMETERS \<Rightarrow> 'w drv \<Rightarrow> SCI_ERROR \<times> 'w drv" where
  "sci_set_para_EGT K i p d =
     (if p_EGT p \<ge> 0 \<and> p_EGT p \<le> 0xFF then
        (SCI_ERROR_OK,
         if p_EGT (sci_parameters (sci_cb d i)) \<noteq> p_EGT p then
           let d = upd_par i (\<lambda>q. q\<lparr>p_EGT := p_EGT p\<rparr>) d
           in set_reg K i BASE_ADDRESS_ASC0 ASC_GUARDTIME (p_EGT p + GT_DEFAULT) 0x1FF d
         else d)
      else (SCI_ERROR_PARAMETER_OUT_OF_RANGE, d))"

definition sci_set_para_CLK_p :: "nat \<Rightarrow> SCI_PARAMETERS \<Rightarrow> 'w drv \<Rightarrow> SCI_ERROR \<times> 'w drv" where
  "sci_set_para_CLK_p i p d =
     (SCI_ERROR_OK,
      if p_clock_stop_polarity p = 0 \<or> p_clock_stop_polarity p = 1 then
        if p_clock_stop_polarity (sci_parameters (sci_cb d i)) \<noteq> p_clock_stop_polarity p
        then upd_par i (\<lambda>q. q\<lparr>p_clock_stop_polarity := p_clock_stop_polarity p\<rparr>) d else d
      else d)"

text \<open>The innermost block of \<^verbatim>\<open>sci_set_para_check\<close> is empty.\<close>

definition sci_set_para_check :: "nat \<Rightarrow> SCI_PARAMETERS \<Rightarrow> 'w drv \<Rightarrow> SCI_ERROR \<times> 'w drv" where
  "sci_set_para_check i p d =
     (SCI_ERROR_OK,
      if p_check p = 1 \<or> p_check p = 2
      then if p_check (sci_parameters (sci_cb d i)) \<noteq> p_check p then d else d
      else d)"

definition sci_set_para_class ::
    "'w kernel \<Rightarrow> config \<Rightarrow> nat \<Rightarrow> SCI_PARAMETERS \<Rightarrow> 'w drv \<Rightarrow> SCI_ERROR \<times> 'w drv" where
  "sci_set_para_class K cfg i p d =
     (let d = upd_par i (\<lambda>q. q\<lparr>p_U := p_U p\<rparr>) d;
          cls = sci_atr_class (sci_cb d i);
          volt3 = (\<lambda>d. snd (smartcard_voltage_config K cfg i SCI_VCC_3 d))
      in if p_U p = SCI_CLASS_A then
           (SCI_ERROR_OK,
            if cls = SCI_CLASS_B then volt3 d else if cls = SCI_CLASS_AB then volt3 d else d)
         else if p_U p = SCI_CLASS_B then
           (SCI_ERROR_OK,
            if cls = SCI_CLASS_A then volt3 d else if cls = SCI_CLASS_AB then volt3 d else d)
         else if p_U p = SCI_CLASS_AB then
           (SCI_ERROR_OK,
            if cls = SCI_CLASS_A then volt3 d else if cls = SCI_CLASS_B then volt3 d else d)
         else if p_U p = SCI_UNKNOWN_CLASS then (SCI_ERROR_OK, d)
         else (SCI_ERROR_PARAMETER_OUT_OF_RANGE, d))"

section \<open>All parameters\<close>

definition sci_set_para ::
    "'w kernel \<Rightarrow> config \<Rightarrow> nat \<Rightarrow> SCI_PARAMETERS \<Rightarrow> 'w drv \<Rightarrow> (SCI_ERROR \<times> 'w drv) option" where
  "sci_set_para K cfg i p d =
     (if atr_status (sci_cb d i) \<noteq> SCI_ATR_READY then Some (SCI_ERROR_OK, d)
      else if unat (cb_id (sci_cb d i)) < SCI_NUMBER_OF_CONTROLLERS cfg then
        do {
          let (rc, d) = sci_set_para_T i p d;
          (rc, d) \<leftarrow> sci_set_para_f i p d;
          (rc, d) \<leftarrow> sci_set_para_ETU K cfg i p d;
          (rc, d) \<leftarrow> (if SUPPORT_NO_AUTOSET cfg then Some (rc, d) else sci_set_para_WWT K i p d);
          let (rc, d) = sci_set_para_CWT i p d;
          let (rc, d) = sci_set_para_BWT i p d;
          let (rc, d) = sci_set_para_EGT K i p d;
          let (rc, d) = sci_set_para_CLK_p i p d;
          let (rc, d) = sci_set_para_check i p d;
          let (rc, d) = sci_set_para_class K cfg i p d;
          Some (rc, upd_par i (\<lambda>q. q\<lparr>p_P := p_P p, p_I := p_I p\<rparr>) d)
        }
      else Some (SCI_ERROR_PARAMETER_OUT_OF_RANGE, d))"

definition sci_set_parameters ::
    "'w kernel \<Rightarrow> config \<Rightarrow> nat \<Rightarrow> SCI_PARAMETERS \<Rightarrow> 'w drv \<Rightarrow> (SCI_ERROR \<times> 'w drv) option" where
  "sci_set_parameters K cfg i p d =
     (if sci_driver_init d = 1 then
        if unat (cb_id (sci_cb d i)) < SCI_NUMBER_OF_CONTROLLERS cfg then
          if sci_is_card_activated i d = SCI_CARD_PRESENT then sci_set_para K cfg i p d
          else Some (SCI_ERROR_CARD_NOT_ACTIVATED, d)
        else Some (SCI_ERROR_PARAMETER_OUT_OF_RANGE, d)
      else Some (SCI_ERROR_DRIVER_NOT_INITIALIZED, d))"

text \<open>\<open>Inl\<close> is an error code, \<open>Inr\<close> the parameter block filled in with \<^verbatim>\<open>SCI_ERROR_OK\<close>.\<close>

definition sci_get_parameters ::
    "config \<Rightarrow> nat \<Rightarrow> 'w drv \<Rightarrow> (SCI_ERROR + SCI_PARAMETERS) option" where
  "sci_get_parameters cfg i d =
     do {
       rc \<leftarrow> SCI_CHECK_INIT_COND cfg (cb_id (sci_cb d i)) d;
       if rc \<noteq> SCI_ERROR_OK then Some (Inl rc)
       else let q = sci_parameters (sci_cb d i) in
         Some (Inr \<lparr>p_T = p_T q, p_f = p_f q, p_ETU = p_ETU q, p_WWT = p_WWT q, p_CWT = p_CWT q,
           p_BWT = p_BWT q, p_EGT = p_EGT q, p_clock_stop_polarity = p_clock_stop_polarity q,
           p_check = p_check q, p_P = p_P q, p_I = p_I q, p_U = p_U q\<rparr>)
     }"

section \<open>The frequency search\<close>

lemma frequency_step:
  assumes "n < 31500001"
  shows "frequency_loop f (of_nat n) =
     (if unat f < 31500000 div Suc n then frequency_loop f (of_nat (Suc n))
      else Some (of_nat (31500000 div Suc n)))"
proof -
  let ?dv = "2 * (of_nat n + 1) :: u32"
  have "?dv = of_nat (2 * Suc n)" by simp
  then have dv: "unat ?dv = 2 * Suc n" using assms by (simp only: unat_of_nat) simp
  then have nz: "?dv \<noteq> 0" by (metis mult_eq_0_iff nat.simps(3) unat_0 zero_neq_numeral)
  have q: "unat (STB_SYS_CLK div ?dv) = 31500000 div Suc n"
  proof -
    have "unat (STB_SYS_CLK div ?dv) = 63000000 div (2 * Suc n)" by (simp only: unat_div dv) simp
    then show ?thesis using div_mult_mult1 [of 2 31500000 "Suc n"] by simp
  qed
  have "STB_SYS_CLK div ?dv = of_nat (unat (STB_SYS_CLK div ?dv))" by (simp only: unsigned_of_nat of_nat_unat ucast_id)
  then have freq: "udiv STB_SYS_CLK ?dv = Some (of_nat (31500000 div Suc n))"
    using nz unfolding q udiv_def by (simp only: if_False)
  have "f < of_nat (31500000 div Suc n) \<longleftrightarrow> unat f < 31500000 div Suc n"
    using q \<open>STB_SYS_CLK div ?dv = _\<close> by (metis word_less_nat_alt)
  then show ?thesis
    by (subst frequency_loop.simps) (simp only: freq option.case of_nat_Suc add.commute [of 1])
qed

text \<open>The search ends at the first divisor that is large enough.\<close>

lemma frequency_search:
  assumes "n \<le> k" "k = 31500000 div Suc (unat f)"
  shows "frequency_loop f (of_nat n) = Some (of_nat (31500000 div Suc k))"
  using assms(1)
proof (induction "k - n" arbitrary: n)
  case 0
  then have [simp]: "n = k" by simp
  have k: "k \<le> 31500000" by (simp add: assms(2) div_le_dividend)
  have "31500000 < Suc (unat f) * Suc k"
    using dividend_less_times_div [of "Suc (unat f)" 31500000]
    unfolding assms(2) by (simp add: algebra_simps)
  then have "31500000 div Suc k < Suc (unat f)" by (simp add: div_less_iff_less_mult)
  then show ?case using frequency_step [of k f] k by simp
next
  case (Suc m)
  then have "Suc n \<le> k" by simp
  then have "Suc n * Suc (unat f) \<le> 31500000"
    unfolding assms(2) by (simp only: less_eq_div_iff_mult_less_eq zero_less_Suc)
  then have "Suc (unat f) \<le> 31500000 div Suc n"
    by (simp only: less_eq_div_iff_mult_less_eq zero_less_Suc mult.commute)
  moreover have "k \<le> 31500000" by (simp add: assms(2))
  with \<open>Suc n \<le> k\<close> have "n < 31500001" by linarith
  ultimately have "frequency_loop f (of_nat n) = frequency_loop f (of_nat (Suc n))"
    using frequency_step [of n f] by simp
  also have "\<dots> = Some (of_nat (31500000 div Suc k))"
    using Suc.hyps(2) \<open>Suc n \<le> k\<close> by (intro Suc.hyps(1)) simp_all
  finally show ?case .
qed

lemma frequency_loop_0:
  "frequency_loop f 0 = Some (of_nat (31500000 div Suc (31500000 div Suc (unat f))))"
  using frequency_search [of 0 _ f] by simp

text \<open>For the small values the driver admits, the search returns what it was asked for.\<close>

lemma frequency_loop_small:
  assumes "unat f \<le> 80"
  shows "frequency_loop f 0 = Some f"
proof -
  define q where "q = 31500000 div Suc (unat f)"
  have "31500000 div 81 \<le> q" unfolding q_def using assms by (intro div_le_mono2) simp_all
  then have "unat f \<le> q" using assms by simp
  have "Suc (unat f) * q \<le> 31500000" "31500000 < Suc (unat f) * Suc q"
    using dividend_less_times_div [of "Suc (unat f)" 31500000]
      times_div_less_eq_dividend [of "Suc (unat f)" 31500000]
    unfolding q_def by (simp_all add: algebra_simps)
  then have "31500000 div Suc q = unat f"
    using \<open>unat f \<le> q\<close> by (intro div_nat_eqI) (simp_all add: algebra_simps)
  then show ?thesis using frequency_loop_0 [of f] by (simp add: q_def)
qed

section \<open>What the setters do to the stored parameters\<close>

text \<open>
  \<open>par_step i g d d'\<close>: between the states \<open>d\<close> and \<open>d'\<close> the stored parameters of slot \<open>i\<close> are changed
  by \<open>g\<close>, and the slot keeps its number and its card. The kernel is \<open>quiet\<close> for a slot if nothing
  that runs during a sleep reconfigures it.
\<close>

definition par_step :: "nat \<Rightarrow> (SCI_PARAMETERS \<Rightarrow> SCI_PARAMETERS) \<Rightarrow> 'w drv \<Rightarrow> 'w drv \<Rightarrow> bool" where
  "par_step i g d d' \<longleftrightarrow>
     sci_parameters (sci_cb d' i) = g (sci_parameters (sci_cb d i)) \<and>
     cb_id (sci_cb d' i) = cb_id (sci_cb d i) \<and> card_detect (sci_cb d' i) = card_detect (sci_cb d i) \<and>
     sci_driver_init d' = sci_driver_init d"

definition quiet :: "'w kernel \<Rightarrow> nat \<Rightarrow> bool" where
  "quiet K i \<longleftrightarrow> (\<forall>n d. par_step i id d (msleep K n d))"

lemma par_step_trans: "par_step i g d d' \<Longrightarrow> par_step i h d' d'' \<Longrightarrow> par_step i (h \<circ> g) d d''"
  by (simp add: par_step_def)

lemma par_step_same: "sci_cb d' = sci_cb d \<Longrightarrow> sci_driver_init d' = sci_driver_init d \<Longrightarrow> par_step i id d d'"
  by (simp add: par_step_def)

lemma par_step_upd_par: "par_step i g d (upd_par i g d)"
  by (simp add: par_step_def upd_par_def)

lemma smartcard_voltage_config_init [simp]:
  "sci_driver_init (snd (smartcard_voltage_config K cfg i vcc d)) = sci_driver_init d"
  by (simp add: smartcard_voltage_config_def Let_def)

lemma par_step_voltage: "par_step i id d (snd (smartcard_voltage_config K cfg i vcc d))"
  by (simp add: par_step_def smartcard_voltage_config_cb)

lemma quiet_sleep:
  assumes "quiet K i"
  shows "sci_parameters (sci_cb (msleep K n d) i) = sci_parameters (sci_cb d i)"
    "cb_id (sci_cb (msleep K n d) i) = cb_id (sci_cb d i)"
    "card_detect (sci_cb (msleep K n d) i) = card_detect (sci_cb d i)"
    "sci_driver_init (msleep K n d) = sci_driver_init d"
  using assms by (simp_all add: quiet_def par_step_def)

lemma par_step_reset:
  assumes "quiet K i"
  shows "par_step i id d (smartcard_reset K cfg i wait d)"
  by (simp add: par_step_def smartcard_reset_def Let_def quiet_sleep [OF assms] set_serial_irq_cb)

lemma asc_set_baud_frame:
  assumes "asc_set_baud K i bits msk rate d = Some d'"
  shows "sci_cb d' = sci_cb d" "sci_driver_init d' = sci_driver_init d"
  using assms by (auto simp: asc_set_baud_def bind_eq_Some_conv split: if_splits)

lemma asc_set_baud_None_iff:
  "asc_set_baud K i bits msk rate d = None \<longleftrightarrow> cb_id (sci_cb d i) \<in> {0, 1} \<and> rate = None"
  by (auto simp: asc_set_baud_def bind_eq_None_conv)

lemma set_req_baud_frame:
  "set_req_baud K i b d = Some d' \<Longrightarrow> sci_cb d' = sci_cb d"
  "set_req_baud K i b d = Some d' \<Longrightarrow> sci_driver_init d' = sci_driver_init d"
  using asc_set_baud_frame by (auto simp: set_req_baud_def split: if_splits)

lemma ASC_baud_mode_0_None_iff: "ASC_baud_mode_0 b = None \<longleftrightarrow> unat b mod 2 ^ 28 = 0"
proof -
  have "b * 16 = 0 \<longleftrightarrow> unat (b * 16) = 0" by (simp only: unat_eq_0)
  also have "\<dots> \<longleftrightarrow> (unat b * 16) mod 4294967296 = 0" by (simp add: unat_word_ariths)
  also have "\<dots> \<longleftrightarrow> unat b mod 2 ^ 28 = 0" 
  proof -
    have "(unat b * 16) mod 4294967296 = unat b mod 268435456 * 16"
      using mult_mod_left [of "unat b" "2 ^ 28" 16] by simp
    then show ?thesis by simp
  qed
  finally show ?thesis by (simp add: ASC_baud_mode_0_def udiv_None_iff)
qed

lemma set_req_baud_None_iff: "set_req_baud K i b d = None \<longleftrightarrow> cb_id (sci_cb d i) \<in> {0, 1} \<and> b = 0"
proof (cases "b > 19200")
  case True
  then show ?thesis by (auto simp: set_req_baud_def asc_set_baud_None_iff)
next
  case False
  then have "unat b < 2 ^ 28" by (simp add: word_less_nat_alt)
  then show ?thesis
    using False by (simp add: set_req_baud_def asc_set_baud_None_iff ASC_baud_mode_0_None_iff unat_eq_0)
qed

text \<open>What each setter does to the stored parameters.\<close>

lemma par_step_T: "par_step i (\<lambda>q. q\<lparr>p_T := if p_T p = 0 \<or> p_T p = 1 then p_T p else p_T q\<rparr>) d (snd (sci_set_para_T i p d))"
  by (auto simp: par_step_def sci_set_para_T_def upd_par_def)

lemma par_step_f:
  "\<exists>d'. sci_set_para_f i p d = Some (SCI_ERROR_OK, d') \<and>
     par_step i (\<lambda>q. q\<lparr>p_f := if 1 \<le> unat (p_f p) \<and> unat (p_f p) \<le> 80 then p_f p else p_f q\<rparr>) d d' \<and>
     clk (sci_cb d' i) = clk (sci_cb d i) \<and> cb_WWT (sci_cb d' i) = cb_WWT (sci_cb d i)"
proof (cases "1 \<le> unat (p_f p) \<and> unat (p_f p) \<le> 80")
  case True
  then have "p_f p \<ge> 1" "p_f p \<le> 80" "p_f p \<le> 31500000" by (simp_all add: word_le_nat_alt)
  then show ?thesis
    using True frequency_loop_small [of "p_f p"]
    by (auto simp: sci_set_para_f_def sci_atom_set_para_f_def par_step_def upd_par_def)
next
  case False
  then have "\<not> (p_f p \<ge> 1 \<and> p_f p \<le> 80)" by (simp add: word_le_nat_alt)
  then show ?thesis using False by (auto simp: sci_set_para_f_def par_step_def)
qed

definition etu_division_by_zero :: "SCI_CONTROL_BLOCK \<Rightarrow> SCI_PARAMETERS \<Rightarrow> bool" where
  "etu_division_by_zero cb p \<longleftrightarrow>
     cb_id cb \<in> {0, 1} \<and> unat (cb_WWT cb) mod 2 ^ 28 = 0 \<and>
     (clk cb \<in> {357, 358} \<and> p_f p \<notin> {4, 5, 6} \<and> 360 \<le> unat (p_ETU p) \<and> unat (p_ETU p) \<le> 384 \<and> p_ETU p \<noteq> 372 \<or>
      clk cb \<in> {600, 625} \<and> cb_WWT cb \<noteq> 0 \<and> 611 \<le> unat (p_ETU p) \<and> unat (p_ETU p) \<le> 635 \<and> p_ETU p \<noteq> 625)"

lemma etu_at_clock_defined:
  assumes "clock = 4166667 \<or> clock = 5000000 \<or> clock = 6250000"
    "8 \<le> unat (p_ETU (sci_parameters (sci_cb d i)))" "unat (p_ETU (sci_parameters (sci_cb d i))) \<le> 0xFFF" "quiet K i"
  shows "\<exists>d'. etu_at_clock K cfg i clock d = Some d' \<and> par_step i id d d'"
proof -
  let ?etu = "p_ETU (sci_parameters (sci_cb d i))"
  have "unat (clock div ?etu) = unat clock div unat ?etu" by (simp add: unat_div)
  moreover have "0 < unat clock div unat ?etu" using assms by (auto simp: div_greater_zero_iff)
  ultimately have "clock div ?etu \<noteq> 0" by (metis unat_0 less_irrefl)
  moreover have "?etu \<noteq> 0" using assms(2) by auto
  moreover obtain d1 where d1: "set_req_baud K i (clock div ?etu) d = Some d1"
    using calculation set_req_baud_None_iff by (metis not_None_eq)
  ultimately have "etu_at_clock K cfg i clock d = Some (smartcard_reset K cfg i 1 d1)"
    by (simp add: etu_at_clock_def udiv_def)
  moreover have "par_step i id d (smartcard_reset K cfg i 1 d1)"
    using par_step_trans [OF par_step_same [OF set_req_baud_frame [OF d1]] par_step_reset [OF assms(4)]] by simp
  ultimately show ?thesis by blast
qed

lemma etu_table_frame:
  assumes "sci_set_para_ETU_table K i p d = Some (rc, d')"
  shows "sci_cb d' = sci_cb d" "sci_driver_init d' = sci_driver_init d"
  using assms asc_set_baud_frame
  by (auto simp: sci_set_para_ETU_table_def Let_def bind_eq_Some_conv split: if_splits)

lemma etu_table_None_iff:
  assumes "p_ETU (sci_parameters (sci_cb d i)) = p_ETU p" "8 \<le> unat (p_ETU p)" "unat (p_ETU p) \<le> 0xFFF"
    "clk (sci_cb d i) \<in> {357, 358} \<longrightarrow> p_f p \<notin> {4, 5, 6}"
  shows "sci_set_para_ETU_table K i p d = None \<longleftrightarrow> etu_division_by_zero (sci_cb d i) p"
proof -
  have le: "8 \<le> p_ETU p" "p_ETU p \<le> 0xFFF" using assms by (simp_all add: word_le_nat_alt)
  have ne: "p_ETU p \<noteq> 93" "p_ETU p \<noteq> 31" if "360 \<le> unat (p_ETU p)" using that by auto
  show ?thesis
    using assms le ne
    by (auto simp: sci_set_para_ETU_table_def Let_def bind_eq_None_conv asc_set_baud_None_iff
        ASC_baud_mode_0_None_iff etu_division_by_zero_def word_le_nat_alt split: if_splits)
qed

lemma par_step_ETU:
  assumes "quiet K i" "\<not> etu_division_by_zero (sci_cb d i) p"
  shows "\<exists>rc d'. sci_set_para_ETU K cfg i p d = Some (rc, d') \<and>
     par_step i (\<lambda>q. q\<lparr>p_ETU := if 8 \<le> unat (p_ETU p) \<and> unat (p_ETU p) \<le> 0xFFF then p_ETU p else p_ETU q\<rparr>) d d'"
proof (cases "8 \<le> unat (p_ETU p) \<and> unat (p_ETU p) \<le> 0xFFF")
  case True
  then have le: "8 \<le> p_ETU p" "p_ETU p \<le> 0xFFF" by (simp_all add: word_le_nat_alt)
  define d1 where "d1 = upd_par i (\<lambda>q. q\<lparr>p_ETU := p_ETU p\<rparr>) d"
  have etu: "p_ETU (sci_parameters (sci_cb d1 i)) = p_ETU p" by (simp add: d1_def upd_par_def)
  have d1: "par_step i (\<lambda>q. q\<lparr>p_ETU := p_ETU p\<rparr>) d d1" unfolding d1_def by (rule par_step_upd_par)
  let ?slow = "clk (sci_cb d1 i) = 357 \<or> clk (sci_cb d1 i) = 358"
  have "\<exists>rc d'. sci_set_para_ETU K cfg i p d = Some (rc, d') \<and> par_step i id d1 d'"
  proof (cases "?slow \<and> p_f p \<in> {4, 5, 6}")
    case True
    have at: "\<exists>d'. etu_at_clock K cfg i c d1 = Some d' \<and> par_step i id d1 d'"
      if "c = 4166667 \<or> c = 5000000 \<or> c = 6250000" for c
      using etu_at_clock_defined [of c d1 i K cfg] that assms(1) \<open>8 \<le> unat (p_ETU p) \<and> _\<close> etu by simp
    show ?thesis
      using True at [of 4166667] at [of 5000000] at [of 6250000] le
      unfolding sci_set_para_ETU_def d1_def [symmetric] by auto
  next
    case False
    have "\<not> etu_division_by_zero (sci_cb d1 i) p"
      using assms(2) by (simp add: etu_division_by_zero_def d1_def upd_par_def)
    then obtain rc d' where tab: "sci_set_para_ETU_table K i p d1 = Some (rc, d')"
      using etu_table_None_iff [of d1 i p K] etu True False by auto
    then have "sci_set_para_ETU K cfg i p d = Some (rc, d')"
      using False le unfolding sci_set_para_ETU_def d1_def [symmetric] Let_def by auto
    then show ?thesis using par_step_same [OF etu_table_frame [OF tab]] by blast
  qed
  then show ?thesis using par_step_trans [OF d1] True by force
next
  case False
  then show ?thesis by (auto simp: sci_set_para_ETU_def word_le_nat_alt par_step_def)
qed

lemma par_step_WWT:
  "\<exists>d'. sci_set_para_WWT K i p d = Some (SCI_ERROR_OK, d') \<and>
     par_step i (\<lambda>q. q\<lparr>p_WWT := if 12 \<le> unat (p_WWT p) then p_WWT p else p_WWT q\<rparr>) d d'"
proof (cases "12 \<le> unat (p_WWT p) \<and> p_WWT (sci_parameters (sci_cb d i)) \<noteq> p_WWT p")
  case True
  define d1 where "d1 = upd_par i (\<lambda>q. q\<lparr>p_WWT := p_WWT p\<rparr>) d"
  have step1: "par_step i (\<lambda>q. q\<lparr>p_WWT := p_WWT p\<rparr>) d d1" unfolding d1_def by (rule par_step_upd_par)
  have "p_WWT p \<noteq> 0" using True by auto
  then obtain d' where d': "set_req_baud K i (p_WWT p) d1 = Some d'"
    using set_req_baud_None_iff by (metis not_None_eq)
  have "par_step i (\<lambda>q. q\<lparr>p_WWT := p_WWT p\<rparr>) d d'"
    using par_step_trans [OF step1 par_step_same [OF set_req_baud_frame [OF d']]]
    by simp
  moreover have "p_WWT p \<le> 0xFFFFFFFF" using unat_u32_less [of "p_WWT p"] by (simp add: word_le_nat_alt)
  ultimately show ?thesis using True d'
    by (auto simp: sci_set_para_WWT_def word_le_nat_alt d1_def)
next
  case False
  then show ?thesis by (auto simp: sci_set_para_WWT_def word_le_nat_alt par_step_def)
qed

lemma par_step_simple:
  "par_step i (\<lambda>q. q\<lparr>p_CWT := if 12 \<le> unat (p_CWT p) \<and> unat (p_CWT p) \<le> 0xFFFF then p_CWT p else p_CWT q\<rparr>)
     d (snd (sci_set_para_CWT i p d))"
  "par_step i (\<lambda>q. q\<lparr>p_BWT := if 971 \<le> unat (p_BWT p) then p_BWT p else p_BWT q\<rparr>)
     d (snd (sci_set_para_BWT i p d))"
  "par_step i (\<lambda>q. q\<lparr>p_EGT := if unat (p_EGT p) \<le> 0xFF then p_EGT p else p_EGT q\<rparr>)
     d (snd (sci_set_para_EGT K i p d))"
  "par_step i (\<lambda>q. q\<lparr>p_clock_stop_polarity := if p_clock_stop_polarity p = 0 \<or> p_clock_stop_polarity p = 1
       then p_clock_stop_polarity p else p_clock_stop_polarity q\<rparr>) d (snd (sci_set_para_CLK_p i p d))"
  "par_step i id d (snd (sci_set_para_check i p d))"
  "par_step i (\<lambda>q. q\<lparr>p_U := p_U p\<rparr>) d (snd (sci_set_para_class K cfg i p d))"
proof -
  have "p_BWT p \<le> 0xFFFFFFFF" using unat_u32_less [of "p_BWT p"] by (simp add: word_le_nat_alt)
  then show "par_step i (\<lambda>q. q\<lparr>p_BWT := if 971 \<le> unat (p_BWT p) then p_BWT p else p_BWT q\<rparr>)
     d (snd (sci_set_para_BWT i p d))"
    by (auto simp: par_step_def sci_set_para_BWT_def upd_par_def word_le_nat_alt)
  show "par_step i (\<lambda>q. q\<lparr>p_U := p_U p\<rparr>) d (snd (sci_set_para_class K cfg i p d))"
    by (auto simp: par_step_def sci_set_para_class_def upd_par_def Let_def smartcard_voltage_config_cb)
qed (auto simp: par_step_def sci_set_para_CWT_def sci_set_para_EGT_def sci_set_para_CLK_p_def
       sci_set_para_check_def upd_par_def word_le_nat_alt Let_def)

lemma sci_set_para_class_rc:
  "fst (sci_set_para_class K cfg i p d) =
     (if unat (p_U p) \<le> 3 then SCI_ERROR_OK else SCI_ERROR_PARAMETER_OUT_OF_RANGE)"
proof -
  have "unat (p_U p) \<le> 3 \<longleftrightarrow> p_U p \<in> {0, 1, 2, 3}"
    by (auto simp: word_unat_eq_iff)
  then show ?thesis by (auto simp: sci_set_para_class_def Let_def)
qed

section \<open>Setting all parameters\<close>

text \<open>
  \<open>merged_params cfg p q\<close>: the stored parameters \<open>q\<close> after setting \<open>p\<close>. A value out of range leaves the
  old one; the work waiting time is only set in builds with automatic setting, and the check byte
  type never.
\<close>

definition merged_params :: "config \<Rightarrow> SCI_PARAMETERS \<Rightarrow> SCI_PARAMETERS \<Rightarrow> SCI_PARAMETERS" where
  "merged_params cfg p q = \<lparr>
     p_T = if p_T p = 0 \<or> p_T p = 1 then p_T p else p_T q,
     p_f = if 1 \<le> unat (p_f p) \<and> unat (p_f p) \<le> 80 then p_f p else p_f q,
     p_ETU = if 8 \<le> unat (p_ETU p) \<and> unat (p_ETU p) \<le> 0xFFF then p_ETU p else p_ETU q,
     p_WWT = if \<not> SUPPORT_NO_AUTOSET cfg \<and> 12 \<le> unat (p_WWT p) then p_WWT p else p_WWT q,
     p_CWT = if 12 \<le> unat (p_CWT p) \<and> unat (p_CWT p) \<le> 0xFFFF then p_CWT p else p_CWT q,
     p_BWT = if 971 \<le> unat (p_BWT p) then p_BWT p else p_BWT q,
     p_EGT = if unat (p_EGT p) \<le> 0xFF then p_EGT p else p_EGT q,
     p_clock_stop_polarity = if p_clock_stop_polarity p = 0 \<or> p_clock_stop_polarity p = 1
       then p_clock_stop_polarity p else p_clock_stop_polarity q,
     p_check = p_check q, p_P = p_P p, p_I = p_I p, p_U = p_U p\<rparr>"

lemma par_step_cong: "par_step i g d d' \<Longrightarrow> (\<And>q. g q = h q) \<Longrightarrow> par_step i h d d'"
  by (simp add: par_step_def)

text \<open>The setters after the element time unit, in the order of \<^verbatim>\<open>sci_set_para\<close>.\<close>

definition set_para_rest ::
    "'w kernel \<Rightarrow> config \<Rightarrow> nat \<Rightarrow> SCI_PARAMETERS \<Rightarrow> 'w drv \<Rightarrow> SCI_ERROR \<times> 'w drv" where
  "set_para_rest K cfg i p d =
     (let d = snd (sci_set_para_CWT i p d);
          d = snd (sci_set_para_BWT i p d);
          d = snd (sci_set_para_EGT K i p d);
          d = snd (sci_set_para_CLK_p i p d);
          d = snd (sci_set_para_check i p d);
          (rc, d) = sci_set_para_class K cfg i p d
      in (rc, upd_par i (\<lambda>q. q\<lparr>p_P := p_P p, p_I := p_I p\<rparr>) d))"

lemma set_para_rest_rc:
  "fst (set_para_rest K cfg i p d) =
     (if unat (p_U p) \<le> 3 then SCI_ERROR_OK else SCI_ERROR_PARAMETER_OUT_OF_RANGE)"
  by (simp add: set_para_rest_def Let_def case_prod_unfold sci_set_para_class_rc)

lemma par_step_rest:
  "par_step i (\<lambda>q. q\<lparr>
     p_CWT := if 12 \<le> unat (p_CWT p) \<and> unat (p_CWT p) \<le> 0xFFFF then p_CWT p else p_CWT q,
     p_BWT := if 971 \<le> unat (p_BWT p) then p_BWT p else p_BWT q,
     p_EGT := if unat (p_EGT p) \<le> 0xFF then p_EGT p else p_EGT q,
     p_clock_stop_polarity := if p_clock_stop_polarity p = 0 \<or> p_clock_stop_polarity p = 1
       then p_clock_stop_polarity p else p_clock_stop_polarity q,
     p_U := p_U p, p_P := p_P p, p_I := p_I p\<rparr>) d (snd (set_para_rest K cfg i p d))"
  (is "par_step i ?g d ?d'")
proof -
  define d1 where "d1 = snd (sci_set_para_CWT i p d)"
  define d2 where "d2 = snd (sci_set_para_BWT i p d1)"
  define d3 where "d3 = snd (sci_set_para_EGT K i p d2)"
  define d4 where "d4 = snd (sci_set_para_CLK_p i p d3)"
  define d5 where "d5 = snd (sci_set_para_check i p d4)"
  define d6 where "d6 = snd (sci_set_para_class K cfg i p d5)"
  have d': "?d' = upd_par i (\<lambda>q. q\<lparr>p_P := p_P p, p_I := p_I p\<rparr>) d6"
    by (simp add: set_para_rest_def Let_def case_prod_unfold d6_def d5_def d4_def d3_def d2_def d1_def)
  show ?thesis
    using par_step_simple(1) [of i p d] par_step_simple(2) [of i p d1] par_step_simple(3) [of i p d2 K]
      par_step_simple(4) [of i p d3] par_step_simple(5) [of i d4 p] par_step_simple(6) [of i p d5 K cfg]
      par_step_upd_par [of i "\<lambda>q. q\<lparr>p_P := p_P p, p_I := p_I p\<rparr>" d6]
    unfolding d' d1_def [symmetric] d2_def [symmetric] d3_def [symmetric] d4_def [symmetric]
      d5_def [symmetric] d6_def [symmetric]
    by (simp add: par_step_def)
qed

lemma sci_set_para_T_keeps:
  "clk (sci_cb (snd (sci_set_para_T i p d)) i) = clk (sci_cb d i)"
  "cb_WWT (sci_cb (snd (sci_set_para_T i p d)) i) = cb_WWT (sci_cb d i)"
  by (simp_all add: sci_set_para_T_def upd_par_def)

lemma sci_set_para_unfold:
  assumes "atr_status (sci_cb d i) = SCI_ATR_READY"
    "unat (cb_id (sci_cb d i)) < SCI_NUMBER_OF_CONTROLLERS cfg"
  shows "sci_set_para K cfg i p d = do {
     (rc, d) \<leftarrow> sci_set_para_f i p (snd (sci_set_para_T i p d));
     (rc, d) \<leftarrow> sci_set_para_ETU K cfg i p d;
     (rc, d) \<leftarrow> (if SUPPORT_NO_AUTOSET cfg then Some (rc, d) else sci_set_para_WWT K i p d);
     Some (set_para_rest K cfg i p d) }"
  using assms by (simp add: sci_set_para_def set_para_rest_def case_prod_unfold Let_def)

lemma sci_set_para_before_ETU:
  assumes "atr_status (sci_cb d i) = SCI_ATR_READY"
    "unat (cb_id (sci_cb d i)) < SCI_NUMBER_OF_CONTROLLERS cfg"
  shows "\<exists>d2. par_step i (\<lambda>q. q\<lparr>p_T := if p_T p = 0 \<or> p_T p = 1 then p_T p else p_T q,
       p_f := if 1 \<le> unat (p_f p) \<and> unat (p_f p) \<le> 80 then p_f p else p_f q\<rparr>) d d2 \<and>
     (etu_division_by_zero (sci_cb d2 i) p \<longleftrightarrow> etu_division_by_zero (sci_cb d i) p) \<and>
     sci_set_para K cfg i p d = do {
       (rc, d) \<leftarrow> sci_set_para_ETU K cfg i p d2;
       (rc, d) \<leftarrow> (if SUPPORT_NO_AUTOSET cfg then Some (rc, d) else sci_set_para_WWT K i p d);
       Some (set_para_rest K cfg i p d) }"
proof -
  define d1 where "d1 = snd (sci_set_para_T i p d)"
  obtain d2 where d2: "sci_set_para_f i p d1 = Some (SCI_ERROR_OK, d2)"
    "par_step i (\<lambda>q. q\<lparr>p_f := if 1 \<le> unat (p_f p) \<and> unat (p_f p) \<le> 80 then p_f p else p_f q\<rparr>) d1 d2"
    "clk (sci_cb d2 i) = clk (sci_cb d1 i)" "cb_WWT (sci_cb d2 i) = cb_WWT (sci_cb d1 i)"
    using par_step_f [of i p d1] by blast
  note T = par_step_T [of i p d, folded d1_def]
  have "par_step i (\<lambda>q. q\<lparr>p_T := if p_T p = 0 \<or> p_T p = 1 then p_T p else p_T q,
       p_f := if 1 \<le> unat (p_f p) \<and> unat (p_f p) \<le> 80 then p_f p else p_f q\<rparr>) d d2"
    using T d2(2) by (simp add: par_step_def)
  moreover have "etu_division_by_zero (sci_cb d2 i) p \<longleftrightarrow> etu_division_by_zero (sci_cb d i) p"
    using T d2(2-4) sci_set_para_T_keeps [of i p d, folded d1_def]
    by (simp add: etu_division_by_zero_def par_step_def)
  moreover have "sci_set_para K cfg i p d = do {
       (rc, d) \<leftarrow> sci_set_para_ETU K cfg i p d2;
       (rc, d) \<leftarrow> (if SUPPORT_NO_AUTOSET cfg then Some (rc, d) else sci_set_para_WWT K i p d);
       Some (set_para_rest K cfg i p d) }"
    using d2(1) by (simp add: sci_set_para_unfold [OF assms] d1_def)
  ultimately show ?thesis by blast
qed

lemma sci_set_para_merges:
  assumes "quiet K i" "atr_status (sci_cb d i) = SCI_ATR_READY"
    "unat (cb_id (sci_cb d i)) < SCI_NUMBER_OF_CONTROLLERS cfg" "\<not> etu_division_by_zero (sci_cb d i) p"
  shows "\<exists>d'. sci_set_para K cfg i p d =
       Some (if unat (p_U p) \<le> 3 then SCI_ERROR_OK else SCI_ERROR_PARAMETER_OUT_OF_RANGE, d') \<and>
     par_step i (merged_params cfg p) d d'"
proof -
  obtain d2 where
    d2: "par_step i (\<lambda>q. q\<lparr>p_T := if p_T p = 0 \<or> p_T p = 1 then p_T p else p_T q,
       p_f := if 1 \<le> unat (p_f p) \<and> unat (p_f p) \<le> 80 then p_f p else p_f q\<rparr>) d d2"
    "\<not> etu_division_by_zero (sci_cb d2 i) p"
    "sci_set_para K cfg i p d = do {
       (rc, d) \<leftarrow> sci_set_para_ETU K cfg i p d2;
       (rc, d) \<leftarrow> (if SUPPORT_NO_AUTOSET cfg then Some (rc, d) else sci_set_para_WWT K i p d);
       Some (set_para_rest K cfg i p d) }"
    using sci_set_para_before_ETU [OF assms(2, 3), of p K] assms(4) by blast
  obtain r3 d3 where d3: "sci_set_para_ETU K cfg i p d2 = Some (r3, d3)"
     "par_step i (\<lambda>q. q\<lparr>p_ETU := if 8 \<le> unat (p_ETU p) \<and> unat (p_ETU p) \<le> 0xFFF then p_ETU p else p_ETU q\<rparr>) d2 d3"
    using par_step_ETU [OF assms(1) d2(2)] by blast
  obtain r4 d4 where
    d4: "(if SUPPORT_NO_AUTOSET cfg then Some (r3, d3) else sci_set_para_WWT K i p d3) = Some (r4, d4)"
      "par_step i (\<lambda>q. q\<lparr>p_WWT := if \<not> SUPPORT_NO_AUTOSET cfg \<and> 12 \<le> unat (p_WWT p) then p_WWT p else p_WWT q\<rparr>) d3 d4"
    using par_step_WWT [of K i p d3] by (cases "SUPPORT_NO_AUTOSET cfg") (auto simp: par_step_def)
  have "sci_set_para K cfg i p d = Some (set_para_rest K cfg i p d4)"
    using d2(3) d3(1) d4(1) by simp
  moreover have "par_step i (merged_params cfg p) d (snd (set_para_rest K cfg i p d4))"
    using par_step_trans [OF par_step_trans [OF par_step_trans [OF d2(1) d3(2)] d4(2)] par_step_rest [of i p d4 K cfg]]
    by (rule par_step_cong)
       (rule SCI_PARAMETERS.equality; simp add: merged_params_def)
  ultimately show ?thesis
    using set_para_rest_rc [of K cfg i p d4] by (cases "set_para_rest K cfg i p d4") simp
qed

lemma sci_set_para_division:
  assumes "atr_status (sci_cb d i) = SCI_ATR_READY"
    "unat (cb_id (sci_cb d i)) < SCI_NUMBER_OF_CONTROLLERS cfg" "etu_division_by_zero (sci_cb d i) p"
  shows "sci_set_para K cfg i p d = None"
proof -
  obtain d2 where d2: "etu_division_by_zero (sci_cb d2 i) p"
    "sci_set_para K cfg i p d = do {
       (rc, d) \<leftarrow> sci_set_para_ETU K cfg i p d2;
       (rc, d) \<leftarrow> (if SUPPORT_NO_AUTOSET cfg then Some (rc, d) else sci_set_para_WWT K i p d);
       Some (set_para_rest K cfg i p d) }"
    using sci_set_para_before_ETU [OF assms(1, 2), of p K] assms(3) by blast
  define d3 where "d3 = upd_par i (\<lambda>q. q\<lparr>p_ETU := p_ETU p\<rparr>) d2"
  have d3: "etu_division_by_zero (sci_cb d3 i) p" "p_ETU (sci_parameters (sci_cb d3 i)) = p_ETU p"
    "clk (sci_cb d3 i) = clk (sci_cb d2 i)"
    using d2(1) by (simp_all add: d3_def upd_par_def etu_division_by_zero_def)
  have cond: "8 \<le> unat (p_ETU p)" "unat (p_ETU p) \<le> 0xFFF"
    "clk (sci_cb d3 i) \<in> {357, 358} \<longrightarrow> p_f p \<notin> {4, 5, 6}"
    using d3(1) by (auto simp: etu_division_by_zero_def)
  then have "sci_set_para_ETU_table K i p d3 = None"
    using etu_table_None_iff [OF d3(2) cond] d3(1) by blast
  moreover have "8 \<le> p_ETU p" "p_ETU p \<le> 0xFFF" using cond by (simp_all add: word_le_nat_alt)
  ultimately have "sci_set_para_ETU K cfg i p d2 = None"
    using cond(3) unfolding sci_set_para_ETU_def d3_def [symmetric] Let_def by auto
  then show ?thesis by (simp add: d2(2))
qed

lemma upd_par_wf [simp]: "wf_drv cfg (upd_par i f d) \<longleftrightarrow> wf_drv cfg d"
  by (rule wf_drv_fun_upd_iff [where i = i and cb = "sci_cb (upd_par i f d) i"]) (simp_all add: upd_par_def)

lemma asc_set_baud_wf: "asc_set_baud K i bits msk rate d = Some d' \<Longrightarrow> wf_drv cfg d' \<longleftrightarrow> wf_drv cfg d"
  using asc_set_baud_frame(1) by (rule wf_drv_cong)

lemma set_req_baud_wf: "set_req_baud K i b d = Some d' \<Longrightarrow> wf_drv cfg d' \<longleftrightarrow> wf_drv cfg d"
  using set_req_baud_frame(1) by (rule wf_drv_cong)

lemma sci_set_para_ETU_wf:
  assumes "sleep_ok K cfg" "wf_drv cfg d" "sci_set_para_ETU K cfg i p d = Some (rc, d')"
  shows "wf_drv cfg d'"
proof -
  have tab: "wf_drv cfg e'" if "sci_set_para_ETU_table K i p e = Some (r, e')" "wf_drv cfg e" for e e' r
    using wf_drv_cong [OF etu_table_frame(1) [OF that(1)]] that(2) by blast
  have at: "wf_drv cfg e'" if clock: "etu_at_clock K cfg i c e = Some e'" and wf: "wf_drv cfg e" for c e e'
  proof -
    obtain b e1 where "set_req_baud K i b e = Some e1" "e' = smartcard_reset K cfg i 1 e1"
      using clock by (auto simp: etu_at_clock_def bind_eq_Some_conv)
    then show ?thesis using wf set_req_baud_wf smartcard_reset_wf [OF assms(1)] by metis
  qed
  show ?thesis
    using assms(2, 3) tab at
    by (auto simp: sci_set_para_ETU_def Let_def bind_eq_Some_conv split: if_splits)
qed

lemma setters_wf [simp]:
  "wf_drv cfg (snd (sci_set_para_CWT i p d)) \<longleftrightarrow> wf_drv cfg d"
  "wf_drv cfg (snd (sci_set_para_BWT i p d)) \<longleftrightarrow> wf_drv cfg d"
  "wf_drv cfg (snd (sci_set_para_EGT K i p d)) \<longleftrightarrow> wf_drv cfg d"
  "wf_drv cfg (snd (sci_set_para_CLK_p i p d)) \<longleftrightarrow> wf_drv cfg d"
  "wf_drv cfg (snd (sci_set_para_check i p d)) \<longleftrightarrow> wf_drv cfg d"
  "wf_drv cfg (snd (sci_set_para_class K cfg' i p d)) \<longleftrightarrow> wf_drv cfg d"
  by (simp_all add: sci_set_para_CWT_def sci_set_para_BWT_def sci_set_para_EGT_def
      sci_set_para_CLK_p_def sci_set_para_check_def sci_set_para_class_def Let_def)

lemma set_para_rest_wf: "wf_drv cfg (snd (set_para_rest K cfg' i p d)) \<longleftrightarrow> wf_drv cfg d"
  by (simp add: set_para_rest_def case_prod_unfold Let_def)

lemma sci_set_para_f_wf: "sci_set_para_f i p d = Some (rc, d') \<Longrightarrow> wf_drv cfg d' \<longleftrightarrow> wf_drv cfg d"
  by (auto simp: sci_set_para_f_def sci_atom_set_para_f_def bind_eq_Some_conv split: if_splits)

lemma sci_set_para_WWT_wf: "sci_set_para_WWT K i p d = Some (rc, d') \<Longrightarrow> wf_drv cfg d' \<longleftrightarrow> wf_drv cfg d"
  by (auto simp: sci_set_para_WWT_def bind_eq_Some_conv Let_def split: if_splits
      dest!: set_req_baud_wf [of _ _ _ _ _ cfg])

lemma sci_set_parameters_wf:
  assumes "sleep_ok K cfg" "wf_drv cfg d" "sci_set_parameters K cfg i p d = Some (rc, d')"
  shows "wf_drv cfg d'"
proof -
  have para: "wf_drv cfg d'" if set: "sci_set_para K cfg i p d = Some (rc, d')"
    "atr_status (sci_cb d i) = SCI_ATR_READY" "unat (cb_id (sci_cb d i)) < SCI_NUMBER_OF_CONTROLLERS cfg"
  proof -
    define d1 where "d1 = snd (sci_set_para_T i p d)"
    obtain r2 d2 r3 d3 r4 d4 where steps: "sci_set_para_f i p d1 = Some (r2, d2)"
        "sci_set_para_ETU K cfg i p d2 = Some (r3, d3)"
        "(if SUPPORT_NO_AUTOSET cfg then Some (r3, d3) else sci_set_para_WWT K i p d3) = Some (r4, d4)"
        "d' = snd (set_para_rest K cfg i p d4)"
      using set(1) unfolding sci_set_para_unfold [OF set(2, 3)] d1_def
      by (auto simp: bind_eq_Some_conv simp del: if_split)
    have "wf_drv cfg d1" using assms(2) by (simp add: d1_def sci_set_para_T_def)
    then have "wf_drv cfg d3"
      using steps(1, 2) sci_set_para_f_wf sci_set_para_ETU_wf [OF assms(1)] by blast
    then have "wf_drv cfg d4"
      using steps(3) by (auto split: if_splits dest: sci_set_para_WWT_wf [of _ _ _ _ _ _ cfg])
    then show ?thesis by (simp add: steps(4) set_para_rest_wf)
  qed
  then show ?thesis using assms(2, 3)
    by (auto simp: sci_set_parameters_def sci_set_para_def split: if_splits)
qed

section \<open>Properties\<close>

text \<open>
  The frequency search always ends, with the highest frequency \<open>31500000 div k\<close> of a whole divisor
  \<open>k\<close> that does not exceed the requested one, and stores it.
\<close>

theorem sci_atom_set_para_f_result:
  "\<exists>k. sci_atom_set_para_f i p d =
         Some (upd_par i (\<lambda>q. q\<lparr>p_f := of_nat (31500000 div Suc k)\<rparr>) d) \<and>
       31500000 div Suc k \<le> unat (p_f p) \<and> (\<forall>j < k. unat (p_f p) < 31500000 div Suc j)"
proof (intro exI conjI allI impI)
  let ?k = "31500000 div Suc (unat (p_f p))"
  show "sci_atom_set_para_f i p d = Some (upd_par i (\<lambda>q. q\<lparr>p_f := of_nat (31500000 div Suc ?k)\<rparr>) d)"
    by (simp add: sci_atom_set_para_f_def frequency_loop_0)
  have "31500000 < Suc (unat (p_f p)) * Suc ?k"
    using dividend_less_times_div [of "Suc (unat (p_f p))" 31500000] by (simp add: algebra_simps)
  then have "31500000 div Suc ?k < Suc (unat (p_f p))" by (simp add: div_less_iff_less_mult)
  then show "31500000 div Suc ?k \<le> unat (p_f p)" by simp
  fix j assume "j < ?k"
  then have "Suc j * Suc (unat (p_f p)) \<le> 31500000"
    by (simp only: Suc_le_eq [symmetric] less_eq_div_iff_mult_less_eq zero_less_Suc)
  then show "unat (p_f p) < 31500000 div Suc j"
    by (simp only: Suc_le_eq [symmetric] less_eq_div_iff_mult_less_eq zero_less_Suc mult.commute)
qed

text \<open>A request for 4 MHz gets the system clock of 31.5 MHz divided by 8.\<close>

theorem sci_atom_set_para_f_result_witness:
  "sci_atom_set_para_f 0 (m_params\<lparr>p_f := 4000000\<rparr>) machine_drv =
     Some (upd_par 0 (\<lambda>q. q\<lparr>p_f := 3937500\<rparr>) machine_drv)"
proof -
  obtain k where k: "sci_atom_set_para_f 0 (m_params\<lparr>p_f := 4000000\<rparr>) machine_drv =
         Some (upd_par 0 (\<lambda>q. q\<lparr>p_f := of_nat (31500000 div Suc k)\<rparr>) machine_drv)"
      "31500000 div Suc k \<le> 4000000" "\<And>j. j < k \<Longrightarrow> 4000000 < 31500000 div Suc j"
    using sci_atom_set_para_f_result [of 0 "m_params\<lparr>p_f := 4000000\<rparr>" machine_drv] by auto
  have "31500000 < 4000001 * Suc k"
    using k(2) by (simp add: div_less_iff_less_mult flip: less_Suc_eq_le)
  moreover have "\<not> 7 < k" using k(3) [of 7] by auto
  ultimately have "k = 7" by simp
  then show ?thesis using k(1) by simp
qed

text \<open>
  C16. Setting and reading back the parameters: on an initialised driver with a card whose ATR is
  ready, \<^verbatim>\<open>sci_set_parameters\<close> stores every value that is in range, keeps the old value of the others,
  and reports an error for an unknown class only, whatever else was out of range;
  \<^verbatim>\<open>sci_get_parameters\<close> then returns exactly the merged block. In particular the check byte type
  cannot be set.
\<close>

theorem sci_set_parameters_roundtrip:
  assumes "quiet K i" "sci_driver_init d = 1" "cb_id (sci_cb d i) = of_nat i"
    "i < SCI_NUMBER_OF_CONTROLLERS cfg" "card_detect (sci_cb d i) = SCI_CARD_PRESENT"
    "atr_status (sci_cb d i) = SCI_ATR_READY" "\<not> etu_division_by_zero (sci_cb d i) p"
  shows "\<exists>d'. sci_set_parameters K cfg i p d =
       Some (if unat (p_U p) \<le> 3 then SCI_ERROR_OK else SCI_ERROR_PARAMETER_OUT_OF_RANGE, d') \<and>
     sci_get_parameters cfg i d' = Some (Inr (merged_params cfg p (sci_parameters (sci_cb d i))))"
proof -
  have idn: "unat (cb_id (sci_cb d i)) = i"
    using assms(3, 4) SCI_NUMBER_OF_CONTROLLERS_cases [of cfg] by (auto simp: unat_of_nat)
  obtain d' where d': "sci_set_para K cfg i p d =
       Some (if unat (p_U p) \<le> 3 then SCI_ERROR_OK else SCI_ERROR_PARAMETER_OUT_OF_RANGE, d')"
     "par_step i (merged_params cfg p) d d'"
    using sci_set_para_merges [OF assms(1, 6) _ assms(7)] idn assms(4) by metis
  have "sci_set_parameters K cfg i p d = sci_set_para K cfg i p d"
    using assms idn by (simp add: sci_set_parameters_def sci_is_card_activated_def sci_is_card_present_def)
  moreover have "sci_get_parameters cfg i d' = Some (Inr (sci_parameters (sci_cb d' i)))"
    using d'(2) assms idn
    by (simp add: sci_get_parameters_def SCI_CHECK_INIT_COND_def par_step_def Let_def)
  ultimately show ?thesis using d' by (simp add: par_step_def)
qed

definition machine_ready :: "machine drv" where
  "machine_ready = with_cb (\<lambda>cb. cb\<lparr>atr_status := SCI_ATR_READY\<rparr>)"

lemma machine_quiet: "quiet machine_kernel i"
  by (simp add: quiet_def par_step_def machine_kernel_def)

theorem sci_set_parameters_roundtrip_witness:
  "\<exists>d'. sci_set_parameters machine_kernel machine_cfg 0 (m_params\<lparr>p_T := 1, p_EGT := 300, p_check := 2\<rparr>) machine_ready =
       Some (SCI_ERROR_OK, d') \<and>
     sci_get_parameters machine_cfg 0 d' = Some (Inr (m_params\<lparr>p_T := 1\<rparr>))"
proof -
  let ?p = "m_params\<lparr>p_T := 1, p_EGT := 300, p_check := 2\<rparr>"
  have cb: "sci_cb machine_ready 0 = machine_cb\<lparr>atr_status := SCI_ATR_READY\<rparr>" "sci_driver_init machine_ready = 1"
    by (simp_all add: machine_ready_def with_cb_def machine_drv_def)
  have "\<not> etu_division_by_zero (sci_cb machine_ready 0) ?p"
    by (simp add: etu_division_by_zero_def cb machine_cb_def m_params_def)
  moreover have "merged_params machine_cfg ?p (sci_parameters (sci_cb machine_ready 0)) = m_params\<lparr>p_T := 1\<rparr>"
    by (simp add: merged_params_def cb machine_cb_def m_params_def)
  ultimately show ?thesis
    using sci_set_parameters_roundtrip [OF machine_quiet, of machine_ready 0 machine_cfg ?p]
    by (simp add: cb machine_cb_def m_params_def)
qed

text \<open>
  C39. The only way for \<^verbatim>\<open>sci_set_parameters\<close> not to return is a division by zero in
  \<^verbatim>\<open>ASC_baud_mode_0\<close>: when the parameters reach the baud rate computation of
  \<^verbatim>\<open>sci_set_para_ETU_table\<close> in mode 0 while the waiting time derived from the ATR is still zero
  (or, at 6 MHz, a multiple of \<^verbatim>\<open>2^28\<close>).
\<close>

theorem sci_set_parameters_None_iff:
  assumes "quiet K i" 
  shows "sci_set_parameters K cfg i p d = None \<longleftrightarrow>
     sci_driver_init d = 1 \<and> unat (cb_id (sci_cb d i)) < SCI_NUMBER_OF_CONTROLLERS cfg \<and>
     card_detect (sci_cb d i) = SCI_CARD_PRESENT \<and> atr_status (sci_cb d i) = SCI_ATR_READY \<and>
     etu_division_by_zero (sci_cb d i) p"
proof -
  have "sci_set_para K cfg i p d = None \<longleftrightarrow> etu_division_by_zero (sci_cb d i) p"
    if "atr_status (sci_cb d i) = SCI_ATR_READY" "unat (cb_id (sci_cb d i)) < SCI_NUMBER_OF_CONTROLLERS cfg"
    using sci_set_para_division [OF that] sci_set_para_merges [OF assms that, of p]
    by (metis option.distinct(1))
  moreover have "sci_set_para K cfg i p d \<noteq> None" if "atr_status (sci_cb d i) \<noteq> SCI_ATR_READY"
    using that by (simp add: sci_set_para_def)
  ultimately show ?thesis
    by (cases "atr_status (sci_cb d i) = SCI_ATR_READY")
       (auto simp: sci_set_parameters_def sci_is_card_activated_def sci_is_card_present_def)
qed

text \<open>An element time unit of 370 on a card whose ATR was never evaluated.\<close>

theorem sci_set_parameters_None_iff_witness:
  "sci_set_parameters machine_kernel machine_cfg 0 (m_params\<lparr>p_f := 3, p_ETU := 370\<rparr>) machine_ready = None"
  using sci_set_parameters_None_iff [OF machine_quiet, of machine_cfg 0 "m_params\<lparr>p_f := 3, p_ETU := 370\<rparr>" machine_ready]
  by (simp add: machine_ready_def with_cb_def machine_drv_def machine_cb_def m_params_def etu_division_by_zero_def)

end
