(* ===== verification/Sci_Init.thy ===== *)
theory Sci_Init
  imports Sci_Line Sci_Params
begin

text \<open>
  Card detection, initialisation and shutdown of the smart card driver
  (\<^verbatim>\<open>src/smartcard/sci_drv.c\<close>): the detection thread of a slot, \<^verbatim>\<open>sci_init\<close> and \<^verbatim>\<open>sci_exit\<close>.

  A wait loop that only sleeps is a \<^verbatim>\<open>partial_function\<close> into \<open>option\<close>: \<open>None\<close> if it never ends.
\<close>

section \<open>Card detection\<close>

abbreviation (input) zero_buf :: "u8 list" where "zero_buf \<equiv> replicate SCI_BUFFER_SIZE 0"

definition sci_detect_change :: "'w kernel \<Rightarrow> config \<Rightarrow> nat \<Rightarrow> 'w drv \<Rightarrow> 'w drv option" where
  "sci_detect_change K cfg i d =
     (let d = msleep K 8 d in
      if card_detect (sci_cb d i) = SCI_CARD_NOT_PRESENT then
        do {
          let d = upd_cb i (\<lambda>cb. cb\<lparr>atr_status := SCI_WITHOUT_ATR\<rparr>) d;
          let d = cmdvcc_off K cfg i d;
          (_, d) \<leftarrow> sci_hw_init K cfg i d;
          let d = upd_cb i (\<lambda>cb. cb\<lparr>read_buf := zero_buf, rx_rptr := 0, rx_wptr := 0,
                                     write_buf := zero_buf, tx_rptr := 0, tx_wptr := 0\<rparr>) d;
          Some (set_serial_irq K i RX_FULL_IRQ d)
        }
      else
        do {
          (_, d) \<leftarrow> sci_hw_init K cfg i d;
          Some (cmdvcc_on K cfg i d)
        })"

definition sci_irq_install :: "'w kernel \<Rightarrow> nat \<Rightarrow> 'w drv \<Rightarrow> int \<times> 'w drv" where
  "sci_irq_install K i d =
     (if cb_id (sci_cb d i) = 0 then
        let (res, d) = hw_get (request_irq K SCI0_INT_RX_TX) d in
        if res < 0 then (-1, d) else (0, d)
      else if cb_id (sci_cb d i) = 1 then
        let (res, d) = hw_get (request_irq K SCI1_INT_RX_TX) d in
        if res < 0 then (-1, d) else (0, d)
      else (-1, d))"

text \<open>One round of the detection thread, on the last status it has seen, and the thread itself.\<close>

definition detect_round ::
    "'w kernel \<Rightarrow> config \<Rightarrow> nat \<Rightarrow> u32 \<Rightarrow> 'w drv \<Rightarrow> (u32 \<times> 'w drv) option" where
  "detect_round K cfg i last_status d =
     do {
       let (status, d) = hw_get (stpio_get_pin K (pin_detect (sci_cb d i))) d;
       if status \<noteq> last_status then
         do {
           let d = upd_cb i (\<lambda>cb. cb\<lparr>card_detect :=
                     if status \<noteq> 0 then SCI_CARD_PRESENT else SCI_CARD_NOT_PRESENT\<rparr>) d;
           d \<leftarrow> sci_detect_change K cfg i d;
           Some (status, msleep K 10 d)
         }
       else Some (last_status, msleep K 10 d)
     }"

partial_function (option) detect_loop ::
    "'w kernel \<Rightarrow> config \<Rightarrow> nat \<Rightarrow> u32 \<Rightarrow> 'w drv \<Rightarrow> 'w drv option" where
  "detect_loop K cfg i last_status d =
     (if polling (sci_cb d i) \<noteq> 0 then
        Option.bind (detect_round K cfg i last_status d)
          (\<lambda>r. detect_loop K cfg i (fst r) (snd r))
      else Some d)"

definition sci_detect_handler :: "'w kernel \<Rightarrow> config \<Rightarrow> nat \<Rightarrow> 'w drv \<Rightarrow> 'w drv option" where
  "sci_detect_handler K cfg i d =
     do {
       let d = upd_cb i (\<lambda>cb. cb\<lparr>polling := 1\<rparr>) d;
       let d = cmdvcc_off K cfg i d;
       d \<leftarrow> detect_loop K cfg i 0 d;
       Some (upd_cb i (\<lambda>cb. cb\<lparr>polling := 1\<rparr>) d)
     }"

section \<open>Initialisation and shutdown\<close>

partial_function (option) wait_polling :: "'w kernel \<Rightarrow> nat \<Rightarrow> 'w drv \<Rightarrow> 'w drv option" where
  "wait_polling K i d =
     (if polling (sci_cb d i) = 0 then wait_polling K i (msleep K 1 d) else Some d)"

text \<open>The block that \<^verbatim>\<open>sci_exit\<close> repeats for each pin: free it and forget it.\<close>

definition release_pin ::
    "'w kernel \<Rightarrow> nat \<Rightarrow> (SCI_CONTROL_BLOCK \<Rightarrow> pin) \<Rightarrow> (SCI_CONTROL_BLOCK \<Rightarrow> SCI_CONTROL_BLOCK)
       \<Rightarrow> 'w drv \<Rightarrow> 'w drv" where
  "release_pin K i get clear d =
     (if get (sci_cb d i) \<noteq> None
      then upd_cb i clear (hw (stpio_free_pin K (get (sci_cb d i))) d) else d)"

definition sci_exit_slot :: "'w kernel \<Rightarrow> config \<Rightarrow> nat \<Rightarrow> 'w drv \<Rightarrow> 'w drv option" where
  "sci_exit_slot K cfg i d =
     do {
       let d = (if polling (sci_cb d i) \<noteq> 0 then upd_cb i (\<lambda>cb. cb\<lparr>polling := 0\<rparr>) d else d);
       d \<leftarrow> wait_polling K i d;
       let d = (if i = 0 then hw (free_irq K SCI0_INT_RX_TX) d else d);
       let d = (if i = 1 then hw (free_irq K SCI1_INT_RX_TX) d else d);
       let d = snd (SCI_ClockDisable K i d);
       let d = msleep K 10 d;
       let d = (if pin_cmdvcc (sci_cb d i) \<noteq> None then cmdvcc_off K cfg i d else d);
       let d = release_pin K i pin_cmdvcc (\<lambda>cb. cb\<lparr>pin_cmdvcc := None\<rparr>) d;
       let d = release_pin K i pin_detect (\<lambda>cb. cb\<lparr>pin_detect := None\<rparr>) d;
       let d = release_pin K i pin_reset (\<lambda>cb. cb\<lparr>pin_reset := None\<rparr>) d;
       let d = release_pin K i pin_clock (\<lambda>cb. cb\<lparr>pin_clock := None\<rparr>) d;
       let d = release_pin K i pin_rxd (\<lambda>cb. cb\<lparr>pin_rxd := None\<rparr>) d;
       let d = release_pin K i pin_txd (\<lambda>cb. cb\<lparr>pin_txd := None\<rparr>) d;
       Some d
     }"

fun sci_exit_loop :: "'w kernel \<Rightarrow> config \<Rightarrow> nat list \<Rightarrow> 'w drv \<Rightarrow> 'w drv option" where
  "sci_exit_loop K cfg [] d = Some d"
| "sci_exit_loop K cfg (i # is) d =
     (case sci_exit_slot K cfg i d of None \<Rightarrow> None | Some d \<Rightarrow> sci_exit_loop K cfg is d)"

definition sci_exit :: "'w kernel \<Rightarrow> config \<Rightarrow> 'w drv \<Rightarrow> 'w drv option" where
  "sci_exit K cfg d =
     (case sci_exit_loop K cfg [0..<SCI_NUMBER_OF_CONTROLLERS cfg] d of
        None \<Rightarrow> None | Some d \<Rightarrow> Some (d\<lparr>sci_driver_init := 0\<rparr>))"

definition request_pin ::
    "'w kernel \<Rightarrow> nat \<Rightarrow> nat \<Rightarrow> (pin \<Rightarrow> SCI_CONTROL_BLOCK \<Rightarrow> SCI_CONTROL_BLOCK) \<Rightarrow> 'w drv \<Rightarrow> 'w drv" where
  "request_pin K i n put d =
     (let (p, d) = hw_get (stpio_request_pin K (pio_port (sci_cb d i)) n) d in upd_cb i (put p) d)"

definition SCI_IO_init :: "'w kernel \<Rightarrow> config \<Rightarrow> nat \<Rightarrow> 'w drv \<Rightarrow> int \<times> 'w drv" where
  "SCI_IO_init K cfg i d =
     (let d = request_pin K i 0 (\<lambda>p cb. cb\<lparr>pin_txd := p\<rparr>) d;
          d = request_pin K i 1 (\<lambda>p cb. cb\<lparr>pin_rxd := p\<rparr>) d;
          d = request_pin K i 3 (\<lambda>p cb. cb\<lparr>pin_clock := p\<rparr>) d;
          d = request_pin K i 4 (\<lambda>p cb. cb\<lparr>pin_reset := p\<rparr>) d;
          d = request_pin K i 7 (\<lambda>p cb. cb\<lparr>pin_detect := p\<rparr>) d;
          d = request_pin K i 5 (\<lambda>p cb. cb\<lparr>pin_cmdvcc := p\<rparr>) d;
          (ok, d) = SCI_SetClockSource K cfg i d
      in if ok = 0 then (0, d)
      else let (ok, d) = SCI_ClockEnable K i d in if ok = 0 then (0, d) else (1, d))"

text \<open>The base addresses and register defaults of the first half of the loop body of \<^verbatim>\<open>sci_init\<close>.\<close>

definition sci_init_addresses :: "'w kernel \<Rightarrow> config \<Rightarrow> nat \<Rightarrow> 'w drv \<Rightarrow> 'w drv" where
  "sci_init_addresses K cfg i d =
     (let d = (if i = 0 then
                 asc_defaults K i BASE_ADDRESS_ASC0 (upd_cb i (\<lambda>cb. cb\<lparr>
                   base_address_pio0 := PIO0_BASE_ADDRESS cfg,
                   base_address_asc := ASC0_BASE_ADDRESS cfg,
                   base_address_sci := SCI0_BASE_ADDRESS cfg,
                   base_address_pio4 := PIO4_BASE_ADDRESS cfg,
                   pio_port := 0\<rparr>) d)
               else if i = 1 then
                 asc_defaults K i BASE_ADDRESS_ASC1 (upd_cb i (\<lambda>cb. cb\<lparr>
                   base_address_pio0 := PIO1_BASE_ADDRESS cfg,
                   base_address_asc := ASC1_BASE_ADDRESS cfg,
                   base_address_sci := SCI1_BASE_ADDRESS cfg,
                   base_address_pio4 := PIO3_BASE_ADDRESS cfg,
                   pio_port := 1\<rparr>) d)
               else d)
      in upd_cb i (\<lambda>cb. cb\<lparr>base_address_syscfg := SYS_CFG_BASE_ADDRESS cfg,
                           driver_inuse := 0, cb_id := of_nat i\<rparr>) d)"

text \<open>
  The loop body of \<^verbatim>\<open>sci_init\<close>: \<open>Inl\<close> is a return out of the loop with the given code, \<open>Inr\<close> the
  state in which the next slot is initialised.
\<close>

definition sci_init_slot ::
    "'w kernel \<Rightarrow> config \<Rightarrow> nat \<Rightarrow> 'w drv \<Rightarrow> (SCI_ERROR \<times> 'w drv + 'w drv) option" where
  "sci_init_slot K cfg i d =
     do {
       let d = sci_init_addresses K cfg i d;
       let d = set_serial_irq K i RX_FULL_IRQ d;
       let (ok, d) = SCI_IO_init K cfg i d;
       let (irq, d) = (if ok = 0 then (0, d) else sci_irq_install K i d);
       if ok = 0 \<or> irq < 0 then
         do { d \<leftarrow> sci_exit K cfg d; Some (Inl (SCI_ERROR_DRIVER_NOT_INITIALIZED, d)) }
       else
         do {
           (rc, d) \<leftarrow> sci_hw_init K cfg i d;
           if rc \<noteq> SCI_ERROR_OK then
             do { d \<leftarrow> sci_exit K cfg d; Some (Inl (SCI_ERROR_DRIVER_NOT_INITIALIZED, d)) }
           else
             let (t, d) = hw_get (kthread_run K i) d;
                 d = upd_cb i (\<lambda>cb. cb\<lparr>cb_thread := t\<rparr>) d
             in if t \<noteq> None then Some (Inr d)
                else Some (Inl (SCI_ERROR_DRIVER_NOT_INITIALIZED, d))
         }
     }"

fun sci_init_loop ::
    "'w kernel \<Rightarrow> config \<Rightarrow> nat list \<Rightarrow> 'w drv \<Rightarrow> (SCI_ERROR \<times> 'w drv) option" where
  "sci_init_loop K cfg [] d = Some (SCI_ERROR_OK, d\<lparr>sci_driver_init := 1\<rparr>)"
| "sci_init_loop K cfg (i # is) d =
     (case sci_init_slot K cfg i d of
        None \<Rightarrow> None
      | Some (Inl r) \<Rightarrow> Some r
      | Some (Inr d) \<Rightarrow> sci_init_loop K cfg is d)"

definition sci_init :: "'w kernel \<Rightarrow> config \<Rightarrow> 'w drv \<Rightarrow> (SCI_ERROR \<times> 'w drv) option" where
  "sci_init K cfg d = sci_init_loop K cfg [0..<SCI_NUMBER_OF_CONTROLLERS cfg] d"

section \<open>Card detection keeps the slots well-formed\<close>

lemma sci_detect_change_wf:
  assumes "sleep_ok K cfg" "wf_drv cfg d" "sci_detect_change K cfg i d = Some d'"
  shows "wf_drv cfg d'"
proof -
  define d0 where "d0 = msleep K 8 d"
  have wf0: "wf_drv cfg d0" unfolding d0_def using assms wf_drv_sleep by blast
  show ?thesis
  proof (cases "card_detect (sci_cb d0 i) = SCI_CARD_NOT_PRESENT")
    case True
    define d1 where "d1 = cmdvcc_off K cfg i (upd_cb i (\<lambda>cb. cb\<lparr>atr_status := SCI_WITHOUT_ATR\<rparr>) d0)"
    have wf1: "wf_drv cfg d1" unfolding d1_def using wf0 by (simp add: wf_drv_upd_cb)
    obtain r d2 where d2: "sci_hw_init K cfg i d1 = Some (r, d2)"
      and d': "d' = set_serial_irq K i RX_FULL_IRQ (upd_cb i (\<lambda>cb. cb\<lparr>read_buf := zero_buf, rx_rptr := 0,
          rx_wptr := 0, write_buf := zero_buf, tx_rptr := 0, tx_wptr := 0\<rparr>) d2)"
      using assms(3) True unfolding sci_detect_change_def Let_def d0_def [symmetric] d1_def
      by (auto simp: bind_eq_Some_conv)
    have "wf_drv cfg d2" using sci_hw_init_wf [OF assms(1) wf1 d2] .
    then show ?thesis unfolding d' set_serial_irq_wf by (rule wf_drv_upd_cb) (simp add: wf_cb_def)
  next
    case False
    then obtain r d2 where "sci_hw_init K cfg i d0 = Some (r, d2)" "d' = cmdvcc_on K cfg i d2"
      using assms(3) unfolding sci_detect_change_def Let_def d0_def [symmetric]
      by (auto simp: bind_eq_Some_conv)
    then show ?thesis using sci_hw_init_wf [OF assms(1) wf0] by simp
  qed
qed

lemma detect_round_wf:
  assumes "sleep_ok K cfg" "wf_drv cfg d" "detect_round K cfg i old d = Some (r, d')"
  shows "wf_drv cfg d'"
proof -
  obtain status d1 where get: "hw_get (stpio_get_pin K (pin_detect (sci_cb d i))) d = (status, d1)"
    by fastforce
  have wf1: "wf_drv cfg d1"
    using hw_get_step.oper_wf [of cfg "stpio_get_pin K (pin_detect (sci_cb d i))" d] get assms(2) by simp
  define d2 where "d2 = upd_cb i (\<lambda>cb. cb\<lparr>card_detect :=
      if status \<noteq> 0 then SCI_CARD_PRESENT else SCI_CARD_NOT_PRESENT\<rparr>) d1"
  have wf2: "wf_drv cfg d2" unfolding d2_def using wf1 by (simp add: wf_drv_upd_cb)
  show ?thesis
  proof (cases "status = old")
    case True
    then show ?thesis
      using assms(3) get wf_drv_sleep [OF assms(1) wf1] by (auto simp: detect_round_def)
  next
    case False
    then obtain d3 where "sci_detect_change K cfg i d2 = Some d3" "d' = msleep K 10 d3"
      using assms(3) get by (auto simp: detect_round_def d2_def bind_eq_Some_conv)
    then show ?thesis using sci_detect_change_wf [OF assms(1) wf2] wf_drv_sleep [OF assms(1)] by blast
  qed
qed

lemma sci_detect_change_defined: "\<exists>d'. sci_detect_change K cfg i d = Some d'"
proof -
  have hw: "\<exists>r e. sci_hw_init K cfg i x = Some (r, e)" for x
    using sci_hw_init_clock [of K cfg i x] by metis
  let ?d0 = "msleep K 8 d"
  let ?d1 = "cmdvcc_off K cfg i (upd_cb i (\<lambda>cb. cb\<lparr>atr_status := SCI_WITHOUT_ATR\<rparr>) ?d0)"
  show ?thesis using hw [of ?d0] hw [of ?d1] by (auto simp: sci_detect_change_def Let_def)
qed

section \<open>Waiting for the detection thread\<close>

interpretation polling_loop: wait_loop "msleep K 1" "\<lambda>d. polling (sci_cb d i) = 0" "wait_polling K i" "\<lambda>d. d"
  for K :: "'w kernel" and i
proof
  fix d
  show "wait_polling K i d = (if polling (sci_cb d i) = 0 then wait_polling K i (msleep K 1 d) else Some d)"
    by (subst wait_polling.simps) simp
next
  fix d r assume "wait_polling K i d = Some r"
  then show "\<exists>n. polling (sci_cb (sleeps K 1 n d) i) \<noteq> 0"
  proof (rule wait_polling.raw_induct [where P = "\<lambda>K i d d'. \<exists>n. polling (sci_cb (sleeps K 1 n d) i) \<noteq> 0", rotated])
    fix w K i d and d' :: "'w drv"
    assume IH: "\<And>K i d d'. w K i d = Some d' \<Longrightarrow> \<exists>n. polling (sci_cb (sleeps K 1 n d) i) \<noteq> 0"
      and body: "(if polling (sci_cb d i) = 0 then w K i (msleep K 1 d) else Some d) = Some d'"
    show "\<exists>n. polling (sci_cb (sleeps K 1 n d) i) \<noteq> 0"
      using IH [of K i "msleep K 1 d"] body by (metis option.distinct(1) iterate.simps)
  qed
qed

section \<open>Shutting down\<close>

lemma sci_exit_slot_None_iff:
  "sci_exit_slot K cfg i d = None \<longleftrightarrow>
     (\<forall>n. polling (sci_cb (sleeps K 1 n (upd_cb i (\<lambda>cb. cb\<lparr>polling := 0\<rparr>) d)) i) = 0)"
proof -
  define d0 where "d0 = upd_cb i (\<lambda>cb. cb\<lparr>polling := 0\<rparr>) d"
  have start: "(if polling (sci_cb d i) \<noteq> 0 then d0 else d) = d0"
  proof (cases "polling (sci_cb d i) = 0")
    case True
    then have "d0 = d" unfolding d0_def upd_cb_def by (simp add: fun_upd_idem)
    then show ?thesis using True by simp
  qed simp
  have "sci_exit_slot K cfg i d = None \<longleftrightarrow> wait_polling K i d0 = None"
    unfolding sci_exit_slot_def Let_def d0_def [symmetric] start
    by (cases "wait_polling K i d0") simp_all
  then show ?thesis by (simp add: polling_loop.wait_None_iff d0_def)
qed

text \<open>
  Shutting a slot down waits for its detection thread, and returns exactly if that thread sets
  \<^verbatim>\<open>polling\<close> again after it was cleared: when no thread runs, \<^verbatim>\<open>sci_exit\<close> never returns.
\<close>

theorem sci_exit_slot_hangs_iff:
  "sci_exit_slot K cfg i d = None \<longleftrightarrow>
     (\<forall>n. polling (sci_cb (sleeps K 1 n (upd_cb i (\<lambda>cb. cb\<lparr>polling := 0\<rparr>) d)) i) = 0)"
  by (rule sci_exit_slot_None_iff)

section \<open>Starting up\<close>

lemma SCI_SetClockSource_unmapped:
  assumes "\<forall>a n w. fst (ioremap K a n w) = 0"
  shows "fst (SCI_SetClockSource K cfg i d) = 0"
proof -
  have "fst (SetClockSource_ctrl K i e) = 0" for e
    using assms by (simp add: SetClockSource_ctrl_def case_prod_unfold)
  then show ?thesis by (simp add: SCI_SetClockSource_def case_prod_unfold Let_def)
qed

lemma SCI_IO_init_unmapped:
  "\<forall>a n w. fst (ioremap K a n w) = 0 \<Longrightarrow> fst (SCI_IO_init K cfg i d) = 0"
  using SCI_SetClockSource_unmapped [of K cfg i] by (simp add: SCI_IO_init_def Let_def case_prod_unfold)

lemma sci_exit_stuck:
  assumes "\<forall>n d. polling (sci_cb (msleep K n d) 0) = polling (sci_cb d 0)"
  shows "sci_exit K cfg d = None"
proof -
  have "polling (sci_cb (sleeps K 1 n e) 0) = polling (sci_cb e 0)" for n e
    using assms by (induction n arbitrary: e) auto
  then have "sci_exit_slot K cfg 0 d = None" by (simp add: sci_exit_slot_None_iff)
  moreover have "[0..<SCI_NUMBER_OF_CONTROLLERS cfg] = 0 # [1..<SCI_NUMBER_OF_CONTROLLERS cfg]"
    using SCI_NUMBER_OF_CONTROLLERS_cases [of cfg] by (auto simp: upt_conv_Cons)
  ultimately show ?thesis by (simp add: sci_exit_def)
qed

text \<open>
  When registers cannot be mapped or the interrupt is taken, \<^verbatim>\<open>sci_init\<close> does not report an error:
  its cleanup \<^verbatim>\<open>sci_exit\<close> waits for the detection thread of slot 0, which was not started yet, so that
  nothing changes \<^verbatim>\<open>polling\<close> and the call never returns.
\<close>

theorem sci_init_failure_hangs:
  assumes "(\<forall>a n w. fst (ioremap K a n w) = 0) \<or> (\<forall>n w. fst (request_irq K n w) < 0)"
    "\<forall>n d. polling (sci_cb (msleep K n d) 0) = polling (sci_cb d 0)"
  shows "sci_init K cfg d = None"
proof -
  define d1 where "d1 = set_serial_irq K 0 RX_FULL_IRQ (sci_init_addresses K cfg 0 d)"
  have irq: "fst (sci_irq_install K i e) < 0" if "\<forall>n w. fst (request_irq K n w) < 0" for i e
    using that by (simp add: sci_irq_install_def case_prod_unfold Let_def)
  have "sci_init_slot K cfg 0 d = None"
    using assms(1)
  proof
    assume "\<forall>a n w. fst (ioremap K a n w) = 0"
    then show ?thesis
      using SCI_IO_init_unmapped [of K cfg 0 d1] sci_exit_stuck [OF assms(2)]
      by (simp add: sci_init_slot_def Let_def case_prod_unfold d1_def)
  next
    assume "\<forall>n w. fst (request_irq K n w) < 0"
    then show ?thesis
      using irq sci_exit_stuck [OF assms(2)]
      by (simp add: sci_init_slot_def Let_def case_prod_unfold d1_def)
  qed
  moreover have "[0..<SCI_NUMBER_OF_CONTROLLERS cfg] = 0 # [1..<SCI_NUMBER_OF_CONTROLLERS cfg]"
    using SCI_NUMBER_OF_CONTROLLERS_cases [of cfg] by (auto simp: upt_conv_Cons)
  ultimately show ?thesis by (simp add: sci_init_def)
qed

text \<open>
  Before a slot is initialised its number is not set yet: \<open>slot_shape\<close> is the invariant of a slot
  with the number it claims to have. A sleep of the initialising thread, in which the detection threads of the
  slots before run, keeps the numbers and the shape.
\<close>

definition slot_shape :: "SCI_CONTROL_BLOCK \<Rightarrow> bool" where
  "slot_shape cb \<longleftrightarrow> wf_cb (unat (cb_id cb)) cb"

definition sleep_shape :: "'w kernel \<Rightarrow> bool" where
  "sleep_shape K \<longleftrightarrow> (\<forall>n d i. cb_id (sci_cb (msleep K n d) i) = cb_id (sci_cb d i) \<and>
     (slot_shape (sci_cb d i) \<longrightarrow> slot_shape (sci_cb (msleep K n d) i)))"

definition started :: "nat \<Rightarrow> 'w drv \<Rightarrow> bool" where
  "started k d \<longleftrightarrow> (\<forall>j. slot_shape (sci_cb d j)) \<and> (\<forall>j < k. cb_id (sci_cb d j) = of_nat j)"

lemma started_cong:
  assumes "started k d" "\<And>j. cb_id (sci_cb d' j) = cb_id (sci_cb d j)"
    "\<And>j. slot_shape (sci_cb d j) \<Longrightarrow> slot_shape (sci_cb d' j)"
  shows "started k d'"
  using assms by (simp add: started_def)

lemma started_frame: "sci_cb d' = sci_cb d \<Longrightarrow> started k d' \<longleftrightarrow> started k d"
  by (simp add: started_def)

lemma started_upd_cb:
  assumes "started k d" "cb_id (f (sci_cb d i)) = cb_id (sci_cb d i)"
    "wf_cb (unat (cb_id (sci_cb d i))) (sci_cb d i) \<Longrightarrow> wf_cb (unat (cb_id (sci_cb d i))) (f (sci_cb d i))"
  shows "started k (upd_cb i f d)"
  using assms by (auto simp: started_def slot_shape_def)

lemma started_sleep: "sleep_shape K \<Longrightarrow> started k d \<Longrightarrow> started k (msleep K n d)"
  by (rule started_cong [of _ d]) (auto simp: sleep_shape_def)

lemma started_set_serial_irq: "started k d \<Longrightarrow> started k (set_serial_irq K i t d)"
  by (rule started_cong) (auto simp: set_serial_irq_cb slot_shape_def)

lemma started_addresses:
  assumes "started k d"
  shows "started (Suc k) (sci_init_addresses K cfg k d)"
proof -
  have "slot_shape (sci_cb (sci_init_addresses K cfg k d) j)" if "slot_shape (sci_cb d j)" for j
    using that by (auto simp: sci_init_addresses_def Let_def slot_shape_def wf_cb_def)
  moreover have "cb_id (sci_cb (sci_init_addresses K cfg k d) j) = (if j = k then of_nat k else cb_id (sci_cb d j))" for j
    by (simp add: sci_init_addresses_def Let_def)
  ultimately show ?thesis using assms by (auto simp: started_def less_Suc_eq)
qed

lemma SCI_SetClockSource_cb [simp]: "sci_cb (snd (SCI_SetClockSource K cfg i d)) = sci_cb d"
proof -
  have "sci_cb (snd (SetClockSource_7100_7111 K cfg d)) = sci_cb d" for d
    by (simp add: SetClockSource_7100_7111_def Let_def case_prod_unfold)
  moreover have "sci_cb (snd (SetClockSource_7105 K cfg d)) = sci_cb d" for d
    by (simp add: SetClockSource_7105_def Let_def case_prod_unfold)
  moreover have "sci_cb (snd (SetClockSource_ctrl K i d)) = sci_cb d" for d
    by (simp add: SetClockSource_ctrl_def Let_def case_prod_unfold)
  ultimately show ?thesis by (simp add: SCI_SetClockSource_def Let_def case_prod_unfold)
qed

lemma started_request_pin:
  assumes "started k d" "\<And>p cb. cb_id (put p cb) = cb_id cb" "\<And>j p cb. wf_cb j cb \<Longrightarrow> wf_cb j (put p cb)"
  shows "started k (request_pin K i n put d)"
proof -
  obtain p e where g: "hw_get (stpio_request_pin K (pio_port (sci_cb d i)) n) d = (p, e)" by fastforce
  have "sci_cb e = sci_cb d"
    using hw_get_step.oper_frame(1) [of "stpio_request_pin K (pio_port (sci_cb d i)) n" d] g by simp
  then have "started k e" using assms(1) by (simp add: started_def)
  then show ?thesis unfolding request_pin_def g Let_def prod.case
    by (rule started_upd_cb) (simp_all add: assms)
qed

lemma SCI_IO_init_started:
  assumes "started k d" shows "started k (snd (SCI_IO_init K cfg i d))"
proof -
  define e where "e = request_pin K i 5 (\<lambda>p cb. cb\<lparr>pin_cmdvcc := p\<rparr>)
    (request_pin K i 7 (\<lambda>p cb. cb\<lparr>pin_detect := p\<rparr>) (request_pin K i 4 (\<lambda>p cb. cb\<lparr>pin_reset := p\<rparr>)
    (request_pin K i 3 (\<lambda>p cb. cb\<lparr>pin_clock := p\<rparr>) (request_pin K i 1 (\<lambda>p cb. cb\<lparr>pin_rxd := p\<rparr>)
    (request_pin K i 0 (\<lambda>p cb. cb\<lparr>pin_txd := p\<rparr>) d)))))"
  have "started k e" unfolding e_def using assms by (simp add: started_request_pin)
  moreover have "sci_cb (snd (SCI_IO_init K cfg i d)) = sci_cb e"
    by (simp add: SCI_IO_init_def Let_def case_prod_unfold e_def)
  ultimately show ?thesis by (simp add: started_def)
qed

lemma SCI_IO_init_mapped:
  assumes "\<forall>a n w. fst (ioremap K a n w) \<noteq> 0"
  shows "fst (SCI_IO_init K cfg i d) = 1"
proof -
  have "fst (SetClockSource_7100_7111 K cfg d)" for d
    using assms by (auto simp: SetClockSource_7100_7111_def Let_def case_prod_unfold)
  moreover have "fst (reg_update K a f d)" for a f d
    using assms by (simp add: reg_update_def Let_def case_prod_unfold)
  moreover have "fst (SetClockSource_ctrl K i d) = 1" for d
    using assms by (simp add: SetClockSource_ctrl_def Let_def case_prod_unfold)
  ultimately have "fst (SCI_SetClockSource K cfg i d) = 1" for d
    by (simp add: SCI_SetClockSource_def SetClockSource_7105_def Let_def case_prod_unfold)
  moreover have "fst (SCI_ClockEnable K i d) = 1" for d
    using assms by (simp add: SCI_ClockEnable_def Let_def case_prod_unfold)
  ultimately show ?thesis by (simp add: SCI_IO_init_def Let_def case_prod_unfold)
qed

lemma sci_irq_install_cb [simp]: "sci_cb (snd (sci_irq_install K i d)) = sci_cb d"
  by (simp add: sci_irq_install_def Let_def case_prod_unfold)

lemma sci_hw_init_started:
  assumes "sleep_shape K" "started k d" "sci_hw_init K cfg i d = Some (r, d')"
  shows "started k d' \<and> (r = SCI_ERROR_OK \<longleftrightarrow> cb_id (sci_cb d i) \<in> {0, 1})"
proof -
  obtain m e c where eq: "sci_hw_init K cfg i d =
       Some (if cb_id (sci_cb d i) \<in> {0, 1} then SCI_ERROR_OK else SCI_ERROR_DRIVER_NOT_INITIALIZED,
             sci_fifo_reset K i (sci_cb_init i m))"
    and m: "m = msleep K 3 e \<or> m = e"
      "sci_cb e = (sci_cb d)(i := (sci_cb d i)\<lparr>sci_atr_class := c, clk := 357\<rparr>)"
    by (rule sci_hw_init_clock)
  have "started k e" using assms(2) by (rule started_cong) (auto simp: m(2) slot_shape_def)
  then have "started k m" using m(1) started_sleep [OF assms(1)] by blast
  then have "started k (sci_cb_init i m)"
    unfolding sci_cb_init_def by (rule started_upd_cb) (simp_all add: wf_cb_def)
  then show ?thesis using assms(3) unfolding eq by (auto simp: started_def split: if_splits)
qed

lemma sci_init_slot_starts:
  assumes "\<forall>a n w. fst (ioremap K a n w) \<noteq> 0" "\<forall>n w. 0 \<le> fst (request_irq K n w)"
    "\<forall>i w. fst (kthread_run K i w) \<noteq> None" "sleep_shape K" "started k d" "k < 2"
  shows "\<exists>d'. sci_init_slot K cfg k d = Some (Inr d') \<and> started (Suc k) d'"
proof -
  define d1 where "d1 = snd (SCI_IO_init K cfg k (set_serial_irq K k RX_FULL_IRQ (sci_init_addresses K cfg k d)))"
  have s1: "started (Suc k) d1"
    unfolding d1_def by (intro SCI_IO_init_started started_set_serial_irq started_addresses assms)
  then have id: "cb_id (sci_cb d1 k) \<in> {0, 1}"
    using assms(6) by (auto simp: started_def less_2_cases_iff)
  define d2 where "d2 = snd (sci_irq_install K k d1)"
  have irq: "fst (sci_irq_install K k d1) = 0"
    using id assms(2) by (auto simp: sci_irq_install_def Let_def case_prod_unfold simp flip: not_le)
  have s2: "started (Suc k) d2" using s1 by (simp add: started_def d2_def)
  obtain r d3 where d3: "sci_hw_init K cfg k d2 = Some (r, d3)"
    using sci_hw_init_clock [of K cfg k d2] by metis
  have s3: "started (Suc k) d3" "r = SCI_ERROR_OK"
    using sci_hw_init_started [OF assms(4) s2 d3] id by (auto simp: d2_def)
  define d4 where "d4 = snd (hw_get (kthread_run K k) d3)"
  have "started (Suc k) d4" using s3(1) by (simp add: started_def d4_def)
  then have "started (Suc k) (upd_cb k (\<lambda>cb. cb\<lparr>cb_thread := t\<rparr>) d4)" for t
    by (rule started_upd_cb) simp_all
  moreover have "sci_init_slot K cfg k d = Some (Inr (upd_cb k (\<lambda>cb. cb\<lparr>cb_thread := fst (hw_get (kthread_run K k) d3)\<rparr>) d4))"
    using SCI_IO_init_mapped [OF assms(1)] irq d3 s3(2) assms(3)
    unfolding sci_init_slot_def Let_def case_prod_unfold
    by (simp add: d1_def [symmetric] d2_def [symmetric] d4_def)
  ultimately show ?thesis by blast
qed

text \<open>
  C31. When every register can be mapped, the interrupts are free and the threads start, \<^verbatim>\<open>sci_init\<close>
  returns success with the driver marked initialised, and every slot satisfies the invariant of the driver.
\<close>

theorem sci_init_establishes:
  assumes "\<forall>a n w. fst (ioremap K a n w) \<noteq> 0" "\<forall>n w. 0 \<le> fst (request_irq K n w)"
    "\<forall>i w. fst (kthread_run K i w) \<noteq> None" "sleep_shape K" "\<forall>i. slot_shape (sci_cb d i)"
  shows "\<exists>d'. sci_init K cfg d = Some (SCI_ERROR_OK, d') \<and> sci_driver_init d' = 1 \<and> wf_drv cfg d'"
proof -
  let ?n = "SCI_NUMBER_OF_CONTROLLERS cfg"
  have run: "\<exists>d'. sci_init_loop K cfg [k..<?n] e = Some (SCI_ERROR_OK, d'\<lparr>sci_driver_init := 1\<rparr>) \<and> started ?n d'"
    if "started k e" "k \<le> ?n" for k e
    using that
  proof (induction "?n - k" arbitrary: k e)
    case (Suc m)
    then have k: "k < ?n" by simp
    then have "k < 2" using SCI_NUMBER_OF_CONTROLLERS_cases [of cfg] by auto
    then obtain f where f: "sci_init_slot K cfg k e = Some (Inr f)" "started (Suc k) f"
      using sci_init_slot_starts [OF assms(1-4) Suc.prems(1)] by blast
    have "m = ?n - Suc k" using Suc.hyps(2) by simp
    from Suc.hyps(1) [OF this f(2)] k f(1) show ?case by (simp add: upt_conv_Cons)
  qed auto
  have "started 0 d" using assms(5) by (simp add: started_def)
  then obtain d' where d': "sci_init K cfg d = Some (SCI_ERROR_OK, d'\<lparr>sci_driver_init := 1\<rparr>)" "started ?n d'"
    using run [of 0 d] by (auto simp: sci_init_def)
  have "wf_cb i (sci_cb d' i)" if "i < ?n" for i
  proof -
    have "i < 2" using that SCI_NUMBER_OF_CONTROLLERS_cases [of cfg] by auto
    then have "unat (of_nat i :: u8) = i" by (auto simp: less_2_cases_iff)
    then show ?thesis using d'(2) that by (auto simp: started_def slot_shape_def dest: spec [of _ i])
  qed
  then have "wf_drv cfg (d'\<lparr>sci_driver_init := 1\<rparr>)" by (simp add: wf_drv_def)
  then show ?thesis using d'(1) by auto
qed

lemma machine_shape: "slot_shape (sci_cb machine_drv i)" "sleep_shape machine_kernel"
  by (simp_all add: slot_shape_def wf_cb_def machine_drv_def machine_cb_def wf_zero_ATR sleep_shape_def
      machine_kernel_def)

text \<open>The machine with a mapping that never fails, whatever the address.\<close>

definition mapped_kernel :: "machine kernel" where
  "mapped_kernel = machine_kernel\<lparr>ioremap := \<lambda>a n w. (if a = 0 then 1 else a, w)\<rparr>"

theorem sci_init_establishes_witness:
  "\<exists>d'. sci_init mapped_kernel machine_cfg machine_drv = Some (SCI_ERROR_OK, d') \<and>
     sci_driver_init d' = 1 \<and> wf_drv machine_cfg d'"
proof -
  have "sleep_shape mapped_kernel"
    using machine_shape(2) by (simp add: sleep_shape_def mapped_kernel_def)
  moreover have "\<forall>a n w. fst (ioremap mapped_kernel a n w) \<noteq> 0" "\<forall>n w. 0 \<le> fst (request_irq mapped_kernel n w)"
      "\<forall>i w. fst (kthread_run mapped_kernel i w) \<noteq> None"
    by (simp_all add: mapped_kernel_def machine_kernel_def)
  ultimately show ?thesis
    using sci_init_establishes [of mapped_kernel machine_drv machine_cfg] machine_shape(1) by blast
qed

theorem sci_init_failure_hangs_witness:
  "sci_init (machine_kernel\<lparr>request_irq := \<lambda>n w. (-16, w)\<rparr>) machine_cfg machine_drv = None"
  by (rule sci_init_failure_hangs) (simp_all add: machine_kernel_def)

section \<open>Removing a card\<close>

text \<open>
  When the detect pin falls, one round of the detection thread takes the card out of the slot: it
  marks the card absent, forgets the answer to reset and the line convention, clears both buffers
  and all pointers, and listens for received bytes only.
\<close>

theorem detect_round_removal:
  assumes "fst (stpio_get_pin K (pin_detect (sci_cb d i)) (world d)) = 0" "last_status \<noteq> 0"
    "cb_id (sci_cb d i) \<in> {0, 1}"
    "\<forall>n d. card_detect (sci_cb (msleep K n d) i) = card_detect (sci_cb d i) \<and> cb_id (sci_cb (msleep K n d) i) = cb_id (sci_cb d i)"
  shows "\<exists>e. detect_round K cfg i last_status d = Some (0, msleep K 10 e) \<and>
     (let cb = sci_cb e i in card_detect cb = SCI_CARD_NOT_PRESENT \<and> atr_status cb = SCI_WITHOUT_ATR \<and>
        read_buf cb = zero_buf \<and> write_buf cb = zero_buf \<and> rx_rptr cb = 0 \<and> rx_wptr cb = 0 \<and>
        tx_rptr cb = 0 \<and> tx_wptr cb = 0 \<and> irq_mode cb = RX_FULL_IRQ \<and> cb_byte_invert cb = NO_DEFINED)"
proof -
  define d1 where "d1 = snd (hw_get (stpio_get_pin K (pin_detect (sci_cb d i))) d)"
  define d2 where "d2 = upd_cb i (\<lambda>cb. cb\<lparr>card_detect := SCI_CARD_NOT_PRESENT\<rparr>) d1"
  define d3 where "d3 = cmdvcc_off K cfg i (upd_cb i (\<lambda>cb. cb\<lparr>atr_status := SCI_WITHOUT_ATR\<rparr>) (msleep K 8 d2))"
  have d3: "card_detect (sci_cb d3 i) = SCI_CARD_NOT_PRESENT" "cb_id (sci_cb d3 i) \<in> {0, 1}"
    "card_detect (sci_cb (msleep K 8 d2) i) = SCI_CARD_NOT_PRESENT"
    using assms(3, 4) by (simp_all add: d3_def d2_def d1_def)
  obtain r m e c where eq: "sci_hw_init K cfg i d3 = Some (r, sci_fifo_reset K i (sci_cb_init i m))"
    and m: "m = msleep K 3 e \<or> m = e"
      "sci_cb e = (sci_cb d3)(i := (sci_cb d3 i)\<lparr>sci_atr_class := c, clk := 357\<rparr>)"
    using sci_hw_init_clock [of K cfg i d3 thesis] by blast
  have m': "card_detect (sci_cb m i) = SCI_CARD_NOT_PRESENT" "cb_id (sci_cb m i) \<in> {0, 1}"
    using m assms(4) d3 by auto
  let ?e = "set_serial_irq K i RX_FULL_IRQ (upd_cb i (\<lambda>cb. cb\<lparr>read_buf := zero_buf, rx_rptr := 0, rx_wptr := 0,
      write_buf := zero_buf, tx_rptr := 0, tx_wptr := 0\<rparr>) (sci_fifo_reset K i (sci_cb_init i m)))"
  have "sci_detect_change K cfg i d2 = Some ?e"
    unfolding sci_detect_change_def Let_def using d3(3) eq by (simp add: d3_def [symmetric])
  then have "detect_round K cfg i last_status d = Some (0, msleep K 10 ?e)"
    using assms(1, 2) by (simp add: detect_round_def case_prod_unfold d1_def [symmetric] d2_def [symmetric])
  moreover have "sci_cb ?e i = (sci_cb (sci_cb_init i m) i)\<lparr>read_buf := zero_buf, rx_rptr := 0, rx_wptr := 0,
      write_buf := zero_buf, tx_rptr := 0, tx_wptr := 0, irq_mode := RX_FULL_IRQ\<rparr>"
    using m'(2) by (auto simp: set_serial_irq_cb irq_selections_def sci_cb_init_def)
  ultimately show ?thesis using m'(1) by (auto simp: sci_cb_init_def Let_def)
qed

theorem detect_round_removal_witness:
  "\<exists>e. detect_round machine_kernel machine_cfg 0 1 machine_drv = Some (0, e) \<and>
     card_detect (sci_cb e 0) = SCI_CARD_NOT_PRESENT \<and> read_buf (sci_cb e 0) = replicate 1024 0"
  using detect_round_removal [of machine_kernel machine_drv 0 1 machine_cfg]
  by (auto simp: machine_kernel_def machine_drv_def machine_cb_def machine_start_def Let_def)

end
