(* ===== verification/Sci_Dev.thy ===== *)
theory Sci_Dev
  imports Sci_Init
begin

text \<open>
  The device operations of the smart card driver (\<^verbatim>\<open>src/smartcard/sci_drv.c\<close>): open, close, read,
  write, ioctl, poll, the proc file, the evaluation of the answer to reset, and the module entry
  points. The minor number of the device file is the slot number; \<open>nonblock\<close> is the flag
  \<^verbatim>\<open>O_NONBLOCK\<close> of the open file.
\<close>

abbreviation (input) EBUSY :: int where "EBUSY \<equiv> 16"
abbreviation (input) ENODEV :: int where "ENODEV \<equiv> 19"
abbreviation (input) EINVAL :: int where "EINVAL \<equiv> 22"
abbreviation (input) EWOULDBLOCK :: int where "EWOULDBLOCK \<equiv> 11"
abbreviation (input) ENOMEM :: int where "ENOMEM \<equiv> 12"

section \<open>Operations without buffers\<close>

text \<open>
  \<^verbatim>\<open>sci_read_buf\<close> hands out a pointer into \<^verbatim>\<open>read_buf\<close>: the result \<open>Inr (s, n)\<close> is the index it points to
  and the number of bytes. The tests for null pointers are left out.
\<close>

definition rx_available :: "SCI_CONTROL_BLOCK \<Rightarrow> u32" where
  "rx_available cb = ucast (rx_rptr cb) - ucast (rx_wptr cb)"

definition sci_read_buf ::
    "config \<Rightarrow> nat \<Rightarrow> u32 \<Rightarrow> 'w drv \<Rightarrow> ((SCI_ERROR + nat \<times> u32) \<times> 'w drv) option" where
  "sci_read_buf cfg i num_bytes d =
     do {
       rc \<leftarrow> SCI_CHECK_INIT_COND cfg (cb_id (sci_cb d i)) d;
       if rc \<noteq> SCI_ERROR_OK then Some (Inl rc, d)
       else if num_bytes = 0 then Some (Inl SCI_ERROR_PARAMETER_OUT_OF_RANGE, d)
       else
         let cb = sci_cb d i;
             real_num_bytes = rx_available cb;
             real_num_bytes = (if real_num_bytes > num_bytes then num_bytes else real_num_bytes)
         in Some (Inr (unat (rx_wptr cb), real_num_bytes),
                  upd_cb i (\<lambda>cb. cb\<lparr>rx_wptr := rx_wptr cb + ucast real_num_bytes\<rparr>) d)
     }"

definition sci_deactivate :: "nat \<Rightarrow> 'w drv \<Rightarrow> SCI_ERROR" where
  "sci_deactivate i d = SCI_ERROR_OK"

definition sci_reset :: "'w kernel \<Rightarrow> config \<Rightarrow> nat \<Rightarrow> 'w drv \<Rightarrow> (SCI_ERROR \<times> 'w drv) option" where
  "sci_reset K cfg i d =
     do {
       rc \<leftarrow> SCI_CHECK_INIT_COND cfg (cb_id (sci_cb d i)) d;
       if rc \<noteq> SCI_ERROR_OK then Some (rc, d)
       else
         let d = hw (stpio_set_pin K (pin_cmdvcc (sci_cb d i))
                      (if defined cfg [ADB_BOX, VITAMIN_HD5000] then 1 else 0)) d
         in Some (rc, smartcard_reset K cfg i 0 d)
     }"

definition sci_clock_stop :: "'w kernel \<Rightarrow> config \<Rightarrow> nat \<Rightarrow> 'w drv \<Rightarrow> SCI_ERROR \<times> 'w drv" where
  "sci_clock_stop K cfg i d =
     (if sci_driver_init d = 1 then
        if unat (cb_id (sci_cb d i)) < SCI_NUMBER_OF_CONTROLLERS cfg then
          if sci_is_card_activated i d = SCI_CARD_PRESENT then
            if p_clock_stop_polarity (sci_parameters (sci_cb d i)) \<noteq> SCI_CLOCK_STOP_DISABLED
            then (SCI_ERROR_OK, snd (SCI_ClockDisable K i d))
            else (SCI_ERROR_CLOCK_STOP_DISABLED, d)
          else (SCI_ERROR_CARD_NOT_ACTIVATED, d)
        else (SCI_ERROR_PARAMETER_OUT_OF_RANGE, d)
      else (SCI_ERROR_DRIVER_NOT_INITIALIZED, d))"

definition sci_clock_start :: "'w kernel \<Rightarrow> config \<Rightarrow> nat \<Rightarrow> 'w drv \<Rightarrow> SCI_ERROR \<times> 'w drv" where
  "sci_clock_start K cfg i d =
     (if sci_driver_init d = 1 then
        if unat (cb_id (sci_cb d i)) < SCI_NUMBER_OF_CONTROLLERS cfg then
          if sci_is_card_activated i d = SCI_CARD_PRESENT
          then (SCI_ERROR_OK, snd (SCI_ClockEnable K i d))
          else (SCI_ERROR_CARD_NOT_ACTIVATED, d)
        else (SCI_ERROR_PARAMETER_OUT_OF_RANGE, d)
      else (SCI_ERROR_DRIVER_NOT_INITIALIZED, d))"

definition sci_set_modes :: "config \<Rightarrow> nat \<Rightarrow> SCI_MODES \<Rightarrow> 'w drv \<Rightarrow> SCI_ERROR \<times> 'w drv" where
  "sci_set_modes cfg i m d =
     (let upd = (\<lambda>f. upd_cb i (\<lambda>cb. cb\<lparr>sci_modes := f (sci_modes cb)\<rparr>)) in
      if sci_driver_init d = 1 then
        if unat (cb_id (sci_cb d i)) < SCI_NUMBER_OF_CONTROLLERS cfg then
          let rc = SCI_ERROR_OK;
              (rc, d) = (if emv2000 m = 0 \<or> emv2000 m = 1 then (rc, upd (\<lambda>q. q\<lparr>emv2000 := emv2000 m\<rparr>) d)
                         else (SCI_ERROR_PARAMETER_OUT_OF_RANGE, d));
              rc = (if dma m = 0 \<or> dma m = 1 then rc else SCI_ERROR_PARAMETER_OUT_OF_RANGE);
              (rc, d) = (if man_act m = 0 \<or> man_act m = 1 then (rc, upd (\<lambda>q. q\<lparr>man_act := man_act m\<rparr>) d)
                         else (SCI_ERROR_PARAMETER_OUT_OF_RANGE, d));
              (rc, d) = (if rw_mode m < 4 then (rc, upd (\<lambda>q. q\<lparr>rw_mode := rw_mode m\<rparr>) d)
                         else (SCI_ERROR_PARAMETER_OUT_OF_RANGE, d))
          in (rc, d)
        else (SCI_ERROR_PARAMETER_OUT_OF_RANGE, d)
      else (SCI_ERROR_DRIVER_NOT_INITIALIZED, d))"

definition sci_get_modes :: "config \<Rightarrow> nat \<Rightarrow> 'w drv \<Rightarrow> SCI_ERROR + SCI_MODES" where
  "sci_get_modes cfg i d =
     (if sci_driver_init d = 1 then
        if unat (cb_id (sci_cb d i)) < SCI_NUMBER_OF_CONTROLLERS cfg then
          let q = sci_modes (sci_cb d i) in
          Inr \<lparr>emv2000 = emv2000 q, dma = dma q, man_act = man_act q, rw_mode = rw_mode q\<rparr>
        else Inl SCI_ERROR_PARAMETER_OUT_OF_RANGE
      else Inl SCI_ERROR_DRIVER_NOT_INITIALIZED)"

definition sci_open :: "config \<Rightarrow> nat \<Rightarrow> 'w drv \<Rightarrow> int \<times> 'w drv" where
  "sci_open cfg sci_id d =
     (if sci_id < SCI_NUMBER_OF_CONTROLLERS cfg then
        if driver_inuse (sci_cb d sci_id) = 0
        then (0, upd_cb sci_id (\<lambda>cb. cb\<lparr>driver_inuse := driver_inuse cb + 1\<rparr>) d)
        else (- EBUSY, d)
      else (- ENODEV, d))"

definition sci_close :: "'w kernel \<Rightarrow> config \<Rightarrow> nat \<Rightarrow> 'w drv \<Rightarrow> int \<times> 'w drv" where
  "sci_close K cfg sci_id d =
     (if sci_id < SCI_NUMBER_OF_CONTROLLERS cfg then
        let (rc, d) = (if driver_inuse (sci_cb d sci_id) > 0
                       then (0, upd_cb sci_id (\<lambda>cb. cb\<lparr>driver_inuse := driver_inuse cb - 1\<rparr>) d)
                       else (- EINVAL, d))
        in (rc, cmdvcc_off K cfg sci_id d)
      else (- ENODEV, d))"

section \<open>Reading\<close>

definition read_must_wait :: "SCI_CONTROL_BLOCK \<Rightarrow> bool" where
  "read_must_wait cb \<longleftrightarrow>
     rx_wptr cb \<ge> rx_rptr cb \<and> card_detect cb = SCI_CARD_PRESENT \<or>
     irq_mode cb = RX_FULL_TX_EMPTY_IRQ \<and> card_detect cb = SCI_CARD_PRESENT"

text \<open>The first wait of \<^verbatim>\<open>sci_read\<close>: \<open>Inl\<close> is the return with \<^verbatim>\<open>-EWOULDBLOCK\<close>.\<close>

partial_function (option) read_wait ::
    "'w kernel \<Rightarrow> nat \<Rightarrow> bool \<Rightarrow> 'w drv \<Rightarrow> ('w drv + 'w drv) option" where
  "read_wait K i nonblock d =
     (if read_must_wait (sci_cb d i) then
        if nonblock then Some (Inl d) else read_wait K i nonblock (msleep K 57 d)
      else Some (Inr d))"

text \<open>The second wait, for at most \<open>n\<close> rounds of 10 ms.\<close>

fun read_more :: "'w kernel \<Rightarrow> nat \<Rightarrow> u32 \<Rightarrow> nat \<Rightarrow> 'w drv \<Rightarrow> u32 \<times> 'w drv" where
  "read_more K i len 0 d = (rx_available (sci_cb d i), d)"
| "read_more K i len (Suc n) d =
     (let d = msleep K 10 d;
          real_num_bytes = rx_available (sci_cb d i)
      in if real_num_bytes < len \<and> n \<noteq> 0 then read_more K i len n d else (real_num_bytes, d))"

text \<open>The number of bytes to deliver, and the delivery; \<open>n\<close> is the number of bytes found.\<close>

definition read_limit :: "u32 \<Rightarrow> u32 \<Rightarrow> u32" where
  "read_limit len n =
     (let n = (if n > len then len else n)
      in if len > of_nat SCI_BUFFER_SIZE then of_nat SCI_BUFFER_SIZE else n)"

definition read_deliver ::
    "'w kernel \<Rightarrow> nat \<Rightarrow> u32 \<Rightarrow> u32 \<Rightarrow> 'w drv \<Rightarrow> (int \<times> 'w drv) option" where
  "read_deliver K i buffer n d =
     do {
       bytes \<leftarrow> arr_slice (read_buf (sci_cb d i)) (unat (rx_wptr (sci_cb d i))) (unat n);
       let d = hw (copy_bytes_to_user K buffer bytes) d;
       let d = upd_cb i (\<lambda>cb. cb\<lparr>rx_wptr := rx_wptr cb + ucast n\<rparr>) d;
       Some (sint n,
             if rx_wptr (sci_cb d i) = rx_rptr (sci_cb d i)
             then msleep K 3 (upd_cb i (\<lambda>cb. cb\<lparr>rx_wptr := 0, rx_rptr := 0\<rparr>) d)
             else d)
     }"

definition sci_read ::
    "'w kernel \<Rightarrow> nat \<Rightarrow> bool \<Rightarrow> u32 \<Rightarrow> u32 \<Rightarrow> 'w drv \<Rightarrow> (int \<times> 'w drv) option" where
  "sci_read K sci_id nonblock buffer len d =
     do {
       w \<leftarrow> read_wait K sci_id nonblock d;
       case w of
         Inl d \<Rightarrow> Some (- EWOULDBLOCK, d)
       | Inr d \<Rightarrow>
           if card_detect (sci_cb d sci_id) \<noteq> SCI_CARD_PRESENT then Some (0, d)
           else
             let real_num_bytes = rx_available (sci_cb d sci_id);
                 (real_num_bytes, d) =
                   (if \<not> nonblock \<and> real_num_bytes < len then read_more K sci_id len 100 d
                    else (real_num_bytes, d))
             in read_deliver K sci_id buffer (read_limit len real_num_bytes) d
     }"

section \<open>Writing\<close>

definition write_must_wait :: "SCI_CONTROL_BLOCK \<Rightarrow> bool" where
  "write_must_wait cb \<longleftrightarrow> tx_wptr cb \<noteq> tx_rptr cb \<and> card_detect cb = SCI_CARD_PRESENT"

partial_function (option) write_wait ::
    "'w kernel \<Rightarrow> nat \<Rightarrow> bool \<Rightarrow> 'w drv \<Rightarrow> ('w drv + 'w drv) option" where
  "write_wait K i nonblock d =
     (if write_must_wait (sci_cb d i) then
        if nonblock then Some (Inl d) else write_wait K i nonblock (msleep K 57 d)
      else Some (Inr d))"

text \<open>
  The part of \<^verbatim>\<open>sci_write\<close> after the wait. \<^verbatim>\<open>copy_from_user\<close> delivers at most \<open>count\<close> bytes, fewer if the
  user's buffer is not readable to its end; the rest of \<^verbatim>\<open>write_buf\<close> stays zero.
\<close>

definition slot_irq :: "nat \<Rightarrow> nat option" where
  "slot_irq sci_id = (if sci_id = 0 then Some SCI0_INT_RX_TX
                      else if sci_id = 1 then Some SCI1_INT_RX_TX else None)"

definition slot_irq_off :: "'w kernel \<Rightarrow> nat \<Rightarrow> 'w drv \<Rightarrow> 'w drv" where
  "slot_irq_off K sci_id d =
     (case slot_irq sci_id of None \<Rightarrow> d | Some n \<Rightarrow> hw (disable_irq K n) d)"

definition slot_irq_on :: "'w kernel \<Rightarrow> nat \<Rightarrow> 'w drv \<Rightarrow> 'w drv" where
  "slot_irq_on K sci_id d =
     (case slot_irq sci_id of None \<Rightarrow> d | Some n \<Rightarrow> hw (enable_irq K n) d)"

definition write_count :: "u32 \<Rightarrow> nat" where
  "write_count len = (if unat len \<le> SCI_BUFFER_SIZE then unat len else SCI_BUFFER_SIZE)"

definition write_load :: "'w kernel \<Rightarrow> nat \<Rightarrow> u32 \<Rightarrow> nat \<Rightarrow> 'w drv \<Rightarrow> 'w drv" where
  "write_load K sci_id buffer count d =
     (let (bytes, d) = hw_get (copy_bytes_from_user K buffer count) d;
          bytes = take count bytes
      in upd_cb sci_id (\<lambda>cb. cb\<lparr>write_buf := bytes @ replicate (SCI_BUFFER_SIZE - length bytes) 0\<rparr>) d)"

definition write_fifo_reset :: "'w kernel \<Rightarrow> nat \<Rightarrow> 'w drv \<Rightarrow> 'w drv" where
  "write_fifo_reset K sci_id d =
     (if sci_id = 0 then asc_fifo_reset K sci_id BASE_ADDRESS_ASC0 d
      else if sci_id = 1 then asc_fifo_reset K sci_id BASE_ADDRESS_ASC1 d else d)"

definition write_arm :: "'w kernel \<Rightarrow> nat \<Rightarrow> nat \<Rightarrow> 'w drv \<Rightarrow> 'w drv" where
  "write_arm K sci_id count d =
     (let d = upd_cb sci_id (\<lambda>cb. cb\<lparr>tx_rptr := of_nat count, tx_wptr := 0, rx_rptr := 0, rx_wptr := 0\<rparr>) d
      in if count \<le> HW_FIFO_SIZE then set_serial_irq K sci_id RX_FULL_TX_EMPTY_IRQ d
         else set_serial_irq K sci_id (TX_HALF_EMPTY_IRQ OR RX_FULL_TX_EMPTY_IRQ) d)"

definition sci_write_start :: "'w kernel \<Rightarrow> nat \<Rightarrow> u32 \<Rightarrow> u32 \<Rightarrow> 'w drv \<Rightarrow> int \<times> 'w drv" where
  "sci_write_start K sci_id buffer len d =
     (let d = slot_irq_off K sci_id d;
          count = write_count len;
          d = write_load K sci_id buffer count d;
          d = write_fifo_reset K sci_id d;
          d = write_arm K sci_id count d
      in (int count, slot_irq_on K sci_id d))"

definition sci_write ::
    "'w kernel \<Rightarrow> nat \<Rightarrow> bool \<Rightarrow> u32 \<Rightarrow> u32 \<Rightarrow> 'w drv \<Rightarrow> (int \<times> 'w drv) option" where
  "sci_write K sci_id nonblock buffer len d =
     do {
       w \<leftarrow> write_wait K sci_id nonblock d;
       case w of
         Inl d \<Rightarrow> Some (- EWOULDBLOCK, d)
       | Inr d \<Rightarrow>
           if card_detect (sci_cb d sci_id) \<noteq> SCI_CARD_PRESENT then Some (0, d)
           else Some (sci_write_start K sci_id buffer len d)
     }"

section \<open>The answer to reset\<close>

definition parse_atr :: "nat \<Rightarrow> 'w drv \<Rightarrow> 'w drv option" where
  "parse_atr i d =
     do {
       F \<leftarrow> GetParameterF (cb_atr (sci_cb d i)) (param_F d);
       let d = upd_cb i (\<lambda>cb. cb\<lparr>cb_FI := F\<rparr>) (d\<lparr>param_F := F\<rparr>);
       D \<leftarrow> GetParameterD (cb_atr (sci_cb d i)) (param_D d);
       let d = upd_cb i (\<lambda>cb. cb\<lparr>cb_DI := D\<rparr>) (d\<lparr>param_D := D\<rparr>);
       let d = upd_cb i (\<lambda>cb. cb\<lparr>cb_CLOCK := GetClockRate (clk cb)\<rparr>) d;
       let cb = sci_cb d i;
       wwt \<leftarrow> udiv (cb_CLOCK cb * (cb_DI cb div 1000000)) (cb_FI cb);
       let d = upd_cb i (\<lambda>cb. cb\<lparr>cb_WWT := wwt\<rparr>) d;
       etu \<leftarrow> udiv (cb_CLOCK (sci_cb d i)) (cb_WWT (sci_cb d i));
       Some (upd_cb i (\<lambda>cb. cb\<lparr>cb_ETU := etu\<rparr>) d)
     }"

text \<open>The test for the one card that needs 3 V; each operand is read only if the one before held.\<close>

definition atr_needs_3V :: "SCI_CONTROL_BLOCK \<Rightarrow> bool option" where
  "atr_needs_3V cb =
     do {
       let p = unat (rx_wptr cb);
       b0 \<leftarrow> arr_get (read_buf cb) p;
       if b0 \<noteq> 0x3F then Some False
       else do {
         b1 \<leftarrow> arr_get (read_buf cb) (p + 1);
         if b1 \<noteq> 0xFD then Some False
         else do {
           b2 \<leftarrow> arr_get (read_buf cb) (p + 2);
           Some (b2 = 0x13)
         }
       }
     }"

definition check_atr :: "'w kernel \<Rightarrow> config \<Rightarrow> nat \<Rightarrow> 'w drv \<Rightarrow> 'w drv option" where
  "check_atr K cfg i d =
     do {
       low \<leftarrow> atr_needs_3V (sci_cb d i);
       let d = snd (smartcard_voltage_config K cfg i (if low then SCI_VCC_3 else SCI_VCC_5) d);
       let d = upd_cb i (\<lambda>cb. cb\<lparr>atr_len := ucast (rx_rptr cb)\<rparr>) d;
       let cb = sci_cb d i;
       buf \<leftarrow> arr_copy (atr_buf cb) 0 (read_buf cb) 0 (unat (atr_len cb));
       let d = upd_cb i (\<lambda>cb. cb\<lparr>atr_buf := buf\<rparr>) d;
       (_, a) \<leftarrow> ATR_InitFromArray (cb_atr cb) buf (unat (atr_len cb));
       let d = upd_cb i (\<lambda>cb. cb\<lparr>cb_atr := a\<rparr>) d;
       parse_atr i d
     }"

text \<open>
  The controller settings for an answer to reset at the default clock, and the second attempt at
  6.25 MHz that \<^verbatim>\<open>detect_ATR\<close> makes when the first one brought no valid first byte.
\<close>

definition asc_atr_defaults :: "'w kernel \<Rightarrow> nat \<Rightarrow> BASE_ADDR \<Rightarrow> 'w drv \<Rightarrow> 'w drv" where
  "asc_atr_defaults K i asc d =
     (let d = set_reg K i asc ASC_CTRL 0 0x1000 d;
          d = set_reg K i asc ASC_BAUDRATE 0x28B 0xFFFF d
      in set_reg K i asc ASC_GUARDTIME GT_DEFAULT 0x1FF d)"

definition detect_ATR_625 :: "'w kernel \<Rightarrow> config \<Rightarrow> nat \<Rightarrow> 'w drv \<Rightarrow> (int \<times> 'w drv) option" where
  "detect_ATR_625 K cfg i d =
     do {
       let d = upd_cb i (\<lambda>cb. cb\<lparr>read_buf := zero_buf\<rparr>) d;
       (_, d) \<leftarrow> smartcard_clock_config K i 625 d;
       let d = (if cb_id (sci_cb d i) = 0
                then set_reg K i BASE_ADDRESS_ASC0 ASC_BAUDRATE 0x271 0xFFFF d
                else if cb_id (sci_cb d i) = 1
                then set_reg K i BASE_ADDRESS_ASC1 ASC_BAUDRATE 0x271 0xFFFF d
                else d);
       let d = upd_par i (\<lambda>q. q\<lparr>p_ETU := 372\<rparr>) d;
       (r, d) \<leftarrow> sci_reset K cfg i d;
       Some (if r = SCI_ERROR_OK then 0 else -1, msleep K 750 d)
     }"

definition detect_ATR :: "'w kernel \<Rightarrow> config \<Rightarrow> nat \<Rightarrow> 'w drv \<Rightarrow> (int \<times> 'w drv) option" where
  "detect_ATR K cfg i d =
     do {
       (_, d) \<leftarrow> sci_hw_init K cfg i d;
       if cb_id (sci_cb d i) \<noteq> 0 \<and> cb_id (sci_cb d i) \<noteq> 1 then Some (-1, d)
       else
         do {
           let d = (if cb_id (sci_cb d i) = 0 then asc_atr_defaults K i BASE_ADDRESS_ASC0 d
                    else asc_atr_defaults K i BASE_ADDRESS_ASC1 d);
           (r, d) \<leftarrow> sci_reset K cfg i d;
           let d = msleep K 1100 d;
           b \<leftarrow> arr_get (read_buf (sci_cb d i)) (unat (rx_wptr (sci_cb d i)));
           if b \<noteq> 0x3B \<and> b \<noteq> 0x3F then detect_ATR_625 K cfg i d
           else Some (if r = SCI_ERROR_OK then 0 else -1, d)
         }
     }"

section \<open>Ioctl\<close>

datatype ioctl_num =
    IOCTL_SET_RESET | IOCTL_SET_MODES | IOCTL_GET_MODES | IOCTL_SET_PARAMETERS | IOCTL_GET_PARAMETERS
  | IOCTL_SET_CLOCK_START | IOCTL_SET_CLOCK_STOP | IOCTL_GET_IS_CARD_PRESENT
  | IOCTL_GET_IS_CARD_ACTIVATED | IOCTL_SET_DEACTIVATE | IOCTL_SET_ATR_READY | IOCTL_GET_ATR_STATUS
  | IOCTL_SET_CLOCK | IOCTL_DUMP_REGS | IOCTL_SET_ONLY_RESET | IOCTL_UNKNOWN nat

definition ioctl_only_reset :: "'w kernel \<Rightarrow> config \<Rightarrow> nat \<Rightarrow> 'w drv \<Rightarrow> (int \<times> 'w drv) option" where
  "ioctl_only_reset K cfg i d =
     (if card_detect (sci_cb d i) \<noteq> SCI_CARD_PRESENT then Some (-1, d)
      else Some (0, smartcard_reset K cfg i 1 d))"

definition set_parity :: "'w kernel \<Rightarrow> nat \<Rightarrow> 'w drv \<Rightarrow> 'w drv" where
  "set_parity K i d =
     (if cb_byte_invert (sci_cb d i) = INVERT then
        if i = 0 then set_reg K i BASE_ADDRESS_ASC0 ASC_CTRL PARITY_ODD 0 d
        else if i = 1 then set_reg K i BASE_ADDRESS_ASC1 ASC_CTRL PARITY_ODD 0 d
        else d
      else if cb_byte_invert (sci_cb d i) = UNINVERT then
        if i = 0 then set_reg K i BASE_ADDRESS_ASC0 ASC_CTRL 0 PARITY_ODD d
        else if i = 1 then set_reg K i BASE_ADDRESS_ASC1 ASC_CTRL 0 PARITY_ODD d
        else d
      else d)"

definition ioctl_reset :: "'w kernel \<Rightarrow> config \<Rightarrow> nat \<Rightarrow> 'w drv \<Rightarrow> (int \<times> 'w drv) option" where
  "ioctl_reset K cfg i d =
     (if card_detect (sci_cb d i) \<noteq> SCI_CARD_PRESENT then Some (-1, d)
      else do {
        (rc, d) \<leftarrow> detect_ATR K cfg i d;
        d \<leftarrow> check_atr K cfg i d;
        let d = set_parity K i d;
        Some (rc, if rc \<noteq> 0 \<or> cb_WWT (sci_cb d i) = 0 then cmdvcc_off K cfg i d else d)
      })"

text \<open>
  \<^verbatim>\<open>IOCTL_SET_MODES\<close> copies the user's modes into the parameter block and then sets the modes from a
  local variable that was never assigned: \<open>stack_modes\<close> is what happens to be there.
\<close>

definition ioctl_set_modes ::
    "'w kernel \<Rightarrow> config \<Rightarrow> nat \<Rightarrow> u32 \<Rightarrow> 'w drv \<Rightarrow> (int \<times> 'w drv) option" where
  "ioctl_set_modes K cfg i param d =
     (let sci_mode = stack_modes K (world d);
          (_, d) = hw_get (copy_params_from_user K param) d
      in Some (0, snd (sci_set_modes cfg i sci_mode d)))"

definition ioctl_get_modes ::
    "'w kernel \<Rightarrow> config \<Rightarrow> nat \<Rightarrow> u32 \<Rightarrow> 'w drv \<Rightarrow> (int \<times> 'w drv) option" where
  "ioctl_get_modes K cfg i param d =
     Some (0, case sci_get_modes cfg i d of
                Inr m \<Rightarrow> hw (copy_modes_to_user K param m) d | Inl _ \<Rightarrow> d)"

definition ioctl_set_parameters ::
    "'w kernel \<Rightarrow> config \<Rightarrow> nat \<Rightarrow> u32 \<Rightarrow> 'w drv \<Rightarrow> (int \<times> 'w drv) option" where
  "ioctl_set_parameters K cfg i param d =
     do {
       let (p, d) = hw_get (copy_params_from_user K param) d;
       (rc, d) \<leftarrow> sci_set_parameters K cfg i p d;
       if rc = SCI_ERROR_OK then
         do {
           (_, d) \<leftarrow> (if p_f p = 3 then smartcard_clock_config K i 357 d
                      else smartcard_clock_config K i (p_f p * 100) d);
           Some (0, d)
         }
       else Some (-1, d)
     }"

definition ioctl_get_parameters ::
    "'w kernel \<Rightarrow> config \<Rightarrow> nat \<Rightarrow> u32 \<Rightarrow> 'w drv \<Rightarrow> (int \<times> 'w drv) option" where
  "ioctl_get_parameters K cfg i param d =
     do {
       r \<leftarrow> sci_get_parameters cfg i d;
       Some (case r of Inr p \<Rightarrow> (0, hw (copy_params_to_user K param p) d) | Inl _ \<Rightarrow> (-1, d))
     }"

definition ioctl_set_clock ::
    "'w kernel \<Rightarrow> nat \<Rightarrow> u32 \<Rightarrow> 'w drv \<Rightarrow> (int \<times> 'w drv) option" where
  "ioctl_set_clock K i param d =
     do {
       let (clock, d) = hw_get (copy_ulong_from_user K param) d;
       (rc, d) \<leftarrow> smartcard_clock_config K i clock d;
       Some (if rc = SCI_ERROR_OK then 0 else -1, d)
     }"

definition card_status_uint :: "SCI_CARD_STATUS \<Rightarrow> u32" where
  "card_status_uint s = (case s of SCI_CARD_NOT_PRESENT \<Rightarrow> 0 | SCI_CARD_PRESENT \<Rightarrow> 1)"

definition atr_status_uint :: "SCI_ATR_STATUS \<Rightarrow> u32" where
  "atr_status_uint s = (case s of SCI_WITHOUT_ATR \<Rightarrow> 0 | SCI_ATR_READY \<Rightarrow> 1)"

definition sci_ioctl ::
    "'w kernel \<Rightarrow> config \<Rightarrow> nat \<Rightarrow> ioctl_num \<Rightarrow> u32 \<Rightarrow> 'w drv \<Rightarrow> (int \<times> 'w drv) option" where
  "sci_ioctl K cfg sci_id ioctl param d =
     (if sci_id \<ge> SCI_NUMBER_OF_CONTROLLERS cfg then Some (-1, d)
      else let ok = (\<lambda>rc. if rc = SCI_ERROR_OK then 0 else -1) in
      case ioctl of
        IOCTL_SET_ONLY_RESET \<Rightarrow> ioctl_only_reset K cfg sci_id d
      | IOCTL_SET_RESET \<Rightarrow> ioctl_reset K cfg sci_id d
      | IOCTL_SET_MODES \<Rightarrow> ioctl_set_modes K cfg sci_id param d
      | IOCTL_GET_MODES \<Rightarrow> ioctl_get_modes K cfg sci_id param d
      | IOCTL_SET_PARAMETERS \<Rightarrow> ioctl_set_parameters K cfg sci_id param d
      | IOCTL_GET_PARAMETERS \<Rightarrow> ioctl_get_parameters K cfg sci_id param d
      | IOCTL_SET_CLOCK \<Rightarrow> ioctl_set_clock K sci_id param d
      | IOCTL_SET_CLOCK_START \<Rightarrow> let (rc, d) = sci_clock_start K cfg sci_id d in Some (ok rc, d)
      | IOCTL_SET_CLOCK_STOP \<Rightarrow> let (rc, d) = sci_clock_stop K cfg sci_id d in Some (ok rc, d)
      | IOCTL_GET_IS_CARD_PRESENT \<Rightarrow>
          Some (0, hw (copy_uint_to_user K param (card_status_uint (sci_is_card_present sci_id d))) d)
      | IOCTL_GET_IS_CARD_ACTIVATED \<Rightarrow>
          Some (0, hw (copy_uint_to_user K param (card_status_uint (sci_is_card_present sci_id d))) d)
      | IOCTL_SET_DEACTIVATE \<Rightarrow> Some (ok (sci_deactivate sci_id d), d)
      | IOCTL_SET_ATR_READY \<Rightarrow> Some (0, upd_cb sci_id (\<lambda>cb. cb\<lparr>atr_status := SCI_ATR_READY\<rparr>) d)
      | IOCTL_GET_ATR_STATUS \<Rightarrow>
          Some (0, hw (copy_uint_to_user K param (atr_status_uint (atr_status (sci_cb d sci_id)))) d)
      | IOCTL_DUMP_REGS \<Rightarrow> Some (0, d)
      | IOCTL_UNKNOWN _ \<Rightarrow> Some (-1, d))"

section \<open>Poll and the proc file\<close>

abbreviation (input) POLLIN :: u32 where "POLLIN \<equiv> 0x0001"
abbreviation (input) POLLRDNORM :: u32 where "POLLRDNORM \<equiv> 0x0040"

definition sci_poll :: "nat \<Rightarrow> 'w drv \<Rightarrow> u32" where
  "sci_poll sci_id d =
     (if rx_rptr (sci_cb d sci_id) \<noteq> rx_wptr (sci_cb d sci_id) then POLLIN OR POLLRDNORM else 0)"

text \<open>Slot numbers have one digit.\<close>

fun proc_lines :: "nat list \<Rightarrow> 'w drv \<Rightarrow> string" where
  "proc_lines [] d = []"
| "proc_lines (ix # is) d =
     ''sci'' @ [char_of (48 + ix)] @
     (if sci_is_card_present ix d = SCI_CARD_NOT_PRESENT then '': no card'' else '': card detected'') @
     [CHR 0x0A] @ proc_lines is d"

definition sci_proc_text :: "config \<Rightarrow> 'w drv \<Rightarrow> string" where
  "sci_proc_text cfg d =
     ''[ sci driver, version 1.0 ]'' @ [CHR 0x0A] @ proc_lines [0..<SCI_NUMBER_OF_CONTROLLERS cfg] d"

text \<open>The result is the return value, what was put into \<^verbatim>\<open>buffer\<close>, and the end of file flag.\<close>

definition sci_read_proc :: "config \<Rightarrow> int \<Rightarrow> int \<Rightarrow> 'w drv \<Rightarrow> int \<times> string \<times> bool" where
  "sci_read_proc cfg offset sz d =
     (let outbuf = sci_proc_text cfg d; blen = int (length outbuf) in
      if sz < blen then (- EINVAL, [], False)
      else if offset \<noteq> 0 then (0, [], False)
      else (blen, outbuf, True))"

section \<open>Module entry points\<close>

fun create_devices :: "'w kernel \<Rightarrow> config \<Rightarrow> nat list \<Rightarrow> 'w drv \<Rightarrow> 'w drv" where
  "create_devices K cfg [] d = d"
| "create_devices K cfg (i # is) d =
     create_devices K cfg is
       (hw (device_create K (if LINUX_VERSION_CODE cfg \<ge> KERNEL_VERSION_2_6_30 then i else 0) i) d)"

fun destroy_devices :: "'w kernel \<Rightarrow> nat list \<Rightarrow> 'w drv \<Rightarrow> 'w drv" where
  "destroy_devices K [] d = d"
| "destroy_devices K (i # is) d = destroy_devices K is (hw (device_destroy K 0) d)"

definition sci_module_init :: "'w kernel \<Rightarrow> config \<Rightarrow> 'w drv \<Rightarrow> (int \<times> 'w drv) option" where
  "sci_module_init K cfg d =
     do {
       let d = d\<lparr>sci_driver_init := 0\<rparr>;
       let n = SCI_NUMBER_OF_CONTROLLERS cfg;
       (rc, d) \<leftarrow> sci_init K cfg d;
       if rc \<noteq> SCI_ERROR_OK then Some (-1, d)
       else
         let (r, d) = hw_get (register_chrdev_region K n) d in
         if r < 0 then Some (-1, d)
         else
           let (r, d) = hw_get (cdev_add K n) d in
           if r < 0 then Some (-1, d)
           else
             let d = hw (class_create K) d;
                 d = create_devices K cfg [0..<n] d
             in if defined cfg [CONFIG_PROC_FS] then
                  let (ok, d) = hw_get (create_proc_read_entry K) d in
                  Some (if ok then 0 else - ENOMEM, d)
                else Some (0, d)
     }"

definition sci_module_cleanup :: "'w kernel \<Rightarrow> config \<Rightarrow> 'w drv \<Rightarrow> 'w drv option" where
  "sci_module_cleanup K cfg d =
     do {
       let d = (if defined cfg [CONFIG_PROC_FS] then hw (remove_proc_entry K) d else d);
       d \<leftarrow> sci_exit K cfg d;
       let n = SCI_NUMBER_OF_CONTROLLERS cfg;
       let d = hw (cdev_del K) d;
       let d = hw (unregister_chrdev_region K n) d;
       let d = destroy_devices K [0..<n] d;
       Some (hw (class_destroy K) d)
     }"

section \<open>The wait loops of read and write\<close>

interpretation read_loop: wait_loop "msleep K 57" "\<lambda>d. read_must_wait (sci_cb d i)" "read_wait K i False" Inr
  for K :: "'w kernel" and i
proof
  fix d
  show "read_wait K i False d =
     (if read_must_wait (sci_cb d i) then read_wait K i False (msleep K 57 d) else Some (Inr d))"
    by (subst read_wait.simps) simp
next
  fix d r assume returned: "read_wait K i False d = Some r"
  have "\<not> False \<longrightarrow> (\<exists>n. \<not> read_must_wait (sci_cb (sleeps K 57 n d) i))"
  proof (rule read_wait.raw_induct [where P = "\<lambda>K i b d d'. \<not> b \<longrightarrow> (\<exists>n. \<not> read_must_wait (sci_cb (sleeps K 57 n d) i))", OF _ returned])
    fix w K i b d and d' :: "'w drv + 'w drv"
    assume IH: "\<And>K i b d d'. w K i b d = Some d' \<Longrightarrow> \<not> b \<longrightarrow> (\<exists>n. \<not> read_must_wait (sci_cb (sleeps K 57 n d) i))"
      and body: "(if read_must_wait (sci_cb d i) then if b then Some (Inl d) else w K i b (msleep K 57 d)
         else Some (Inr d)) = Some d'"
    show "\<not> b \<longrightarrow> (\<exists>n. \<not> read_must_wait (sci_cb (sleeps K 57 n d) i))"
      using IH [of K i b "msleep K 57 d"] body by (metis iterate.simps)
  qed
  then show "\<exists>n. \<not> read_must_wait (sci_cb (sleeps K 57 n d) i)" by simp
qed

interpretation write_loop: wait_loop "msleep K 57" "\<lambda>d. write_must_wait (sci_cb d i)" "write_wait K i False" Inr
  for K :: "'w kernel" and i
proof
  fix d
  show "write_wait K i False d =
     (if write_must_wait (sci_cb d i) then write_wait K i False (msleep K 57 d) else Some (Inr d))"
    by (subst write_wait.simps) simp
next
  fix d r assume returned: "write_wait K i False d = Some r"
  have "\<not> False \<longrightarrow> (\<exists>n. \<not> write_must_wait (sci_cb (sleeps K 57 n d) i))"
  proof (rule write_wait.raw_induct [where P = "\<lambda>K i b d d'. \<not> b \<longrightarrow> (\<exists>n. \<not> write_must_wait (sci_cb (sleeps K 57 n d) i))", OF _ returned])
    fix w K i b d and d' :: "'w drv + 'w drv"
    assume IH: "\<And>K i b d d'. w K i b d = Some d' \<Longrightarrow> \<not> b \<longrightarrow> (\<exists>n. \<not> write_must_wait (sci_cb (sleeps K 57 n d) i))"
      and body: "(if write_must_wait (sci_cb d i) then if b then Some (Inl d) else w K i b (msleep K 57 d)
         else Some (Inr d)) = Some d'"
    show "\<not> b \<longrightarrow> (\<exists>n. \<not> write_must_wait (sci_cb (sleeps K 57 n d) i))"
      using IH [of K i b "msleep K 57 d"] body by (metis iterate.simps)
  qed
  then show "\<exists>n. \<not> write_must_wait (sci_cb (sleeps K 57 n d) i)" by simp
qed

end
