(* ===== verification/Sci_Drv.thy ===== *)
theory Sci_Drv
  imports Sci_Dev
begin

text \<open>
  The smart card driver as a whole: every operation keeps the slots well-formed, and the driver is a
  transition system whose events are interrupts, file operations, rounds of the detection threads
  and changes of the world outside.
\<close>

section \<open>The operations keep the slots well-formed\<close>

lemma read_wait_wf:
  assumes "sleep_ok K cfg" "wf_drv cfg d" "read_wait K i nonblock d = Some r"
  shows "wf_drv cfg (case r of Inl d \<Rightarrow> d | Inr d \<Rightarrow> d)"
proof (cases nonblock)
  case True
  then show ?thesis using assms(2, 3) by (subst (asm) read_wait.simps) (auto split: if_splits)
next
  case False
  then show ?thesis
    using read_loop.wait_keeps [of K i d r "wf_drv cfg"] assms wf_drv_sleep by (auto split: sum.splits)
qed

lemma read_more_wf:
  "sleep_ok K cfg \<Longrightarrow> wf_drv cfg d \<Longrightarrow> read_more K i len n d = (r, d') \<Longrightarrow> wf_drv cfg d'"
proof (induction n arbitrary: d)
  case (Suc n)
  then show ?case
    using Suc.IH [of "msleep K 10 d"] wf_drv_sleep [of K cfg d 10] by (auto simp: Let_def split: if_splits)
qed simp

lemma read_deliver_wf:
  assumes "sleep_ok K cfg" "wf_drv cfg d" "read_deliver K i buffer n d = Some (r, d')"
  shows "wf_drv cfg d'"
proof -
  define e where "e f = upd_cb i (\<lambda>cb. cb\<lparr>rx_wptr := rx_wptr cb + ucast n\<rparr>) (hw f d)" for f
  have wf: "wf_drv cfg (e f)" "wf_drv cfg (upd_cb i (\<lambda>cb. cb\<lparr>rx_wptr := 0, rx_rptr := 0\<rparr>) (e f))" for f
    using assms(2) by (auto simp: e_def wf_drv_def wf_cb_def)
  then show ?thesis
    using assms(3) wf_drv_sleep [OF assms(1)]
    by (auto simp: read_deliver_def bind_eq_Some_conv Let_def e_def simp del: upd_cb_simps split: if_splits)
qed

lemma sci_read_wf:
  assumes "sleep_ok K cfg" "wf_drv cfg d" "sci_read K i nonblock buffer len d = Some (r, d')"
  shows "wf_drv cfg d'"
proof -
  obtain w where w: "read_wait K i nonblock d = Some w"
    using assms(3) by (auto simp: sci_read_def bind_eq_Some_conv)
  note wf = read_wait_wf [OF assms(1, 2) w]
  show ?thesis
  proof (cases w)
    case (Inl e)
    then show ?thesis using assms(3) w wf by (simp add: sci_read_def)
  next
    case (Inr e)
    obtain n f where f: "(if \<not> nonblock \<and> rx_available (sci_cb e i) < len then read_more K i len 100 e
        else (rx_available (sci_cb e i), e)) = (n, f)" by fastforce
    have "wf_drv cfg f"
      using f wf read_more_wf [OF assms(1)] Inr by (auto split: if_splits)
    then show ?thesis
      using assms(3) w Inr f wf read_deliver_wf [OF assms(1)]
      by (auto simp: sci_read_def split: if_splits)
  qed
qed

lemma write_wait_wf:
  assumes "sleep_ok K cfg" "wf_drv cfg d" "write_wait K i nonblock d = Some r"
  shows "wf_drv cfg (case r of Inl d \<Rightarrow> d | Inr d \<Rightarrow> d)"
proof (cases nonblock)
  case True
  then show ?thesis using assms(2, 3) by (subst (asm) write_wait.simps) (auto split: if_splits)
next
  case False
  then show ?thesis
    using write_loop.wait_keeps [of K i d r "wf_drv cfg"] assms wf_drv_sleep by (auto split: sum.splits)
qed

lemma write_count_le: "write_count len \<le> SCI_BUFFER_SIZE"
  by (simp add: write_count_def)

lemma slot_irq_frame [simp]:
  "sci_cb (slot_irq_off K i d) = sci_cb d" "sci_cb (slot_irq_on K i d) = sci_cb d"
  "wf_drv cfg (slot_irq_off K i d) \<longleftrightarrow> wf_drv cfg d" "wf_drv cfg (slot_irq_on K i d) \<longleftrightarrow> wf_drv cfg d"
  by (simp_all add: slot_irq_off_def slot_irq_on_def split: option.split)

lemma write_fifo_reset_frame [simp]:
  "sci_cb (write_fifo_reset K i d) = sci_cb d" "wf_drv cfg (write_fifo_reset K i d) \<longleftrightarrow> wf_drv cfg d"
  by (simp_all add: write_fifo_reset_def)

lemma write_load_cb:
  "sci_cb (write_load K i buffer n d) =
     (let bytes = take n (fst (copy_bytes_from_user K buffer n (world d)))
      in (sci_cb d)(i := (sci_cb d i)\<lparr>write_buf := bytes @ replicate (SCI_BUFFER_SIZE - length bytes) 0\<rparr>))"
  by (simp add: write_load_def case_prod_unfold Let_def)

lemma write_load_wf: "wf_drv cfg d \<Longrightarrow> n \<le> SCI_BUFFER_SIZE \<Longrightarrow> wf_drv cfg (write_load K i buffer n d)"
  by (auto simp: wf_drv_def write_load_cb Let_def wf_cb_def)

lemma write_arm_wf:
  assumes "wf_drv cfg d" "n \<le> SCI_BUFFER_SIZE"
  shows "wf_drv cfg (write_arm K i n d)"
proof -
  have "wf_drv cfg (upd_cb i (\<lambda>cb. cb\<lparr>tx_rptr := of_nat n, tx_wptr := 0, rx_rptr := 0, rx_wptr := 0\<rparr>) d)"
    using assms(2) by (intro wf_drv_upd_cb [OF assms(1)]) (auto simp: wf_cb_def unat_of_nat)
  then show ?thesis by (simp add: write_arm_def Let_def)
qed

lemma sci_write_start_wf:
  "wf_drv cfg d \<Longrightarrow> wf_drv cfg (snd (sci_write_start K i buffer len d))"
  using write_count_le [of len] by (simp add: sci_write_start_def Let_def write_arm_wf write_load_wf)

lemma sci_write_wf:
  assumes "sleep_ok K cfg" "wf_drv cfg d" "sci_write K i nonblock buffer len d = Some (r, d')"
  shows "wf_drv cfg d'"
proof -
  obtain w where w: "write_wait K i nonblock d = Some w"
    using assms(3) by (auto simp: sci_write_def bind_eq_Some_conv)
  show ?thesis
    using assms(3) write_wait_wf [OF assms(1, 2) w] sci_write_start_wf [of cfg _ K i buffer len] w
    by (cases w) (fastforce simp: sci_write_def split: if_splits)+
qed

lemma smartcard_clock_config_wf:
  assumes "sleep_ok K cfg" "wf_drv cfg d" "smartcard_clock_config K i c d = Some (r, d')"
  shows "wf_drv cfg d'"
proof -
  define e where "e = upd_cb i (\<lambda>cb. cb\<lparr>clk := c\<rparr>) d"
  have "wf_drv cfg e" unfolding e_def using assms(2) by (simp add: wf_drv_upd_cb)
  then have "wf_drv cfg f" if "SCI_Set_Clock K i e = Some (ok, f)" for ok f
    using that by (auto simp: SCI_Set_Clock_eq split: if_splits)
  then show ?thesis
    using assms(3) wf_drv_sleep [OF assms(1)]
    by (auto simp: smartcard_clock_config_def bind_eq_Some_conv e_def [symmetric] split: if_splits)
qed

lemma sci_reset_wf:
  assumes "sleep_ok K cfg" "wf_drv cfg d" "sci_reset K cfg i d = Some (r, d')"
  shows "wf_drv cfg d'"
  using assms smartcard_reset_wf [OF assms(1)]
  by (auto simp: sci_reset_def bind_eq_Some_conv Let_def split: if_splits)

lemma parse_atr_wf:
  assumes "wf_drv cfg d" "parse_atr i d = Some d'"
  shows "wf_drv cfg d'"
  using assms by (auto simp: parse_atr_def bind_eq_Some_conv wf_drv_def)

lemma check_atr_wf:
  assumes "wf_drv cfg d" "check_atr K cfg' i d = Some d'"
  shows "wf_drv cfg d'"
proof -
  obtain low where low: "atr_needs_3V (sci_cb d i) = Some low"
    using assms(2) by (auto simp: check_atr_def bind_eq_Some_conv)
  define d1 where "d1 = upd_cb i (\<lambda>cb. cb\<lparr>atr_len := ucast (rx_rptr cb)\<rparr>)
    (snd (smartcard_voltage_config K cfg' i (if low then SCI_VCC_3 else SCI_VCC_5) d))"
  have wf1: "wf_drv cfg d1" unfolding d1_def using assms(1) by (simp add: wf_drv_upd_cb)
  obtain buf rc a where
    buf: "arr_copy (atr_buf (sci_cb d1 i)) 0 (read_buf (sci_cb d1 i)) 0 (unat (atr_len (sci_cb d1 i))) = Some buf"
    and a: "ATR_InitFromArray (cb_atr (sci_cb d1 i)) buf (unat (atr_len (sci_cb d1 i))) = Some (rc, a)"
    and d': "parse_atr i (upd_cb i (\<lambda>cb. cb\<lparr>cb_atr := a\<rparr>) (upd_cb i (\<lambda>cb. cb\<lparr>atr_buf := buf\<rparr>) d1)) = Some d'"
    using assms(2) unfolding check_atr_def low Let_def bind.simps d1_def [symmetric]
    by (auto simp: bind_eq_Some_conv)
  have "wf_cb i (cb\<lparr>atr_buf := buf, cb_atr := a\<rparr>)" if "wf_cb i cb" "cb = sci_cb d1 i" for cb
    using that arr_copy_length [OF buf] ATR_InitFromArray_keeps [OF _ a] by (simp add: wf_cb_def)
  then have "wf_drv cfg (upd_cb i (\<lambda>cb. cb\<lparr>cb_atr := a\<rparr>) (upd_cb i (\<lambda>cb. cb\<lparr>atr_buf := buf\<rparr>) d1))"
    using wf1 by (auto simp: wf_drv_def)
  then show ?thesis using parse_atr_wf d' by blast
qed

lemma set_parity_wf [simp]: "wf_drv cfg (set_parity K i d) \<longleftrightarrow> wf_drv cfg d"
  by (simp add: set_parity_def)

lemma asc_atr_defaults_wf [simp]: "wf_drv cfg (asc_atr_defaults K i asc d) \<longleftrightarrow> wf_drv cfg d"
  by (simp add: asc_atr_defaults_def Let_def)

lemma detect_ATR_625_wf:
  assumes "sleep_ok K cfg" "wf_drv cfg d" "detect_ATR_625 K cfg i d = Some (r, d')"
  shows "wf_drv cfg d'"
proof -
  define e where "e = upd_cb i (\<lambda>cb. cb\<lparr>read_buf := zero_buf\<rparr>) d"
  have wf: "wf_drv cfg e" unfolding e_def using assms(2) by (rule wf_drv_upd_cb) (simp add: wf_cb_def)
  obtain r1 d1 where d1: "smartcard_clock_config K i 625 e = Some (r1, d1)"
    using assms(3) by (auto simp: detect_ATR_625_def bind_eq_Some_conv e_def)
  define d2 where "d2 = upd_par i (\<lambda>q. q\<lparr>p_ETU := 372\<rparr>)
    (if cb_id (sci_cb d1 i) = 0 then set_reg K i BASE_ADDRESS_ASC0 ASC_BAUDRATE 0x271 0xFFFF d1
     else if cb_id (sci_cb d1 i) = 1 then set_reg K i BASE_ADDRESS_ASC1 ASC_BAUDRATE 0x271 0xFFFF d1
     else d1)"
  have wf2: "wf_drv cfg d2" using smartcard_clock_config_wf [OF assms(1) wf d1] by (simp add: d2_def)
  obtain r3 d3 where "sci_reset K cfg i d2 = Some (r3, d3)" "d' = msleep K 750 d3"
    using assms(3) d1 unfolding detect_ATR_625_def Let_def e_def [symmetric]
    by (auto simp: bind_eq_Some_conv d2_def)
  then show ?thesis using sci_reset_wf [OF assms(1) wf2] wf_drv_sleep [OF assms(1)] by blast
qed

lemma detect_ATR_wf:
  assumes "sleep_ok K cfg" "wf_drv cfg d" "detect_ATR K cfg i d = Some (r, d')"
  shows "wf_drv cfg d'"
proof -
  obtain r0 d0 where d0: "sci_hw_init K cfg i d = Some (r0, d0)"
    using assms(3) by (auto simp: detect_ATR_def bind_eq_Some_conv)
  have wf0: "wf_drv cfg d0" using sci_hw_init_wf [OF assms(1, 2) d0] .
  define d1 where "d1 = (if cb_id (sci_cb d0 i) = 0 then asc_atr_defaults K i BASE_ADDRESS_ASC0 d0
    else asc_atr_defaults K i BASE_ADDRESS_ASC1 d0)"
  have wf1: "wf_drv cfg d1" using wf0 by (simp add: d1_def)
  show ?thesis
  proof (cases "cb_id (sci_cb d0 i) \<noteq> 0 \<and> cb_id (sci_cb d0 i) \<noteq> 1")
    case True
    then show ?thesis using assms(3) d0 wf0 by (simp add: detect_ATR_def)
  next
    case False
    then have "Option.bind (sci_reset K cfg i d1) (\<lambda>(r, d).
        Option.bind (arr_get (read_buf (sci_cb (msleep K 1100 d) i)) (unat (rx_wptr (sci_cb (msleep K 1100 d) i))))
          (\<lambda>b. if b \<noteq> 0x3B \<and> b \<noteq> 0x3F then detect_ATR_625 K cfg i (msleep K 1100 d)
               else Some (if r = SCI_ERROR_OK then 0 else -1, msleep K 1100 d))) = Some (r, d')"
      using assms(3) by (simp only: detect_ATR_def d0 Let_def bind.simps prod.case d1_def if_False)
    then obtain r2 d2 where d2: "sci_reset K cfg i d1 = Some (r2, d2)"
        "detect_ATR_625 K cfg i (msleep K 1100 d2) = Some (r, d') \<or> d' = msleep K 1100 d2"
      by (auto simp: bind_eq_Some_conv simp del: not_None_eq split: if_splits)
    have "wf_drv cfg (msleep K 1100 d2)"
      using sci_reset_wf [OF assms(1) wf1 d2(1)] wf_drv_sleep [OF assms(1)] by blast
    then show ?thesis using d2(2) detect_ATR_625_wf [OF assms(1)] by blast
  qed
qed

lemma ioctl_reset_wf:
  assumes "sleep_ok K cfg" "wf_drv cfg d" "ioctl_reset K cfg i d = Some (r, d')"
  shows "wf_drv cfg d'"
proof -
  have "wf_drv cfg y" if "detect_ATR K cfg i d = Some (q, b)" "check_atr K cfg i b = Some y" for q b y
    using check_atr_wf [OF detect_ATR_wf [OF assms(1, 2) that(1)] that(2)] .
  then show ?thesis
    using assms(2, 3) by (auto simp: ioctl_reset_def bind_eq_Some_conv Let_def split: if_splits)
qed

lemma sci_set_modes_wf [simp]: "wf_drv cfg (snd (sci_set_modes cfg' i m d)) \<longleftrightarrow> wf_drv cfg d"
  by (auto simp: sci_set_modes_def Let_def wf_drv_def)

lemma hw_get_wf: "hw_get f d = (v, d') \<Longrightarrow> wf_drv cfg d' \<longleftrightarrow> wf_drv cfg d"
  using hw_get_step.oper_wf [of cfg f d] by simp

lemma ioctl_set_modes_wf:
  "wf_drv cfg d \<Longrightarrow> ioctl_set_modes K cfg i p d = Some (r, d') \<Longrightarrow> wf_drv cfg d'"
  by (auto simp: ioctl_set_modes_def Let_def hw_get_wf split: prod.splits)

lemma ioctl_set_parameters_wf:
  assumes "sleep_ok K cfg" "wf_drv cfg d" "ioctl_set_parameters K cfg i p d = Some (r, d')"
  shows "wf_drv cfg d'"
proof -
  obtain q d1 rc d2 where d1: "hw_get (copy_params_from_user K p) d = (q, d1)"
    and d2: "sci_set_parameters K cfg i q d1 = Some (rc, d2)"
    using assms(3) by (auto simp: ioctl_set_parameters_def bind_eq_Some_conv split: prod.splits)
  have wf2: "wf_drv cfg d2" using sci_set_parameters_wf [OF assms(1) _ d2] hw_get_wf [OF d1] assms(2) by simp
  show ?thesis
    using assms(3) wf2 smartcard_clock_config_wf [OF assms(1) wf2] d1 d2
    by (auto simp: ioctl_set_parameters_def bind_eq_Some_conv split: if_splits)
qed

lemma ioctl_set_clock_wf:
  assumes "sleep_ok K cfg" "wf_drv cfg d" "ioctl_set_clock K i p d = Some (r, d')"
  shows "wf_drv cfg d'"
proof -
  obtain c d1 where d1: "hw_get (copy_ulong_from_user K p) d = (c, d1)" by fastforce
  show ?thesis
    using assms(3) smartcard_clock_config_wf [OF assms(1), of d1] hw_get_wf [OF d1] assms(2)
    by (auto simp: ioctl_set_clock_def d1 bind_eq_Some_conv)
qed

lemma sci_ioctl_wf:
  assumes "sleep_ok K cfg" "wf_drv cfg d" "sci_ioctl K cfg i c p d = Some (r, d')"
  shows "wf_drv cfg d'"
proof (cases "i < SCI_NUMBER_OF_CONTROLLERS cfg")
  case True
  note call = assms(3) [unfolded sci_ioctl_def Let_def] True
  show ?thesis
  proof (cases c)
    case IOCTL_SET_RESET
    then show ?thesis using call ioctl_reset_wf [OF assms(1, 2)] by simp
  next
    case IOCTL_SET_MODES
    then show ?thesis using call ioctl_set_modes_wf [OF assms(2)] by simp
  next
    case IOCTL_SET_PARAMETERS
    then show ?thesis using call ioctl_set_parameters_wf [OF assms(1, 2)] by simp
  next
    case IOCTL_SET_CLOCK
    then show ?thesis using call ioctl_set_clock_wf [OF assms(1, 2)] by simp
  next
    case IOCTL_GET_MODES
    then show ?thesis using call assms(2) by (auto simp: ioctl_get_modes_def split: sum.splits)
  next
    case IOCTL_GET_PARAMETERS
    show ?thesis
    proof (cases "sci_get_parameters cfg i d")
      case (Some x)
      then show ?thesis
        using call IOCTL_GET_PARAMETERS assms(2) by (cases x) (auto simp: ioctl_get_parameters_def)
    qed (use call IOCTL_GET_PARAMETERS in \<open>simp add: ioctl_get_parameters_def\<close>)
  next
    case IOCTL_SET_CLOCK_START
    then show ?thesis using call assms(2) SCI_ClockEnable_step.oper_wf [of cfg K i d]
      by (auto simp: sci_clock_start_def split: if_splits)
  next
    case IOCTL_SET_CLOCK_STOP
    then show ?thesis using call assms(2) SCI_ClockDisable_step.oper_wf [of cfg K i d]
      by (auto simp: sci_clock_stop_def split: if_splits)
  next
    case IOCTL_SET_ONLY_RESET
    then show ?thesis using call assms(2) smartcard_reset_wf [OF assms(1, 2)]
      by (auto simp: ioctl_only_reset_def split: if_splits)
  next
    case IOCTL_SET_ATR_READY
    then show ?thesis using call assms(2) by (auto simp: wf_drv_def)
  qed (use call assms(2) in auto)
qed (use assms in \<open>simp add: sci_ioctl_def\<close>)

section \<open>The driver as a transition system\<close>

text \<open>
  What can happen to the driver: an interrupt of a slot, a call of one of the file operations on a
  slot, a round of the detection thread of a slot, or a change of the world outside.
\<close>

datatype 'w event =
    Irq nat
  | Open nat
  | Close nat
  | Read nat bool u32 u32
  | Write nat bool u32 u32
  | Ioctl nat ioctl_num u32
  | Detect nat u32
  | Outside "'w \<Rightarrow> 'w"

inductive drv_step :: "'w kernel \<Rightarrow> config \<Rightarrow> 'w drv \<Rightarrow> 'w event \<Rightarrow> 'w drv \<Rightarrow> bool" for K cfg where
  irq0: "sci_irq0_rx_tx_handler K cfg d = Some d' \<Longrightarrow> drv_step K cfg d (Irq 0) d'"
| irq1: "1 < SCI_NUMBER_OF_CONTROLLERS cfg \<Longrightarrow> sci_irq1_rx_tx_handler K cfg d = Some d' \<Longrightarrow>
    drv_step K cfg d (Irq 1) d'"
| opened: "sci_open cfg i d = (r, d') \<Longrightarrow> drv_step K cfg d (Open i) d'"
| closed: "sci_close K cfg i d = (r, d') \<Longrightarrow> drv_step K cfg d (Close i) d'"
| read: "sci_read K i nonblock buffer len d = Some (r, d') \<Longrightarrow> drv_step K cfg d (Read i nonblock buffer len) d'"
| written: "sci_write K i nonblock buffer len d = Some (r, d') \<Longrightarrow> drv_step K cfg d (Write i nonblock buffer len) d'"
| ioctl: "sci_ioctl K cfg i c p d = Some (r, d') \<Longrightarrow> drv_step K cfg d (Ioctl i c p) d'"
| detect: "detect_round K cfg i old d = Some (r, d') \<Longrightarrow> drv_step K cfg d (Detect i old) d'"
| outside: "drv_step K cfg d (Outside f) (hw f d)"

inductive_cases drv_step_IrqE: "drv_step K cfg d (Irq i) d'"

inductive drv_steps :: "'w kernel \<Rightarrow> config \<Rightarrow> 'w drv \<Rightarrow> 'w event list \<Rightarrow> 'w drv \<Rightarrow> bool" for K cfg where
  nil: "drv_steps K cfg d [] d"
| snoc: "drv_steps K cfg d es d' \<Longrightarrow> drv_step K cfg d' e d'' \<Longrightarrow> drv_steps K cfg d (es @ [e]) d''"

lemma drv_steps_invariant:
  assumes "drv_steps K cfg d es d'" "P d" "\<And>d e d'. P d \<Longrightarrow> drv_step K cfg d e d' \<Longrightarrow> P d'"
  shows "P d'"
  using assms by induction auto

lemma sci_open_wf: "wf_drv cfg d \<Longrightarrow> sci_open cfg' i d = (r, d') \<Longrightarrow> wf_drv cfg d'"
  by (auto simp: sci_open_def wf_drv_def split: if_splits)

lemma sci_close_wf: "wf_drv cfg d \<Longrightarrow> sci_close K cfg' i d = (r, d') \<Longrightarrow> wf_drv cfg d'"
  by (auto simp: sci_close_def Let_def wf_drv_def split: if_splits)

lemma drv_step_wf:
  assumes "drv_step K cfg d e d'" "sleep_ok K cfg" "wf_drv cfg d"
  shows "wf_drv cfg d'"
  using assms(1)
proof cases
  case irq0
  then show ?thesis
    using irq_handler_wf [OF assms(3), of 0] SCI_NUMBER_OF_CONTROLLERS_cases [of cfg]
    by (auto simp: sci_irq0_rx_tx_handler_def)
next
  case irq1
  then show ?thesis
    using irq_handler_wf [OF assms(3), of 1] by (simp add: sci_irq1_rx_tx_handler_def)
next
  case detect
  then show ?thesis using detect_round_wf [OF assms(2, 3)] by simp
next
  case opened
  then show ?thesis using sci_open_wf [OF assms(3)] by simp
next
  case closed
  then show ?thesis using sci_close_wf [OF assms(3)] by simp
next
  case read
  then show ?thesis using sci_read_wf [OF assms(2, 3)] by simp
next
  case written
  then show ?thesis using sci_write_wf [OF assms(2, 3)] by simp
next
  case ioctl
  then show ?thesis using sci_ioctl_wf [OF assms(2, 3)] by simp
next
  case outside
  then show ?thesis using assms(3) by simp
qed

section \<open>Properties of the transition system\<close>

lemma tx_loop_defined:
  assumes "wf_cb i (sci_cb d i)" "n \<le> unat (tx_rptr (sci_cb d i)) - unat (tx_wptr (sci_cb d i))"
  shows "tx_loop K i asc n d \<noteq> None"
  using assms
proof (induction K i asc n d rule: tx_loop.induct)
  case (2 K i asc n d)
  let ?cb = "sci_cb d i"
  have sent: "wf_cb i (tx_sent 1 ?cb)" "unat (tx_wptr (tx_sent 1 ?cb)) = unat (tx_wptr ?cb) + 1"
    using tx_sent_line [OF "2.prems"(1), of 1] "2.prems"(2) by auto
  have "unat (tx_wptr ?cb) < length (write_buf ?cb)"
    using "2.prems" by (auto simp: wf_cb_def)
  then show ?case
    using "2.IH" sent "2.prems"(2) by (simp add: arr_get_def Let_def tx_sent_def)
qed simp

lemma irq_transmit_defined:
  assumes "wf_cb i (sci_cb d i)"
  shows "irq_transmit K i asc res d \<noteq> None"
proof -
  have "tx_wptr (sci_cb d i) \<le> tx_rptr (sci_cb d i)" using assms by (simp add: wf_cb_def)
  then have "tx_loop K i asc (unat (tx_size (int n) (sci_cb d i))) d \<noteq> None" if "n \<le> 255" for n
    using tx_size_eq [OF _ that] by (intro tx_loop_defined [OF assms]) simp
  from this [of 16] this [of 8] show ?thesis
    by (auto simp: irq_transmit_def tx_burst_def)
qed

lemma irq_step_wf:
  assumes "drv_step K cfg d e d'" "wf_drv cfg d" "(\<exists>i. e = Irq i) \<or> (\<exists>f. e = Outside f)"
  shows "wf_drv cfg d'"
  using assms(1)
proof cases
  case irq0
  then show ?thesis
    using irq_handler_wf [OF assms(2), of 0] SCI_NUMBER_OF_CONTROLLERS_cases [of cfg]
    by (auto simp: sci_irq0_rx_tx_handler_def)
next
  case irq1
  then show ?thesis
    using irq_handler_wf [OF assms(2), of 1] by (simp add: sci_irq1_rx_tx_handler_def)
qed (use assms in auto)

lemma irq_steps_wf:
  assumes "drv_steps K cfg d es d'" "wf_drv cfg d"
    "\<forall>e \<in> set es. (\<exists>i. e = Irq i) \<or> (\<exists>f. e = Outside f)"
  shows "wf_drv cfg d'"
  using assms by induction (auto dest: irq_step_wf)

lemma sleep_okI:
  assumes "\<And>n d. wf_drv cfg d \<Longrightarrow> \<exists>es. drv_steps K cfg d es (msleep K n d) \<and>
    (\<forall>e \<in> set es. (\<exists>i. e = Irq i) \<or> (\<exists>f. e = Outside f))"
  shows "sleep_ok K cfg"
  unfolding sleep_ok_def using assms irq_steps_wf by blast

text \<open>
  C3. In every state the driver can reach from a well-formed one, by any sequence of interrupts, file
  operations, detection rounds and changes of the world outside, every slot is well-formed and the
  transmit side of the interrupt handler never reads outside \<^verbatim>\<open>write_buf\<close>.
\<close>

theorem drv_reachable_safe:
  assumes "sleep_ok K cfg" "wf_drv cfg d\<^sub>0" "drv_steps K cfg d\<^sub>0 es d" "i < SCI_NUMBER_OF_CONTROLLERS cfg"
  shows "wf_cb i (sci_cb d i) \<and> irq_transmit K i asc res d \<noteq> None"
proof -
  have "wf_drv cfg d"
    using drv_steps_invariant [OF assms(3), of "wf_drv cfg"] assms(1, 2) drv_step_wf by blast
  then have "wf_cb i (sci_cb d i)" using assms(4) by (simp add: wf_drv_def)
  then show ?thesis using irq_transmit_defined by blast
qed

lemma machine_sleep_ok: "sleep_ok machine_kernel cfg"
  by (simp add: sleep_ok_def machine_kernel_def)

lemma machine_wf: "wf_drv machine_cfg machine_drv"
  by (simp add: wf_drv_def wf_cb_def machine_drv_def machine_cb_def wf_zero_ATR)

definition machine_opened :: "machine drv" where
  "machine_opened = with_cb (\<lambda>cb. cb\<lparr>driver_inuse := 1, atr_status := SCI_ATR_READY\<rparr>)"

theorem drv_reachable_safe_witness:
  "wf_cb 0 (sci_cb machine_opened 0) \<and>
   irq_transmit machine_kernel 0 BASE_ADDRESS_ASC0 2 machine_opened \<noteq> None"
proof -
  let ?d = "with_cb (\<lambda>cb. cb\<lparr>driver_inuse := 1\<rparr>)"
  have "drv_step machine_kernel machine_cfg machine_drv (Open 0) ?d"
    by (rule drv_step.opened [of _ _ _ 0]) (simp add: sci_open_def with_cb_def machine_drv_def machine_cb_def upd_cb_def)
  moreover have "drv_step machine_kernel machine_cfg ?d (Ioctl 0 IOCTL_SET_ATR_READY 0) machine_opened"
    by (rule drv_step.ioctl [of _ _ _ _ _ _ 0]) (simp add: sci_ioctl_def with_cb_def machine_opened_def upd_cb_def)
  ultimately have "drv_steps machine_kernel machine_cfg machine_drv [Open 0, Ioctl 0 IOCTL_SET_ATR_READY 0] machine_opened"
    using drv_steps.snoc [OF drv_steps.snoc [OF drv_steps.nil]] by fastforce
  then show ?thesis
    using drv_reachable_safe [OF machine_sleep_ok machine_wf] by simp
qed

end
