(* ===== verification/Sci_IO.thy ===== *)
theory Sci_IO
  imports Sci_Drv
begin

text \<open>
  What the file operations of the smart card driver do: reading serves the queue of received bytes,
  writing puts the user's bytes on the line (with the interrupts that follow), and the answer to
  reset gives the baud rate.
\<close>

section \<open>Reading\<close>

text \<open>The bytes received and not yet read: the queue that \<^verbatim>\<open>sci_read\<close> serves.\<close>

definition rx_fifo :: "SCI_CONTROL_BLOCK \<Rightarrow> u8 list" where
  "rx_fifo cb = take (unat (rx_rptr cb) - unat (rx_wptr cb)) (drop (unat (rx_wptr cb)) (read_buf cb))"

lemma unat_ucast_u16_u32 [simp]: "unat (ucast (w :: u16) :: u32) = unat w"
  using unat_u16_less [of w] by (simp add: unsigned_ucast_eq take_bit_nat_eq_self)

lemma unat_rx_available:
  "rx_wptr cb \<le> rx_rptr cb \<Longrightarrow> unat (rx_available cb) = unat (rx_rptr cb) - unat (rx_wptr cb)"
  by (simp add: rx_available_def unat_sub word_le_nat_alt)

lemma unat_read_limit:
  "unat (read_limit len n) = (if SCI_BUFFER_SIZE < unat len then SCI_BUFFER_SIZE else min (unat len) (unat n))"
  by (auto simp: read_limit_def Let_def word_less_nat_alt)

lemma read_limit_le: "unat (read_limit len n) \<le> SCI_BUFFER_SIZE"
  unfolding unat_read_limit by (auto simp: min_def)

lemma sint_small_u32: "unat (n :: u32) \<le> SCI_BUFFER_SIZE \<Longrightarrow> sint n = int (unat n)"
proof -
  assume "unat n \<le> SCI_BUFFER_SIZE"
  moreover have "uint n = int (unat n)" by simp
  ultimately have "- 2147483648 \<le> uint n \<and> uint n < 2147483648" by linarith
  then have "signed_take_bit 31 (uint n) = uint n" by (intro signed_take_bit_int_eq_self) auto
  then show ?thesis by (simp add: sint_uint)
qed

lemma sci_read_ready:
  "\<not> read_must_wait (sci_cb d i) \<Longrightarrow> card_detect (sci_cb d i) = SCI_CARD_PRESENT \<Longrightarrow>
     nonblock \<or> len \<le> rx_available (sci_cb d i) \<Longrightarrow>
     sci_read K i nonblock buffer len d = read_deliver K i buffer (read_limit len (rx_available (sci_cb d i))) d"
  by (subst sci_read_def, subst read_wait.simps) (auto simp: Let_def)

lemma read_wait_nonblock:
  "read_wait K i True d = Some (if read_must_wait (sci_cb d i) then Inl d else Inr d)"
  by (subst read_wait.simps) simp

lemma sci_read_nonblock:
  "sci_read K i True buffer len d =
     (if read_must_wait (sci_cb d i) then Some (- EWOULDBLOCK, d)
      else if card_detect (sci_cb d i) \<noteq> SCI_CARD_PRESENT then Some (0, d)
      else read_deliver K i buffer (read_limit len (rx_available (sci_cb d i))) d)"
  by (simp add: sci_read_def read_wait_nonblock)

lemma read_ready:
  "\<not> read_must_wait cb \<Longrightarrow> card_detect cb = SCI_CARD_PRESENT \<Longrightarrow> unat (rx_wptr cb) < unat (rx_rptr cb)"
  by (auto simp: read_must_wait_def word_less_nat_alt not_le)

text \<open>
  C17. A read of at most 1024 bytes that does not have to wait (with \<^verbatim>\<open>O_NONBLOCK\<close> for any bytes, without it
  for all of the requested ones) serves the queue of received bytes in order: it returns the smaller of the
  requested length and the queue length, copies exactly these first bytes to the user, and leaves the rest
  in the queue. For longer requests see \<open>sci_read_long\<close>.
\<close>

theorem sci_read_serves_fifo:
  assumes "wf_cb i (sci_cb d i)" "card_detect (sci_cb d i) = SCI_CARD_PRESENT"
    "\<not> read_must_wait (sci_cb d i)" "unat len \<le> SCI_BUFFER_SIZE"
    "q = rx_fifo (sci_cb d i)" "n = min (unat len) (length q)" "nonblock \<or> unat len \<le> length q"
  shows "\<exists>e. sci_read K i nonblock buffer len d = Some (int n, if n = length q then msleep K 3 e else e) \<and>
     world e = copy_bytes_to_user K buffer (take n q) (world d) \<and> rx_fifo (sci_cb e i) = drop n q"
proof -
  let ?cb = "sci_cb d i" and ?n = "read_limit len (rx_available (sci_cb d i))"
  let ?w = "unat (rx_wptr ?cb)" and ?r = "unat (rx_rptr ?cb)"
  have lt: "?w < ?r" using read_ready assms(2, 3) by blast
  have r: "?r \<le> SCI_BUFFER_SIZE" "length (read_buf ?cb) = SCI_BUFFER_SIZE"
    using assms(1) by (auto simp: wf_cb_def)
  have q: "length q = ?r - ?w" using r lt by (simp add: assms(5) rx_fifo_def)
  have n: "unat ?n = n"
    using lt assms(4, 6) by (simp add: unat_read_limit unat_rx_available word_le_nat_alt q)
  have ready: "nonblock \<or> len \<le> rx_available ?cb"
    using assms(7) lt by (simp add: word_le_nat_alt unat_rx_available q)
  have wn: "unat (rx_wptr ?cb + ucast ?n) = ?w + n"
  proof -
    have "ucast ?n = (word_of_nat n :: u16)" using n by (metis of_nat_unat)
    moreover have "?w + n < 65536" using q assms(6) lt r by simp
    ultimately show ?thesis using unat_u16_add by simp
  qed
  have all: "rx_wptr ?cb + ucast ?n = rx_rptr ?cb \<longleftrightarrow> n = length q"
    using wn q lt by (auto simp: word_unat_eq_iff)
  have slice: "arr_slice (read_buf ?cb) ?w n = Some (take n q)"
    using r lt assms(6) q by (auto simp: arr_slice_def assms(5) rx_fifo_def min_def)
  define e where "e = upd_cb i (\<lambda>cb. cb\<lparr>rx_wptr := rx_wptr cb + ucast ?n\<rparr>)
    (hw (copy_bytes_to_user K buffer (take n q)) d)"
  define e' where "e' = (if n = length q then upd_cb i (\<lambda>cb. cb\<lparr>rx_wptr := 0, rx_rptr := 0\<rparr>) e else e)"
  have "sci_read K i nonblock buffer len d = Some (int n, if n = length q then msleep K 3 e' else e')"
    using slice n all read_limit_le [of len "rx_available ?cb"]
    by (simp add: sci_read_ready [OF assms(3, 2) ready] read_deliver_def sint_small_u32 e_def e'_def)
  moreover have "world e' = copy_bytes_to_user K buffer (take n q) (world d)"
    by (simp add: e'_def e_def hw_def)
  moreover have "rx_fifo (sci_cb e' i) = drop n q"
  proof (cases "n = length q")
    case False
    have "rx_fifo (sci_cb e i) = take (?r - (?w + n)) (drop (?w + n) (read_buf ?cb))"
      by (simp add: e_def rx_fifo_def wn)
    then show ?thesis using False by (simp add: e'_def assms(5) rx_fifo_def drop_take add.commute)
  qed (simp add: e'_def rx_fifo_def)
  ultimately show ?thesis by blast
qed

text \<open>
  A request without blocking for more than 1024 bytes does not depend on how many bytes were received: the call
  returns 1024 if the read position is at the start of the buffer, and otherwise copies from beyond
  its end.
\<close>

theorem sci_read_long:
  assumes "wf_cb i (sci_cb d i)" "card_detect (sci_cb d i) = SCI_CARD_PRESENT"
    "\<not> read_must_wait (sci_cb d i)" "SCI_BUFFER_SIZE < unat len"
  shows "case sci_read K i True buffer len d of
       None \<Rightarrow> rx_wptr (sci_cb d i) \<noteq> 0
     | Some (r, d') \<Rightarrow> rx_wptr (sci_cb d i) = 0 \<and> r = int SCI_BUFFER_SIZE"
proof -
  let ?n = "read_limit len (rx_available (sci_cb d i))"
  have n: "unat ?n = SCI_BUFFER_SIZE" "sint ?n = int SCI_BUFFER_SIZE"
    using assms(4) sint_small_u32 [of ?n] by (simp_all add: unat_read_limit)
  have "length (read_buf (sci_cb d i)) = SCI_BUFFER_SIZE" using assms(1) by (simp add: wf_cb_def)
  then have "arr_slice (read_buf (sci_cb d i)) (unat (rx_wptr (sci_cb d i))) (unat ?n) =
      (if rx_wptr (sci_cb d i) = 0 then Some (read_buf (sci_cb d i)) else None)"
    using n(1) by (simp add: arr_slice_def unat_eq_0)
  then show ?thesis
    using n by (simp add: sci_read_ready [OF assms(3, 2) disjI1] read_deliver_def Let_def)
qed

text \<open>
  Poll and read disagree exactly when the transmit side has skipped more echoed bytes than have
  arrived, or a short transmission is still going on: then poll reports the device readable and a
  read without blocking returns \<^verbatim>\<open>-EWOULDBLOCK\<close>.
\<close>

theorem sci_poll_promises:
  assumes "card_detect (sci_cb d i) = SCI_CARD_PRESENT"
  shows "sci_poll i d \<noteq> 0 \<and> sci_read K i True buffer len d = Some (- EWOULDBLOCK, d) \<longleftrightarrow>
     rx_rptr (sci_cb d i) < rx_wptr (sci_cb d i) \<or>
     irq_mode (sci_cb d i) = RX_FULL_TX_EMPTY_IRQ \<and> rx_rptr (sci_cb d i) \<noteq> rx_wptr (sci_cb d i)"
proof -
  have "0 \<le> sint (read_limit len n)" for n
    using sint_small_u32 [OF read_limit_le, of len n] by simp
  then have "sint (read_limit len n) \<noteq> - EWOULDBLOCK" for n by (smt (verit))
  then have "read_deliver K i buffer (read_limit len n) d \<noteq> Some (- EWOULDBLOCK, d)" for n
    by (auto simp: read_deliver_def bind_eq_Some_conv Let_def)
  then have "sci_read K i True buffer len d = Some (- EWOULDBLOCK, d) \<longleftrightarrow> read_must_wait (sci_cb d i)"
    using assms by (simp add: sci_read_nonblock)
  then show ?thesis
    using assms by (auto simp: sci_poll_def read_must_wait_def)
qed

text \<open>
  A blocking write returns exactly if, after some number of sleeps, the bytes of the write before
  have all been sent or the card has gone.
\<close>

theorem sci_write_blocks_iff:
  "sci_write K i False buffer len d = None \<longleftrightarrow>
     (\<forall>n. tx_wptr (sci_cb (sleeps K 57 n d) i) \<noteq> tx_rptr (sci_cb (sleeps K 57 n d) i) \<and>
          card_detect (sci_cb (sleeps K 57 n d) i) = SCI_CARD_PRESENT)"
proof -
  have "sci_write K i False buffer len d = None \<longleftrightarrow> write_wait K i False d = None"
    by (cases "write_wait K i False d") (auto simp: sci_write_def split: sum.splits)
  then show ?thesis
    by (simp add: write_loop.wait_None_iff write_must_wait_def)
qed

section \<open>Writing to the card\<close>

text \<open>
  What the write system call relies on besides the laws of the serial controller: resetting the
  FIFOs drops the bytes in them and sends nothing, and copying from the user's buffer delivers its
  bytes, which masking an interrupt does not change, and moves nothing on the line.
\<close>

definition uart_reset :: "'w kernel \<Rightarrow> u32 \<Rightarrow> 'w asc_view \<Rightarrow> bool" where
  "uart_reset K base U \<longleftrightarrow>
     (\<forall>v w. u_tx U (mmio_write K (base + ASC_TX_RST) v w) = [] \<and>
            u_out U (mmio_write K (base + ASC_TX_RST) v w) = u_out U w \<and>
            u_rx U (mmio_write K (base + ASC_RX_RST) v w) = [] \<and>
            u_tx U (mmio_write K (base + ASC_RX_RST) v w) = u_tx U w \<and>
            u_out U (mmio_write K (base + ASC_RX_RST) v w) = u_out U w)"

definition user_memory :: "'w kernel \<Rightarrow> u32 \<Rightarrow> ('w \<Rightarrow> u8 list) \<Rightarrow> 'w asc_view \<Rightarrow> bool" where
  "user_memory K buffer mem U \<longleftrightarrow>
     (\<forall>n w. fst (copy_bytes_from_user K buffer n w) = take n (mem w) \<and>
            asc_same U w (snd (copy_bytes_from_user K buffer n w)) \<and> mem (disable_irq K n w) = mem w)"

definition slot_asc :: "nat \<Rightarrow> BASE_ADDR" where
  "slot_asc i = (if i = 0 then BASE_ADDRESS_ASC0 else BASE_ADDRESS_ASC1)"

lemma is_asc_slot: "is_asc (slot_asc i)"
  by (simp add: is_asc_def slot_asc_def)

definition write_irq :: "nat \<Rightarrow> u8" where
  "write_irq n = (if n \<le> HW_FIFO_SIZE then RX_FULL_TX_EMPTY_IRQ else TX_HALF_EMPTY_IRQ OR RX_FULL_TX_EMPTY_IRQ)"

lemma write_irq_selection: "write_irq n \<in> set irq_selections" "write_irq n \<in> {RX_FULL_TX_EMPTY_IRQ, 7}"
  by (simp_all add: write_irq_def irq_selections_def)

lemma write_arm_cb:
  assumes "cb_id (sci_cb d i) \<in> {0, 1}"
  shows "sci_cb (write_arm K i n d) i = (sci_cb d i)\<lparr>tx_rptr := of_nat n, tx_wptr := 0, rx_rptr := 0,
       rx_wptr := 0, irq_mode := write_irq n\<rparr>"
    "world (write_arm K i n d) = mmio_modify K (base_address_asc (sci_cb d i) + ASC_INT_EN)
       (\<lambda>v. (v AND NOT 0x1FF) OR ucast (write_irq n)) (world d)"
proof -
  have eq: "write_arm K i n d = set_serial_irq K i (write_irq n)
      (upd_cb i (\<lambda>cb. cb\<lparr>tx_rptr := of_nat n, tx_wptr := 0, rx_rptr := 0, rx_wptr := 0\<rparr>) d)"
    by (simp add: write_arm_def write_irq_def Let_def)
  show "sci_cb (write_arm K i n d) i = (sci_cb d i)\<lparr>tx_rptr := of_nat n, tx_wptr := 0, rx_rptr := 0,
       rx_wptr := 0, irq_mode := write_irq n\<rparr>"
    unfolding eq using assms write_irq_selection(1) [of n] by (simp add: set_serial_irq_cb)
  show "world (write_arm K i n d) = mmio_modify K (base_address_asc (sci_cb d i) + ASC_INT_EN)
       (\<lambda>v. (v AND NOT 0x1FF) OR ucast (write_irq n)) (world d)"
    unfolding eq using assms write_irq_selection(1) [of n] by (subst set_serial_irq_world) auto
qed

lemma write_fifo_reset_world:
  "i < 2 \<Longrightarrow> world (write_fifo_reset K i d) =
     mmio_write K (base_address_asc (sci_cb d i) + ASC_RX_RST) 0xFF
       (mmio_write K (base_address_asc (sci_cb d i) + ASC_TX_RST) 0xFF (world d))"
  by (auto simp: write_fifo_reset_def asc_fifo_reset_def Let_def set_reg_writeonly_mmio less_2_cases_iff)

lemma sci_write_start_loads:
  assumes "wf_cb i (sci_cb d i)" "i < 2" "user_memory K buffer mem U" "bs = mem (world d)" "unat len = length bs"
    "length bs \<le> SCI_BUFFER_SIZE" "uart K (base_address_asc (sci_cb d i)) U"
    "uart_reset K (base_address_asc (sci_cb d i)) U"
    "sci_write_start K i buffer len d = (r, d')"
  shows "r = int (length bs)" "u_rx U (world d') = []" "u_tx U (world d') = []" "u_out U (world d') = u_out U (world d)"
    "sci_cb d' i = (sci_cb d i)\<lparr>write_buf := bs @ replicate (SCI_BUFFER_SIZE - length bs) 0,
       tx_rptr := of_nat (length bs), tx_wptr := 0, rx_rptr := 0, rx_wptr := 0,
       irq_mode := write_irq (length bs)\<rparr>"
proof -
  have n: "write_count len = length bs" using assms(5, 6) by (simp add: write_count_def)
  have mem: "mem (world (slot_irq_off K i d)) = mem (world d)"
    using assms(3) by (simp add: user_memory_def slot_irq_off_def split: option.split)
  define d1 where "d1 = write_load K i buffer (length bs) (slot_irq_off K i d)"
  have d1: "sci_cb d1 = (sci_cb d)(i := (sci_cb d i)\<lparr>write_buf := bs @ replicate (SCI_BUFFER_SIZE - length bs) 0\<rparr>)"
    using assms(3) mem by (simp add: d1_def write_load_cb user_memory_def assms(4) Let_def)
  have "world d1 = snd (copy_bytes_from_user K buffer (length bs) (world (slot_irq_off K i d)))"
    by (simp add: d1_def write_load_def case_prod_unfold Let_def)
  then have out1: "u_out U (world d1) = u_out U (world d)"
    using assms(3) uart_sta(5) [OF assms(7)]
    by (simp add: user_memory_def slot_irq_off_def asc_same_def split: option.split)
  define d2 where "d2 = write_arm K i (length bs) (write_fifo_reset K i d1)"
  have id: "cb_id (sci_cb (write_fifo_reset K i d1) i) \<in> {0, 1}"
    using assms(1, 2) by (auto simp: wf_cb_def d1 less_2_cases_iff)
  have base: "base_address_asc (sci_cb d1 i) = base_address_asc (sci_cb d i)"
    by (simp add: d1)
  have d2: "u_rx U (world d2) = []" "u_tx U (world d2) = []" "u_out U (world d2) = u_out U (world d)"
    using asc_sameD(1-3) [OF uart_sta(4) [OF assms(7)]] assms(8) out1
    by (simp_all add: d2_def write_arm_cb(2) [OF id] write_fifo_reset_world [OF assms(2)] base uart_reset_def)
  have d': "d' = slot_irq_on K i d2" "r = int (length bs)"
    using assms(9) by (simp_all add: sci_write_start_def Let_def n d1_def d2_def)
  show "r = int (length bs)" by (rule d'(2))
  show "u_rx U (world d') = []" "u_tx U (world d') = []" "u_out U (world d') = u_out U (world d)"
    using d2 asc_sameD(1-3) [OF uart_sta(6) [OF assms(7)]]
    by (simp_all add: d'(1) slot_irq_on_def split: option.split)
  show "sci_cb d' i = (sci_cb d i)\<lparr>write_buf := bs @ replicate (SCI_BUFFER_SIZE - length bs) 0,
       tx_rptr := of_nat (length bs), tx_wptr := 0, rx_rptr := 0, rx_wptr := 0,
       irq_mode := write_irq (length bs)\<rparr>"
    by (simp add: d'(1) d2_def write_arm_cb(1) [OF id] d1)
qed

text \<open>
  C1. Writing to the card, from the system call to the line: a write of up to 1024 bytes to an idle slot
  returns their number. Of the interrupts that follow, twice as many as there are bytes and one more are
  enough, with any number of bytes, but at least one, leaving the transmitter between two of them (so
  that an interrupt finds it empty, half empty or fuller): exactly the user's bytes, encoded in the
  card's convention, are then on the line, whatever was in the FIFOs before, the transmitter is empty,
  the slot is back in receive mode and the echo is not left to be read.
\<close>

theorem sci_write_transmits:
  assumes "uart K (base_address_asc (sci_cb d i)) U"
    "uart_reset K (base_address_asc (sci_cb d i)) U"
    "user_memory K buffer mem U" "bs = mem (world d)" "unat len = length bs" "length bs \<le> SCI_BUFFER_SIZE"
    "wf_cb i (sci_cb d i)" "i < 2" "card_detect (sci_cb d i) = SCI_CARD_PRESENT"
    "tx_wptr (sci_cb d i) = tx_rptr (sci_cb d i)"
    "atr_status (sci_cb d i) = SCI_ATR_READY \<or> cb_byte_invert (sci_cb d i) \<noteq> NO_DEFINED"
    "\<forall>e \<in> set es. transmits U e" "2 * length bs < length es"
  shows "\<exists>d\<^sub>1 d\<^sub>2. sci_write K i nonblock buffer len d = Some (int (length bs), d\<^sub>1) \<and>
     irq_run K cfg i (slot_asc i) irq es d\<^sub>1 = Some d\<^sub>2 \<and>
     u_out U (world d\<^sub>2) = u_out U (world d) @ map (line_byte (cb_byte_invert (sci_cb d i))) bs \<and>
     u_tx U (world d\<^sub>2) = [] \<and> rx_fifo (sci_cb d\<^sub>2 i) = [] \<and> irq_mode (sci_cb d\<^sub>2 i) = RX_FULL_IRQ"
proof -
  obtain r d1 where start: "sci_write_start K i buffer len d = (r, d1)" by fastforce
  note load = sci_write_start_loads [OF assms(7, 8, 3-6) assms(1, 2) start]
  have "write_wait K i nonblock d = Some (Inr d)"
    using assms(10) by (subst write_wait.simps) (simp add: write_must_wait_def)
  then have w: "sci_write K i nonblock buffer len d = Some (int (length bs), d1)"
    using assms(9) start load(1) by (simp add: sci_write_def)
  have cb: "base_address_asc (sci_cb d1 i) = base_address_asc (sci_cb d i)"
      "cb_byte_invert (sci_cb d1 i) = cb_byte_invert (sci_cb d i)"
      "atr_status (sci_cb d1 i) = atr_status (sci_cb d i)"
      "irq_mode (sci_cb d1 i) \<noteq> RX_FULL_IRQ" "rx_rptr (sci_cb d1 i) = 0" "rx_wptr (sci_cb d1 i) = 0"
      "tx_wptr (sci_cb d1 i) = 0"
    by (simp_all add: load(5) write_irq_def)
  have bs: "bs = take (unat (tx_rptr (sci_cb d1 i))) (write_buf (sci_cb d1 i))"
    using assms(6) by (simp add: load(5) unat_of_nat)
  have "wf_cb i (sci_cb d1 i)"
    using assms(6, 7) unfolding load(5) by (auto simp: wf_cb_def unat_of_nat)
  then have ok: "slot_ok i d1"
    using assms(8) write_irq_selection(2) [of "length bs"] by (simp add: slot_ok_def load(5))
  have conv: "atr_status (sci_cb d1 i) = SCI_ATR_READY \<or> cb_byte_invert (sci_cb d1 i) \<noteq> NO_DEFINED"
    using assms(11) cb(2, 3) by simp
  obtain d2 where "irq_run K cfg i (slot_asc i) irq es d1 = Some d2"
      "u_out U (world d2) = u_out U (world d1) @ map (line_byte (cb_byte_invert (sci_cb d1 i))) bs"
      "u_tx U (world d2) = []" "rx_wptr (sci_cb d2 i) = rx_rptr (sci_cb d2 i)" "irq_mode (sci_cb d2 i) = RX_FULL_IRQ"
    using irq_exchange [OF assms(1) is_asc_slot cb(1) ok cb(4) load(2, 3) conv cb(5-7) bs assms(12, 13)] by blast
  then show ?thesis using w load(4) cb(2) by (simp add: rx_fifo_def)
qed

definition machine_writing :: "machine drv" where
  "machine_writing = (with_cb (\<lambda>cb. cb\<lparr>cb_byte_invert := INVERT\<rparr>))
     \<lparr>world := machine_start\<lparr>m_user_in := [0xA0, 0xCA]\<rparr>\<rparr>"

lemma machine_uart_reset: "uart_reset machine_kernel M_ASC m_asc"
  by (simp add: uart_reset_def mmio_write_def machine_kernel_def m_write_def)

lemma machine_user_memory: "user_memory machine_kernel 0 m_user_in m_asc"
  by (simp add: user_memory_def asc_same_def machine_kernel_def)

theorem sci_write_transmits_witness:
  "\<exists>d\<^sub>1 d\<^sub>2. sci_write machine_kernel 0 False 0 2 machine_writing = Some (2, d\<^sub>1) \<and>
     irq_run machine_kernel machine_cfg 0 BASE_ADDRESS_ASC0 SCI0_INT_RX_TX (replicate 5 m_line) d\<^sub>1 = Some d\<^sub>2 \<and>
     m_tx (world d\<^sub>2) = [0xFA, 0xAC]"
proof -
  have f: "sci_cb machine_writing 0 = machine_cb\<lparr>cb_byte_invert := INVERT\<rparr>"
      "m_tx (world machine_writing) = []" "m_user_in (world machine_writing) = [0xA0, 0xCA]"
    by (simp_all add: machine_writing_def with_cb_def machine_drv_def machine_start_def)
  have "base_address_asc (sci_cb machine_writing 0) = M_ASC" "wf_cb 0 (sci_cb machine_writing 0)"
    "cb_byte_invert (sci_cb machine_writing 0) = INVERT" "tx_wptr (sci_cb machine_writing 0) = tx_rptr (sci_cb machine_writing 0)"
    "card_detect (sci_cb machine_writing 0) = SCI_CARD_PRESENT"
    by (simp_all add: f(1) machine_cb_def wf_cb_def wf_zero_ATR)
  moreover have "map (line_byte INVERT) [0xA0, 0xCA] = [0xFA, 0xAC]"
    by (simp add: line_byte_def uninvert_byte_eq INVERT_BYTE_def)
  moreover have "\<forall>e \<in> set (replicate 5 m_line). transmits m_asc e" by (simp add: machine_transmits)
  ultimately show ?thesis
    using sci_write_transmits [of machine_kernel machine_writing 0 m_asc 0 m_user_in "[0xA0, 0xCA]" 2
        "replicate 5 m_line" False machine_cfg SCI0_INT_RX_TX] machine_uart machine_uart_reset machine_user_memory f
    by (auto simp: slot_asc_def)
qed

section \<open>Evaluating the reading properties\<close>

definition machine_reading :: "machine drv" where
  "machine_reading = with_cb (\<lambda>cb. cb\<lparr>read_buf := [1, 2, 3, 4] @ replicate 1020 0, rx_wptr := 1, rx_rptr := 4\<rparr>)"

lemma machine_reading_cb:
  "sci_cb machine_reading 0 = machine_cb\<lparr>read_buf := [1, 2, 3, 4] @ replicate 1020 0, rx_wptr := 1, rx_rptr := 4\<rparr>"
  "wf_cb 0 (sci_cb machine_reading 0)" "card_detect (sci_cb machine_reading 0) = SCI_CARD_PRESENT"
  "\<not> read_must_wait (sci_cb machine_reading 0)" "rx_fifo (sci_cb machine_reading 0) = [2, 3, 4]"
  by (simp_all add: machine_reading_def with_cb_def machine_drv_def machine_cb_def wf_cb_def wf_zero_ATR
      read_must_wait_def rx_fifo_def word_le_nat_alt)

theorem sci_read_serves_fifo_witness:
  "\<exists>e. sci_read machine_kernel 0 True 0 2 machine_reading = Some (2, e) \<and>
     m_user_out (world e) = [2, 3] \<and> rx_fifo (sci_cb e 0) = [4]"
proof -
  have "m_user_out (world machine_reading) = []"
    by (simp add: machine_reading_def with_cb_def machine_drv_def machine_start_def)
  then show ?thesis
    using sci_read_serves_fifo [OF machine_reading_cb(2-4) _ machine_reading_cb(5) [symmetric] refl disjI1,
        of 2 True machine_kernel 0]
    by (auto simp: machine_kernel_def)
qed

theorem sci_read_long_witness: "sci_read machine_kernel 0 True 0 2000 machine_reading = None"
  using sci_read_long [OF machine_reading_cb(2-4), of 2000 machine_kernel 0]
  by (auto simp: machine_reading_cb(1) split: option.splits)

text \<open>Four echoed bytes have been skipped of which two have arrived.\<close>

theorem sci_poll_promises_witness:
  "sci_poll 0 (with_cb (\<lambda>cb. cb\<lparr>rx_wptr := 4, rx_rptr := 2\<rparr>)) \<noteq> 0 \<and>
   sci_read machine_kernel 0 True 0 8 (with_cb (\<lambda>cb. cb\<lparr>rx_wptr := 4, rx_rptr := 2\<rparr>)) =
     Some (- EWOULDBLOCK, with_cb (\<lambda>cb. cb\<lparr>rx_wptr := 4, rx_rptr := 2\<rparr>))"
  using sci_poll_promises [of "with_cb (\<lambda>cb. cb\<lparr>rx_wptr := 4, rx_rptr := 2\<rparr>)" 0 machine_kernel 0 8]
  by (simp add: with_cb_def machine_drv_def machine_cb_def)

section \<open>The answer to reset\<close>

text \<open>The clock rate factor and the bit rate factor that byte TA1 of the answer selects.\<close>

definition atr_F :: "ATR \<Rightarrow> u32" where
  "atr_F a = (if ib_present (atr_ib a ! 0 ! 0)
     then atr_f_table ! unat (drop_bit 4 (ib_value (atr_ib a ! 0 ! 0) AND 0xF0)) else ATR_DEFAULT_F)"

definition atr_D :: "ATR \<Rightarrow> u32" where
  "atr_D a = (if ib_present (atr_ib a ! 0 ! 0)
     then atr_d_table ! unat (ib_value (atr_ib a ! 0 ! 0) AND 0x0F) else ATR_DEFAULT_D)"

lemma atr_factors_in_tables: "atr_F a \<in> set atr_f_table" "atr_D a \<in> set atr_d_table"
proof -
  show "atr_F a \<in> set atr_f_table"
    using unat_drop_bit_4 [of "ib_value (atr_ib a ! 0 ! 0)"] nth_mem [of 0 atr_f_table]
    by (auto simp: atr_F_def intro!: nth_mem) (simp add: atr_f_table_def)
  show "atr_D a \<in> set atr_d_table"
    using unat_and_15 [of "ib_value (atr_ib a ! 0 ! 0)"]
    by (auto simp: atr_D_def intro!: nth_mem) (simp add: atr_d_table_def)
qed

lemma waiting_time_positive:
  "\<forall>F \<in> set atr_f_table. \<forall>D \<in> set atr_d_table. \<forall>c \<in> set [357, 625].
     F \<noteq> 0 \<longrightarrow> ((GetClockRate c * (D div 1000000)) div F = 0 \<longleftrightarrow> D < 1000000)"
  by code_simp

lemma GetParameter_wf:
  "wf_ATR a \<Longrightarrow> GetParameterF a prev = Some (atr_F a)" "wf_ATR a \<Longrightarrow> GetParameterD a prev = Some (atr_D a)"
  using ATR_GetParameter_F [of a] ATR_GetParameter_D [of a]
  by (simp_all add: GetParameterF_def GetParameterD_def atr_F_def atr_D_def)

text \<open>
  Evaluating the answer to reset at either of the two clocks the driver uses: it divides by zero
  exactly if TA1 selects a reserved clock rate factor or a bit rate factor below one (or the reserved
  0), and otherwise stores the baud rate \<open>clock * D / F\<close> and the element time unit.
\<close>

theorem parse_atr_result:
  assumes "wf_ATR (cb_atr (sci_cb d i))" "clk (sci_cb d i) = 357 \<or> clk (sci_cb d i) = 625"
    "a = cb_atr (sci_cb d i)" "c = GetClockRate (clk (sci_cb d i))"
  shows "case parse_atr i d of
      None \<Rightarrow> atr_F a = 0 \<or> atr_D a < 1000000
    | Some d' \<Rightarrow> atr_F a \<noteq> 0 \<and> 1000000 \<le> atr_D a \<and>
        cb_WWT (sci_cb d' i) = (c * (atr_D a div 1000000)) div atr_F a \<and>
        cb_ETU (sci_cb d' i) = c div cb_WWT (sci_cb d' i)"
proof -
  have "(c * (atr_D a div 1000000)) div atr_F a = 0 \<longleftrightarrow> atr_D a < 1000000" if "atr_F a \<noteq> 0"
    using waiting_time_positive atr_factors_in_tables [of a] assms(2) that unfolding assms(4) by auto
  then show ?thesis
    using assms(1, 3, 4) GetParameter_wf [of a]
    by (auto simp: parse_atr_def udiv_def not_less Let_def)
qed

text \<open>A card that answers with the default factors 372 and 1 is read at 9600 baud.\<close>

theorem parse_atr_result_witness:
  "\<exists>d'. parse_atr 0 machine_drv = Some d' \<and> cb_WWT (sci_cb d' 0) = 9600 \<and> cb_ETU (sci_cb d' 0) = 372"
proof -
  have f: "cb_atr (sci_cb machine_drv 0) = zero_ATR" "clk (sci_cb machine_drv 0) = 357"
    "atr_F zero_ATR = 372" "atr_D zero_ATR = 1000000" "GetClockRate 357 = 3571200"
    by (simp_all add: machine_drv_def machine_cb_def atr_F_def atr_D_def zero_ATR_def GetClockRate_def)
  then show ?thesis
    using parse_atr_result [of machine_drv 0 zero_ATR 3571200] wf_zero_ATR by (auto split: option.splits)
qed

text \<open>
  An answer to reset of more than 33 bytes (modulo 256) overflows \<^verbatim>\<open>atr_buf\<close>.
\<close>

theorem check_atr_overflow:
  assumes "wf_cb i (sci_cb d i)" "MAX_ATR_LEN < unat (rx_rptr (sci_cb d i)) mod 256"
  shows "check_atr K cfg i d = None"
proof -
  let ?d = "\<lambda>low. snd (smartcard_voltage_config K cfg i (if low then SCI_VCC_3 else SCI_VCC_5) d)"
  have "length (atr_buf (sci_cb (?d low) i)) = MAX_ATR_LEN" "rx_rptr (sci_cb (?d low) i) = rx_rptr (sci_cb d i)" for low
    using assms(1) by (simp_all add: smartcard_voltage_config_cb wf_cb_def)
  moreover have "unat (ucast (rx_rptr (sci_cb d i)) :: u8) = unat (rx_rptr (sci_cb d i)) mod 256"
    by (simp add: unsigned_ucast_eq take_bit_eq_mod)
  ultimately show ?thesis
    using assms(2) by (cases "atr_needs_3V (sci_cb d i)") (auto simp: check_atr_def Let_def arr_copy_def)
qed

theorem check_atr_overflow_witness:
  "check_atr machine_kernel machine_cfg 0 (with_cb (\<lambda>cb. cb\<lparr>rx_rptr := 34\<rparr>)) = None"
  by (rule check_atr_overflow) (simp_all add: with_cb_def machine_drv_def machine_cb_def wf_cb_def wf_zero_ATR)

section \<open>Small operations\<close>

text \<open>
  Setting and reading back the modes: each mode in range is stored except \<^verbatim>\<open>dma\<close>, which is checked but
  never stored, and the call succeeds exactly if all of them were in range.
\<close>

theorem sci_set_modes_roundtrip:
  assumes "sci_driver_init d = 1" "unat (cb_id (sci_cb d i)) < SCI_NUMBER_OF_CONTROLLERS cfg"
    "q = sci_modes (sci_cb d i)" "sci_set_modes cfg i m d = (rc, d')"
  shows "sci_get_modes cfg i d' = Inr \<lparr>
       emv2000 = if emv2000 m \<in> {0, 1} then emv2000 m else emv2000 q,
       dma = dma q,
       man_act = if man_act m \<in> {0, 1} then man_act m else man_act q,
       rw_mode = if rw_mode m < 4 then rw_mode m else rw_mode q\<rparr> \<and>
     (rc = SCI_ERROR_OK \<longleftrightarrow> emv2000 m \<in> {0, 1} \<and> dma m \<in> {0, 1} \<and> man_act m \<in> {0, 1} \<and> rw_mode m < 4)"
  using assms(4) assms(1-3)
  by (auto simp: sci_set_modes_def sci_get_modes_def Let_def split: if_splits)

theorem sci_set_modes_roundtrip_witness:
  "sci_get_modes machine_cfg 0 (snd (sci_set_modes machine_cfg 0
     \<lparr>emv2000 = 1, dma = 1, man_act = 7, rw_mode = 2\<rparr> machine_drv)) =
     Inr \<lparr>emv2000 = 1, dma = 0, man_act = 0, rw_mode = 2\<rparr>"
  using sci_set_modes_roundtrip [of machine_drv 0 machine_cfg _ "\<lparr>emv2000 = 1, dma = 1, man_act = 7, rw_mode = 2\<rparr>",
      OF _ _ refl prod.collapse [symmetric]]
  by (simp add: machine_drv_def machine_cb_def m_modes_def)

text \<open>
  The text of the proc file and its terminator fit into the local buffer of 256 bytes.
\<close>

theorem sci_proc_text_fits: "length (sci_proc_text cfg d) < 256"
proof -
  have "length (proc_lines is d) \<le> 21 * length is" for "is"
    by (induction "is") auto
  from this [of "[0..<SCI_NUMBER_OF_CONTROLLERS cfg]"] show ?thesis
    using SCI_NUMBER_OF_CONTROLLERS_cases [of cfg] by (auto simp: sci_proc_text_def)
qed

text \<open>
  A slot that was opened cannot be opened again until it is closed.
\<close>

theorem sci_open_exclusive:
  assumes "sci_open cfg i d = (0, d\<^sub>1)"
  shows "sci_open cfg i d\<^sub>1 = (- EBUSY, d\<^sub>1) \<and>
     fst (sci_close K cfg i d\<^sub>1) = 0 \<and> fst (sci_open cfg i (snd (sci_close K cfg i d\<^sub>1))) = 0"
  using assms by (auto simp: sci_open_def sci_close_def split: if_splits)

theorem sci_open_exclusive_witness:
  "fst (sci_open machine_cfg 0 (snd (sci_open machine_cfg 0 machine_drv))) = - EBUSY"
  using sci_open_exclusive [of machine_cfg 0 machine_drv "snd (sci_open machine_cfg 0 machine_drv)" machine_kernel]
  by (simp add: sci_open_def machine_drv_def machine_cb_def)

end
