(* ===== verification/Cec_Types.thy ===== *)
theory Cec_Types
  imports Prelude
begin

text \<open>
  The HDMI CEC driver (\<^verbatim>\<open>src/cec/\<close>): its constants, its global variables as one record, and the
  kernel it runs on.

  \<^item> The static variables of the seven C files are the record \<open>cec\<close>; its last field is the state of
    everything outside the driver (registers, line, user memory, wait queues).
  \<^item> What the driver calls of the kernel and of the other modules is the parameter \<open>cec_kernel\<close>.
    \<^verbatim>\<open>udelay\<close> and \<^verbatim>\<open>down_interruptible\<close> work on the whole record, because interrupts and other
    threads may change the driver's variables meanwhile.
  \<^item> The chip and the board are chosen by preprocessor symbols: the parameter \<open>cec_config\<close>.
  \<^item> Debug output is left out, but not the strings that are built for it.
\<close>

section \<open>Constants\<close>

text \<open>\<^verbatim>\<open>cec_internal.h\<close>: status and error bits, sizes.\<close>

abbreviation (input) CEC_STATUS_RECV_BTF :: u8 where "CEC_STATUS_RECV_BTF \<equiv> 128"
abbreviation (input) CEC_STATUS_RECV_ERR :: u8 where "CEC_STATUS_RECV_ERR \<equiv> 64"
abbreviation (input) CEC_STATUS_RECV_EOMSG :: u8 where "CEC_STATUS_RECV_EOMSG \<equiv> 32"
abbreviation (input) CEC_STATUS_RECV_SOMSG :: u8 where "CEC_STATUS_RECV_SOMSG \<equiv> 16"
abbreviation (input) CEC_STATUS_SEND_BTF :: u8 where "CEC_STATUS_SEND_BTF \<equiv> 8"
abbreviation (input) CEC_STATUS_SEND_ERR :: u8 where "CEC_STATUS_SEND_ERR \<equiv> 4"
abbreviation (input) CEC_STATUS_SEND_EOMSG :: u8 where "CEC_STATUS_SEND_EOMSG \<equiv> 2"
abbreviation (input) CEC_ERROR_ACK :: u8 where "CEC_ERROR_ACK \<equiv> 16"
abbreviation (input) CEC_MAX_DATA_LEN :: nat where "CEC_MAX_DATA_LEN \<equiv> 15"
abbreviation (input) RECV_BUF_SIZE :: nat where "RECV_BUF_SIZE \<equiv> 16"
abbreviation (input) SEND_BUF_SIZE :: nat where "SEND_BUF_SIZE \<equiv> 16"
abbreviation (input) INPUT_BUFFER_SIZE :: nat where "INPUT_BUFFER_SIZE \<equiv> 255"
abbreviation (input) OUTBUFFERSIZE :: nat where "OUTBUFFERSIZE \<equiv> 4096"
abbreviation (input) PAGE_SIZE :: nat where "PAGE_SIZE \<equiv> 4096"
abbreviation (input) NAME_SIZE :: nat where "NAME_SIZE \<equiv> 100"
abbreviation (input) DEFAULT_RETRY_COUNT :: u32 where "DEFAULT_RETRY_COUNT \<equiv> 3"

text \<open>\<^verbatim>\<open>cec_opcodes_def.h\<close>: the addresses of devices and the opcodes of messages.\<close>

abbreviation (input) BROADCAST :: u8 where "BROADCAST \<equiv> 0xf"
abbreviation (input) DEVICE_TYPE_TV :: u8 where "DEVICE_TYPE_TV \<equiv> 0x00"
abbreviation (input) DEVICE_TYPE_REC :: u8 where "DEVICE_TYPE_REC \<equiv> 0x01"
abbreviation (input) DEVICE_TYPE_STB :: u8 where "DEVICE_TYPE_STB \<equiv> 0x03"
abbreviation (input) DEVICE_TYPE_DVD :: u8 where "DEVICE_TYPE_DVD \<equiv> 0x04"
abbreviation (input) DEVICE_TYPE_REC1 :: u8 where "DEVICE_TYPE_REC1 \<equiv> 0x01"
abbreviation (input) DEVICE_TYPE_REC2 :: u8 where "DEVICE_TYPE_REC2 \<equiv> 0x02"
abbreviation (input) DEVICE_TYPE_STB1 :: u8 where "DEVICE_TYPE_STB1 \<equiv> 0x03"
abbreviation (input) DEVICE_TYPE_DVD1 :: u8 where "DEVICE_TYPE_DVD1 \<equiv> 0x04"
abbreviation (input) DEVICE_TYPE_STB2 :: u8 where "DEVICE_TYPE_STB2 \<equiv> 0x06"
abbreviation (input) DEVICE_TYPE_STB3 :: u8 where "DEVICE_TYPE_STB3 \<equiv> 0x07"
abbreviation (input) DEVICE_TYPE_DVD2 :: u8 where "DEVICE_TYPE_DVD2 \<equiv> 0x08"
abbreviation (input) DEVICE_TYPE_DVD3 :: u8 where "DEVICE_TYPE_DVD3 \<equiv> 0x0B"
abbreviation (input) DEVICE_TYPE_UNREG :: u8 where "DEVICE_TYPE_UNREG \<equiv> 0x0F"

abbreviation (input) FEATURE_ABORT :: u8 where "FEATURE_ABORT \<equiv> 0x00"
abbreviation (input) IMAGE_VIEW_ON :: u8 where "IMAGE_VIEW_ON \<equiv> 0x04"
abbreviation (input) GIVE_DECK_STATUS :: u8 where "GIVE_DECK_STATUS \<equiv> 0x1A"
abbreviation (input) DECK_STATUS :: u8 where "DECK_STATUS \<equiv> 0x1B"
abbreviation (input) SET_MENU_LANGUAGE :: u8 where "SET_MENU_LANGUAGE \<equiv> 0x32"
abbreviation (input) STANDBY :: u8 where "STANDBY \<equiv> 0x36"
abbreviation (input) USER_CONTROL_PRESSED :: u8 where "USER_CONTROL_PRESSED \<equiv> 0x44"
abbreviation (input) USER_CONTROL_RELEASED :: u8 where "USER_CONTROL_RELEASED \<equiv> 0x45"
abbreviation (input) GIVE_OSD_NAME :: u8 where "GIVE_OSD_NAME \<equiv> 0x46"
abbreviation (input) SET_OSD_NAME :: u8 where "SET_OSD_NAME \<equiv> 0x47"
abbreviation (input) SET_OSD_STRING :: u8 where "SET_OSD_STRING \<equiv> 0x64"
abbreviation (input) ROUTING_CHANGE :: u8 where "ROUTING_CHANGE \<equiv> 0x80"
abbreviation (input) ROUTING_INFORMATION :: u8 where "ROUTING_INFORMATION \<equiv> 0x81"
abbreviation (input) ACTIVE_SOURCE :: u8 where "ACTIVE_SOURCE \<equiv> 0x82"
abbreviation (input) GIVE_PHYSICAL_ADDRESS :: u8 where "GIVE_PHYSICAL_ADDRESS \<equiv> 0x83"
abbreviation (input) REPORT_PHYSICAL_ADDRESS :: u8 where "REPORT_PHYSICAL_ADDRESS \<equiv> 0x84"
abbreviation (input) REQUEST_ACTIVE_SOURCE :: u8 where "REQUEST_ACTIVE_SOURCE \<equiv> 0x85"
abbreviation (input) SET_STREAM_PATH :: u8 where "SET_STREAM_PATH \<equiv> 0x86"
abbreviation (input) DEVICE_VENDOR_ID :: u8 where "DEVICE_VENDOR_ID \<equiv> 0x87"
abbreviation (input) VENDOR_COMMAND :: u8 where "VENDOR_COMMAND \<equiv> 0x89"
abbreviation (input) GIVE_DEVICE_VENDOR_ID :: u8 where "GIVE_DEVICE_VENDOR_ID \<equiv> 0x8C"
abbreviation (input) MENU_REQUEST :: u8 where "MENU_REQUEST \<equiv> 0x8D"
abbreviation (input) MENU_STATUS :: u8 where "MENU_STATUS \<equiv> 0x8E"
abbreviation (input) GIVE_DEVICE_POWER_STATUS :: u8 where "GIVE_DEVICE_POWER_STATUS \<equiv> 0x8F"
abbreviation (input) REPORT_POWER_STATUS :: u8 where "REPORT_POWER_STATUS \<equiv> 0x90"
abbreviation (input) CEC_VERSION :: u8 where "CEC_VERSION \<equiv> 0x9e"
abbreviation (input) GET_CEC_VERSION :: u8 where "GET_CEC_VERSION \<equiv> 0x9f"
abbreviation (input) VENDOR_COMMAND_WITH_ID :: u8 where "VENDOR_COMMAND_WITH_ID \<equiv> 0xa0"

abbreviation (input) DECK_INFO_PLAY :: u8 where "DECK_INFO_PLAY \<equiv> 0x11"
abbreviation (input) ABORT_REASON_UNRECOGNIZED_OPCODE :: u8 where "ABORT_REASON_UNRECOGNIZED_OPCODE \<equiv> 0x00"
abbreviation (input) MENU_STATE_ACTIVATE :: u8 where "MENU_STATE_ACTIVATE \<equiv> 0x00"
abbreviation (input) POWER_STATUS_ON :: u8 where "POWER_STATUS_ON \<equiv> 0x00"
abbreviation (input) CEC_VERSION_V13A :: u8 where "CEC_VERSION_V13A \<equiv> 0x04"

section \<open>State\<close>

record cec_config =
  STx7105 :: bool
  STx7111 :: bool
  UFS912 :: bool
  UFS913 :: bool
  HS8200 :: bool

text \<open>
  The static variables. \<open>sendCommand\<close> and \<open>vOpen_sem\<close> are the counts of the semaphores, \<open>vOpen_fp\<close>
  the file that holds the device (\<open>None\<close> for a null pointer).
\<close>

record 'w cec =
  isReceiving :: u8
  indexOfRecvBuf :: u32
  recvBuf :: "u8 list"
  isSending :: u8
  indexOfSendBuf :: u32
  sizeOfSendBuf :: u32
  sendBuf :: "u8 list"
  retries :: u8
  sendCommand :: nat
  sendCommandWithDelay :: u8
  notEndTask :: u8
  isFirstKiss :: u8
  logicalDeviceTypeChoicesIndex :: u8
  logicalDeviceType :: u8
  ActiveSource :: u16
  inputBuffer :: "u8 list"
  sizeOfInputBuffer :: u32
  eventDiscovery :: u8
  eventActiveSource :: u8
  eventStandby :: u8
  last_keycode :: u32
  vOpen_fp :: "nat option"
  vOpen_sem :: nat
  outputBufferStart :: u32
  outputBufferEnd :: u32
  outputBuffer :: "u8 list"
  cancelStart :: u8
  activemode :: int
  deviceName :: "u8 list"
  deviceType :: u8
  cec_world :: 'w

text \<open>
  The buffer a function gets as an argument: one of the static buffers, which the function may
  change while it still reads its argument, or an array of the caller.
\<close>

datatype msg_buf = RecvBuf | SendBuf | InputBuf | Local "u8 list"

primrec buf_of :: "msg_buf \<Rightarrow> 'w cec \<Rightarrow> u8 list" where
  "buf_of RecvBuf d = recvBuf d"
| "buf_of SendBuf d = sendBuf d"
| "buf_of InputBuf d = inputBuffer d"
| "buf_of (Local bs) d = bs"

primrec put_buf :: "msg_buf \<Rightarrow> u8 list \<Rightarrow> 'w cec \<Rightarrow> 'w cec" where
  "put_buf RecvBuf xs d = d\<lparr>recvBuf := xs\<rparr>"
| "put_buf SendBuf xs d = d\<lparr>sendBuf := xs\<rparr>"
| "put_buf InputBuf xs d = d\<lparr>inputBuffer := xs\<rparr>"
| "put_buf (Local bs) xs d = d"

text \<open>The keys of \<^verbatim>\<open>linux/input.h\<close> that the driver names.\<close>

datatype linux_key = KEY_OK | KEY_UP | KEY_DOWN | KEY_LEFT | KEY_RIGHT | KEY_HOME | KEY_MENU
  | KEY_INFO | KEY_0 | KEY_1 | KEY_2 | KEY_3 | KEY_4 | KEY_5 | KEY_6 | KEY_7 | KEY_8 | KEY_9
  | KEY_BLUE | KEY_RED | KEY_GREEN | KEY_YELLOW | KEY_PLAY | KEY_STOP | KEY_PAUSE | KEY_RECORD
  | KEY_REWIND | KEY_FASTFORWARD | KEY_FAVORITES | KEY_PAGEUP | KEY_PAGEDOWN

section \<open>The kernel\<close>

text \<open>
  \<open>k_sscanf_hhx\<close> and \<open>k_sscanf_1x\<close> are the results of \<^verbatim>\<open>sscanf\<close> with \<^verbatim>\<open>%02hhx\<close> and
  \<^verbatim>\<open>%1x\<close> (\<open>None\<close> if nothing is converted); \<open>k_hdmi_lock\<close>, \<open>k_hdmi_unlock\<close> and
  \<open>k_edid_address\<close> are the lock and the address bytes of the HDMI device of the display driver.
\<close>

record 'w cec_kernel =
  k_ioremap :: "u32 \<Rightarrow> 'w \<Rightarrow> u32 \<times> 'w"
  k_iounmap :: "u32 \<Rightarrow> 'w \<Rightarrow> 'w"
  k_readl :: "u32 \<Rightarrow> 'w \<Rightarrow> u32 \<times> 'w"
  k_writel :: "u32 \<Rightarrow> u32 \<Rightarrow> 'w \<Rightarrow> 'w"
  k_udelay :: "nat \<Rightarrow> 'w cec \<Rightarrow> 'w cec"
  k_hdmi_lock :: "'w \<Rightarrow> bool \<times> 'w"
  k_hdmi_unlock :: "'w \<Rightarrow> 'w"
  k_edid_address :: "'w \<Rightarrow> u8 \<times> u8 \<times> u8 \<times> u8"
  k_kernel_thread :: "'w \<Rightarrow> 'w"
  k_request_irq :: "nat \<Rightarrow> 'w \<Rightarrow> int \<times> 'w"
  k_free_irq :: "nat \<Rightarrow> 'w \<Rightarrow> 'w"
  k_keycode :: "linux_key \<Rightarrow> u32"
  k_input_allocate_device :: "'w \<Rightarrow> bool \<times> 'w"
  k_input_setup :: "'w \<Rightarrow> 'w"
  k_input_register_device :: "'w \<Rightarrow> int \<times> 'w"
  k_input_free_device :: "'w \<Rightarrow> 'w"
  k_input_unregister_device :: "'w \<Rightarrow> 'w"
  k_input_event :: "u32 \<Rightarrow> u32 \<Rightarrow> u32 \<Rightarrow> 'w \<Rightarrow> 'w"
  k_install_e2_procs :: "string \<Rightarrow> 'w \<Rightarrow> 'w"
  k_remove_e2_procs :: "string \<Rightarrow> 'w \<Rightarrow> 'w"
  k_register_chrdev :: "nat \<Rightarrow> 'w \<Rightarrow> int \<times> 'w"
  k_unregister_chrdev :: "nat \<Rightarrow> 'w \<Rightarrow> 'w"
  k_init_waitqueue_head :: "'w \<Rightarrow> 'w"
  k_wake_up_interruptible :: "'w \<Rightarrow> 'w"
  k_poll_wait :: "'w \<Rightarrow> 'w"
  k_down_interruptible :: "'w cec \<Rightarrow> int \<times> 'w cec"
  k_kmalloc :: "nat \<Rightarrow> 'w \<Rightarrow> bool \<times> 'w"
  k_kfree :: "'w \<Rightarrow> 'w"
  k_get_free_page :: "'w \<Rightarrow> bool \<times> 'w"
  k_free_page :: "'w \<Rightarrow> 'w"
  k_copy_from_user :: "u32 \<Rightarrow> nat \<Rightarrow> 'w \<Rightarrow> (nat \<times> u8 list) \<times> 'w"
  k_copy_to_user :: "u32 \<Rightarrow> u8 list \<Rightarrow> 'w \<Rightarrow> 'w"
  k_sscanf_hhx :: "u8 list \<Rightarrow> u8 option"
  k_sscanf_1x :: "u8 list \<Rightarrow> u32 option"

definition cec_hw :: "('w \<Rightarrow> 'w) \<Rightarrow> 'w cec \<Rightarrow> 'w cec" where
  "cec_hw f d = d\<lparr>cec_world := f (cec_world d)\<rparr>"

definition cec_hw_get :: "('w \<Rightarrow> 'a \<times> 'w) \<Rightarrow> 'w cec \<Rightarrow> 'a \<times> 'w cec" where
  "cec_hw_get f d = (let (v, w) = f (cec_world d) in (v, d\<lparr>cec_world := w\<rparr>))"

section \<open>Invariant\<close>

text \<open>
  The type invariant of the driver: the arrays have their declared sizes, and the indices into
  them and the event counters stay inside their ranges.
\<close>

definition wf_cec :: "'w cec \<Rightarrow> bool" where
  "wf_cec d \<longleftrightarrow>
     length (recvBuf d) = RECV_BUF_SIZE \<and> length (sendBuf d) = SEND_BUF_SIZE \<and>
     length (inputBuffer d) = INPUT_BUFFER_SIZE \<and> length (outputBuffer d) = OUTBUFFERSIZE \<and>
     unat (indexOfRecvBuf d) \<le> RECV_BUF_SIZE \<and> unat (indexOfSendBuf d) \<le> SEND_BUF_SIZE \<and>
     unat (sizeOfSendBuf d) \<le> SEND_BUF_SIZE \<and>
     unat (outputBufferStart d) \<le> OUTBUFFERSIZE \<and> unat (outputBufferEnd d) \<le> OUTBUFFERSIZE \<and>
     logicalDeviceType d \<le> 15 \<and> logicalDeviceTypeChoicesIndex d \<le> 9 \<and>
     eventDiscovery d \<le> 15 \<and> eventActiveSource d \<le> 15 \<and> eventStandby d \<le> 15"

text \<open>
  A step that only moves the outside world leaves every variable of the driver as it is.
\<close>

locale cec_world_op =
  fixes oper :: "'w cec \<Rightarrow> 'w cec"
  assumes oper_world: "\<exists>w. oper d = d\<lparr>cec_world := w\<rparr>"
begin

lemma oper_frame:
  "isReceiving (oper d) = isReceiving d" "indexOfRecvBuf (oper d) = indexOfRecvBuf d"
  "recvBuf (oper d) = recvBuf d" "isSending (oper d) = isSending d"
  "indexOfSendBuf (oper d) = indexOfSendBuf d" "sizeOfSendBuf (oper d) = sizeOfSendBuf d"
  "sendBuf (oper d) = sendBuf d" "retries (oper d) = retries d"
  "sendCommand (oper d) = sendCommand d" "sendCommandWithDelay (oper d) = sendCommandWithDelay d"
  "notEndTask (oper d) = notEndTask d" "isFirstKiss (oper d) = isFirstKiss d"
  "logicalDeviceTypeChoicesIndex (oper d) = logicalDeviceTypeChoicesIndex d"
  "logicalDeviceType (oper d) = logicalDeviceType d" "ActiveSource (oper d) = ActiveSource d"
  "inputBuffer (oper d) = inputBuffer d" "sizeOfInputBuffer (oper d) = sizeOfInputBuffer d"
  "eventDiscovery (oper d) = eventDiscovery d" "eventActiveSource (oper d) = eventActiveSource d"
  "eventStandby (oper d) = eventStandby d" "last_keycode (oper d) = last_keycode d"
  "vOpen_fp (oper d) = vOpen_fp d" "vOpen_sem (oper d) = vOpen_sem d"
  "outputBufferStart (oper d) = outputBufferStart d" "outputBufferEnd (oper d) = outputBufferEnd d"
  "outputBuffer (oper d) = outputBuffer d" "cancelStart (oper d) = cancelStart d"
  "activemode (oper d) = activemode d" "deviceName (oper d) = deviceName d"
  "deviceType (oper d) = deviceType d"
  using oper_world [of d] by auto

lemma oper_wf: "wf_cec (oper d) \<longleftrightarrow> wf_cec d"
  by (simp add: wf_cec_def oper_frame)

lemma oper_buf_of: "buf_of b (oper d) = buf_of b d"
  by (cases b) (simp_all add: oper_frame)

lemma oper_eq: "oper d = d\<lparr>cec_world := cec_world (oper d)\<rparr>"
  using oper_world [of d] by auto

end

interpretation cec_hw_step: cec_world_op "cec_hw f" for f :: "'w \<Rightarrow> 'w"
  by unfold_locales (auto simp: cec_hw_def)

interpretation cec_hw_get_step: cec_world_op "\<lambda>d. snd (cec_hw_get f d)" for f :: "'w \<Rightarrow> 'a \<times> 'w"
  by unfold_locales (auto simp: cec_hw_get_def split: prod.split)

declare cec_hw_step.oper_frame [simp] cec_hw_get_step.oper_frame [simp]
  cec_hw_step.oper_wf [simp] cec_hw_get_step.oper_wf [simp]
  cec_hw_step.oper_buf_of [simp] cec_hw_get_step.oper_buf_of [simp]

lemma cec_hw_world [simp]: "cec_world (cec_hw f d) = f (cec_world d)"
  by (simp add: cec_hw_def)

end
