(* ===== verification/Cec_Line.thy ===== *)
theory Cec_Line
  imports Cec_Types
begin

text \<open>
  The lower half of the CEC driver: the registers of the controller (\<^verbatim>\<open>cec_internal.c\<close>), and
  sending a message and the thread that starts the transmissions (\<^verbatim>\<open>cec_worker.c\<close>).
\<close>

section \<open>Registers\<close>

abbreviation (input) PIO1BaseAddress :: u32 where "PIO1BaseAddress \<equiv> 0xFD021000"
abbreviation (input) CECBaseAddress :: u32 where "CECBaseAddress \<equiv> 0xFE030C00"
abbreviation (input) SysConfigBaseAddress :: u32 where "SysConfigBaseAddress \<equiv> 0xFE001000"
abbreviation (input) PIO_PC0 :: u32 where "PIO_PC0 \<equiv> 0x24"
abbreviation (input) PIO_PC1 :: u32 where "PIO_PC1 \<equiv> 0x34"
abbreviation (input) PIO_PC2 :: u32 where "PIO_PC2 \<equiv> 0x44"
abbreviation (input) SYS_CFG2 :: u32 where "SYS_CFG2 \<equiv> 0x108"
abbreviation (input) SYS_CFG5 :: u32 where "SYS_CFG5 \<equiv> 0x114"
abbreviation (input) CEC_PRESCALER_LEFT :: u32 where "CEC_PRESCALER_LEFT \<equiv> 0x00"
abbreviation (input) CEC_PRESCALER_RIGHT :: u32 where "CEC_PRESCALER_RIGHT \<equiv> 0x04"
abbreviation (input) CEC_STATUS_ERROR :: u32 where "CEC_STATUS_ERROR \<equiv> 0x08"
abbreviation (input) CEC_CONTROL :: u32 where "CEC_CONTROL \<equiv> 0x0C"
abbreviation (input) CEC_TX :: u32 where "CEC_TX \<equiv> 0x10"
abbreviation (input) CEC_RX :: u32 where "CEC_RX \<equiv> 0x14"
abbreviation (input) CEC_CFG :: u32 where "CEC_CFG \<equiv> 0x18"
abbreviation (input) CEC_ADDRESS :: u32 where "CEC_ADDRESS \<equiv> 0x1C"
abbreviation (input) CEC_TRANSM_SOM :: u32 where "CEC_TRANSM_SOM \<equiv> 1"
abbreviation (input) CEC_TRANSM_EOM :: u32 where "CEC_TRANSM_EOM \<equiv> 2"

text \<open>Both accesses map the register, use it and unmap it again.\<close>

definition reg_write :: "'w cec_kernel \<Rightarrow> u32 \<Rightarrow> u32 \<Rightarrow> 'w \<Rightarrow> 'w" where
  "reg_write K address value w =
     (let (mapped_register, w) = k_ioremap K address w;
          w = k_writel K value mapped_register w
      in k_iounmap K mapped_register w)"

definition reg_read :: "'w cec_kernel \<Rightarrow> u32 \<Rightarrow> 'w \<Rightarrow> u32 \<times> 'w" where
  "reg_read K address w =
     (let (mapped_register, w) = k_ioremap K address w;
          (result, w) = k_readl K mapped_register w
      in (result, k_iounmap K mapped_register w))"

definition cec_write_register_u32 :: "'w cec_kernel \<Rightarrow> u32 \<Rightarrow> u32 \<Rightarrow> 'w cec \<Rightarrow> 'w cec" where
  "cec_write_register_u32 K address value = cec_hw (reg_write K address value)"

definition cec_read_register_u32 :: "'w cec_kernel \<Rightarrow> u32 \<Rightarrow> 'w cec \<Rightarrow> u32 \<times> 'w cec" where
  "cec_read_register_u32 K address = cec_hw_get (reg_read K address)"

definition cec_write_data :: "'w cec_kernel \<Rightarrow> u32 \<Rightarrow> 'w cec \<Rightarrow> 'w cec" where
  "cec_write_data K value = cec_write_register_u32 K (CECBaseAddress + CEC_TX) value"

definition cec_read_data :: "'w cec_kernel \<Rightarrow> 'w cec \<Rightarrow> u32 \<times> 'w cec" where
  "cec_read_data K = cec_read_register_u32 K (CECBaseAddress + CEC_RX)"

definition cec_start_sending :: "'w cec_kernel \<Rightarrow> u8 \<Rightarrow> 'w cec \<Rightarrow> 'w cec" where
  "cec_start_sending K isPing =
     (if isPing = 1
      then cec_write_register_u32 K (CECBaseAddress + CEC_CONTROL) (CEC_TRANSM_EOM OR CEC_TRANSM_SOM)
      else cec_write_register_u32 K (CECBaseAddress + CEC_CONTROL) CEC_TRANSM_SOM)"

definition cec_end_sending :: "'w cec_kernel \<Rightarrow> 'w cec \<Rightarrow> 'w cec" where
  "cec_end_sending K = cec_write_register_u32 K (CECBaseAddress + CEC_CONTROL) CEC_TRANSM_EOM"

definition cec_get_status :: "'w cec_kernel \<Rightarrow> 'w cec \<Rightarrow> u8 \<times> 'w cec" where
  "cec_get_status K d =
     (let (res, d) = cec_read_register_u32 K (CECBaseAddress + CEC_CONTROL) d
      in (ucast (res AND 0xFF), d))"

definition cec_get_error :: "'w cec_kernel \<Rightarrow> 'w cec \<Rightarrow> u8 \<times> 'w cec" where
  "cec_get_error K d =
     (let (res, d) = cec_read_register_u32 K (CECBaseAddress + CEC_STATUS_ERROR) d
      in (ucast (res AND 0xFF), d))"

definition cec_acknowledge :: "'w cec_kernel \<Rightarrow> 'w cec \<Rightarrow> 'w cec" where
  "cec_acknowledge K = cec_write_register_u32 K (CECBaseAddress + CEC_CONTROL) 0x00"

definition cec_acknowledge_eom :: "'w cec_kernel \<Rightarrow> 'w cec \<Rightarrow> 'w cec" where
  "cec_acknowledge_eom K = cec_write_register_u32 K (CECBaseAddress + CEC_CONTROL) 0x02"

definition cec_set_own_address :: "'w cec_kernel \<Rightarrow> u32 \<Rightarrow> 'w cec \<Rightarrow> 'w cec" where
  "cec_set_own_address K own_address = cec_write_register_u32 K (CECBaseAddress + CEC_ADDRESS) own_address"

definition reg_modify :: "'w cec_kernel \<Rightarrow> u32 \<Rightarrow> (u32 \<Rightarrow> u32) \<Rightarrow> 'w cec \<Rightarrow> 'w cec" where
  "reg_modify K address f d =
     (let (res, d) = cec_read_register_u32 K address d in cec_write_register_u32 K address (f res) d)"

definition cec_internal_init :: "'w cec_kernel \<Rightarrow> cec_config \<Rightarrow> 'w cec \<Rightarrow> int \<times> 'w cec" where
  "cec_internal_init K cfg d =
     (let d = (if STx7105 cfg
               then reg_modify K (SysConfigBaseAddress + SYS_CFG2) (\<lambda>res. res OR push_bit 29 1) d
               else d);
          d = (if STx7111 cfg then
                 let d = cec_write_register_u32 K (PIO1BaseAddress + PIO_PC0) 128 d;
                     d = cec_write_register_u32 K (PIO1BaseAddress + PIO_PC1) 128 d;
                     d = cec_write_register_u32 K (PIO1BaseAddress + PIO_PC2) 128 d;
                     d = reg_modify K (SysConfigBaseAddress + SYS_CFG5) (\<lambda>res. res OR push_bit 8 1) d
                 in reg_modify K (SysConfigBaseAddress + SYS_CFG5) (\<lambda>res. res OR push_bit 24 1) d
               else d);
          d = reg_modify K (CECBaseAddress + CEC_CFG) (\<lambda>res. res OR 0x3) d;
          d = cec_write_register_u32 K (CECBaseAddress + CEC_PRESCALER_LEFT) 0x88 d;
          d = cec_write_register_u32 K (CECBaseAddress + CEC_PRESCALER_RIGHT) 0x13 d
      in (0, d))"

definition cec_internal_exit :: "'w cec_kernel \<Rightarrow> cec_config \<Rightarrow> 'w cec \<Rightarrow> 'w cec" where
  "cec_internal_exit K cfg d =
     (let d = (if STx7105 cfg
               then reg_modify K (SysConfigBaseAddress + SYS_CFG2) (\<lambda>res. res AND NOT (push_bit 29 1)) d
               else d);
          d = (if STx7111 cfg
               then reg_modify K (SysConfigBaseAddress + SYS_CFG5) (\<lambda>res. res AND NOT 256) d
               else d);
          d = reg_modify K (CECBaseAddress + CEC_CFG) (\<lambda>res. res AND NOT 0x03) d;
          d = cec_write_register_u32 K (CECBaseAddress + CEC_PRESCALER_LEFT) 0x0 d
      in cec_write_register_u32 K (CECBaseAddress + CEC_PRESCALER_RIGHT) 0x0 d)"

section \<open>Sending a message\<close>

text \<open>\<^verbatim>\<open>while (isSending && --Counter) udelay(10000);\<close>\<close>

fun send_wait :: "'w cec_kernel \<Rightarrow> nat \<Rightarrow> 'w cec \<Rightarrow> nat \<times> 'w cec" where
  "send_wait K counter d =
     (if isSending d \<noteq> 0 \<and> counter \<noteq> 0 then
        if counter - 1 \<noteq> 0 then send_wait K (counter - 1) (k_udelay K 10000 d) else (0, d)
      else (counter, d))"

declare send_wait.simps [simp del]

text \<open>
  Preparing the transmission: the first byte gets the own address as its source and is written to
  the controller, and the thread is woken up. The caller's buffer is written too (\<^verbatim>\<open>buf[0]\<close>); when
  it is the send buffer itself, the copy is onto itself.
\<close>

definition send_load :: "'w cec_kernel \<Rightarrow> u32 \<Rightarrow> msg_buf \<Rightarrow> u32 \<Rightarrow> 'w cec \<Rightarrow> 'w cec option" where
  "send_load K len buf retry d =
     (let d = d\<lparr>sizeOfSendBuf := len, indexOfSendBuf := 0, isSending := 1, retries := ucast retry\<rparr>;
          src = logicalDeviceType d
      in do {
        b0 \<leftarrow> arr_get (buf_of buf d) 0;
        let dst = b0 AND 0x0F;
        bs \<leftarrow> arr_set (buf_of buf d) 0 (push_bit 4 src + (dst AND 0xF));
        let d = put_buf buf bs d;
        sb \<leftarrow> (if buf = SendBuf then arr_slice bs 0 (unat len) \<bind> (\<lambda>_. Some bs)
              else arr_copy (sendBuf d) 0 bs 0 (unat len));
        let d = d\<lparr>sendBuf := sb\<rparr>;
        let d = cec_set_own_address K (ucast src) d;
        value \<leftarrow> arr_get (sendBuf d) (unat (indexOfSendBuf d));
        let d = cec_write_data K (ucast value) d;
        Some (d\<lparr>indexOfSendBuf := indexOfSendBuf d + 1, sendCommand := Suc (sendCommand d)\<rparr>)
      })"

definition sendMessageWithRetry ::
    "'w cec_kernel \<Rightarrow> u32 \<Rightarrow> msg_buf \<Rightarrow> u32 \<Rightarrow> 'w cec \<Rightarrow> (int \<times> 'w cec) option" where
  "sendMessageWithRetry K len buf retry d =
     (let (counter, d) = send_wait K 100 d in
      if counter = 0 then Some (- 1, d)
      else do { d \<leftarrow> send_load K len buf retry d; Some (0, d) })"

definition sendMessage :: "'w cec_kernel \<Rightarrow> u32 \<Rightarrow> msg_buf \<Rightarrow> 'w cec \<Rightarrow> 'w cec option" where
  "sendMessage K len buf d =
     do { (rc, d) \<leftarrow> sendMessageWithRetry K len buf DEFAULT_RETRY_COUNT d; Some d }"

section \<open>The thread\<close>

text \<open>
  \<^verbatim>\<open>startTask\<close> and \<^verbatim>\<open>endTask\<close> wait for the thread to set \<^verbatim>\<open>notEndTask\<close>; the wait never ends if it
  does not.
\<close>

partial_function (option) wait_task :: "'w cec_kernel \<Rightarrow> nat \<Rightarrow> 'w cec \<Rightarrow> 'w cec option" where
  "wait_task K us d = (if notEndTask d = 0 then wait_task K us (k_udelay K us d) else Some d)"

definition startTask :: "'w cec_kernel \<Rightarrow> 'w cec \<Rightarrow> 'w cec option" where
  "startTask K d =
     (let d = d\<lparr>notEndTask := 0\<rparr>; d = cec_hw (k_kernel_thread K) d in wait_task K 5000 d)"

definition endTask :: "'w cec_kernel \<Rightarrow> 'w cec \<Rightarrow> 'w cec option" where
  "endTask K d =
     (let d = d\<lparr>notEndTask := 0, sendCommand := Suc (sendCommand d)\<rparr> in wait_task K 10000 d)"

text \<open>
  The thread as a state machine: the point it has reached, and one step from it. \<open>None\<close> means that
  it is blocked in \<^verbatim>\<open>down\<close>, or has ended.
\<close>

datatype task_pc = Task_Start | Task_Test | Task_Down | Task_Woken | Task_Leave | Task_Died

primrec cec_task_step :: "'w cec_kernel \<Rightarrow> task_pc \<Rightarrow> 'w cec \<Rightarrow> (task_pc \<times> 'w cec) option" where
  "cec_task_step K Task_Start d = Some (Task_Test, d\<lparr>sendCommand := 0, notEndTask := 1\<rparr>)"
| "cec_task_step K Task_Test d = Some (if notEndTask d \<noteq> 0 then Task_Down else Task_Leave, d)"
| "cec_task_step K Task_Down d =
     (if sendCommand d = 0 then None
      else Some (Task_Woken, d\<lparr>sendCommand := sendCommand d - 1\<rparr>))"
| "cec_task_step K Task_Woken d =
     (if notEndTask d = 0 then Some (Task_Leave, d)
      else
        let delay = sendCommandWithDelay d;
            d = d\<lparr>sendCommandWithDelay := sendCommandWithDelay d - 1\<rparr>;
            d = (if delay \<noteq> 0 then k_udelay K 10000 d else d);
            d = (if sizeOfSendBuf d = 1 then cec_start_sending K 1 d else cec_start_sending K 0 d)
        in Some (Task_Test, d))"
| "cec_task_step K Task_Leave d = Some (Task_Died, d\<lparr>notEndTask := 1\<rparr>)"
| "cec_task_step K Task_Died d = None"

fun cec_task :: "'w cec_kernel \<Rightarrow> nat \<Rightarrow> task_pc \<times> 'w cec \<Rightarrow> task_pc \<times> 'w cec" where
  "cec_task K 0 s = s"
| "cec_task K (Suc n) s =
     (case cec_task_step K (fst s) (snd s) of None \<Rightarrow> s | Some s' \<Rightarrow> cec_task K n s')"

section \<open>What the operations keep\<close>

interpretation cec_write_reg: cec_world_op "cec_write_register_u32 K a v" for K :: "'w cec_kernel" and a v
  by unfold_locales (auto simp: cec_write_register_u32_def cec_hw_def)

interpretation cec_read_reg: cec_world_op "\<lambda>d. snd (cec_read_register_u32 K a d)" for K :: "'w cec_kernel" and a
  by unfold_locales (auto simp: cec_read_register_u32_def cec_hw_get_def split: prod.split)

declare cec_write_reg.oper_frame [simp] cec_write_reg.oper_wf [simp] cec_write_reg.oper_buf_of [simp]
  cec_read_reg.oper_frame [simp] cec_read_reg.oper_wf [simp] cec_read_reg.oper_buf_of [simp]

lemmas cec_reg_defs = cec_write_data_def cec_read_data_def cec_start_sending_def cec_end_sending_def
  cec_get_status_def cec_get_error_def cec_acknowledge_def cec_acknowledge_eom_def cec_set_own_address_def

text \<open>What the driver relies on while it waits: whoever runs meanwhile keeps the invariant.\<close>

definition delay_ok :: "'w cec_kernel \<Rightarrow> bool" where
  "delay_ok K \<longleftrightarrow> (\<forall>n d. wf_cec d \<longrightarrow> wf_cec (k_udelay K n d)) \<and>
     (\<forall>d. wf_cec d \<longrightarrow> wf_cec (snd (k_down_interruptible K d)))"

lemma delay_okD:
  "delay_ok K \<Longrightarrow> wf_cec d \<Longrightarrow> wf_cec (k_udelay K n d)"
  "delay_ok K \<Longrightarrow> wf_cec d \<Longrightarrow> wf_cec (snd (k_down_interruptible K d))"
  by (simp_all add: delay_ok_def)

lemma send_wait_wf: "delay_ok K \<Longrightarrow> wf_cec d \<Longrightarrow> wf_cec (snd (send_wait K c d))"
  by (induction K c d rule: send_wait.induct) (subst send_wait.simps, simp add: delay_okD)

text \<open>The bytes of the caller's buffer with the own address, and what they make of the send buffer.\<close>

definition own_header :: "msg_buf \<Rightarrow> 'w cec \<Rightarrow> u8 list" where
  "own_header buf d =
     (buf_of buf d)[0 := push_bit 4 (logicalDeviceType d) + (buf_of buf d ! 0 AND 0xF)]"

definition loaded_buf :: "nat \<Rightarrow> msg_buf \<Rightarrow> 'w cec \<Rightarrow> u8 list" where
  "loaded_buf len buf d =
     (if buf = SendBuf then own_header buf d else take len (own_header buf d) @ drop len (sendBuf d))"

lemma send_load_eq:
  assumes "length (sendBuf d) = SEND_BUF_SIZE"
  shows "send_load K len buf retry d =
    (if buf_of buf d \<noteq> [] \<and> unat len \<le> length (buf_of buf d) \<and> unat len \<le> SEND_BUF_SIZE
     then Some ((put_buf buf (own_header buf d) d)\<lparr>sendBuf := loaded_buf (unat len) buf d,
       sizeOfSendBuf := len, indexOfSendBuf := 1, isSending := 1, retries := ucast retry,
       sendCommand := Suc (sendCommand d),
       cec_world := reg_write K (CECBaseAddress + CEC_TX) (ucast (loaded_buf (unat len) buf d ! 0))
         (reg_write K (CECBaseAddress + CEC_ADDRESS) (ucast (logicalDeviceType d)) (cec_world d))\<rparr>)
     else None)"
  using assms
  by (cases buf) (auto simp: send_load_def own_header_def loaded_buf_def Let_def arr_get_def arr_set_def
      arr_copy_def arr_slice_def cec_set_own_address_def cec_write_data_def cec_write_register_u32_def
      cec_hw_def)

lemma send_load_wf:
  assumes "wf_cec d" "send_load K len buf retry d = Some d'"
  shows "wf_cec d'"
proof -
  have "length (sendBuf d) = SEND_BUF_SIZE" using assms by (simp add: wf_cec_def)
  then show ?thesis
    using assms send_load_eq [of d K len buf retry]
    by (cases buf) (auto simp: wf_cec_def loaded_buf_def own_header_def split: if_splits)
qed

lemma sendMessageWithRetry_wf:
  "delay_ok K \<Longrightarrow> wf_cec d \<Longrightarrow> sendMessageWithRetry K len buf retry d = Some (rc, d') \<Longrightarrow> wf_cec d'"
  using send_wait_wf [of K d 100] send_load_wf
  by (fastforce simp: sendMessageWithRetry_def Option.bind_eq_Some_conv split: prod.splits if_splits)

lemma sendMessage_wf: "delay_ok K \<Longrightarrow> wf_cec d \<Longrightarrow> sendMessage K len buf d = Some d' \<Longrightarrow> wf_cec d'"
  using sendMessageWithRetry_wf by (fastforce simp: sendMessage_def Option.bind_eq_Some_conv)

end
