(* ===== verification/Cec_Machine.thy ===== *)
theory Cec_Machine
  imports Cec_Types
begin

text \<open>
  A concrete machine on which the CEC driver can be run: the status and error registers, the byte
  that has been received, a log of what is written to the line and to the control register, the
  input events and the user's memory; while the driver waits, the thread starts or ends. It is used to evaluate the model on concrete inputs; no
  property depends on it.
\<close>

record cec_machine =
  cm_status :: u8
  cm_error :: u8
  cm_rx :: u8
  cm_tx :: "u8 list"
  cm_ctl :: "u8 list"
  cm_keys :: "(u32 \<times> u32) list"
  cm_user_in :: "u8 list"
  cm_user_out :: "u8 list"

definition cm_readl :: "u32 \<Rightarrow> cec_machine \<Rightarrow> u32 \<times> cec_machine" where
  "cm_readl a w =
     (if a = 0xFE030C0C then (ucast (cm_status w), w)
      else if a = 0xFE030C08 then (ucast (cm_error w), w)
      else if a = 0xFE030C14 then (ucast (cm_rx w), w)
      else (0, w))"

definition cm_writel :: "u32 \<Rightarrow> u32 \<Rightarrow> cec_machine \<Rightarrow> cec_machine" where
  "cm_writel v a w =
     (if a = 0xFE030C10 then w\<lparr>cm_tx := cm_tx w @ [ucast v]\<rparr>
      else if a = 0xFE030C0C then w\<lparr>cm_ctl := cm_ctl w @ [ucast v]\<rparr>
      else w)"

definition hex_digit :: "u8 \<Rightarrow> u8 option" where
  "hex_digit c =
     (if 0x30 \<le> c \<and> c \<le> 0x39 then Some (c - 0x30)
      else if 0x61 \<le> c \<and> c \<le> 0x66 then Some (c - 0x57)
      else if 0x41 \<le> c \<and> c \<le> 0x46 then Some (c - 0x37)
      else None)"

fun cm_sscanf :: "u8 list \<Rightarrow> u8 option" where
  "cm_sscanf [a, b] =
     (case hex_digit a of None \<Rightarrow> None
      | Some x \<Rightarrow> (case hex_digit b of None \<Rightarrow> Some x | Some y \<Rightarrow> Some (16 * x + y)))"
| "cm_sscanf _ = None"

definition cec_machine_kernel :: "cec_machine cec_kernel" where
  "cec_machine_kernel = \<lparr>
     k_ioremap = Pair,
     k_iounmap = (\<lambda>a w. w),
     k_readl = cm_readl,
     k_writel = cm_writel,
     k_udelay = (\<lambda>n d. if notEndTask d = 0 then d\<lparr>notEndTask := 1, sendCommand := 0\<rparr> else d),
     k_hdmi_lock = (\<lambda>w. (False, w)),
     k_hdmi_unlock = (\<lambda>w. w),
     k_edid_address = (\<lambda>w. (2, 1, 0, 0)),
     k_kernel_thread = (\<lambda>w. w),
     k_request_irq = (\<lambda>n w. (0, w)),
     k_free_irq = (\<lambda>n w. w),
     k_keycode = (\<lambda>k. case k of KEY_OK \<Rightarrow> 0x160 | KEY_UP \<Rightarrow> 103 | KEY_DOWN \<Rightarrow> 108 | _ \<Rightarrow> 139),
     k_input_allocate_device = (\<lambda>w. (True, w)),
     k_input_setup = (\<lambda>w. w),
     k_input_register_device = (\<lambda>w. (0, w)),
     k_input_free_device = (\<lambda>w. w),
     k_input_unregister_device = (\<lambda>w. w),
     k_input_event = (\<lambda>t c v w. if t = 1 then w\<lparr>cm_keys := cm_keys w @ [(c, v)]\<rparr> else w),
     k_install_e2_procs = (\<lambda>n w. w),
     k_remove_e2_procs = (\<lambda>n w. w),
     k_register_chrdev = (\<lambda>n w. (0, w)),
     k_unregister_chrdev = (\<lambda>n w. w),
     k_init_waitqueue_head = (\<lambda>w. w),
     k_wake_up_interruptible = (\<lambda>w. w),
     k_poll_wait = (\<lambda>w. w),
     k_down_interruptible = (\<lambda>d. (0, d\<lparr>vOpen_sem := vOpen_sem d - 1\<rparr>)),
     k_kmalloc = (\<lambda>n w. (True, w)),
     k_kfree = (\<lambda>w. w),
     k_get_free_page = (\<lambda>w. (True, w)),
     k_free_page = (\<lambda>w. w),
     k_copy_from_user = (\<lambda>a n w. ((0, take n (cm_user_in w)), w)),
     k_copy_to_user = (\<lambda>a bs w. w\<lparr>cm_user_out := cm_user_out w @ bs\<rparr>),
     k_sscanf_hhx = cm_sscanf,
     k_sscanf_1x = (\<lambda>s. case s of [] \<Rightarrow> None | c # _ \<Rightarrow> map_option ucast (hex_digit c))\<rparr>"

definition cec_machine_start :: "cec_machine cec" where
  "cec_machine_start = \<lparr>
     isReceiving = 0, indexOfRecvBuf = 0, recvBuf = replicate 16 0,
     isSending = 0, indexOfSendBuf = 0, sizeOfSendBuf = 0, sendBuf = replicate 16 0,
     retries = 3, sendCommand = 0, sendCommandWithDelay = 0, notEndTask = 1,
     isFirstKiss = 0, logicalDeviceTypeChoicesIndex = 0, logicalDeviceType = DEVICE_TYPE_DVD1,
     ActiveSource = 0, inputBuffer = replicate 255 0, sizeOfInputBuffer = 0,
     eventDiscovery = 0, eventActiveSource = 0, eventStandby = 0, last_keycode = 0xFFFF,
     vOpen_fp = None, vOpen_sem = 1, outputBufferStart = 0, outputBufferEnd = 0,
     outputBuffer = replicate 4096 0, cancelStart = 0, activemode = 0,
     deviceName = [0x44, 0x55, 0x43, 0x4B, 0x42, 0x4F, 0x58], deviceType = DEVICE_TYPE_DVD,
     cec_world = \<lparr>cm_status = 0, cm_error = 0, cm_rx = 0, cm_tx = [], cm_ctl = [], cm_keys = [],
                 cm_user_in = [], cm_user_out = []\<rparr>\<rparr>"

lemma wf_cec_machine_start: "wf_cec cec_machine_start"
  by (simp add: wf_cec_def cec_machine_start_def)

definition cec_machine_cfg :: cec_config where
  "cec_machine_cfg = \<lparr>STx7105 = False, STx7111 = True, UFS912 = True, UFS913 = False, HS8200 = False\<rparr>"

end
