(* ===== verification/Cec_Ring.thy ===== *)
theory Cec_Ring
  imports Cec_Machine
begin

text \<open>
  The output buffer of the CEC device file (\<^verbatim>\<open>cec_dev.c\<close>): a ring buffer of bytes from which the
  user reads the messages on the line. The operations are translated from the C code; the queue of
  bytes they are meant to implement is the function \<open>ring\<close>, and \<open>ring_fits\<close> is the condition
  (which the code does not test) under which they do: the bytes are free and lie in one piece. A message
  that straddles the end of the buffer is copied from the wrong place (\<open>AddMessageToBuffer_None_iff\<close>).
\<close>

section \<open>Operations\<close>

record tCECMessage =
  msg_address :: u8
  msg_length :: u8
  msg_data :: "u8 list"

definition GetMessageBufferSize :: "'w cec \<Rightarrow> u32" where
  "GetMessageBufferSize d =
     (if outputBufferStart d \<le> outputBufferEnd d
      then outputBufferEnd d - outputBufferStart d
      else (of_nat OUTBUFFERSIZE - outputBufferStart d) + outputBufferEnd d)"

definition GetMessageFromBuffer :: "u32 \<Rightarrow> 'w cec \<Rightarrow> (u8 list \<times> 'w cec) option" where
  "GetMessageFromBuffer len d =
     (if outputBufferStart d \<le> outputBufferEnd d then do {
        msg \<leftarrow> arr_slice (outputBuffer d) (unat (outputBufferStart d)) (unat len);
        Some (msg, d\<lparr>outputBufferStart := outputBufferStart d + len\<rparr>)
      }
      else
        let dataAtTheEnd = of_nat OUTBUFFERSIZE - outputBufferStart d in
        if len > dataAtTheEnd then do {
          msg1 \<leftarrow> arr_slice (outputBuffer d) (unat (outputBufferStart d)) (unat dataAtTheEnd);
          msg2 \<leftarrow> arr_slice (outputBuffer d) 0 (unat (len - dataAtTheEnd));
          Some (msg1 @ msg2, d\<lparr>outputBufferStart := len - dataAtTheEnd\<rparr>)
        }
        else do {
          msg \<leftarrow> arr_slice (outputBuffer d) (unat (outputBufferStart d)) (unat len);
          Some (msg, d\<lparr>outputBufferStart := outputBufferStart d + len\<rparr>)
        })"

text \<open>
  The message as the bytes of the struct, 258 in all. In the second \<^verbatim>\<open>memcpy\<close> the source
  \<^verbatim>\<open>&msg + spaceAtTheEnd\<close> counts in structs, not in bytes.
\<close>

definition message_bytes :: "tCECMessage \<Rightarrow> u8 list" where
  "message_bytes msg = msg_address msg # msg_length msg # msg_data msg"

definition AddMessageBuffer :: "tCECMessage \<Rightarrow> 'w cec \<Rightarrow> 'w cec option" where
  "AddMessageBuffer msg d =
     (let spaceAtTheEnd = of_nat OUTBUFFERSIZE - outputBufferEnd d;
          messageSize = ucast (msg_length msg) + 2;
          e = unat (outputBufferEnd d)
      in
      if spaceAtTheEnd \<ge> messageSize then do {
        out \<leftarrow> arr_copy (outputBuffer d) e (message_bytes msg) 0 (unat messageSize);
        Some (d\<lparr>outputBuffer := out, outputBufferEnd := outputBufferEnd d + messageSize\<rparr>)
      }
      else do {
        out \<leftarrow> arr_copy (outputBuffer d) e (message_bytes msg) 0 (unat spaceAtTheEnd);
        out \<leftarrow> arr_copy out 0 (message_bytes msg) (258 * unat spaceAtTheEnd)
                 (unat (messageSize - spaceAtTheEnd));
        Some (d\<lparr>outputBuffer := out, outputBufferEnd := messageSize - spaceAtTheEnd\<rparr>)
      })"

text \<open>
  The array of the local message is not initialised; the bytes behind the copied ones, which are
  never read, are 0 here.
\<close>

definition AddMessageToBuffer :: "'w cec_kernel \<Rightarrow> msg_buf \<Rightarrow> u32 \<Rightarrow> 'w cec \<Rightarrow> 'w cec option" where
  "AddMessageToBuffer K rawmsg len d =
     do {
       address \<leftarrow> arr_get (buf_of rawmsg d) 0;
       let length = ucast (len - 1);
       bs \<leftarrow> arr_copy (replicate 256 0) 0 (buf_of rawmsg d) 1 (unat length);
       d \<leftarrow> AddMessageBuffer \<lparr>msg_address = address, msg_length = length, msg_data = bs\<rparr> d;
       Some (cec_hw (k_wake_up_interruptible K) d)
     }"

section \<open>The queue\<close>

definition ring :: "'w cec \<Rightarrow> u8 list" where
  "ring d =
     (let s = unat (outputBufferStart d); e = unat (outputBufferEnd d) in
      if s \<le> e then take (e - s) (drop s (outputBuffer d))
      else drop s (outputBuffer d) @ take e (outputBuffer d))"

text \<open>
  A message of \<open>n\<close> bytes straddles the end of the buffer; \<open>n\<close> bytes in one piece are free behind the
  waiting ones.
\<close>

definition straddles :: "'w cec \<Rightarrow> nat \<Rightarrow> bool" where
  "straddles d n \<longleftrightarrow> unat (outputBufferEnd d) < OUTBUFFERSIZE \<and> OUTBUFFERSIZE < unat (outputBufferEnd d) + n"

definition ring_fits :: "'w cec \<Rightarrow> nat \<Rightarrow> bool" where
  "ring_fits d n \<longleftrightarrow>
     (let s = unat (outputBufferStart d); e = unat (outputBufferEnd d) in
      s \<le> e \<and> e + n \<le> OUTBUFFERSIZE \<or> e = OUTBUFFERSIZE \<and> n < s \<or> e + n < s)"

definition wf_ring :: "'w cec \<Rightarrow> bool" where
  "wf_ring d \<longleftrightarrow> length (outputBuffer d) = OUTBUFFERSIZE \<and>
     unat (outputBufferStart d) \<le> OUTBUFFERSIZE \<and> unat (outputBufferEnd d) \<le> OUTBUFFERSIZE"

text \<open>A raw message is its header and the data; the struct in the ring has the length in between.\<close>

definition frame :: "u8 list \<Rightarrow> u8 list" where
  "frame raw = hd raw # of_nat (length raw - 1) # tl raw"

text \<open>Taking bytes several times, one request after the other.\<close>

primrec gets :: "(nat \<Rightarrow> 's \<Rightarrow> ('b list \<times> 's) option) \<Rightarrow> nat list \<Rightarrow> 's \<Rightarrow> ('b list \<times> 's) option" where
  "gets get [] s = Some ([], s)"
| "gets get (n # ns) s =
     do { (xs, s) \<leftarrow> get n s; (ys, s) \<leftarrow> gets get ns s; Some (xs @ ys, s) }"

text \<open>
  The interface between the line, which puts messages, and the reader, who takes bytes: a queue of
  bytes. The laws hold for a message that fits.
\<close>

locale byte_queue =
  fixes inv :: "'s \<Rightarrow> bool" and content :: "'s \<Rightarrow> 'b list" and fits :: "'s \<Rightarrow> nat \<Rightarrow> bool"
    and valid :: "'m \<Rightarrow> bool" and enc :: "'m \<Rightarrow> 'b list"
    and put :: "'m \<Rightarrow> 's \<Rightarrow> 's option" and get :: "nat \<Rightarrow> 's \<Rightarrow> ('b list \<times> 's) option"
  assumes put_appends: "inv s \<Longrightarrow> valid m \<Longrightarrow> fits s (length (enc m)) \<Longrightarrow>
      \<exists>s'. put m s = Some s' \<and> inv s' \<and> content s' = content s @ enc m"
    and get_takes: "inv s \<Longrightarrow> n \<le> length (content s) \<Longrightarrow>
      \<exists>s'. get n s = Some (take n (content s), s') \<and> inv s' \<and> content s' = drop n (content s)"
begin

lemma gets_take:
  "inv s \<Longrightarrow> sum_list ns \<le> length (content s) \<Longrightarrow>
     \<exists>s'. gets get ns s = Some (take (sum_list ns) (content s), s') \<and> inv s' \<and>
          content s' = drop (sum_list ns) (content s)"
proof (induction ns arbitrary: s)
  case (Cons n ns)
  obtain s' where s': "get n s = Some (take n (content s), s')" "inv s'"
      "content s' = drop n (content s)"
    using get_takes [OF Cons.prems(1), of n] Cons.prems(2) by auto
  moreover obtain s'' where "gets get ns s' = Some (take (sum_list ns) (content s'), s'')" "inv s''"
      "content s'' = drop (sum_list ns) (content s')"
    using Cons.IH [OF s'(2)] Cons.prems(2) s'(3)
    by (metis Nat.le_diff_conv2 add.commute add_leD1 length_drop sum_list.Cons)
  ultimately show ?case by (auto simp: take_add add.commute)
qed simp

lemma put_get:
  assumes "inv s" "valid m" "fits s (length (enc m))" "content s = []"
  shows "\<exists>s' s''. put m s = Some s' \<and> get (length (enc m)) s' = Some (enc m, s'') \<and> content s'' = []"
proof -
  obtain s' where s': "put m s = Some s'" "inv s'" "content s' = enc m"
    using put_appends [OF assms(1-3)] assms(4) by auto
  then show ?thesis using get_takes [OF s'(2), of "length (enc m)"] by auto
qed

end

section \<open>The operations implement the queue\<close>

lemma unat_space: "unat e \<le> OUTBUFFERSIZE \<Longrightarrow> unat (4096 - e :: u32) = OUTBUFFERSIZE - unat e"
  by (subst unat_diff_u32) (simp_all add: word_le_nat_alt)

lemma length_ring: "wf_ring d \<Longrightarrow> length (ring d) = unat (GetMessageBufferSize d)"
  by (auto simp: wf_ring_def ring_def GetMessageBufferSize_def Let_def word_le_nat_alt unat_diff_u32
      unat_add_u32 unat_space)

lemma GetMessageFromBuffer_takes:
  assumes wf: "wf_ring d" and n: "n \<le> length (ring d)"
  shows "\<exists>d'. GetMessageFromBuffer (of_nat n) d = Some (take n (ring d), d') \<and> wf_ring d' \<and>
    ring d' = drop n (ring d)"
proof -
  let ?s = "unat (outputBufferStart d)" and ?e = "unat (outputBufferEnd d)"
  have size: "length (outputBuffer d) = OUTBUFFERSIZE" "?s \<le> OUTBUFFERSIZE" "?e \<le> OUTBUFFERSIZE"
    using wf by (simp_all add: wf_ring_def)
  show ?thesis
  proof (cases "?s \<le> ?e")
    case True
    then have "n \<le> ?e - ?s" using n size by (simp add: ring_def Let_def)
    moreover from this have "unat (word_of_nat n :: u32) = n"
      using size by (intro unat_word_of_nat_u32) linarith
    ultimately show ?thesis using True size
      by (auto simp: GetMessageFromBuffer_def ring_def wf_ring_def Let_def word_le_nat_alt arr_slice_def
          unat_add_u32 add.commute min_def drop_take)
  next
    case False
    then have "n \<le> (OUTBUFFERSIZE - ?s) + ?e" using n size by (simp add: ring_def Let_def)
    moreover from this have "unat (word_of_nat n :: u32) = n"
      using size by (intro unat_word_of_nat_u32) linarith
    moreover have space: "unat (4096 - outputBufferStart d) = OUTBUFFERSIZE - ?s"
      using size by (simp only: unat_space)
    moreover have "unat (word_of_nat n - (4096 - outputBufferStart d) :: u32) =
        n - (OUTBUFFERSIZE - ?s)" if "OUTBUFFERSIZE - ?s < n"
      using that space calculation(2) by (subst unat_diff_u32) (simp_all add: word_le_nat_alt)
    moreover have "unat (outputBufferStart d + word_of_nat n) = ?s + n" if "n \<le> OUTBUFFERSIZE - ?s"
      using that size calculation(2) by (subst unat_add_u32) simp_all
    moreover have "\<not> outputBufferStart d \<le> outputBufferEnd d" using False by (simp add: word_le_nat_alt)
    ultimately show ?thesis using False size
      by (cases "OUTBUFFERSIZE - ?s < n")
        (auto simp: GetMessageFromBuffer_def ring_def wf_ring_def Let_def word_less_nat_alt
          arr_slice_def drop_take add.commute)
  qed
qed

text \<open>What adding a message does: only a message that fits in one piece is copied correctly.\<close>

lemma AddMessageBuffer_eq:
  assumes wf: "wf_ring d" and msg: "length (msg_data msg) = 256"
    and n: "n = unat (msg_length msg) + 2" and e: "e = unat (outputBufferEnd d)"
  shows "AddMessageBuffer msg d =
    (let bs = take n (message_bytes msg) in
     if e + n \<le> OUTBUFFERSIZE
     then Some (d\<lparr>outputBuffer := take e (outputBuffer d) @ bs @ drop (e + n) (outputBuffer d),
                  outputBufferEnd := of_nat (e + n)\<rparr>)
     else if e = OUTBUFFERSIZE
     then Some (d\<lparr>outputBuffer := bs @ drop n (outputBuffer d), outputBufferEnd := of_nat n\<rparr>)
     else None)"
proof -
  let ?size = "ucast (msg_length msg) + 2 :: u32" and ?space = "4096 - outputBufferEnd d"
  have n257: "n \<le> 257" using n unat_u8_less [of "msg_length msg"] by simp
  have size: "unat ?size = n" "?size = of_nat n"
    using n unat_u8_less [of "msg_length msg"] by (simp_all add: unat_word_ariths unat_ucast_u8_u32)
  have wf': "length (outputBuffer d) = OUTBUFFERSIZE" "e \<le> OUTBUFFERSIZE"
    using wf e by (simp_all add: wf_ring_def)
  have space: "unat ?space = OUTBUFFERSIZE - e" using wf' e by (simp add: unat_space)
  have bytes: "length (message_bytes msg) = 258" using msg by (simp add: message_bytes_def)
  have "outputBufferEnd d + ?size = of_nat (e + n)" using e size by simp
  moreover have "unat (?size - ?space) = n" if "e = OUTBUFFERSIZE"
    using that space size by (subst unat_diff_u32) (simp_all add: word_le_nat_alt)
  moreover have "?size - ?space = of_nat n" if "e = OUTBUFFERSIZE"
    using that space size by (metis diff_self_eq_0 diff_zero unat_eq_zero)
  moreover have "0 < unat (?size - ?space)" if "e + n > OUTBUFFERSIZE" "e < OUTBUFFERSIZE"
    using that space size by (subst unat_diff_u32) (simp_all add: word_le_nat_alt)
  ultimately show ?thesis
    using space size wf' bytes n257 e
    by (auto simp: AddMessageBuffer_def Let_def word_le_nat_alt arr_copy_def, linarith)
qed

lemma frame_bytes:
  assumes "raw \<noteq> []" "length raw \<le> 256"
  shows "take (length raw + 1) (message_bytes \<lparr>msg_address = hd raw, msg_length = of_nat (length raw - 1),
    msg_data = tl raw @ xs\<rparr>) = frame raw"
  using assms by (cases raw) (simp_all add: message_bytes_def frame_def)

lemma AddMessageToBuffer_eq:
  assumes len: "raw = take len (buf_of b d)" "1 \<le> len" "len \<le> 256" "len \<le> length (buf_of b d)"
  obtains msg where "AddMessageToBuffer K b (of_nat len) d =
      map_option (cec_hw (k_wake_up_interruptible K)) (AddMessageBuffer msg d)"
    "length (msg_data msg) = 256" "unat (msg_length msg) = len - 1"
    "take (len + 1) (message_bytes msg) = frame raw"
proof -
  let ?buf = "buf_of b d"
  have raw: "raw \<noteq> []" "length raw = len" "hd raw = ?buf ! 0" "tl raw = take (len - 1) (drop 1 ?buf)"
    using len by (auto simp: hd_conv_nth tl_take drop_Suc simp flip: length_greater_0_conv)
  have "unat (word_of_nat len - 1 :: u32) = len - 1"
    using len by (simp add: unat_diff_u32 word_le_nat_alt unat_word_of_nat_u32)
  moreover have "ucast (word_of_nat len - 1 :: u32) = (of_nat (len - 1) :: u8)"
  proof -
    have "word_of_nat len - 1 = (of_nat (len - 1) :: u32)" using len by (simp add: of_nat_diff)
    then show ?thesis using len by (simp only:) (simp add: unsigned_of_nat take_bit_nat_eq_self del: of_nat_diff)
  qed
  moreover have "unat (of_nat (len - 1) :: u8) = len - 1"
    using len by (simp add: unat_of_nat del: of_nat_diff)
  ultimately have "AddMessageToBuffer K b (of_nat len) d =
      map_option (cec_hw (k_wake_up_interruptible K))
        (AddMessageBuffer \<lparr>msg_address = hd raw, msg_length = of_nat (length raw - 1),
           msg_data = tl raw @ replicate (256 - (len - 1)) 0\<rparr> d)"
    using len raw by (cases "AddMessageBuffer \<lparr>msg_address = hd raw, msg_length = of_nat (length raw - 1),
           msg_data = tl raw @ replicate (256 - (len - 1)) 0\<rparr> d")
      (simp_all add: AddMessageToBuffer_def arr_get_def arr_copy_def Let_def)
  then show thesis
    using that frame_bytes [OF raw(1)] len raw by (simp add: unat_of_nat del: of_nat_diff)
qed

lemma wf_ring_hw [simp]: "wf_ring (cec_hw f d) \<longleftrightarrow> wf_ring d"
  by (simp add: wf_ring_def)

lemma ring_hw [simp]: "ring (cec_hw f d) = ring d"
  by (simp add: ring_def Let_def)

lemma AddMessageToBuffer_appends:
  assumes wf: "wf_ring d" and len: "raw = take len (buf_of b d)" "1 \<le> len" "len \<le> 256" "len \<le> length (buf_of b d)"
    and room: "ring_fits d (len + 1)"
  shows "\<exists>d'. AddMessageToBuffer K b (of_nat len) d = Some d' \<and> wf_ring d' \<and> ring d' = ring d @ frame raw"
proof -
  obtain msg where msg: "AddMessageToBuffer K b (of_nat len) d =
      map_option (cec_hw (k_wake_up_interruptible K)) (AddMessageBuffer msg d)"
    "length (msg_data msg) = 256" "unat (msg_length msg) = len - 1"
    "take (len + 1) (message_bytes msg) = frame raw"
    using AddMessageToBuffer_eq [OF len] .
  have n: "len + 1 = unat (msg_length msg) + 2" using msg(3) len by simp
  have lf: "length (frame raw) = len + 1" using len by (simp add: frame_def)
  let ?s = "unat (outputBufferStart d)" and ?e = "unat (outputBufferEnd d)"
  have size: "length (outputBuffer d) = OUTBUFFERSIZE" "?s \<le> OUTBUFFERSIZE" "?e \<le> OUTBUFFERSIZE"
    using wf by (simp_all add: wf_ring_def)
  have u: "unat (word_of_nat m :: u32) = m" if "m \<le> OUTBUFFERSIZE" for m
    using that by (intro unat_word_of_nat_u32) simp
  consider (piece) "?e + (len + 1) \<le> OUTBUFFERSIZE" "?s \<le> ?e \<or> ?e + (len + 1) < ?s"
    | (wrap) "?e = OUTBUFFERSIZE" "len + 1 < ?s"
    using room size by (auto simp: ring_fits_def Let_def)
  then show ?thesis
  proof cases
    case piece
    then show ?thesis
      using msg AddMessageBuffer_eq [OF wf msg(2) n refl] size lf u [of "?e + (len + 1)"]
      by (auto simp: Let_def ring_def wf_ring_def drop_take)
  next
    case wrap
    then show ?thesis
      using msg AddMessageBuffer_eq [OF wf msg(2) n refl] size lf u [of "len + 1"] len
      by (auto simp: Let_def ring_def wf_ring_def)
  qed
qed

interpretation cec_queue: byte_queue wf_ring ring ring_fits "\<lambda>m. 1 \<le> length m \<and> length m \<le> 256" frame
  "\<lambda>m. AddMessageToBuffer K (Local m) (of_nat (length m))" "\<lambda>n. GetMessageFromBuffer (of_nat n)"
  for K :: "'w cec_kernel"
proof
  fix d :: "'w cec" and m
  assume d: "wf_ring d" and m: "1 \<le> length m \<and> length m \<le> 256" and r: "ring_fits d (length (frame m))"
  have "length (frame m) = length m + 1" using m by (cases m) (simp_all add: frame_def)
  then show "\<exists>d'. AddMessageToBuffer K (Local m) (of_nat (length m)) d = Some d' \<and> wf_ring d' \<and>
      ring d' = ring d @ frame m"
    using AddMessageToBuffer_appends [OF d, of m "length m" "Local m" K] m r by auto
qed (rule GetMessageFromBuffer_takes)

lemma AddMessageToBuffer_fails_iff:
  assumes "wf_ring d" "1 \<le> len" "len \<le> 256" "len \<le> length (buf_of b d)"
  shows "AddMessageToBuffer K b (of_nat len) d = None \<longleftrightarrow>
    unat (outputBufferEnd d) < OUTBUFFERSIZE \<and> OUTBUFFERSIZE < unat (outputBufferEnd d) + len + 1"
proof -
  obtain msg where msg: "AddMessageToBuffer K b (of_nat len) d =
      map_option (cec_hw (k_wake_up_interruptible K)) (AddMessageBuffer msg d)"
    "length (msg_data msg) = 256" "unat (msg_length msg) = len - 1"
    using AddMessageToBuffer_eq [OF refl assms(2-4)] .
  then have "len + 1 = unat (msg_length msg) + 2" using assms by simp
  then show ?thesis
    using msg AddMessageBuffer_eq [OF assms(1) msg(2) _ refl] assms
    by (auto simp: Let_def wf_ring_def split: if_splits)
qed

section \<open>Properties\<close>

lemma ring_fits_iff:
  assumes "wf_ring d" "length (ring d) + n < OUTBUFFERSIZE"
  shows "ring_fits d n \<longleftrightarrow> \<not> straddles d n"
  using assms by (auto simp: wf_ring_def ring_def ring_fits_def straddles_def Let_def split: if_splits)

text \<open>
  C13. The ring buffer of the device file is a queue of bytes, but for the messages that straddle its
  end: if the bytes of a message are free and one more with them, adding it either appends its header, its
  length and its data to the queue, and reading then takes the bytes from the front in order, whatever the
  sizes of the reads, or it leaves its memory; and this happens exactly if the message does not fit between
  the last byte of the queue and the end of the array, of which something is left.
\<close>

theorem cec_ring_refines_queue:
  assumes "wf_ring d" "1 \<le> length m" "length m \<le> 256" "length (ring d) + (length m + 1) < OUTBUFFERSIZE"
  shows "case AddMessageToBuffer K (Local m) (of_nat (length m)) d of
      None \<Rightarrow> straddles d (length m + 1)
    | Some d' \<Rightarrow> \<not> straddles d (length m + 1) \<and> ring d' = ring d @ frame m \<and>
        (\<forall>ns. sum_list ns \<le> length (ring d') \<longrightarrow>
          (\<exists>d''. gets (\<lambda>n. GetMessageFromBuffer (of_nat n)) ns d' = Some (take (sum_list ns) (ring d @ frame m), d'') \<and>
                 ring d'' = drop (sum_list ns) (ring d @ frame m)))"
proof (cases "straddles d (length m + 1)")
  case True
  then show ?thesis
    using AddMessageToBuffer_fails_iff [OF assms(1-3), of "Local m" K] by (simp add: straddles_def)
next
  case False
  have "length (frame m) = length m + 1" using assms(2) by (cases m) (simp_all add: frame_def)
  then obtain d' where d': "AddMessageToBuffer K (Local m) (of_nat (length m)) d = Some d'" "wf_ring d'"
      "ring d' = ring d @ frame m"
    using cec_queue.put_appends [of d m K] assms False ring_fits_iff [OF assms(1, 4)] by auto
  then show ?thesis using False cec_queue.gets_take [OF d'(2)] by auto
qed

theorem cec_ring_refines_queue_witness:
  "\<exists>d'. AddMessageToBuffer cec_machine_kernel (Local [0x40, 0x36]) 2 cec_machine_start = Some d' \<and>
     (\<exists>d''. gets (\<lambda>n. GetMessageFromBuffer (of_nat n)) [1, 2] d' = Some ([0x40, 1, 0x36], d''))"
proof -
  have r: "wf_ring cec_machine_start" "ring cec_machine_start = []" "\<not> straddles cec_machine_start (Suc (Suc (Suc 0)))"
    by (simp_all add: wf_ring_def ring_def straddles_def cec_machine_start_def)
  show ?thesis
    using cec_ring_refines_queue [of cec_machine_start "[0x40, 0x36]" cec_machine_kernel] r
    by (auto simp: frame_def split: option.splits dest!: spec [of _ "[1, 2]"])
qed

text \<open>
  C38. Adding a message copies beyond its memory exactly if the message does not fit behind the bytes
  already in the buffer, unless the buffer has been filled up to its last byte: the second part of a
  message that wraps around is fetched from behind the local variable.
\<close>

theorem AddMessageToBuffer_None_iff:
  assumes "wf_ring d" "1 \<le> len" "len \<le> 256" "len \<le> length (buf_of b d)"
  shows "AddMessageToBuffer K b (of_nat len) d = None \<longleftrightarrow>
    unat (outputBufferEnd d) < OUTBUFFERSIZE \<and> OUTBUFFERSIZE < unat (outputBufferEnd d) + len + 1"
  using assms by (rule AddMessageToBuffer_fails_iff)

theorem AddMessageToBuffer_None_iff_witness:
  "AddMessageToBuffer cec_machine_kernel (Local (replicate 16 0x11)) 16 (cec_machine_start\<lparr>outputBufferEnd := 4090\<rparr>) = None"
  using AddMessageToBuffer_None_iff [of "cec_machine_start\<lparr>outputBufferEnd := 4090\<rparr>" 16 "Local (replicate 16 0x11)" cec_machine_kernel]
  by (simp add: wf_ring_def cec_machine_start_def)

text \<open>
  The space is not tested. When a message is added that does not fit, and is not undefined, all the bytes waiting in
  the buffer are lost, and so is the beginning of the message as far as the old read position.
\<close>

theorem AddMessageToBuffer_overrun:
  assumes wf: "wf_ring d" and len: "1 \<le> len" "len \<le> 256" "len \<le> length (buf_of b d)"
    and room: "\<not> ring_fits d (len + 1)"
    and added: "AddMessageToBuffer K b (of_nat len) d = Some d'"
  shows "ring d' = drop (unat (outputBufferStart d) - unat (outputBufferEnd d) mod OUTBUFFERSIZE)
    (frame (take len (buf_of b d)))"
proof -
  obtain msg where msg: "AddMessageToBuffer K b (of_nat len) d =
      map_option (cec_hw (k_wake_up_interruptible K)) (AddMessageBuffer msg d)"
    "length (msg_data msg) = 256" "unat (msg_length msg) = len - 1"
    "take (len + 1) (message_bytes msg) = frame (take len (buf_of b d))"
    using AddMessageToBuffer_eq [OF refl len] .
  have n: "len + 1 = unat (msg_length msg) + 2" using msg(3) len by simp
  have lf: "length (frame (take len (buf_of b d))) = len + 1" using len by (simp add: frame_def)
  let ?s = "unat (outputBufferStart d)" and ?e = "unat (outputBufferEnd d)"
  have size: "length (outputBuffer d) = OUTBUFFERSIZE" "?s \<le> OUTBUFFERSIZE" "?e \<le> OUTBUFFERSIZE"
    using wf by (simp_all add: wf_ring_def)
  have u: "unat (word_of_nat m :: u32) = m" if "m \<le> OUTBUFFERSIZE" for m
    using that by (intro unat_word_of_nat_u32) simp
  have "?e + (len + 1) \<le> OUTBUFFERSIZE \<or> ?e = OUTBUFFERSIZE"
    using msg added AddMessageBuffer_eq [OF wf msg(2) n refl] by (auto simp: Let_def split: if_splits)
  then consider (piece) "?e + (len + 1) \<le> OUTBUFFERSIZE" "?e < OUTBUFFERSIZE" "?e < ?s" "?s \<le> ?e + (len + 1)"
    | (wrap) "?e = OUTBUFFERSIZE" "?s \<le> len + 1"
    using room size by (auto simp: ring_fits_def Let_def not_less)
  then show ?thesis
  proof cases
    case piece
    then show ?thesis
      using msg added AddMessageBuffer_eq [OF wf msg(2) n refl] size lf u [of "?e + (len + 1)"]
      by (auto simp: Let_def ring_def drop_take)
  next
    case wrap
    then show ?thesis
      using msg added AddMessageBuffer_eq [OF wf msg(2) n refl] size lf u [of "len + 1"] len
      by (auto simp: Let_def ring_def drop_take)
  qed
qed

theorem AddMessageToBuffer_overrun_witness:
  "\<exists>d'. AddMessageToBuffer cec_machine_kernel (Local [0x40, 0x82, 1, 2, 3]) 5
      (cec_machine_start\<lparr>outputBufferStart := 4, outputBufferEnd := 4096\<rparr>) = Some d' \<and> ring d' = [2, 3]"
proof -
  let ?d = "cec_machine_start\<lparr>outputBufferStart := 4, outputBufferEnd := 4096\<rparr>" and ?m = "[0x40, 0x82, 1, 2, 3]"
  have wf: "wf_ring ?d" by (simp add: wf_ring_def cec_machine_start_def)
  obtain d' where "AddMessageToBuffer cec_machine_kernel (Local ?m) (of_nat 5) ?d = Some d'"
    using AddMessageToBuffer_fails_iff [OF wf, of 5 "Local ?m" cec_machine_kernel] by auto
  then show ?thesis
    using AddMessageToBuffer_overrun [OF wf, of 5 "Local ?m" cec_machine_kernel d']
    by (simp add: ring_fits_def frame_def)
qed

end
