(* ===== verification/Cec_Opcodes.thy ===== *)
theory Cec_Opcodes
  imports Cec_Line Cec_Ring
begin

text \<open>
  The messages of the CEC driver: the event counters (\<^verbatim>\<open>cec_proc.c\<close>), the keys of the remote
  control (\<^verbatim>\<open>cec_rc.c\<close>), and the evaluation of messages and the higher level senders
  (\<^verbatim>\<open>cec_opcodes.c\<close>).

  A \<^verbatim>\<open>switch\<close> that only chooses a constant is a table. The name that \<^verbatim>\<open>parseMessage\<close> builds for the
  debug output is modelled because it is built in an array of 100 bytes, and from bytes of the
  message that it takes for a zero-terminated string.
\<close>

section \<open>Event counters\<close>

definition INC :: "u8 \<Rightarrow> u8" where
  "INC counter = (if counter \<noteq> 0xf then counter + 1 else counter)"

definition setUpdatedDiscovery :: "'w cec \<Rightarrow> 'w cec" where
  "setUpdatedDiscovery d = d\<lparr>eventDiscovery := INC (eventDiscovery d)\<rparr>"

definition setUpdatedActiveSource :: "'w cec \<Rightarrow> 'w cec" where
  "setUpdatedActiveSource d = d\<lparr>eventActiveSource := INC (eventActiveSource d)\<rparr>"

definition setUpdatedStandby :: "'w cec \<Rightarrow> 'w cec" where
  "setUpdatedStandby d = d\<lparr>eventStandby := INC (eventStandby d)\<rparr>"

section \<open>Remote control\<close>

definition key_table :: "(u32 \<times> linux_key) list" where
  "key_table =
    [(0x00, KEY_OK), (0x01, KEY_UP), (0x02, KEY_DOWN), (0x03, KEY_LEFT), (0x04, KEY_RIGHT),
     (0x0D, KEY_HOME), (0x32, KEY_MENU), (0x53, KEY_INFO), (0x20, KEY_0), (0x21, KEY_1),
     (0x22, KEY_2), (0x23, KEY_3), (0x24, KEY_4), (0x25, KEY_5), (0x26, KEY_6), (0x27, KEY_7),
     (0x28, KEY_8), (0x29, KEY_9), (0x71, KEY_BLUE), (0x72, KEY_RED), (0x73, KEY_GREEN),
     (0x74, KEY_YELLOW), (0x44, KEY_PLAY), (0x45, KEY_STOP), (0x46, KEY_PAUSE),
     (0x47, KEY_RECORD), (0x48, KEY_REWIND), (0x49, KEY_FASTFORWARD), (0x09, KEY_MENU),
     (0x0B, KEY_FAVORITES), (0x0A, KEY_MENU), (0x4B, KEY_FASTFORWARD), (0x4C, KEY_REWIND),
     (0x30, KEY_PAGEUP), (0x31, KEY_PAGEDOWN), (0x35, KEY_INFO)]"

definition input_code :: "'w cec_kernel \<Rightarrow> u32 \<Rightarrow> u32" where
  "input_code K key = (case map_of key_table key of None \<Rightarrow> 0 | Some k \<Rightarrow> k_keycode K k)"

definition input_inject :: "'w cec_kernel \<Rightarrow> u32 \<Rightarrow> u32 \<Rightarrow> 'w cec \<Rightarrow> int \<times> 'w cec" where
  "input_inject K key type d =
     (let code = input_code K key;
          (code, value, d) =
            (if type = 1 then (code, 1, d\<lparr>last_keycode := code\<rparr>)
             else if type = 0 then (last_keycode d, 0, d)
             else (code, 0, d));
          d = (if code \<noteq> 0 then cec_hw (k_input_event K 1 code value) d else d)
      in (0, d))"

section \<open>Addresses\<close>

definition logicalDeviceTypeChoices :: "(u8 \<times> u8) list" where
  "logicalDeviceTypeChoices =
     [(push_bit 4 1, DEVICE_TYPE_DVD1), (push_bit 4 1, DEVICE_TYPE_DVD2), (push_bit 4 1, DEVICE_TYPE_DVD3),
      (push_bit 3 1, DEVICE_TYPE_STB1), (push_bit 3 1, DEVICE_TYPE_STB2), (push_bit 3 1, DEVICE_TYPE_STB3),
      (push_bit 1 1, DEVICE_TYPE_REC1), (push_bit 1 1, DEVICE_TYPE_REC2),
      (0xFF, DEVICE_TYPE_UNREG)]"

text \<open>The address that the display driver has read from the television (\<^verbatim>\<open>hdmidev.c\<close>).\<close>

definition stmhdmiio_get_cec_address :: "'w cec_kernel \<Rightarrow> u32 \<Rightarrow> 'w \<Rightarrow> u32 \<times> 'w" where
  "stmhdmiio_get_cec_address K arg w =
     (let (interrupted, w) = k_hdmi_lock K w in
      if interrupted then (arg, w)
      else
        let (a0, a1, a2, a3) = k_edid_address K w;
            arg = push_bit 12 (ucast a0) + push_bit 8 (ucast a1) + push_bit 4 (ucast a2) + ucast a3
        in (arg, k_hdmi_unlock K w))"

definition getPhysicalAddress :: "'w cec_kernel \<Rightarrow> 'w cec \<Rightarrow> u16 \<times> 'w cec" where
  "getPhysicalAddress K d =
     (let (value, d) = cec_hw_get (stmhdmiio_get_cec_address K 0) d in (ucast (value AND 0xffff), d))"

definition setActiveSource :: "u16 \<Rightarrow> 'w cec \<Rightarrow> 'w cec" where
  "setActiveSource addr d =
     (if ActiveSource d \<noteq> addr then setUpdatedActiveSource (d\<lparr>ActiveSource := addr\<rparr>) else d)"

section \<open>Senders\<close>

text \<open>A response is built in a zeroed array of 16 bytes; \<open>header\<close> is its first byte.\<close>

definition header :: "'w cec \<Rightarrow> u8 \<Rightarrow> u8" where
  "header d dst = push_bit 4 (logicalDeviceType d) + (dst AND 0xF)"

definition responseBuffer :: "u8 list \<Rightarrow> msg_buf" where
  "responseBuffer bs = Local (bs @ replicate (SEND_BUF_SIZE - length bs) 0)"

definition physical_bytes :: "u16 \<Rightarrow> u8 list" where
  "physical_bytes a =
     [ucast (push_bit 4 (drop_bit 12 a AND 0xf) + (drop_bit 8 a AND 0xf)),
      ucast (push_bit 4 (drop_bit 4 a AND 0xf) + (a AND 0xf))]"

definition sendReportPhysicalAddress :: "'w cec_kernel \<Rightarrow> 'w cec \<Rightarrow> 'w cec option" where
  "sendReportPhysicalAddress K d =
     (let (physicalAddress, d) = getPhysicalAddress K d in
      sendMessage K 5 (responseBuffer ([header d BROADCAST, REPORT_PHYSICAL_ADDRESS] @
        physical_bytes physicalAddress @ [deviceType d])) d)"

definition setSourceAsActive :: "'w cec_kernel \<Rightarrow> 'w cec \<Rightarrow> 'w cec option" where
  "setSourceAsActive K d =
     (let (physicalAddress, d) = getPhysicalAddress K d in
      sendMessage K 4 (responseBuffer ([header d BROADCAST, ACTIVE_SOURCE] @ physical_bytes physicalAddress)) d)"

definition wakeTV :: "'w cec_kernel \<Rightarrow> 'w cec \<Rightarrow> 'w cec option" where
  "wakeTV K d = sendMessage K 2 (responseBuffer [header d DEVICE_TYPE_TV, IMAGE_VIEW_ON]) d"

definition sendInitMessage :: "'w cec_kernel \<Rightarrow> 'w cec \<Rightarrow> 'w cec option" where
  "sendInitMessage K d = sendMessage K 2 (responseBuffer [header d DEVICE_TYPE_TV, GIVE_DEVICE_POWER_STATUS]) d"

definition setIsFirstKiss :: "'w cec_kernel \<Rightarrow> u8 \<Rightarrow> 'w cec \<Rightarrow> 'w cec option" where
  "setIsFirstKiss K kiss d =
     (let d = d\<lparr>isFirstKiss := kiss\<rparr> in
      if isFirstKiss d = 0 then if activemode d \<noteq> 0 then sendReportPhysicalAddress K d else Some d
      else Some d)"

text \<open>
  The search for the next matching row of the table: the index of the row, or \<open>None\<close> if the loop
  leaves the table. \<^verbatim>\<open>char ldt = 1 << deviceType\<close> keeps the lower eight bits; the shift is
  undefined for 32 and more.
\<close>

function next_choice :: "u8 \<Rightarrow> nat \<Rightarrow> nat option" where
  "next_choice ldt i =
     (if i < length logicalDeviceTypeChoices then
        if ldt AND fst (logicalDeviceTypeChoices ! i) \<noteq> 0 then Some i else next_choice ldt (Suc i)
      else None)"
  by pat_completeness auto
termination by (relation "measure (\<lambda>(ldt, i). length logicalDeviceTypeChoices - i)") auto

declare next_choice.simps [simp del]

definition advance_choice :: "u8 \<Rightarrow> 'w cec \<Rightarrow> 'w cec option" where
  "advance_choice ldt d =
     do {
       i \<leftarrow> next_choice ldt (unat (logicalDeviceTypeChoicesIndex d));
       Some (d\<lparr>logicalDeviceTypeChoicesIndex := of_nat i\<rparr>)
     }"

definition device_bit :: "u8 \<Rightarrow> u8 option" where
  "device_bit t = (if unat t < 32 then Some (ucast (push_bit (unat t) (1 :: u32))) else None)"

definition sendPingWithAutoIncrement :: "'w cec_kernel \<Rightarrow> 'w cec \<Rightarrow> 'w cec option" where
  "sendPingWithAutoIncrement K d =
     do {
       ldt \<leftarrow> device_bit (deviceType d);
       d \<leftarrow> advance_choice ldt d;
       d \<leftarrow> setIsFirstKiss K 1 d;
       row \<leftarrow> arr_get logicalDeviceTypeChoices (unat (logicalDeviceTypeChoicesIndex d));
       let d = d\<lparr>logicalDeviceTypeChoicesIndex := logicalDeviceTypeChoicesIndex d + 1,
                 logicalDeviceType := snd row\<rparr>;
       d \<leftarrow> sendMessage K 1 (Local [push_bit 4 (logicalDeviceType d) + (logicalDeviceType d AND 0xF)]) d;
       advance_choice ldt d
     }"

definition sendOneTouchPlay :: "'w cec_kernel \<Rightarrow> 'w cec \<Rightarrow> 'w cec option" where
  "sendOneTouchPlay K d =
     (let (physicalAddress, d) = getPhysicalAddress K d in do {
        d \<leftarrow> sendMessage K 2 (responseBuffer [header d DEVICE_TYPE_TV, IMAGE_VIEW_ON]) d;
        let d = k_udelay K 10000 d;
        sendMessage K 4 (responseBuffer ([header d BROADCAST, ACTIVE_SOURCE] @ physical_bytes physicalAddress)) d
      })"

definition sendSystemStandby :: "'w cec_kernel \<Rightarrow> u32 \<Rightarrow> 'w cec \<Rightarrow> 'w cec option" where
  "sendSystemStandby K deviceId d =
     sendMessage K 2 (responseBuffer [push_bit 4 (logicalDeviceType d) + ucast (deviceId AND 0xF), STANDBY]) d"

section \<open>The names of messages\<close>

definition opcode_names :: "(u8 \<times> string) list" where
  "opcode_names =
    [(0x00, ''FEATURE_ABORT''), (0xFF, ''ABORT_MESSAGE''), (0x04, ''IMAGE_VIEW_ON''),
     (0x09, ''RECORD_ON''), (0x0A, ''RECORD_STATUS''), (0x0B, ''RECORD_OFF''),
     (0x0D, ''TEXT_VIEW_ON''), (0x0F, ''RECORD_TV_SCREEN''), (0x1A, ''GIVE_DECK_STATUS''),
     (0x1B, ''DECK_STATUS''), (0x32, ''SET_MENU_LANGUAGE''), (0x36, ''STANDBY''),
     (0x44, ''USER_CONTROL_PRESSED ''), (0x45, ''USER_CONTROL_RELEASED''),
     (0x46, ''GIVE_OSD_NAME''), (0x47, ''SET_OSD_NAME''), (0x64, ''SET_OSD_STRING''),
     (0x80, ''ROUTING_CHANGE''), (0x81, ''ROUTING_INFORMATION''), (0x82, ''ACTIVE_SOURCE''),
     (0x83, ''GIVE_PHYSICAL_ADDRESS''), (0x84, ''REPORT_PHYSICAL_ADDRESS''),
     (0x85, ''REQUEST_ACTIVE_SOURCE''), (0x86, ''SET_STREAM_PATH''),
     (0x87, ''DEVICE_VENDOR_ID''), (0x89, ''VENDOR_COMMAND''),
     (0x8A, ''VENDOR_REMOTE_BUTTON_DOWN''), (0x8C, ''GIVE_DEVICE_VENDOR_ID''),
     (0x8D, ''MENU_REQUEST''), (0x8E, ''MENU_STATUS''), (0x8F, ''GIVE_DEVICE_POWER_STATUS''),
     (0x90, ''REPORT_POWER_STATUS''), (0x91, ''SET_STREAM_PATH''), (0x9A, ''SET_AUDIO_RATE''),
     (0x9E, ''CEC_VERSION''), (0x9F, ''GET_CEC_VERSION''), (0xA0, ''VENDOR_COMMAND_WITH_ID'')]"

definition abort_reason_names :: "(u8 \<times> string) list" where
  "abort_reason_names =
    [(0x00, ''UNRECOGNIZED_OPCODE''), (0x01, ''NOT_IN_CORRECT_MODE''),
     (0x02, ''CANNOT_PROVIDE_SOURCE''), (0x03, ''INVALID_OPERAND''), (0x04, ''REFUSED'')]"

definition status_request_names :: "(u8 \<times> string) list" where
  "status_request_names =
    [(0x01, ''STATUS_REQUEST_ON''), (0x02, ''STATUS_REQUEST_OFF''),
     (0x03, ''STATUS_REQUEST_ONCE'')]"

definition deck_info_names :: "(u8 \<times> string) list" where
  "deck_info_names =
    [(0x11, ''PLAY''), (0x12, ''RECORD''), (0x13, ''PLAY_REVERSE''), (0x14, ''STILL''),
     (0x15, ''SLOW''), (0x16, ''SLOW_REVERSE''), (0x17, ''FAST_FORWARD''),
     (0x18, ''FAST_REVERSE''), (0x19, ''NO_MEDIA''), (0x1A, ''STOP''), (0x1B, ''SKIP_FORWARD''),
     (0x1C, ''SKIP_REVERSE''), (0x1D, ''INDEX_SEARCH_FORWARD''),
     (0x1E, ''INDEX_SEARCH_REVERSE''), (0x1F, ''OTHER_STATUS'')]"

definition user_control_names_keys :: "(u8 \<times> string) list" where
  "user_control_names_keys =
    [(0x00, ''SELECT''), (0x01, ''UP''), (0x02, ''DOWN''), (0x03, ''LEFT''), (0x04, ''RIGHT''),
     (0x05, ''RIGHT-UP''), (0x06, ''RIGHT-DOWN''), (0x07, ''LEFT-UP''), (0x08, ''LEFT-DOWN''),
     (0x0D, ''EXIT''), (0x32, ''PREV_CHANNEL''), (0x53, ''EPG''), (0x20, ''NUMBERS_0''),
     (0x21, ''NUMBERS_1''), (0x22, ''NUMBERS_2''), (0x23, ''NUMBERS_3''), (0x24, ''NUMBERS_4''),
     (0x25, ''NUMBERS_5''), (0x26, ''NUMBERS_6''), (0x27, ''NUMBERS_7''), (0x28, ''NUMBERS_8''),
     (0x29, ''NUMBERS_9''), (0x71, ''F1_(BLUE)''), (0x72, ''F2_(RED)''), (0x73, ''F3_(GREEN)''),
     (0x74, ''F4_(YELLOW)'')]"

definition user_control_names_functions :: "(u8 \<times> string) list" where
  "user_control_names_functions =
    [(0x75, ''F5''), (0x44, ''PLAY''), (0x45, ''STOP''), (0x46, ''PAUSE''), (0x47, ''RECORD''),
     (0x48, ''REWIND''), (0x49, ''FASTFORWARD''), (0x60, ''PLAY''), (0x61, ''PAUSE-PLAY''),
     (0x62, ''RECORD''), (0x63, ''PAUSE-RECORD''), (0x64, ''STOP''), (0x65, ''MUTE''),
     (0x66, ''RESTORE''), (0x67, ''TUNE''), (0x68, ''SELECT_MEDIA''),
     (0x69, ''SELECT_AV_INPUT''), (0x6A, ''SELECT_AUDIO_INPUT''), (0x6B, ''POWER_TOGGLE''),
     (0x6C, ''POWER_OFF''), (0x6D, ''POWER_ON''), (0x09, ''ROOT_MENU''),
     (0x0B, ''CONTENTS_MENU''), (0x0A, ''SETUP_MENU''), (0x30, ''PAGEUP''), (0x31, ''PAGEDOWN''),
     (0x35, ''INFO''), (0x4B, ''NEXT''), (0x4C, ''LAST'')]"

definition menu_request_names :: "(u8 \<times> string) list" where
  "menu_request_names =
    [(0x00, ''ACTIVATE''), (0x01, ''DEACTIVATE''), (0x02, ''QUERY'')]"

definition menu_state_names :: "(u8 \<times> string) list" where
  "menu_state_names =
    [(0x00, ''ACTIVATE''), (0x01, ''DEACTIVATE'')]"

definition power_status_names :: "(u8 \<times> string) list" where
  "power_status_names =
    [(0x00, ''ON''), (0x01, ''STANDBY''), (0x02, ''GOING_TO_ON''), (0x03, ''GOING_TO_STANDBY'')]"

definition audio_rate_names :: "(u8 \<times> string) list" where
  "audio_rate_names =
    [(0x00, ''ACTIVATE''), (0x01, ''DEACTIVATE'')]"

definition cec_version_names :: "(u8 \<times> string) list" where
  "cec_version_names =
    [(0x00, ''1.1''), (0x01, ''1.2''), (0x02, ''1.2a''), (0x03, ''1.3''), (0x04, ''1.3a''),
     (0x05, ''1.4'')]"

text \<open>
  \<^verbatim>\<open>strcat\<close> into the array \<^verbatim>\<open>name\<close>, whose last byte is the terminator; \<open>c_string\<close> are the bytes up to a
  terminating zero, \<open>None\<close> if there is none in the array.
\<close>

definition name_cat :: "string \<Rightarrow> string \<Rightarrow> string option" where
  "name_cat name s = (if length (name @ s) < NAME_SIZE then Some (name @ s) else None)"

definition c_string :: "u8 list \<Rightarrow> string option" where
  "c_string bs = (if 0 \<in> set bs then Some (map (\<lambda>b. char_of (unat b)) (takeWhile (\<lambda>b. b \<noteq> 0) bs)) else None)"

definition name_operand :: "string \<Rightarrow> u8 list \<Rightarrow> nat \<Rightarrow> (u8 \<times> string) list \<Rightarrow> string option" where
  "name_operand name buf i table =
     do {
       name \<leftarrow> name_cat name '': '';
       c \<leftarrow> arr_get buf i;
       case map_of table c of None \<Rightarrow> Some name | Some s \<Rightarrow> name_cat name s
     }"

definition name_text :: "string \<Rightarrow> u8 list \<Rightarrow> nat \<Rightarrow> string option" where
  "name_text name buf i =
     do { name \<leftarrow> name_cat name '': ''; s \<leftarrow> c_string (drop i buf); name_cat name s }"

definition message_name :: "u8 list \<Rightarrow> string option" where
  "message_name buf =
     do {
       opcode \<leftarrow> arr_get buf 0;
       name \<leftarrow> name_cat [] (case map_of opcode_names opcode of None \<Rightarrow> ''UNKNOWN'' | Some s \<Rightarrow> s);
       if opcode = FEATURE_ABORT then name_operand name buf 2 abort_reason_names
       else if opcode = GIVE_DECK_STATUS then name_operand name buf 1 status_request_names
       else if opcode = DECK_STATUS then name_operand name buf 1 deck_info_names
       else if opcode = SET_MENU_LANGUAGE then name_text name buf 1
       else if opcode = USER_CONTROL_PRESSED
       then name_operand name buf 1 (user_control_names_keys @ user_control_names_functions)
       else if opcode = SET_OSD_NAME then name_text name buf 1
       else if opcode = SET_OSD_STRING then name_text name buf 2
       else if opcode = MENU_REQUEST then name_operand name buf 1 menu_request_names
       else if opcode = MENU_STATUS then name_operand name buf 1 menu_state_names
       else if opcode = REPORT_POWER_STATUS then name_operand name buf 1 power_status_names
       else if opcode = 0x9a then name_operand name buf 1 audio_rate_names
       else if opcode = CEC_VERSION then name_operand name buf 1 cec_version_names
       else Some name
     }"

section \<open>Evaluating a message\<close>

definition word_at :: "u8 list \<Rightarrow> nat \<Rightarrow> u16 option" where
  "word_at buf i = do { hi \<leftarrow> arr_get buf i; lo \<leftarrow> arr_get buf (i + 1); Some (push_bit 8 (ucast hi) + ucast lo) }"

definition vendor_id :: "cec_config \<Rightarrow> u8 list" where
  "vendor_id cfg =
     (if UFS912 cfg \<or> UFS913 cfg then [0x00, 0xD0, 0x55]
      else if HS8200 cfg then [0x00, 0x1E, 0xB8]
      else [0x44, 0x42, 0x58])"

text \<open>The name of the device, at most 13 bytes of it.\<close>

definition osd_name :: "'w cec \<Rightarrow> u8 list" where
  "osd_name d = take (CEC_MAX_DATA_LEN - 2) (takeWhile (\<lambda>c. c \<noteq> 0) (deviceName d))"

text \<open>The messages that are answered only in the active mode.\<close>

definition parse_active ::
    "'w cec_kernel \<Rightarrow> cec_config \<Rightarrow> u8 \<Rightarrow> u8 \<Rightarrow> u8 list \<Rightarrow> 'w cec \<Rightarrow> 'w cec option" where
  "parse_active K cfg src opcode buf d =
     (let reply = (\<lambda>bs. sendMessage K (of_nat (length bs)) (responseBuffer bs) d) in
      if opcode = GIVE_DECK_STATUS then reply [header d src, DECK_STATUS, DECK_INFO_PLAY]
      else if opcode = USER_CONTROL_PRESSED then do {
        key \<leftarrow> arr_get buf 1;
        Some (snd (input_inject K (ucast key) 1 d))
      }
      else if opcode = USER_CONTROL_RELEASED then Some (snd (input_inject K 0xFFFF 0 d))
      else if opcode = GIVE_OSD_NAME then reply ([header d src, SET_OSD_NAME] @ osd_name d)
      else if opcode = REQUEST_ACTIVE_SOURCE then setSourceAsActive K d
      else if opcode = SET_STREAM_PATH then do {
        path \<leftarrow> word_at buf 1;
        let (physicalAddress, d) = getPhysicalAddress K d;
        if path = physicalAddress then setSourceAsActive K d else Some d
      }
      else if opcode = VENDOR_COMMAND
      then reply [header d src, FEATURE_ABORT, VENDOR_COMMAND, ABORT_REASON_UNRECOGNIZED_OPCODE]
      else if opcode = GIVE_DEVICE_VENDOR_ID then reply ([header d BROADCAST, DEVICE_VENDOR_ID] @ vendor_id cfg)
      else if opcode = MENU_REQUEST then reply [header d src, MENU_STATUS, MENU_STATE_ACTIVATE]
      else if opcode = GIVE_DEVICE_POWER_STATUS then reply [header d src, REPORT_POWER_STATUS, POWER_STATUS_ON]
      else if opcode = GET_CEC_VERSION then reply [header d src, CEC_VERSION, CEC_VERSION_V13A]
      else if opcode = VENDOR_COMMAND_WITH_ID
      then reply [header d src, FEATURE_ABORT, VENDOR_COMMAND_WITH_ID, ABORT_REASON_UNRECOGNIZED_OPCODE]
      else Some d)"

definition parseMessage ::
    "'w cec_kernel \<Rightarrow> cec_config \<Rightarrow> u8 \<Rightarrow> u8 list \<Rightarrow> 'w cec \<Rightarrow> 'w cec option" where
  "parseMessage K cfg src buf d =
     do {
       _ \<leftarrow> message_name buf;
       opcode \<leftarrow> arr_get buf 0;
       if opcode = STANDBY then Some (setUpdatedStandby d)
       else if opcode = ROUTING_CHANGE then do { a \<leftarrow> word_at buf 3; Some (setActiveSource a d) }
       else if opcode = ROUTING_INFORMATION \<or> opcode = ACTIVE_SOURCE
       then do { a \<leftarrow> word_at buf 1; Some (setActiveSource a d) }
       else if opcode = GIVE_PHYSICAL_ADDRESS then sendReportPhysicalAddress K d
       else if activemode d \<noteq> 0 then parse_active K cfg src opcode buf d
       else Some d
     }"

definition parseRawMessage ::
    "'w cec_kernel \<Rightarrow> cec_config \<Rightarrow> u32 \<Rightarrow> msg_buf \<Rightarrow> 'w cec \<Rightarrow> 'w cec option" where
  "parseRawMessage K cfg len b d =
     do {
       b0 \<leftarrow> arr_get (buf_of b d) 0;
       let src = drop_bit 4 b0;
       let dst = b0 AND 0x0F;
       let dataLen = (ucast (len - 1) :: u8);
       if unat dataLen > CEC_MAX_DATA_LEN then Some d
       else if dataLen > 0 then do {
         d \<leftarrow> parseMessage K cfg src (drop 1 (buf_of b d)) d;
         if activemode d = 0 then AddMessageToBuffer K b len d else Some d
       }
       else if src = dst \<and> src = logicalDeviceType d then
         if logicalDeviceType d \<noteq> DEVICE_TYPE_UNREG then sendPingWithAutoIncrement K d else Some d
       else Some d
     }"

end
