(* ===== verification/Cec_Irq.thy ===== *)
theory Cec_Irq
  imports Cec_Opcodes
begin

text \<open>
  The interrupt handler of the CEC driver (\<^verbatim>\<open>cec_worker.c\<close>), one definition per branch, and what its
  runs amount to: a frame on the line is received and sent byte by byte.
\<close>

section \<open>The handler\<close>

definition cec_worker_init :: "'w cec_kernel \<Rightarrow> 'w cec \<Rightarrow> 'w cec option" where
  "cec_worker_init K d =
     (let d = cec_set_own_address K 0x0F d;
          (status, d) = cec_get_status K d;
          (err, d) = cec_get_error K d
      in sendPingWithAutoIncrement K d)"

definition irq_send_error :: "'w cec_kernel \<Rightarrow> u8 \<Rightarrow> u8 \<Rightarrow> 'w cec \<Rightarrow> 'w cec option" where
  "irq_send_error K status err d =
     (let d = (if status AND CEC_STATUS_SEND_EOMSG \<noteq> 0 then cec_acknowledge_eom K d else cec_acknowledge K d);
          d = d\<lparr>isSending := 0\<rparr>;
          retry = (\<lambda>d. if retries d > 0
                       then do { (rc, d) \<leftarrow> sendMessageWithRetry K (sizeOfSendBuf d) SendBuf (ucast (retries d) - 1) d; Some d }
                       else Some d)
      in
      if isFirstKiss d = 1 then
        if err AND CEC_ERROR_ACK \<noteq> 0 then setIsFirstKiss K 0 d else retry d
      else retry d)"

definition irq_receive_byte :: "'w cec_kernel \<Rightarrow> cec_config \<Rightarrow> u8 \<Rightarrow> 'w cec \<Rightarrow> 'w cec option" where
  "irq_receive_byte K cfg status d =
     (let d = (if status AND CEC_STATUS_RECV_SOMSG \<noteq> 0
               then d\<lparr>isReceiving := 1, indexOfRecvBuf := 0, recvBuf := replicate RECV_BUF_SIZE 0\<rparr> else d);
          (v, d) = cec_read_data K d
      in do {
        buf \<leftarrow> arr_set (recvBuf d) (unat (indexOfRecvBuf d)) (ucast v);
        let d = cec_acknowledge K (d\<lparr>recvBuf := buf\<rparr>);
        let d = d\<lparr>indexOfRecvBuf := indexOfRecvBuf d + 1\<rparr>;
        if status AND CEC_STATUS_RECV_EOMSG \<noteq> 0
        then parseRawMessage K cfg (indexOfRecvBuf d) RecvBuf (d\<lparr>isReceiving := 0\<rparr>)
        else Some d
      })"

definition irq_send_byte :: "'w cec_kernel \<Rightarrow> cec_config \<Rightarrow> u8 \<Rightarrow> 'w cec \<Rightarrow> 'w cec option" where
  "irq_send_byte K cfg status d =
     (if status AND CEC_STATUS_SEND_EOMSG \<noteq> 0 then
        let d = cec_acknowledge K (d\<lparr>isSending := 0\<rparr>) in
        parseRawMessage K cfg (indexOfSendBuf d) SendBuf d
      else do {
        b \<leftarrow> arr_get (sendBuf d) (unat (indexOfSendBuf d));
        let d = cec_write_data K (ucast b) d;
        let d = d\<lparr>indexOfSendBuf := indexOfSendBuf d + 1\<rparr>;
        Some (if indexOfSendBuf d = sizeOfSendBuf d then cec_acknowledge_eom K d else cec_acknowledge K d)
      })"

definition cec_interrupt :: "'w cec_kernel \<Rightarrow> cec_config \<Rightarrow> 'w cec \<Rightarrow> 'w cec option" where
  "cec_interrupt K cfg d =
     (let (status, d) = cec_get_status K d;
          (err, d) = cec_get_error K d
      in
      if status AND CEC_STATUS_RECV_ERR \<noteq> 0 then Some (cec_acknowledge K d)
      else if status AND CEC_STATUS_SEND_ERR \<noteq> 0 then irq_send_error K status err d
      else if status AND CEC_STATUS_RECV_BTF \<noteq> 0 then irq_receive_byte K cfg status d
      else if status AND CEC_STATUS_SEND_BTF \<noteq> 0 then irq_send_byte K cfg status d
      else Some d)"

end
