(* ===== verification/Cec_Dev.thy ===== *)
theory Cec_Dev
  imports Cec_Irq
begin

text \<open>
  The device file (\<^verbatim>\<open>cec_dev.c\<close>), the proc files (\<^verbatim>\<open>cec_proc.c\<close>), the input device (\<^verbatim>\<open>cec_rc.c\<close>) and the
  module entry points (\<^verbatim>\<open>cec_main.c\<close>) of the CEC driver.

  An open file is a number. The user's buffer is an address; what \<^verbatim>\<open>copy_from_user\<close> brings is the
  number of bytes it could not copy and the bytes of the destination. Its result is ignored where
  the code ignores it.
\<close>

abbreviation (input) ENOMEM :: int where "ENOMEM \<equiv> 12"
abbreviation (input) EFAULT :: int where "EFAULT \<equiv> 14"
abbreviation (input) EUSERS :: int where "EUSERS \<equiv> 87"
abbreviation (input) ERESTARTSYS :: int where "ERESTARTSYS \<equiv> 512"
abbreviation (input) POLLIN_POLLRDNORM :: u32 where "POLLIN_POLLRDNORM \<equiv> 0x41"
abbreviation (input) CEC_MAJOR :: nat where "CEC_MAJOR \<equiv> 149"

section \<open>The device file\<close>

text \<open>
  \<^verbatim>\<open>message->length\<close> is the second byte of the user's bytes and \<^verbatim>\<open>message->data\<close> starts at the third.
\<close>

definition write_message :: "'w cec_kernel \<Rightarrow> u8 list \<Rightarrow> 'w cec \<Rightarrow> 'w cec option" where
  "write_message K kernel_buf d =
     (if length kernel_buf \<ge> 2 then do {
        address \<leftarrow> arr_get kernel_buf 0;
        len \<leftarrow> arr_get kernel_buf 1;
        if unat len \<ge> length kernel_buf - 2 then do {
          bs \<leftarrow> arr_slice kernel_buf 2 (unat len);
          sendMessage K (ucast len + 1) (Local (address # bs)) d
        }
        else Some d
      }
      else Some d)"

definition CECdev_write :: "'w cec_kernel \<Rightarrow> u32 \<Rightarrow> nat \<Rightarrow> 'w cec \<Rightarrow> (int \<times> 'w cec) option" where
  "CECdev_write K buff len d =
     (let (allocated, d) = cec_hw_get (k_kmalloc K len) d in
      if \<not> allocated then Some (- ENOMEM, d)
      else
        let ((_, kernel_buf), d) = cec_hw_get (k_copy_from_user K buff len) d in do {
          d \<leftarrow> write_message K kernel_buf d;
          Some (int len, cec_hw (k_kfree K) d)
        })"

definition CECdev_read :: "'w cec_kernel \<Rightarrow> nat \<Rightarrow> u32 \<Rightarrow> u32 \<Rightarrow> 'w cec \<Rightarrow> (int \<times> 'w cec) option" where
  "CECdev_read K filp buff len d =
     (let availableBytes = GetMessageBufferSize d in
      if vOpen_fp d \<noteq> Some filp then Some (- EUSERS, d)
      else
        let (rc, d) = k_down_interruptible K d in
        if rc \<noteq> 0 then Some (- ERESTARTSYS, d)
        else
          let len = (if len > availableBytes then availableBytes else len) in do {
            d \<leftarrow> (if len > 0 then do {
                   (msg, d) \<leftarrow> GetMessageFromBuffer len d;
                   Some (cec_hw (k_copy_to_user K buff msg) d)
                 } else Some d);
            Some (uint len, d\<lparr>vOpen_sem := Suc (vOpen_sem d)\<rparr>)
          })"

definition CECdev_poll :: "'w cec_kernel \<Rightarrow> 'w cec \<Rightarrow> u32 \<times> 'w cec" where
  "CECdev_poll K d =
     (let d = cec_hw (k_poll_wait K) d in
      (if outputBufferStart d \<noteq> outputBufferEnd d then POLLIN_POLLRDNORM else 0, d))"

definition CECdev_open :: "nat \<Rightarrow> 'w cec \<Rightarrow> int \<times> 'w cec" where
  "CECdev_open filp d =
     (if vOpen_fp d \<noteq> None then (- EUSERS, d) else (0, d\<lparr>vOpen_fp := Some filp\<rparr>))"

definition CECdev_close :: "nat \<Rightarrow> 'w cec \<Rightarrow> int \<times> 'w cec" where
  "CECdev_close filp d =
     (0, if vOpen_fp d = Some filp then d\<lparr>vOpen_fp := None\<rparr> else d)"

text \<open>\<^verbatim>\<open>CEC_GET_ADDRESS\<close> stores a \<^verbatim>\<open>tCECAddressinfo\<close> (logical, physical[0], physical[1], type) at the user's address.\<close>

definition CECdev_ioctl :: "'w cec_kernel \<Rightarrow> u32 \<Rightarrow> u32 \<Rightarrow> 'w cec \<Rightarrow> int \<times> 'w cec" where
  "CECdev_ioctl K cmd arg d =
     (if cmd = 0x1 then
        let (phys_addr, d) = getPhysicalAddress K d in
        (0, cec_hw (k_copy_to_user K arg
               [logicalDeviceType d, ucast (drop_bit 8 phys_addr AND 0xFF), ucast (phys_addr AND 0xFF),
                deviceType d]) d)
      else if cmd = 0x0 then (0, d\<lparr>outputBufferStart := 0, outputBufferEnd := 0\<rparr>)
      else (0, d))"

definition init_dev :: "'w cec_kernel \<Rightarrow> 'w cec \<Rightarrow> int \<times> 'w cec" where
  "init_dev K d =
     (let d = d\<lparr>outputBufferStart := 0, outputBufferEnd := 0\<rparr>;
          (rc, d) = cec_hw_get (k_register_chrdev K CEC_MAJOR) d;
          d = d\<lparr>vOpen_fp := None, vOpen_sem := 1\<rparr>
      in (0, cec_hw (k_init_waitqueue_head K) d))"

definition cleanup_dev :: "'w cec_kernel \<Rightarrow> 'w cec \<Rightarrow> int \<times> 'w cec" where
  "cleanup_dev K d = (0, cec_hw (k_unregister_chrdev K CEC_MAJOR) d)"

section \<open>The proc files\<close>

text \<open>\<^verbatim>\<open>%1d\<close> of a counter below 100, and \<^verbatim>\<open>%01x\<close> of a value below 16.\<close>

definition digit :: "nat \<Rightarrow> string" where
  "digit n = [''0123456789abcdef'' ! n]"

definition show_event :: "u8 \<Rightarrow> string" where
  "show_event n = (if unat n < 10 then digit (unat n) else digit (unat n div 10) @ digit (unat n mod 10))"

definition event_text :: "'w cec \<Rightarrow> string" where
  "event_text d =
     show_event (eventDiscovery d) @ show_event (eventActiveSource d) @ show_event (eventStandby d) @
     ''00000'' @ [char_of (10::nat)] @
     ''||||||||-> Event 8'' @ [char_of (10::nat)] @ ''|||||||-> Event 7'' @ [char_of (10::nat)] @
     ''||||||-> Event 6'' @ [char_of (10::nat)] @ ''|||||-> Event 5'' @ [char_of (10::nat)] @
     ''||||-> Event 4'' @ [char_of (10::nat)] @ ''|||-> Standby Requested'' @ [char_of (10::nat)] @
     ''||-> Active Source'' @ [char_of (10::nat)] @ ''|-> Discovery'' @ [char_of (10::nat)]"

definition proc_event_poll_read :: "'w cec \<Rightarrow> (nat \<times> string) \<times> 'w cec" where
  "proc_event_poll_read d = ((length (event_text d), event_text d), d)"

definition address_text :: "u16 \<Rightarrow> string" where
  "address_text a =
     digit (unat (drop_bit 12 a AND 0xf)) @ ''.'' @ digit (unat (drop_bit 8 a AND 0xf)) @ ''.'' @
     digit (unat (drop_bit 4 a AND 0xf)) @ ''.'' @ digit (unat (a AND 0xf)) @ [char_of (10::nat)]"

definition proc_cecaddress_read :: "'w cec_kernel \<Rightarrow> 'w cec \<Rightarrow> (nat \<times> string) \<times> 'w cec" where
  "proc_cecaddress_read K d =
     (let (physAddr, d) = getPhysicalAddress K d in ((length (address_text physAddr), address_text physAddr), d))"

definition proc_activesource_read :: "'w cec \<Rightarrow> (nat \<times> string) \<times> 'w cec" where
  "proc_activesource_read d =
     (let text = address_text (ActiveSource d) in ((length text, text), d\<lparr>eventActiveSource := 0\<rparr>))"

definition proc_standby_read :: "'w cec \<Rightarrow> (nat \<times> string) \<times> 'w cec" where
  "proc_standby_read d = ((1, [char_of (10::nat)]), d\<lparr>eventStandby := 0\<rparr>)"

text \<open>
  The frame of the write functions (\<^verbatim>\<open>PW_INIT\<close>, \<^verbatim>\<open>PW_EXIT\<close>): the user's bytes are copied to a page.
  Without a page the result is the number of bytes all the same, because \<^verbatim>\<open>ret = count\<close> stands
  behind the block.
\<close>

definition proc_write ::
    "'w cec_kernel \<Rightarrow> u32 \<Rightarrow> nat \<Rightarrow> (u8 list \<Rightarrow> 'w cec \<Rightarrow> 'w cec option) \<Rightarrow> 'w cec \<Rightarrow> (int \<times> 'w cec) option" where
  "proc_write K buf count body d =
     (let (page, d) = cec_hw_get (k_get_free_page K) d in
      if \<not> page then Some (int count, cec_hw (k_free_page K) d)
      else if count > PAGE_SIZE then None
      else
        let ((failed, bytes), d) = cec_hw_get (k_copy_from_user K buf count) d in
        if failed \<noteq> 0 then Some (- EFAULT, cec_hw (k_free_page K) d)
        else do { d \<leftarrow> body bytes d; Some (int count, cec_hw (k_free_page K) d) })"

text \<open>The loop over the groups of three characters, two hexadecimal digits and a separator.\<close>

function send_hex :: "'w cec_kernel \<Rightarrow> u8 list \<Rightarrow> nat \<Rightarrow> 'w cec \<Rightarrow> 'w cec option" where
  "send_hex K page i d =
     (if i + 2 < length page then do {
        let n = unat (sizeOfInputBuffer d);
        buf \<leftarrow> (case k_sscanf_hhx K [page ! i, page ! (i + 1)] of
                 None \<Rightarrow> (if n \<le> INPUT_BUFFER_SIZE then Some (inputBuffer d) else None)
               | Some v \<Rightarrow> arr_set (inputBuffer d) n v);
        send_hex K page (i + 3) (d\<lparr>inputBuffer := buf, sizeOfInputBuffer := sizeOfInputBuffer d + 1\<rparr>)
      }
      else Some d)"
  by pat_completeness auto
termination by (relation "measure (\<lambda>(K, page, i, d). length page - i)") auto

declare send_hex.simps [simp del]

definition send_written :: "'w cec_kernel \<Rightarrow> u8 list \<Rightarrow> 'w cec \<Rightarrow> 'w cec option" where
  "send_written K page d =
     do {
       d \<leftarrow> send_hex K page 0 (d\<lparr>inputBuffer := replicate INPUT_BUFFER_SIZE 0, sizeOfInputBuffer := 0\<rparr>);
       sendMessage K (sizeOfInputBuffer d) InputBuf d
     }"

definition proc_cec_send_write :: "'w cec_kernel \<Rightarrow> u32 \<Rightarrow> nat \<Rightarrow> 'w cec \<Rightarrow> (int \<times> 'w cec) option" where
  "proc_cec_send_write K buf count = proc_write K buf count (send_written K)"

definition proc_onetouchplay_write :: "'w cec_kernel \<Rightarrow> u32 \<Rightarrow> nat \<Rightarrow> 'w cec \<Rightarrow> (int \<times> 'w cec) option" where
  "proc_onetouchplay_write K buf count = proc_write K buf count (\<lambda>page. sendOneTouchPlay K)"

definition standby_device :: "'w cec_kernel \<Rightarrow> u8 list \<Rightarrow> u32" where
  "standby_device K page =
     (if page \<noteq> [] \<and> 0x30 \<le> hd page \<and> hd page \<le> 0x66
      then case k_sscanf_1x K page of None \<Rightarrow> 0 | Some v \<Rightarrow> v
      else 0)"

definition proc_systemstandby_write :: "'w cec_kernel \<Rightarrow> u32 \<Rightarrow> nat \<Rightarrow> 'w cec \<Rightarrow> (int \<times> 'w cec) option" where
  "proc_systemstandby_write K buf count =
     proc_write K buf count (\<lambda>page. sendSystemStandby K (standby_device K page))"

definition e2_procs :: "string list" where
  "e2_procs = [''stb/cec/send'', ''stb/cec/onetouchplay'', ''stb/cec/systemstandby'',
     ''stb/cec/state_activesource'', ''stb/cec/state_cecaddress'', ''stb/cec/state_standby'',
     ''stb/cec/event_poll'']"

definition init_e2_proc :: "'w cec_kernel \<Rightarrow> 'w cec \<Rightarrow> 'w cec" where
  "init_e2_proc K = cec_hw (fold (k_install_e2_procs K) e2_procs)"

definition cleanup_e2_proc :: "'w cec_kernel \<Rightarrow> 'w cec \<Rightarrow> 'w cec" where
  "cleanup_e2_proc K = cec_hw (fold (k_remove_e2_procs K) (rev e2_procs))"

section \<open>The input device\<close>

definition input_init :: "'w cec_kernel \<Rightarrow> 'w cec \<Rightarrow> int \<times> 'w cec" where
  "input_init K d =
     (let (allocated, d) = cec_hw_get (k_input_allocate_device K) d in
      if \<not> allocated then (- ENOMEM, d)
      else
        let d = cec_hw (k_input_setup K) d;
            (err, d) = cec_hw_get (k_input_register_device K) d
        in
        if err \<noteq> 0 then (err, cec_hw (k_input_free_device K) d)
        else
          let d = cec_hw (k_input_event K 0x14 0x00 500) d;
              d = cec_hw (k_input_event K 0x14 0x01 200) d
          in (0, d))"

definition input_cleanup :: "'w cec_kernel \<Rightarrow> 'w cec \<Rightarrow> int \<times> 'w cec" where
  "input_cleanup K d = (0, cec_hw (k_input_unregister_device K) d)"

section \<open>The module\<close>

definition CEC_IRQ :: "cec_config \<Rightarrow> nat" where
  "CEC_IRQ cfg = (if STx7111 cfg then 143 else 157)"

definition cec_init :: "'w cec_kernel \<Rightarrow> cec_config \<Rightarrow> 'w cec \<Rightarrow> (int \<times> 'w cec) option" where
  "cec_init K cfg d =
     (let (_, d) = cec_internal_init K cfg d;
          d = k_udelay K 10000 d
      in do {
        d \<leftarrow> startTask K d;
        let (_, d) = cec_hw_get (k_request_irq K (CEC_IRQ cfg)) d;
        let d = (if activemode d \<noteq> 0 then snd (input_init K (init_e2_proc K d)) else snd (init_dev K d));
        d \<leftarrow> cec_worker_init K d;
        Some (0, d)
      })"

definition cec_exit :: "'w cec_kernel \<Rightarrow> cec_config \<Rightarrow> 'w cec \<Rightarrow> 'w cec option" where
  "cec_exit K cfg d =
     (let d = k_udelay K 20000 (d\<lparr>cancelStart := 1\<rparr>) in do {
        d \<leftarrow> endTask K d;
        let d = (if activemode d \<noteq> 0 then snd (input_cleanup K (cleanup_e2_proc K d)) else snd (cleanup_dev K d));
        let d = cec_hw (k_free_irq K (CEC_IRQ cfg)) d;
        Some (cec_internal_exit K cfg d)
      })"

end
