(* ===== verification/Cec_Drv.thy ===== *)
theory Cec_Drv
  imports Cec_Dev
begin

text \<open>
  The CEC driver as a whole: every operation keeps the invariant \<open>wf_cec\<close>, which operations are
  always defined, and the driver as a state machine whose reachable states satisfy the invariant.
\<close>

section \<open>Every operation keeps the invariant\<close>

named_theorems cec_wf \<open>every operation keeps the invariant of the CEC driver\<close>

lemma wf_cec_ring: "wf_cec d \<Longrightarrow> wf_ring d"
  by (simp add: wf_cec_def wf_ring_def)

lemma INC_le: "c \<le> 15 \<Longrightarrow> INC c \<le> 15"
  by (cases "c = 15") (simp_all add: INC_def inc_le)

lemma events_wf [cec_wf]:
  "wf_cec d \<Longrightarrow> wf_cec (setUpdatedDiscovery d)" "wf_cec d \<Longrightarrow> wf_cec (setUpdatedActiveSource d)"
  "wf_cec d \<Longrightarrow> wf_cec (setUpdatedStandby d)" "wf_cec d \<Longrightarrow> wf_cec (setActiveSource a d)"
  by (simp_all add: setUpdatedDiscovery_def setUpdatedActiveSource_def setUpdatedStandby_def
      setActiveSource_def wf_cec_def INC_le)

lemma input_inject_wf [cec_wf]: "wf_cec d \<Longrightarrow> wf_cec (snd (input_inject K key type d))"
  by (simp add: input_inject_def Let_def wf_cec_def)

lemma getPhysicalAddress_wf [cec_wf]: "wf_cec (snd (getPhysicalAddress K d)) \<longleftrightarrow> wf_cec d"
  by (metis (no_types, lifting) cec_hw_get_step.oper_wf getPhysicalAddress_def prod.case_eq_if snd_conv)

lemma AddMessageBuffer_shape:
  assumes "wf_ring d" "AddMessageBuffer msg d = Some d'"
  obtains out e where "d' = d\<lparr>outputBuffer := out, outputBufferEnd := e\<rparr>"
    "length out = OUTBUFFERSIZE" "unat e \<le> OUTBUFFERSIZE"
proof -
  let ?size = "ucast (msg_length msg) + 2 :: u32" and ?space = "4096 - outputBufferEnd d"
  have size: "length (outputBuffer d) = OUTBUFFERSIZE" "unat (outputBufferEnd d) \<le> OUTBUFFERSIZE"
    using assms(1) by (simp_all add: wf_ring_def)
  have sp: "unat ?space = OUTBUFFERSIZE - unat (outputBufferEnd d)" using size by (simp add: unat_space)
  show thesis
  proof (cases "?size \<le> ?space")
    case True
    then have "unat (outputBufferEnd d + ?size) \<le> OUTBUFFERSIZE"
      using size sp by (subst unat_add_u32) (simp_all add: word_le_nat_alt)
    then show thesis
      using that True assms(2) size
      by (auto simp: AddMessageBuffer_def Let_def Option.bind_eq_Some_conv arr_simps)
  next
    case False
    then obtain out1 out2 where
        "arr_copy (outputBuffer d) (unat (outputBufferEnd d)) (message_bytes msg) 0 (unat ?space) = Some out1"
        "arr_copy out1 0 (message_bytes msg) (258 * unat ?space) (unat (?size - ?space)) = Some out2"
        "d' = d\<lparr>outputBuffer := out2, outputBufferEnd := ?size - ?space\<rparr>"
      using assms(2) by (auto simp: AddMessageBuffer_def Let_def Option.bind_eq_Some_conv)
    note c = this
    have "length out1 = OUTBUFFERSIZE" "length out2 = OUTBUFFERSIZE"
      using arr_copy_length [OF c(1)] arr_copy_length [OF c(2)] size by simp_all
    moreover from this have "unat (?size - ?space) \<le> OUTBUFFERSIZE"
      using c(2) unfolding arr_copy_Some_iff by linarith
    ultimately show thesis using that c(3) by blast
  qed
qed

lemma AddMessageToBuffer_wf [cec_wf]:
  assumes wf: "wf_cec d"
  shows "pred_option wf_cec (AddMessageToBuffer K b len d)"
  unfolding pred_option_def
proof (intro ballI)
  fix d' assume added: "d' \<in> set_option (AddMessageToBuffer K b len d)"
  obtain msg e where e: "AddMessageBuffer msg d = Some e" "d' = cec_hw (k_wake_up_interruptible K) e"
    using added by (auto simp: AddMessageToBuffer_def Option.bind_eq_Some_conv Let_def)
  obtain out n where "e = d\<lparr>outputBuffer := out, outputBufferEnd := n\<rparr>" "length out = OUTBUFFERSIZE" "unat n \<le> OUTBUFFERSIZE"
    using AddMessageBuffer_shape [OF wf_cec_ring [OF wf] e(1)] .
  then show "wf_cec d'" using e(2) wf by (simp add: wf_cec_def)
qed

lemma GetMessageFromBuffer_shape:
  assumes "wf_ring d" "GetMessageFromBuffer len d = Some (msg, d')"
  obtains s where "d' = d\<lparr>outputBufferStart := s\<rparr>" "unat s \<le> OUTBUFFERSIZE"
proof -
  have size: "length (outputBuffer d) = OUTBUFFERSIZE" using assms(1) by (simp add: wf_ring_def)
  have "unat (outputBufferStart d + len) \<le> OUTBUFFERSIZE"
    if "unat (outputBufferStart d) + unat len \<le> OUTBUFFERSIZE"
    using that by (subst unat_add_u32) simp_all
  then show thesis
    using assms(2) size that
    unfolding GetMessageFromBuffer_def Let_def Option.bind_eq_Some_conv arr_slice_Some_iff if_split_eq1
    by (auto split: if_splits simp: Option.bind_eq_Some_conv arr_slice_def)
qed

lemma sendMessageWithRetry_ok [cec_wf]:
  "delay_ok K \<Longrightarrow> wf_cec d \<Longrightarrow> pred_option (\<lambda>(rc, d). wf_cec d) (sendMessageWithRetry K len buf retry d)"
  using sendMessageWithRetry_wf [of K d len buf retry] by (auto simp: pred_option_def)

lemma sendMessage_ok [cec_wf]: "delay_ok K \<Longrightarrow> wf_cec d \<Longrightarrow> pred_option wf_cec (sendMessage K len buf d)"
  using sendMessage_wf [of K d len buf] by (auto simp: pred_option_def)

lemma senders_wf [cec_wf]:
  assumes K: "delay_ok K" and wf: "wf_cec d"
  shows "pred_option wf_cec (sendReportPhysicalAddress K d)"
    and "pred_option wf_cec (setSourceAsActive K d)"
    and "pred_option wf_cec (wakeTV K d)"
    and "pred_option wf_cec (sendInitMessage K d)"
    and "pred_option wf_cec (sendSystemStandby K dev d)"
  using wf by (simp_all add: sendReportPhysicalAddress_def setSourceAsActive_def wakeTV_def sendInitMessage_def
      sendSystemStandby_def case_prod_beta cec_wf K)

lemma sendOneTouchPlay_wf [cec_wf]:
  "delay_ok K \<Longrightarrow> wf_cec d \<Longrightarrow> pred_option wf_cec (sendOneTouchPlay K d)"
  unfolding sendOneTouchPlay_def case_prod_beta Let_def
  by (rule ok_bind [where Q = wf_cec]) (simp_all add: cec_wf delay_okD)

lemma setIsFirstKiss_wf [cec_wf]:
  assumes "delay_ok K" "wf_cec d"
  shows "pred_option wf_cec (setIsFirstKiss K kiss d)"
proof -
  have "wf_cec (d\<lparr>isFirstKiss := k\<rparr>)" for k using assms(2) by (simp add: wf_cec_def)
  then show ?thesis using assms by (simp add: setIsFirstKiss_def Let_def cec_wf)
qed

lemma next_choice_range: "next_choice ldt i = Some j \<Longrightarrow> i \<le> j \<and> j \<le> 8"
proof (induction ldt i rule: next_choice.induct)
  case (1 ldt i)
  show ?case
  proof (cases "i < length logicalDeviceTypeChoices \<and> ldt AND fst (logicalDeviceTypeChoices ! i) = 0")
    case True
    then show ?thesis using 1 next_choice.simps [of ldt i] by auto
  next
    case False
    then show ?thesis using 1(2) next_choice.simps [of ldt i]
      by (auto simp: logicalDeviceTypeChoices_def split: if_splits)
  qed
qed

lemma advance_choice_wf [cec_wf]:
  assumes "wf_cec (d\<lparr>logicalDeviceTypeChoicesIndex := 0\<rparr>)"
  shows "pred_option wf_cec (advance_choice ldt d)"
proof -
  have "wf_cec (d\<lparr>logicalDeviceTypeChoicesIndex := of_nat j\<rparr>)" if "j \<le> 8" for j
  proof -
    from that have "(of_nat j :: u8) \<le> 9" by (simp add: word_le_nat_alt unat_of_nat)
    then show ?thesis using assms by (simp add: wf_cec_def)
  qed
  then show ?thesis using next_choice_range
    by (auto simp: advance_choice_def Option.bind_eq_Some_conv pred_option_def)
qed

lemma choice_address: "arr_get logicalDeviceTypeChoices i = Some row \<Longrightarrow> snd row \<le> 15"
proof -
  have "\<forall>row \<in> set logicalDeviceTypeChoices. snd row \<le> 15" by (simp add: logicalDeviceTypeChoices_def)
  then show "arr_get logicalDeviceTypeChoices i = Some row \<Longrightarrow> snd row \<le> 15" by (auto simp: arr_simps)
qed

lemma sendPing_wf [cec_wf]:
  assumes K: "delay_ok K" and wf: "wf_cec d"
  shows "pred_option wf_cec (sendPingWithAutoIncrement K d)"
proof -
  have reset: "wf_cec (d\<lparr>logicalDeviceTypeChoicesIndex := 0\<rparr>)" if "wf_cec d" for d :: "'a cec"
    using that by (simp add: wf_cec_def)
  have take: "wf_cec (d\<lparr>logicalDeviceTypeChoicesIndex := logicalDeviceTypeChoicesIndex d + 1, logicalDeviceType := snd row\<rparr>)"
    if "wf_cec d" "arr_get logicalDeviceTypeChoices (unat (logicalDeviceTypeChoicesIndex d)) = Some row" for row and d :: "'a cec"
  proof -
    have "unat (logicalDeviceTypeChoicesIndex d) < 9"
      using that(2) by (simp add: arr_simps logicalDeviceTypeChoices_def)
    then have "logicalDeviceTypeChoicesIndex d < 9" by (simp add: word_less_nat_alt)
    then have "logicalDeviceTypeChoicesIndex d + 1 \<le> 9" by (rule inc_le)
    then show ?thesis using that choice_address [OF that(2)] by (simp add: wf_cec_def)
  qed
  show ?thesis unfolding sendPingWithAutoIncrement_def Let_def
    by (rule ok_bind_any, rule ok_bind [where Q = wf_cec], rule advance_choice_wf, rule reset, rule wf,
        rule ok_bind [where Q = wf_cec], rule setIsFirstKiss_wf [OF K], assumption,
        rule ok_bind [OF ok_value], rule ok_bind [where Q = wf_cec], rule sendMessage_ok [OF K],
        rule take, assumption+, rule advance_choice_wf, rule reset, assumption)
qed

lemma parse_active_wf [cec_wf]:
  "delay_ok K \<Longrightarrow> wf_cec d \<Longrightarrow> pred_option wf_cec (parse_active K cfg src opcode buf d)"
  by (auto simp: parse_active_def Let_def cec_wf case_prod_beta intro!: ok_bind_any)

lemma parseMessage_wf [cec_wf]:
  "delay_ok K \<Longrightarrow> wf_cec d \<Longrightarrow> pred_option wf_cec (parseMessage K cfg src buf d)"
  unfolding parseMessage_def
  by (auto simp: cec_wf intro!: ok_bind_any)

lemma parseRawMessage_wf [cec_wf]:
  assumes "delay_ok K" "wf_cec d"
  shows "pred_option wf_cec (parseRawMessage K cfg len b d)"
proof -
  have "pred_option wf_cec (parseMessage K cfg src buf d \<bind>
      (\<lambda>d. if activemode d = 0 then AddMessageToBuffer K b len d else Some d))" for src buf
    by (rule ok_bind [OF parseMessage_wf [OF assms]]) (simp add: cec_wf)
  then show ?thesis unfolding parseRawMessage_def Let_def
    using assms by (auto simp: cec_wf intro!: ok_bind_any)
qed

lemma cec_task_step_wf [cec_wf]:
  assumes "delay_ok K" "wf_cec d"
  shows "pred_option (\<lambda>(pc, d). wf_cec d) (cec_task_step K pc d)"
proof -
  have "wf_cec (d\<lparr>sendCommand := n\<rparr>)" "wf_cec (d\<lparr>notEndTask := v\<rparr>)" "wf_cec (d\<lparr>sendCommand := n, notEndTask := v\<rparr>)"
     "wf_cec (d\<lparr>sendCommandWithDelay := v\<rparr>)" for n v
    using assms(2) by (simp_all add: wf_cec_def)
  then show ?thesis using assms
    by (cases pc) (simp_all add: Let_def cec_start_sending_def delay_okD)
qed

lemma irq_send_error_wf [cec_wf]:
  assumes "delay_ok K" "wf_cec d"
  shows "pred_option wf_cec (irq_send_error K status err d)"
proof -
  define e where "e = (if status AND CEC_STATUS_SEND_EOMSG \<noteq> 0 then cec_acknowledge_eom K d else cec_acknowledge K d)\<lparr>isSending := 0\<rparr>"
  have e: "wf_cec e" using assms(2) by (simp add: e_def wf_cec_def cec_reg_defs)
  have "pred_option wf_cec (sendMessageWithRetry K len b r e \<bind> (\<lambda>(rc, d). Some d))" for len b r
    by (rule ok_bind [OF sendMessageWithRetry_ok [OF assms(1) e]]) auto
  then show ?thesis using e assms(1)
    unfolding irq_send_error_def Let_def e_def [symmetric] by (simp add: cec_wf)
qed

lemma irq_receive_byte_wf [cec_wf]:
  assumes K: "delay_ok K" and wf: "wf_cec d"
  shows "pred_option wf_cec (irq_receive_byte K cfg status d)"
proof -
  define e where "e = snd (cec_read_data K (if status AND CEC_STATUS_RECV_SOMSG \<noteq> 0
     then d\<lparr>isReceiving := 1, indexOfRecvBuf := 0, recvBuf := replicate RECV_BUF_SIZE 0\<rparr> else d))"
  have e: "wf_cec e" using wf by (simp add: e_def wf_cec_def cec_reg_defs)
  have step: "wf_cec ((cec_acknowledge K (e\<lparr>recvBuf := buf\<rparr>))\<lparr>indexOfRecvBuf := indexOfRecvBuf (cec_acknowledge K (e\<lparr>recvBuf := buf\<rparr>)) + 1\<rparr>)"
    if "arr_set (recvBuf e) (unat (indexOfRecvBuf e)) v = Some buf" for v buf
  proof -
    have "unat (indexOfRecvBuf e) < 16" "length buf = 16"
      using that e by (auto simp: arr_simps wf_cec_def)
    then show ?thesis using e by (simp add: wf_cec_def cec_reg_defs unat_add_u32)
  qed
  have idle: "wf_cec (d\<lparr>isReceiving := 0\<rparr>) \<longleftrightarrow> wf_cec d" for d :: "'a cec" by (simp add: wf_cec_def)
  show ?thesis unfolding irq_receive_byte_def Let_def case_prod_beta e_def [symmetric]
    by (rule ok_bind [OF ok_value]) (auto simp: idle K intro!: parseRawMessage_wf dest: step)
qed

lemma irq_send_byte_wf [cec_wf]:
  assumes K: "delay_ok K" and wf: "wf_cec d"
  shows "pred_option wf_cec (irq_send_byte K cfg status d)"
proof -
  have "wf_cec (cec_acknowledge K (d\<lparr>isSending := 0\<rparr>))" using wf by (simp add: wf_cec_def cec_reg_defs)
  moreover have "unat (indexOfSendBuf d + 1) \<le> 16" if "unat (indexOfSendBuf d) < 16"
    using that by (simp add: unat_add_u32)
  ultimately show ?thesis using wf K
    unfolding irq_send_byte_def
    by (auto simp: Let_def cec_wf wf_cec_def cec_reg_defs arr_get_def intro!: ok_bind [OF ok_value])
qed

lemma cec_interrupt_wf [cec_wf]:
  assumes "delay_ok K" "wf_cec d"
  shows "pred_option wf_cec (cec_interrupt K cfg d)"
proof -
  have "wf_cec (snd (cec_get_status K d))" "wf_cec e \<Longrightarrow> wf_cec (snd (cec_get_error K e))" 
       "wf_cec e \<Longrightarrow> wf_cec (cec_acknowledge K e)" for e :: "'a cec"
    using assms(2) by (simp_all add: cec_reg_defs case_prod_beta)
  then show ?thesis using assms(1) by (simp add: cec_interrupt_def case_prod_beta cec_wf)
qed

lemma write_message_wf [cec_wf]:
  "delay_ok K \<Longrightarrow> wf_cec d \<Longrightarrow> pred_option wf_cec (write_message K buf d)"
  unfolding write_message_def by (auto simp: cec_wf intro!: ok_bind_any)

lemma CECdev_write_wf [cec_wf]:
  assumes "delay_ok K" "wf_cec d"
  shows "pred_option (\<lambda>(rc, d). wf_cec d) (CECdev_write K buff len d)"
  unfolding CECdev_write_def Let_def case_prod_beta
  using assms by (auto intro!: ok_bind [OF write_message_wf])

lemma CECdev_read_wf [cec_wf]:
  assumes "delay_ok K" "wf_cec d"
  shows "pred_option (\<lambda>(rc, d). wf_cec d) (CECdev_read K filp buff len d)"
proof -
  define e where "e = snd (k_down_interruptible K d)"
  have e: "wf_cec e" using assms by (simp add: e_def delay_okD)
  have up: "wf_cec (d\<lparr>vOpen_sem := n\<rparr>) \<longleftrightarrow> wf_cec d" for n and d :: "'a cec" by (simp add: wf_cec_def)
  have "wf_cec d'" if g: "GetMessageFromBuffer n e = Some (msg, d')" for n msg d'
  proof -
    obtain s where "d' = e\<lparr>outputBufferStart := s\<rparr>" "unat s \<le> OUTBUFFERSIZE"
      using GetMessageFromBuffer_shape [OF wf_cec_ring [OF e] g] .
    then show ?thesis using e by (simp add: wf_cec_def)
  qed
  then have "pred_option (\<lambda>p. wf_cec (snd p)) (GetMessageFromBuffer n e)" for n
    using ok_value [of "GetMessageFromBuffer n e"] by (auto simp: pred_option_def)
  then show ?thesis using assms(2) e
    unfolding CECdev_read_def Let_def case_prod_beta e_def [symmetric]
    by (auto simp: up intro!: ok_bind [where Q = "\<lambda>p. wf_cec (snd p)"])
qed

lemma dev_ops_wf [cec_wf]:
  assumes wf: "wf_cec d"
  shows "wf_cec (snd (CECdev_poll K d))" "wf_cec (snd (CECdev_open filp d))"
    "wf_cec (snd (CECdev_close filp d))" "wf_cec (snd (CECdev_ioctl K cmd arg d))"
    "wf_cec (snd (init_dev K d))" "wf_cec (snd (cleanup_dev K d))"
proof -
  show "wf_cec (snd (CECdev_ioctl K cmd arg d))"
    using wf by (simp add: CECdev_ioctl_def case_prod_beta cec_wf) (simp add: wf_cec_def)
  show "wf_cec (snd (init_dev K d))"
    using wf by (simp add: init_dev_def Let_def case_prod_beta) (simp add: wf_cec_def)
qed (use wf in \<open>simp_all add: CECdev_poll_def CECdev_open_def CECdev_close_def cleanup_dev_def wf_cec_def Let_def\<close>)

lemma proc_reads_wf [cec_wf]:
  assumes wf: "wf_cec d"
  shows "wf_cec (snd (proc_event_poll_read d))" "wf_cec (snd (proc_cecaddress_read K d))"
    "wf_cec (snd (proc_activesource_read d))" "wf_cec (snd (proc_standby_read d))"
proof -
  show "wf_cec (snd (proc_cecaddress_read K d))"
    using wf by (simp add: proc_cecaddress_read_def case_prod_beta cec_wf)
qed (use wf in \<open>simp_all add: proc_event_poll_read_def proc_activesource_read_def proc_standby_read_def wf_cec_def Let_def\<close>)

lemma proc_write_wf:
  assumes "\<And>page d. wf_cec d \<Longrightarrow> pred_option wf_cec (body page d)" "wf_cec d"
  shows "pred_option (\<lambda>(rc, d). wf_cec d) (proc_write K buf count body d)"
  unfolding proc_write_def Let_def case_prod_beta
  using assms by (auto intro!: ok_bind [where Q = wf_cec])

lemma send_hex_wf [cec_wf]: "wf_cec d \<Longrightarrow> pred_option wf_cec (send_hex K page i d)"
proof (induction K page i d rule: send_hex.induct)
  case (1 K page i d)
  let ?v = "k_sscanf_hhx K [page ! i, page ! (i + 1)]" and ?n = "unat (sizeOfInputBuffer d)"
  let ?m = "case ?v of None \<Rightarrow> if ?n \<le> INPUT_BUFFER_SIZE then Some (inputBuffer d) else None
       | Some v \<Rightarrow> arr_set (inputBuffer d) ?n v"
  have len: "length buf = INPUT_BUFFER_SIZE" if "?m = Some buf" for buf
    using that 1(2) by (auto simp: wf_cec_def arr_simps split: option.splits if_splits)
  have wf: "wf_cec (d\<lparr>inputBuffer := buf, sizeOfInputBuffer := m\<rparr>)" if "?m = Some buf" for buf m
    using 1(2) len [OF that] by (simp add: wf_cec_def)
  show ?case
  proof (cases "i + 2 < length page")
    case True
    have "pred_option wf_cec (?m \<bind> (\<lambda>buf. send_hex K page (i + 3)
        (d\<lparr>inputBuffer := buf, sizeOfInputBuffer := sizeOfInputBuffer d + 1\<rparr>)))"
      by (rule ok_bind [OF ok_value], rule 1(1) [OF True refl], assumption, rule wf)
    then show ?thesis using True by (subst send_hex.simps) (simp only: if_True Let_def)
  qed (use 1(2) in \<open>simp add: send_hex.simps\<close>)
qed

lemma proc_writes_wf [cec_wf]:
  assumes K: "delay_ok K" and wf: "wf_cec d"
  shows "pred_option (\<lambda>(rc, d). wf_cec d) (proc_cec_send_write K buf count d)"
    and "pred_option (\<lambda>(rc, d). wf_cec d) (proc_onetouchplay_write K buf count d)"
    and "pred_option (\<lambda>(rc, d). wf_cec d) (proc_systemstandby_write K buf count d)"
proof -
  have "pred_option wf_cec (send_written K page d)" if "wf_cec d" for page d
  proof -
    have "wf_cec (d\<lparr>inputBuffer := replicate INPUT_BUFFER_SIZE 0, sizeOfInputBuffer := 0\<rparr>)"
      using that by (simp add: wf_cec_def)
    then show ?thesis unfolding send_written_def
      by (intro ok_bind [OF send_hex_wf]) (auto simp: cec_wf K)
  qed
  then show "pred_option (\<lambda>(rc, d). wf_cec d) (proc_cec_send_write K buf count d)"
    unfolding proc_cec_send_write_def by (rule proc_write_wf [OF _ wf])
qed (auto simp: proc_onetouchplay_write_def proc_systemstandby_write_def K wf
      intro!: proc_write_wf sendOneTouchPlay_wf senders_wf)

section \<open>Initialisation\<close>

interpretation task_loop: wait_loop "k_udelay K us" "\<lambda>d. notEndTask d = 0" "wait_task K us" "\<lambda>d. d"
  for K :: "'w cec_kernel" and us
proof
  show "wait_task K us d = (if notEndTask d = 0 then wait_task K us (k_udelay K us d) else Some d)" for d
    by (rule wait_task.simps)
next
  fix d r assume "wait_task K us d = Some r"
  then show "\<exists>n. notEndTask (iterate (k_udelay K us) n d) \<noteq> 0"
  proof (rule wait_task.raw_induct [where P = "\<lambda>K us d d'. \<exists>n. notEndTask (iterate (k_udelay K us) n d) \<noteq> 0", rotated])
    fix w :: "'w cec_kernel \<Rightarrow> nat \<Rightarrow> 'w cec \<Rightarrow> 'w cec option" and K us d r
    assume IH: "\<And>K us d d'. w K us d = Some d' \<Longrightarrow> \<exists>n. notEndTask (iterate (k_udelay K us) n d) \<noteq> 0"
      and body: "(if notEndTask d = 0 then w K us (k_udelay K us d) else Some d) = Some r"
    show "\<exists>n. notEndTask (iterate (k_udelay K us) n d) \<noteq> 0"
      using IH [of K us "k_udelay K us d"] body by (metis iterate.simps)
  qed
qed

lemma wait_task_wf:
  "delay_ok K \<Longrightarrow> wf_cec d \<Longrightarrow> pred_option wf_cec (wait_task K us d)"
  using task_loop.wait_keeps [of K us d, where P = wf_cec] delay_okD(1) [of K]
  by (auto simp: pred_option_def)

lemma cec_init_wf [cec_wf]:
  assumes K: "delay_ok K" and wf: "wf_cec d"
  shows "pred_option (\<lambda>(rc, d). wf_cec d) (cec_init K cfg d)"
proof -
  have regs: "wf_cec (reg_modify K a f d) \<longleftrightarrow> wf_cec d" for a f d
    by (simp add: reg_modify_def case_prod_beta)
  have "wf_cec (snd (cec_internal_init K cfg d))"
    using wf by (simp add: cec_internal_init_def Let_def regs)
  then have 1: "pred_option wf_cec (startTask K (k_udelay K 10000 (snd (cec_internal_init K cfg d))))"
    using delay_okD(1) [OF K] unfolding startTask_def Let_def
    by (intro wait_task_wf [OF K]) (simp add: wf_cec_def)
  have 2: "wf_cec (snd (input_init K d))" "wf_cec (init_e2_proc K d)" if "wf_cec d" for d
    using that by (simp_all add: input_init_def init_e2_proc_def Let_def case_prod_beta)
  have 3: "pred_option wf_cec (cec_worker_init K d)" if "wf_cec d" for d
    using that by (simp add: cec_worker_init_def Let_def case_prod_beta cec_reg_defs cec_wf K)
  show ?thesis unfolding cec_init_def Let_def case_prod_beta
    by (rule ok_bind [OF 1], rule ok_bind [OF 3]) (auto simp: 2 cec_wf)
qed

section \<open>Definedness\<close>

text \<open>A message that fits into the send buffer is always sent, or dropped after the wait.\<close>

lemma sendMessageWithRetry_None_iff:
  assumes "delay_ok K" "wf_cec d"
  shows "sendMessageWithRetry K len (Local bs) r d = None \<longleftrightarrow>
    fst (send_wait K 100 d) \<noteq> 0 \<and> (bs = [] \<or> length bs < unat len \<or> SEND_BUF_SIZE < unat len)"
proof -
  have "wf_cec (snd (send_wait K 100 d))" using send_wait_wf assms by blast
  then have "length (sendBuf (snd (send_wait K 100 d))) = SEND_BUF_SIZE" by (simp add: wf_cec_def)
  then show ?thesis
    by (auto simp: sendMessageWithRetry_def case_prod_beta send_load_eq not_le)
qed

lemma sendMessage_None_iff:
  assumes "delay_ok K" "wf_cec d"
  shows "sendMessage K len (Local bs) d = None \<longleftrightarrow>
    fst (send_wait K 100 d) \<noteq> 0 \<and> (bs = [] \<or> length bs < unat len \<or> SEND_BUF_SIZE < unat len)"
  using sendMessageWithRetry_None_iff [OF assms, of len bs DEFAULT_RETRY_COUNT]
  by (auto simp: sendMessage_def bind_eq_None_conv split: prod.splits)

lemma response_sent:
  assumes "delay_ok K" "wf_cec d" "unat len \<le> SEND_BUF_SIZE" "length bs \<le> SEND_BUF_SIZE"
  shows "\<exists>d'. sendMessage K len (responseBuffer bs) d = Some d'"
  using sendMessage_None_iff [OF assms(1, 2), of len "bs @ replicate (SEND_BUF_SIZE - length bs) 0"] assms(3, 4)
  by (cases "sendMessage K len (responseBuffer bs) d") (auto simp: responseBuffer_def)

lemma senders_defined:
  assumes "delay_ok K" "wf_cec d"
  shows "sendReportPhysicalAddress K d \<noteq> None" "setSourceAsActive K d \<noteq> None"
  using assms response_sent [OF assms(1), of "snd (getPhysicalAddress K d)"]
  by (simp_all add: sendReportPhysicalAddress_def setSourceAsActive_def case_prod_beta physical_bytes_def cec_wf)

lemma setIsFirstKiss_defined:
  assumes "delay_ok K" "wf_cec d"
  shows "setIsFirstKiss K kiss d \<noteq> None"
proof -
  have "wf_cec (d\<lparr>isFirstKiss := k\<rparr>)" for k using assms(2) by (simp add: wf_cec_def)
  then show ?thesis using senders_defined(1) [OF assms(1)] by (simp add: setIsFirstKiss_def Let_def)
qed

lemma send_wait_idle: "isSending d = 0 \<Longrightarrow> send_wait K n d = (n, d)"
  by (subst send_wait.simps) simp

lemma resend_defined:
  assumes "wf_cec d" "isSending d = 0"
  shows "sendMessageWithRetry K (sizeOfSendBuf d) SendBuf r d \<noteq> None"
  using assms by (simp add: sendMessageWithRetry_def send_wait_idle send_load_eq wf_cec_def flip: length_greater_0_conv)

lemma irq_send_error_defined:
  assumes "delay_ok K" "wf_cec d"
  shows "irq_send_error K status err d \<noteq> None"
proof -
  define e where "e = (if status AND CEC_STATUS_SEND_EOMSG \<noteq> 0 then cec_acknowledge_eom K d else cec_acknowledge K d)\<lparr>isSending := 0\<rparr>"
  have e: "wf_cec e" "isSending e = 0" using assms(2) by (simp_all add: e_def wf_cec_def cec_reg_defs)
  have "sendMessageWithRetry K (sizeOfSendBuf e) SendBuf r e \<bind> (\<lambda>(rc, d). Some d) \<noteq> None" for r
    using resend_defined [OF e, of K r] by auto
  then show ?thesis
    using setIsFirstKiss_defined [OF assms(1) e(1)]
    unfolding irq_send_error_def Let_def e_def [symmetric]
    by auto
qed

lemma parse_active_defined:
  assumes K: "delay_ok K" and wf: "wf_cec d" and buf: "2 < length buf"
  shows "parse_active K cfg src opcode buf d \<noteq> None"
proof -
  have "length (osd_name d) \<le> 13" "length (vendor_id cfg) = 3"
    by (simp_all add: osd_name_def vendor_id_def)
  then have "unat (2 + word_of_nat (length (osd_name d)) :: u32) \<le> 16"
    by (subst unat_add_u32) (simp_all add: unat_of_nat)
  with \<open>length (osd_name d) \<le> 13\<close> \<open>length (vendor_id cfg) = 3\<close> show ?thesis
    using response_sent [OF K wf] senders_defined [OF K wf] senders_defined [OF K, of "snd (getPhysicalAddress K d)"] wf buf
    by (auto simp: parse_active_def Let_def word_at_def arr_get_def case_prod_beta cec_wf)
qed

section \<open>The driver as a state machine\<close>

text \<open>
  The state is the point the thread has reached and the driver's variables. A step is a run of the
  interrupt handler, a step of the thread, a call of one of the file operations, a change of a module
  parameter through \<^verbatim>\<open>sysfs\<close>, or a change of the world outside.
\<close>

datatype 'w cec_op = Irq | Task | Open nat | Close nat | Read nat u32 u32 | Write u32 nat
  | Ioctl u32 u32 | Poll | Read_events | Read_address | Read_activesource | Read_standby
  | Write_send u32 nat | Write_onetouchplay u32 nat | Write_systemstandby u32 nat
  | Param int "u8 list" u8 | World "'w \<Rightarrow> 'w"

primrec cec_do :: "'w cec_kernel \<Rightarrow> cec_config \<Rightarrow> 'w cec_op \<Rightarrow> task_pc \<times> 'w cec \<Rightarrow> (task_pc \<times> 'w cec) option" where
  "cec_do K cfg Irq s = map_option (Pair (fst s)) (cec_interrupt K cfg (snd s))"
| "cec_do K cfg Task s = cec_task_step K (fst s) (snd s)"
| "cec_do K cfg (Open filp) s = Some (fst s, snd (CECdev_open filp (snd s)))"
| "cec_do K cfg (Close filp) s = Some (fst s, snd (CECdev_close filp (snd s)))"
| "cec_do K cfg (Read filp buff len) s = map_option (\<lambda>r. (fst s, snd r)) (CECdev_read K filp buff len (snd s))"
| "cec_do K cfg (Write buff len) s = map_option (\<lambda>r. (fst s, snd r)) (CECdev_write K buff len (snd s))"
| "cec_do K cfg (Ioctl cmd arg) s = Some (fst s, snd (CECdev_ioctl K cmd arg (snd s)))"
| "cec_do K cfg Poll s = Some (fst s, snd (CECdev_poll K (snd s)))"
| "cec_do K cfg Read_events s = Some (fst s, snd (proc_event_poll_read (snd s)))"
| "cec_do K cfg Read_address s = Some (fst s, snd (proc_cecaddress_read K (snd s)))"
| "cec_do K cfg Read_activesource s = Some (fst s, snd (proc_activesource_read (snd s)))"
| "cec_do K cfg Read_standby s = Some (fst s, snd (proc_standby_read (snd s)))"
| "cec_do K cfg (Write_send buf n) s = map_option (\<lambda>r. (fst s, snd r)) (proc_cec_send_write K buf n (snd s))"
| "cec_do K cfg (Write_onetouchplay buf n) s = map_option (\<lambda>r. (fst s, snd r)) (proc_onetouchplay_write K buf n (snd s))"
| "cec_do K cfg (Write_systemstandby buf n) s = map_option (\<lambda>r. (fst s, snd r)) (proc_systemstandby_write K buf n (snd s))"
| "cec_do K cfg (Param a n t) s = Some (fst s, (snd s)\<lparr>activemode := a, deviceName := n, deviceType := t\<rparr>)"
| "cec_do K cfg (World f) s = Some (fst s, cec_hw f (snd s))"

text \<open>The states a loaded driver can reach: from the end of \<^verbatim>\<open>cec_init\<close> by any steps.\<close>

inductive cec_reachable :: "'w cec_kernel \<Rightarrow> cec_config \<Rightarrow> 'w cec \<Rightarrow> task_pc \<times> 'w cec \<Rightarrow> bool" for K cfg d0 where
  loaded: "cec_init K cfg d0 = Some (rc, d) \<Longrightarrow> cec_reachable K cfg d0 (pc, d)"
| step: "cec_reachable K cfg d0 s \<Longrightarrow> cec_do K cfg oper s = Some s' \<Longrightarrow> cec_reachable K cfg d0 s'"

inductive_cases cec_reachableE: "cec_reachable K cfg d0 s"

lemma cec_do_wf:
  assumes K: "delay_ok K" and wf: "wf_cec (snd s)"
  shows "pred_option (\<lambda>s. wf_cec (snd s)) (cec_do K cfg oper s)"
proof -
  have pair: "pred_option (\<lambda>r. wf_cec (snd r)) m" if "pred_option (\<lambda>(x, d). wf_cec d) m" for m :: "('b \<times> 'a cec) option"
    using that by (simp add: case_prod_unfold)
  have param: "wf_cec ((snd s)\<lparr>activemode := a, deviceName := n, deviceType := t\<rparr>)" for a n t
    using wf by (simp add: wf_cec_def)
  show ?thesis
    using cec_interrupt_wf [OF K wf] pair [OF cec_task_step_wf [OF K wf]] pair [OF CECdev_read_wf [OF K wf]]
      pair [OF CECdev_write_wf [OF K wf]] pair [OF proc_writes_wf(1) [OF K wf]]
      pair [OF proc_writes_wf(2) [OF K wf]] pair [OF proc_writes_wf(3) [OF K wf]]
      dev_ops_wf [OF wf] proc_reads_wf [OF wf] param wf
    by (cases oper) (simp_all add: option.pred_map comp_def)
qed

lemma cec_reachable_wf:
  assumes "cec_reachable K cfg d0 s" "delay_ok K" "wf_cec d0"
  shows "wf_cec (snd s)"
  using assms
proof (induction rule: cec_reachable.induct)
  case (loaded rc d pc)
  then show ?case using cec_init_wf [of K d0 cfg] by simp
next
  case (step s oper s')
  then show ?case using cec_do_wf [of K s cfg oper] by simp
qed

section \<open>Choosing a logical address\<close>

text \<open>The row of the table that the search finds for a device type below 8.\<close>

definition first_row :: "nat \<Rightarrow> nat \<Rightarrow> nat" where
  "first_row t i =
     (if t = 4 \<and> i \<le> 2 then i else if t = 3 \<and> i \<le> 5 then max i 3 else if t = 1 \<and> i \<le> 7 then max i 6 else 8)"

lemma first_row_le: "first_row t i \<le> 8"
  by (simp add: first_row_def)

lemma next_choice_rows:
  "\<forall>t \<in> set [0..<8]. \<forall>i \<in> set [0..<9]. next_choice (push_bit t 1) i = Some (first_row t i)"
  by (simp add: next_choice.simps logicalDeviceTypeChoices_def first_row_def upt_rec)

lemma next_choice_first_row: "t < 8 \<Longrightarrow> i \<le> 8 \<Longrightarrow> next_choice (push_bit t 1) i = Some (first_row t i)"
  using next_choice_rows by simp

lemma next_choice_0: "next_choice 0 i = None"
proof (induction "9 - i" arbitrary: i)
  case 0
  then show ?case by (subst next_choice.simps) (simp add: logicalDeviceTypeChoices_def)
next
  case (Suc n)
  then have "next_choice 0 (Suc i) = None" by simp
  then show ?case by (subst next_choice.simps) simp
qed

lemma next_choice_9: "next_choice ldt 9 = None"
  by (subst next_choice.simps) (simp add: logicalDeviceTypeChoices_def)

lemma device_bit_eq:
  "device_bit t = (if unat t < 8 then Some (push_bit (unat t) 1) else if unat t < 32 then Some 0 else None)"
proof -
  have "ucast (push_bit n (1 :: u32)) = (push_bit n 1 :: u8)" if "n < 8" for n
    by (rule bit_word_eqI) (use that in \<open>auto simp: bit_simps\<close>)
  moreover have "ucast (push_bit n (1 :: u32)) = (0 :: u8)" if "8 \<le> n" for n
    by (rule bit_word_eqI) (use that in \<open>auto simp: bit_simps\<close>)
  ultimately show ?thesis by (simp add: device_bit_def not_less)
qed

definition address_of_row :: "nat \<Rightarrow> u8" where
  "address_of_row i = snd (logicalDeviceTypeChoices ! i)"

definition ping_byte :: "nat \<Rightarrow> u8" where
  "ping_byte i = push_bit 4 (address_of_row i) + (address_of_row i AND 0xF)"

definition ping_state :: "'w cec_kernel \<Rightarrow> nat \<Rightarrow> 'w cec \<Rightarrow> 'w cec" where
  "ping_state K i d = d\<lparr>isFirstKiss := 1, logicalDeviceTypeChoicesIndex := of_nat (Suc i), logicalDeviceType := address_of_row i,
     sendBuf := ping_byte i # drop 1 (sendBuf d),
     sizeOfSendBuf := 1, indexOfSendBuf := 1, isSending := 1, retries := 3, sendCommand := Suc (sendCommand d),
     cec_world := reg_write K (CECBaseAddress + CEC_TX) (ucast (ping_byte i))
         (reg_write K (CECBaseAddress + CEC_ADDRESS) (ucast (address_of_row i)) (cec_world d))\<rparr>"

lemma header_low_nibble: "(push_bit 4 a + (b AND 0xF)) AND 0xF = b AND (0xF :: u8)"
proof -
  have m: "(0xF :: u8) = mask 4" by (simp add: mask_eq_exp_minus_1)
  have "push_bit 4 a AND (b AND mask 4) = 0"
    by (rule bit_word_eqI) (simp only: bit_and_iff bit_push_bit_iff bit_mask_iff bit_0_eq, auto)
  then have "push_bit 4 a + (b AND mask 4) = push_bit 4 a OR (b AND mask 4)" by (rule disjunctive_add_eq_or)
  moreover have "(push_bit 4 a OR (b AND mask 4)) AND mask 4 = b AND mask 4"
    by (rule bit_word_eqI) (simp only: bit_and_iff bit_or_iff bit_push_bit_iff bit_mask_iff, auto)
  ultimately show ?thesis unfolding m by simp
qed

lemma sendPing_eq:
  assumes idle: "isSending d = 0" and buf: "length (sendBuf d) = SEND_BUF_SIZE"
    and ldt: "device_bit (deviceType d) = Some ldt"
    and i: "next_choice ldt (unat (logicalDeviceTypeChoicesIndex d)) = Some i"
  shows "sendPingWithAutoIncrement K d = advance_choice ldt (ping_state K i d)"
proof -
  have i8: "i \<le> 8" using next_choice_range [OF i] by simp
  then have u: "unat (of_nat i :: u8) = i" by (simp add: unat_of_nat)
  have row: "arr_get logicalDeviceTypeChoices i = Some (logicalDeviceTypeChoices ! i)"
    using i8 by (simp add: arr_get_def logicalDeviceTypeChoices_def)
  have send: "sendMessage K 1 (Local [b]) e = send_load K 1 (Local [b]) 3 e" if "isSending e = 0" for b e
    using that by (simp add: sendMessage_def sendMessageWithRetry_def send_wait_idle)
  show ?thesis
    using buf idle
    by (simp add: sendPingWithAutoIncrement_def ldt i advance_choice_def [of ldt d]
        setIsFirstKiss_def u row send send_load_eq loaded_buf_def own_header_def ping_state_def
        address_of_row_def ping_byte_def header_low_nibble add.commute [of 1])
qed

lemma sendPing_undefined:
  assumes "8 \<le> unat (deviceType d) \<or> logicalDeviceTypeChoicesIndex d = 9"
  shows "sendPingWithAutoIncrement K d = None"
  using assms by (auto simp: sendPingWithAutoIncrement_def device_bit_eq advance_choice_def next_choice_0
      next_choice_9 bind_eq_None_conv)

lemma sendPing_result_eq:
  assumes wf: "wf_cec d" and idle: "isSending d = 0"
    and t: "t = unat (deviceType d)" and n: "n = unat (logicalDeviceTypeChoicesIndex d)"
  shows "sendPingWithAutoIncrement K d =
    (if t = 4 \<and> n \<le> 2 \<or> t = 3 \<and> n \<le> 5 \<or> t = 1 \<and> n \<le> 7
     then Some ((ping_state K (first_row t n) d)\<lparr>logicalDeviceTypeChoicesIndex := of_nat (first_row t (Suc (first_row t n)))\<rparr>)
     else None)"
proof (cases "t < 8 \<and> n \<le> 8")
  case True
  let ?i = "first_row t n"
  have u: "unat (of_nat (Suc ?i) :: u8) = Suc ?i"
    using first_row_le [of t n] by (simp add: unat_of_nat del: of_nat_Suc)
  have eq: "sendPingWithAutoIncrement K d = advance_choice (push_bit t 1) (ping_state K ?i d)"
    using sendPing_eq [OF idle, of "push_bit t 1" ?i K] next_choice_first_row [of t n] wf True t n
    by (simp add: wf_cec_def device_bit_eq del: push_bit_of_1)
  have idx: "logicalDeviceTypeChoicesIndex (ping_state K ?i d) = of_nat (Suc ?i)"
    by (simp add: ping_state_def)
  show ?thesis
  proof (cases "?i = 8")
    case True
    then have "advance_choice (push_bit t 1) (ping_state K ?i d) = None"
      using idx u by (simp add: advance_choice_def next_choice_9)
    then show ?thesis using eq True by (auto simp: first_row_def split: if_splits)
  next
    case False
    then have "t = 4 \<and> n \<le> 2 \<or> t = 3 \<and> n \<le> 5 \<or> t = 1 \<and> n \<le> 7" by (auto simp: first_row_def split: if_splits)
    moreover have "Suc ?i \<le> 8" using False by (simp add: first_row_def split: if_splits)
    ultimately show ?thesis
      using eq idx u \<open>t < 8 \<and> n \<le> 8\<close> by (simp add: advance_choice_def next_choice_first_row del: of_nat_Suc push_bit_of_1)
  qed
next
  case False
  moreover have "n \<le> 9" using wf n by (simp add: wf_cec_def word_le_nat_alt)
  moreover have "logicalDeviceTypeChoicesIndex d = 9" if "n = 9" using that n by (simp add: word_unat_eq_iff)
  ultimately show ?thesis using sendPing_undefined [of d K] t by force
qed

section \<open>Properties\<close>

text \<open>
  C30. The search for a logical address: with no transmission in progress, \<^verbatim>\<open>sendPingWithAutoIncrement\<close>
  takes the next address of the table for the device type, sends a ping to it and moves on to the row
  after it; but it does so only for recorders, set-top boxes and players and only as long as the type
  has an untried address. For every other type, and when all addresses are taken, it reads outside
  the table: the search for the row after the last one is not bounded.
\<close>

theorem sendPing_result:
  assumes "wf_cec d" "isSending d = 0"
    and "t = unat (deviceType d)" "n = unat (logicalDeviceTypeChoicesIndex d)"
  shows "sendPingWithAutoIncrement K d =
    (if t = 4 \<and> n \<le> 2 \<or> t = 3 \<and> n \<le> 5 \<or> t = 1 \<and> n \<le> 7
     then Some ((ping_state K (first_row t n) d)\<lparr>logicalDeviceTypeChoicesIndex := of_nat (first_row t (Suc (first_row t n)))\<rparr>)
     else None)"
  using assms by (rule sendPing_result_eq)

theorem sendPing_result_witness:
  "(\<exists>d. sendPingWithAutoIncrement cec_machine_kernel cec_machine_start = Some d \<and>
        logicalDeviceType d = DEVICE_TYPE_DVD1 \<and> sendBuf d ! 0 = 0x44) \<and>
   sendPingWithAutoIncrement cec_machine_kernel (cec_machine_start\<lparr>logicalDeviceTypeChoicesIndex := 8\<rparr>) = None"
proof
  show "\<exists>d. sendPingWithAutoIncrement cec_machine_kernel cec_machine_start = Some d \<and>
        logicalDeviceType d = DEVICE_TYPE_DVD1 \<and> sendBuf d ! 0 = 0x44"
    using sendPing_result [of cec_machine_start 4 0 cec_machine_kernel] wf_cec_machine_start
    by (simp add: cec_machine_start_def ping_state_def first_row_def address_of_row_def ping_byte_def
        logicalDeviceTypeChoices_def)
  show "sendPingWithAutoIncrement cec_machine_kernel (cec_machine_start\<lparr>logicalDeviceTypeChoicesIndex := 8\<rparr>) = None"
  proof -
    have wf: "wf_cec (cec_machine_start\<lparr>logicalDeviceTypeChoicesIndex := 8\<rparr>)"
      using wf_cec_machine_start by (simp add: wf_cec_def)
    have start: "isSending cec_machine_start = 0" "deviceType cec_machine_start = 4"
      by (simp_all add: cec_machine_start_def)
    show ?thesis by (subst sendPing_result [OF wf _ refl refl]) (simp_all add: start)
  qed
qed

text \<open>
  C9. Whatever happens after the driver has been loaded (interrupts, steps of the thread, calls of
  the file operations, changes of the parameters and of the hardware, in any order), the arrays keep
  their sizes and every index stays inside its array, the event counters stay below 16, repeating a
  message after an error and answering a message never leave their buffers, and the number of bytes
  offered to the reader is at most the size of the buffer.
\<close>

theorem cec_reachable_safe:
  assumes "cec_reachable K cfg d0 (pc, d)" "delay_ok K" "wf_cec d0"
  shows "wf_cec d \<and> irq_send_error K status err d \<noteq> None \<and>
    parse_active K cfg src opcode (drop 1 (recvBuf d)) d \<noteq> None \<and>
    parse_active K cfg src opcode (drop 1 (sendBuf d)) d \<noteq> None \<and>
    length (ring d) = unat (GetMessageBufferSize d) \<and> unat (GetMessageBufferSize d) \<le> OUTBUFFERSIZE"
proof -
  have wf: "wf_cec d" using cec_reachable_wf [OF assms] by simp
  have "length (ring d) \<le> OUTBUFFERSIZE"
    using wf by (auto simp: ring_def wf_cec_def Let_def)
  then show ?thesis
    using wf irq_send_error_defined [OF assms(2) wf] parse_active_defined [OF assms(2) wf]
      length_ring [OF wf_cec_ring [OF wf]]
    by (auto simp: wf_cec_def)
qed

lemma machine_delay_ok: "delay_ok cec_machine_kernel"
  by (simp add: delay_ok_def cec_machine_kernel_def wf_cec_def)

lemma machine_init: "cec_init cec_machine_kernel cec_machine_cfg cec_machine_start \<noteq> None"
proof -
  let ?K = cec_machine_kernel
  have regs: "\<exists>w. snd (cec_internal_init ?K cec_machine_cfg cec_machine_start) = cec_machine_start\<lparr>cec_world := w\<rparr>"
    by (simp add: cec_internal_init_def reg_modify_def cec_read_register_u32_def cec_write_register_u32_def
        cec_hw_def cec_hw_get_def Let_def case_prod_beta cec_machine_cfg_def) (rule exI, rule refl)
  then obtain w where w: "snd (cec_internal_init ?K cec_machine_cfg cec_machine_start) = cec_machine_start\<lparr>cec_world := w\<rparr>" ..
  have start: "\<exists>w. startTask ?K (k_udelay ?K 10000 (cec_machine_start\<lparr>cec_world := w0\<rparr>)) = Some (cec_machine_start\<lparr>cec_world := w\<rparr>)" for w0
    by (simp add: startTask_def wait_task.simps Let_def cec_machine_kernel_def cec_machine_start_def cec_hw_def)
  have ping: "cec_worker_init ?K (cec_machine_start\<lparr>cec_world := w0\<rparr>) \<noteq> None" for w0
  proof -
    let ?d = "snd (cec_get_error ?K (snd (cec_get_status ?K (cec_set_own_address ?K 0xF (cec_machine_start\<lparr>cec_world := w0\<rparr>)))))"
    have "wf_cec ?d" "isSending ?d = 0" "deviceType ?d = 4" "logicalDeviceTypeChoicesIndex ?d = 0"
      using wf_cec_machine_start by (simp_all add: cec_reg_defs case_prod_beta wf_cec_def cec_machine_start_def)
    then show ?thesis
      using sendPing_result_eq [of ?d 4 0 ?K] by (simp add: cec_worker_init_def Let_def case_prod_beta)
  qed
  have dev: "\<exists>w. snd (init_dev ?K (snd (cec_hw_get f (cec_machine_start\<lparr>cec_world := w0\<rparr>)))) = cec_machine_start\<lparr>cec_world := w\<rparr>" for w0 and f :: "cec_machine \<Rightarrow> int \<times> cec_machine"
    by (simp add: init_dev_def Let_def case_prod_beta cec_hw_def cec_hw_get_def cec_machine_start_def)
  obtain w1 where w1: "startTask ?K (k_udelay ?K 10000 (cec_machine_start\<lparr>cec_world := w\<rparr>)) = Some (cec_machine_start\<lparr>cec_world := w1\<rparr>)"
    using start by blast
  obtain w2 where w2: "snd (init_dev ?K (snd (cec_hw_get (k_request_irq ?K (CEC_IRQ cec_machine_cfg)) (cec_machine_start\<lparr>cec_world := w1\<rparr>)))) = cec_machine_start\<lparr>cec_world := w2\<rparr>"
    using dev by blast
  have "activemode cec_machine_start = 0" by (simp add: cec_machine_start_def)
  then show ?thesis
    using ping [of w2] by (auto simp: cec_init_def case_prod_beta Let_def w w1 w2)
qed

theorem cec_reachable_safe_witness:
  "\<exists>d. cec_init cec_machine_kernel cec_machine_cfg cec_machine_start = Some (0, d) \<and> wf_cec d \<and>
     irq_send_error cec_machine_kernel 4 0 d \<noteq> None"
proof -
  obtain rc d where i: "cec_init cec_machine_kernel cec_machine_cfg cec_machine_start = Some (rc, d)"
    using machine_init by auto
  moreover from this have "rc = 0"
    by (auto simp: cec_init_def Let_def case_prod_beta Option.bind_eq_Some_conv)
  ultimately show ?thesis
    using cec_reachable_safe [OF loaded [OF i] machine_delay_ok wf_cec_machine_start] by blast
qed

end
