(* ===== verification/Cec_Bus.thy ===== *)
theory Cec_Bus
  imports Cec_Drv
begin

text \<open>
  The CEC driver on the line: what the controller does (\<open>cec_bus\<close>), and what sequences of interrupts
  amount to. A frame is received and sent byte by byte, and a failing message is repeated.
\<close>

section \<open>The line\<close>

text \<open>
  What the driver relies on of the controller: reading the registers gives the status, the error
  and the received byte and changes none of what can be observed; the data register sends a byte,
  the control register takes the driver's acknowledgement, and the address register neither.
\<close>

record 'w bus =
  b_status :: "'w \<Rightarrow> u8"
  b_error :: "'w \<Rightarrow> u8"
  b_rx :: "'w \<Rightarrow> u8"
  b_sent :: "'w \<Rightarrow> u8 list"
  b_ctl :: "'w \<Rightarrow> u8 list"

definition observe :: "'w bus \<Rightarrow> 'w \<Rightarrow> u8 \<times> u8 \<times> u8 \<times> u8 list \<times> u8 list" where
  "observe B w = (b_status B w, b_error B w, b_rx B w, b_sent B w, b_ctl B w)"

definition cec_bus :: "'w cec_kernel \<Rightarrow> 'w bus \<Rightarrow> bool" where
  "cec_bus K B \<longleftrightarrow> (\<forall>w.
     (\<forall>a. observe B (snd (reg_read K a w)) = observe B w) \<and>
     ucast (fst (reg_read K (CECBaseAddress + CEC_CONTROL) w)) = b_status B w \<and>
     ucast (fst (reg_read K (CECBaseAddress + CEC_STATUS_ERROR) w)) = b_error B w \<and>
     ucast (fst (reg_read K (CECBaseAddress + CEC_RX) w)) = b_rx B w \<and>
     (\<forall>v. observe B (reg_write K (CECBaseAddress + CEC_ADDRESS) v w) = observe B w \<and>
          b_sent B (reg_write K (CECBaseAddress + CEC_TX) v w) = b_sent B w @ [ucast v] \<and>
          b_ctl B (reg_write K (CECBaseAddress + CEC_TX) v w) = b_ctl B w \<and>
          b_sent B (reg_write K (CECBaseAddress + CEC_CONTROL) v w) = b_sent B w \<and>
          b_ctl B (reg_write K (CECBaseAddress + CEC_CONTROL) v w) = b_ctl B w @ [ucast v]))"

text \<open>An interrupt is raised: the status, the error and the received byte are new, the rest is as before.\<close>

definition raises :: "'w bus \<Rightarrow> ('w \<Rightarrow> 'w) \<Rightarrow> u8 \<Rightarrow> u8 \<Rightarrow> u8 \<Rightarrow> bool" where
  "raises B f st er rx \<longleftrightarrow> (\<forall>w. observe B (f w) = (st, er, rx, b_sent B w, b_ctl B w))"

primrec cec_irqs :: "'w cec_kernel \<Rightarrow> cec_config \<Rightarrow> ('w \<Rightarrow> 'w) list \<Rightarrow> 'w cec \<Rightarrow> 'w cec option" where
  "cec_irqs K cfg [] d = Some d"
| "cec_irqs K cfg (f # fs) d = do { d \<leftarrow> cec_interrupt K cfg (cec_hw f d); cec_irqs K cfg fs d }"

lemma cec_irqs_append:
  "cec_irqs K cfg (fs @ gs) d = cec_irqs K cfg fs d \<bind> cec_irqs K cfg gs"
  by (induction fs arbitrary: d) (simp_all add: Option.bind_assoc)

text \<open>The handler sees exactly what has been raised.\<close>

lemma cec_interrupt_raised:
  assumes B: "cec_bus K B" and f: "raises B f st er rx"
  obtains w where "cec_interrupt K cfg (cec_hw f d) =
      (if st AND CEC_STATUS_RECV_ERR \<noteq> 0 then Some (cec_acknowledge K (d\<lparr>cec_world := w\<rparr>))
       else if st AND CEC_STATUS_SEND_ERR \<noteq> 0 then irq_send_error K st er (d\<lparr>cec_world := w\<rparr>)
       else if st AND CEC_STATUS_RECV_BTF \<noteq> 0 then irq_receive_byte K cfg st (d\<lparr>cec_world := w\<rparr>)
       else if st AND CEC_STATUS_SEND_BTF \<noteq> 0 then irq_send_byte K cfg st (d\<lparr>cec_world := w\<rparr>)
       else Some (d\<lparr>cec_world := w\<rparr>))"
    "b_rx B w = rx" "b_sent B w = b_sent B (cec_world d)" "b_ctl B w = b_ctl B (cec_world d)"
proof -
  define w1 where "w1 = snd (reg_read K (CECBaseAddress + CEC_CONTROL) (f (cec_world d)))"
  define w where "w = snd (reg_read K (CECBaseAddress + CEC_STATUS_ERROR) w1)"
  have o: "observe B (f (cec_world d)) = (st, er, rx, b_sent B (cec_world d), b_ctl B (cec_world d))"
    using f by (simp add: raises_def)
  have ow1: "observe B w1 = observe B (f (cec_world d))" using B by (simp add: cec_bus_def w1_def)
  have ow: "observe B w = observe B (f (cec_world d))" using B ow1 by (simp add: cec_bus_def w_def)
  have "cec_get_status K (cec_hw f d) = (st, d\<lparr>cec_world := w1\<rparr>)"
    using B o by (simp add: cec_get_status_def cec_read_register_u32_def cec_hw_def cec_hw_get_def
        case_prod_beta Let_def w1_def ucast_low_byte cec_bus_def observe_def)
  moreover have "cec_get_error K (d\<lparr>cec_world := w1\<rparr>) = (er, d\<lparr>cec_world := w\<rparr>)"
    using B o ow1 by (simp add: cec_get_error_def cec_read_register_u32_def cec_hw_get_def
        case_prod_beta Let_def w_def ucast_low_byte cec_bus_def observe_def)
  ultimately show thesis
    using that [of w] o ow by (simp add: cec_interrupt_def observe_def)
qed

text \<open>The concrete machine is such a controller.\<close>

definition machine_bus :: "cec_machine bus" where
  "machine_bus = \<lparr>b_status = cm_status, b_error = cm_error, b_rx = cm_rx, b_sent = cm_tx, b_ctl = cm_ctl\<rparr>"

definition raise_irq :: "u8 \<Rightarrow> u8 \<Rightarrow> cec_machine \<Rightarrow> cec_machine" where
  "raise_irq st rx w = w\<lparr>cm_status := st, cm_error := 0, cm_rx := rx\<rparr>"

lemma machine_cec_bus: "cec_bus cec_machine_kernel machine_bus"
  by (simp add: cec_bus_def machine_bus_def cec_machine_kernel_def reg_read_def reg_write_def cm_readl_def
      cm_writel_def observe_def)

lemma machine_raises: "raises machine_bus (raise_irq st rx) st 0 rx"
  by (simp add: raises_def observe_def machine_bus_def raise_irq_def)

section \<open>Receiving a frame\<close>

text \<open>The status with which byte \<open>i\<close> of a frame of \<open>n\<close> bytes is announced.\<close>

definition rx_status :: "nat \<Rightarrow> nat \<Rightarrow> u8" where
  "rx_status i n = CEC_STATUS_RECV_BTF OR (if i = 0 then CEC_STATUS_RECV_SOMSG else 0)
     OR (if Suc i = n then CEC_STATUS_RECV_EOMSG else 0)"

lemma rx_status_bits:
  "rx_status i n AND CEC_STATUS_RECV_ERR = 0" "rx_status i n AND CEC_STATUS_SEND_ERR = 0"
  "rx_status i n AND CEC_STATUS_RECV_BTF \<noteq> 0"
  "rx_status i n AND CEC_STATUS_RECV_SOMSG \<noteq> 0 \<longleftrightarrow> i = 0"
  "rx_status i n AND CEC_STATUS_RECV_EOMSG \<noteq> 0 \<longleftrightarrow> Suc i = n"
proof -
  let ?s = "\<lambda>p q. CEC_STATUS_RECV_BTF OR (if p then CEC_STATUS_RECV_SOMSG else 0) OR (if q then CEC_STATUS_RECV_EOMSG else 0)"
  have "?s p q AND 64 = 0" "?s p q AND 4 = 0" "?s p q AND 128 \<noteq> 0" "?s p q AND 16 \<noteq> 0 \<longleftrightarrow> p" "?s p q AND 32 \<noteq> 0 \<longleftrightarrow> q" for p q
    by simp_all
  then show "rx_status i n AND CEC_STATUS_RECV_ERR = 0" "rx_status i n AND CEC_STATUS_SEND_ERR = 0"
    "rx_status i n AND CEC_STATUS_RECV_BTF \<noteq> 0" "rx_status i n AND CEC_STATUS_RECV_SOMSG \<noteq> 0 \<longleftrightarrow> i = 0"
    "rx_status i n AND CEC_STATUS_RECV_EOMSG \<noteq> 0 \<longleftrightarrow> Suc i = n"
    unfolding rx_status_def by blast+
qed

definition rx_state :: "nat \<Rightarrow> u8 list \<Rightarrow> 'w \<Rightarrow> 'w cec \<Rightarrow> 'w cec" where
  "rx_state k bs w d = d\<lparr>isReceiving := 1, indexOfRecvBuf := of_nat k,
     recvBuf := take k bs @ replicate (RECV_BUF_SIZE - k) 0, cec_world := w\<rparr>"

lemma irq_receive_byte_eq:
  assumes B: "cec_bus K B" and i: "unat (indexOfRecvBuf e) < length (recvBuf e)"
    and e: "e = (if st AND CEC_STATUS_RECV_SOMSG \<noteq> 0
      then d\<lparr>isReceiving := 1, indexOfRecvBuf := 0, recvBuf := replicate RECV_BUF_SIZE 0\<rparr> else d)"
  obtains w where "irq_receive_byte K cfg st d =
      (let x = e\<lparr>recvBuf := (recvBuf e)[unat (indexOfRecvBuf e) := b_rx B (cec_world d)],
                cec_world := w, indexOfRecvBuf := indexOfRecvBuf e + 1\<rparr>
       in if st AND CEC_STATUS_RECV_EOMSG \<noteq> 0
          then parseRawMessage K cfg (indexOfRecvBuf e + 1) RecvBuf (x\<lparr>isReceiving := 0\<rparr>) else Some x)"
    "b_sent B w = b_sent B (cec_world d)"
proof -
  define w0 where "w0 = snd (reg_read K (CECBaseAddress + CEC_RX) (cec_world d))"
  define w where "w = reg_write K (CECBaseAddress + CEC_CONTROL) 0 w0"
  have world: "cec_world e = cec_world d" by (simp add: e)
  have v: "ucast (fst (reg_read K (CECBaseAddress + CEC_RX) (cec_world d))) = b_rx B (cec_world d)"
    using B by (simp add: cec_bus_def)
  have read: "cec_read_data K e = (fst (reg_read K (CECBaseAddress + CEC_RX) (cec_world d)), e\<lparr>cec_world := w0\<rparr>)"
    by (simp add: cec_read_data_def cec_read_register_u32_def cec_hw_get_def case_prod_beta Let_def w0_def world)
  have "irq_receive_byte K cfg st d =
      (let x = e\<lparr>recvBuf := (recvBuf e)[unat (indexOfRecvBuf e) := b_rx B (cec_world d)],
                cec_world := w, indexOfRecvBuf := indexOfRecvBuf e + 1\<rparr>
       in if st AND CEC_STATUS_RECV_EOMSG \<noteq> 0
          then parseRawMessage K cfg (indexOfRecvBuf e + 1) RecvBuf (x\<lparr>isReceiving := 0\<rparr>) else Some x)"
    unfolding irq_receive_byte_def e [symmetric]
    using i v by (simp add: read Let_def arr_set_def cec_acknowledge_def cec_write_register_u32_def cec_hw_def w_def)
  moreover have "b_sent B w = b_sent B (cec_world d)"
    using B by (simp add: w_def w0_def cec_bus_def observe_def)
  ultimately show thesis by (rule that)
qed

lemma rx_state_step:
  assumes B: "cec_bus K B" and f: "raises B f (rx_status i n) er b" and i: "i < RECV_BUF_SIZE"
    and bs: "i < length bs" "bs ! i = b" and d: "i = 0 \<or> d = rx_state i bs w0 d0" "i = 0 \<Longrightarrow> d = d0"
  obtains w where "cec_interrupt K cfg (cec_hw f d) =
      (let x = rx_state (Suc i) bs w d0 in
       if Suc i = n then parseRawMessage K cfg (of_nat (Suc i)) RecvBuf (x\<lparr>isReceiving := 0\<rparr>) else Some x)"
    "b_sent B w = b_sent B (cec_world d)"
proof -
  obtain w1 where w1: "cec_interrupt K cfg (cec_hw f d) = irq_receive_byte K cfg (rx_status i n) (d\<lparr>cec_world := w1\<rparr>)"
      "b_rx B w1 = b" "b_sent B w1 = b_sent B (cec_world d)"
    using cec_interrupt_raised [OF B f, of cfg d] rx_status_bits [of i n] by (simp only: if_False if_True not_False_eq_True) metis
  define e where "e = (if rx_status i n AND CEC_STATUS_RECV_SOMSG \<noteq> 0
      then (d\<lparr>cec_world := w1\<rparr>)\<lparr>isReceiving := 1, indexOfRecvBuf := 0, recvBuf := replicate RECV_BUF_SIZE 0\<rparr>
      else d\<lparr>cec_world := w1\<rparr>)"
  have e_eq: "e = rx_state i bs w1 d0"
    using d by (cases "i = 0") (auto simp: e_def rx_status_bits rx_state_def)
  have u: "unat (word_of_nat i :: u32) = i" using i by (intro unat_word_of_nat_u32) simp
  have "unat (indexOfRecvBuf e) < length (recvBuf e)" using i bs u by (simp add: e_eq rx_state_def)
  from irq_receive_byte_eq [OF B this e_def, of cfg] obtain w where
    w: "irq_receive_byte K cfg (rx_status i n) (d\<lparr>cec_world := w1\<rparr>) =
      (let x = e\<lparr>recvBuf := (recvBuf e)[unat (indexOfRecvBuf e) := b_rx B w1],
                cec_world := w, indexOfRecvBuf := indexOfRecvBuf e + 1\<rparr>
       in if Suc i = n
          then parseRawMessage K cfg (indexOfRecvBuf e + 1) RecvBuf (x\<lparr>isReceiving := 0\<rparr>) else Some x)"
      "b_sent B w = b_sent B w1"
    by (auto simp: rx_status_bits)
  have upd: "(take i bs @ replicate (RECV_BUF_SIZE - i) 0)[i := b] = take (Suc i) bs @ replicate (RECV_BUF_SIZE - Suc i) 0"
    using i bs by (cases "RECV_BUF_SIZE - i") (auto simp: list_update_append take_Suc_conv_app_nth)
  have eq1: "e\<lparr>recvBuf := (recvBuf e)[unat (indexOfRecvBuf e) := b_rx B w1], cec_world := w, indexOfRecvBuf := indexOfRecvBuf e + 1\<rparr>
      = rx_state (Suc i) bs w d0"
    using upd u w1(2) by (simp add: e_eq rx_state_def add.commute)
  have eq2: "indexOfRecvBuf e + 1 = of_nat (Suc i)" by (simp add: e_eq rx_state_def)
  show thesis
  proof (rule that [of w])
    show "b_sent B w = b_sent B (cec_world d)" using w(2) w1(3) by simp
  qed (simp only: w1(1) w(1) eq1, simp only: eq2)
qed

lemma rx_state_prefix:
  assumes B: "cec_bus K B" and n: "n \<le> length bs" and fs: "length fs = length bs"
    "\<And>i. i < length bs \<Longrightarrow> \<exists>er. raises B (fs ! i) (rx_status i n) er (bs ! i)"
    and k: "0 < k" "k < n" "k \<le> RECV_BUF_SIZE"
  shows "\<exists>w. cec_irqs K cfg (take k fs) d = Some (rx_state k bs w d) \<and> b_sent B w = b_sent B (cec_world d)"
  using k
proof (induction k)
  case (Suc k)
  have len: "k < length bs" "k < length fs" using Suc.prems n fs(1) by auto
  obtain er where f: "raises B (fs ! k) (rx_status k n) er (bs ! k)" using fs(2) [OF len(1)] by blast
  have split: "take (Suc k) fs = take k fs @ [fs ! k]" using len by (simp add: take_Suc_conv_app_nth)
  show ?case
  proof (cases "k = 0")
    case True
    then obtain w where "cec_interrupt K cfg (cec_hw (fs ! k) d) = Some (rx_state (Suc k) bs w d)"
        "b_sent B w = b_sent B (cec_world d)"
      using rx_state_step [OF B f _ len(1) refl, of d undefined d cfg] Suc.prems by auto
    then show ?thesis using True split by auto
  next
    case False
    then obtain w0 where w0: "cec_irqs K cfg (take k fs) d = Some (rx_state k bs w0 d)"
        "b_sent B w0 = b_sent B (cec_world d)"
      using Suc by auto
    obtain w where "cec_interrupt K cfg (cec_hw (fs ! k) (rx_state k bs w0 d)) = Some (rx_state (Suc k) bs w d)"
        "b_sent B w = b_sent B w0"
      using rx_state_step [OF B f _ len(1) refl, of "rx_state k bs w0 d" w0 d cfg] Suc.prems False
      by (auto simp: rx_state_def)
    then show ?thesis using w0 split by (auto simp: cec_irqs_append)
  qed
qed simp

text \<open>
  C6. Receiving: the interrupts that announce the bytes of a frame of at most 16 bytes, the first as
  the start and the last as the end of a message, collect exactly these bytes in the receive buffer,
  and then the message is evaluated, once, with its length. Nothing else of the driver's state has
  changed before, and nothing has been sent.
\<close>

theorem cec_frame_received:
  assumes B: "cec_bus K B" and n: "0 < length bs" "length bs \<le> RECV_BUF_SIZE" and fs: "length fs = length bs"
    "\<And>i. i < length bs \<Longrightarrow> \<exists>er. raises B (fs ! i) (rx_status i (length bs)) er (bs ! i)"
  shows "\<exists>w. cec_irqs K cfg fs d = parseRawMessage K cfg (of_nat (length bs)) RecvBuf
      (d\<lparr>indexOfRecvBuf := of_nat (length bs), recvBuf := bs @ replicate (RECV_BUF_SIZE - length bs) 0,
         cec_world := w, isReceiving := 0\<rparr>) \<and>
    b_sent B w = b_sent B (cec_world d)"
proof -
  obtain k where k: "length bs = Suc k" using n(1) by (cases "length bs") auto
  obtain er where f: "raises B (fs ! k) (rx_status k (length bs)) er (bs ! k)" using fs(2) [of k] k by auto
  have split: "fs = take k fs @ [fs ! k]" using fs(1) k by (metis lessI take_Suc_conv_app_nth take_all_iff order.refl)
  obtain w0 where w0: "k = 0 \<or> cec_irqs K cfg (take k fs) d = Some (rx_state k bs w0 d)"
      "k \<noteq> 0 \<Longrightarrow> b_sent B w0 = b_sent B (cec_world d)"
    using rx_state_prefix [OF B order.refl fs, of k cfg d] k n(2) by (cases "k = 0") auto
  define e where "e = (if k = 0 then d else rx_state k bs w0 d)"
  have e: "cec_irqs K cfg (take k fs) d = Some e" "b_sent B (cec_world e) = b_sent B (cec_world d)"
    using w0 by (auto simp: e_def rx_state_def)
  obtain w where w: "cec_interrupt K cfg (cec_hw (fs ! k) e) =
      parseRawMessage K cfg (of_nat (length bs)) RecvBuf ((rx_state (Suc k) bs w d)\<lparr>isReceiving := 0\<rparr>)"
      "b_sent B w = b_sent B (cec_world e)"
  proof -
    have d: "k = 0 \<or> e = rx_state k bs w0 d" "k = 0 \<Longrightarrow> e = d" by (simp_all add: e_def)
    show thesis using rx_state_step [OF B f _ _ refl d, of cfg] that k n(2) by (simp only: Let_def) auto
  qed
  have "cec_irqs K cfg fs d = cec_interrupt K cfg (cec_hw (fs ! k) e)"
    by (subst split) (simp add: cec_irqs_append e)
  then show ?thesis using w e k by (auto simp: rx_state_def)
qed

theorem cec_frame_received_witness:
  "\<exists>w. cec_irqs cec_machine_kernel cec_machine_cfg [raise_irq 144 0x0F, raise_irq 160 0x36] cec_machine_start =
     parseRawMessage cec_machine_kernel cec_machine_cfg 2 RecvBuf
      (cec_machine_start\<lparr>indexOfRecvBuf := 2, recvBuf := [0x0F, 0x36] @ replicate 14 0, cec_world := w, isReceiving := 0\<rparr>)"
proof -
  have "\<exists>er. raises machine_bus ([raise_irq 144 0x0F, raise_irq 160 0x36] ! i) (rx_status i (Suc (Suc 0))) er ([0x0F, 0x36] ! i)"
    if "i < Suc (Suc 0)" for i
    using that machine_raises by (auto simp: less_Suc_eq rx_status_def)
  then show ?thesis
    using cec_frame_received [OF machine_cec_bus, of "[0x0F, 0x36]" "[raise_irq 144 0x0F, raise_irq 160 0x36]" cec_machine_cfg cec_machine_start]
    by auto
qed

section \<open>Sending a frame\<close>

definition tx_state :: "nat \<Rightarrow> 'w \<Rightarrow> 'w cec \<Rightarrow> 'w cec" where
  "tx_state k w d = d\<lparr>indexOfSendBuf := indexOfSendBuf d + of_nat k, cec_world := w\<rparr>"

text \<open>The acknowledgement that follows byte \<open>i\<close> of the send buffer: the last one is marked as the end.\<close>

definition tx_ack :: "u32 \<Rightarrow> u32 \<Rightarrow> u8" where
  "tx_ack n i = (if i + 1 = n then 0x02 else 0)"

lemma tx_interrupt:
  assumes B: "cec_bus K B" and f: "raises B f CEC_STATUS_SEND_BTF er rx"
  obtains (sent) w where "unat (indexOfSendBuf d) < length (sendBuf d)"
      "cec_interrupt K cfg (cec_hw f d) = Some (tx_state 1 w d)"
      "b_sent B w = b_sent B (cec_world d) @ [sendBuf d ! unat (indexOfSendBuf d)]"
      "b_ctl B w = b_ctl B (cec_world d) @ [tx_ack (sizeOfSendBuf d) (indexOfSendBuf d)]"
  | (outside) "length (sendBuf d) \<le> unat (indexOfSendBuf d)" "cec_interrupt K cfg (cec_hw f d) = None"
proof -
  obtain w1 where w1: "cec_interrupt K cfg (cec_hw f d) = irq_send_byte K cfg CEC_STATUS_SEND_BTF (d\<lparr>cec_world := w1\<rparr>)"
      "b_sent B w1 = b_sent B (cec_world d)" "b_ctl B w1 = b_ctl B (cec_world d)"
    using cec_interrupt_raised [OF B f, of cfg d] by auto
  define w2 where "w2 = reg_write K (CECBaseAddress + CEC_TX) (ucast (sendBuf d ! unat (indexOfSendBuf d))) w1"
  define w where "w = reg_write K (CECBaseAddress + CEC_CONTROL) (ucast (tx_ack (sizeOfSendBuf d) (indexOfSendBuf d))) w2"
  show thesis
  proof (cases "unat (indexOfSendBuf d) < length (sendBuf d)")
    case True
    have "cec_interrupt K cfg (cec_hw f d) = Some (tx_state 1 w d)"
      unfolding w1(1) using True by (simp add: irq_send_byte_def arr_get_def Let_def cec_reg_defs cec_write_register_u32_def
          cec_hw_def tx_state_def w_def w2_def tx_ack_def)
    moreover have "b_sent B w = b_sent B (cec_world d) @ [sendBuf d ! unat (indexOfSendBuf d)]"
        "b_ctl B w = b_ctl B (cec_world d) @ [tx_ack (sizeOfSendBuf d) (indexOfSendBuf d)]"
      using B w1 by (simp_all add: w_def w2_def cec_bus_def)
    ultimately show thesis using sent True by blast
  next
    case False
    then have "cec_interrupt K cfg (cec_hw f d) = None"
      unfolding w1(1) by (simp add: irq_send_byte_def arr_get_def)
    then show thesis using outside False by simp
  qed
qed

lemma tx_state_add: "tx_state k w (tx_state 1 w' d) = tx_state (Suc k) w d"
  by (simp add: tx_state_def add.assoc)

lemma tx_state_0: "tx_state 0 (cec_world d) d = d"
  by (simp add: tx_state_def)

lemma tx_run:
  assumes B: "cec_bus K B" and fs: "\<And>f. f \<in> set fs \<Longrightarrow> \<exists>er rx. raises B f CEC_STATUS_SEND_BTF er rx"
    and len: "length (sendBuf d) = SEND_BUF_SIZE" and i: "i = unat (indexOfSendBuf d)" "i \<le> SEND_BUF_SIZE"
  shows "if i + length fs \<le> SEND_BUF_SIZE
    then \<exists>w. cec_irqs K cfg fs d = Some (tx_state (length fs) w d) \<and>
       b_sent B w = b_sent B (cec_world d) @ take (length fs) (drop i (sendBuf d)) \<and>
       b_ctl B w = b_ctl B (cec_world d) @ map (\<lambda>j. tx_ack (sizeOfSendBuf d) (of_nat (i + j))) [0..<length fs]
    else cec_irqs K cfg fs d = None"
  using fs len i
proof (induction fs arbitrary: d i)
  case Nil
  then show ?case using tx_state_0 [of d, symmetric] by (simp, intro exI [of _ "cec_world d"]) simp
next
  case (Cons f fs)
  obtain er rx where f: "raises B f CEC_STATUS_SEND_BTF er rx" using Cons.prems(1) [of f] by auto
  show ?case
  proof (cases rule: tx_interrupt [OF B f, of d cfg])
    case (1 w)
    let ?d = "tx_state 1 w d"
    have d: "length (sendBuf ?d) = SEND_BUF_SIZE" "Suc i = unat (indexOfSendBuf ?d)" "Suc i \<le> SEND_BUF_SIZE"
      "sendBuf ?d = sendBuf d" "sizeOfSendBuf ?d = sizeOfSendBuf d" "cec_world ?d = w"
      using Cons.prems 1 by (simp_all add: tx_state_def unat_add_u32)
    have idx: "indexOfSendBuf d = of_nat i" using Cons.prems(3) by simp
    have "i < SEND_BUF_SIZE" using 1 Cons.prems by simp
    then have cons: "take (Suc n) (drop i (sendBuf d)) = sendBuf d ! i # take n (drop (Suc i) (sendBuf d))" for n
      using Cons.prems(2) by (simp add: take_drop_nth_Cons)
    have acks: "map (\<lambda>j. tx_ack (sizeOfSendBuf d) (of_nat (i + j))) [0..<Suc n] =
        tx_ack (sizeOfSendBuf d) (of_nat i) # map (\<lambda>j. tx_ack (sizeOfSendBuf d) (of_nat (Suc i + j))) [0..<n]" for n
      by (subst upt_conv_Cons) (simp_all add: map_Suc_upt [symmetric] comp_def add.left_commute del: map_Suc_upt upt_Suc)
    have IH: "if Suc i + length fs \<le> SEND_BUF_SIZE
      then \<exists>w'. cec_irqs K cfg fs ?d = Some (tx_state (length fs) w' ?d) \<and>
         b_sent B w' = b_sent B w @ take (length fs) (drop (Suc i) (sendBuf d)) \<and>
         b_ctl B w' = b_ctl B w @ map (\<lambda>j. tx_ack (sizeOfSendBuf d) (of_nat (Suc i + j))) [0..<length fs]
      else cec_irqs K cfg fs ?d = None"
      using Cons.IH [OF _ d(1-3)] Cons.prems(1) by (simp only: d(4-6)) auto
    have step: "cec_irqs K cfg (f # fs) d = cec_irqs K cfg fs ?d" using 1(2) by simp
    show ?thesis
    proof (cases "Suc i + length fs \<le> SEND_BUF_SIZE")
      case True
      then obtain w' where w': "cec_irqs K cfg fs ?d = Some (tx_state (length fs) w' ?d)"
          "b_sent B w' = b_sent B w @ take (length fs) (drop (Suc i) (sendBuf d))"
          "b_ctl B w' = b_ctl B w @ map (\<lambda>j. tx_ack (sizeOfSendBuf d) (of_nat (Suc i + j))) [0..<length fs]"
        using IH by auto
      have "i + length (f # fs) \<le> SEND_BUF_SIZE" using True by simp
      moreover have "cec_irqs K cfg (f # fs) d = Some (tx_state (length (f # fs)) w' d)"
        by (simp only: step w'(1) tx_state_add list.size(4) add_Suc_right add_0_right)
      moreover have "b_sent B w' = b_sent B (cec_world d) @ take (length (f # fs)) (drop i (sendBuf d))"
        using w'(2) 1(3) Cons.prems(3) cons [of "length fs"] by (simp only: list.size(4) add_Suc_right add_0_right append_assoc append_Cons append_Nil)
      moreover have "b_ctl B w' = b_ctl B (cec_world d) @ map (\<lambda>j. tx_ack (sizeOfSendBuf d) (of_nat (i + j))) [0..<length (f # fs)]"
        using w'(3) 1(4) idx acks [of "length fs"] by (simp only: list.size(4) add_Suc_right add_0_right append_assoc append_Cons append_Nil)
      ultimately show ?thesis by (simp only: if_True) blast
    next
      case False
      then show ?thesis using IH step by simp
    qed
  next
    case 2
    then show ?thesis using Cons.prems by simp
  qed
qed

lemma tx_end_interrupt:
  assumes B: "cec_bus K B" and f: "raises B f (CEC_STATUS_SEND_BTF OR CEC_STATUS_SEND_EOMSG) er rx"
  obtains w where "cec_interrupt K cfg (cec_hw f d) =
      parseRawMessage K cfg (indexOfSendBuf d) SendBuf (d\<lparr>isSending := 0, cec_world := w\<rparr>)"
    "b_sent B w = b_sent B (cec_world d)" "b_ctl B w = b_ctl B (cec_world d) @ [0]"
proof -
  obtain w1 where w1: "cec_interrupt K cfg (cec_hw f d) =
        irq_send_byte K cfg (CEC_STATUS_SEND_BTF OR CEC_STATUS_SEND_EOMSG) (d\<lparr>cec_world := w1\<rparr>)"
      "b_sent B w1 = b_sent B (cec_world d)" "b_ctl B w1 = b_ctl B (cec_world d)"
    using cec_interrupt_raised [OF B f, of cfg d] by auto
  let ?w = "reg_write K (CECBaseAddress + CEC_CONTROL) 0 w1"
  have "cec_interrupt K cfg (cec_hw f d) =
      parseRawMessage K cfg (indexOfSendBuf d) SendBuf (d\<lparr>isSending := 0, cec_world := ?w\<rparr>)"
    unfolding w1(1) by (simp add: irq_send_byte_def Let_def cec_acknowledge_def cec_write_register_u32_def cec_hw_def)
  moreover have "b_sent B ?w = b_sent B (cec_world d)" "b_ctl B ?w = b_ctl B (cec_world d) @ [0]"
    using B w1 by (simp_all add: cec_bus_def)
  ultimately show thesis by (rule that)
qed

text \<open>The frame that goes out for a message: its first byte carries the own address as the source.\<close>

definition own_frame :: "'w cec \<Rightarrow> u8 list \<Rightarrow> u8 list" where
  "own_frame d bs = (push_bit 4 (logicalDeviceType d) + (hd bs AND 0xF)) # tl bs"

lemma sendMessage_loads:
  assumes B: "cec_bus K B" and idle: "isSending d = 0" and buf: "length (sendBuf d) = SEND_BUF_SIZE"
    and bs: "1 \<le> length bs" "length bs \<le> SEND_BUF_SIZE"
  obtains w where "sendMessage K (of_nat (length bs)) (Local bs) d = Some (d\<lparr>sendBuf := own_frame d bs @ drop (length bs) (sendBuf d),
       sizeOfSendBuf := of_nat (length bs), indexOfSendBuf := 1, isSending := 1, retries := 3,
       sendCommand := Suc (sendCommand d), cec_world := w\<rparr>)"
    "b_sent B w = b_sent B (cec_world d) @ [own_frame d bs ! 0]" "b_ctl B w = b_ctl B (cec_world d)"
proof -
  have n: "unat (word_of_nat (length bs) :: u32) = length bs" using bs by (intro unat_word_of_nat_u32) simp
  have ne: "bs \<noteq> []" using bs by auto
  have lb: "loaded_buf (length bs) (Local bs) d = own_frame d bs @ drop (length bs) (sendBuf d)"
    using ne by (cases bs) (simp_all add: loaded_buf_def own_header_def own_frame_def)
  let ?w = "reg_write K (CECBaseAddress + CEC_TX) (ucast (own_frame d bs ! 0))
         (reg_write K (CECBaseAddress + CEC_ADDRESS) (ucast (logicalDeviceType d)) (cec_world d))"
  have "sendMessage K (of_nat (length bs)) (Local bs) d = Some (d\<lparr>sendBuf := own_frame d bs @ drop (length bs) (sendBuf d),
       sizeOfSendBuf := of_nat (length bs), indexOfSendBuf := 1, isSending := 1, retries := 3,
       sendCommand := Suc (sendCommand d), cec_world := ?w\<rparr>)"
    using n ne bs buf by (simp add: sendMessage_def sendMessageWithRetry_def send_wait_idle [OF idle] send_load_eq lb own_frame_def)
  moreover have "b_sent B ?w = b_sent B (cec_world d) @ [own_frame d bs ! 0]" "b_ctl B ?w = b_ctl B (cec_world d)"
    using B by (simp_all add: cec_bus_def observe_def)
  ultimately show thesis by (rule that)
qed

lemma task_starts:
  assumes B: "cec_bus K B" and quiet: "\<And>e. notEndTask e \<noteq> 0 \<Longrightarrow> k_udelay K 10000 e = e" and n: "notEndTask d \<noteq> 0" "sendCommand d = Suc m"
  obtains w where "cec_task K 2 (Task_Down, d) = (Task_Test, d\<lparr>sendCommand := m,
        sendCommandWithDelay := sendCommandWithDelay d - 1, cec_world := w\<rparr>)"
    "b_sent B w = b_sent B (cec_world d)"
    "b_ctl B w = b_ctl B (cec_world d) @ [if sizeOfSendBuf d = 1 then 3 else 1]"
proof -
  let ?w = "reg_write K (CECBaseAddress + CEC_CONTROL) (if sizeOfSendBuf d = 1 then 3 else 1) (cec_world d)"
  have "cec_task K 2 (Task_Down, d) = (Task_Test, d\<lparr>sendCommand := m,
        sendCommandWithDelay := sendCommandWithDelay d - 1, cec_world := ?w\<rparr>)"
    using n by (simp add: numeral_2_eq_2 Let_def quiet cec_start_sending_def cec_write_register_u32_def cec_hw_def)
  moreover have "b_sent B ?w = b_sent B (cec_world d)"
    "b_ctl B ?w = b_ctl B (cec_world d) @ [if sizeOfSendBuf d = 1 then 3 else 1]"
    using B by (simp_all add: cec_bus_def)
  ultimately show thesis by (rule that)
qed

lemma tx_acks:
  assumes "m \<le> SEND_BUF_SIZE"
  shows "map (\<lambda>j. tx_ack (of_nat (m + 2)) (of_nat (1 + j))) [0..<Suc m] = replicate m 0 @ [2]"
proof -
  have "tx_ack (of_nat (m + 2)) (of_nat (1 + j)) = (if j = m then 2 else 0)" if "j < Suc m" for j
  proof -
    have a: "(of_nat (1 + j) + 1 :: u32) = of_nat (j + 2)" by simp
    have "unat (of_nat (j + 2) :: u32) = j + 2" "unat (of_nat (m + 2) :: u32) = m + 2"
      using that assms by (intro unat_word_of_nat_u32; simp)+
    then have b: "(of_nat (j + 2) :: u32) = of_nat (m + 2) \<longleftrightarrow> j = m"
      by (metis add_right_cancel)
    show ?thesis unfolding tx_ack_def a b ..
  qed
  then have "map (\<lambda>j. tx_ack (of_nat (m + 2)) (of_nat (1 + j))) [0..<Suc m] = map (\<lambda>j. if j = m then 2 else 0) [0..<Suc m]"
    by (intro map_cong) auto
  also have "\<dots> = replicate m 0 @ [2]" by (auto simp: list_eq_iff_nth_eq nth_append)
  finally show ?thesis .
qed

text \<open>
  C4. Sending: a message of 1 to 16 bytes handed to \<^verbatim>\<open>sendMessage\<close> while nothing is being sent goes out
  completely and in order. The thread starts the transmission (as a ping if it has a single byte),
  each interrupt that asks for data is given the next byte, the last byte and no other is marked
  as the end of the message, and with the final interrupt the driver is ready for the next message
  and evaluates the one it has sent.
\<close>

theorem cec_frame_sent:
  assumes B: "cec_bus K B" and quiet: "\<And>e. notEndTask e \<noteq> 0 \<Longrightarrow> k_udelay K 10000 e = e"
    and d: "isSending d = 0" "length (sendBuf d) = SEND_BUF_SIZE" "notEndTask d \<noteq> 0"
    and bs: "1 \<le> length bs" "length bs \<le> SEND_BUF_SIZE"
    and fs: "length fs = length bs - 1" "\<And>f. f \<in> set fs \<Longrightarrow> \<exists>er rx. raises B f CEC_STATUS_SEND_BTF er rx"
    and g: "raises B g (CEC_STATUS_SEND_BTF OR CEC_STATUS_SEND_EOMSG) er rx"
  shows "\<exists>d1 d2 d3. sendMessage K (of_nat (length bs)) (Local bs) d = Some d1 \<and>
    cec_task K 2 (Task_Down, d1) = (Task_Test, d2) \<and>
    cec_irqs K cfg (fs @ [g]) d2 = parseRawMessage K cfg (of_nat (length bs)) SendBuf d3 \<and>
    isSending d3 = 0 \<and> sendBuf d3 = own_frame d bs @ drop (length bs) (sendBuf d) \<and>
    b_sent B (cec_world d3) = b_sent B (cec_world d) @ own_frame d bs \<and>
    b_ctl B (cec_world d3) = b_ctl B (cec_world d) @ [if length bs = 1 then 3 else 1] @
      replicate (length bs - 2) 0 @ (if length bs = 1 then [] else [2]) @ [0]"
proof -
  let ?n = "length bs" and ?F = "own_frame d bs"
  obtain w1 where w1: "sendMessage K (of_nat ?n) (Local bs) d = Some (d\<lparr>sendBuf := ?F @ drop ?n (sendBuf d),
       sizeOfSendBuf := of_nat ?n, indexOfSendBuf := 1, isSending := 1, retries := 3,
       sendCommand := Suc (sendCommand d), cec_world := w1\<rparr>)" (is "_ = Some ?d1")
    "b_sent B w1 = b_sent B (cec_world d) @ [?F ! 0]" "b_ctl B w1 = b_ctl B (cec_world d)"
    using sendMessage_loads [OF B d(1, 2) bs] .
  obtain w2 d2 where d2: "cec_task K 2 (Task_Down, ?d1) = (Task_Test, d2)"
      "sendBuf d2 = ?F @ drop ?n (sendBuf d)" "sizeOfSendBuf d2 = of_nat ?n" "indexOfSendBuf d2 = 1" "cec_world d2 = w2"
    and w2: "b_sent B w2 = b_sent B w1" "b_ctl B w2 = b_ctl B w1 @ [if (of_nat ?n :: u32) = 1 then 3 else 1]"
    using task_starts [OF B quiet, of ?d1 "sendCommand d"] d(3) by force
  have F: "length ?F = ?n" "?F ! 0 # take (?n - 1) (drop 1 (?F @ xs)) = ?F" for xs
    using bs by (auto simp: own_frame_def)
  have n1: "(of_nat ?n :: u32) = 1 \<longleftrightarrow> ?n = 1"
    using bs unat_word_of_nat_u32 [of ?n] by (auto dest: arg_cong [of _ _ unat])
  have run: "1 = unat (indexOfSendBuf d2)" "1 \<le> SEND_BUF_SIZE" "length (sendBuf d2) = SEND_BUF_SIZE"
    using d2 bs d(2) F(1) by simp_all
  have "1 + length fs \<le> SEND_BUF_SIZE" using fs(1) bs by simp
  then obtain w3 where w3: "cec_irqs K cfg fs d2 = Some (tx_state (?n - 1) w3 d2)"
      "b_sent B w3 = b_sent B w2 @ take (?n - 1) (drop 1 (?F @ drop ?n (sendBuf d)))"
      "b_ctl B w3 = b_ctl B w2 @ map (\<lambda>j. tx_ack (of_nat ?n) (of_nat (1 + j))) [0..<?n - 1]"
    using tx_run [OF B _ run(3, 1, 2), of fs cfg] fs(2) unfolding d2(2-5) fs(1) [symmetric] by auto
  obtain w4 where w4: "cec_interrupt K cfg (cec_hw g (tx_state (?n - 1) w3 d2)) =
      parseRawMessage K cfg (indexOfSendBuf (tx_state (?n - 1) w3 d2)) SendBuf ((tx_state (?n - 1) w3 d2)\<lparr>isSending := 0, cec_world := w4\<rparr>)"
      (is "_ = parseRawMessage _ _ _ _ ?d3")
      "b_sent B w4 = b_sent B w3" "b_ctl B w4 = b_ctl B w3 @ [0]"
    using tx_end_interrupt [OF B g, of cfg "tx_state (?n - 1) w3 d2"] by (auto simp: tx_state_def)
  have idx: "indexOfSendBuf (tx_state (?n - 1) w3 d2) = of_nat ?n"
    using bs d2(4) by (simp add: tx_state_def of_nat_diff)
  have irqs: "cec_irqs K cfg (fs @ [g]) d2 = parseRawMessage K cfg (of_nat ?n) SendBuf ?d3"
    using w3(1) w4(1) idx by (simp add: cec_irqs_append)
  have acks: "map (\<lambda>j. tx_ack (of_nat ?n) (of_nat (1 + j))) [0..<?n - 1] = replicate (?n - 2) 0 @ (if ?n = 1 then [] else [2])"
  proof (cases "?n = 1")
    case False
    then have e: "Suc (?n - 2) = ?n - 1" "?n - 2 + 2 = ?n" using bs by simp_all
    show ?thesis using tx_acks [of "?n - 2", unfolded e] False bs by simp
  qed simp
  show ?thesis
    using w1 w2 w3 w4 irqs F n1 acks d2
    by (intro exI [of _ ?d1] exI [of _ d2] exI [of _ ?d3]) (simp add: tx_state_def)
qed

theorem cec_frame_sent_witness:
  "\<exists>d1 d2 d3. sendMessage cec_machine_kernel 2 (Local [0x00, 0x04]) cec_machine_start = Some d1 \<and>
     cec_task cec_machine_kernel 2 (Task_Down, d1) = (Task_Test, d2) \<and>
     cec_irqs cec_machine_kernel cec_machine_cfg [raise_irq 8 0, raise_irq 10 0] d2 =
       parseRawMessage cec_machine_kernel cec_machine_cfg 2 SendBuf d3 \<and>
     isSending d3 = 0 \<and> cm_tx (cec_world d3) = [0x40, 0x04] \<and> cm_ctl (cec_world d3) = [1, 2, 0]"
proof -
  have quiet: "k_udelay cec_machine_kernel 10000 e = e" if "notEndTask e \<noteq> 0" for e
    using that by (simp add: cec_machine_kernel_def)
  have d: "isSending cec_machine_start = 0" "length (sendBuf cec_machine_start) = SEND_BUF_SIZE" "notEndTask cec_machine_start \<noteq> 0"
    by (simp_all add: cec_machine_start_def)
  have g: "raises machine_bus (raise_irq 10 0) (CEC_STATUS_SEND_BTF OR CEC_STATUS_SEND_EOMSG) 0 0"
    using machine_raises [of 10 0] by simp
  have fs: "\<exists>er rx. raises machine_bus f CEC_STATUS_SEND_BTF er rx" if "f \<in> set [raise_irq 8 0]" for f
    using that machine_raises by auto
  have "cm_tx (cec_world cec_machine_start) = []" "cm_ctl (cec_world cec_machine_start) = []"
      "own_frame cec_machine_start [0x00, 0x04] = [0x40, 0x04]"
    by (simp_all add: cec_machine_start_def own_frame_def)
  then show ?thesis
    using cec_frame_sent [OF machine_cec_bus quiet d, of "[0x00, 0x04]" "[raise_irq 8 0]", OF _ _ _ _ _ g, of cec_machine_cfg] fs
    by (auto simp: machine_bus_def)
qed

text \<open>
  A message without bytes, as \<^verbatim>\<open>/proc/stb/cec/send\<close> makes it from fewer than three characters, is
  not sent at all but runs out of the buffer: 15 more bytes of the send buffer go out, none of them
  marked as the end, and at the sixteenth request for data the handler reads behind the buffer.
\<close>

theorem cec_empty_message_runs_out:
  assumes B: "cec_bus K B" and d: "isSending d = 0" "length (sendBuf d) = SEND_BUF_SIZE" "length (inputBuffer d) = INPUT_BUFFER_SIZE"
    and fs: "\<And>f. f \<in> set fs \<Longrightarrow> \<exists>er rx. raises B f CEC_STATUS_SEND_BTF er rx"
  shows "\<exists>d1. sendMessage K 0 InputBuf d = Some d1 \<and>
    (if length fs \<le> 15
     then \<exists>d2. cec_irqs K cfg fs d1 = Some d2 \<and> b_sent B (cec_world d2) = b_sent B (cec_world d) @ take (Suc (length fs)) (sendBuf d) \<and>
       b_ctl B (cec_world d2) = b_ctl B (cec_world d) @ replicate (length fs) 0
     else cec_irqs K cfg fs d1 = None)"
proof -
  let ?b = "(inputBuffer d)[0 := push_bit 4 (logicalDeviceType d) + (inputBuffer d ! 0 AND 0xF)]"
  let ?w = "reg_write K (CECBaseAddress + CEC_TX) (ucast (sendBuf d ! 0))
         (reg_write K (CECBaseAddress + CEC_ADDRESS) (ucast (logicalDeviceType d)) (cec_world d))"
  obtain d1 where d1: "sendMessage K 0 InputBuf d = Some d1" "sendBuf d1 = sendBuf d" "sizeOfSendBuf d1 = 0"
      "indexOfSendBuf d1 = 1" "cec_world d1 = ?w"
    using d by (force simp: sendMessage_def sendMessageWithRetry_def send_wait_idle send_load_eq loaded_buf_def
        own_header_def simp flip: length_greater_0_conv)
  have w: "b_sent B ?w = b_sent B (cec_world d) @ [sendBuf d ! 0]" "b_ctl B ?w = b_ctl B (cec_world d)"
    using B by (simp_all add: cec_bus_def observe_def)
  have run: "length (sendBuf d1) = SEND_BUF_SIZE" "1 = unat (indexOfSendBuf d1)" "1 \<le> SEND_BUF_SIZE"
    using d1 d(2) by simp_all
  have first: "sendBuf d ! 0 # take n (drop 1 (sendBuf d)) = take (Suc n) (sendBuf d)" for n
    using d(2) take_drop_nth_Cons [of 0 "sendBuf d" "Suc n"] by simp
  show ?thesis
  proof (cases "length fs \<le> 15")
    case True
    then obtain w3 where w3: "cec_irqs K cfg fs d1 = Some (tx_state (length fs) w3 d1)"
        "b_sent B w3 = b_sent B ?w @ take (length fs) (drop 1 (sendBuf d))"
        "b_ctl B w3 = b_ctl B ?w @ map (\<lambda>j. tx_ack 0 (of_nat (1 + j))) [0..<length fs]"
      using tx_run [OF B _ run, of fs cfg] fs unfolding d1(2-5) by auto
    have "tx_ack 0 (of_nat (1 + j)) = 0" if "j < length fs" for j
    proof -
      have "unat (of_nat (j + 2) :: u32) = j + 2" using that True by (intro unat_word_of_nat_u32) simp
      then have "(of_nat (j + 2) :: u32) \<noteq> 0" by (metis add_is_0 numeral_eq_Suc nat.distinct(1) unat_0)
      then show ?thesis by (simp add: tx_ack_def add.commute)
    qed
    then have "map (\<lambda>j. tx_ack 0 (of_nat (1 + j))) [0..<length fs] = replicate (length fs) 0"
      by (intro nth_equalityI) auto
    then show ?thesis using True d1(1) w3 w first by (simp add: tx_state_def)
  next
    case False
    then show ?thesis using tx_run [OF B _ run, of fs cfg] fs d1(1) by auto
  qed
qed

theorem cec_empty_message_runs_out_witness:
  "\<exists>d1. sendMessage cec_machine_kernel 0 InputBuf cec_machine_start = Some d1 \<and>
     cec_irqs cec_machine_kernel cec_machine_cfg (replicate 16 (raise_irq 8 0)) d1 = None"
proof -
  have "\<exists>er rx. raises machine_bus f CEC_STATUS_SEND_BTF er rx" if "f \<in> set (replicate 16 (raise_irq 8 0))" for f
    using that machine_raises by auto
  moreover have "isSending cec_machine_start = 0" "length (sendBuf cec_machine_start) = SEND_BUF_SIZE"
      "length (inputBuffer cec_machine_start) = INPUT_BUFFER_SIZE"
    by (simp_all add: cec_machine_start_def)
  ultimately show ?thesis
    using cec_empty_message_runs_out [OF machine_cec_bus, of cec_machine_start "replicate 16 (raise_irq 8 0)" cec_machine_cfg]
    by simp
qed

section \<open>Repeating a message\<close>

text \<open>An interrupt that reports that the message could not be sent, other than the wanted one after a ping.\<close>

definition send_fails :: "'w bus \<Rightarrow> 'w cec \<Rightarrow> ('w \<Rightarrow> 'w) \<Rightarrow> bool" where
  "send_fails B d f \<longleftrightarrow> (\<exists>st er rx. raises B f st er rx \<and> st AND CEC_STATUS_RECV_ERR = 0 \<and>
     st AND CEC_STATUS_SEND_ERR \<noteq> 0 \<and> (isFirstKiss d \<noteq> 1 \<or> er AND CEC_ERROR_ACK = 0))"

definition send_header :: "'w cec \<Rightarrow> u8" where
  "send_header d = push_bit 4 (logicalDeviceType d) + (sendBuf d ! 0 AND 0xF)"

lemma error_interrupt:
  assumes B: "cec_bus K B" and f: "send_fails B d f" and buf: "length (sendBuf d) = SEND_BUF_SIZE" "unat (sizeOfSendBuf d) \<le> SEND_BUF_SIZE"
  obtains w where "cec_interrupt K cfg (cec_hw f d) =
      (if retries d > 0
       then Some (d\<lparr>isSending := 0, sendBuf := (sendBuf d)[0 := send_header d], sizeOfSendBuf := sizeOfSendBuf d,
              indexOfSendBuf := 1, isSending := 1, retries := retries d - 1,
              sendCommand := Suc (sendCommand d), cec_world := w\<rparr>)
       else Some (d\<lparr>isSending := 0, cec_world := w\<rparr>))"
    "b_sent B w = b_sent B (cec_world d) @ (if retries d > 0 then [send_header d] else [])"
proof -
  obtain st er rx where st: "raises B f st er rx" "st AND CEC_STATUS_RECV_ERR = 0"
      "st AND CEC_STATUS_SEND_ERR \<noteq> 0" "isFirstKiss d \<noteq> 1 \<or> er AND CEC_ERROR_ACK = 0"
    using f by (auto simp: send_fails_def)
  obtain w1 where w1: "cec_interrupt K cfg (cec_hw f d) = irq_send_error K st er (d\<lparr>cec_world := w1\<rparr>)"
      "b_sent B w1 = b_sent B (cec_world d)"
    using cec_interrupt_raised [OF B st(1), of cfg d] st by auto
  define w2 where "w2 = reg_write K (CECBaseAddress + CEC_CONTROL) (if st AND CEC_STATUS_SEND_EOMSG \<noteq> 0 then 0x02 else 0x00) w1"
  have ack: "(if st AND CEC_STATUS_SEND_EOMSG \<noteq> 0 then cec_acknowledge_eom K (d\<lparr>cec_world := w1\<rparr>)
      else cec_acknowledge K (d\<lparr>cec_world := w1\<rparr>)) = d\<lparr>cec_world := w2\<rparr>"
    by (simp add: cec_acknowledge_eom_def cec_acknowledge_def cec_write_register_u32_def cec_hw_def w2_def)
  have sent2: "b_sent B w2 = b_sent B (cec_world d)" using B w1(2) by (simp add: w2_def cec_bus_def)
  define w where "w = (if retries d > 0 then reg_write K (CECBaseAddress + CEC_TX) (ucast (send_header d))
         (reg_write K (CECBaseAddress + CEC_ADDRESS) (ucast (logicalDeviceType d)) w2) else w2)"
  show thesis
  proof (rule that [of w])
    show "b_sent B w = b_sent B (cec_world d) @ (if retries d > 0 then [send_header d] else [])"
      using B sent2 by (simp add: w_def cec_bus_def observe_def)
  qed (use st(4) buf in \<open>simp add: w1(1) irq_send_error_def Let_def ack sendMessageWithRetry_def send_wait_idle send_load_eq
        loaded_buf_def own_header_def send_header_def w_def ucast_u8_minus_1 flip: length_greater_0_conv\<close>)
qed

text \<open>
  C29. A message that cannot be sent is repeated as often as \<^verbatim>\<open>retries\<close> says, and then given up: of any
  number of failing transmissions only the first ones are followed by another attempt (the first byte
  with the own address is loaded again and the thread is woken), the counter goes down by one with
  each, and after the last one nothing is being sent any more.
\<close>

theorem cec_retries:
  assumes B: "cec_bus K B" and fs: "\<And>f. f \<in> set fs \<Longrightarrow> send_fails B d f"
    and buf: "length (sendBuf d) = SEND_BUF_SIZE" "unat (sizeOfSendBuf d) \<le> SEND_BUF_SIZE"
    and r: "r = unat (retries d)"
  shows "\<exists>d'. cec_irqs K cfg fs d = Some d' \<and> unat (retries d') = r - length fs \<and>
    sendCommand d' = sendCommand d + min r (length fs) \<and>
    b_sent B (cec_world d') = b_sent B (cec_world d) @ replicate (min r (length fs)) (send_header d) \<and>
    isSending d' = (if length fs = 0 then isSending d else if length fs \<le> r then 1 else 0)"
  using fs buf r
proof (induction fs arbitrary: d r)
  case (Cons f fs)
  obtain w where w: "cec_interrupt K cfg (cec_hw f d) =
      (if retries d > 0
       then Some (d\<lparr>isSending := 0, sendBuf := (sendBuf d)[0 := send_header d], sizeOfSendBuf := sizeOfSendBuf d,
              indexOfSendBuf := 1, isSending := 1, retries := retries d - 1,
              sendCommand := Suc (sendCommand d), cec_world := w\<rparr>)
       else Some (d\<lparr>isSending := 0, cec_world := w\<rparr>))"
    "b_sent B w = b_sent B (cec_world d) @ (if retries d > 0 then [send_header d] else [])"
    using error_interrupt [OF B Cons.prems(1) Cons.prems(2, 3), of f cfg] by auto
  have fails: "send_fails B e g" if "g \<in> set fs" "isFirstKiss e = isFirstKiss d" for g e
    using Cons.prems(1) [of g] that by (simp add: send_fails_def)
  show ?case
  proof (cases "retries d > 0")
    case True
    define e where "e = d\<lparr>isSending := 0, sendBuf := (sendBuf d)[0 := send_header d], sizeOfSendBuf := sizeOfSendBuf d,
              indexOfSendBuf := 1, isSending := 1, retries := retries d - 1,
              sendCommand := Suc (sendCommand d), cec_world := w\<rparr>"
    have r: "unat (retries d) = Suc (unat (retries e))"
      using True by (simp add: e_def unat_sub word_le_nat_alt unat_gt_0 Suc_leI)
    have h: "send_header e = send_header d"
      using Cons.prems(2) by (simp add: e_def send_header_def header_low_nibble)
    have e: "isFirstKiss e = isFirstKiss d" "length (sendBuf e) = SEND_BUF_SIZE" "unat (sizeOfSendBuf e) \<le> SEND_BUF_SIZE"
      "isSending e = 1" "sendCommand e = Suc (sendCommand d)" "cec_world e = w"
      using Cons.prems by (simp_all add: e_def)
    have run: "cec_irqs K cfg (f # fs) d = cec_irqs K cfg fs e"
      using w(1) True by (simp add: e_def)
    have sent: "b_sent B w = b_sent B (cec_world d) @ [send_header d]" using w(2) True by simp
    have "r = Suc (unat (retries e))" using Cons.prems(4) r by simp
    then show ?thesis
      using Cons.IH [OF fails [OF _ e(1)] e(2, 3) refl] unfolding run h e sent
      by (auto simp: append_assoc min_def split: if_splits)
  next
    case False
    define e where "e = d\<lparr>isSending := 0, cec_world := w\<rparr>"
    have e: "isFirstKiss e = isFirstKiss d" "length (sendBuf e) = SEND_BUF_SIZE" "unat (sizeOfSendBuf e) \<le> SEND_BUF_SIZE"
      "isSending e = 0" "sendCommand e = sendCommand d" "cec_world e = w" "unat (retries e) = 0"
      using Cons.prems False by (simp_all add: e_def word_neq_0_conv [symmetric])
    have run: "cec_irqs K cfg (f # fs) d = cec_irqs K cfg fs e"
      using w(1) False by (simp add: e_def)
    have sent: "b_sent B w = b_sent B (cec_world d)" using w(2) False by simp
    have "r = 0" using Cons.prems(4) False by (simp add: word_neq_0_conv [symmetric])
    then show ?thesis
      using Cons.IH [OF fails [OF _ e(1)] e(2, 3) refl] unfolding run e sent by auto
  qed
qed simp

theorem cec_retries_witness:
  "\<exists>d'. cec_irqs cec_machine_kernel cec_machine_cfg (replicate 4 (raise_irq 4 0)) (cec_machine_start\<lparr>isSending := 1\<rparr>) = Some d' \<and>
     retries d' = 0 \<and> isSending d' = 0 \<and> cm_tx (cec_world d') = replicate 3 0x40"
proof -
  let ?d = "cec_machine_start\<lparr>isSending := 1\<rparr>"
  have "send_fails machine_bus ?d f" if "f \<in> set (replicate 4 (raise_irq 4 0))" for f
  proof -
    have "raises machine_bus f 4 0 0" using that machine_raises by auto
    then show ?thesis unfolding send_fails_def by (intro exI [of _ 4] exI [of _ 0]) simp
  qed
  moreover have "length (sendBuf ?d) = SEND_BUF_SIZE" "unat (sizeOfSendBuf ?d) \<le> SEND_BUF_SIZE" "3 = unat (retries ?d)"
      "cm_tx (cec_world ?d) = []" "send_header ?d = 0x40"
    by (simp_all add: cec_machine_start_def send_header_def)
  ultimately show ?thesis
    using cec_retries [OF machine_cec_bus, of "replicate 4 (raise_irq 4 0)" ?d 3 cec_machine_cfg]
    by (auto simp: machine_bus_def unat_eq_0)
qed

end
