(* ===== verification/Cec_IO.thy ===== *)
theory Cec_IO
  imports Cec_Drv
begin

text \<open>
  The properties of single operations of the CEC driver: the names of messages, the keys of the
  remote control, and writing to the device file.
\<close>

section \<open>The names of messages\<close>

lemma table_length:
  assumes "\<forall>p \<in> set T. length (snd p) \<le> n" "map_of T c = Some s"
  shows "length s \<le> n"
  using assms(1) map_of_SomeD [OF assms(2)] by force

lemma name_lengths:
  "\<forall>p \<in> set opcode_names. length (snd p) \<le> 25"
  "\<forall>p \<in> set abort_reason_names. length (snd p) \<le> 25"
  "\<forall>p \<in> set status_request_names. length (snd p) \<le> 25"
  "\<forall>p \<in> set deck_info_names. length (snd p) \<le> 25"
  "\<forall>p \<in> set (user_control_names_keys @ user_control_names_functions). length (snd p) \<le> 25"
  "\<forall>p \<in> set menu_request_names. length (snd p) \<le> 25"
  "\<forall>p \<in> set menu_state_names. length (snd p) \<le> 25"
  "\<forall>p \<in> set power_status_names. length (snd p) \<le> 25"
  "\<forall>p \<in> set audio_rate_names. length (snd p) \<le> 25"
  "\<forall>p \<in> set cec_version_names. length (snd p) \<le> 25"
  by (simp_all add: opcode_names_def abort_reason_names_def status_request_names_def deck_info_names_def
      user_control_names_keys_def user_control_names_functions_def menu_request_names_def menu_state_names_def
      power_status_names_def audio_rate_names_def cec_version_names_def)

lemma name_operand_defined:
  assumes "length name \<le> 25" "i < length buf" "\<forall>p \<in> set T. length (snd p) \<le> 25"
  shows "name_operand name buf i T \<noteq> None"
  using assms table_length [OF assms(3), of "buf ! i"]
  by (auto simp: name_operand_def name_cat_def arr_get_def split: option.split)

lemma c_string_length: "c_string bs = Some s \<Longrightarrow> length s < length bs"
proof -
  have "length (takeWhile (\<lambda>b. b \<noteq> 0) bs) < length bs" if "0 \<in> set bs"
    using that by (induction bs) auto
  then show "c_string bs = Some s \<Longrightarrow> length s < length bs" by (auto simp: c_string_def split: if_splits)
qed

lemma name_text_None_iff:
  assumes "length name \<le> 25" "length buf = 15"
  shows "name_text name buf i = None \<longleftrightarrow> 0 \<notin> set (drop i buf)"
proof -
  have "length s < 15" if "c_string (drop i buf) = Some s" for s
    using c_string_length [OF that] assms(2) by simp
  moreover have "c_string (drop i buf) = None \<longleftrightarrow> 0 \<notin> set (drop i buf)" by (simp add: c_string_def)
  ultimately show ?thesis using assms
    by (cases "c_string (drop i buf)") (auto simp: name_text_def name_cat_def)
qed

text \<open>
  The text that is put together for a received message always fits into its array of 100 bytes,
  but it is taken from outside the message buffer exactly if the message sets a name, a language or a
  text on the screen and no byte behind the opcode (or behind the display control) is zero, as in
  every such message of the greatest length.
\<close>

theorem message_name_None_iff:
  assumes "length buf = 15"
  shows "message_name buf = None \<longleftrightarrow>
    (buf ! 0 = SET_MENU_LANGUAGE \<or> buf ! 0 = SET_OSD_NAME) \<and> 0 \<notin> set (drop 1 buf) \<or>
    buf ! 0 = SET_OSD_STRING \<and> 0 \<notin> set (drop 2 buf)"
proof -
  define name where "name = (case map_of opcode_names (buf ! 0) of None \<Rightarrow> ''UNKNOWN'' | Some s \<Rightarrow> s)"
  have name: "length name \<le> 25"
    using table_length [OF name_lengths(1), of "buf ! 0"] by (auto simp: name_def split: option.split)
  then have "name_cat [] name = Some name" by (simp add: name_cat_def)
  then have "message_name buf = (let opcode = buf ! 0 in
       if opcode = FEATURE_ABORT then name_operand name buf 2 abort_reason_names
       else if opcode = GIVE_DECK_STATUS then name_operand name buf 1 status_request_names
       else if opcode = DECK_STATUS then name_operand name buf 1 deck_info_names
       else if opcode = SET_MENU_LANGUAGE then name_text name buf 1
       else if opcode = USER_CONTROL_PRESSED
       then name_operand name buf 1 (user_control_names_keys @ user_control_names_functions)
       else if opcode = SET_OSD_NAME then name_text name buf 1
       else if opcode = SET_OSD_STRING then name_text name buf 2
       else if opcode = MENU_REQUEST then name_operand name buf 1 menu_request_names
       else if opcode = MENU_STATUS then name_operand name buf 1 menu_state_names
       else if opcode = REPORT_POWER_STATUS then name_operand name buf 1 power_status_names
       else if opcode = 0x9a then name_operand name buf 1 audio_rate_names
       else if opcode = CEC_VERSION then name_operand name buf 1 cec_version_names
       else Some name)"
    using assms unfolding message_name_def name_def Let_def by (simp add: arr_get_def)
  moreover have "name_operand name buf i T \<noteq> None" if "i < 15" "\<forall>p \<in> set T. length (snd p) \<le> 25" for i T
    using name_operand_defined [OF name] assms that by simp
  ultimately show ?thesis
    using name_lengths name_text_None_iff [OF name assms] by (simp add: Let_def del: not_None_eq)
qed

theorem message_name_None_iff_witness:
  "message_name (SET_OSD_NAME # replicate 14 0x41) = None \<and> message_name ([SET_OSD_NAME, 0x41] @ replicate 13 0) \<noteq> None"
  using message_name_None_iff [of "SET_OSD_NAME # replicate 14 0x41"]
    message_name_None_iff [of "[SET_OSD_NAME, 0x41] @ replicate 13 0"]
  by simp

section \<open>Keys\<close>

text \<open>The keys of the remote control, pressed and released one after the other.\<close>

primrec press_release :: "'w cec_kernel \<Rightarrow> u8 list \<Rightarrow> 'w cec \<Rightarrow> 'w cec" where
  "press_release K [] d = d"
| "press_release K (key # keys) d =
     press_release K keys (snd (input_inject K 0xFFFF 0 (snd (input_inject K (ucast key) 1 d))))"

text \<open>
  Every key of the table, pressed and released, is reported as one press and one release of the same
  key code, in the order of the keys; a key that is not in the table is not reported at all, not even
  its release.
\<close>

theorem press_release_reports:
  assumes events: "\<And>c v w. keys (k_input_event K 1 c v w) = keys w @ [(c, v)]"
    and codes: "\<And>k. k_keycode K k \<noteq> 0"
  shows "keys (cec_world (press_release K ks d)) = keys (cec_world d) @
    concat (map (\<lambda>key. case map_of key_table (ucast key) of None \<Rightarrow> [] | Some k \<Rightarrow> [(k_keycode K k, 1), (k_keycode K k, 0)]) ks)"
proof (induction ks arbitrary: d)
  case (Cons key ks)
  show ?case
    by (cases "map_of key_table (ucast key)")
      (simp_all add: Cons input_inject_def input_code_def Let_def events codes)
qed simp

theorem press_release_reports_witness:
  "cm_keys (cec_world (press_release cec_machine_kernel [0x00, 0x0C, 0x01] cec_machine_start)) =
     [(0x160, 1), (0x160, 0), (103, 1), (103, 0)]"
  using press_release_reports [of cm_keys cec_machine_kernel "[0x00, 0x0C, 0x01]" cec_machine_start]
  by (simp add: cec_machine_kernel_def key_table_def cec_machine_start_def split: linux_key.split)

section \<open>Writing to the device\<close>

text \<open>
  Writing a message of \<open>len\<close> bytes to the device while nothing is being sent: the test of the length
  byte is the wrong way round. A length byte that announces more data than were written, or just the
  data that were written but more than 15 of them, makes the driver copy beyond an array; one that
  announces less leaves the message unsent, and the write still succeeds.
\<close>

theorem CECdev_write_result:
  assumes K: "delay_ok K" and d: "wf_cec d" "isSending d = 0"
    and mem: "fst (k_kmalloc K len (cec_world d))"
    and user: "snd (fst (k_copy_from_user K buff len (snd (k_kmalloc K len (cec_world d))))) = bytes" "length bytes = len"
  shows "(CECdev_write K buff len d = None \<longleftrightarrow>
      2 \<le> len \<and> (len - 2 < unat (bytes ! 1) \<or> len - 2 = unat (bytes ! 1) \<and> 15 < unat (bytes ! 1))) \<and>
    (2 \<le> len \<longrightarrow> unat (bytes ! 1) < len - 2 \<longrightarrow> (\<exists>w. CECdev_write K buff len d = Some (int len, d\<lparr>cec_world := w\<rparr>)))"
proof -
  define w where "w = snd (k_copy_from_user K buff len (snd (k_kmalloc K len (cec_world d))))"
  define e where "e = d\<lparr>cec_world := w\<rparr>"
  have eq: "CECdev_write K buff len d = do { d \<leftarrow> write_message K bytes e; Some (int len, cec_hw (k_kfree K) d) }"
    using mem user(1) by (simp add: CECdev_write_def cec_hw_get_def case_prod_beta Let_def w_def e_def)
  have wf: "wf_cec e" using d(1) by (simp add: wf_cec_def e_def)
  have wait: "fst (send_wait K 100 e) \<noteq> 0" using d(2) by (simp add: send_wait_idle e_def)
  have n: "unat (ucast (bytes ! 1) + 1 :: u32) = unat (bytes ! 1) + 1"
    using unat_u8_less [of "bytes ! 1"] by (subst unat_add_u32) (simp_all add: unat_ucast_u8_u32)
  have send: "sendMessage K (ucast (bytes ! 1) + 1) (Local bs) e = None \<longleftrightarrow>
      bs = [] \<or> length bs < unat (bytes ! 1) + 1 \<or> 15 < unat (bytes ! 1)" for bs
    using sendMessage_None_iff [OF K wf, of "ucast (bytes ! 1) + 1" bs] wait n by auto
  have none: "CECdev_write K buff len d = None \<longleftrightarrow> write_message K bytes e = None"
    by (auto simp: eq bind_eq_None_conv)
  consider "len < 2" | "2 \<le> len" "unat (bytes ! 1) < len - 2" | "2 \<le> len" "unat (bytes ! 1) = len - 2"
    | "2 \<le> len" "len - 2 < unat (bytes ! 1)" by linarith
  then show ?thesis
  proof cases
    case 1
    then show ?thesis using user(2) none by (simp add: write_message_def)
  next
    case 2
    then have wm: "write_message K bytes e = Some e"
      using user(2) by (simp add: write_message_def arr_get_def)
    then have "CECdev_write K buff len d = Some (int len, d\<lparr>cec_world := k_kfree K w\<rparr>)"
      by (simp add: eq cec_hw_def e_def)
    then have "\<exists>w. CECdev_write K buff len d = Some (int len, d\<lparr>cec_world := w\<rparr>)" by (rule exI)
    moreover have "CECdev_write K buff len d \<noteq> None" using wm none by simp
    ultimately show ?thesis using 2 by (intro conjI impI iffI; linarith?; blast?)
  next
    case 3
    then have "write_message K bytes e =
        sendMessage K (ucast (bytes ! 1) + 1) (Local (bytes ! 0 # drop 2 bytes)) e"
      using user(2) by (auto simp: write_message_def arr_get_def arr_slice_def)
    moreover have "length (bytes ! 0 # drop 2 bytes) = unat (bytes ! 1) + 1" using 3 user(2) by simp
    ultimately have "write_message K bytes e = None \<longleftrightarrow> 15 < unat (bytes ! 1)"
      using send [of "bytes ! 0 # drop 2 bytes"] by simp
    then show ?thesis using 3 none by simp
  next
    case 4
    then have "write_message K bytes e = None"
      using user(2) by (auto simp: write_message_def arr_get_def arr_slice_def)
    then show ?thesis using 4 none by auto
  qed
qed

theorem CECdev_write_result_witness:
  "CECdev_write cec_machine_kernel 0 3 (cec_machine_start\<lparr>cec_world := (cec_world cec_machine_start)\<lparr>cm_user_in := [0x40, 5, 1]\<rparr>\<rparr>) = None"
proof -
  let ?d = "cec_machine_start\<lparr>cec_world := (cec_world cec_machine_start)\<lparr>cm_user_in := [0x40, 5, 1]\<rparr>\<rparr>"
  have wf: "wf_cec ?d" using wf_cec_machine_start by (simp add: wf_cec_def)
  have "isSending ?d = 0" by (simp add: cec_machine_start_def)
  moreover have "fst (k_kmalloc cec_machine_kernel 3 (cec_world ?d))"
      "snd (fst (k_copy_from_user cec_machine_kernel 0 3 (snd (k_kmalloc cec_machine_kernel 3 (cec_world ?d))))) = [0x40, 5, 1]"
    by (simp_all add: cec_machine_kernel_def)
  ultimately show ?thesis
    using CECdev_write_result [OF machine_delay_ok wf, of 3 0 "[0x40, 5, 1]"] by simp
qed

end
