(* ===== verification/Avs_Types.thy ===== *)
theory Avs_Types
  imports Prelude
begin

text \<open>
  The audio and video switch driver (\<^verbatim>\<open>src/avs/\<close>): what its chip drivers share. The boards of the
  preprocessor symbols, the commands of \<^verbatim>\<open>avs_core.h\<close>, the kernel the drivers run on, the bit fields
  of the chip registers, and the two functions of \<^verbatim>\<open>tools.c\<close>.

  \<^item> The static variables of each chip driver are a record of that driver's theory; the world outside
    the module (the I2C bus, the pins, user memory) is a value of any type that is passed along.
  \<^item> An operation maps both to a return code, the new variables and the new world; \<open>None\<close> is undefined
    behaviour (an access outside an array, a null pointer).
  \<^item> Debug output is left out.
\<close>

section \<open>Boards and commands\<close>

text \<open>The preprocessor symbols of the boards exclude each other.\<close>

datatype avs_board = UFS922 | CUBEREVO | VITAMIN_HD5000 | CUBEREVO_MINI | CUBEREVO_MINI2
  | CUBEREVO_9500HD | CUBEREVO_2000HD | UFC960 | FS9000 | TF7700 | HL101 | VIP1_V1 | UFS912 | UFS913
  | HS8200 | IPBOX9900 | IPBOX99 | ADB_BOX | CUBEREVO_3000HD | CUBEREVO_MINI_FTA | CUBEREVO_250HD
  | IPBOX55 | HS7110 | HS7119 | HS7420 | HS7429 | HS7810A | HS7819 | ATEMIO520 | OPT9600MINI
  | ARIVALINK200 | HCHS8100 | HCHS9000 | VIP1_V2 | VIP2 | SPARK | SPARK7162 | OTHER_BOARD

abbreviation (input) AVS_EIO :: int where "AVS_EIO \<equiv> 5"
abbreviation (input) AVS_ENOMEM :: int where "AVS_ENOMEM \<equiv> 12"
abbreviation (input) AVS_EFAULT :: int where "AVS_EFAULT \<equiv> 14"
abbreviation (input) AVS_ENODEV :: int where "AVS_ENODEV \<equiv> 19"
abbreviation (input) AVS_EINVAL :: int where "AVS_EINVAL \<equiv> 22"

abbreviation (input) AVS_MUTE :: int where "AVS_MUTE \<equiv> 1"
abbreviation (input) AVS_UNMUTE :: int where "AVS_UNMUTE \<equiv> 0"

abbreviation (input) AVSIOSET :: u32 where "AVSIOSET \<equiv> 0x1000"
abbreviation (input) AVSIOGET :: u32 where "AVSIOGET \<equiv> 0x2000"
abbreviation (input) AVSIOSVSW1 :: u32 where "AVSIOSVSW1 \<equiv> 0x1001"
abbreviation (input) AVSIOSVSW2 :: u32 where "AVSIOSVSW2 \<equiv> 0x1002"
abbreviation (input) AVSIOSVSW3 :: u32 where "AVSIOSVSW3 \<equiv> 0x1003"
abbreviation (input) AVSIOSASW1 :: u32 where "AVSIOSASW1 \<equiv> 0x1004"
abbreviation (input) AVSIOSASW2 :: u32 where "AVSIOSASW2 \<equiv> 0x1005"
abbreviation (input) AVSIOSASW3 :: u32 where "AVSIOSASW3 \<equiv> 0x1006"
abbreviation (input) AVSIOSVOL :: u32 where "AVSIOSVOL \<equiv> 0x1007"
abbreviation (input) AVSIOSMUTE :: u32 where "AVSIOSMUTE \<equiv> 0x1008"
abbreviation (input) AVSIOSFBLK :: u32 where "AVSIOSFBLK \<equiv> 0x1009"
abbreviation (input) AVSIOSFNC :: u32 where "AVSIOSFNC \<equiv> 0x100A"
abbreviation (input) AVSIOGVSW1 :: u32 where "AVSIOGVSW1 \<equiv> 0x2011"
abbreviation (input) AVSIOGVSW2 :: u32 where "AVSIOGVSW2 \<equiv> 0x2012"
abbreviation (input) AVSIOGVSW3 :: u32 where "AVSIOGVSW3 \<equiv> 0x2013"
abbreviation (input) AVSIOGASW1 :: u32 where "AVSIOGASW1 \<equiv> 0x2014"
abbreviation (input) AVSIOGASW2 :: u32 where "AVSIOGASW2 \<equiv> 0x2015"
abbreviation (input) AVSIOGASW3 :: u32 where "AVSIOGASW3 \<equiv> 0x2016"
abbreviation (input) AVSIOGVOL :: u32 where "AVSIOGVOL \<equiv> 0x2017"
abbreviation (input) AVSIOGMUTE :: u32 where "AVSIOGMUTE \<equiv> 0x2018"
abbreviation (input) AVSIOGFBLK :: u32 where "AVSIOGFBLK \<equiv> 0x2019"
abbreviation (input) AVSIOGFNC :: u32 where "AVSIOGFNC \<equiv> 0x201A"
abbreviation (input) AVSIOGSTATUS :: u32 where "AVSIOGSTATUS \<equiv> 0x2021"
abbreviation (input) AVSIOSSCARTPIN8 :: u32 where "AVSIOSSCARTPIN8 \<equiv> 0x1023"
abbreviation (input) AVSIOGSCARTPIN8 :: u32 where "AVSIOGSCARTPIN8 \<equiv> 0x2024"
abbreviation (input) AVSIOSTANDBY :: u32 where "AVSIOSTANDBY \<equiv> 0x1063"

abbreviation (input) SAAIOSENC :: u32 where "SAAIOSENC \<equiv> 4"
abbreviation (input) SAAIOSMODE :: u32 where "SAAIOSMODE \<equiv> 5"
abbreviation (input) SAAIOSWSS :: u32 where "SAAIOSWSS \<equiv> 10"
abbreviation (input) SAAIOSSRCSEL :: u32 where "SAAIOSSRCSEL \<equiv> 11"
abbreviation (input) SAA_MODE_RGB :: int where "SAA_MODE_RGB \<equiv> 0"
abbreviation (input) SAA_MODE_FBAS :: int where "SAA_MODE_FBAS \<equiv> 1"
abbreviation (input) SAA_MODE_SVIDEO :: int where "SAA_MODE_SVIDEO \<equiv> 2"
abbreviation (input) SAA_WSS_43F :: int where "SAA_WSS_43F \<equiv> 0"
abbreviation (input) SAA_WSS_169F :: int where "SAA_WSS_169F \<equiv> 7"
abbreviation (input) SAA_WSS_OFF :: int where "SAA_WSS_OFF \<equiv> 8"
abbreviation (input) SAA_SRC_ENC :: int where "SAA_SRC_ENC \<equiv> 0"
abbreviation (input) SAA_SRC_SCART :: int where "SAA_SRC_SCART \<equiv> 1"

section \<open>The kernel\<close>

text \<open>
  An I2C client and a pin are numbers (\<open>None\<close> is a null pointer). \<open>ak_i2c_recv\<close> gives the result of
  \<^verbatim>\<open>i2c_master_recv\<close> for one byte and that byte; \<open>ak_from_user\<close> is \<^verbatim>\<open>copy_from_user\<close> of an \<^verbatim>\<open>int\<close>, \<open>None\<close> if the
  address faults; \<open>ak_store\<close> is a store through a kernel pointer. \<open>ak_i2c_add_driver\<close> gives the result and
  the clients for which the I2C core calls the probe function.
\<close>

record 'w avs_kernel =
  ak_i2c_send :: "nat option \<Rightarrow> u8 list \<Rightarrow> 'w \<Rightarrow> int \<times> 'w"
  ak_i2c_recv :: "nat option \<Rightarrow> 'w \<Rightarrow> (int \<times> u8) \<times> 'w"
  ak_from_user :: "u32 \<Rightarrow> 'w \<Rightarrow> int option \<times> 'w"
  ak_put_user :: "int \<Rightarrow> u32 \<Rightarrow> 'w \<Rightarrow> int \<times> 'w"
  ak_store :: "u32 \<Rightarrow> int \<Rightarrow> 'w \<Rightarrow> 'w"
  ak_request_pin :: "nat \<Rightarrow> nat \<Rightarrow> string \<Rightarrow> 'w \<Rightarrow> nat option \<times> 'w"
  ak_free_pin :: "nat \<Rightarrow> 'w \<Rightarrow> 'w"
  ak_set_pin :: "nat \<Rightarrow> int \<Rightarrow> 'w \<Rightarrow> 'w"
  ak_udelay :: "nat \<Rightarrow> 'w \<Rightarrow> 'w"
  ak_kzalloc :: "'w \<Rightarrow> nat option \<times> 'w"
  ak_kfree :: "nat \<Rightarrow> 'w \<Rightarrow> 'w"
  ak_i2c_attach :: "nat \<Rightarrow> 'w \<Rightarrow> 'w"
  ak_i2c_detach :: "nat \<Rightarrow> 'w \<Rightarrow> 'w"
  ak_i2c_add_driver :: "u16 list \<Rightarrow> 'w \<Rightarrow> (int \<times> nat list) \<times> 'w"
  ak_i2c_del_driver :: "'w \<Rightarrow> 'w"
  ak_misc_register :: "'w \<Rightarrow> int \<times> 'w"
  ak_misc_deregister :: "'w \<Rightarrow> 'w"

type_synonym ('s, 'w) avs_op = "'s \<Rightarrow> 'w \<Rightarrow> (int \<times> 's \<times> 'w) option"

definition avs_return :: "int \<Rightarrow> ('s, 'w) avs_op" where
  "avs_return r s w = Some (r, s, w)"

text \<open>\<^verbatim>\<open>stpio_set_pin\<close> of a pin that may be a null pointer.\<close>

definition stpio_set_pin :: "'w avs_kernel \<Rightarrow> nat option \<Rightarrow> int \<Rightarrow> 'w \<Rightarrow> 'w option" where
  "stpio_set_pin K p v w = (case p of None \<Rightarrow> None | Some n \<Rightarrow> Some (ak_set_pin K n v w))"

text \<open>An array of bytes at a signed index.\<close>

definition table_at :: "u8 list \<Rightarrow> int \<Rightarrow> int option" where
  "table_at t i = (if 0 \<le> i then map_option uint (arr_get t (nat i)) else None)"

lemma table_at_None_iff: "table_at t i = None \<longleftrightarrow> i < 0 \<or> int (length t) \<le> i"
  by (auto simp: table_at_def arr_get_def)

section \<open>Bit fields\<close>

text \<open>
  A bit field of \<open>n\<close> bits is an \<open>n\<close>-bit word: an assignment keeps the low bits. \<open>fld k f\<close> is the field \<open>f\<close> at
  bit \<open>k\<close> of its byte; the compiler of the target fills a byte from its lowest bit.
\<close>

definition fld :: "nat \<Rightarrow> 'a::len word \<Rightarrow> u8" where
  "fld k f = push_bit k (ucast f)"

text \<open>The field of \<open>n\<close> bits at bit \<open>k\<close> of a byte.\<close>

definition field_of :: "nat \<Rightarrow> nat \<Rightarrow> u8 \<Rightarrow> u8" where
  "field_of k n b = drop_bit k b AND mask n"

text \<open>\<^verbatim>\<open>tools.c\<close>. The bits of a value beyond \<open>nr_bits\<close> are not cut off.\<close>

definition set_bits :: "u8 list \<Rightarrow> nat \<Rightarrow> u8 \<Rightarrow> nat \<Rightarrow> nat \<Rightarrow> u8 list option" where
  "set_bits regs regIndex value start_bit nr_bits = do {
     r \<leftarrow> arr_get regs regIndex;
     arr_set regs regIndex ((r AND NOT (push_bit start_bit (mask nr_bits))) OR push_bit start_bit value)
   }"

definition get_bits :: "u8 list \<Rightarrow> nat \<Rightarrow> nat \<Rightarrow> nat \<Rightarrow> u8 option" where
  "get_bits regs regIndex start_bit nr_bits = do {
     r \<leftarrow> arr_get regs regIndex;
     Some (drop_bit start_bit r AND mask nr_bits)
   }"

lemma set_bits_eq:
  "i < length regs \<Longrightarrow>
     set_bits regs i v k n = Some (regs[i := (regs ! i AND NOT (push_bit k (mask n))) OR push_bit k v])"
  by (simp add: set_bits_def arr_get_def arr_set_def)

lemma get_bits_eq: "i < length regs \<Longrightarrow> get_bits regs i k n = Some (field_of k n (regs ! i))"
  by (simp add: get_bits_def arr_get_def field_of_def)

lemma set_bits_length: "set_bits regs i v k n = Some regs' \<Longrightarrow> length regs' = length regs"
  by (auto simp: set_bits_def arr_simps bind_eq_Some_conv)

lemma set_bits_SomeD:
  "set_bits regs i v k n = Some regs' \<Longrightarrow>
     i < length regs \<and>
     regs' = regs[i := (regs ! i AND NOT (push_bit k (mask n))) OR push_bit k v]"
  by (auto simp: set_bits_def arr_simps bind_eq_Some_conv)

lemma word_of_int_less_4: "0 \<le> v \<Longrightarrow> v \<le> 3 \<Longrightarrow> (word_of_int v :: u8) < 4"
  by (simp add: word_less_def uint_word_of_int)

end
