(* ===== verification/Avs_Command.thy ===== *)
theory Avs_Command
  imports Avs_Types
begin

text \<open>
  The two command functions of a chip driver. Five of the drivers (STV6412, STV6417, STV6418, STV6419,
  CXA2161R) have the same \<^verbatim>\<open>switch\<close> over the full set of commands, six (AK4705, AK4708, VIP1, VIP2, PIO,
  fake) the same one over a small set. Both are written once here, over a record of the driver's
  operations; each driver's theory applies them to its own.

  Then what a driver promises: a property of its variables and of the world that each operation keeps
  is kept by every command (locales \<open>scart_chip\<close>, \<open>basic_chip\<close>), and by every sequence of calls
  from user space and from the kernel (locale \<open>avs_calls\<close>).
\<close>

section \<open>The full set of commands\<close>

record ('s, 'w) scart_ops =
  op_set_vsw :: "int \<Rightarrow> int \<Rightarrow> ('s, 'w) avs_op"
  op_set_asw :: "int \<Rightarrow> int \<Rightarrow> ('s, 'w) avs_op"
  op_set_volume :: "int \<Rightarrow> ('s, 'w) avs_op"
  op_set_mute :: "int \<Rightarrow> ('s, 'w) avs_op"
  op_set_fblk :: "int \<Rightarrow> ('s, 'w) avs_op"
  op_set_t_sb :: "int \<Rightarrow> ('s, 'w) avs_op"
  op_standby :: "int \<Rightarrow> ('s, 'w) avs_op"
  op_get_vsw :: "int \<Rightarrow> 's \<Rightarrow> int option"
  op_get_asw :: "int \<Rightarrow> 's \<Rightarrow> int option"
  op_get_volume :: "'s \<Rightarrow> int option"
  op_get_mute :: "'s \<Rightarrow> int option"
  op_get_fblk :: "'s \<Rightarrow> int option"
  op_get_t_sb :: "'s \<Rightarrow> int option"
  op_get_status :: "'w \<Rightarrow> int \<times> 'w"
  op_set_mode :: "int \<Rightarrow> ('s, 'w) avs_op"
  op_set_encoder :: "int \<Rightarrow> ('s, 'w) avs_op"
  op_set_wss :: "int \<Rightarrow> ('s, 'w) avs_op"
  op_src_sel :: "int \<Rightarrow> ('s, 'w) avs_op"
  op_pin8 :: "u8 list"
  op_pin8_reverse :: "u8 list"

definition scart_set :: "('s, 'w) scart_ops \<Rightarrow> u32 \<Rightarrow> int \<Rightarrow> ('s, 'w) avs_op" where
  "scart_set ops cmd val s w =
     (if cmd = AVSIOSVSW1 then op_set_vsw ops 0 val s w
      else if cmd = AVSIOSVSW2 then op_set_vsw ops 1 val s w
      else if cmd = AVSIOSVSW3 then op_set_vsw ops 2 val s w
      else if cmd = AVSIOSASW1 then op_set_asw ops 0 val s w
      else if cmd = AVSIOSASW2 then op_set_asw ops 1 val s w
      else if cmd = AVSIOSASW3 then op_set_asw ops 2 val s w
      else if cmd = AVSIOSVOL then op_set_volume ops val s w
      else if cmd = AVSIOSMUTE then op_set_mute ops val s w
      else if cmd = AVSIOSFBLK then op_set_fblk ops val s w
      else if cmd = AVSIOSSCARTPIN8 then do {
        t \<leftarrow> table_at (op_pin8 ops) val;
        op_set_t_sb ops t s w
      }
      else if cmd = AVSIOSFNC then op_set_t_sb ops val s w
      else if cmd = AVSIOSTANDBY then op_standby ops val s w
      else avs_return (- AVS_EINVAL) s w)"

text \<open>The value of a \<^verbatim>\<open>GET\<close> command; \<open>Some None\<close> if there is no such command.\<close>

definition scart_get :: "('s, 'w) scart_ops \<Rightarrow> u32 \<Rightarrow> 's \<Rightarrow> 'w \<Rightarrow> (int option \<times> 'w) option" where
  "scart_get ops cmd s w =
     (let value = map_option (\<lambda>v. (Some v, w)) in
      if cmd = AVSIOGVSW1 then value (op_get_vsw ops 0 s)
      else if cmd = AVSIOGVSW2 then value (op_get_vsw ops 1 s)
      else if cmd = AVSIOGVSW3 then value (op_get_vsw ops 2 s)
      else if cmd = AVSIOGASW1 then value (op_get_asw ops 0 s)
      else if cmd = AVSIOGASW2 then value (op_get_asw ops 1 s)
      else if cmd = AVSIOGASW3 then value (op_get_asw ops 2 s)
      else if cmd = AVSIOGVOL then value (op_get_volume ops s)
      else if cmd = AVSIOGMUTE then value (op_get_mute ops s)
      else if cmd = AVSIOGFBLK then value (op_get_fblk ops s)
      else if cmd = AVSIOGSCARTPIN8 then value (do {
        t \<leftarrow> op_get_t_sb ops s;
        table_at (op_pin8_reverse ops) t
      })
      else if cmd = AVSIOGFNC then value (op_get_t_sb ops s)
      else if cmd = AVSIOGSTATUS then (let (v, w) = op_get_status ops w in Some (Some v, w))
      else Some (None, w))"

definition scart_saa :: "('s, 'w) scart_ops \<Rightarrow> u32 \<Rightarrow> int \<Rightarrow> ('s, 'w) avs_op" where
  "scart_saa ops cmd val s w =
     (if cmd = SAAIOSMODE then op_set_mode ops val s w
      else if cmd = SAAIOSENC then op_set_encoder ops val s w
      else if cmd = SAAIOSWSS then op_set_wss ops val s w
      else if cmd = SAAIOSSRCSEL then op_src_sel ops val s w
      else avs_return (- AVS_EINVAL) s w)"

section \<open>The small set of commands\<close>

record ('s, 'w) basic_ops =
  bop_set_volume :: "int \<Rightarrow> ('s, 'w) avs_op"
  bop_set_mute :: "int \<Rightarrow> ('s, 'w) avs_op"
  bop_standby :: "int \<Rightarrow> ('s, 'w) avs_op"
  bop_get_volume :: "'s \<Rightarrow> int"
  bop_get_mute :: "'s \<Rightarrow> int"
  bop_set_mode :: "int \<Rightarrow> ('s, 'w) avs_op"
  bop_set_encoder :: "int \<Rightarrow> ('s, 'w) avs_op"
  bop_set_wss :: "int \<Rightarrow> ('s, 'w) avs_op"
  bop_src_sel :: "int \<Rightarrow> ('s, 'w) avs_op"

definition basic_set :: "('s, 'w) basic_ops \<Rightarrow> u32 \<Rightarrow> int \<Rightarrow> ('s, 'w) avs_op" where
  "basic_set ops cmd val s w =
     (if cmd = AVSIOSVOL then bop_set_volume ops val s w
      else if cmd = AVSIOSMUTE then bop_set_mute ops val s w
      else if cmd = AVSIOSTANDBY then bop_standby ops val s w
      else avs_return (- AVS_EINVAL) s w)"

definition basic_get :: "('s, 'w) basic_ops \<Rightarrow> u32 \<Rightarrow> 's \<Rightarrow> 'w \<Rightarrow> (int option \<times> 'w) option" where
  "basic_get ops cmd s w =
     (if cmd = AVSIOGVOL then Some (Some (bop_get_volume ops s), w)
      else if cmd = AVSIOGMUTE then Some (Some (bop_get_mute ops s), w)
      else Some (None, w))"

definition basic_saa :: "('s, 'w) basic_ops \<Rightarrow> u32 \<Rightarrow> int \<Rightarrow> ('s, 'w) avs_op" where
  "basic_saa ops cmd val s w =
     (if cmd = SAAIOSMODE then bop_set_mode ops val s w
      else if cmd = SAAIOSENC then bop_set_encoder ops val s w
      else if cmd = SAAIOSWSS then bop_set_wss ops val s w
      else if cmd = SAAIOSSRCSEL then bop_src_sel ops val s w
      else avs_return (- AVS_EINVAL) s w)"

section \<open>User space and the kernel\<close>

text \<open>
  A command from user space takes its value from the address \<open>arg\<close> and stores the value it gets
  there. A command from the kernel has the value in place of the address; some of the drivers store
  the value they get through it (\<open>stores\<close>), the others assign it to their local variable \<open>arg\<close>.
\<close>

definition user_command :: "'w avs_kernel \<Rightarrow> (u32 \<Rightarrow> int \<Rightarrow> ('s, 'w) avs_op) \<Rightarrow>
    (u32 \<Rightarrow> 's \<Rightarrow> 'w \<Rightarrow> (int option \<times> 'w) option) \<Rightarrow> (u32 \<Rightarrow> int \<Rightarrow> ('s, 'w) avs_op) \<Rightarrow>
    u32 \<Rightarrow> u32 \<Rightarrow> ('s, 'w) avs_op" where
  "user_command K cset cget csaa cmd arg s w =
     (if cmd AND AVSIOSET \<noteq> 0 then
        (case ak_from_user K arg w of
           (None, w) \<Rightarrow> avs_return (- AVS_EFAULT) s w
         | (Some val, w) \<Rightarrow> cset cmd val s w)
      else if cmd AND AVSIOGET \<noteq> 0 then do {
        (v, w) \<leftarrow> cget cmd s w;
        (case v of
           None \<Rightarrow> avs_return (- AVS_EINVAL) s w
         | Some val \<Rightarrow> let (r, w) = ak_put_user K val arg w in avs_return r s w)
      }
      else
        (case ak_from_user K arg w of
           (None, w) \<Rightarrow> avs_return (- AVS_EFAULT) s w
         | (Some val, w) \<Rightarrow> csaa cmd val s w))"

definition kernel_command :: "'w avs_kernel \<Rightarrow> bool \<Rightarrow> (u32 \<Rightarrow> int \<Rightarrow> ('s, 'w) avs_op) \<Rightarrow>
    (u32 \<Rightarrow> 's \<Rightarrow> 'w \<Rightarrow> (int option \<times> 'w) option) \<Rightarrow> (u32 \<Rightarrow> int \<Rightarrow> ('s, 'w) avs_op) \<Rightarrow>
    u32 \<Rightarrow> u32 \<Rightarrow> ('s, 'w) avs_op" where
  "kernel_command K stores cset cget csaa cmd arg s w =
     (if cmd AND AVSIOSET \<noteq> 0 then cset cmd (sint arg) s w
      else if cmd AND AVSIOGET \<noteq> 0 then do {
        (v, w) \<leftarrow> cget cmd s w;
        (case v of
           None \<Rightarrow> avs_return (- AVS_EINVAL) s w
         | Some val \<Rightarrow> avs_return 0 s (if stores then ak_store K arg val w else w))
      }
      else csaa cmd (sint arg) s w)"

abbreviation scart_command :: "'w avs_kernel \<Rightarrow> ('s, 'w) scart_ops \<Rightarrow> u32 \<Rightarrow> u32 \<Rightarrow> ('s, 'w) avs_op" where
  "scart_command K ops \<equiv> user_command K (scart_set ops) (scart_get ops) (scart_saa ops)"

abbreviation scart_command_kernel ::
  "'w avs_kernel \<Rightarrow> bool \<Rightarrow> ('s, 'w) scart_ops \<Rightarrow> u32 \<Rightarrow> u32 \<Rightarrow> ('s, 'w) avs_op" where
  "scart_command_kernel K stores ops \<equiv> kernel_command K stores (scart_set ops) (scart_get ops) (scart_saa ops)"

abbreviation basic_command :: "'w avs_kernel \<Rightarrow> ('s, 'w) basic_ops \<Rightarrow> u32 \<Rightarrow> u32 \<Rightarrow> ('s, 'w) avs_op" where
  "basic_command K ops \<equiv> user_command K (basic_set ops) (basic_get ops) (basic_saa ops)"

abbreviation basic_command_kernel ::
  "'w avs_kernel \<Rightarrow> bool \<Rightarrow> ('s, 'w) basic_ops \<Rightarrow> u32 \<Rightarrow> u32 \<Rightarrow> ('s, 'w) avs_op" where
  "basic_command_kernel K stores ops \<equiv> kernel_command K stores (basic_set ops) (basic_get ops) (basic_saa ops)"

section \<open>What commands keep\<close>

definition keeps :: "('s \<Rightarrow> 'w \<Rightarrow> bool) \<Rightarrow> ('s, 'w) avs_op \<Rightarrow> bool" where
  "keeps I f \<longleftrightarrow> (\<forall>s w. I s w \<longrightarrow> pred_option (\<lambda>(r, s, w). I s w) (f s w))"

lemma keepsD: "keeps I f \<Longrightarrow> I s w \<Longrightarrow> f s w = Some (r, s', w') \<Longrightarrow> I s' w'"
  by (fastforce simp: keeps_def)

lemma keepsI: "(\<And>s w r s' w'. I s w \<Longrightarrow> f s w = Some (r, s', w') \<Longrightarrow> I s' w') \<Longrightarrow> keeps I f"
  by (auto simp: keeps_def pred_option_def)

named_theorems keeps_intros \<open>what the branches of an operation keep\<close>

lemma keeps_return [simp]: "keeps I (avs_return r)"
  by (simp add: keeps_def avs_return_def)

lemma keeps_return_eta [keeps_intros]: "keeps I (\<lambda>s w. avs_return r s w)"
  by (simp add: keeps_def avs_return_def)

lemma keeps_if [keeps_intros]: "keeps I f \<Longrightarrow> keeps I g \<Longrightarrow> keeps I (\<lambda>s w. if c s then f s w else g s w)"
  by (simp add: keeps_def)

lemma keeps_conj: "keeps I f \<Longrightarrow> keeps J f \<Longrightarrow> keeps (\<lambda>s w. I s w \<and> J s w) f"
  by (fastforce simp: keeps_def pred_option_def)

text \<open>
  The commands of a driver whose operations, and whose accesses to user memory, keep a property.
\<close>

locale avs_user =
  fixes K :: "'w avs_kernel" and I :: "'s \<Rightarrow> 'w \<Rightarrow> bool"
  assumes from_user: "I s w \<Longrightarrow> I s (snd (ak_from_user K arg w))"
    and put_user: "I s w \<Longrightarrow> I s (snd (ak_put_user K val arg w))"
    and store: "I s w \<Longrightarrow> I s (ak_store K arg val w)"
begin

lemma user_command_keeps:
  assumes set: "\<And>val. keeps I (cset cmd val)" and saa: "\<And>val. keeps I (csaa cmd val)"
    and get: "\<And>s w v w'. I s w \<Longrightarrow> cget cmd s w = Some (v, w') \<Longrightarrow> I s w'"
  shows "keeps I (user_command K cset cget csaa cmd arg)"
proof (rule keepsI)
  fix s w r s' w'
  assume I: "I s w" and res: "user_command K cset cget csaa cmd arg s w = Some (r, s', w')"
  obtain v w1 where fu: "ak_from_user K arg w = (v, w1)" by (cases "ak_from_user K arg w")
  have I1: "I s w1" using from_user [OF I, of arg] fu by simp
  show "I s' w'"
  proof (cases "cmd AND AVSIOSET \<noteq> 0 \<or> cmd AND AVSIOGET = 0")
    case True
    then show ?thesis
      using res I1 fu by (auto simp: user_command_def avs_return_def split: option.splits if_splits
          dest: keepsD [OF set] keepsD [OF saa])
  next
    case False
    then obtain x w2 where g: "cget cmd s w = Some (x, w2)"
      using res by (auto simp: user_command_def split: if_splits bind_splits)
    have "I s w2" by (rule get [OF I g])
    then show ?thesis
      using res False g put_user [of s w2]
      by (auto simp: user_command_def avs_return_def split: option.splits prod.splits) (metis snd_conv)
  qed
qed

lemma kernel_command_keeps:
  assumes set: "\<And>val. keeps I (cset cmd val)" and saa: "\<And>val. keeps I (csaa cmd val)"
    and get: "\<And>s w v w'. I s w \<Longrightarrow> cget cmd s w = Some (v, w') \<Longrightarrow> I s w'"
  shows "keeps I (kernel_command K stores cset cget csaa cmd arg)"
proof (rule keepsI)
  fix s w r s' w'
  assume I: "I s w" and res: "kernel_command K stores cset cget csaa cmd arg s w = Some (r, s', w')"
  show "I s' w'"
  proof (cases "cmd AND AVSIOSET \<noteq> 0 \<or> cmd AND AVSIOGET = 0")
    case True
    then show ?thesis
      using res I by (auto simp: kernel_command_def split: if_splits
          dest: keepsD [OF set] keepsD [OF saa])
  next
    case False
    then obtain x w2 where g: "cget cmd s w = Some (x, w2)"
      using res by (auto simp: kernel_command_def split: if_splits bind_splits)
    have "I s w2" by (rule get [OF I g])
    then show ?thesis
      using res False g store [of s w2]
      by (auto simp: kernel_command_def avs_return_def split: option.splits if_splits)
  qed
qed

end

locale scart_chip = avs_user K I for K :: "'w avs_kernel" and I :: "'s \<Rightarrow> 'w \<Rightarrow> bool" +
  fixes ops :: "('s, 'w) scart_ops"
  assumes set_vsw: "keeps I (op_set_vsw ops sw val)"
    and set_asw: "keeps I (op_set_asw ops sw val)"
    and set_volume: "keeps I (op_set_volume ops val)"
    and set_mute: "keeps I (op_set_mute ops val)"
    and set_fblk: "keeps I (op_set_fblk ops val)"
    and set_t_sb: "keeps I (op_set_t_sb ops val)"
    and standby: "keeps I (op_standby ops val)"
    and set_mode: "keeps I (op_set_mode ops val)"
    and set_encoder: "keeps I (op_set_encoder ops val)"
    and set_wss: "keeps I (op_set_wss ops val)"
    and src_sel: "keeps I (op_src_sel ops val)"
    and get_status: "I s w \<Longrightarrow> I s (snd (op_get_status ops w))"
begin

lemma scart_set_keeps: "keeps I (scart_set ops cmd val)"
  by (rule keepsI)
    (auto simp: scart_set_def avs_return_def bind_eq_Some_conv split: if_splits
      dest: keepsD [OF set_vsw] keepsD [OF set_asw] keepsD [OF set_volume] keepsD [OF set_mute]
        keepsD [OF set_fblk] keepsD [OF set_t_sb] keepsD [OF standby])

lemma scart_saa_keeps: "keeps I (scart_saa ops cmd val)"
  by (rule keepsI)
    (auto simp: scart_saa_def avs_return_def split: if_splits
      dest: keepsD [OF set_mode] keepsD [OF set_encoder] keepsD [OF set_wss] keepsD [OF src_sel])

lemma scart_get_keeps: "I s w \<Longrightarrow> scart_get ops cmd s w = Some (v, w') \<Longrightarrow> I s w'"
  using get_status [of s w]
  by (auto simp: scart_get_def Let_def split: if_splits prod.splits)

lemma command_keeps: "keeps I (scart_command K ops cmd arg)"
  by (rule user_command_keeps [OF scart_set_keeps scart_saa_keeps scart_get_keeps])

lemma command_kernel_keeps: "keeps I (scart_command_kernel K stores ops cmd arg)"
  by (rule kernel_command_keeps [OF scart_set_keeps scart_saa_keeps scart_get_keeps])

end

text \<open>
  A driver whose operations are defined in the states of an invariant \<open>P\<close>: what is left is the table for
  pin 8, which the command indexes with the caller's value.
\<close>

locale scart_safe =
  fixes ops :: "('s, 'w) scart_ops" and P :: "'s \<Rightarrow> bool"
  assumes safe_set: "P s \<Longrightarrow> op_set_vsw ops sw val s w \<noteq> None" "P s \<Longrightarrow> op_set_asw ops sw val s w \<noteq> None"
      "P s \<Longrightarrow> op_set_volume ops val s w \<noteq> None" "P s \<Longrightarrow> op_set_mute ops val s w \<noteq> None"
      "P s \<Longrightarrow> op_set_fblk ops val s w \<noteq> None" "P s \<Longrightarrow> op_set_t_sb ops val s w \<noteq> None"
      "P s \<Longrightarrow> op_standby ops val s w \<noteq> None"
    and safe_saa: "P s \<Longrightarrow> op_set_mode ops val s w \<noteq> None" "P s \<Longrightarrow> op_set_encoder ops val s w \<noteq> None"
      "P s \<Longrightarrow> op_set_wss ops val s w \<noteq> None" "P s \<Longrightarrow> op_src_sel ops val s w \<noteq> None"
    and safe_get: "P s \<Longrightarrow> op_get_vsw ops sw s \<noteq> None" "P s \<Longrightarrow> op_get_asw ops sw s \<noteq> None"
      "P s \<Longrightarrow> op_get_volume ops s \<noteq> None" "P s \<Longrightarrow> op_get_mute ops s \<noteq> None"
      "P s \<Longrightarrow> op_get_fblk ops s \<noteq> None"
    and safe_t_sb: "P s \<Longrightarrow> \<exists>t. op_get_t_sb ops s = Some t \<and> 0 \<le> t \<and> t < int (length (op_pin8_reverse ops))"
begin

lemma scart_set_None_iff:
  "P s \<Longrightarrow> scart_set ops cmd val s w = None \<longleftrightarrow>
     cmd = AVSIOSSCARTPIN8 \<and> (val < 0 \<or> int (length (op_pin8 ops)) \<le> val)"
  using safe_set [of s]
  by (auto simp: scart_set_def avs_return_def bind_eq_None_conv table_at_None_iff simp del: not_None_eq split: if_splits)

lemma scart_saa_defined: "P s \<Longrightarrow> scart_saa ops cmd val s w \<noteq> None"
  using safe_saa [of s] by (auto simp: scart_saa_def avs_return_def split: if_splits)

lemma scart_get_defined: "P s \<Longrightarrow> scart_get ops cmd s w \<noteq> None"
  using safe_get [of s] safe_t_sb [of s]
  by (auto simp: scart_get_def Let_def bind_eq_None_conv table_at_None_iff simp del: not_None_eq split: prod.splits)

lemma command_None_iff:
  assumes "P s"
  shows "scart_command K ops cmd arg s w = None \<longleftrightarrow>
    cmd = AVSIOSSCARTPIN8 \<and>
    (\<exists>val. fst (ak_from_user K arg w) = Some val \<and> (val < 0 \<or> int (length (op_pin8 ops)) \<le> val))"
proof -
  obtain v w1 where fu: "ak_from_user K arg w = (v, w1)" by (cases "ak_from_user K arg w")
  show ?thesis
    using scart_saa_defined [OF assms] scart_get_defined [OF assms, of cmd w]
    by (auto simp: user_command_def fu avs_return_def scart_set_None_iff [OF assms] bind_eq_None_conv
        simp del: not_None_eq split: option.splits prod.splits)
qed

lemma command_kernel_None_iff:
  assumes "P s"
  shows "scart_command_kernel K stores ops cmd arg s w = None \<longleftrightarrow>
    cmd = AVSIOSSCARTPIN8 \<and> (sint arg < 0 \<or> int (length (op_pin8 ops)) \<le> sint arg)"
  using scart_saa_defined [OF assms] scart_get_defined [OF assms, of cmd w]
  by (auto simp: kernel_command_def avs_return_def scart_set_None_iff [OF assms] bind_eq_None_conv
      simp del: not_None_eq split: option.splits prod.splits)

end

locale basic_chip = avs_user K I for K :: "'w avs_kernel" and I :: "'s \<Rightarrow> 'w \<Rightarrow> bool" +
  fixes ops :: "('s, 'w) basic_ops"
  assumes b_set_volume: "keeps I (bop_set_volume ops val)"
    and b_set_mute: "keeps I (bop_set_mute ops val)"
    and b_standby: "keeps I (bop_standby ops val)"
    and b_set_mode: "keeps I (bop_set_mode ops val)"
    and b_set_encoder: "keeps I (bop_set_encoder ops val)"
    and b_set_wss: "keeps I (bop_set_wss ops val)"
    and b_src_sel: "keeps I (bop_src_sel ops val)"
begin

lemma basic_set_keeps: "keeps I (basic_set ops cmd val)"
  by (rule keepsI)
    (auto simp: basic_set_def avs_return_def split: if_splits
      dest: keepsD [OF b_set_volume] keepsD [OF b_set_mute] keepsD [OF b_standby])

lemma basic_saa_keeps: "keeps I (basic_saa ops cmd val)"
  by (rule keepsI)
    (auto simp: basic_saa_def avs_return_def split: if_splits
      dest: keepsD [OF b_set_mode] keepsD [OF b_set_encoder] keepsD [OF b_set_wss] keepsD [OF b_src_sel])

lemma basic_get_keeps: "I s w \<Longrightarrow> basic_get ops cmd s w = Some (v, w') \<Longrightarrow> I s w'"
  by (auto simp: basic_get_def split: if_splits)

lemma basic_command_keeps: "keeps I (basic_command K ops cmd arg)"
  by (rule user_command_keeps [OF basic_set_keeps basic_saa_keeps basic_get_keeps])

lemma basic_command_kernel_keeps: "keeps I (basic_command_kernel K stores ops cmd arg)"
  by (rule kernel_command_keeps [OF basic_set_keeps basic_saa_keeps basic_get_keeps])

end

section \<open>Sequences of calls\<close>

datatype avs_call = User u32 u32 | Kernel u32 u32

text \<open>The calls one after the other, whatever each of them returns.\<close>

fun avs_run :: "(avs_call \<Rightarrow> ('s, 'w) avs_op) \<Rightarrow> avs_call list \<Rightarrow> 's \<Rightarrow> 'w \<Rightarrow> ('s \<times> 'w) option" where
  "avs_run call [] s w = Some (s, w)"
| "avs_run call (c # cs) s w = do { (r, s, w) \<leftarrow> call c s w; avs_run call cs s w }"

locale avs_calls =
  fixes call :: "avs_call \<Rightarrow> ('s, 'w) avs_op" and I :: "'s \<Rightarrow> 'w \<Rightarrow> bool"
  assumes call_keeps: "keeps I (call c)"
begin

lemma run_keeps: "I s w \<Longrightarrow> avs_run call cs s w = Some (s', w') \<Longrightarrow> I s' w'"
proof (induction cs arbitrary: s w)
  case (Cons c cs)
  then obtain r s1 w1 where "call c s w = Some (r, s1, w1)" "avs_run call cs s1 w1 = Some (s', w')"
    by (auto simp: bind_eq_Some_conv)
  then show ?case using Cons.IH keepsD [OF call_keeps Cons.prems(1)] by blast
qed simp

end

section \<open>The registers of a chip\<close>

text \<open>
  The I2C bus as the drivers use it: \<open>chip\<close> is what is known of the registers of the chip. A transfer that
  reports all its bytes has arrived (\<open>Some\<close> message); after one that does not nothing is known (\<open>None\<close>);
  nothing but a message changes the registers.
\<close>

definition avs_bus :: "'w avs_kernel \<Rightarrow> ('w \<Rightarrow> u8 list option) \<Rightarrow> bool" where
  "avs_bus K chip \<longleftrightarrow>
     (\<forall>client bs w. chip (snd (ak_i2c_send K client bs w)) =
        (if fst (ak_i2c_send K client bs w) = int (length bs) then Some bs else None)) \<and>
     (\<forall>client w. chip (snd (ak_i2c_recv K client w)) = chip w) \<and>
     (\<forall>arg w. chip (snd (ak_from_user K arg w)) = chip w) \<and>
     (\<forall>val arg w. chip (snd (ak_put_user K val arg w)) = chip w) \<and>
     (\<forall>arg val w. chip (ak_store K arg val w) = chip w) \<and>
     (\<forall>n v w. chip (ak_set_pin K n v w) = chip w)"

text \<open>No transfer fails.\<close>

definition avs_acks :: "'w avs_kernel \<Rightarrow> bool" where
  "avs_acks K \<longleftrightarrow> (\<forall>client bs w. fst (ak_i2c_send K client bs w) = int (length bs))"

text \<open>The chip holds the bytes \<open>bs\<close>, unless the last transfer has failed.\<close>

definition in_step :: "'w avs_kernel \<Rightarrow> ('w \<Rightarrow> u8 list option) \<Rightarrow> u8 list \<Rightarrow> 'w \<Rightarrow> bool" where
  "in_step K chip bs w \<longleftrightarrow> chip w = Some bs \<or> chip w = None \<and> \<not> avs_acks K"

lemma send_in_step: "avs_bus K chip \<Longrightarrow> ak_i2c_send K client bs w = (n, w') \<Longrightarrow> in_step K chip bs w'"
  unfolding avs_bus_def in_step_def avs_acks_def by (metis fst_conv snd_conv)

text \<open>The chip holds what the driver's variables say.\<close>

definition shadows :: "'w avs_kernel \<Rightarrow> ('w \<Rightarrow> u8 list option) \<Rightarrow> ('s \<Rightarrow> u8 list) \<Rightarrow> 's \<Rightarrow> 'w \<Rightarrow> bool" where
  "shadows K chip message s w \<longleftrightarrow> (avs_bus K chip \<longrightarrow> in_step K chip (message s) w)"

lemma shadows_recv: "shadows K chip message s w \<Longrightarrow> shadows K chip message s (snd (ak_i2c_recv K client w))"
  by (auto simp: shadows_def in_step_def avs_bus_def)

interpretation shadow: avs_user K "shadows K chip message"
  for K :: "'w avs_kernel" and chip :: "'w \<Rightarrow> u8 list option" and message :: "'s \<Rightarrow> u8 list"
  by unfold_locales (auto simp: shadows_def in_step_def avs_bus_def)

text \<open>A property of the variables alone is not touched by accesses to user memory.\<close>

interpretation variables: avs_user K "\<lambda>s w. P s" for K :: "'w avs_kernel" and P :: "'s \<Rightarrow> bool"
  by unfold_locales

section \<open>Standby\<close>

text \<open>
  In standby the drivers keep a copy of the registers from before. \<open>quiet\<close> are the calls other than the
  standby command; none of them touches the copy or ends the standby.
\<close>

primrec call_cmd :: "avs_call \<Rightarrow> u32" where
  "call_cmd (User cmd arg) = cmd"
| "call_cmd (Kernel cmd arg) = cmd"

abbreviation quiet :: "avs_call \<Rightarrow> bool" where
  "quiet c \<equiv> call_cmd c \<noteq> AVSIOSTANDBY"

locale standby_chip =
  fixes call :: "avs_call \<Rightarrow> ('s, 'w) avs_op" and standby :: "int \<Rightarrow> ('s, 'w) avs_op"
    and regs :: "'s \<Rightarrow> 'r" and awake :: "'s \<Rightarrow> bool" and asleep :: "'s \<Rightarrow> bool" and backup :: "'s \<Rightarrow> 'r"
  assumes enter: "awake s \<Longrightarrow> standby 1 s w = Some (r, s', w') \<Longrightarrow> asleep s' \<and> backup s' = regs s"
    and sleeping: "quiet c \<Longrightarrow> keeps (\<lambda>s w. asleep s \<and> backup s = b) (call c)"
    and leave: "asleep s \<Longrightarrow> \<exists>r s' w'. standby 0 s w = Some (r, s', w') \<and> awake s' \<and> regs s' = backup s"
begin

lemma run_sleeping:
  "\<forall>c \<in> set cs. quiet c \<Longrightarrow> avs_run call cs s w = Some (s', w') \<Longrightarrow> asleep s \<Longrightarrow>
     asleep s' \<and> backup s' = backup s"
proof (induction cs arbitrary: s w)
  case (Cons c cs)
  then obtain r s1 w1 where c: "call c s w = Some (r, s1, w1)" "avs_run call cs s1 w1 = Some (s', w')"
    by (auto simp: bind_eq_Some_conv)
  have "asleep s1 \<and> backup s1 = backup s"
    by (rule keepsD [OF sleeping [of c] _ c(1)]) (use Cons.prems in auto)
  then show ?case using Cons.IH [of s1 w1] Cons.prems(1) c(2) by simp
qed simp

lemma wake_restores:
  assumes "awake s" "standby 1 s w = Some (r1, s1, w1)" "\<forall>c \<in> set cs. quiet c"
    "avs_run call cs s1 w1 = Some (s2, w2)"
  shows "asleep s2" "\<exists>r s' w'. standby 0 s2 w2 = Some (r, s', w') \<and> awake s' \<and> regs s' = regs s"
proof -
  have *: "asleep s1" "backup s1 = regs s" using enter [OF assms(1, 2)] by auto
  then show "asleep s2" using run_sleeping [OF assms(3, 4)] by simp
  then show "\<exists>r s' w'. standby 0 s2 w2 = Some (r, s', w') \<and> awake s' \<and> regs s' = regs s"
    using run_sleeping [OF assms(3, 4)] * leave [of s2 w2] by metis
qed

end

text \<open>Without the standby command the operation behind it does not matter.\<close>

abbreviation no_standby :: "('s, 'w) scart_ops \<Rightarrow> ('s, 'w) scart_ops" where
  "no_standby ops \<equiv> ops\<lparr>op_standby := \<lambda>val. avs_return 0\<rparr>"

lemma scart_set_no_standby: "cmd \<noteq> AVSIOSTANDBY \<Longrightarrow> scart_set (no_standby ops) cmd = scart_set ops cmd"
  by (intro ext) (simp add: scart_set_def)

lemma scart_get_no_standby: "scart_get (no_standby ops) = scart_get ops"
  by (intro ext) (simp add: scart_get_def Let_def)

lemma scart_saa_no_standby: "scart_saa (no_standby ops) = scart_saa ops"
  by (intro ext) (simp add: scart_saa_def)

lemma scart_command_no_standby:
  "cmd \<noteq> AVSIOSTANDBY \<Longrightarrow> scart_command K (no_standby ops) cmd arg = scart_command K ops cmd arg"
  "cmd \<noteq> AVSIOSTANDBY \<Longrightarrow>
     scart_command_kernel K stores (no_standby ops) cmd arg = scart_command_kernel K stores ops cmd arg"
  by (simp_all add: fun_eq_iff user_command_def kernel_command_def scart_set_no_standby scart_get_no_standby
      scart_saa_no_standby split: prod.split option.split)

abbreviation basic_no_standby :: "('s, 'w) basic_ops \<Rightarrow> ('s, 'w) basic_ops" where
  "basic_no_standby ops \<equiv> ops\<lparr>bop_standby := \<lambda>val. avs_return 0\<rparr>"

lemma basic_command_no_standby:
  "cmd \<noteq> AVSIOSTANDBY \<Longrightarrow> basic_command K (basic_no_standby ops) cmd arg = basic_command K ops cmd arg"
  "cmd \<noteq> AVSIOSTANDBY \<Longrightarrow>
     basic_command_kernel K stores (basic_no_standby ops) cmd arg = basic_command_kernel K stores ops cmd arg"
  by (simp_all add: fun_eq_iff user_command_def kernel_command_def basic_set_def basic_get_def basic_saa_def
      split: prod.split option.split)

section \<open>A kernel\<close>

text \<open>
  A kernel to evaluate the drivers on: the world is the last message on the bus, every message arrives,
  and the user's value is the address.
\<close>

definition bench :: "u8 list avs_kernel" where
  "bench =
     \<lparr>ak_i2c_send = (\<lambda>client bs w. (int (length bs), bs)), ak_i2c_recv = (\<lambda>client w. ((1, 0), w)),
      ak_from_user = (\<lambda>arg w. (Some (sint arg), w)), ak_put_user = (\<lambda>val arg w. (0, w)),
      ak_store = (\<lambda>arg val w. w), ak_request_pin = (\<lambda>port pin name w. (Some pin, w)), ak_free_pin = (\<lambda>n w. w),
      ak_set_pin = (\<lambda>n v w. w), ak_udelay = (\<lambda>n w. w), ak_kzalloc = (\<lambda>w. (Some 0, w)), ak_kfree = (\<lambda>n w. w),
      ak_i2c_attach = (\<lambda>n w. w), ak_i2c_detach = (\<lambda>n w. w), ak_i2c_add_driver = (\<lambda>l w. ((0, [0]), w)),
      ak_i2c_del_driver = (\<lambda>w. w), ak_misc_register = (\<lambda>w. (0, w)), ak_misc_deregister = (\<lambda>w. w)\<rparr>"

lemma bench_bus: "avs_bus bench Some"
  by (simp add: avs_bus_def bench_def)

lemma bench_in_step [simp]: "in_step bench Some bs w \<longleftrightarrow> w = bs"
  by (auto simp: in_step_def)

end
