(* ===== verification/Avs_Stv6412.thy ===== *)
theory Avs_Stv6412
  imports Avs_Command
begin

text \<open>
  The STV6412 (\<^verbatim>\<open>stv6412.c\<close>): the registers of the chip as bit fields, its operations, and its two command
  functions.
\<close>

section \<open>State\<close>

record s_stv6412_data =
  svm :: "1 word"
  t_vol_c :: "5 word"
  t_vol_x :: "1 word"
  t_stereo :: "1 word"
  tc_asc :: "3 word"
  c_ag :: "1 word"
  v_asc :: "2 word"
  res1 :: "1 word"
  v_stereo :: "1 word"
  t_vsc :: "3 word"
  t_cm :: "1 word"
  v_vsc :: "3 word"
  v_cm :: "1 word"
  fblk :: "2 word"
  rgb_vsc :: "2 word"
  rgb_gain :: "3 word"
  rgb_tri :: "1 word"
  t_rcos :: "1 word"
  r_ac :: "1 word"
  r_tfc :: "1 word"
  v_cgc :: "1 word"
  v_coc :: "1 word"
  res2 :: "1 word"
  slb :: "1 word"
  it_enable :: "1 word"
  e_rcsc :: "1 word"
  v_rcsc :: "1 word"
  e_aig :: "2 word"
  t_sb :: "2 word"
  v_sb :: "2 word"
  e_in :: "1 word"
  v_in :: "1 word"
  t_in :: "1 word"
  a_in :: "1 word"
  v_out :: "1 word"
  c_out :: "1 word"
  t_out :: "1 word"
  r_out :: "1 word"

text \<open>
  The variables of the file. \<open>old_tc_asc\<close>, \<open>old_v_asc\<close> and \<open>t_stnby\<close> are the globals \<^verbatim>\<open>tc_asc\<close>, \<^verbatim>\<open>v_asc\<close> and
  \<^verbatim>\<open>t_stnby\<close>: the audio sources while the switch is muted (0xff if it is not), and the standby flag.
\<close>

record stv6412 =
  stv6412_data :: s_stv6412_data
  tmpstv6412_data :: s_stv6412_data
  stv6412_s_old_src :: int
  old_tc_asc :: u8
  old_v_asc :: u8
  t_stnby :: u8

definition stv6412_zero :: s_stv6412_data where
  "stv6412_zero = \<lparr>
     svm = 0, t_vol_c = 0, t_vol_x = 0, t_stereo = 0,
     tc_asc = 0, c_ag = 0, v_asc = 0, res1 = 0, v_stereo = 0,
     t_vsc = 0, t_cm = 0, v_vsc = 0, v_cm = 0,
     fblk = 0, rgb_vsc = 0, rgb_gain = 0, rgb_tri = 0,
     t_rcos = 0, r_ac = 0, r_tfc = 0, v_cgc = 0, v_coc = 0, res2 = 0, slb = 0, it_enable = 0,
     e_rcsc = 0, v_rcsc = 0, e_aig = 0, t_sb = 0, v_sb = 0,
     e_in = 0, v_in = 0, t_in = 0, a_in = 0, v_out = 0, c_out = 0, t_out = 0, r_out = 0\<rparr>"

definition stv6412_start :: stv6412 where
  "stv6412_start = \<lparr>stv6412_data = stv6412_zero, tmpstv6412_data = stv6412_zero, stv6412_s_old_src = 0,
     old_tc_asc = 0, old_v_asc = 0, t_stnby = 0\<rparr>"

text \<open>The bytes of the struct.\<close>

definition stv6412_bytes :: "s_stv6412_data \<Rightarrow> u8 list" where
  "stv6412_bytes d =
     [fld 0 (svm d) OR fld 1 (t_vol_c d) OR fld 6 (t_vol_x d) OR fld 7 (t_stereo d),
      fld 0 (tc_asc d) OR fld 3 (c_ag d) OR fld 4 (v_asc d) OR fld 6 (res1 d) OR fld 7 (v_stereo d),
      fld 0 (t_vsc d) OR fld 3 (t_cm d) OR fld 4 (v_vsc d) OR fld 7 (v_cm d),
      fld 0 (fblk d) OR fld 2 (rgb_vsc d) OR fld 4 (rgb_gain d) OR fld 7 (rgb_tri d),
      fld 0 (t_rcos d) OR fld 1 (r_ac d) OR fld 2 (r_tfc d) OR fld 3 (v_cgc d) OR fld 4 (v_coc d) OR
        fld 5 (res2 d) OR fld 6 (slb d) OR fld 7 (it_enable d),
      fld 0 (e_rcsc d) OR fld 1 (v_rcsc d) OR fld 2 (e_aig d) OR fld 4 (t_sb d) OR fld 6 (v_sb d),
      fld 0 (e_in d) OR fld 1 (v_in d) OR fld 2 (t_in d) OR fld 3 (a_in d) OR fld 4 (v_out d) OR
        fld 5 (c_out d) OR fld 6 (t_out d) OR fld 7 (r_out d)]"

section \<open>Sending the registers\<close>

definition stv6412_fixed :: "avs_board \<Rightarrow> bool" where
  "stv6412_fixed b \<longleftrightarrow> b \<in> {FS9000, HL101, VIP1_V1, IPBOX9900}"

text \<open>On some boards the bytes are fixed, and only the first ten of the eleven are sent.\<close>

definition stv6412_message :: "avs_board \<Rightarrow> stv6412 \<Rightarrow> u8 list" where
  "stv6412_message b s =
     (if stv6412_fixed b
      then take 10 [0x00, 0x40, 0x09, 0x11, 0x84, 0x84, 0x25, 0x08, 0x21, 0xc0, 0x00]
      else 0 # stv6412_bytes (stv6412_data s))"

definition stv6412_set :: "avs_board \<Rightarrow> 'w avs_kernel \<Rightarrow> nat option \<Rightarrow> (stv6412, 'w) avs_op" where
  "stv6412_set b K client s w =
     (let buffer = stv6412_message b s; (n, w) = ak_i2c_send K client buffer w in
      if stv6412_fixed b then avs_return 0 s w
      else if int (length buffer) \<noteq> n then avs_return (- AVS_EFAULT) s w
      else avs_return 0 s w)"

definition with_data :: "(s_stv6412_data \<Rightarrow> s_stv6412_data) \<Rightarrow> stv6412 \<Rightarrow> stv6412" where
  "with_data f s = s\<lparr>stv6412_data := f (stv6412_data s)\<rparr>"

section \<open>Operations\<close>

definition stv6412_set_volume :: "avs_board \<Rightarrow> 'w avs_kernel \<Rightarrow> nat option \<Rightarrow> int \<Rightarrow> (stv6412, 'w) avs_op" where
  "stv6412_set_volume b K client vol s w =
     (if b = ADB_BOX then stv6412_set b K client s w
      else
        let c = (if vol = 63 then 62 else vol); c = (if c = 0 then 1 else c) in
        if c > 63 \<or> c < 0 then avs_return (- AVS_EINVAL) s w
        else stv6412_set b K client (with_data (\<lambda>d. d\<lparr>t_vol_c := word_of_int (c div 2)\<rparr>) s) w)"

definition stv6412_set_mute :: "avs_board \<Rightarrow> 'w avs_kernel \<Rightarrow> nat option \<Rightarrow> int \<Rightarrow> (stv6412, 'w) avs_op" where
  "stv6412_set_mute b K client type s w =
     (if type < AVS_UNMUTE \<or> type > AVS_MUTE then avs_return (- AVS_EINVAL) s w
      else if type = AVS_MUTE then
        stv6412_set b K client
          (if old_tc_asc s = 0xff then
             with_data (\<lambda>d. d\<lparr>tc_asc := 0, v_asc := 0\<rparr>)
               (s\<lparr>old_tc_asc := ucast (tc_asc (stv6412_data s)), old_v_asc := ucast (v_asc (stv6412_data s))\<rparr>)
           else s) w
      else
        stv6412_set b K client
          (if old_tc_asc s \<noteq> 0xff then
             (with_data (\<lambda>d. d\<lparr>tc_asc := ucast (old_tc_asc s), v_asc := ucast (old_v_asc s)\<rparr>) s)
               \<lparr>old_tc_asc := 0xff, old_v_asc := 0xff\<rparr>
           else s) w)"

definition stv6412_set_vsw :: "avs_board \<Rightarrow> 'w avs_kernel \<Rightarrow> nat option \<Rightarrow> int \<Rightarrow> int \<Rightarrow> (stv6412, 'w) avs_op" where
  "stv6412_set_vsw b K client sw type s w =
     (if type < 0 \<or> type > 4 then avs_return (- AVS_EINVAL) s w
      else if sw = 0 then stv6412_set b K client (with_data (\<lambda>d. d\<lparr>v_vsc := word_of_int type\<rparr>) s) w
      else if sw = 1 then
        if type < 0 \<or> type > 2 then avs_return (- AVS_EINVAL) s w
        else stv6412_set b K client (with_data (\<lambda>d. d\<lparr>rgb_vsc := word_of_int type\<rparr>) s) w
      else if sw = 2 then stv6412_set b K client (with_data (\<lambda>d. d\<lparr>t_vsc := word_of_int type\<rparr>) s) w
      else avs_return (- AVS_EINVAL) s w)"

definition stv6412_set_asw :: "avs_board \<Rightarrow> 'w avs_kernel \<Rightarrow> nat option \<Rightarrow> int \<Rightarrow> int \<Rightarrow> (stv6412, 'w) avs_op" where
  "stv6412_set_asw b K client sw type s w =
     (if sw = 0 then
        if type \<le> 0 \<or> type > 3 then avs_return (- AVS_EINVAL) s w
        else stv6412_set b K client
          (if old_v_asc s = 0xff then with_data (\<lambda>d. d\<lparr>v_asc := word_of_int type\<rparr>) s
           else s\<lparr>old_v_asc := word_of_int type\<rparr>) w
      else if sw = 1 \<or> sw = 2 then
        if type \<le> 0 \<or> type > 4 then avs_return (- AVS_EINVAL) s w
        else stv6412_set b K client
          (if old_tc_asc s = 0xff then with_data (\<lambda>d. d\<lparr>tc_asc := word_of_int type\<rparr>) s
           else s\<lparr>old_tc_asc := word_of_int type\<rparr>) w
      else avs_return (- AVS_EINVAL) s w)"

definition stv6412_set_t_sb :: "avs_board \<Rightarrow> 'w avs_kernel \<Rightarrow> nat option \<Rightarrow> int \<Rightarrow> (stv6412, 'w) avs_op" where
  "stv6412_set_t_sb b K client type s w =
     (if type < 0 \<or> type > 3 then avs_return (- AVS_EINVAL) s w
      else stv6412_set b K client (with_data (\<lambda>d. d\<lparr>t_sb := word_of_int type\<rparr>) s) w)"

definition stv6412_set_wss :: "avs_board \<Rightarrow> 'w avs_kernel \<Rightarrow> nat option \<Rightarrow> int \<Rightarrow> (stv6412, 'w) avs_op" where
  "stv6412_set_wss b K client vol s w =
     (if vol = SAA_WSS_43F then stv6412_set b K client (with_data (\<lambda>d. d\<lparr>t_sb := 3\<rparr>) s) w
      else if vol = SAA_WSS_169F then stv6412_set b K client (with_data (\<lambda>d. d\<lparr>t_sb := 2\<rparr>) s) w
      else if vol = SAA_WSS_OFF then stv6412_set b K client (with_data (\<lambda>d. d\<lparr>t_sb := 0\<rparr>) s) w
      else avs_return (- AVS_EINVAL) s w)"

definition stv6412_set_fblk :: "avs_board \<Rightarrow> 'w avs_kernel \<Rightarrow> nat option \<Rightarrow> int \<Rightarrow> (stv6412, 'w) avs_op" where
  "stv6412_set_fblk b K client type s w =
     (if type < 0 \<or> type > 3 then avs_return (- AVS_EINVAL) s w
      else stv6412_set b K client (with_data (\<lambda>d. d\<lparr>fblk := word_of_int type\<rparr>) s) w)"

definition stv6412_get_status :: "'w avs_kernel \<Rightarrow> nat option \<Rightarrow> 'w \<Rightarrow> int \<times> 'w" where
  "stv6412_get_status K client w =
     (let ((n, byte), w) = ak_i2c_recv K client w in (if n \<noteq> 1 then -1 else uint byte, w))"

definition stv6412_get_volume :: "stv6412 \<Rightarrow> int" where
  "stv6412_get_volume s = (let c = uint (t_vol_c (stv6412_data s)) in if c \<noteq> 0 then c * 2 else c)"

definition stv6412_get_mute :: "stv6412 \<Rightarrow> int" where
  "stv6412_get_mute s = (if \<not> (old_tc_asc s = 0xff \<and> old_v_asc s = 0xff) then 1 else 0)"

definition stv6412_get_fblk :: "stv6412 \<Rightarrow> int" where
  "stv6412_get_fblk s = uint (fblk (stv6412_data s))"

definition stv6412_get_t_sb :: "stv6412 \<Rightarrow> int" where
  "stv6412_get_t_sb s = uint (t_sb (stv6412_data s))"

definition stv6412_get_vsw :: "int \<Rightarrow> stv6412 \<Rightarrow> int" where
  "stv6412_get_vsw sw s =
     (if sw = 0 then uint (v_vsc (stv6412_data s))
      else if sw = 1 then uint (rgb_vsc (stv6412_data s))
      else if sw = 2 then uint (t_vsc (stv6412_data s))
      else - AVS_EINVAL)"

definition stv6412_get_asw :: "int \<Rightarrow> stv6412 \<Rightarrow> int" where
  "stv6412_get_asw sw s =
     (if sw = 0 then
        if old_v_asc s = 0xff then uint (v_asc (stv6412_data s)) else uint (old_v_asc s)
      else if sw = 1 \<or> sw = 2 then
        if old_tc_asc s = 0xff then uint (tc_asc (stv6412_data s)) else uint (old_tc_asc s)
      else - AVS_EINVAL)"

definition stv6412_set_encoder :: "int \<Rightarrow> (stv6412, 'w) avs_op" where
  "stv6412_set_encoder vol s w = avs_return 0 s w"

definition stv6412_set_mode :: "avs_board \<Rightarrow> 'w avs_kernel \<Rightarrow> nat option \<Rightarrow> int \<Rightarrow> (stv6412, 'w) avs_op" where
  "stv6412_set_mode b K client val s w =
     (let source = (\<lambda>v s. if t_vsc (stv6412_data s) = 4 then s\<lparr>stv6412_s_old_src := v\<rparr>
                         else with_data (\<lambda>d. d\<lparr>t_vsc := word_of_int v\<rparr>) s)
      in
      if val = SAA_MODE_RGB then
        stv6412_set b K client (with_data (\<lambda>d. d\<lparr>fblk := 1\<rparr>) (source 1 s)) w
      else if val = SAA_MODE_FBAS then
        stv6412_set b K client (with_data (\<lambda>d. d\<lparr>fblk := 0\<rparr>) (source 1 s)) w
      else if val = SAA_MODE_SVIDEO then
        stv6412_set b K client (with_data (\<lambda>d. d\<lparr>fblk := 0\<rparr>) (source 2 s)) w
      else avs_return (- AVS_EINVAL) s w)"

definition stv6412_src_sel :: "avs_board \<Rightarrow> 'w avs_kernel \<Rightarrow> nat option \<Rightarrow> int \<Rightarrow> (stv6412, 'w) avs_op" where
  "stv6412_src_sel b K client src s w =
     (if src = SAA_SRC_ENC then
        stv6412_set b K client
          (with_data (\<lambda>d. d\<lparr>t_vsc := word_of_int (stv6412_s_old_src s),
                           v_vsc := word_of_int (stv6412_s_old_src s), tc_asc := 1, v_asc := 1\<rparr>) s) w
      else if src = SAA_SRC_SCART then
        let s = s\<lparr>stv6412_s_old_src := uint (t_vsc (stv6412_data s))\<rparr> in
        stv6412_set b K client
          (if b = ADB_BOX then s
           else with_data (\<lambda>d. d\<lparr>t_vsc := 4, v_vsc := 0, tc_asc := 2, v_asc := 0\<rparr>) s) w
      else avs_return (- AVS_EINVAL) s w)"

definition stv6412_standby :: "avs_board \<Rightarrow> 'w avs_kernel \<Rightarrow> nat option \<Rightarrow> int \<Rightarrow> (stv6412, 'w) avs_op" where
  "stv6412_standby b K client type s w =
     (if type < 0 \<or> type > 1 then avs_return (- AVS_EINVAL) s w
      else if type = 1 then
        if t_stnby s = 0 then
          stv6412_set b K client
            (with_data (\<lambda>d. d\<lparr>e_in := 1, v_in := 1, t_in := 1, a_in := 1,
                             v_out := 1, c_out := 1, t_out := 1, r_out := 1\<rparr>)
              (s\<lparr>tmpstv6412_data := stv6412_data s, t_stnby := 1\<rparr>)) w
        else avs_return (- AVS_EINVAL) s w
      else
        if t_stnby s = 1 then
          stv6412_set b K client (s\<lparr>stv6412_data := tmpstv6412_data s, t_stnby := 0\<rparr>) w
        else avs_return (- AVS_EINVAL) s w)"

section \<open>Commands\<close>

text \<open>On some boards fast blanking cannot be set or read from user space.\<close>

definition stv6412_no_fblk :: "avs_board \<Rightarrow> bool" where
  "stv6412_no_fblk b \<longleftrightarrow> b \<in> {FS9000, HL101, VIP1_V1, IPBOX9900, IPBOX99}"

definition stv6412_ops :: "avs_board \<Rightarrow> 'w avs_kernel \<Rightarrow> nat option \<Rightarrow> (stv6412, 'w) scart_ops" where
  "stv6412_ops b K client = \<lparr>
     op_set_vsw = stv6412_set_vsw b K client,
     op_set_asw = stv6412_set_asw b K client,
     op_set_volume = stv6412_set_volume b K client,
     op_set_mute = stv6412_set_mute b K client,
     op_set_fblk = stv6412_set_fblk b K client,
     op_set_t_sb = stv6412_set_t_sb b K client,
     op_standby = stv6412_standby b K client,
     op_get_vsw = (\<lambda>sw s. Some (stv6412_get_vsw sw s)),
     op_get_asw = (\<lambda>sw s. Some (stv6412_get_asw sw s)),
     op_get_volume = (\<lambda>s. Some (stv6412_get_volume s)),
     op_get_mute = (\<lambda>s. Some (stv6412_get_mute s)),
     op_get_fblk = (\<lambda>s. Some (stv6412_get_fblk s)),
     op_get_t_sb = (\<lambda>s. Some (stv6412_get_t_sb s)),
     op_get_status = stv6412_get_status K client,
     op_set_mode = stv6412_set_mode b K client,
     op_set_encoder = stv6412_set_encoder,
     op_set_wss = stv6412_set_wss b K client,
     op_src_sel = stv6412_src_sel b K client,
     op_pin8 = [0, 2, 3],
     op_pin8_reverse = [0, 0, 1, 2]\<rparr>"

definition stv6412_user_ops :: "avs_board \<Rightarrow> 'w avs_kernel \<Rightarrow> nat option \<Rightarrow> (stv6412, 'w) scart_ops" where
  "stv6412_user_ops b K client =
     (if stv6412_no_fblk b
      then (stv6412_ops b K client)\<lparr>op_set_fblk := (\<lambda>val s w. avs_return (-1) s w), op_get_fblk := (\<lambda>s. Some 0)\<rparr>
      else stv6412_ops b K client)"

definition stv6412_command :: "avs_board \<Rightarrow> 'w avs_kernel \<Rightarrow> nat option \<Rightarrow> u32 \<Rightarrow> u32 \<Rightarrow> (stv6412, 'w) avs_op" where
  "stv6412_command b K client = scart_command K (stv6412_user_ops b K client)"

definition stv6412_command_kernel :: "avs_board \<Rightarrow> 'w avs_kernel \<Rightarrow> nat option \<Rightarrow> u32 \<Rightarrow> u32 \<Rightarrow> (stv6412, 'w) avs_op" where
  "stv6412_command_kernel b K client = scart_command_kernel K True (stv6412_ops b K client)"

definition stv6412_init :: "avs_board \<Rightarrow> 'w avs_kernel \<Rightarrow> nat option \<Rightarrow> (stv6412, 'w) avs_op" where
  "stv6412_init b K client s w =
     stv6412_set b K client
       (s\<lparr>stv6412_data := stv6412_zero
            \<lparr>t_vol_c := 0, v_asc := 1, tc_asc := 1, v_vsc := 1, t_vsc := 1, rgb_tri := 1, rgb_vsc := 1,
             fblk := 2, t_rcos := 1, res2 := 1, t_sb := 3, v_sb := 0, a_in := 0\<rparr>,
          stv6412_s_old_src := 1, old_tc_asc := 0xff, old_v_asc := 0xff\<rparr>) w"

primrec stv6412_call :: "avs_board \<Rightarrow> 'w avs_kernel \<Rightarrow> nat option \<Rightarrow> avs_call \<Rightarrow> (stv6412, 'w) avs_op" where
  "stv6412_call b K client (User cmd arg) = stv6412_command b K client cmd arg"
| "stv6412_call b K client (Kernel cmd arg) = stv6412_command_kernel b K client cmd arg"

section \<open>The registers of the chip\<close>

lemmas stv6412_op_defs = stv6412_set_vsw_def [abs_def] stv6412_set_asw_def [abs_def]
  stv6412_set_volume_def [abs_def] stv6412_set_mute_def [abs_def] stv6412_set_fblk_def [abs_def]
  stv6412_set_t_sb_def [abs_def] stv6412_standby_def [abs_def] stv6412_set_mode_def [abs_def]
  stv6412_set_encoder_def [abs_def] stv6412_set_wss_def [abs_def] stv6412_src_sel_def [abs_def]

lemma stv6412_set_defined: "\<exists>r w'. stv6412_set b K client s w = Some (r, s, w')"
  by (auto simp: stv6412_set_def avs_return_def Let_def split: prod.splits)

lemma stv6412_set_total [simp]: "stv6412_set b K client s w = None \<longleftrightarrow> False"
  using stv6412_set_defined [of b K client s w] by auto

lemma stv6412_set_same: "stv6412_set b K client s w = Some (r, s', w') \<Longrightarrow> s' = s"
  using stv6412_set_defined [of b K client s w] by auto

lemma stv6412_set_shadows:
  "stv6412_set b K client s w = Some (r, s', w') \<Longrightarrow> shadows K chip (stv6412_message b) s' w'"
  by (auto simp: shadows_def stv6412_set_def avs_return_def Let_def split: prod.splits if_splits intro: send_in_step)

lemma keeps_stv6412_shadow [keeps_intros]:
  "keeps (shadows K chip (stv6412_message b)) (\<lambda>s w. stv6412_set b K client (f s) w)"
  by (rule keepsI) (rule stv6412_set_shadows)

lemma keeps_stv6412_variables:
  "(\<And>s. P s \<Longrightarrow> P (f s)) \<Longrightarrow> keeps (\<lambda>s w. P s) (\<lambda>s w. stv6412_set b K client (f s) w)"
  by (rule keepsI) (metis stv6412_set_same)

lemma stv6412_get_status_shadows:
  "shadows K chip message s w \<Longrightarrow> shadows K chip message s (snd (stv6412_get_status K client w))"
  by (simp add: stv6412_get_status_def case_prod_unfold Let_def shadows_recv)

text \<open>What the operations keep, the commands keep with either of the two tables.\<close>

lemma stv6412_user_chip:
  "scart_chip K I (stv6412_ops b K client) \<Longrightarrow> scart_chip K I (stv6412_user_ops b K client)"
  "scart_chip K I (no_standby (stv6412_ops b K client)) \<Longrightarrow> scart_chip K I (no_standby (stv6412_user_ops b K client))"
  by (auto simp: scart_chip_def scart_chip_axioms_def stv6412_user_ops_def intro!: keeps_intros)

interpretation stv6412_shadow: scart_chip K "shadows K chip (stv6412_message b)" "stv6412_ops b K client"
  for K :: "'w avs_kernel" and chip b client
  by unfold_locales
    (auto simp: stv6412_ops_def stv6412_op_defs Let_def intro!: keeps_intros stv6412_get_status_shadows)

interpretation stv6412_user_shadow: scart_chip K "shadows K chip (stv6412_message b)" "stv6412_user_ops b K client"
  for K :: "'w avs_kernel" and chip b client
  by (intro stv6412_user_chip stv6412_shadow.scart_chip_axioms)

interpretation stv6412_calls_shadow: avs_calls "stv6412_call b K client" "shadows K chip (stv6412_message b)"
  for K :: "'w avs_kernel" and chip b client
proof
  show "keeps (shadows K chip (stv6412_message b)) (stv6412_call b K client c)" for c
    by (cases c) (simp_all add: stv6412_command_def stv6412_command_kernel_def
        stv6412_user_shadow.command_keeps stv6412_shadow.command_kernel_keeps)
qed

section \<open>Standby\<close>

definition powered_down :: "stv6412 \<Rightarrow> bool" where
  "powered_down s \<longleftrightarrow> t_stnby s = 1 \<and>
     (let d = stv6412_data s in
      e_in d = 1 \<and> v_in d = 1 \<and> t_in d = 1 \<and> a_in d = 1 \<and> v_out d = 1 \<and> c_out d = 1 \<and> t_out d = 1 \<and> r_out d = 1)"

lemma powered_down_byte: "powered_down s \<Longrightarrow> stv6412_bytes (stv6412_data s) ! 6 = 0xFF"
  by (simp add: powered_down_def Let_def stv6412_bytes_def fld_def)

lemma stv6412_sleeping:
  "scart_chip K (\<lambda>s w. powered_down s \<and> tmpstv6412_data s = B) (no_standby (stv6412_ops b K client))"
  by unfold_locales
    (auto simp: stv6412_ops_def stv6412_op_defs Let_def powered_down_def with_data_def
      intro!: keeps_intros keeps_stv6412_variables)

lemma stv6412_call_sleeping:
  assumes "quiet c"
  shows "keeps (\<lambda>s w. powered_down s \<and> tmpstv6412_data s = B) (stv6412_call b K client c)"
proof (cases c)
  case (User cmd arg)
  then show ?thesis
    using scart_chip.command_keeps [OF stv6412_user_chip(2) [OF stv6412_sleeping [of K B b client]], of cmd arg] assms
    by (simp add: stv6412_command_def scart_command_no_standby)
next
  case (Kernel cmd arg)
  then show ?thesis
    using scart_chip.command_kernel_keeps [OF stv6412_sleeping [of K B b client], of True cmd arg] assms
    by (simp add: stv6412_command_kernel_def scart_command_no_standby)
qed

lemma stv6412_enters:
  "t_stnby s = 0 \<Longrightarrow> stv6412_standby b K client 1 s w = Some (r, s', w') \<Longrightarrow>
     powered_down s' \<and> tmpstv6412_data s' = stv6412_data s"
  by (auto simp: stv6412_standby_def powered_down_def with_data_def Let_def dest!: stv6412_set_same)

text \<open>What leaving standby returns and sends, on a board whose bytes are not fixed.\<close>

lemma stv6412_leaves_chip:
  assumes "avs_bus K chip" "\<not> stv6412_fixed b" "powered_down s"
  shows "\<exists>r s' w'. stv6412_standby b K client 0 s w = Some (r, s', w') \<and> t_stnby s' = 0 \<and>
     stv6412_data s' = tmpstv6412_data s \<and>
     (if chip w' = None then r = - AVS_EFAULT \<and> \<not> avs_acks K
      else r = 0 \<and> chip w' = Some (0 # stv6412_bytes (tmpstv6412_data s)))"
proof -
  let ?s = "s\<lparr>stv6412_data := tmpstv6412_data s, t_stnby := 0\<rparr>"
  obtain n w' where send: "ak_i2c_send K client (stv6412_message b ?s) w = (n, w')" by fastforce
  have msg: "stv6412_message b ?s = 0 # stv6412_bytes (tmpstv6412_data s)"
    using assms(2) by (simp add: stv6412_message_def)
  have chip: "chip w' = (if n = int (length (stv6412_message b ?s)) then Some (stv6412_message b ?s) else None)"
    using assms(1) send unfolding avs_bus_def by (metis fst_conv snd_conv)
  have "\<not> avs_acks K" if "n \<noteq> int (length (stv6412_message b ?s))"
    using that send unfolding avs_acks_def by (metis fst_conv)
  then show ?thesis
    using assms(2, 3) send chip by (auto simp: stv6412_standby_def stv6412_set_def powered_down_def avs_return_def msg Let_def)
qed

lemma stv6412_leaves:
  "powered_down s \<Longrightarrow>
     \<exists>r s' w'. stv6412_standby b K client 0 s w = Some (r, s', w') \<and> t_stnby s' = 0 \<and> stv6412_data s' = tmpstv6412_data s"
  using stv6412_set_defined [of b K client "s\<lparr>stv6412_data := tmpstv6412_data s, t_stnby := 0\<rparr>" w]
  by (auto simp: stv6412_standby_def powered_down_def)

interpretation stv6412_stby: standby_chip "stv6412_call b K client" "stv6412_standby b K client"
    stv6412_data "\<lambda>s. t_stnby s = 0" powered_down tmpstv6412_data
  for b and K :: "'w avs_kernel" and client
  by unfold_locales (erule (1) stv6412_enters, erule stv6412_call_sleeping, erule stv6412_leaves)

lemma stv6412_enters_shadows:
  "t_stnby s = 0 \<Longrightarrow> stv6412_standby b K client 1 s w = Some (r, s', w') \<Longrightarrow> shadows K chip (stv6412_message b) s' w'"
  by (auto simp: stv6412_standby_def dest!: stv6412_set_shadows)

text \<open>
  C25. Standby of the STV6412 on the boards that send it the driver's variables: after entering it and
  whatever commands are then executed (other than the standby command), the power register of the chip is
  \<open>0xFF\<close>, every input and output off, if the last transfer was acknowledged. Leaving standby restores the
  variables from before; it returns 0, and the chip holds these registers again, or \<^verbatim>\<open>-EFAULT\<close> if its
  transfer fails. What the commands set meanwhile is lost.
\<close>

theorem stv6412_standby_restores:
  assumes "avs_bus K chip" "\<not> stv6412_fixed b" "t_stnby s = 0" "stv6412_standby b K client 1 s w = Some (r1, s1, w1)"
    "\<forall>c \<in> set cs. quiet c" "avs_run (stv6412_call b K client) cs s1 w1 = Some (s2, w2)"
  shows "(case chip w2 of None \<Rightarrow> \<not> avs_acks K | Some bs \<Rightarrow> length bs = 8 \<and> bs ! 7 = 0xFF) \<and>
    (\<exists>r s' w'. stv6412_standby b K client 0 s2 w2 = Some (r, s', w') \<and> t_stnby s' = 0 \<and> stv6412_data s' = stv6412_data s \<and>
       (if chip w' = None then r = - AVS_EFAULT \<and> \<not> avs_acks K
        else r = 0 \<and> chip w' = Some (0 # stv6412_bytes (stv6412_data s))))"
proof
  have down: "powered_down s2" using stv6412_stby.wake_restores(1) [OF assms(3-6)] .
  have tmp: "tmpstv6412_data s2 = stv6412_data s"
    using stv6412_stby.run_sleeping [OF assms(5, 6)] stv6412_enters [OF assms(3, 4)] by simp
  show "\<exists>r s' w'. stv6412_standby b K client 0 s2 w2 = Some (r, s', w') \<and> t_stnby s' = 0 \<and> stv6412_data s' = stv6412_data s \<and>
       (if chip w' = None then r = - AVS_EFAULT \<and> \<not> avs_acks K
        else r = 0 \<and> chip w' = Some (0 # stv6412_bytes (stv6412_data s)))"
    using stv6412_leaves_chip [OF assms(1, 2) down, of client w2] unfolding tmp .
  have "shadows K chip (stv6412_message b) s2 w2"
    by (rule stv6412_calls_shadow.run_keeps [OF stv6412_enters_shadows [OF assms(3, 4)] assms(6)])
  then have "in_step K chip (0 # stv6412_bytes (stv6412_data s2)) w2"
    using assms(1, 2) by (simp add: shadows_def stv6412_message_def)
  moreover have "length (stv6412_bytes (stv6412_data s2)) = 7" by (simp add: stv6412_bytes_def)
  ultimately show "case chip w2 of None \<Rightarrow> \<not> avs_acks K | Some bs \<Rightarrow> length bs = 8 \<and> bs ! 7 = 0xFF"
    using powered_down_byte [OF down] by (auto simp: in_step_def)
qed

theorem stv6412_standby_restores_witness:
  "\<exists>r1 s1 w1 s2 w2. stv6412_standby UFS922 bench None 1 stv6412_start [] = Some (r1, s1, w1) \<and>
     avs_run (stv6412_call UFS922 bench None) [User AVSIOSVOL 20, Kernel AVSIOSMUTE 1] s1 w1 = Some (s2, w2) \<and>
     w2 ! 7 = 0xFF \<and>
     (\<exists>s'. stv6412_standby UFS922 bench None 0 s2 w2 = Some (0, s', 0 # stv6412_bytes (stv6412_data stv6412_start)))"
proof -
  have "do { (r1, s1, w1) \<leftarrow> stv6412_standby UFS922 bench None 1 stv6412_start [];
      avs_run (stv6412_call UFS922 bench None) [User AVSIOSVOL 20, Kernel AVSIOSMUTE 1] s1 w1 } \<noteq> None"
    by code_simp
  then obtain r1 s1 w1 s2 w2 where run: "stv6412_standby UFS922 bench None 1 stv6412_start [] = Some (r1, s1, w1)"
      "avs_run (stv6412_call UFS922 bench None) [User AVSIOSVOL 20, Kernel AVSIOSMUTE 1] s1 w1 = Some (s2, w2)"
    by (auto simp: bind_eq_Some_conv)
  have "t_stnby stv6412_start = 0" "\<not> stv6412_fixed UFS922" by (simp_all add: stv6412_start_def stv6412_fixed_def)
  from stv6412_standby_restores [OF bench_bus this(2, 1) run(1) _ run(2)] show ?thesis using run by auto
qed

text \<open>
  The chip and the driver agree: after the initialisation and any sequence of commands from user
  space and from the kernel, whatever each of them returned, the chip holds the bytes of the driver's
  variables (the fixed bytes on the boards that have them), unless the last transfer failed.
\<close>

theorem stv6412_chip_shadow:
  assumes "avs_bus K chip" "stv6412_init b K client s w = Some (r, s0, w0)"
    "avs_run (stv6412_call b K client) cs s0 w0 = Some (s', w')"
  shows "in_step K chip (stv6412_message b s') w'"
  using stv6412_calls_shadow.run_keeps [OF stv6412_set_shadows [OF assms(2) [unfolded stv6412_init_def]] assms(3), of chip]
    assms(1) by (simp add: shadows_def)

section \<open>Memory safety\<close>

lemma uint_2_bits: "uint (x :: 2 word) < 4"
  using uint_lt2p [of x] by simp

interpretation stv6412_safe: scart_safe "stv6412_ops b K client" "\<lambda>s. True"
  for b and K :: "'w avs_kernel" and client
  by unfold_locales
    (auto simp: stv6412_ops_def stv6412_op_defs Let_def avs_return_def stv6412_get_t_sb_def uint_2_bits
      simp del: not_None_eq)

interpretation stv6412_user_safe: scart_safe "stv6412_user_ops b K client" "\<lambda>s. True"
  for b and K :: "'w avs_kernel" and client
  using stv6412_safe.scart_safe_axioms [of b K client]
  by (auto simp: scart_safe_def stv6412_user_ops_def avs_return_def)

text \<open>
  Memory safety of the commands: exactly when a command reads outside an array, namely for the
  command that sets pin 8, with a value outside the table of three entries.
\<close>

theorem stv6412_command_None_iff:
  "(stv6412_command b K client cmd arg s w = None \<longleftrightarrow>
     cmd = AVSIOSSCARTPIN8 \<and> (\<exists>val. fst (ak_from_user K arg w) = Some val \<and> val \<notin> {0, 1, 2})) \<and>
   (stv6412_command_kernel b K client cmd v s w = None \<longleftrightarrow>
     cmd = AVSIOSSCARTPIN8 \<and> sint v \<notin> {0, 1, 2})"
proof -
  have [simp]: "length (op_pin8 (stv6412_ops b K client)) = 3" "length (op_pin8 (stv6412_user_ops b K client)) = 3"
    by (simp_all add: stv6412_ops_def stv6412_user_ops_def)
  have "i < 0 \<or> 3 \<le> i \<longleftrightarrow> i \<notin> {0, 1, 2}" for i :: int by auto
  then show ?thesis
    by (simp add: stv6412_command_def stv6412_command_kernel_def stv6412_user_safe.command_None_iff
        stv6412_safe.command_kernel_None_iff)
qed

end
