(* ===== verification/Avs_Switch.thy ===== *)
theory Avs_Switch
  imports Avs_Stv6412
begin

text \<open>
  What the commands promise, without registers: the abstract switch \<open>av_switch\<close> with the source of each
  output, and the refinement: the STV6412 driver implements it, as long as standby is not used and the
  source is not selected while the sound is muted. What goes wrong otherwise is shown at the end.
\<close>

section \<open>The abstract switch\<close>

record av_switch =
  sw_vcr_video :: int
  sw_rgb :: int
  sw_tv_video :: int
  sw_vcr_audio :: int
  sw_tv_audio :: int
  sw_muted :: bool
  sw_volume :: int
  sw_fblk :: int
  sw_pin8 :: int
  sw_encoder :: int

text \<open>
  What a command sets; \<open>Some None\<close> if it rejects the value, \<open>None\<close> for what the contract does not cover.
  \<open>sw_encoder\<close> is the video source that comes back when the box is selected as the source again.
\<close>

definition in_range :: "int \<Rightarrow> int \<Rightarrow> int \<Rightarrow> 'a \<Rightarrow> 'a option" where
  "in_range lo hi v a = (if lo \<le> v \<and> v \<le> hi then Some a else None)"

definition switch_set :: "u32 \<Rightarrow> int \<Rightarrow> av_switch \<Rightarrow> av_switch option option" where
  "switch_set cmd v a =
     (if cmd = AVSIOSVSW1 then Some (in_range 0 4 v (a\<lparr>sw_vcr_video := v\<rparr>))
      else if cmd = AVSIOSVSW2 then Some (in_range 0 2 v (a\<lparr>sw_rgb := v\<rparr>))
      else if cmd = AVSIOSVSW3 then Some (in_range 0 4 v (a\<lparr>sw_tv_video := v\<rparr>))
      else if cmd = AVSIOSASW1 then Some (in_range 1 3 v (a\<lparr>sw_vcr_audio := v\<rparr>))
      else if cmd = AVSIOSASW2 \<or> cmd = AVSIOSASW3 then Some (in_range 1 4 v (a\<lparr>sw_tv_audio := v\<rparr>))
      else if cmd = AVSIOSVOL then Some (in_range 0 63 v (a\<lparr>sw_volume := v - v mod 2\<rparr>))
      else if cmd = AVSIOSMUTE then Some (in_range 0 1 v (a\<lparr>sw_muted := v = 1\<rparr>))
      else if cmd = AVSIOSFBLK then Some (in_range 0 3 v (a\<lparr>sw_fblk := v\<rparr>))
      else if cmd = AVSIOSSCARTPIN8 then
        if v = 0 then Some (Some (a\<lparr>sw_pin8 := 0\<rparr>))
        else if v = 1 \<or> v = 2 then Some (Some (a\<lparr>sw_pin8 := v + 1\<rparr>))
        else None
      else if cmd = AVSIOSFNC then Some (in_range 0 3 v (a\<lparr>sw_pin8 := v\<rparr>))
      else if cmd = AVSIOSTANDBY then None
      else Some None)"

definition switch_saa :: "u32 \<Rightarrow> int \<Rightarrow> av_switch \<Rightarrow> av_switch option option" where
  "switch_saa cmd v a =
     (if cmd = SAAIOSMODE then
        if v = SAA_MODE_RGB \<or> v = SAA_MODE_FBAS \<or> v = SAA_MODE_SVIDEO then
          let source = (if v = SAA_MODE_SVIDEO then 2 else 1);
              a = a\<lparr>sw_fblk := if v = SAA_MODE_RGB then 1 else 0\<rparr>
          in Some (Some (if sw_tv_video a = 4 then a\<lparr>sw_encoder := source\<rparr> else a\<lparr>sw_tv_video := source\<rparr>))
        else Some None
      else if cmd = SAAIOSENC then Some (Some a)
      else if cmd = SAAIOSWSS then
        if v = SAA_WSS_43F then Some (Some (a\<lparr>sw_pin8 := 3\<rparr>))
        else if v = SAA_WSS_169F then Some (Some (a\<lparr>sw_pin8 := 2\<rparr>))
        else if v = SAA_WSS_OFF then Some (Some (a\<lparr>sw_pin8 := 0\<rparr>))
        else Some None
      else if cmd = SAAIOSSRCSEL then
        if v \<noteq> SAA_SRC_ENC \<and> v \<noteq> SAA_SRC_SCART then Some None
        else if sw_muted a then None
        else if v = SAA_SRC_ENC then
          Some (Some (a\<lparr>sw_tv_video := sw_encoder a, sw_vcr_video := sw_encoder a, sw_tv_audio := 1, sw_vcr_audio := 1\<rparr>))
        else
          Some (Some (a\<lparr>sw_encoder := sw_tv_video a, sw_tv_video := 4, sw_vcr_video := 0, sw_tv_audio := 2, sw_vcr_audio := 0\<rparr>))
      else Some None)"

definition switch_get :: "u32 \<Rightarrow> av_switch \<Rightarrow> int option" where
  "switch_get cmd a =
     (if cmd = AVSIOGVSW1 then Some (sw_vcr_video a)
      else if cmd = AVSIOGVSW2 then Some (sw_rgb a)
      else if cmd = AVSIOGVSW3 then Some (sw_tv_video a)
      else if cmd = AVSIOGASW1 then Some (sw_vcr_audio a)
      else if cmd = AVSIOGASW2 \<or> cmd = AVSIOGASW3 then Some (sw_tv_audio a)
      else if cmd = AVSIOGVOL then Some (sw_volume a)
      else if cmd = AVSIOGMUTE then Some (if sw_muted a then 1 else 0)
      else if cmd = AVSIOGFBLK then Some (sw_fblk a)
      else if cmd = AVSIOGSCARTPIN8 then Some (if sw_pin8 a = 2 then 1 else if sw_pin8 a = 3 then 2 else 0)
      else if cmd = AVSIOGFNC then Some (sw_pin8 a)
      else None)"

text \<open>The sources of sound at the two connectors.\<close>

definition switch_sound :: "av_switch \<Rightarrow> int \<times> int" where
  "switch_sound a = (if sw_muted a then (0, 0) else (sw_tv_audio a, sw_vcr_audio a))"

fun switch_run :: "(u32 \<times> u32) list \<Rightarrow> av_switch \<Rightarrow> av_switch option" where
  "switch_run [] a = Some a"
| "switch_run ((cmd, v) # cs) a =
     (case (if cmd AND AVSIOSET \<noteq> 0 then switch_set cmd (sint v) a
            else if cmd AND AVSIOGET \<noteq> 0 then Some None
            else switch_saa cmd (sint v) a) of
        None \<Rightarrow> None
      | Some r \<Rightarrow> switch_run cs (case r of None \<Rightarrow> a | Some a \<Rightarrow> a))"

section \<open>The STV6412 implements the switch\<close>

definition switch_of :: "stv6412 \<Rightarrow> av_switch" where
  "switch_of s = \<lparr>
     sw_vcr_video = uint (v_vsc (stv6412_data s)),
     sw_rgb = uint (rgb_vsc (stv6412_data s)),
     sw_tv_video = uint (t_vsc (stv6412_data s)),
     sw_vcr_audio = (if old_tc_asc s = 0xff then uint (v_asc (stv6412_data s)) else uint (old_v_asc s)),
     sw_tv_audio = (if old_tc_asc s = 0xff then uint (tc_asc (stv6412_data s)) else uint (old_tc_asc s)),
     sw_muted = (old_tc_asc s \<noteq> 0xff),
     sw_volume = 2 * uint (t_vol_c (stv6412_data s)),
     sw_fblk = uint (fblk (stv6412_data s)),
     sw_pin8 = uint (t_sb (stv6412_data s)),
     sw_encoder = stv6412_s_old_src s\<rparr>"

text \<open>
  The two saved sources are both set while the sound is muted; they fit into their bit fields, which
  are 0 meanwhile.
\<close>

definition switch_inv :: "stv6412 \<Rightarrow> bool" where
  "switch_inv s \<longleftrightarrow>
     (old_tc_asc s = 0xff \<longleftrightarrow> old_v_asc s = 0xff) \<and>
     (old_tc_asc s \<noteq> 0xff \<longrightarrow> old_tc_asc s < 8 \<and> old_v_asc s < 4 \<and>
        tc_asc (stv6412_data s) = 0 \<and> v_asc (stv6412_data s) = 0) \<and>
     0 \<le> stv6412_s_old_src s \<and> stv6412_s_old_src s < 8"

lemma uint_field:
  "uint (word_of_int v :: 1 word) = v mod 2" "uint (word_of_int v :: 2 word) = v mod 4"
  "uint (word_of_int v :: 3 word) = v mod 8" "uint (word_of_int v :: 5 word) = v mod 32"
  by (simp_all add: uint_word_of_int)

lemma saved_source:
  "uint (ucast (x :: 3 word) :: u8) = uint x" "uint (ucast (y :: 2 word) :: u8) = uint y"
  "(ucast x :: u8) < 8" "(ucast y :: u8) < 4" "(ucast x :: u8) \<noteq> 0xff" "(ucast y :: u8) \<noteq> 0xff"
proof -
  show a: "uint (ucast (x :: 3 word) :: u8) = uint x" "uint (ucast (y :: 2 word) :: u8) = uint y"
    by (simp_all add: unsigned_ucast_eq take_bit_int_eq_self unsigned_greater_eq order.strict_trans [OF uint_lt2p])
  show "(ucast x :: u8) < 8" "(ucast y :: u8) < 4" "(ucast x :: u8) \<noteq> 0xff" "(ucast y :: u8) \<noteq> 0xff"
    using uint_lt2p [of x] uint_lt2p [of y] a by (auto simp: word_less_def dest: arg_cong [where f = uint])
qed

lemma restored_source:
  "(x :: u8) < 8 \<Longrightarrow> uint (ucast x :: 3 word) = uint x" "(y :: u8) < 4 \<Longrightarrow> uint (ucast y :: 2 word) = uint y"
  by (simp_all add: unsigned_ucast_eq take_bit_int_eq_self word_less_def)

lemma byte_source:
  assumes v: "0 \<le> v" "v \<le> 4"
  shows "uint (word_of_int v :: u8) = v" "(word_of_int v :: u8) < 8" "(word_of_int v :: u8) \<noteq> 0xff"
proof -
  show u: "uint (word_of_int v :: u8) = v" using v by (simp add: uint_word_of_int)
  show "(word_of_int v :: u8) < 8" "(word_of_int v :: u8) \<noteq> 0xff"
    using u v by (auto simp: word_less_def dest: arg_cong [where f = uint])
qed

text \<open>The state in which an operation ends.\<close>

definition ends :: "(int \<times> 's \<times> 'w) option \<Rightarrow> ('s \<Rightarrow> bool) \<Rightarrow> bool" where
  "ends x Q \<longleftrightarrow> (\<exists>r s w. x = Some (r, s, w) \<and> Q s)"

lemma ends_simps [simp]:
  "ends (avs_return r s w) Q = Q s"
  "ends (stv6412_set b K client s w) Q = Q s"
  "ends (if c then x else y) Q = (if c then ends x Q else ends y Q)"
  using stv6412_set_defined [of b K client s w] by (auto simp: ends_def avs_return_def)

lemmas switch_defs = switch_inv_def switch_of_def with_data_def in_range_def uint_field saved_source
  restored_source byte_source word_of_int_less_4

lemma vsw_refines:
  "switch_inv s \<Longrightarrow> 0 \<le> sw \<Longrightarrow> sw \<le> 2 \<Longrightarrow> ends (stv6412_set_vsw b K client sw v s w) (\<lambda>s'. switch_inv s' \<and>
     switch_of s' = (case in_range 0 (if sw = 1 then 2 else 4) v v of None \<Rightarrow> switch_of s
       | Some v \<Rightarrow> if sw = 0 then (switch_of s)\<lparr>sw_vcr_video := v\<rparr>
                 else if sw = 1 then (switch_of s)\<lparr>sw_rgb := v\<rparr> else (switch_of s)\<lparr>sw_tv_video := v\<rparr>))"
  by (auto simp: stv6412_set_vsw_def switch_defs)

lemma asw_refines:
  "switch_inv s \<Longrightarrow> 0 \<le> sw \<Longrightarrow> sw \<le> 2 \<Longrightarrow> ends (stv6412_set_asw b K client sw v s w) (\<lambda>s'. switch_inv s' \<and>
     switch_of s' = (case in_range 1 (if sw = 0 then 3 else 4) v v of None \<Rightarrow> switch_of s
       | Some v \<Rightarrow> if sw = 0 then (switch_of s)\<lparr>sw_vcr_audio := v\<rparr> else (switch_of s)\<lparr>sw_tv_audio := v\<rparr>))"
  by (auto simp: stv6412_set_asw_def switch_defs)

lemma volume_refines:
  "switch_inv s \<Longrightarrow> b \<noteq> ADB_BOX \<Longrightarrow> ends (stv6412_set_volume b K client v s w) (\<lambda>s'. switch_inv s' \<and>
     switch_of s' = (case in_range 0 63 v v of None \<Rightarrow> switch_of s
       | Some v \<Rightarrow> (switch_of s)\<lparr>sw_volume := v - v mod 2\<rparr>))"
  by (auto simp: stv6412_set_volume_def switch_defs Let_def minus_mod_eq_mult_div)

lemma mute_refines:
  "switch_inv s \<Longrightarrow> ends (stv6412_set_mute b K client v s w) (\<lambda>s'. switch_inv s' \<and>
     switch_of s' = (case in_range 0 1 v v of None \<Rightarrow> switch_of s
       | Some v \<Rightarrow> (switch_of s)\<lparr>sw_muted := v = 1\<rparr>))"
  by (auto simp: stv6412_set_mute_def switch_defs)

lemma fblk_refines:
  "switch_inv s \<Longrightarrow> ends (stv6412_set_fblk b K client v s w) (\<lambda>s'. switch_inv s' \<and>
     switch_of s' = (case in_range 0 3 v v of None \<Rightarrow> switch_of s | Some v \<Rightarrow> (switch_of s)\<lparr>sw_fblk := v\<rparr>))"
  by (auto simp: stv6412_set_fblk_def switch_defs)

lemma t_sb_refines:
  "switch_inv s \<Longrightarrow> ends (stv6412_set_t_sb b K client v s w) (\<lambda>s'. switch_inv s' \<and>
     switch_of s' = (case in_range 0 3 v v of None \<Rightarrow> switch_of s | Some v \<Rightarrow> (switch_of s)\<lparr>sw_pin8 := v\<rparr>))"
  by (auto simp: stv6412_set_t_sb_def switch_defs)

lemma pin8_table: "table_at [0, 2, 3] v = (if v = 0 then Some 0 else if v = 1 \<or> v = 2 then Some (v + 1) else None)"
proof -
  consider "v < 0" | "v = 0" | "v = 1" | "v = 2" | "3 \<le> v" by linarith
  then show ?thesis by cases (auto simp: table_at_def arr_get_def)
qed

lemma scart_set_refines:
  assumes "switch_inv s" "b \<noteq> ADB_BOX" "switch_set cmd v (switch_of s) = Some res"
  shows "ends (scart_set (stv6412_ops b K client) cmd v s w) (\<lambda>s'. switch_inv s' \<and>
    switch_of s' = (case res of None \<Rightarrow> switch_of s | Some a \<Rightarrow> a))"
proof -
  note [simp] = stv6412_ops_def scart_set_def switch_set_def in_range_def
  consider "cmd \<in> {AVSIOSVSW1, AVSIOSVSW2, AVSIOSVSW3}" | "cmd \<in> {AVSIOSASW1, AVSIOSASW2, AVSIOSASW3}"
    | "cmd = AVSIOSVOL" | "cmd = AVSIOSMUTE" | "cmd = AVSIOSFBLK" | "cmd = AVSIOSFNC" | "cmd = AVSIOSSCARTPIN8"
    | "cmd \<notin> {AVSIOSVSW1, AVSIOSVSW2, AVSIOSVSW3, AVSIOSASW1, AVSIOSASW2, AVSIOSASW3, AVSIOSVOL, AVSIOSMUTE,
        AVSIOSFBLK, AVSIOSFNC, AVSIOSSCARTPIN8}"
    by blast
  then show ?thesis
  proof cases
    case 1
    then show ?thesis
      using assms vsw_refines [OF assms(1), of 0 b K client v w] vsw_refines [OF assms(1), of 1 b K client v w]
        vsw_refines [OF assms(1), of 2 b K client v w] by auto
  next
    case 2
    then show ?thesis
      using assms asw_refines [OF assms(1), of 0 b K client v w] asw_refines [OF assms(1), of 1 b K client v w]
        asw_refines [OF assms(1), of 2 b K client v w] by auto
  next
    case 3
    then show ?thesis using assms volume_refines [OF assms(1, 2), of K client v w] by auto
  next
    case 4
    then show ?thesis using assms mute_refines [OF assms(1), of b K client v w] by auto
  next
    case 5
    then show ?thesis using assms fblk_refines [OF assms(1), of b K client v w] by auto
  next
    case 6
    then show ?thesis using assms t_sb_refines [OF assms(1), of b K client v w] by auto
  next
    case 7
    then show ?thesis
      using assms t_sb_refines [OF assms(1), of b K client 0 w]
        t_sb_refines [OF assms(1), of b K client "v + 1" w] by (auto simp: pin8_table split: if_splits)
  next
    case 8
    then show ?thesis using assms by (auto split: if_splits)
  qed
qed

lemma tv_video_AUX: "uint (x :: 3 word) = 4 \<longleftrightarrow> x = 4"
  by (simp add: word_eq_iff_unsigned [where ?'a = int])

lemma scart_saa_refines:
  assumes "switch_inv s" "b \<noteq> ADB_BOX" "switch_saa cmd v (switch_of s) = Some res"
  shows "ends (scart_saa (stv6412_ops b K client) cmd v s w) (\<lambda>s'. switch_inv s' \<and>
    switch_of s' = (case res of None \<Rightarrow> switch_of s | Some a \<Rightarrow> a))"
proof -
  have vid: "uint (t_vsc (stv6412_data s)) < 8" using uint_lt2p [of "t_vsc (stv6412_data s)"] by simp
  consider "cmd = SAAIOSMODE" | "cmd = SAAIOSENC" | "cmd = SAAIOSWSS" | "cmd = SAAIOSSRCSEL"
    | "cmd \<notin> {SAAIOSMODE, SAAIOSENC, SAAIOSWSS, SAAIOSSRCSEL}" by blast
  then show ?thesis
  proof cases
    case 1
    then show ?thesis using assms
      by (auto simp: scart_saa_def stv6412_ops_def switch_saa_def stv6412_set_mode_def switch_defs Let_def
          tv_video_AUX split: if_splits)
  next
    case 4
    then show ?thesis using assms vid
      by (auto simp: scart_saa_def stv6412_ops_def switch_saa_def stv6412_src_sel_def switch_defs Let_def
          split: if_splits)
  qed (use assms in \<open>auto simp: scart_saa_def stv6412_ops_def switch_saa_def stv6412_set_wss_def
      stv6412_set_encoder_def switch_defs split: if_splits\<close>)
qed

lemma call_refines:
  assumes "switch_inv s" "b \<noteq> ADB_BOX"
    and res: "(if cmd AND AVSIOSET \<noteq> 0 then switch_set cmd (sint v) (switch_of s)
      else if cmd AND AVSIOGET \<noteq> 0 then Some None else switch_saa cmd (sint v) (switch_of s)) = Some res"
  shows "ends (stv6412_call b K client (Kernel cmd v) s w) (\<lambda>s'. switch_inv s' \<and>
    switch_of s' = (case res of None \<Rightarrow> switch_of s | Some a \<Rightarrow> a))"
proof (cases "cmd AND AVSIOSET = 0 \<and> cmd AND AVSIOGET \<noteq> 0")
  case True
  then have [simp]: "res = None" using res by simp
  obtain x w1 where "scart_get (stv6412_ops b K client) cmd s w = Some (x, w1)"
    using stv6412_safe.scart_get_defined by (metis not_None_eq surj_pair)
  then show ?thesis using True assms(1)
    by (simp add: stv6412_command_kernel_def kernel_command_def split: option.split)
next
  case False
  then show ?thesis
    using res scart_set_refines [OF assms(1, 2), of cmd "sint v" res K client w]
      scart_saa_refines [OF assms(1, 2), of cmd "sint v" res K client w]
    by (auto simp: stv6412_command_kernel_def kernel_command_def split: if_splits)
qed

lemma run_refines:
  "switch_inv s \<Longrightarrow> b \<noteq> ADB_BOX \<Longrightarrow> switch_run cs (switch_of s) = Some a \<Longrightarrow>
     \<exists>s' w'. avs_run (stv6412_call b K client) (map (\<lambda>(cmd, v). Kernel cmd v) cs) s w = Some (s', w') \<and>
       switch_inv s' \<and> switch_of s' = a"
proof (induction cs arbitrary: s w)
  case (Cons c cs)
  obtain cmd v where c: "c = (cmd, v)" by (cases c)
  obtain res where res: "(if cmd AND AVSIOSET \<noteq> 0 then switch_set cmd (sint v) (switch_of s)
      else if cmd AND AVSIOGET \<noteq> 0 then Some None else switch_saa cmd (sint v) (switch_of s)) = Some res"
    and rest: "switch_run cs (case res of None \<Rightarrow> switch_of s | Some a \<Rightarrow> a) = Some a"
    using Cons.prems(3) unfolding c switch_run.simps by (auto split: option.splits)
  obtain r s1 w1 where "stv6412_call b K client (Kernel cmd v) s w = Some (r, s1, w1)" "switch_inv s1"
    "switch_of s1 = (case res of None \<Rightarrow> switch_of s | Some a \<Rightarrow> a)"
    using call_refines [OF Cons.prems(1, 2) res, of K client w] unfolding ends_def by blast
  then show ?case using Cons.IH [of s1 w1] Cons.prems(2) rest by (simp add: c)
qed simp

lemma get_refines:
  assumes "switch_inv s" "switch_get cmd (switch_of s) = Some v"
  shows "stv6412_command_kernel b K client cmd arg s w = Some (0, s, ak_store K arg v w)"
proof -
  have "table_at [0, 0, 1, 2] (uint x) = Some (if uint x = 2 then 1 else if uint x = 3 then 2 else 0)" for x :: "2 word"
  proof -
    consider "uint x = 0" | "uint x = 1" | "uint x = 2" | "uint x = 3"
      using uint_2_bits [of x] unsigned_greater_eq [of x, where ?'a = int] by linarith
    then show ?thesis by cases (auto simp: table_at_def arr_get_def)
  qed
  moreover have "stv6412_get_vsw 0 s = sw_vcr_video (switch_of s)" "stv6412_get_vsw 1 s = sw_rgb (switch_of s)"
    "stv6412_get_vsw 2 s = sw_tv_video (switch_of s)" "stv6412_get_asw 0 s = sw_vcr_audio (switch_of s)"
    "stv6412_get_asw 1 s = sw_tv_audio (switch_of s)" "stv6412_get_asw 2 s = sw_tv_audio (switch_of s)"
    "stv6412_get_volume s = sw_volume (switch_of s)" "stv6412_get_fblk s = sw_fblk (switch_of s)"
    "stv6412_get_mute s = (if sw_muted (switch_of s) then 1 else 0)" "stv6412_get_t_sb s = sw_pin8 (switch_of s)"
    using assms(1) by (auto simp: switch_of_def switch_inv_def stv6412_get_vsw_def stv6412_get_asw_def
        stv6412_get_volume_def stv6412_get_fblk_def stv6412_get_mute_def stv6412_get_t_sb_def Let_def)
  moreover have "sw_pin8 (switch_of s) = uint (t_sb (stv6412_data s))" by (simp add: switch_of_def)
  ultimately show ?thesis
    using assms(2) by (auto simp: switch_get_def stv6412_command_kernel_def kernel_command_def scart_get_def
        stv6412_ops_def avs_return_def Let_def split: if_splits)
qed

definition switch_start :: av_switch where
  "switch_start = \<lparr>sw_vcr_video = 1, sw_rgb = 1, sw_tv_video = 1, sw_vcr_audio = 1, sw_tv_audio = 1,
     sw_muted = False, sw_volume = 0, sw_fblk = 2, sw_pin8 = 3, sw_encoder = 1\<rparr>"

lemma init_refines:
  "ends (stv6412_init b K client s w) (\<lambda>s'. switch_inv s' \<and> switch_of s' = switch_start)"
  by (simp add: stv6412_init_def switch_start_def switch_inv_def switch_of_def stv6412_zero_def)

text \<open>
  C5. The STV6412 driver implements the abstract switch, on every board but the ADB box (which ignores the
  volume and the SCART source): after the initialisation and any sequence of kernel commands that the
  contract covers, that is without standby, without selecting the source while the sound is muted and
  without values of pin 8 outside its table, each command returns and the driver stands for the state the
  abstract switch computes, in which a rejected value changes nothing. Every \<^verbatim>\<open>GET\<close> command that reads a
  setting (all but \<^verbatim>\<open>AVSIOGSTATUS\<close>, which reads the chip) then delivers the value of the abstract switch; and
  the two audio fields of the registers are the sources of sound, 0 while it is muted.
\<close>

theorem stv6412_refines_switch:
  assumes "b \<noteq> ADB_BOX" "stv6412_init b K client s w = Some (r, s0, w0)"
    "switch_run cs switch_start = Some a"
  shows "\<exists>s' w'. avs_run (stv6412_call b K client) (map (\<lambda>(cmd, v). Kernel cmd v) cs) s0 w0 = Some (s', w') \<and>
    switch_of s' = a \<and>
    (uint (tc_asc (stv6412_data s')), uint (v_asc (stv6412_data s'))) = switch_sound a \<and>
    (\<forall>cmd v arg. switch_get cmd a = Some v \<longrightarrow>
       stv6412_command_kernel b K client cmd arg s' w' = Some (0, s', ak_store K arg v w'))"
proof -
  have "switch_inv s0" "switch_of s0 = switch_start"
    using init_refines [of b K client s w] assms(2) by (auto simp: ends_def)
  then obtain s' w' where *: "avs_run (stv6412_call b K client) (map (\<lambda>(cmd, v). Kernel cmd v) cs) s0 w0 = Some (s', w')"
    "switch_inv s'" "switch_of s' = a"
    using run_refines assms(1, 3) by metis
  moreover have "(uint (tc_asc (stv6412_data s')), uint (v_asc (stv6412_data s'))) = switch_sound a"
    unfolding *(3) [symmetric] using *(2) by (auto simp: switch_sound_def switch_of_def switch_inv_def)
  ultimately show ?thesis
    by (intro exI [of _ s'] exI [of _ w']) (simp add: get_refines [OF *(2), unfolded *(3)])
qed

theorem stv6412_refines_switch_witness:
  "\<exists>r s0 w0 s' w'. stv6412_init UFS922 bench None stv6412_start [] = Some (r, s0, w0) \<and>
     avs_run (stv6412_call UFS922 bench None) (map (\<lambda>(cmd, v). Kernel cmd v) [(AVSIOSMUTE, 1), (AVSIOSVOL, 20)]) s0 w0 =
       Some (s', w') \<and>
     uint (tc_asc (stv6412_data s')) = 0 \<and> sw_muted (switch_of s')"
proof -
  have "stv6412_init UFS922 bench None stv6412_start [] \<noteq> None" by code_simp
  then obtain r s0 w0 where i: "stv6412_init UFS922 bench None stv6412_start [] = Some (r, s0, w0)" by auto
  define a where "a = switch_start\<lparr>sw_muted := True, sw_volume := 20\<rparr>"
  have a: "switch_run [(AVSIOSMUTE, 1), (AVSIOSVOL, 20)] switch_start = Some a" unfolding a_def by code_simp
  have "switch_sound a = (0, 0)" "sw_muted a" unfolding a_def by code_simp+
  then show ?thesis using stv6412_refines_switch [OF _ i a] i by auto
qed

section \<open>Outside the contract\<close>

definition runs :: "(avs_call \<Rightarrow> ('s, 'w) avs_op) \<Rightarrow> avs_call list \<Rightarrow> 's \<Rightarrow> ('s \<Rightarrow> bool) \<Rightarrow> bool" where
  "runs call cs s R \<longleftrightarrow> (\<forall>w. \<exists>s' w'. avs_run call cs s w = Some (s', w') \<and> R s')"

lemma runs_Nil [simp]: "runs call [] s R = R s"
  by (simp add: runs_def)

lemma runs_Cons: "(\<And>w. ends (call c s w) (\<lambda>s'. runs call cs s' R)) \<Longrightarrow> runs call (c # cs) s R"
  unfolding runs_def ends_def by (metis (no_types, lifting) avs_run.simps(2) bind.bind_lunit case_prod_conv)

lemma mute_standby_calls:
  "stv6412_command_kernel b K client AVSIOSMUTE v = stv6412_set_mute b K client (sint v)"
  "stv6412_command_kernel b K client AVSIOSTANDBY v = stv6412_standby b K client (sint v)"
  by (simp_all add: fun_eq_iff stv6412_command_kernel_def kernel_command_def scart_set_def stv6412_ops_def)

text \<open>
  Standby and mute do not go together: when the sound is muted, the box put into standby, unmuted
  there and woken up again, the driver reports that it is not muted, but both audio fields are 0; and
  muting and unmuting once more does not bring the sound back.
\<close>

theorem stv6412_unmute_lost_in_standby:
  assumes "switch_inv s" "old_tc_asc s = 0xff" "t_stnby s = 0"
  shows "\<exists>s' w'. avs_run (stv6412_call b K client)
      ([Kernel AVSIOSMUTE 1, Kernel AVSIOSTANDBY 1, Kernel AVSIOSMUTE 0, Kernel AVSIOSTANDBY 0] @
       (if again then [Kernel AVSIOSMUTE 1, Kernel AVSIOSMUTE 0] else [])) s w = Some (s', w') \<and>
    stv6412_get_mute s' = 0 \<and> tc_asc (stv6412_data s') = 0 \<and> v_asc (stv6412_data s') = 0"
proof -
  note defs = mute_standby_calls stv6412_set_mute_def stv6412_standby_def with_data_def stv6412_get_mute_def
    saved_source
  have "runs (stv6412_call b K client)
      ([Kernel AVSIOSMUTE 1, Kernel AVSIOSTANDBY 1, Kernel AVSIOSMUTE 0, Kernel AVSIOSTANDBY 0] @
       (if again then [Kernel AVSIOSMUTE 1, Kernel AVSIOSMUTE 0] else [])) s
      (\<lambda>s'. stv6412_get_mute s' = 0 \<and> tc_asc (stv6412_data s') = 0 \<and> v_asc (stv6412_data s') = 0)"
    using assms by (cases again; simp only: if_True if_False append.simps append_Nil2) ((rule runs_Cons, simp add: defs)+)
  then show ?thesis unfolding runs_def by blast
qed

theorem stv6412_unmute_lost_in_standby_witness:
  "\<exists>r s0 w0 s' w'. stv6412_init UFS922 bench None stv6412_start [] = Some (r, s0, w0) \<and>
     avs_run (stv6412_call UFS922 bench None)
       [Kernel AVSIOSMUTE 1, Kernel AVSIOSTANDBY 1, Kernel AVSIOSMUTE 0, Kernel AVSIOSTANDBY 0] s0 w0 = Some (s', w') \<and>
     stv6412_get_mute s' = 0 \<and> tc_asc (stv6412_data s') = 0"
proof -
  have "map_option (\<lambda>(r, s, w). (old_tc_asc s, t_stnby s)) (stv6412_init UFS922 bench None stv6412_start []) = Some (0xff, 0)"
    by code_simp
  then obtain r s0 w0 where i: "stv6412_init UFS922 bench None stv6412_start [] = Some (r, s0, w0)"
      "old_tc_asc s0 = 0xff" "t_stnby s0 = 0" by auto
  have "switch_inv s0" using init_refines [of UFS922 bench None stv6412_start "[]"] i by (auto simp: ends_def)
  from stv6412_unmute_lost_in_standby [OF this i(2, 3), of UFS922 bench None False w0] show ?thesis using i by auto
qed

text \<open>
  The two interfaces agree: a command from user space whose value can be read does what the same
  command from the kernel does, unless it only reads, or touches fast blanking on a board without it.
\<close>

theorem stv6412_interfaces_agree:
  assumes "ak_from_user K arg w = (Some (sint v), w)" "cmd AND AVSIOSET \<noteq> 0 \<or> cmd AND AVSIOGET = 0"
    "stv6412_no_fblk b \<longrightarrow> cmd \<noteq> AVSIOSFBLK"
  shows "stv6412_command b K client cmd arg s w = stv6412_command_kernel b K client cmd v s w"
proof -
  have "scart_set (stv6412_user_ops b K client) cmd x s w = scart_set (stv6412_ops b K client) cmd x s w" for x
    using assms(3) by (auto simp: scart_set_def stv6412_user_ops_def)
  moreover have "scart_saa (stv6412_user_ops b K client) cmd x s w = scart_saa (stv6412_ops b K client) cmd x s w" for x
    by (simp add: scart_saa_def stv6412_user_ops_def)
  ultimately show ?thesis
    using assms(1, 2) by (auto simp: stv6412_command_def stv6412_command_kernel_def user_command_def kernel_command_def)
qed

end
