(* ===== verification/Avs_Stv641x.thy ===== *)
theory Avs_Stv641x
  imports Avs_Command
begin

text \<open>
  The STV6417, STV6418 and STV6419 (\<^verbatim>\<open>stv6417.c\<close>, \<^verbatim>\<open>stv6418.c\<close>, \<^verbatim>\<open>stv6419.c\<close>). These drivers keep the registers
  as an array of bytes and work on it with \<^verbatim>\<open>set_bits\<close> and \<^verbatim>\<open>get_bits\<close>. Most functions of \<^verbatim>\<open>stv6417.c\<close> and
  \<^verbatim>\<open>stv6418.c\<close> have the same text up to the function that sends the registers: they are written once
  (\<open>stv641x_...\<close>, with that function as the parameter \<open>send\<close>) and applied for each chip. Code behind an
  unconditional \<^verbatim>\<open>return\<close> (in the mute and audio functions of the STV6417) is left out.
\<close>

section \<open>State\<close>

text \<open>
  The variables of the three files have the same names, except that the STV6419 has \<open>audio_value\<close> in
  place of \<open>tv_value\<close> and \<open>vcr_value\<close>, and only the STV6418 has the mute pin \<open>eMute\<close>.
\<close>

record stv641x =
  regs :: "u8 list"
  backup_regs :: "u8 list"
  x_stnby :: u8
  tv_value :: u8
  vcr_value :: u8
  audio_value :: u8
  s_old_src :: int
  eMute :: "nat option"

abbreviation (input) cReg0 :: nat where "cReg0 \<equiv> 1"
abbreviation (input) cReg1 :: nat where "cReg1 \<equiv> 2"
abbreviation (input) cReg2 :: nat where "cReg2 \<equiv> 3"
abbreviation (input) cReg3 :: nat where "cReg3 \<equiv> 4"
abbreviation (input) cReg4 :: nat where "cReg4 \<equiv> 5"
abbreviation (input) cReg6 :: nat where "cReg6 \<equiv> 7"
abbreviation (input) cReg8 :: nat where "cReg8 \<equiv> 9"

text \<open>The two functions of \<^verbatim>\<open>tools.c\<close> on \<open>regs\<close>.\<close>

definition put_bits :: "nat \<Rightarrow> u8 \<Rightarrow> nat \<Rightarrow> nat \<Rightarrow> stv641x \<Rightarrow> stv641x option" where
  "put_bits i v k n s = map_option (\<lambda>r. s\<lparr>regs := r\<rparr>) (set_bits (regs s) i v k n)"

definition bits_at :: "nat \<Rightarrow> nat \<Rightarrow> nat \<Rightarrow> stv641x \<Rightarrow> u8 option" where
  "bits_at i k n s = get_bits (regs s) i k n"

definition int_at :: "nat \<Rightarrow> nat \<Rightarrow> nat \<Rightarrow> stv641x \<Rightarrow> int option" where
  "int_at i k n s = map_option uint (bits_at i k n s)"

definition stv641x_transmit :: "'w avs_kernel \<Rightarrow> nat option \<Rightarrow> (stv641x, 'w) avs_op" where
  "stv641x_transmit K client s w =
     (let (n, w) = ak_i2c_send K client (regs s) w in
      avs_return (if int (length (regs s)) \<noteq> n then - AVS_EFAULT else 0) s w)"

section \<open>Functions that the STV6417 and the STV6418 share\<close>

text \<open>Where the chips differ, \<open>send\<close> is \<^verbatim>\<open>stv6417_set\<close> or \<^verbatim>\<open>stv6418_set\<close>.\<close>

definition stv641x_set_volume :: "(stv641x, 'w) avs_op \<Rightarrow> int \<Rightarrow> (stv641x, 'w) avs_op" where
  "stv641x_set_volume send vol s w =
     (let c = (if vol = 63 then 62 else vol); c = (if c = 0 then 1 else c) in
      if c > 63 \<or> c < 0 then avs_return (- AVS_EINVAL) s w
      else do {
        s \<leftarrow> put_bits cReg0 (word_of_int (c div 2)) 1 5 s;
        send s w
      })"

definition stv641x_set_vsw :: "(stv641x, 'w) avs_op \<Rightarrow> int \<Rightarrow> int \<Rightarrow> (stv641x, 'w) avs_op" where
  "stv641x_set_vsw send sw type s w =
     (if type < 0 \<or> type > 4 then avs_return (- AVS_EINVAL) s w
      else if sw = 0 then do { s \<leftarrow> put_bits cReg2 (word_of_int type) 4 3 s; send s w }
      else if sw = 1 then
        if type < 0 \<or> type > 2 then avs_return (- AVS_EINVAL) s w
        else do { s \<leftarrow> put_bits cReg3 (word_of_int type) 2 2 s; send s w }
      else if sw = 2 then do { s \<leftarrow> put_bits cReg2 (word_of_int type) 0 3 s; send s w }
      else avs_return (- AVS_EINVAL) s w)"

definition stv641x_set_t_sb :: "(stv641x, 'w) avs_op \<Rightarrow> int \<Rightarrow> (stv641x, 'w) avs_op" where
  "stv641x_set_t_sb send type s w =
     (if type < 0 \<or> type > 3 then avs_return (- AVS_EINVAL) s w
      else do { s \<leftarrow> put_bits cReg6 (word_of_int type) 2 4 s; send s w })"

definition stv641x_set_wss :: "(stv641x, 'w) avs_op \<Rightarrow> int \<Rightarrow> (stv641x, 'w) avs_op" where
  "stv641x_set_wss send vol s w =
     (if vol = SAA_WSS_43F then do { s \<leftarrow> put_bits cReg6 3 2 4 s; send s w }
      else if vol = SAA_WSS_169F then do { s \<leftarrow> put_bits cReg6 2 2 4 s; send s w }
      else if vol = SAA_WSS_OFF then do { s \<leftarrow> put_bits cReg6 0 2 4 s; send s w }
      else avs_return (- AVS_EINVAL) s w)"

definition stv641x_set_fblk :: "(stv641x, 'w) avs_op \<Rightarrow> int \<Rightarrow> (stv641x, 'w) avs_op" where
  "stv641x_set_fblk send type s w =
     (if type < 0 \<or> type > 3 then avs_return (- AVS_EINVAL) s w
      else do { s \<leftarrow> put_bits cReg3 (word_of_int type) 0 2 s; send s w })"

definition stv641x_get_status :: "'w avs_kernel \<Rightarrow> nat option \<Rightarrow> 'w \<Rightarrow> int \<times> 'w" where
  "stv641x_get_status K client w =
     (let ((n, byte), w) = ak_i2c_recv K client w in (if n \<noteq> 1 then -1 else uint byte, w))"

definition stv641x_get_volume :: "stv641x \<Rightarrow> int option" where
  "stv641x_get_volume s = do {
     c \<leftarrow> int_at cReg0 1 5 s;
     Some (if c \<noteq> 0 then c * 2 else c)
   }"

definition stv641x_get_fblk :: "stv641x \<Rightarrow> int option" where
  "stv641x_get_fblk s = int_at cReg3 0 2 s"

definition stv641x_get_t_sb :: "stv641x \<Rightarrow> int option" where
  "stv641x_get_t_sb s = int_at cReg6 2 4 s"

definition stv641x_get_vsw :: "int \<Rightarrow> stv641x \<Rightarrow> int option" where
  "stv641x_get_vsw sw s =
     (if sw = 0 then int_at cReg2 4 3 s
      else if sw = 1 then int_at cReg3 2 2 s
      else if sw = 2 then int_at cReg2 0 3 s
      else Some (- AVS_EINVAL))"

definition stv641x_set_encoder :: "int \<Rightarrow> (stv641x, 'w) avs_op" where
  "stv641x_set_encoder val s w = avs_return 0 s w"

text \<open>\<open>v\<close> becomes the video source of the TV, or the one to come back to while the source is the VCR.\<close>

definition stv641x_source :: "int \<Rightarrow> stv641x \<Rightarrow> stv641x option" where
  "stv641x_source v s = do {
     src \<leftarrow> bits_at cReg2 0 3 s;
     if src = 4 then Some (s\<lparr>s_old_src := v\<rparr>) else put_bits cReg2 (word_of_int v) 0 3 s
   }"

definition stv641x_set_mode :: "(stv641x, 'w) avs_op \<Rightarrow> int \<Rightarrow> (stv641x, 'w) avs_op" where
  "stv641x_set_mode send val s w =
     (if val = SAA_MODE_RGB then do { s \<leftarrow> stv641x_source 1 s; s \<leftarrow> put_bits cReg3 1 0 2 s; send s w }
      else if val = SAA_MODE_FBAS then do { s \<leftarrow> stv641x_source 1 s; s \<leftarrow> put_bits cReg3 0 0 2 s; send s w }
      else if val = SAA_MODE_SVIDEO then do { s \<leftarrow> stv641x_source 2 s; s \<leftarrow> put_bits cReg3 0 0 2 s; send s w }
      else avs_return (- AVS_EINVAL) s w)"

definition stv641x_src_sel :: "(stv641x, 'w) avs_op \<Rightarrow> int \<Rightarrow> (stv641x, 'w) avs_op" where
  "stv641x_src_sel send src s w =
     (if src = SAA_SRC_ENC then do {
        s \<leftarrow> put_bits cReg2 (word_of_int (s_old_src s)) 0 3 s;
        s \<leftarrow> put_bits cReg2 (word_of_int (s_old_src s)) 4 3 s;
        s \<leftarrow> put_bits cReg1 1 0 2 s;
        s \<leftarrow> put_bits cReg1 1 3 2 s;
        send s w
      }
      else if src = SAA_SRC_SCART then do {
        old \<leftarrow> int_at cReg2 0 3 s;
        s \<leftarrow> put_bits cReg2 4 0 3 (s\<lparr>s_old_src := old\<rparr>);
        s \<leftarrow> put_bits cReg2 0 4 3 s;
        s \<leftarrow> put_bits cReg1 2 0 2 s;
        s \<leftarrow> put_bits cReg1 0 3 2 s;
        send s w
      }
      else avs_return (- AVS_EINVAL) s w)"

text \<open>The eight bits of the power register, one after the other.\<close>

fun set_each :: "nat \<Rightarrow> nat list \<Rightarrow> stv641x \<Rightarrow> stv641x option" where
  "set_each i [] s = Some s"
| "set_each i (k # ks) s = do { s \<leftarrow> put_bits i 1 k 1 s; set_each i ks s }"

definition stv641x_standby :: "nat \<Rightarrow> (stv641x, 'w) avs_op \<Rightarrow> int \<Rightarrow> (stv641x, 'w) avs_op" where
  "stv641x_standby preg send type s w =
     (if type < 0 \<or> type > 1 then avs_return (- AVS_EINVAL) s w
      else if type = 1 then
        if x_stnby s = 0 then do {
          s \<leftarrow> set_each preg [0, 1, 2, 3, 4, 5, 6, 7] (s\<lparr>backup_regs := regs s\<rparr>);
          send (s\<lparr>x_stnby := 1\<rparr>) w
        }
        else avs_return (- AVS_EINVAL) s w
      else
        if x_stnby s = 1 then send (s\<lparr>regs := backup_regs s, x_stnby := 0\<rparr>) w
        else avs_return (- AVS_EINVAL) s w)"

section \<open>The STV6417\<close>

definition stv6417_set :: "'w avs_kernel \<Rightarrow> nat option \<Rightarrow> (stv641x, 'w) avs_op" where
  "stv6417_set K client s w = do {
     r \<leftarrow> arr_set (regs s) 0 0;
     stv641x_transmit K client (s\<lparr>regs := r\<rparr>) w
   }"

definition stv6417_set_volume :: "'w avs_kernel \<Rightarrow> nat option \<Rightarrow> int \<Rightarrow> (stv641x, 'w) avs_op" where
  "stv6417_set_volume K client = stv641x_set_volume (stv6417_set K client)"

definition stv6417_set_vsw :: "'w avs_kernel \<Rightarrow> nat option \<Rightarrow> int \<Rightarrow> int \<Rightarrow> (stv641x, 'w) avs_op" where
  "stv6417_set_vsw K client = stv641x_set_vsw (stv6417_set K client)"

definition stv6417_set_t_sb :: "'w avs_kernel \<Rightarrow> nat option \<Rightarrow> int \<Rightarrow> (stv641x, 'w) avs_op" where
  "stv6417_set_t_sb K client = stv641x_set_t_sb (stv6417_set K client)"

definition stv6417_set_wss :: "'w avs_kernel \<Rightarrow> nat option \<Rightarrow> int \<Rightarrow> (stv641x, 'w) avs_op" where
  "stv6417_set_wss K client = stv641x_set_wss (stv6417_set K client)"

definition stv6417_set_fblk :: "'w avs_kernel \<Rightarrow> nat option \<Rightarrow> int \<Rightarrow> (stv641x, 'w) avs_op" where
  "stv6417_set_fblk K client = stv641x_set_fblk (stv6417_set K client)"

definition stv6417_set_mode :: "'w avs_kernel \<Rightarrow> nat option \<Rightarrow> int \<Rightarrow> (stv641x, 'w) avs_op" where
  "stv6417_set_mode K client = stv641x_set_mode (stv6417_set K client)"

definition stv6417_src_sel :: "'w avs_kernel \<Rightarrow> nat option \<Rightarrow> int \<Rightarrow> (stv641x, 'w) avs_op" where
  "stv6417_src_sel K client = stv641x_src_sel (stv6417_set K client)"

definition stv6417_standby :: "'w avs_kernel \<Rightarrow> nat option \<Rightarrow> int \<Rightarrow> (stv641x, 'w) avs_op" where
  "stv6417_standby K client = stv641x_standby cReg8 (stv6417_set K client)"

definition stv6417_get_status :: "'w avs_kernel \<Rightarrow> nat option \<Rightarrow> 'w \<Rightarrow> int \<times> 'w" where
  "stv6417_get_status = stv641x_get_status"

definition stv6417_get_volume :: "stv641x \<Rightarrow> int option" where
  "stv6417_get_volume = stv641x_get_volume"

definition stv6417_get_fblk :: "stv641x \<Rightarrow> int option" where
  "stv6417_get_fblk = stv641x_get_fblk"

definition stv6417_get_t_sb :: "stv641x \<Rightarrow> int option" where
  "stv6417_get_t_sb = stv641x_get_t_sb"

definition stv6417_get_vsw :: "int \<Rightarrow> stv641x \<Rightarrow> int option" where
  "stv6417_get_vsw = stv641x_get_vsw"

definition stv6417_set_encoder :: "int \<Rightarrow> (stv641x, 'w) avs_op" where
  "stv6417_set_encoder = stv641x_set_encoder"

definition stv6417_set_mute :: "'w avs_kernel \<Rightarrow> nat option \<Rightarrow> int \<Rightarrow> (stv641x, 'w) avs_op" where
  "stv6417_set_mute K client type s w =
     (if type < 0 \<or> type > 1 then avs_return (- AVS_EINVAL) s w else avs_return 0 s w)"

definition stv6417_set_asw :: "'w avs_kernel \<Rightarrow> nat option \<Rightarrow> int \<Rightarrow> int \<Rightarrow> (stv641x, 'w) avs_op" where
  "stv6417_set_asw K client sw type s w = avs_return 0 s w"

definition stv6417_get_mute :: "stv641x \<Rightarrow> int option" where
  "stv6417_get_mute s = Some 0"

definition stv6417_get_asw :: "int \<Rightarrow> stv641x \<Rightarrow> int option" where
  "stv6417_get_asw sw s = Some 0"

section \<open>The commands of the STV6417\<close>

definition stv6417_ops :: "'w avs_kernel \<Rightarrow> nat option \<Rightarrow> (stv641x, 'w) scart_ops" where
  "stv6417_ops K client = \<lparr>
     op_set_vsw = stv6417_set_vsw K client,
     op_set_asw = stv6417_set_asw K client,
     op_set_volume = stv6417_set_volume K client,
     op_set_mute = stv6417_set_mute K client,
     op_set_fblk = stv6417_set_fblk K client,
     op_set_t_sb = stv6417_set_t_sb K client,
     op_standby = stv6417_standby K client,
     op_get_vsw = stv6417_get_vsw,
     op_get_asw = stv6417_get_asw,
     op_get_volume = stv6417_get_volume,
     op_get_mute = stv6417_get_mute,
     op_get_fblk = stv6417_get_fblk,
     op_get_t_sb = stv6417_get_t_sb,
     op_get_status = stv6417_get_status K client,
     op_set_mode = stv6417_set_mode K client,
     op_set_encoder = stv6417_set_encoder,
     op_set_wss = stv6417_set_wss K client,
     op_src_sel = stv6417_src_sel K client,
     op_pin8 = [0, 2, 3],
     op_pin8_reverse = [0, 0, 1, 2]\<rparr>"

definition stv6417_command :: "'w avs_kernel \<Rightarrow> nat option \<Rightarrow> u32 \<Rightarrow> u32 \<Rightarrow> (stv641x, 'w) avs_op" where
  "stv6417_command K client = scart_command K (stv6417_ops K client)"

definition stv6417_command_kernel :: "'w avs_kernel \<Rightarrow> nat option \<Rightarrow> u32 \<Rightarrow> u32 \<Rightarrow> (stv641x, 'w) avs_op" where
  "stv6417_command_kernel K client = scart_command_kernel K False (stv6417_ops K client)"

primrec stv6417_call :: "'w avs_kernel \<Rightarrow> nat option \<Rightarrow> avs_call \<Rightarrow> (stv641x, 'w) avs_op" where
  "stv6417_call K client (User cmd arg) = stv6417_command K client cmd arg"
| "stv6417_call K client (Kernel cmd arg) = stv6417_command_kernel K client cmd arg"

definition stv6417_init :: "'w avs_kernel \<Rightarrow> nat option \<Rightarrow> (stv641x, 'w) avs_op" where
  "stv6417_init K client s w =
     stv6417_set K client
       (s\<lparr>regs := [0x00, 0x01, 0x09, 0x11, 0x84, 0x84, 0x25, 0x08, 0x21, 0xc0, 0x00]\<rparr>) w"

section \<open>The STV6418\<close>

text \<open>Each time the registers are sent, all of them are set to fixed values first.\<close>

definition stv6418_regs :: "u8 list" where
  "stv6418_regs = [0x00, 0x40, 0x09, 0x11, 0x84, 0x84, 0x25, 0x08, 0x21, 0xc0, 0x00]"

definition stv6418_set :: "'w avs_kernel \<Rightarrow> nat option \<Rightarrow> (stv641x, 'w) avs_op" where
  "stv6418_set K client s w = stv641x_transmit K client (s\<lparr>regs := stv6418_regs\<rparr>) w"

definition stv6418_set_volume :: "'w avs_kernel \<Rightarrow> nat option \<Rightarrow> int \<Rightarrow> (stv641x, 'w) avs_op" where
  "stv6418_set_volume K client = stv641x_set_volume (stv6418_set K client)"

definition stv6418_set_vsw :: "'w avs_kernel \<Rightarrow> nat option \<Rightarrow> int \<Rightarrow> int \<Rightarrow> (stv641x, 'w) avs_op" where
  "stv6418_set_vsw K client = stv641x_set_vsw (stv6418_set K client)"

definition stv6418_set_t_sb :: "'w avs_kernel \<Rightarrow> nat option \<Rightarrow> int \<Rightarrow> (stv641x, 'w) avs_op" where
  "stv6418_set_t_sb K client = stv641x_set_t_sb (stv6418_set K client)"

definition stv6418_set_wss :: "'w avs_kernel \<Rightarrow> nat option \<Rightarrow> int \<Rightarrow> (stv641x, 'w) avs_op" where
  "stv6418_set_wss K client = stv641x_set_wss (stv6418_set K client)"

definition stv6418_set_fblk :: "'w avs_kernel \<Rightarrow> nat option \<Rightarrow> int \<Rightarrow> (stv641x, 'w) avs_op" where
  "stv6418_set_fblk K client = stv641x_set_fblk (stv6418_set K client)"

definition stv6418_set_mode :: "'w avs_kernel \<Rightarrow> nat option \<Rightarrow> int \<Rightarrow> (stv641x, 'w) avs_op" where
  "stv6418_set_mode K client = stv641x_set_mode (stv6418_set K client)"

definition stv6418_src_sel :: "'w avs_kernel \<Rightarrow> nat option \<Rightarrow> int \<Rightarrow> (stv641x, 'w) avs_op" where
  "stv6418_src_sel K client = stv641x_src_sel (stv6418_set K client)"

definition stv6418_standby :: "'w avs_kernel \<Rightarrow> nat option \<Rightarrow> int \<Rightarrow> (stv641x, 'w) avs_op" where
  "stv6418_standby K client = stv641x_standby cReg8 (stv6418_set K client)"

definition stv6418_get_status :: "'w avs_kernel \<Rightarrow> nat option \<Rightarrow> 'w \<Rightarrow> int \<times> 'w" where
  "stv6418_get_status = stv641x_get_status"

definition stv6418_get_volume :: "stv641x \<Rightarrow> int option" where
  "stv6418_get_volume = stv641x_get_volume"

definition stv6418_get_fblk :: "stv641x \<Rightarrow> int option" where
  "stv6418_get_fblk = stv641x_get_fblk"

definition stv6418_get_t_sb :: "stv641x \<Rightarrow> int option" where
  "stv6418_get_t_sb = stv641x_get_t_sb"

definition stv6418_get_vsw :: "int \<Rightarrow> stv641x \<Rightarrow> int option" where
  "stv6418_get_vsw = stv641x_get_vsw"

definition stv6418_set_encoder :: "int \<Rightarrow> (stv641x, 'w) avs_op" where
  "stv6418_set_encoder = stv641x_set_encoder"

definition stv6418_no_pin :: "avs_board \<Rightarrow> bool" where
  "stv6418_no_pin b \<longleftrightarrow> b \<in> {HS8200, IPBOX9900, IPBOX99, CUBEREVO_3000HD}"

definition stv6418_mute_pin :: "avs_board \<Rightarrow> 'w avs_kernel \<Rightarrow> int \<Rightarrow> stv641x \<Rightarrow> 'w \<Rightarrow> 'w option" where
  "stv6418_mute_pin b K v s w = (if stv6418_no_pin b then Some w else stpio_set_pin K (eMute s) v w)"

definition stv6418_set_mute :: "avs_board \<Rightarrow> 'w avs_kernel \<Rightarrow> nat option \<Rightarrow> int \<Rightarrow> (stv641x, 'w) avs_op" where
  "stv6418_set_mute b K client type s w =
     (if type < 0 \<or> type > 1 then avs_return (- AVS_EINVAL) s w
      else if type = AVS_MUTE then do {
        s \<leftarrow> (if tv_value s = 0xff then do {
               tv \<leftarrow> bits_at cReg1 0 2 s;
               vcr \<leftarrow> bits_at cReg1 3 2 s;
               s \<leftarrow> put_bits cReg1 0 0 2 (s\<lparr>tv_value := tv, vcr_value := vcr\<rparr>);
               put_bits cReg1 0 3 2 s
             } else Some s);
        w \<leftarrow> stv6418_mute_pin b K 1 s w;
        stv6418_set K client s w
      }
      else do {
        s \<leftarrow> (if tv_value s \<noteq> 0xff then do {
               s \<leftarrow> put_bits cReg1 (tv_value s) 0 2 s;
               s \<leftarrow> put_bits cReg1 (vcr_value s) 3 2 s;
               Some (s\<lparr>tv_value := 0xff, vcr_value := 0xff\<rparr>)
             } else Some s);
        w \<leftarrow> stv6418_mute_pin b K 0 s w;
        stv6418_set K client s w
      })"

definition stv6418_set_asw :: "'w avs_kernel \<Rightarrow> nat option \<Rightarrow> int \<Rightarrow> int \<Rightarrow> (stv641x, 'w) avs_op" where
  "stv6418_set_asw K client sw type s w =
     (if sw = 0 then
        if type \<le> 0 \<or> type > 3 then avs_return (- AVS_EINVAL) s w
        else do {
          s \<leftarrow> (if vcr_value s = 0xff then put_bits cReg1 (word_of_int type) 3 2 s
               else Some (s\<lparr>vcr_value := word_of_int type\<rparr>));
          stv6418_set K client s w
        }
      else if sw = 1 \<or> sw = 2 then
        if type \<le> 0 \<or> type > 4 then avs_return (- AVS_EINVAL) s w
        else do {
          s \<leftarrow> (if tv_value s = 0xff then put_bits cReg1 (word_of_int type) 0 2 s
               else Some (s\<lparr>tv_value := word_of_int type\<rparr>));
          stv6418_set K client s w
        }
      else avs_return (- AVS_EINVAL) s w)"

definition stv6418_get_mute :: "stv641x \<Rightarrow> int option" where
  "stv6418_get_mute s = Some (if \<not> (tv_value s = 0xff \<and> vcr_value s = 0xff) then 1 else 0)"

definition stv6418_get_asw :: "int \<Rightarrow> stv641x \<Rightarrow> int option" where
  "stv6418_get_asw sw s =
     (if sw = 0 then if vcr_value s = 0xff then int_at cReg1 3 2 s else Some (uint (vcr_value s))
      else if sw = 1 \<or> sw = 2 then if tv_value s = 0xff then int_at cReg1 0 2 s else Some (uint (tv_value s))
      else Some (- AVS_EINVAL))"

section \<open>The commands of the STV6418\<close>

definition stv6418_ops :: "avs_board \<Rightarrow> 'w avs_kernel \<Rightarrow> nat option \<Rightarrow> (stv641x, 'w) scart_ops" where
  "stv6418_ops b K client = \<lparr>
     op_set_vsw = stv6418_set_vsw K client,
     op_set_asw = stv6418_set_asw K client,
     op_set_volume = stv6418_set_volume K client,
     op_set_mute = stv6418_set_mute b K client,
     op_set_fblk = stv6418_set_fblk K client,
     op_set_t_sb = stv6418_set_t_sb K client,
     op_standby = stv6418_standby K client,
     op_get_vsw = stv6418_get_vsw,
     op_get_asw = stv6418_get_asw,
     op_get_volume = stv6418_get_volume,
     op_get_mute = stv6418_get_mute,
     op_get_fblk = stv6418_get_fblk,
     op_get_t_sb = stv6418_get_t_sb,
     op_get_status = stv6418_get_status K client,
     op_set_mode = stv6418_set_mode K client,
     op_set_encoder = stv6418_set_encoder,
     op_set_wss = stv6418_set_wss K client,
     op_src_sel = stv6418_src_sel K client,
     op_pin8 = [0, 2, 3],
     op_pin8_reverse = [0, 0, 1, 2]\<rparr>"

definition stv6418_command :: "avs_board \<Rightarrow> 'w avs_kernel \<Rightarrow> nat option \<Rightarrow> u32 \<Rightarrow> u32 \<Rightarrow> (stv641x, 'w) avs_op" where
  "stv6418_command b K client = scart_command K (stv6418_ops b K client)"

definition stv6418_command_kernel :: "avs_board \<Rightarrow> 'w avs_kernel \<Rightarrow> nat option \<Rightarrow> u32 \<Rightarrow> u32 \<Rightarrow> (stv641x, 'w) avs_op" where
  "stv6418_command_kernel b K client = scart_command_kernel K False (stv6418_ops b K client)"

primrec stv6418_call :: "avs_board \<Rightarrow> 'w avs_kernel \<Rightarrow> nat option \<Rightarrow> avs_call \<Rightarrow> (stv641x, 'w) avs_op" where
  "stv6418_call b K client (User cmd arg) = stv6418_command b K client cmd arg"
| "stv6418_call b K client (Kernel cmd arg) = stv6418_command_kernel b K client cmd arg"

definition stv6418_init :: "avs_board \<Rightarrow> 'w avs_kernel \<Rightarrow> nat option \<Rightarrow> (stv641x, 'w) avs_op" where
  "stv6418_init b K client s w =
     (let s = s\<lparr>regs := stv6418_regs\<rparr> in
      if stv6418_no_pin b then stv6418_set K client s w
      else
        let (pin, w) = ak_request_pin K 2 2 ''AVS_MUTE'' w; s = s\<lparr>eMute := pin\<rparr> in
        if pin = None then avs_return (- AVS_EIO) s w else stv6418_set K client s w)"

section \<open>The STV6419\<close>

definition stv6419_regs :: "u8 list" where
  "stv6419_regs = [0x00, 0x1E, 0x00, 0x51, 0x55, 0x00, 0x00]"

definition stv6419_set :: "'w avs_kernel \<Rightarrow> nat option \<Rightarrow> (stv641x, 'w) avs_op" where
  "stv6419_set K client s w = stv641x_transmit K client (s\<lparr>regs := stv6419_regs\<rparr>) w"

definition stv6419_set_volume :: "'w avs_kernel \<Rightarrow> nat option \<Rightarrow> int \<Rightarrow> (stv641x, 'w) avs_op" where
  "stv6419_set_volume K client vol s w =
     (let c = (if vol = 63 then 62 else vol); c = (if c = 0 then 1 else c) in
      if c > 63 \<or> c < 0 then avs_return (- AVS_EINVAL) s w
      else do { s \<leftarrow> put_bits cReg1 (word_of_int (c div 2)) 1 5 s; stv6419_set K client s w })"

definition stv6419_set_mute :: "'w avs_kernel \<Rightarrow> nat option \<Rightarrow> int \<Rightarrow> (stv641x, 'w) avs_op" where
  "stv6419_set_mute K client type s w =
     (if type < 0 \<or> type > 1 then avs_return (- AVS_EINVAL) s w
      else if type = AVS_MUTE then do {
        v \<leftarrow> bits_at cReg0 0 2 s;
        s \<leftarrow> put_bits cReg0 0 0 2 (s\<lparr>audio_value := v\<rparr>);
        stv6419_set K client s w
      }
      else do {
        s \<leftarrow> put_bits cReg0 (audio_value s) 0 2 s;
        stv6419_set K client (s\<lparr>audio_value := 0xff\<rparr>) w
      })"

definition stv6419_set_vsw :: "'w avs_kernel \<Rightarrow> nat option \<Rightarrow> int \<Rightarrow> int \<Rightarrow> (stv641x, 'w) avs_op" where
  "stv6419_set_vsw K client sw type s w =
     (if type < 0 \<or> type > 4 then avs_return (- AVS_EINVAL) s w
      else if sw = 0 then do { s \<leftarrow> put_bits cReg2 (word_of_int type) 7 1 s; stv6419_set K client s w }
      else if sw = 1 then
        if type < 0 \<or> type > 2 then avs_return (- AVS_EINVAL) s w
        else do { s \<leftarrow> put_bits cReg2 (word_of_int type) 5 2 s; stv6419_set K client s w }
      else if sw = 2 then do { s \<leftarrow> put_bits cReg2 (word_of_int type) 3 2 s; stv6419_set K client s w }
      else avs_return (- AVS_EINVAL) s w)"

definition stv6419_set_asw :: "'w avs_kernel \<Rightarrow> nat option \<Rightarrow> int \<Rightarrow> int \<Rightarrow> (stv641x, 'w) avs_op" where
  "stv6419_set_asw K client sw type s w =
     (if sw = 0 \<or> sw = 1 \<or> sw = 2 then
        if type \<le> 0 \<or> type > 3 then avs_return (- AVS_EINVAL) s w
        else do {
          s \<leftarrow> (if audio_value s = 0xff then put_bits cReg0 (word_of_int type) 0 2 s
               else Some (s\<lparr>audio_value := word_of_int type\<rparr>));
          stv6419_set K client s w
        }
      else avs_return (- AVS_EINVAL) s w)"

definition stv6419_set_t_sb :: "'w avs_kernel \<Rightarrow> nat option \<Rightarrow> int \<Rightarrow> (stv641x, 'w) avs_op" where
  "stv6419_set_t_sb K client type s w =
     (if type < 0 \<or> type > 3 then avs_return (- AVS_EINVAL) s w
      else do { s \<leftarrow> put_bits cReg3 (word_of_int type) 2 3 s; stv6419_set K client s w })"

definition stv6419_set_wss :: "'w avs_kernel \<Rightarrow> nat option \<Rightarrow> int \<Rightarrow> (stv641x, 'w) avs_op" where
  "stv6419_set_wss K client val s w =
     (if val = SAA_WSS_43F then do { s \<leftarrow> put_bits cReg3 3 2 3 s; stv6419_set K client s w }
      else if val = SAA_WSS_169F then do { s \<leftarrow> put_bits cReg3 2 2 3 s; stv6419_set K client s w }
      else if val = SAA_WSS_OFF then do { s \<leftarrow> put_bits cReg3 0 2 3 s; stv6419_set K client s w }
      else avs_return (- AVS_EINVAL) s w)"

definition stv6419_set_fblk :: "'w avs_kernel \<Rightarrow> nat option \<Rightarrow> int \<Rightarrow> (stv641x, 'w) avs_op" where
  "stv6419_set_fblk K client type s w =
     (if type < 0 \<or> type > 3 then avs_return (- AVS_EINVAL) s w
      else do { s \<leftarrow> put_bits cReg3 (word_of_int type) 5 2 s; stv6419_set K client s w })"

definition stv6419_get_status :: "'w avs_kernel \<Rightarrow> nat option \<Rightarrow> 'w \<Rightarrow> int \<times> 'w" where
  "stv6419_get_status = stv641x_get_status"

definition stv6419_get_volume :: "stv641x \<Rightarrow> int option" where
  "stv6419_get_volume s = do {
     c \<leftarrow> int_at cReg1 1 5 s;
     Some (if c \<noteq> 0 then c * 2 else c)
   }"

definition stv6419_get_mute :: "stv641x \<Rightarrow> int option" where
  "stv6419_get_mute s = Some (if \<not> audio_value s = 0xff then 1 else 0)"

definition stv6419_get_fblk :: "stv641x \<Rightarrow> int option" where
  "stv6419_get_fblk s = int_at cReg3 5 2 s"

definition stv6419_get_t_sb :: "stv641x \<Rightarrow> int option" where
  "stv6419_get_t_sb s = int_at cReg3 2 3 s"

definition stv6419_get_vsw :: "int \<Rightarrow> stv641x \<Rightarrow> int option" where
  "stv6419_get_vsw sw s =
     (if sw = 0 then int_at cReg2 7 1 s
      else if sw = 1 then int_at cReg2 5 2 s
      else if sw = 2 then int_at cReg2 3 2 s
      else Some (- AVS_EINVAL))"

definition stv6419_get_asw :: "int \<Rightarrow> stv641x \<Rightarrow> int option" where
  "stv6419_get_asw sw s =
     (if sw = 0 \<or> sw = 1 \<or> sw = 2 then
        if audio_value s = 0xff then int_at cReg0 0 2 s else Some (uint (audio_value s))
      else Some (- AVS_EINVAL))"

definition stv6419_set_encoder :: "int \<Rightarrow> (stv641x, 'w) avs_op" where
  "stv6419_set_encoder vol s w = avs_return 0 s w"

text \<open>The mode: while the VCR is selected only \<open>s_old_src\<close> changes, otherwise a field and fast blanking.\<close>

definition stv6419_mode :: "(stv641x \<Rightarrow> stv641x option) \<Rightarrow> u8 \<Rightarrow> stv641x \<Rightarrow> stv641x option" where
  "stv6419_mode select blank s = do {
     src \<leftarrow> bits_at cReg2 5 2 s;
     if src = 2 then Some (s\<lparr>s_old_src := 2\<rparr>)
     else do { s \<leftarrow> select s; put_bits cReg3 blank 5 2 s }
   }"

definition stv6419_set_mode :: "'w avs_kernel \<Rightarrow> nat option \<Rightarrow> int \<Rightarrow> (stv641x, 'w) avs_op" where
  "stv6419_set_mode K client val s w =
     (if val = SAA_MODE_RGB then do { s \<leftarrow> stv6419_mode (put_bits cReg2 2 3 2) 1 s; stv6419_set K client s w }
      else if val = SAA_MODE_FBAS then do { s \<leftarrow> stv6419_mode (put_bits cReg2 2 3 3) 0 s; stv6419_set K client s w }
      else if val = SAA_MODE_SVIDEO then do { s \<leftarrow> stv6419_mode (put_bits cReg2 2 5 2) 0 s; stv6419_set K client s w }
      else avs_return (- AVS_EINVAL) s w)"

definition stv6419_src_sel :: "'w avs_kernel \<Rightarrow> nat option \<Rightarrow> int \<Rightarrow> (stv641x, 'w) avs_op" where
  "stv6419_src_sel K client src s w =
     (if src = SAA_SRC_ENC then do {
        s \<leftarrow> put_bits cReg2 (word_of_int (s_old_src s)) 5 2 s;
        s \<leftarrow> put_bits cReg2 (word_of_int (s_old_src s)) 7 1 s;
        s \<leftarrow> put_bits cReg2 2 5 2 s;
        s \<leftarrow> put_bits cReg2 0 7 1 s;
        stv6419_set K client s w
      }
      else if src = SAA_SRC_SCART then do {
        old \<leftarrow> int_at cReg2 5 2 s;
        s \<leftarrow> put_bits cReg2 2 5 2 (s\<lparr>s_old_src := old\<rparr>);
        s \<leftarrow> put_bits cReg2 0 7 1 s;
        stv6419_set K client s w
      }
      else avs_return (- AVS_EINVAL) s w)"

definition stv6419_standby :: "'w avs_kernel \<Rightarrow> nat option \<Rightarrow> int \<Rightarrow> (stv641x, 'w) avs_op" where
  "stv6419_standby K client = stv641x_standby cReg4 (stv6419_set K client)"

section \<open>The commands of the STV6419\<close>

definition stv6419_ops :: "'w avs_kernel \<Rightarrow> nat option \<Rightarrow> (stv641x, 'w) scart_ops" where
  "stv6419_ops K client = \<lparr>
     op_set_vsw = stv6419_set_vsw K client,
     op_set_asw = stv6419_set_asw K client,
     op_set_volume = stv6419_set_volume K client,
     op_set_mute = stv6419_set_mute K client,
     op_set_fblk = stv6419_set_fblk K client,
     op_set_t_sb = stv6419_set_t_sb K client,
     op_standby = stv6419_standby K client,
     op_get_vsw = stv6419_get_vsw,
     op_get_asw = stv6419_get_asw,
     op_get_volume = stv6419_get_volume,
     op_get_mute = stv6419_get_mute,
     op_get_fblk = stv6419_get_fblk,
     op_get_t_sb = stv6419_get_t_sb,
     op_get_status = stv6419_get_status K client,
     op_set_mode = stv6419_set_mode K client,
     op_set_encoder = stv6419_set_encoder,
     op_set_wss = stv6419_set_wss K client,
     op_src_sel = stv6419_src_sel K client,
     op_pin8 = [0, 2, 3],
     op_pin8_reverse = [0, 0, 1, 2]\<rparr>"

definition stv6419_command :: "'w avs_kernel \<Rightarrow> nat option \<Rightarrow> u32 \<Rightarrow> u32 \<Rightarrow> (stv641x, 'w) avs_op" where
  "stv6419_command K client = scart_command K (stv6419_ops K client)"

definition stv6419_command_kernel :: "'w avs_kernel \<Rightarrow> nat option \<Rightarrow> u32 \<Rightarrow> u32 \<Rightarrow> (stv641x, 'w) avs_op" where
  "stv6419_command_kernel K client = scart_command_kernel K False (stv6419_ops K client)"

primrec stv6419_call :: "'w avs_kernel \<Rightarrow> nat option \<Rightarrow> avs_call \<Rightarrow> (stv641x, 'w) avs_op" where
  "stv6419_call K client (User cmd arg) = stv6419_command K client cmd arg"
| "stv6419_call K client (Kernel cmd arg) = stv6419_command_kernel K client cmd arg"

definition stv6419_init :: "'w avs_kernel \<Rightarrow> nat option \<Rightarrow> (stv641x, 'w) avs_op" where
  "stv6419_init K client s w = stv6419_set K client (s\<lparr>regs := stv6419_regs\<rparr>) w"

definition stv641x_start :: stv641x where
  "stv641x_start = \<lparr>regs = replicate 11 0, backup_regs = replicate 11 0, x_stnby = 0, tv_value = 0, vcr_value = 0,
     audio_value = 0, s_old_src = 0, eMute = None\<rparr>"

end
