(* ===== verification/Avs_Registers.thy ===== *)
theory Avs_Registers
  imports Avs_Stv641x
begin
unbundle bit_operations_syntax

text \<open>
  The properties of the drivers with an array of registers: \<^verbatim>\<open>set_bits\<close> and \<^verbatim>\<open>get_bits\<close>, the invariant and
  the memory safety of the STV6417, its standby, and the STV6418 and the STV6419, whose registers never
  change.
\<close>

section \<open>Fields of registers\<close>

lemma field_of_put:
  "k + n \<le> 8 \<Longrightarrow> field_of k n ((r AND NOT (push_bit k (mask n))) OR push_bit k v) = take_bit n v"
  unfolding field_of_def
  by (rule bit_word_eqI) (auto simp: bit_simps)

lemma field_of_put_other:
  assumes "j + m \<le> k \<or> k + n \<le> j" "take_bit n v = v"
  shows "field_of j m ((r AND NOT (push_bit k (mask n))) OR push_bit k v) = field_of j m r"
proof -
  have v: "i < n" if "bit v i" for i
    using that bit_take_bit_iff [of n v i] by (simp add: assms(2))
  show ?thesis
  proof (rule bit_word_eqI)
    fix i
    show "bit (field_of j m ((r AND NOT (push_bit k (mask n))) OR push_bit k v)) i \<longleftrightarrow> bit (field_of j m r) i"
      using assms(1) v [of "j + i - k"] bit_imp_le_length [of r "j + i"] by (auto simp: field_of_def bit_simps)
  qed
qed

text \<open>
  \<^verbatim>\<open>set_bits\<close> and \<^verbatim>\<open>get_bits\<close>: a value that fits into its field is read back, and every other field of
  the register and every other register keep their values.
\<close>

theorem set_bits_roundtrip:
  assumes "i < length rs" "k + n \<le> 8" "unat v < 2 ^ n"
  shows "\<exists>rs'. set_bits rs i v k n = Some rs' \<and> get_bits rs' i k n = Some v \<and>
    (\<forall>j m. j + m \<le> k \<or> k + n \<le> j \<longrightarrow> get_bits rs' i j m = get_bits rs i j m) \<and>
    (\<forall>i' j m. i' \<noteq> i \<longrightarrow> get_bits rs' i' j m = get_bits rs i' j m)"
proof -
  have fits: "take_bit n v = v"
    using assms(3) by (simp add: word_eq_iff_unsigned [where ?'a = nat] unsigned_take_bit_eq take_bit_nat_eq_self)
  show ?thesis
    using assms(1, 2)
    by (auto simp: set_bits_eq get_bits_eq field_of_put fits field_of_put_other [OF _ fits])
      (simp add: get_bits_def arr_get_def)
qed

theorem set_bits_roundtrip_witness:
  "\<exists>rs'. set_bits [0x00, 0x81] 1 5 1 3 = Some rs' \<and> get_bits rs' 1 1 3 = Some 5 \<and>
     get_bits rs' 1 4 4 = get_bits [0x00, 0x81] 1 4 4"
  using set_bits_roundtrip [of 1 "[0x00, 0x81]" 1 3 5] by auto

section \<open>The STV6418 and the STV6419 keep their registers\<close>

text \<open>
  Both drivers set all registers to fixed values before they send them: \<open>fixed F\<close> is what the driver
  and the chip then hold.
\<close>

definition fixed :: "'w avs_kernel \<Rightarrow> ('w \<Rightarrow> u8 list option) \<Rightarrow> u8 list \<Rightarrow> stv641x \<Rightarrow> 'w \<Rightarrow> bool" where
  "fixed K chip F s w \<longleftrightarrow> regs s = F \<and> shadows K chip regs s w"

lemma transmit_fixed:
  "regs s = F \<Longrightarrow> pred_option (\<lambda>(r, s, w). fixed K chip F s w) (stv641x_transmit K client s w)"
  by (auto simp: stv641x_transmit_def avs_return_def fixed_def shadows_def split: prod.split intro: send_in_step)

lemma fixed_set:
  "pred_option (\<lambda>(r, s, w). fixed K chip stv6418_regs s w) (stv6418_set K client s w)"
  "pred_option (\<lambda>(r, s, w). fixed K chip stv6419_regs s w) (stv6419_set K client s w)"
  unfolding stv6418_set_def stv6419_set_def by (rule transmit_fixed, simp)+

lemma fixed_return: "fixed K chip F s w \<Longrightarrow> pred_option (\<lambda>(r, s, w). fixed K chip F s w) (avs_return r s w)"
  by (simp add: avs_return_def)

lemma get_status_fixed: "fixed K chip F s w \<Longrightarrow> fixed K chip F s (snd (stv641x_get_status K client w))"
  by (simp add: fixed_def stv641x_get_status_def case_prod_unfold Let_def shadows_recv)

lemmas stv6418_op_defs = stv6418_set_volume_def stv641x_set_volume_def stv6418_set_vsw_def stv641x_set_vsw_def
  stv6418_set_t_sb_def stv641x_set_t_sb_def stv6418_set_wss_def stv641x_set_wss_def stv6418_set_fblk_def
  stv641x_set_fblk_def stv6418_set_mode_def stv641x_set_mode_def stv6418_src_sel_def stv641x_src_sel_def
  stv6418_standby_def stv641x_standby_def stv6418_set_encoder_def stv641x_set_encoder_def stv6418_set_mute_def
  stv6418_set_asw_def

lemmas stv6419_op_defs = stv6419_set_volume_def stv6419_set_vsw_def stv6419_set_t_sb_def stv6419_set_wss_def
  stv6419_set_fblk_def stv6419_set_mode_def stv6419_src_sel_def stv6419_standby_def stv641x_standby_def
  stv6419_set_encoder_def stv6419_set_mute_def stv6419_set_asw_def

interpretation fixed_user: avs_user K "fixed K chip F" for K :: "'w avs_kernel" and chip F
  by unfold_locales (auto simp: fixed_def intro: shadow.from_user shadow.put_user shadow.store)

interpretation stv6418_fixed: scart_chip K "fixed K chip stv6418_regs" "stv6418_ops b K client"
  for K :: "'w avs_kernel" and chip b client
  by unfold_locales
    (auto simp: keeps_def stv6418_ops_def stv6418_op_defs stv6418_get_status_def Let_def
      intro!: ok_bind_any fixed_set fixed_return get_status_fixed)

interpretation stv6419_fixed: scart_chip K "fixed K chip stv6419_regs" "stv6419_ops K client"
  for K :: "'w avs_kernel" and chip client
  by unfold_locales
    (auto simp: keeps_def stv6419_ops_def stv6419_op_defs stv6419_get_status_def Let_def
      intro!: ok_bind_any fixed_set fixed_return get_status_fixed)

interpretation stv6418_calls: avs_calls "stv6418_call b K client" "fixed K chip stv6418_regs"
  for K :: "'w avs_kernel" and chip b client
proof
  show "keeps (fixed K chip stv6418_regs) (stv6418_call b K client c)" for c
    by (cases c) (simp_all add: stv6418_command_def stv6418_command_kernel_def
        stv6418_fixed.command_keeps stv6418_fixed.command_kernel_keeps)
qed

interpretation stv6419_calls: avs_calls "stv6419_call K client" "fixed K chip stv6419_regs"
  for K :: "'w avs_kernel" and chip client
proof
  show "keeps (fixed K chip stv6419_regs) (stv6419_call K client c)" for c
    by (cases c) (simp_all add: stv6419_command_def stv6419_command_kernel_def
        stv6419_fixed.command_keeps stv6419_fixed.command_kernel_keeps)
qed

text \<open>
  The STV6418 ignores its settings: after a successful initialisation and any sequence of commands
  the chip holds the same fixed bytes (unless the last transfer failed), in standby too, and the commands that read the video sources,
  the volume, fast blanking and pin 8 deliver fixed values, whatever has been set.
\<close>

theorem stv6418_ignores_settings:
  assumes "avs_bus K chip" "stv6418_init b K client s w = Some (0, s0, w0)"
    "avs_run (stv6418_call b K client) cs s0 w0 = Some (s', w')"
  shows "in_step K chip stv6418_regs w' \<and>
    map (\<lambda>sw. stv6418_get_vsw sw s') [0, 1, 2] = [Some 1, Some 1, Some 1] \<and>
    stv6418_get_volume s' = Some 0 \<and> stv6418_get_fblk s' = Some 0 \<and> stv6418_get_t_sb s' = Some 2"
proof -
  obtain s1 w1 where "stv6418_set K client s1 w1 = Some (0, s0, w0)"
    using assms(2) by (auto simp: stv6418_init_def avs_return_def Let_def split: if_splits prod.splits)
  then have "fixed K chip stv6418_regs s0 w0" using fixed_set(1) [of K chip client s1 w1] by simp
  then have *: "fixed K chip stv6418_regs s' w'" by (rule stv6418_calls.run_keeps) (rule assms(3))
  then have "in_step K chip stv6418_regs w'" using assms(1) unfolding fixed_def shadows_def by metis
  then show ?thesis
    using * by (simp add: fixed_def stv6418_regs_def stv6418_get_vsw_def stv641x_get_vsw_def
        stv6418_get_volume_def stv641x_get_volume_def stv6418_get_fblk_def stv641x_get_fblk_def
        stv6418_get_t_sb_def stv641x_get_t_sb_def int_at_def bits_at_def get_bits_def arr_get_def mask_numeral)
qed

theorem stv6418_ignores_settings_witness:
  "\<exists>s0 w0 s' w'. stv6418_init UFS912 bench None stv641x_start [] = Some (0, s0, w0) \<and>
     avs_run (stv6418_call UFS912 bench None) [User AVSIOSVOL 20, Kernel AVSIOSTANDBY 1] s0 w0 = Some (s', w') \<and>
     w' = stv6418_regs \<and> stv6418_get_volume s' = Some 0"
proof -
  have "map_option fst (stv6418_init UFS912 bench None stv641x_start []) = Some 0" by code_simp
  then obtain s0 w0 where i: "stv6418_init UFS912 bench None stv641x_start [] = Some (0, s0, w0)" by auto
  have "do { (r, s0, w0) \<leftarrow> stv6418_init UFS912 bench None stv641x_start [];
      avs_run (stv6418_call UFS912 bench None) [User AVSIOSVOL 20, Kernel AVSIOSTANDBY 1] s0 w0 } \<noteq> None"
    by code_simp
  then obtain s' w' where run: "avs_run (stv6418_call UFS912 bench None) [User AVSIOSVOL 20, Kernel AVSIOSTANDBY 1] s0 w0 = Some (s', w')"
    by (auto simp: i)
  then show ?thesis using stv6418_ignores_settings [OF bench_bus i run] i by auto
qed

text \<open>
  On the STV6419 the command that reads pin 8 always reads behind its table: the registers are
  fixed, their field for pin 8 holds 5, and the table has four entries. This holds from the
  initialisation on, after any sequence of commands, for user space and for the kernel.
\<close>

theorem stv6419_pin8_out_of_bounds:
  assumes "stv6419_init K client s w = Some (r, s0, w0)"
    "avs_run (stv6419_call K client) cs s0 w0 = Some (s', w')"
  shows "stv6419_get_t_sb s' = Some 5 \<and>
    stv6419_command K client AVSIOGSCARTPIN8 arg s' w' = None \<and>
    stv6419_command_kernel K client AVSIOGSCARTPIN8 arg s' w' = None"
proof -
  have "fixed K (\<lambda>w. None) stv6419_regs s0 w0"
    using fixed_set(2) [of K _ client] assms(1) unfolding stv6419_init_def by (metis (no_types, lifting) case_prodD option.pred_inject(2))
  then have "regs s' = stv6419_regs"
    using stv6419_calls.run_keeps [OF _ assms(2)] by (auto simp: fixed_def)
  then have "stv6419_get_t_sb s' = Some 5"
    by (simp add: stv6419_get_t_sb_def int_at_def bits_at_def get_bits_def arr_get_def stv6419_regs_def mask_numeral)
  then show ?thesis
    by (simp add: stv6419_command_def stv6419_command_kernel_def user_command_def kernel_command_def scart_get_def
        stv6419_ops_def table_at_def arr_get_def)
qed

theorem stv6419_pin8_out_of_bounds_witness:
  "\<exists>r s0 w0 s' w'. stv6419_init bench None stv641x_start [] = Some (r, s0, w0) \<and>
     avs_run (stv6419_call bench None) [Kernel AVSIOSSCARTPIN8 1] s0 w0 = Some (s', w') \<and>
     stv6419_command bench None AVSIOGSCARTPIN8 0 s' w' = None"
proof -
  have "do { (r, s0, w0) \<leftarrow> stv6419_init bench None stv641x_start [];
      avs_run (stv6419_call bench None) [Kernel AVSIOSSCARTPIN8 1] s0 w0 } \<noteq> None"
    by code_simp
  then obtain r s0 w0 s' w' where run: "stv6419_init bench None stv641x_start [] = Some (r, s0, w0)"
      "avs_run (stv6419_call bench None) [Kernel AVSIOSSCARTPIN8 1] s0 w0 = Some (s', w')"
    by (auto simp: bind_eq_Some_conv)
  then show ?thesis using stv6419_pin8_out_of_bounds [OF run, of 0] by blast
qed

section \<open>The STV6417\<close>

text \<open>
  The invariant: the two arrays keep their size, and the four bits for pin 8 hold a value below 4 in
  both of them.
\<close>

definition wf_stv6417 :: "stv641x \<Rightarrow> bool" where
  "wf_stv6417 s \<longleftrightarrow> length (regs s) = 11 \<and> length (backup_regs s) = 11 \<and>
     field_of 2 4 (regs s ! 7) < 4 \<and> field_of 2 4 (backup_regs s ! 7) < 4"

lemma pin8_small: "v < 4 \<Longrightarrow> field_of 2 4 ((r AND NOT (push_bit 2 (mask 4))) OR push_bit 2 v) < 4"
  by (simp add: field_of_put take_bit_eq_mask order.strict_trans1 [OF word_and_le2])

text \<open>What every operation but standby leaves as it is.\<close>

definition stable :: "stv641x \<Rightarrow> stv641x \<Rightarrow> bool" where
  "stable s s' \<longleftrightarrow> wf_stv6417 s' \<and> x_stnby s' = x_stnby s \<and> backup_regs s' = backup_regs s"

lemma stable_refl: "wf_stv6417 s \<Longrightarrow> stable s s"
  by (simp add: stable_def)

lemma put_bits_stable:
  "stable s0 s \<Longrightarrow> i < 11 \<Longrightarrow> i \<noteq> 7 \<or> k = 2 \<and> n = 4 \<and> v < 4 \<Longrightarrow> yields (stable s0) (put_bits i v k n s)"
  by (auto simp: stable_def put_bits_def set_bits_eq wf_stv6417_def nth_list_update pin8_small)

lemma bits_at_yields: "stable s0 s \<Longrightarrow> i < 11 \<Longrightarrow> yields (\<lambda>_. True) (bits_at i k n s)"
  by (simp add: stable_def wf_stv6417_def bits_at_def get_bits_eq)

lemma int_at_yields: "stable s0 s \<Longrightarrow> i < 11 \<Longrightarrow> yields (\<lambda>_. True) (int_at i k n s)"
  by (simp add: stable_def wf_stv6417_def int_at_def bits_at_def get_bits_eq)

lemma old_src_stable: "stable s0 s \<Longrightarrow> stable s0 (s\<lparr>s_old_src := v\<rparr>)"
  by (auto simp: stable_def wf_stv6417_def)

lemma source_stable: "stable s0 s \<Longrightarrow> yields (stable s0) (stv641x_source v s)"
  unfolding stv641x_source_def
  by (rule yields_bind [OF bits_at_yields]) (auto simp: old_src_stable intro: put_bits_stable)

lemma send_stable: "stable s0 s \<Longrightarrow> yields (\<lambda>(r, s', w'). stable s0 s') (stv6417_set K client s w)"
  by (auto simp: stable_def stv6417_set_def arr_set_def stv641x_transmit_def avs_return_def wf_stv6417_def
      split: prod.split)

lemma return_stable: "stable s0 s \<Longrightarrow> yields (\<lambda>(r, s', w'). stable s0 s') (avs_return r s w)"
  by (simp add: avs_return_def)

lemmas stv6417_op_defs = stv6417_set_volume_def stv641x_set_volume_def stv6417_set_vsw_def stv641x_set_vsw_def
  stv6417_set_t_sb_def stv641x_set_t_sb_def stv6417_set_wss_def stv641x_set_wss_def stv6417_set_fblk_def
  stv641x_set_fblk_def stv6417_set_mode_def stv641x_set_mode_def stv6417_src_sel_def stv641x_src_sel_def
  stv6417_set_encoder_def stv641x_set_encoder_def stv6417_set_mute_def stv6417_set_asw_def

lemmas stable_intros = yields_bind [OF put_bits_stable] yields_bind [OF source_stable] yields_bind [OF int_at_yields]
  send_stable return_stable old_src_stable stable_refl

lemma stv6417_ops_stable:
  assumes "wf_stv6417 s"
  shows "yields (\<lambda>(r, s', w'). stable s s') (stv6417_set_volume K client v s w)"
    "yields (\<lambda>(r, s', w'). stable s s') (stv6417_set_vsw K client sw v s w)"
    "yields (\<lambda>(r, s', w'). stable s s') (stv6417_set_asw K client sw v s w)"
    "yields (\<lambda>(r, s', w'). stable s s') (stv6417_set_mute K client v s w)"
    "yields (\<lambda>(r, s', w'). stable s s') (stv6417_set_fblk K client v s w)"
    "yields (\<lambda>(r, s', w'). stable s s') (stv6417_set_t_sb K client v s w)"
    "yields (\<lambda>(r, s', w'). stable s s') (stv6417_set_wss K client v s w)"
    "yields (\<lambda>(r, s', w'). stable s s') (stv6417_set_mode K client v s w)"
    "yields (\<lambda>(r, s', w'). stable s s') (stv6417_set_encoder v s w)"
    "yields (\<lambda>(r, s', w'). stable s s') (stv6417_src_sel K client v s w)"
  using assms by (auto simp: stv6417_op_defs Let_def word_of_int_less_4 intro!: stable_intros)

lemma set_each_stable: "stable s0 s \<Longrightarrow> i < 11 \<Longrightarrow> i \<noteq> 7 \<Longrightarrow> yields (stable s0) (set_each i ks s)"
  by (induction ks arbitrary: s) (auto intro!: yields_bind [OF put_bits_stable])

lemma stv6417_enters:
  assumes "wf_stv6417 s" "x_stnby s = 0"
  shows "yields (\<lambda>(r, s', w'). wf_stv6417 s' \<and> x_stnby s' = 1 \<and> backup_regs s' = regs s) (stv6417_standby K client 1 s w)"
proof -
  define s0 where "s0 = s\<lparr>backup_regs := regs s\<rparr>"
  have "stable s0 s0" using assms(1) by (simp add: s0_def stable_def wf_stv6417_def)
  then have each: "yields (stable s0) (set_each cReg8 [0, 1, 2, 3, 4, 5, 6, 7] s0)" by (rule set_each_stable) simp_all
  have step: "yields (\<lambda>(r, s', w'). wf_stv6417 s' \<and> x_stnby s' = 1 \<and> backup_regs s' = regs s)
      (stv6417_set K client (s1\<lparr>x_stnby := 1\<rparr>) w)" if "stable s0 s1" for s1
  proof -
    have "stable (s0\<lparr>x_stnby := 1\<rparr>) (s1\<lparr>x_stnby := 1\<rparr>)" using that by (auto simp: stable_def wf_stv6417_def)
    from send_stable [OF this, of K client w] show ?thesis by (simp add: stable_def s0_def)
  qed
  show ?thesis using assms(2) yields_bind [OF each step]
    by (simp add: stv6417_standby_def stv641x_standby_def s0_def)
qed

lemma stv6417_leaves:
  assumes "wf_stv6417 s" "x_stnby s = 1"
  shows "yields (\<lambda>(r, s', w'). wf_stv6417 s' \<and> x_stnby s' = 0 \<and> tl (regs s') = tl (backup_regs s))
    (stv6417_standby K client 0 s w)"
proof -
  obtain x xs where b: "backup_regs s = x # xs" using assms(1) by (cases "backup_regs s") (auto simp: wf_stv6417_def)
  then show ?thesis using assms
    by (auto simp: stv6417_standby_def stv641x_standby_def stv6417_set_def arr_set_def stv641x_transmit_def
        avs_return_def wf_stv6417_def split: prod.split)
qed

lemma stv6417_standby_wf:
  assumes "wf_stv6417 s"
  shows "yields (\<lambda>(r, s', w'). wf_stv6417 s') (stv6417_standby K client v s w)"
proof -
  consider "v = 1" "x_stnby s = 0" | "v = 0" "x_stnby s = 1" | "\<not> (v = 1 \<and> x_stnby s = 0)" "\<not> (v = 0 \<and> x_stnby s = 1)"
    by blast
  then show ?thesis
  proof cases
    case 1
    then show ?thesis using stv6417_enters [OF assms, of K client w] by (auto simp: yields_def)
  next
    case 2
    then show ?thesis using stv6417_leaves [OF assms, of K client w] by (auto simp: yields_def)
  next
    case 3
    then show ?thesis using assms by (auto simp: stv6417_standby_def stv641x_standby_def avs_return_def)
  qed
qed

text \<open>The invariant is kept by every command, and no operation is undefined in its states.\<close>

lemma keeps_wf: "(\<And>s w. wf_stv6417 s \<Longrightarrow> yields (\<lambda>(r, s', w'). wf_stv6417 s') (f s w)) \<Longrightarrow> keeps (\<lambda>s w. wf_stv6417 s) f"
  by (rule keepsI) (auto dest: yieldsD)

lemma stable_wf: "yields (\<lambda>(r, s', w'). stable s s') m \<Longrightarrow> yields (\<lambda>(r, s', w'). wf_stv6417 s') m"
  by (auto simp: yields_def stable_def)

interpretation stv6417_wf: scart_chip K "\<lambda>s w. wf_stv6417 s" "stv6417_ops K client"
  for K :: "'w avs_kernel" and client
  by unfold_locales
    (auto simp: stv6417_ops_def intro!: keeps_wf stv6417_standby_wf stable_wf [OF stv6417_ops_stable(1)]
      stable_wf [OF stv6417_ops_stable(2)] stable_wf [OF stv6417_ops_stable(3)] stable_wf [OF stv6417_ops_stable(4)]
      stable_wf [OF stv6417_ops_stable(5)] stable_wf [OF stv6417_ops_stable(6)] stable_wf [OF stv6417_ops_stable(7)]
      stable_wf [OF stv6417_ops_stable(8)] stable_wf [OF stv6417_ops_stable(9)] stable_wf [OF stv6417_ops_stable(10)])

interpretation stv6417_calls: avs_calls "stv6417_call K client" "\<lambda>s w. wf_stv6417 s"
  for K :: "'w avs_kernel" and client
proof
  show "keeps (\<lambda>s w. wf_stv6417 s) (stv6417_call K client c)" for c
    by (cases c) (simp_all add: stv6417_command_def stv6417_command_kernel_def
        stv6417_wf.command_keeps stv6417_wf.command_kernel_keeps)
qed

lemma stv6417_get_total:
  assumes "wf_stv6417 s"
  shows "stv6417_get_vsw sw s \<noteq> None" "stv6417_get_volume s \<noteq> None" "stv6417_get_fblk s \<noteq> None"
    "\<exists>t. stv6417_get_t_sb s = Some t \<and> 0 \<le> t \<and> t < 4"
  using assms
  by (auto simp: stv6417_get_vsw_def stv641x_get_vsw_def stv6417_get_volume_def stv641x_get_volume_def
      stv6417_get_fblk_def stv641x_get_fblk_def stv6417_get_t_sb_def stv641x_get_t_sb_def int_at_def bits_at_def
      get_bits_eq wf_stv6417_def word_less_def)

interpretation stv6417_safe: scart_safe "stv6417_ops K client" wf_stv6417 for K :: "'w avs_kernel" and client
  by unfold_locales
    (simp_all add: stv6417_ops_def yields_defined [OF stv6417_ops_stable(1)] yields_defined [OF stv6417_ops_stable(2)]
      yields_defined [OF stv6417_ops_stable(3)] yields_defined [OF stv6417_ops_stable(4)]
      yields_defined [OF stv6417_ops_stable(5)] yields_defined [OF stv6417_ops_stable(6)]
      yields_defined [OF stv6417_ops_stable(7)] yields_defined [OF stv6417_ops_stable(8)]
      yields_defined [OF stv6417_ops_stable(9)] yields_defined [OF stv6417_ops_stable(10)]
      yields_defined [OF stv6417_standby_wf] stv6417_get_total stv6417_get_mute_def stv6417_get_asw_def
      del: not_None_eq)

text \<open>
  C28. The type invariant of the STV6417: after the initialisation and any sequence of calls the register
  arrays have their size and the bits for pin 8 hold a value below 4; therefore a command reads or
  writes outside an array exactly if it sets pin 8 with a value outside the table.
\<close>

theorem stv6417_reachable_wf:
  assumes "backup_regs s = replicate 11 0" "stv6417_init K client s w = Some (r, s0, w0)"
    "avs_run (stv6417_call K client) cs s0 w0 = Some (s', w')"
  shows "wf_stv6417 s' \<and>
    (stv6417_command_kernel K client cmd v s' w' = None \<longleftrightarrow> cmd = AVSIOSSCARTPIN8 \<and> sint v \<notin> {0, 1, 2})"
proof -
  have "wf_stv6417 (s\<lparr>regs := [0x00, 0x01, 0x09, 0x11, 0x84, 0x84, 0x25, 0x08, 0x21, 0xc0, 0x00]\<rparr>)"
    using assms(1) by (simp add: wf_stv6417_def field_of_def mask_numeral)
  from send_stable [OF stable_refl [OF this], of K client w] have "wf_stv6417 s0"
    using assms(2) unfolding stv6417_init_def by (auto simp: yields_def stable_def)
  then have wf: "wf_stv6417 s'" by (rule stv6417_calls.run_keeps) (rule assms(3))
  moreover have "i < 0 \<or> 3 \<le> i \<longleftrightarrow> i \<notin> {0, 1, 2}" for i :: int by auto
  moreover have "length (op_pin8 (stv6417_ops K client)) = 3" by (simp add: stv6417_ops_def)
  ultimately show ?thesis
    by (simp add: stv6417_command_kernel_def stv6417_safe.command_kernel_None_iff [OF wf])
qed

theorem stv6417_reachable_wf_witness:
  "\<exists>r s0 w0 s' w'. stv6417_init bench None stv641x_start [] = Some (r, s0, w0) \<and>
     avs_run (stv6417_call bench None) [Kernel AVSIOSSCARTPIN8 2, User AVSIOSTANDBY 1] s0 w0 = Some (s', w') \<and>
     wf_stv6417 s' \<and> stv6417_command_kernel bench None AVSIOSSCARTPIN8 3 s' w' = None"
proof -
  have "do { (r, s0, w0) \<leftarrow> stv6417_init bench None stv641x_start [];
      avs_run (stv6417_call bench None) [Kernel AVSIOSSCARTPIN8 2, User AVSIOSTANDBY 1] s0 w0 } \<noteq> None"
    by code_simp
  then obtain r s0 w0 s' w' where run: "stv6417_init bench None stv641x_start [] = Some (r, s0, w0)"
      "avs_run (stv6417_call bench None) [Kernel AVSIOSSCARTPIN8 2, User AVSIOSTANDBY 1] s0 w0 = Some (s', w')"
    by (auto simp: bind_eq_Some_conv)
  have "backup_regs stv641x_start = replicate 11 0" by (simp add: stv641x_start_def)
  from stv6417_reachable_wf [OF this run, of AVSIOSSCARTPIN8 3] show ?thesis using run by simp
qed

section \<open>Standby of the STV6417\<close>

definition dormant :: "stv641x \<Rightarrow> bool" where
  "dormant s \<longleftrightarrow> wf_stv6417 s \<and> x_stnby s = 1"

lemma stv6417_sleeping:
  "scart_chip K (\<lambda>s w. dormant s \<and> tl (backup_regs s) = B) (no_standby (stv6417_ops K client))"
  (is "scart_chip K ?I _")
proof -
  have keep: "keeps ?I f" if "\<And>s w. wf_stv6417 s \<Longrightarrow> yields (\<lambda>(r, s', w'). stable s s') (f s w)" for f :: "(stv641x, 'a) avs_op"
  proof (rule keepsI)
    fix s w r s' w'
    assume I: "?I s w" and f: "f s w = Some (r, s', w')"
    then have "stable s s'" using that [of s w] by (auto simp: dormant_def dest: yieldsD)
    then show "?I s' w'" using I by (simp add: stable_def dormant_def)
  qed
  show ?thesis
    by unfold_locales
      (simp_all add: stv6417_ops_def keep [OF stv6417_ops_stable(1)] keep [OF stv6417_ops_stable(2)]
        keep [OF stv6417_ops_stable(3)] keep [OF stv6417_ops_stable(4)] keep [OF stv6417_ops_stable(5)]
        keep [OF stv6417_ops_stable(6)] keep [OF stv6417_ops_stable(7)] keep [OF stv6417_ops_stable(8)]
        keep [OF stv6417_ops_stable(9)] keep [OF stv6417_ops_stable(10)] keep [OF return_stable [OF stable_refl]])
qed

lemma stv6417_call_sleeping:
  assumes "quiet c"
  shows "keeps (\<lambda>s w. dormant s \<and> tl (backup_regs s) = B) (stv6417_call K client c)"
proof (cases c)
  case (User cmd arg)
  then show ?thesis using assms scart_chip.command_keeps [OF stv6417_sleeping [of K B client], of cmd arg]
    by (simp add: stv6417_command_def scart_command_no_standby)
next
  case (Kernel cmd arg)
  then show ?thesis using assms scart_chip.command_kernel_keeps [OF stv6417_sleeping [of K B client], of False cmd arg]
    by (simp add: stv6417_command_kernel_def scart_command_no_standby)
qed

interpretation stv6417_stby: standby_chip "stv6417_call K client" "stv6417_standby K client" "\<lambda>s. tl (regs s)"
    "\<lambda>s. wf_stv6417 s \<and> x_stnby s = 0" dormant "\<lambda>s. tl (backup_regs s)"
  for K :: "'w avs_kernel" and client
proof
  show "dormant s' \<and> tl (backup_regs s') = tl (regs s)"
    if "wf_stv6417 s \<and> x_stnby s = 0" "stv6417_standby K client 1 s w = Some (r, s', w')" for s w r s' w'
    using stv6417_enters [of s K client w] that by (auto simp: dormant_def dest: yieldsD)
  show "keeps (\<lambda>s w. dormant s \<and> tl (backup_regs s) = b) (stv6417_call K client c)"
    if "quiet c" for c b using that by (rule stv6417_call_sleeping)
  show "\<exists>r s' w'. stv6417_standby K client 0 s w = Some (r, s', w') \<and> (wf_stv6417 s' \<and> x_stnby s' = 0) \<and>
      tl (regs s') = tl (backup_regs s)" if "dormant s" for s w
    using stv6417_leaves [of s K client w] that by (auto simp: yields_def dormant_def)
qed

lemma stv6417_standby_restores:
  assumes "wf_stv6417 s \<and> x_stnby s = 0" "stv6417_standby K client 1 s w = Some (r1, s1, w1)"
    "\<forall>c \<in> set cs. quiet c" "avs_run (stv6417_call K client) cs s1 w1 = Some (s2, w2)"
  shows "\<exists>r s' w'. stv6417_standby K client 0 s2 w2 = Some (r, s', w') \<and> tl (regs s') = tl (regs s)"
  using stv6417_stby.wake_restores(2) [OF assms] by blast

end
