(* ===== verification/Avs_Ak470x.thy ===== *)
theory Avs_Ak470x
  imports Avs_Command
begin
unbundle bit_operations_syntax

text \<open>
  The AK4705 and the AK4708 (\<^verbatim>\<open>ak4705.c\<close>, \<^verbatim>\<open>ak4708.c\<close>): ten registers as bit fields, the small set of
  commands. The two files are the same but for the names and for \<^verbatim>\<open>ak4708_set_volume\<close>, which has its body
  commented out; what they share is called \<open>ak470x\<close> here.
\<close>

section \<open>State\<close>

record s_ak470x_data =
  R00STBY :: "1 word"
  R00MUTE :: "1 word"
  R00DAPD :: "1 word"
  R00AUTO :: "1 word"
  R00DIF10 :: "2 word"
  R00DEM10 :: "2 word"
  R01TV10 :: "2 word"
  R01VOL :: "1 word"
  R01MONO :: "1 word"
  R01VCR10 :: "2 word"
  R01FIXED1 :: "1 word"
  R01VMUTE :: "1 word"
  R02L50 :: "6 word"
  R02FIXED1 :: "2 word"
  R03MDT10 :: "2 word"
  R03MOD :: "1 word"
  R03DVOL10 :: "2 word"
  R03FIXED1 :: "1 word"
  R03VMONO :: "1 word"
  R03FIXED2 :: "1 word"
  R04VTV20 :: "3 word"
  R04VVCR20 :: "3 word"
  R04VRF10 :: "2 word"
  R05TVV :: "1 word"
  R05TVR :: "1 word"
  R05TVG :: "1 word"
  R05TVB :: "1 word"
  R05VCRV :: "1 word"
  R05VCRC :: "1 word"
  R05VCRB :: "1 word"
  R05CIO :: "1 word"
  R06VVOL10 :: "2 word"
  R06CLAMP20 :: "3 word"
  R06VCLP10 :: "2 word"
  R06CLAMPB :: "1 word"
  R07FB10 :: "2 word"
  R07SBT10 :: "2 word"
  R07SBV10 :: "2 word"
  R07SBIO10 :: "2 word"
  R08SVCR10 :: "2 word"
  R08FVCR :: "1 word"
  R08VCMON :: "1 word"
  R08TVMON :: "1 word"
  R08FIXED1 :: "3 word"
  R09FIXED1 :: "1 word"
  R09MSVCR :: "1 word"
  R09MFVCR :: "1 word"
  R09MVC :: "1 word"
  R09MTV :: "1 word"
  R09FIXED2 :: "2 word"
  R09MCOMN :: "1 word"

record ak470x =
  ak_data :: s_ak470x_data
  ak_tmp :: s_ak470x_data
  ak_old_src :: int

definition ak470x_bytes :: "s_ak470x_data \<Rightarrow> u8 list" where
  "ak470x_bytes d =
     [fld 0 (R00STBY d) OR fld 1 (R00MUTE d) OR fld 2 (R00DAPD d) OR fld 3 (R00AUTO d) OR fld 4 (R00DIF10 d) OR fld 6 (R00DEM10 d),
      fld 0 (R01TV10 d) OR fld 2 (R01VOL d) OR fld 3 (R01MONO d) OR fld 4 (R01VCR10 d) OR fld 6 (R01FIXED1 d) OR fld 7 (R01VMUTE d),
      fld 0 (R02L50 d) OR fld 6 (R02FIXED1 d),
      fld 0 (R03MDT10 d) OR fld 2 (R03MOD d) OR fld 3 (R03DVOL10 d) OR fld 5 (R03FIXED1 d) OR fld 6 (R03VMONO d) OR fld 7 (R03FIXED2 d),
      fld 0 (R04VTV20 d) OR fld 3 (R04VVCR20 d) OR fld 6 (R04VRF10 d),
      fld 0 (R05TVV d) OR fld 1 (R05TVR d) OR fld 2 (R05TVG d) OR fld 3 (R05TVB d) OR fld 4 (R05VCRV d) OR fld 5 (R05VCRC d)
        OR fld 6 (R05VCRB d) OR fld 7 (R05CIO d),
      fld 0 (R06VVOL10 d) OR fld 2 (R06CLAMP20 d) OR fld 5 (R06VCLP10 d) OR fld 7 (R06CLAMPB d),
      fld 0 (R07FB10 d) OR fld 2 (R07SBT10 d) OR fld 4 (R07SBV10 d) OR fld 6 (R07SBIO10 d),
      fld 0 (R08SVCR10 d) OR fld 2 (R08FVCR d) OR fld 3 (R08VCMON d) OR fld 4 (R08TVMON d) OR fld 5 (R08FIXED1 d),
      fld 0 (R09FIXED1 d) OR fld 1 (R09MSVCR d) OR fld 2 (R09MFVCR d) OR fld 3 (R09MVC d) OR fld 4 (R09MTV d)
        OR fld 5 (R09FIXED2 d) OR fld 7 (R09MCOMN d)]"

text \<open>The buffer has the number of the first register and the ten bytes; ten bytes of it are sent.\<close>

abbreviation ak470x_DATA_SIZE :: nat where "ak470x_DATA_SIZE \<equiv> 10"

definition ak470x_message :: "ak470x \<Rightarrow> u8 list" where
  "ak470x_message s = take ak470x_DATA_SIZE (0 # ak470x_bytes (ak_data s))"

definition ak470x_set :: "'w avs_kernel \<Rightarrow> nat option \<Rightarrow> (ak470x, 'w) avs_op" where
  "ak470x_set K client s w =
     (let (n, w) = ak_i2c_send K client (ak470x_message s) w in
      if int ak470x_DATA_SIZE \<noteq> n then avs_return (- AVS_EFAULT) s w else avs_return 0 s w)"

definition ak_with :: "(s_ak470x_data \<Rightarrow> s_ak470x_data) \<Rightarrow> ak470x \<Rightarrow> ak470x" where
  "ak_with f s = s\<lparr>ak_data := f (ak_data s)\<rparr>"

section \<open>Operations\<close>

definition ak470x_standby :: "'w avs_kernel \<Rightarrow> nat option \<Rightarrow> int \<Rightarrow> (ak470x, 'w) avs_op" where
  "ak470x_standby K client type s w =
     (if type < 0 \<or> type > 1 then avs_return (- AVS_EINVAL) s w
      else if type = 1 then
        (if R00STBY (ak_data s) = 0 then ak470x_set K client (ak_with (R00STBY_update (\<lambda>_. 1)) (s\<lparr>ak_tmp := ak_data s\<rparr>)) w
         else avs_return (- AVS_EINVAL) s w)
      else
        (if R00STBY (ak_data s) = 1 then ak470x_set K client (s\<lparr>ak_data := ak_tmp s\<rparr>) w
         else avs_return (- AVS_EINVAL) s w))"

definition ak4705_set_volume :: "'w avs_kernel \<Rightarrow> nat option \<Rightarrow> int \<Rightarrow> (ak470x, 'w) avs_op" where
  "ak4705_set_volume K client vol s w =
     (if vol > 63 \<or> vol < 0 then avs_return (- AVS_EINVAL) s w
      else ak470x_set K client (ak_with (R02L50_update (\<lambda>_. word_of_int vol)) s) w)"

definition ak4708_set_volume :: "'w avs_kernel \<Rightarrow> nat option \<Rightarrow> int \<Rightarrow> (ak470x, 'w) avs_op" where
  "ak4708_set_volume K client vol s w = ak470x_set K client s w"

definition ak470x_set_mute :: "'w avs_kernel \<Rightarrow> nat option \<Rightarrow> int \<Rightarrow> (ak470x, 'w) avs_op" where
  "ak470x_set_mute K client type s w =
     (if type < 0 \<or> type > 1 then avs_return (- AVS_EINVAL) s w
      else ak470x_set K client (ak_with (R01VMUTE_update (\<lambda>_. if type = AVS_MUTE then 1 else 0)) s) w)"

definition ak470x_get_volume :: "ak470x \<Rightarrow> int" where
  "ak470x_get_volume s = uint (R02L50 (ak_data s))"

definition ak470x_get_mute :: "ak470x \<Rightarrow> int" where
  "ak470x_get_mute s = uint (R00MUTE (ak_data s))"

text \<open>The source of a mode: while the SCART input is selected only \<open>ak_old_src\<close> changes.\<close>

definition ak_mode :: "3 word \<Rightarrow> 2 word \<Rightarrow> ak470x \<Rightarrow> ak470x" where
  "ak_mode src fb s =
     (if R04VTV20 (ak_data s) = 4 then s\<lparr>ak_old_src := uint src\<rparr>
      else ak_with (\<lambda>d. d\<lparr>R04VTV20 := src, R07FB10 := fb\<rparr>) s)"

definition ak470x_set_mode :: "'w avs_kernel \<Rightarrow> nat option \<Rightarrow> int \<Rightarrow> (ak470x, 'w) avs_op" where
  "ak470x_set_mode K client vol s w =
     (if vol = SAA_MODE_RGB then ak470x_set K client (ak_mode 1 1 s) w
      else if vol = SAA_MODE_FBAS then ak470x_set K client (ak_mode 1 0 s) w
      else if vol = SAA_MODE_SVIDEO then ak470x_set K client (ak_mode 3 0 s) w
      else avs_return (- AVS_EINVAL) s w)"

definition ak470x_set_encoder :: "int \<Rightarrow> (ak470x, 'w) avs_op" where
  "ak470x_set_encoder val = avs_return 0"

definition ak470x_set_wss :: "'w avs_kernel \<Rightarrow> nat option \<Rightarrow> int \<Rightarrow> (ak470x, 'w) avs_op" where
  "ak470x_set_wss K client val s w =
     (if val = SAA_WSS_43F then ak470x_set K client (ak_with (R07SBT10_update (\<lambda>_. 3)) s) w
      else if val = SAA_WSS_169F then ak470x_set K client (ak_with (R07SBT10_update (\<lambda>_. 1)) s) w
      else if val = SAA_WSS_OFF then ak470x_set K client (ak_with (R07SBT10_update (\<lambda>_. 0)) s) w
      else avs_return (- AVS_EINVAL) s w)"

definition ak470x_src_sel :: "'w avs_kernel \<Rightarrow> nat option \<Rightarrow> int \<Rightarrow> (ak470x, 'w) avs_op" where
  "ak470x_src_sel K client src s w =
     (if src = SAA_SRC_ENC then
        ak470x_set K client
          (ak_with (\<lambda>d. d\<lparr>R04VTV20 := word_of_int (ak_old_src s), R04VVCR20 := word_of_int (ak_old_src s),
             R01TV10 := 0, R01VCR10 := 0\<rparr>) s) w
      else if src = SAA_SRC_SCART then
        ak470x_set K client
          (ak_with (\<lambda>d. d\<lparr>R04VTV20 := 4, R04VVCR20 := 0, R01TV10 := 1, R01VCR10 := 2\<rparr>)
             (s\<lparr>ak_old_src := uint (R04VTV20 (ak_data s))\<rparr>)) w
      else avs_return (- AVS_EINVAL) s w)"

text \<open>The operations of a driver, and its commands; the kernel's \<^verbatim>\<open>GET\<close> commands store their value.\<close>

definition ak470x_ops ::
  "('w avs_kernel \<Rightarrow> nat option \<Rightarrow> int \<Rightarrow> (ak470x, 'w) avs_op) \<Rightarrow> 'w avs_kernel \<Rightarrow> nat option \<Rightarrow> (ak470x, 'w) basic_ops" where
  "ak470x_ops set_volume K client =
     \<lparr>bop_set_volume = set_volume K client,
      bop_set_mute = ak470x_set_mute K client,
      bop_standby = ak470x_standby K client,
      bop_get_volume = ak470x_get_volume,
      bop_get_mute = ak470x_get_mute,
      bop_set_mode = ak470x_set_mode K client,
      bop_set_encoder = ak470x_set_encoder,
      bop_set_wss = ak470x_set_wss K client,
      bop_src_sel = ak470x_src_sel K client\<rparr>"

definition ak4705_command :: "'w avs_kernel \<Rightarrow> nat option \<Rightarrow> u32 \<Rightarrow> u32 \<Rightarrow> (ak470x, 'w) avs_op" where
  "ak4705_command K client = basic_command K (ak470x_ops ak4705_set_volume K client)"

definition ak4705_command_kernel :: "'w avs_kernel \<Rightarrow> nat option \<Rightarrow> u32 \<Rightarrow> u32 \<Rightarrow> (ak470x, 'w) avs_op" where
  "ak4705_command_kernel K client = basic_command_kernel K True (ak470x_ops ak4705_set_volume K client)"

definition ak4708_command :: "'w avs_kernel \<Rightarrow> nat option \<Rightarrow> u32 \<Rightarrow> u32 \<Rightarrow> (ak470x, 'w) avs_op" where
  "ak4708_command K client = basic_command K (ak470x_ops ak4708_set_volume K client)"

definition ak4708_command_kernel :: "'w avs_kernel \<Rightarrow> nat option \<Rightarrow> u32 \<Rightarrow> u32 \<Rightarrow> (ak470x, 'w) avs_op" where
  "ak4708_command_kernel K client = basic_command_kernel K True (ak470x_ops ak4708_set_volume K client)"

definition ak470x_zero :: s_ak470x_data where
  "ak470x_zero =
     \<lparr>R00STBY = 0, R00MUTE = 0, R00DAPD = 0, R00AUTO = 0, R00DIF10 = 0, R00DEM10 = 0,
      R01TV10 = 0, R01VOL = 0, R01MONO = 0, R01VCR10 = 0, R01FIXED1 = 0, R01VMUTE = 0,
      R02L50 = 0, R02FIXED1 = 0,
      R03MDT10 = 0, R03MOD = 0, R03DVOL10 = 0, R03FIXED1 = 0, R03VMONO = 0, R03FIXED2 = 0,
      R04VTV20 = 0, R04VVCR20 = 0, R04VRF10 = 0,
      R05TVV = 0, R05TVR = 0, R05TVG = 0, R05TVB = 0, R05VCRV = 0, R05VCRC = 0, R05VCRB = 0, R05CIO = 0,
      R06VVOL10 = 0, R06CLAMP20 = 0, R06VCLP10 = 0, R06CLAMPB = 0,
      R07FB10 = 0, R07SBT10 = 0, R07SBV10 = 0, R07SBIO10 = 0,
      R08SVCR10 = 0, R08FVCR = 0, R08VCMON = 0, R08TVMON = 0, R08FIXED1 = 0,
      R09FIXED1 = 0, R09MSVCR = 0, R09MFVCR = 0, R09MVC = 0, R09MTV = 0, R09FIXED2 = 0, R09MCOMN = 0\<rparr>"

definition ak470x_init :: "'w avs_kernel \<Rightarrow> nat option \<Rightarrow> (ak470x, 'w) avs_op" where
  "ak470x_init K client s w =
     ak470x_set K client
       (s\<lparr>ak_data := ak470x_zero
            \<lparr>R00DEM10 := 1, R00DIF10 := 3, R01FIXED1 := 1, R02L50 := 31, R03MOD := 1, R04VVCR20 := 1, R04VTV20 := 1,
             R05CIO := 1, R05VCRB := 1, R05VCRC := 1, R05VCRV := 1, R05TVB := 1, R05TVG := 1, R05TVR := 1, R05TVV := 1,
             R07SBIO10 := 2, R07SBV10 := 0, R07SBT10 := 3, R07FB10 := 0\<rparr>,
          ak_old_src := 1\<rparr>) w"

primrec ak4705_call :: "'w avs_kernel \<Rightarrow> nat option \<Rightarrow> avs_call \<Rightarrow> (ak470x, 'w) avs_op" where
  "ak4705_call K client (User cmd arg) = ak4705_command K client cmd arg"
| "ak4705_call K client (Kernel cmd arg) = ak4705_command_kernel K client cmd arg"

primrec ak4708_call :: "'w avs_kernel \<Rightarrow> nat option \<Rightarrow> avs_call \<Rightarrow> (ak470x, 'w) avs_op" where
  "ak4708_call K client (User cmd arg) = ak4708_command K client cmd arg"
| "ak4708_call K client (Kernel cmd arg) = ak4708_command_kernel K client cmd arg"

section \<open>What the commands keep\<close>

lemmas ak470x_op_defs = ak470x_ops_def ak4705_set_volume_def [abs_def] ak4708_set_volume_def [abs_def]
  ak470x_set_mute_def [abs_def] ak470x_set_mode_def [abs_def] ak470x_set_encoder_def [abs_def]
  ak470x_set_wss_def [abs_def] ak470x_src_sel_def [abs_def]

lemma ak470x_set_defined: "\<exists>r w'. ak470x_set K client s w = Some (r, s, w')"
  by (auto simp: ak470x_set_def avs_return_def split: prod.splits)

lemma ak470x_set_same: "ak470x_set K client s w = Some (r, s', w') \<Longrightarrow> s' = s"
  using ak470x_set_defined [of K client s w] by auto

lemma ak470x_set_shadows: "ak470x_set K client s w = Some (r, s', w') \<Longrightarrow> shadows K chip ak470x_message s' w'"
  by (auto simp: shadows_def ak470x_set_def avs_return_def split: prod.splits if_splits intro: send_in_step)

lemma keeps_ak_shadow: "keeps (shadows K chip ak470x_message) (\<lambda>s w. ak470x_set K client (f s) w)"
  by (rule keepsI) (rule ak470x_set_shadows)

lemma keeps_ak_variables:
  "(\<And>s. P s \<Longrightarrow> P (f s)) \<Longrightarrow> keeps (\<lambda>s w. P s) (\<lambda>s w. ak470x_set K client (f s) w)"
  by (rule keepsI) (metis ak470x_set_same)

text \<open>Both drivers send what their variables say.\<close>

lemma ak470x_shadow_chip:
  assumes "\<And>v. keeps (shadows K chip ak470x_message) (set_volume K client v)"
  shows "basic_chip K (shadows K chip ak470x_message) (ak470x_ops set_volume K client)"
  by unfold_locales
    (auto simp: ak470x_op_defs ak470x_standby_def [abs_def] intro!: keeps_intros keeps_ak_shadow assms)

interpretation ak4705_shadow: basic_chip K "shadows K chip ak470x_message" "ak470x_ops ak4705_set_volume K client"
  for K :: "'w avs_kernel" and chip client
  by (rule ak470x_shadow_chip) (auto simp: ak470x_op_defs intro!: keeps_intros keeps_ak_shadow)

interpretation ak4708_shadow: basic_chip K "shadows K chip ak470x_message" "ak470x_ops ak4708_set_volume K client"
  for K :: "'w avs_kernel" and chip client
  by (rule ak470x_shadow_chip) (auto simp: ak470x_op_defs intro!: keeps_intros keeps_ak_shadow)


lemma ak4705_call_keeps:
  "basic_chip K I (ak470x_ops ak4705_set_volume K client) \<Longrightarrow> keeps I (ak4705_call K client c)"
  by (cases c) (simp_all add: ak4705_command_def ak4705_command_kernel_def basic_chip.basic_command_keeps
      basic_chip.basic_command_kernel_keeps)

lemma ak4708_call_keeps:
  "basic_chip K I (ak470x_ops ak4708_set_volume K client) \<Longrightarrow> keeps I (ak4708_call K client c)"
  by (cases c) (simp_all add: ak4708_command_def ak4708_command_kernel_def basic_chip.basic_command_keeps
      basic_chip.basic_command_kernel_keeps)

text \<open>The bit that the mute command would read is never set; the copy made for standby has it clear too.\<close>

definition mute_clear :: "ak470x \<Rightarrow> bool" where
  "mute_clear s \<longleftrightarrow> R00MUTE (ak_data s) = 0 \<and> (R00STBY (ak_data s) = 1 \<longrightarrow> R00MUTE (ak_tmp s) = 0)"

lemma ak_mode_keeps [simp]:
  "R00MUTE (ak_data (ak_mode src fb s)) = R00MUTE (ak_data s)"
  "R00STBY (ak_data (ak_mode src fb s)) = R00STBY (ak_data s)" "ak_tmp (ak_mode src fb s) = ak_tmp s"
  by (simp_all add: ak_mode_def ak_with_def)

lemma ak470x_standby_mute: "keeps (\<lambda>s w. mute_clear s) (ak470x_standby K client v)"
  by (rule keepsI)
    (auto simp: ak470x_standby_def mute_clear_def ak_with_def avs_return_def split: if_splits dest!: ak470x_set_same)

interpretation ak4705_mute: basic_chip K "\<lambda>s w. mute_clear s" "ak470x_ops ak4705_set_volume K client"
  for K :: "'w avs_kernel" and client
  by unfold_locales
    (auto simp: ak470x_op_defs mute_clear_def ak_with_def intro!: keeps_intros keeps_ak_variables
      ak470x_standby_mute [unfolded mute_clear_def])

interpretation ak4708_mute: basic_chip K "\<lambda>s w. mute_clear s" "ak470x_ops ak4708_set_volume K client"
  for K :: "'w avs_kernel" and client
  by unfold_locales
    (auto simp: ak470x_op_defs mute_clear_def ak_with_def intro!: keeps_intros keeps_ak_variables
      ak470x_standby_mute [unfolded mute_clear_def])

interpretation ak4705_calls: avs_calls "ak4705_call K client" "\<lambda>s w. shadows K chip ak470x_message s w \<and> mute_clear s"
  for K :: "'w avs_kernel" and chip client
proof
  show "keeps (\<lambda>s w. shadows K chip ak470x_message s w \<and> mute_clear s) (ak4705_call K client c)" for c
    using ak4705_call_keeps [OF ak4705_shadow.basic_chip_axioms] ak4705_call_keeps [OF ak4705_mute.basic_chip_axioms]
    by (rule keeps_conj)
qed

interpretation ak4708_calls: avs_calls "ak4708_call K client" "\<lambda>s w. shadows K chip ak470x_message s w \<and> mute_clear s"
  for K :: "'w avs_kernel" and chip client
proof
  show "keeps (\<lambda>s w. shadows K chip ak470x_message s w \<and> mute_clear s) (ak4708_call K client c)" for c
    using ak4708_call_keeps [OF ak4708_shadow.basic_chip_axioms] ak4708_call_keeps [OF ak4708_mute.basic_chip_axioms]
    by (rule keeps_conj)
qed

lemma ak470x_init_start:
  "ak470x_init K client s w = Some (r, s', w') \<Longrightarrow> shadows K chip ak470x_message s' w' \<and> mute_clear s'"
  using ak470x_set_shadows
  by (auto simp: ak470x_init_def mute_clear_def ak470x_zero_def dest: ak470x_set_same)

text \<open>
  The AK4705 and the AK4708: after the initialisation and any sequence of calls the chip has received (unless the last
  transfer failed) its first nine registers as the driver's variables have them, never the tenth, and the driver reports
  that the sound is on whatever it has been told: it sets the mute bit of register 1 and reads that of
  register 0.
\<close>

theorem ak470x_mute_not_reported:
  assumes "avs_bus K chip" "ak470x_init K client s w = Some (r, s0, w0)"
    "avs_run (ak4705_call K client) cs s0 w0 = Some (s', w') \<or> avs_run (ak4708_call K client) cs s0 w0 = Some (s', w')"
  shows "in_step K chip (0 # take 9 (ak470x_bytes (ak_data s'))) w' \<and> length (ak470x_bytes (ak_data s')) = 10 \<and>
    ak470x_get_mute s' = 0"
proof -
  have "shadows K chip ak470x_message s' w' \<and> mute_clear s'"
    using assms(3) ak4705_calls.run_keeps [OF ak470x_init_start [OF assms(2), of chip]]
      ak4708_calls.run_keeps [OF ak470x_init_start [OF assms(2), of chip]] by blast
  moreover have "length (ak470x_bytes (ak_data s')) = 10" by (simp add: ak470x_bytes_def)
  ultimately show ?thesis
    using assms(1) by (simp add: shadows_def ak470x_message_def mute_clear_def ak470x_get_mute_def)
qed

definition ak470x_start :: ak470x where
  "ak470x_start = \<lparr>ak_data = ak470x_zero, ak_tmp = ak470x_zero, ak_old_src = 0\<rparr>"

theorem ak470x_mute_not_reported_witness:
  "\<exists>r s0 w0 s' w'. ak470x_init bench None ak470x_start [] = Some (r, s0, w0) \<and>
     avs_run (ak4705_call bench None) [User AVSIOSMUTE 1, Kernel AVSIOSVOL 20] s0 w0 = Some (s', w') \<and>
     w' = 0 # take 9 (ak470x_bytes (ak_data s')) \<and> ak470x_get_mute s' = 0"
proof -
  have "do { (r, s0, w0) \<leftarrow> ak470x_init bench None ak470x_start [];
      avs_run (ak4705_call bench None) [User AVSIOSMUTE 1, Kernel AVSIOSVOL 20] s0 w0 } \<noteq> None"
    by code_simp
  then obtain r s0 w0 s' w' where run: "ak470x_init bench None ak470x_start [] = Some (r, s0, w0)"
      "avs_run (ak4705_call bench None) [User AVSIOSMUTE 1, Kernel AVSIOSVOL 20] s0 w0 = Some (s', w')"
    by (auto simp: bind_eq_Some_conv)
  then show ?thesis using ak470x_mute_not_reported [OF bench_bus run(1) disjI1 [OF run(2)]] run by auto
qed

section \<open>The source\<close>

definition ak_scart :: "ak470x \<Rightarrow> ak470x" where
  "ak_scart s = ak_with (\<lambda>d. d\<lparr>R04VTV20 := 4, R04VVCR20 := 0, R01TV10 := 1, R01VCR10 := 2\<rparr>)
     (s\<lparr>ak_old_src := uint (R04VTV20 (ak_data s))\<rparr>)"

lemma ak4705_src_sel_call:
  "\<exists>r w'. ak4705_call K client (Kernel SAAIOSSRCSEL 1) s w = Some (r, ak_scart s, w')"
  "\<exists>r s' w'. ak4705_call K client (Kernel SAAIOSSRCSEL 0) s w = Some (r, s', w') \<and>
     R04VTV20 (ak_data s') = word_of_int (ak_old_src s)"
  using ak470x_set_defined
  by (fastforce simp: ak4705_command_kernel_def kernel_command_def basic_saa_def ak470x_ops_def ak470x_src_sel_def
      ak_scart_def ak_with_def)+

lemma ak4705_scarts:
  "\<exists>w'. avs_run (ak4705_call K client) (replicate n (Kernel SAAIOSSRCSEL 1) @ cs) s w =
     avs_run (ak4705_call K client) cs ((ak_scart ^^ n) s) w'"
proof (induction n arbitrary: s w)
  case (Suc n)
  obtain r w1 where "ak4705_call K client (Kernel SAAIOSSRCSEL 1) s w = Some (r, ak_scart s, w1)"
    using ak4705_src_sel_call(1) [of K client s w] by blast
  then show ?case using Suc.IH [of "ak_scart s" w1] by (simp add: funpow_swap1 del: ak4705_call.simps)
qed auto

lemma ak_old_src_scarts:
  "word_of_int (ak_old_src ((ak_scart ^^ Suc n) s)) = (if n = 0 then R04VTV20 (ak_data s) else 4)"
  by (cases n) (simp_all add: ak_scart_def ak_with_def)

text \<open>
  Selecting the encoder again after the SCART input brings back the source from before if the SCART
  input was selected once; if it was selected more often in a row, the television stays on it.
\<close>

theorem ak4705_source_roundtrip:
  "\<exists>s' w'. avs_run (ak4705_call K client)
       (replicate (Suc n) (Kernel SAAIOSSRCSEL 1) @ [Kernel SAAIOSSRCSEL 0]) s w = Some (s', w') \<and>
     R04VTV20 (ak_data s') = (if n = 0 then R04VTV20 (ak_data s) else 4)"
proof -
  obtain w1 where run: "avs_run (ak4705_call K client) (replicate (Suc n) (Kernel SAAIOSSRCSEL 1) @ [Kernel SAAIOSSRCSEL 0]) s w =
      avs_run (ak4705_call K client) [Kernel SAAIOSSRCSEL 0] ((ak_scart ^^ Suc n) s) w1"
    using ak4705_scarts [of K client "Suc n" "[Kernel SAAIOSSRCSEL 0]" s w] by blast
  obtain r s' w' where "ak4705_call K client (Kernel SAAIOSSRCSEL 0) ((ak_scart ^^ Suc n) s) w1 = Some (r, s', w')"
      "R04VTV20 (ak_data s') = word_of_int (ak_old_src ((ak_scart ^^ Suc n) s))"
    using ak4705_src_sel_call(2) [of K client "(ak_scart ^^ Suc n) s" w1] by blast
  then show ?thesis
    unfolding run ak_old_src_scarts by (simp del: ak4705_call.simps)
qed

section \<open>Standby\<close>

definition ak_dormant :: "ak470x \<Rightarrow> bool" where
  "ak_dormant s \<longleftrightarrow> R00STBY (ak_data s) = 1 \<and> R00STBY (ak_tmp s) = 0"

lemma ak4705_sleeping:
  "basic_chip K (\<lambda>s w. ak_dormant s \<and> ak_tmp s = B) (basic_no_standby (ak470x_ops ak4705_set_volume K client))"
  by unfold_locales
    (auto simp: ak470x_op_defs ak_dormant_def ak_with_def intro!: keeps_intros keeps_ak_variables)

interpretation ak4705_stby: standby_chip "ak4705_call K client" "ak470x_standby K client" ak_data
    "\<lambda>s. R00STBY (ak_data s) = 0" ak_dormant ak_tmp
  for K :: "'w avs_kernel" and client
proof
  show "ak_dormant s' \<and> ak_tmp s' = ak_data s"
    if "R00STBY (ak_data s) = 0" "ak470x_standby K client 1 s w = Some (r, s', w')" for s w r s' w'
    using that by (auto simp: ak470x_standby_def ak_dormant_def ak_with_def dest!: ak470x_set_same)
  show "keeps (\<lambda>s w. ak_dormant s \<and> ak_tmp s = b) (ak4705_call K client c)" if "quiet c" for c b
  proof (cases c)
    case (User cmd arg)
    then show ?thesis using that basic_chip.basic_command_keeps [OF ak4705_sleeping [of K b client], of cmd arg]
      by (simp add: ak4705_command_def basic_command_no_standby)
  next
    case (Kernel cmd arg)
    then show ?thesis
      using that basic_chip.basic_command_kernel_keeps [OF ak4705_sleeping [of K b client], of True cmd arg]
      by (simp add: ak4705_command_kernel_def basic_command_no_standby)
  qed
  show "\<exists>r s' w'. ak470x_standby K client 0 s w = Some (r, s', w') \<and> R00STBY (ak_data s') = 0 \<and> ak_data s' = ak_tmp s"
    if "ak_dormant s" for s w
    using that ak470x_set_defined [of K client "s\<lparr>ak_data := ak_tmp s\<rparr>" w]
    by (auto simp: ak470x_standby_def ak_dormant_def)
qed

lemma ak4705_standby_restores:
  assumes "R00STBY (ak_data s) = 0" "ak470x_standby K client 1 s w = Some (r1, s1, w1)"
    "\<forall>c \<in> set cs. quiet c" "avs_run (ak4705_call K client) cs s1 w1 = Some (s2, w2)"
  shows "\<exists>r s' w'. ak470x_standby K client 0 s2 w2 = Some (r, s', w') \<and> ak_data s' = ak_data s"
  using ak4705_stby.wake_restores(2) [OF assms] by blast

end
