(* ===== verification/Avs_Cxa2161r.thy ===== *)
theory Avs_Cxa2161r
  imports Avs_Command
begin
unbundle bit_operations_syntax

text \<open>
  The CXA2161R (\<^verbatim>\<open>cxa2161r.c\<close>): seven registers to write and one to read as bit fields of one structure,
  the full set of commands. Its properties: what the driver reads back of what it has set, and standby.
\<close>

section \<open>State\<close>

record s_cxa2161r_data =
  tv_audio_mute :: "1 word"
  volume_control :: "5 word"
  rin1_lin1_gain :: "2 word"
  phono_bypass :: "1 word"
  tv_audio_select :: "2 word"
  tv_mono_switch :: "3 word"
  tv_vol_bypass :: "1 word"
  mono_switch :: "1 word"
  overlay_enable :: "1 word"
  vcr_audio_select :: "2 word"
  vcr_mono_switch :: "3 word"
  output_limit :: "1 word"
  tv_audio_mute2 :: "1 word"
  fast_blank :: "2 word"
  fnc_direction :: "1 word"
  fnc_follow :: "1 word"
  fnc_level :: "2 word"
  logic_level :: "1 word"
  tv_input_mute :: "1 word"
  tv_video_switch :: "3 word"
  rgb_gain :: "2 word"
  vcr_video_switch :: "3 word"
  mixer_control :: "2 word"
  vin3_clamp :: "1 word"
  vin7_clamp :: "1 word"
  vin5_clamp :: "1 word"
  sync_sel :: "2 word"
  vcr_input_mute :: "1 word"
  enable_vout1 :: "1 word"
  enable_vout2 :: "1 word"
  enable_vout3 :: "1 word"
  enable_vout4 :: "1 word"
  enable_vout5 :: "1 word"
  enable_vout6 :: "1 word"
  vout5_0v :: "1 word"
  zcd :: "1 word"
  fnc_vcr :: "2 word"
  sync_detect :: "1 word"
  not_used1 :: "1 word"
  pod :: "1 word"
  zcd_status :: "1 word"
  not_used2 :: "1 word"
  not_used3 :: "1 word"

text \<open>The variables of the file; \<open>cxa2161r_s_old_src\<close> is only written, \<open>audio_value\<close> only read.\<close>

record cxa2161r =
  cxa2161r_data :: s_cxa2161r_data
  tmpcxa2161r_data :: s_cxa2161r_data
  cxa2161r_s_old_src :: int
  audio_value :: u8
  cxa_stnby :: u8

definition cxa2161r_bytes :: "s_cxa2161r_data \<Rightarrow> u8 list" where
  "cxa2161r_bytes d =
     [fld 0 (tv_audio_mute d) OR fld 1 (volume_control d) OR fld 6 (rin1_lin1_gain d),
      fld 0 (phono_bypass d) OR fld 1 (tv_audio_select d) OR fld 3 (tv_mono_switch d) OR fld 6 (tv_vol_bypass d) OR fld 7 (mono_switch d),
      fld 0 (overlay_enable d) OR fld 1 (vcr_audio_select d) OR fld 3 (vcr_mono_switch d) OR fld 6 (output_limit d) OR fld 7 (tv_audio_mute2 d),
      fld 0 (fast_blank d) OR fld 2 (fnc_direction d) OR fld 3 (fnc_follow d) OR fld 4 (fnc_level d) OR fld 6 (logic_level d)
        OR fld 7 (tv_input_mute d),
      fld 0 (tv_video_switch d) OR fld 3 (rgb_gain d) OR fld 5 (vcr_video_switch d),
      fld 0 (mixer_control d) OR fld 2 (vin3_clamp d) OR fld 3 (vin7_clamp d) OR fld 4 (vin5_clamp d) OR fld 5 (sync_sel d)
        OR fld 7 (vcr_input_mute d),
      fld 0 (enable_vout1 d) OR fld 1 (enable_vout2 d) OR fld 2 (enable_vout3 d) OR fld 3 (enable_vout4 d) OR fld 4 (enable_vout5 d)
        OR fld 5 (enable_vout6 d) OR fld 6 (vout5_0v d) OR fld 7 (zcd d),
      fld 0 (fnc_vcr d) OR fld 2 (sync_detect d) OR fld 3 (not_used1 d) OR fld 4 (pod d) OR fld 5 (zcd_status d)
        OR fld 6 (not_used2 d) OR fld 7 (not_used3 d)]"

definition cxa2161r_message :: "cxa2161r \<Rightarrow> u8 list" where
  "cxa2161r_message s = 0 # cxa2161r_bytes (cxa2161r_data s)"

abbreviation CXA2161R_DATA_SIZE :: nat where "CXA2161R_DATA_SIZE \<equiv> 8"

definition cxa2161r_set :: "'w avs_kernel \<Rightarrow> nat option \<Rightarrow> (cxa2161r, 'w) avs_op" where
  "cxa2161r_set K client s w =
     (let (n, w) = ak_i2c_send K client (cxa2161r_message s) w in
      if int (CXA2161R_DATA_SIZE + 1) \<noteq> n then avs_return (- AVS_EFAULT) s w else avs_return 0 s w)"

definition cxa_with :: "(s_cxa2161r_data \<Rightarrow> s_cxa2161r_data) \<Rightarrow> cxa2161r \<Rightarrow> cxa2161r" where
  "cxa_with f s = s\<lparr>cxa2161r_data := f (cxa2161r_data s)\<rparr>"

section \<open>Operations\<close>

definition cxa2161r_set_volume :: "'w avs_kernel \<Rightarrow> nat option \<Rightarrow> int \<Rightarrow> (cxa2161r, 'w) avs_op" where
  "cxa2161r_set_volume K client vol s w =
     (let c = (if vol = 63 then 62 else vol) in
      if c > 63 \<or> c < 0 then avs_return (- AVS_EINVAL) s w
      else cxa2161r_set K client (cxa_with (volume_control_update (\<lambda>_. word_of_int (c div 2))) s) w)"

definition cxa2161r_set_mute :: "'w avs_kernel \<Rightarrow> nat option \<Rightarrow> int \<Rightarrow> int \<Rightarrow> (cxa2161r, 'w) avs_op" where
  "cxa2161r_set_mute K client sw type s w =
     (if type < AVS_UNMUTE \<or> type > AVS_MUTE then avs_return (- AVS_EINVAL) s w
      else if sw = 0 then cxa2161r_set K client (cxa_with (vcr_input_mute_update (\<lambda>_. word_of_int type)) s) w
      else if sw = 1 \<or> sw = 2 then
        cxa2161r_set K client (cxa_with (\<lambda>d. d\<lparr>tv_audio_mute := word_of_int type,
          tv_audio_mute2 := word_of_int type, tv_input_mute := word_of_int type\<rparr>) s) w
      else avs_return (- AVS_EINVAL) s w)"

text \<open>The source of the video outputs; type 4 is accepted for the outputs 0 and 2 and changes nothing.\<close>

definition vcr_source :: "int \<Rightarrow> s_cxa2161r_data \<Rightarrow> s_cxa2161r_data" where
  "vcr_source type d =
     (if type = 0 then d\<lparr>vcr_video_switch := 7\<rparr>
      else if type = 1 then d\<lparr>vcr_video_switch := 1\<rparr>
      else if type = 2 then d\<lparr>vcr_video_switch := 0\<rparr>
      else if type = 3 then d\<lparr>vcr_video_switch := 3\<rparr>
      else d)"

definition rgb_source :: "int \<Rightarrow> s_cxa2161r_data \<Rightarrow> s_cxa2161r_data" where
  "rgb_source type d =
     (if type = 0 then d\<lparr>tv_video_switch := 7\<rparr>
      else if type = 1 then d\<lparr>tv_video_switch := 0\<rparr>
      else if type = 2 then d\<lparr>tv_video_switch := 2\<rparr>
      else d)"

definition cvbs_source :: "int \<Rightarrow> s_cxa2161r_data \<Rightarrow> s_cxa2161r_data" where
  "cvbs_source type d =
     (if type = 0 then d\<lparr>tv_video_switch := 7\<rparr>
      else if type = 1 then d\<lparr>tv_video_switch := 0\<rparr>
      else if type = 2 then d\<lparr>tv_video_switch := 1\<rparr>
      else if type = 3 then d\<lparr>tv_video_switch := 2\<rparr>
      else d)"

definition cxa2161r_set_vsw :: "'w avs_kernel \<Rightarrow> nat option \<Rightarrow> int \<Rightarrow> int \<Rightarrow> (cxa2161r, 'w) avs_op" where
  "cxa2161r_set_vsw K client sw type s w =
     (if type < 0 \<or> type > 4 then avs_return (- AVS_EINVAL) s w
      else if sw = 0 then cxa2161r_set K client (cxa_with (vcr_source type) s) w
      else if sw = 1 then
        (if type < 0 \<or> type > 2 then avs_return (- AVS_EINVAL) s w
         else cxa2161r_set K client (cxa_with (rgb_source type) s) w)
      else if sw = 2 then cxa2161r_set K client (cxa_with (cvbs_source type) s) w
      else avs_return (- AVS_EINVAL) s w)"

text \<open>
  The source of the audio outputs. The statement between the two cases of the source, which would set
  the fast blanking, is never reached. To mute the television, output 1 or 2 with type 0, is to mute the
  input of the recorder.
\<close>

definition vcr_audio :: "int \<Rightarrow> s_cxa2161r_data \<Rightarrow> s_cxa2161r_data" where
  "vcr_audio type d =
     (let d = d\<lparr>vcr_input_mute := 0\<rparr> in
      if type = 0 then d\<lparr>vcr_input_mute := 1\<rparr>
      else if type = 1 then d\<lparr>vcr_audio_select := 0\<rparr>
      else if type = 2 \<or> type = 4 then d\<lparr>vcr_audio_select := 2\<rparr>
      else if type = 3 then d\<lparr>vcr_audio_select := 3\<rparr>
      else d)"

definition tv_audio :: "int \<Rightarrow> s_cxa2161r_data \<Rightarrow> s_cxa2161r_data" where
  "tv_audio type d =
     (if type = 0 then d\<lparr>vcr_input_mute := 1\<rparr>
      else if type = 1 then d\<lparr>tv_audio_select := 0\<rparr>
      else if type = 2 then d\<lparr>tv_audio_select := 1\<rparr>
      else if type = 4 then d\<lparr>tv_audio_select := 2\<rparr>
      else if type = 3 then d\<lparr>tv_audio_select := 3\<rparr>
      else d)"

definition cxa2161r_set_asw :: "'w avs_kernel \<Rightarrow> nat option \<Rightarrow> int \<Rightarrow> int \<Rightarrow> (cxa2161r, 'w) avs_op" where
  "cxa2161r_set_asw K client sw type s w =
     (if sw = 0 then cxa2161r_set K client (cxa_with (vcr_audio type) s) w
      else if sw = 1 \<or> sw = 2 then cxa2161r_set K client (cxa_with (tv_audio type) s) w
      else avs_return (- AVS_EINVAL) s w)"

definition cxa_level :: "2 word \<Rightarrow> s_cxa2161r_data \<Rightarrow> s_cxa2161r_data" where
  "cxa_level l d = d\<lparr>fnc_level := l, fnc_direction := 0, fnc_follow := 0\<rparr>"

definition cxa2161r_set_t_sb :: "'w avs_kernel \<Rightarrow> nat option \<Rightarrow> int \<Rightarrow> (cxa2161r, 'w) avs_op" where
  "cxa2161r_set_t_sb K client type s w =
     (if type < 0 \<or> type > 3 then avs_return (- AVS_EINVAL) s w
      else if type = 0 \<or> type = 2 then cxa2161r_set K client (cxa_with (cxa_level 0) s) w
      else if type = 1 then cxa2161r_set K client (cxa_with (cxa_level 1) s) w
      else cxa2161r_set K client (cxa_with (cxa_level 3) s) w)"

definition cxa2161r_set_wss :: "'w avs_kernel \<Rightarrow> nat option \<Rightarrow> int \<Rightarrow> (cxa2161r, 'w) avs_op" where
  "cxa2161r_set_wss K client vol s w =
     (if vol = SAA_WSS_43F then cxa2161r_set K client (cxa_with (cxa_level 3) s) w
      else if vol = SAA_WSS_169F then cxa2161r_set K client (cxa_with (cxa_level 1) s) w
      else if vol = SAA_WSS_OFF then cxa2161r_set K client (cxa_with (cxa_level 0) s) w
      else avs_return (- AVS_EINVAL) s w)"

definition cxa2161r_set_fblk :: "'w avs_kernel \<Rightarrow> nat option \<Rightarrow> int \<Rightarrow> (cxa2161r, 'w) avs_op" where
  "cxa2161r_set_fblk K client type s w =
     (if type < 0 \<or> type > 3 then avs_return (- AVS_EINVAL) s w
      else if type = 0 then cxa2161r_set K client (cxa_with (fast_blank_update (\<lambda>_. 0)) s) w
      else if type = 1 then cxa2161r_set K client (cxa_with (fast_blank_update (\<lambda>_. 3)) s) w
      else if type = 3 then cxa2161r_set K client (cxa_with (fast_blank_update (\<lambda>_. 2)) s) w
      else avs_return (- AVS_EINVAL) s w)"

definition cxa2161r_get_status :: "'w avs_kernel \<Rightarrow> nat option \<Rightarrow> 'w \<Rightarrow> int \<times> 'w" where
  "cxa2161r_get_status K client w =
     (let ((n, byte), w) = ak_i2c_recv K client w in (if 1 \<noteq> n then -1 else uint byte, w))"

definition cxa2161r_get_volume :: "cxa2161r \<Rightarrow> int" where
  "cxa2161r_get_volume s = (let c = uint (volume_control (cxa2161r_data s)) in if c \<noteq> 0 then c * 2 else c)"

definition cxa2161r_get_mute :: "cxa2161r \<Rightarrow> int" where
  "cxa2161r_get_mute s = (if audio_value s = 0xff then 0 else 1)"

definition cxa2161r_get_fblk :: "cxa2161r \<Rightarrow> int" where
  "cxa2161r_get_fblk s =
     (let c = fast_blank (cxa2161r_data s) in if c = 0 then 0 else if c = 3 then 1 else -1)"

definition cxa2161r_get_t_sb :: "cxa2161r \<Rightarrow> int" where
  "cxa2161r_get_t_sb s =
     (let l = fnc_level (cxa2161r_data s) in if l = 1 then 2 else if l = 3 then 3 else 1)"

definition cxa2161r_get_vsw :: "int \<Rightarrow> cxa2161r \<Rightarrow> int" where
  "cxa2161r_get_vsw sw s =
     (if sw = 0 then
        (let v = vcr_video_switch (cxa2161r_data s) in
         if v = 7 then 0 else if v = 0 then 2 else if v = 3 then 3 else if v = 5 then 4 else 1)
      else
        (let v = tv_video_switch (cxa2161r_data s) in
         if v = 7 then 0 else if v = 1 then 2 else if v = 3 then 3 else if v = 5 then 4 else 1))"

text \<open>Output 0 with the selection 1 falls through to the outputs 1 and 2.\<close>

definition cxa2161r_get_asw :: "int \<Rightarrow> cxa2161r \<Rightarrow> int" where
  "cxa2161r_get_asw sw s =
     (let d = cxa2161r_data s;
          tv = (if tv_audio_mute d = 1 \<or> tv_audio_mute2 d = 1 then 0
                else if tv_audio_select d = 0 then 1
                else if tv_audio_select d = 3 then 3
                else if tv_audio_select d = 2 then 4
                else 2) in
      if sw = 0 then
        (if vcr_input_mute d = 1 then 0
         else if vcr_audio_select d = 0 then 1
         else if vcr_audio_select d = 2 then 2
         else if vcr_audio_select d = 3 then 3
         else tv)
      else if sw = 1 \<or> sw = 2 then tv
      else - AVS_EINVAL)"

definition cxa2161r_set_encoder :: "int \<Rightarrow> (cxa2161r, 'w) avs_op" where
  "cxa2161r_set_encoder vol = avs_return 0"

definition cxa_mode :: "2 word \<Rightarrow> cxa2161r \<Rightarrow> cxa2161r" where
  "cxa_mode fb s =
     cxa_with (fast_blank_update (\<lambda>_. fb))
       (if tv_video_switch (cxa2161r_data s) = 6 then s\<lparr>cxa2161r_s_old_src := 0\<rparr>
        else cxa_with (tv_video_switch_update (\<lambda>_. 0)) s)"

definition cxa2161r_set_mode :: "'w avs_kernel \<Rightarrow> nat option \<Rightarrow> int \<Rightarrow> (cxa2161r, 'w) avs_op" where
  "cxa2161r_set_mode K client val s w =
     (if val = SAA_MODE_RGB then cxa2161r_set K client (cxa_mode 3 s) w
      else if val = SAA_MODE_FBAS then cxa2161r_set K client (cxa_mode 0 s) w
      else avs_return (- AVS_EINVAL) s w)"

definition cxa2161r_src_sel :: "'w avs_kernel \<Rightarrow> nat option \<Rightarrow> int \<Rightarrow> (cxa2161r, 'w) avs_op" where
  "cxa2161r_src_sel K client src s w =
     (if src = SAA_SRC_ENC then
        cxa2161r_set K client
          (cxa_with (\<lambda>d. d\<lparr>tv_video_switch := 0, tv_audio_select := 0, fnc_follow := 0, fnc_direction := 0\<rparr>) s) w
      else if src = SAA_SRC_SCART then
        cxa2161r_set K client
          (cxa_with (\<lambda>d. d\<lparr>tv_video_switch := 2, tv_audio_select := 1, fnc_follow := 1, fnc_direction := 0\<rparr>) s) w
      else avs_return (- AVS_EINVAL) s w)"

definition outputs_off :: "s_cxa2161r_data \<Rightarrow> s_cxa2161r_data" where
  "outputs_off d = d\<lparr>enable_vout1 := 0, enable_vout2 := 0, enable_vout3 := 0, enable_vout4 := 0, enable_vout6 := 0,
     vcr_mono_switch := 7\<rparr>"

definition cxa2161r_standby :: "'w avs_kernel \<Rightarrow> nat option \<Rightarrow> int \<Rightarrow> (cxa2161r, 'w) avs_op" where
  "cxa2161r_standby K client type s w =
     (if type < 0 \<or> type > 1 then avs_return (- AVS_EINVAL) s w
      else if type = 1 then
        (if cxa_stnby s = 0 then
           cxa2161r_set K client (cxa_with outputs_off (s\<lparr>tmpcxa2161r_data := cxa2161r_data s, cxa_stnby := 1\<rparr>)) w
         else avs_return (- AVS_EINVAL) s w)
      else
        (if cxa_stnby s = 1 then cxa2161r_set K client (s\<lparr>cxa2161r_data := tmpcxa2161r_data s, cxa_stnby := 0\<rparr>) w
         else avs_return (- AVS_EINVAL) s w))"

section \<open>Commands\<close>

definition cxa2161r_ops :: "'w avs_kernel \<Rightarrow> nat option \<Rightarrow> (cxa2161r, 'w) scart_ops" where
  "cxa2161r_ops K client =
     \<lparr>op_set_vsw = cxa2161r_set_vsw K client,
      op_set_asw = cxa2161r_set_asw K client,
      op_set_volume = cxa2161r_set_volume K client,
      op_set_mute = cxa2161r_set_mute K client 2,
      op_set_fblk = cxa2161r_set_fblk K client,
      op_set_t_sb = cxa2161r_set_t_sb K client,
      op_standby = cxa2161r_standby K client,
      op_get_vsw = (\<lambda>sw s. Some (cxa2161r_get_vsw sw s)),
      op_get_asw = (\<lambda>sw s. Some (cxa2161r_get_asw sw s)),
      op_get_volume = (\<lambda>s. Some (cxa2161r_get_volume s)),
      op_get_mute = (\<lambda>s. Some (cxa2161r_get_mute s)),
      op_get_fblk = (\<lambda>s. Some (cxa2161r_get_fblk s)),
      op_get_t_sb = (\<lambda>s. Some (cxa2161r_get_t_sb s)),
      op_get_status = cxa2161r_get_status K client,
      op_set_mode = cxa2161r_set_mode K client,
      op_set_encoder = cxa2161r_set_encoder,
      op_set_wss = cxa2161r_set_wss K client,
      op_src_sel = cxa2161r_src_sel K client,
      op_pin8 = [0, 1, 3],
      op_pin8_reverse = [0, 0, 1, 3]\<rparr>"

definition cxa2161r_command :: "'w avs_kernel \<Rightarrow> nat option \<Rightarrow> u32 \<Rightarrow> u32 \<Rightarrow> (cxa2161r, 'w) avs_op" where
  "cxa2161r_command K client = scart_command K (cxa2161r_ops K client)"

definition cxa2161r_command_kernel :: "'w avs_kernel \<Rightarrow> nat option \<Rightarrow> u32 \<Rightarrow> u32 \<Rightarrow> (cxa2161r, 'w) avs_op" where
  "cxa2161r_command_kernel K client = scart_command_kernel K False (cxa2161r_ops K client)"

definition cxa2161r_zero :: s_cxa2161r_data where
  "cxa2161r_zero =
     \<lparr>tv_audio_mute = 0, volume_control = 0, rin1_lin1_gain = 0, phono_bypass = 0, tv_audio_select = 0, tv_mono_switch = 0,
      tv_vol_bypass = 0, mono_switch = 0, overlay_enable = 0, vcr_audio_select = 0, vcr_mono_switch = 0, output_limit = 0,
      tv_audio_mute2 = 0, fast_blank = 0, fnc_direction = 0, fnc_follow = 0, fnc_level = 0, logic_level = 0,
      tv_input_mute = 0, tv_video_switch = 0, rgb_gain = 0, vcr_video_switch = 0, mixer_control = 0, vin3_clamp = 0,
      vin7_clamp = 0, vin5_clamp = 0, sync_sel = 0, vcr_input_mute = 0, enable_vout1 = 0, enable_vout2 = 0,
      enable_vout3 = 0, enable_vout4 = 0, enable_vout5 = 0, enable_vout6 = 0, vout5_0v = 0, zcd = 0,
      fnc_vcr = 0, sync_detect = 0, not_used1 = 0, pod = 0, zcd_status = 0, not_used2 = 0,
      not_used3 = 0\<rparr>"

definition cxa2161r_init :: "'w avs_kernel \<Rightarrow> nat option \<Rightarrow> (cxa2161r, 'w) avs_op" where
  "cxa2161r_init K client s w =
     cxa2161r_set K client
       (s\<lparr>cxa2161r_data := cxa2161r_zero
            \<lparr>tv_audio_mute := 0, volume_control := 3, rin1_lin1_gain := 0, phono_bypass := 0, tv_audio_select := 0,
             tv_mono_switch := 0, tv_vol_bypass := 0, overlay_enable := 0, vcr_audio_select := 0, vcr_mono_switch := 0,
             output_limit := 1, tv_audio_mute2 := 0, fast_blank := 0, fnc_direction := 0, fnc_follow := 0,
             fnc_level := 1, logic_level := 1, tv_input_mute := 1, tv_video_switch := 0, rgb_gain := 0,
             vcr_video_switch := 0, mixer_control := 3, vin3_clamp := 0, vin7_clamp := 1, sync_sel := 0,
             vcr_input_mute := 1, enable_vout1 := 1, enable_vout2 := 1, enable_vout3 := 1, enable_vout4 := 1,
             enable_vout6 := 1, vout5_0v := 1, zcd := 1\<rparr>\<rparr>) w"

primrec cxa2161r_call :: "'w avs_kernel \<Rightarrow> nat option \<Rightarrow> avs_call \<Rightarrow> (cxa2161r, 'w) avs_op" where
  "cxa2161r_call K client (User cmd arg) = cxa2161r_command K client cmd arg"
| "cxa2161r_call K client (Kernel cmd arg) = cxa2161r_command_kernel K client cmd arg"

section \<open>What the commands keep\<close>

lemmas cxa2161r_op_defs = cxa2161r_ops_def cxa2161r_set_vsw_def [abs_def] cxa2161r_set_asw_def [abs_def]
  cxa2161r_set_volume_def [abs_def] cxa2161r_set_mute_def [abs_def] cxa2161r_set_fblk_def [abs_def]
  cxa2161r_set_t_sb_def [abs_def] cxa2161r_set_mode_def [abs_def] cxa2161r_set_encoder_def [abs_def]
  cxa2161r_set_wss_def [abs_def] cxa2161r_src_sel_def [abs_def]

lemma cxa2161r_set_defined: "\<exists>r w'. cxa2161r_set K client s w = Some (r, s, w')"
  by (auto simp: cxa2161r_set_def avs_return_def split: prod.splits)

lemma cxa2161r_set_total [simp]: "cxa2161r_set K client s w = None \<longleftrightarrow> False"
  using cxa2161r_set_defined [of K client s w] by auto

lemma cxa2161r_set_same: "cxa2161r_set K client s w = Some (r, s', w') \<Longrightarrow> s' = s"
  using cxa2161r_set_defined [of K client s w] by auto

lemma cxa2161r_set_shadows: "cxa2161r_set K client s w = Some (r, s', w') \<Longrightarrow> shadows K chip cxa2161r_message s' w'"
  by (auto simp: shadows_def cxa2161r_set_def avs_return_def split: prod.splits if_splits intro: send_in_step)

lemma keeps_cxa_shadow: "keeps (shadows K chip cxa2161r_message) (\<lambda>s w. cxa2161r_set K client (f s) w)"
  by (rule keepsI) (rule cxa2161r_set_shadows)

lemma keeps_cxa_variables:
  "(\<And>s. P s \<Longrightarrow> P (f s)) \<Longrightarrow> keeps (\<lambda>s w. P s) (\<lambda>s w. cxa2161r_set K client (f s) w)"
  by (rule keepsI) (metis cxa2161r_set_same)

lemma cxa2161r_get_status_shadows:
  "shadows K chip message s w \<Longrightarrow> shadows K chip message s (snd (cxa2161r_get_status K client w))"
  by (simp add: cxa2161r_get_status_def case_prod_unfold Let_def shadows_recv)

interpretation cxa2161r_shadow: scart_chip K "shadows K chip cxa2161r_message" "cxa2161r_ops K client"
  for K :: "'w avs_kernel" and chip client
  by unfold_locales
    (auto simp: cxa2161r_op_defs cxa2161r_standby_def [abs_def] Let_def
      intro!: keeps_intros keeps_cxa_shadow cxa2161r_get_status_shadows)

lemma cxa_mode_keeps [simp]: "audio_value (cxa_mode fb s) = audio_value s"
  "cxa_stnby (cxa_mode fb s) = cxa_stnby s" "tmpcxa2161r_data (cxa_mode fb s) = tmpcxa2161r_data s"
  by (simp_all add: cxa_mode_def cxa_with_def)

interpretation cxa2161r_value: scart_chip K "\<lambda>s w. audio_value s = v" "cxa2161r_ops K client"
  for K :: "'w avs_kernel" and v client
  by unfold_locales
    (auto simp: cxa2161r_op_defs cxa2161r_standby_def [abs_def] Let_def cxa_with_def
      intro!: keeps_intros keeps_cxa_variables)

interpretation cxa2161r_calls: avs_calls "cxa2161r_call K client"
    "\<lambda>s w. shadows K chip cxa2161r_message s w \<and> audio_value s = v"
  for K :: "'w avs_kernel" and chip v client
proof
  show "keeps (\<lambda>s w. shadows K chip cxa2161r_message s w \<and> audio_value s = v) (cxa2161r_call K client c)" for c
    by (cases c) (simp_all add: cxa2161r_command_def cxa2161r_command_kernel_def keeps_conj
        cxa2161r_shadow.command_keeps cxa2161r_shadow.command_kernel_keeps
        cxa2161r_value.command_keeps cxa2161r_value.command_kernel_keeps)
qed

text \<open>
  The CXA2161R: from the static state on, after the initialisation and any sequence of calls, the chip
  has received the bytes of the driver's variables (unless the last transfer failed), and the driver reports that the sound is muted
  whatever it has been told: it compares a variable that nothing ever sets.
\<close>

theorem cxa2161r_mute_not_reported:
  assumes "avs_bus K chip" "audio_value s = 0" "cxa2161r_init K client s w = Some (r, s0, w0)"
    "avs_run (cxa2161r_call K client) cs s0 w0 = Some (s', w')"
  shows "in_step K chip (cxa2161r_message s') w' \<and> cxa2161r_get_mute s' = 1"
proof -
  have "shadows K chip cxa2161r_message s0 w0 \<and> audio_value s0 = 0"
    using assms(2, 3) cxa2161r_set_shadows unfolding cxa2161r_init_def by (auto dest: cxa2161r_set_same)
  then show ?thesis
    using cxa2161r_calls.run_keeps [OF _ assms(4), of chip 0] assms(1)
    by (simp add: shadows_def cxa2161r_get_mute_def)
qed

definition cxa2161r_start :: cxa2161r where
  "cxa2161r_start = \<lparr>cxa2161r_data = cxa2161r_zero, tmpcxa2161r_data = cxa2161r_zero, cxa2161r_s_old_src = 0,
     audio_value = 0, cxa_stnby = 0\<rparr>"

theorem cxa2161r_mute_not_reported_witness:
  "\<exists>r s0 w0 s' w'. cxa2161r_init bench None cxa2161r_start [] = Some (r, s0, w0) \<and>
     avs_run (cxa2161r_call bench None) [User AVSIOSMUTE 0, Kernel AVSIOSVOL 20] s0 w0 = Some (s', w') \<and>
     w' = cxa2161r_message s' \<and> cxa2161r_get_mute s' = 1"
proof -
  have "do { (r, s0, w0) \<leftarrow> cxa2161r_init bench None cxa2161r_start [];
      avs_run (cxa2161r_call bench None) [User AVSIOSMUTE 0, Kernel AVSIOSVOL 20] s0 w0 } \<noteq> None"
    by code_simp
  then obtain r s0 w0 s' w' where run: "cxa2161r_init bench None cxa2161r_start [] = Some (r, s0, w0)"
      "avs_run (cxa2161r_call bench None) [User AVSIOSMUTE 0, Kernel AVSIOSVOL 20] s0 w0 = Some (s', w')"
    by (auto simp: bind_eq_Some_conv)
  have "audio_value cxa2161r_start = 0" by (simp add: cxa2161r_start_def)
  then show ?thesis using cxa2161r_mute_not_reported [OF bench_bus _ run] run by auto
qed

section \<open>What is read back\<close>

lemma cxa2161r_set_result: "f = cxa2161r_set K client (cxa_with g s) w \<Longrightarrow> P (cxa_with g s) \<Longrightarrow> \<exists>r s' w'. f = Some (r, s', w') \<and> P s'"
  using cxa2161r_set_defined [of K client "cxa_with g s" w] by blast

text \<open>
  Set and get of the sources: the video source of the recorder is read back as it was set; on the
  television's outputs the source ''recorder'' (2 for RGB, 3 for CVBS) is read back as 1, ''decoder''.
  Muting the sound of the television mutes the recorder instead: its own source is read back unchanged.
\<close>

theorem cxa2161r_readback:
  assumes "sw \<in> {0, 1, 2}" "0 \<le> type" "type \<le> (if sw = 1 then 2 else 3)"
  shows "(\<exists>r s' w'. cxa2161r_set_vsw K client sw type s w = Some (r, s', w') \<and>
      cxa2161r_get_vsw sw s' = (if sw = 1 \<and> type = 2 \<or> sw = 2 \<and> type = 3 then 1 else type)) \<and>
    (\<exists>r s' w'. cxa2161r_set_asw K client sw 0 s w = Some (r, s', w') \<and>
      (cxa2161r_get_asw 0 s' = 0 \<and> (sw \<noteq> 0 \<longrightarrow> cxa2161r_get_asw sw s' = cxa2161r_get_asw sw s)))"
proof
  have type: "type = 0 \<or> type = 1 \<or> type = 2 \<or> type = 3" using assms(2, 3) by (auto split: if_splits)
  show "\<exists>r s' w'. cxa2161r_set_vsw K client sw type s w = Some (r, s', w') \<and>
      cxa2161r_get_vsw sw s' = (if sw = 1 \<and> type = 2 \<or> sw = 2 \<and> type = 3 then 1 else type)"
  proof (rule cxa2161r_set_result)
    let ?g = "if sw = 0 then vcr_source type else if sw = 1 then rgb_source type else cvbs_source type"
    show "cxa2161r_set_vsw K client sw type s w = cxa2161r_set K client (cxa_with ?g s) w"
      using assms by (auto simp: cxa2161r_set_vsw_def)
    show "cxa2161r_get_vsw sw (cxa_with ?g s) = (if sw = 1 \<and> type = 2 \<or> sw = 2 \<and> type = 3 then 1 else type)"
      using assms type
      by (auto simp: cxa2161r_get_vsw_def cxa_with_def vcr_source_def rgb_source_def cvbs_source_def)
  qed
  show "\<exists>r s' w'. cxa2161r_set_asw K client sw 0 s w = Some (r, s', w') \<and>
      (cxa2161r_get_asw 0 s' = 0 \<and> (sw \<noteq> 0 \<longrightarrow> cxa2161r_get_asw sw s' = cxa2161r_get_asw sw s))"
  proof (rule cxa2161r_set_result)
    let ?g = "if sw = 0 then vcr_audio 0 else tv_audio 0"
    show "cxa2161r_set_asw K client sw 0 s w = cxa2161r_set K client (cxa_with ?g s) w"
      using assms by (auto simp: cxa2161r_set_asw_def)
    show "cxa2161r_get_asw 0 (cxa_with ?g s) = 0 \<and>
        (sw \<noteq> 0 \<longrightarrow> cxa2161r_get_asw sw (cxa_with ?g s) = cxa2161r_get_asw sw s)"
      using assms by (auto simp: cxa2161r_get_asw_def cxa_with_def vcr_audio_def tv_audio_def Let_def)
  qed
qed

theorem cxa2161r_readback_witness:
  "\<exists>r s' w'. cxa2161r_set_vsw bench None 2 3 cxa2161r_start [] = Some (r, s', w') \<and> cxa2161r_get_vsw 2 s' = 1"
  using cxa2161r_readback [of 2 3 bench None cxa2161r_start "[]"] by simp

text \<open>
  Pin 8 set and read back through the two tables of the commands: the values 0 and 1 come
  back, the value 2 (4:3) comes back as 3; every other value is a read outside the table.
\<close>

theorem cxa2161r_pin8_readback:
  "do { (r, s', w') \<leftarrow> scart_set (cxa2161r_ops K client) AVSIOSSCARTPIN8 v s w;
        (x, w'') \<leftarrow> scart_get (cxa2161r_ops K client) AVSIOGSCARTPIN8 s' w';
        Some x } =
   (if v \<in> {0, 1, 2} then Some (Some (if v = 2 then 3 else v)) else None)"
proof -
  consider "v = 0" | "v = 1" | "v = 2" | "v < 0 \<or> 3 \<le> v" by linarith
  then show ?thesis
  proof cases
    case 4
    then show ?thesis by (auto simp: scart_set_def cxa2161r_ops_def table_at_def arr_get_def)
  qed (use cxa2161r_set_defined in
      \<open>force simp: scart_set_def scart_get_def cxa2161r_ops_def table_at_def arr_get_def cxa2161r_set_t_sb_def
        cxa2161r_get_t_sb_def cxa_with_def cxa_level_def bind_eq_Some_conv\<close>)+
qed

section \<open>Standby\<close>

definition cxa_dormant :: "cxa2161r \<Rightarrow> bool" where
  "cxa_dormant s \<longleftrightarrow> cxa_stnby s = 1 \<and>
     (let d = cxa2161r_data s in enable_vout1 d = 0 \<and> enable_vout2 d = 0 \<and> enable_vout3 d = 0 \<and> enable_vout4 d = 0 \<and>
        enable_vout6 d = 0 \<and> vcr_mono_switch d = 7)"

lemmas cxa_source_defs = vcr_source_def rgb_source_def cvbs_source_def vcr_audio_def tv_audio_def cxa_level_def
  cxa_mode_def cxa_with_def

lemma cxa2161r_sleeping:
  "scart_chip K (\<lambda>s w. cxa_dormant s \<and> tmpcxa2161r_data s = B) (no_standby (cxa2161r_ops K client))"
  by unfold_locales
    (auto simp: cxa2161r_op_defs Let_def cxa_dormant_def cxa_source_defs intro!: keeps_intros keeps_cxa_variables)

interpretation cxa2161r_stby: standby_chip "cxa2161r_call K client" "cxa2161r_standby K client" cxa2161r_data
    "\<lambda>s. cxa_stnby s = 0" cxa_dormant tmpcxa2161r_data
  for K :: "'w avs_kernel" and client
proof
  show "cxa_dormant s' \<and> tmpcxa2161r_data s' = cxa2161r_data s"
    if "cxa_stnby s = 0" "cxa2161r_standby K client 1 s w = Some (r, s', w')" for s w r s' w'
    using that by (auto simp: cxa2161r_standby_def cxa_dormant_def cxa_with_def outputs_off_def Let_def dest!: cxa2161r_set_same)
  show "keeps (\<lambda>s w. cxa_dormant s \<and> tmpcxa2161r_data s = b) (cxa2161r_call K client c)" if "quiet c" for c b
  proof (cases c)
    case (User cmd arg)
    then show ?thesis using that scart_chip.command_keeps [OF cxa2161r_sleeping [of K b client], of cmd arg]
      by (simp add: cxa2161r_command_def scart_command_no_standby)
  next
    case (Kernel cmd arg)
    then show ?thesis
      using that scart_chip.command_kernel_keeps [OF cxa2161r_sleeping [of K b client], of False cmd arg]
      by (simp add: cxa2161r_command_kernel_def scart_command_no_standby)
  qed
  show "\<exists>r s' w'. cxa2161r_standby K client 0 s w = Some (r, s', w') \<and> cxa_stnby s' = 0 \<and>
      cxa2161r_data s' = tmpcxa2161r_data s" if "cxa_dormant s" for s w
    using that cxa2161r_set_defined [of K client "s\<lparr>cxa2161r_data := tmpcxa2161r_data s, cxa_stnby := 0\<rparr>" w]
    by (auto simp: cxa2161r_standby_def cxa_dormant_def)
qed

lemma cxa2161r_standby_restores:
  assumes "cxa_stnby s = 0" "cxa2161r_standby K client 1 s w = Some (r1, s1, w1)"
    "\<forall>c \<in> set cs. quiet c" "avs_run (cxa2161r_call K client) cs s1 w1 = Some (s2, w2)"
  shows "cxa_dormant s2 \<and>
    (\<exists>r s' w'. cxa2161r_standby K client 0 s2 w2 = Some (r, s', w') \<and> cxa2161r_data s' = cxa2161r_data s)"
  using cxa2161r_stby.wake_restores [OF assms] by blast

section \<open>Memory safety\<close>

interpretation cxa2161r_safe: scart_safe "cxa2161r_ops K client" "\<lambda>s. True"
  for K :: "'w avs_kernel" and client
  by unfold_locales
    (auto simp: cxa2161r_op_defs cxa2161r_standby_def Let_def avs_return_def cxa2161r_get_t_sb_def simp del: not_None_eq)

lemma cxa2161r_command_kernel_None_iff:
  "cxa2161r_command_kernel K client cmd v s w = None \<longleftrightarrow> cmd = AVSIOSSCARTPIN8 \<and> (sint v < 0 \<or> 3 \<le> sint v)"
  using cxa2161r_safe.command_kernel_None_iff [where K = K and client = client and stores = False]
  by (simp add: cxa2161r_command_kernel_def) (simp add: cxa2161r_ops_def)

end
