(* ===== verification/Avs_Pio.thy ===== *)
theory Avs_Pio
  imports Avs_Command
begin
unbundle bit_operations_syntax

text \<open>
  The drivers without a chip on the I2C bus: \<^verbatim>\<open>avs_pio.c\<close> (three or four pins), \<^verbatim>\<open>vip1_avs.c\<close> (six pins),
  \<^verbatim>\<open>vip2_avs.c\<close> (eight outputs of a 74HC595 shift register behind three pins), \<^verbatim>\<open>fake_avs.c\<close> (two pins) and
  \<^verbatim>\<open>avs_none.c\<close> (nothing). The first four have the same three variables for the volume, the mute state and
  the standby state, and the small set of commands. The direction of a requested pin is left out.
\<close>

section \<open>What the four drivers share\<close>

record pio_vars =
  t_mute :: u8
  t_vol :: u8
  ft_stnby :: u8

definition pio_set_volume :: "int \<Rightarrow> ('a pio_vars_scheme, 'w) avs_op" where
  "pio_set_volume vol s w =
     (if vol > 63 \<or> vol < 0 then avs_return (- AVS_EINVAL) s w
      else avs_return 0 (s\<lparr>t_vol := word_of_int ((63 - vol) div 2)\<rparr>) w)"

definition pio_get_volume :: "'a pio_vars_scheme \<Rightarrow> int" where
  "pio_get_volume s = uint (t_vol s)"

definition pio_get_mute :: "'a pio_vars_scheme \<Rightarrow> int" where
  "pio_get_mute s = uint (t_mute s)"

definition pio_set_encoder :: "int \<Rightarrow> ('a pio_vars_scheme, 'w) avs_op" where
  "pio_set_encoder val = avs_return 0"

text \<open>
  The standby functions differ in the pins they set: \<open>set_pins\<close> gets the new state. Setting a pin
  through a null pointer is undefined.
\<close>

definition pio_standby :: "(bool \<Rightarrow> 'a pio_vars_scheme \<Rightarrow> 'w \<Rightarrow> ('a pio_vars_scheme \<times> 'w) option) \<Rightarrow> int \<Rightarrow> ('a pio_vars_scheme, 'w) avs_op" where
  "pio_standby set_pins type s w =
     (if type < 0 \<or> type > 1 then avs_return (- AVS_EINVAL) s w
      else if type = 1 then
        (if ft_stnby s = 0 then do {
           (s, w) \<leftarrow> set_pins True s w;
           avs_return 0 (s\<lparr>ft_stnby := 1\<rparr>) w
         }
         else avs_return (- AVS_EINVAL) s w)
      else
        (if ft_stnby s = 1 then do {
           (s, w) \<leftarrow> set_pins False s w;
           avs_return 0 (s\<lparr>ft_stnby := 0\<rparr>) w
         }
         else avs_return (- AVS_EINVAL) s w))"

definition pin_op :: "'w option \<Rightarrow> 's \<Rightarrow> (int \<times> 's \<times> 'w) option" where
  "pin_op ow s = do { w \<leftarrow> ow; avs_return 0 s w }"

definition free_pin :: "'w avs_kernel \<Rightarrow> nat option \<Rightarrow> 'w \<Rightarrow> 'w" where
  "free_pin K p w = (case p of None \<Rightarrow> w | Some n \<Rightarrow> ak_free_pin K n w)"

section \<open>The PIO driver\<close>

record avs_pio = pio_vars +
  avs_mode :: "nat option"
  avs_format :: "nat option"
  avs_standby :: "nat option"
  avs_mute :: "nat option"

abbreviation hs_board :: "avs_board \<Rightarrow> bool" where
  "hs_board b \<equiv> b \<in> {HS7420, HS7429, HS7810A, HS7819}"

abbreviation spark_board :: "avs_board \<Rightarrow> bool" where
  "spark_board b \<equiv> b \<in> {SPARK, SPARK7162}"

definition avs_pio_src_sel :: "int \<Rightarrow> (avs_pio, 'w) avs_op" where
  "avs_pio_src_sel src = avs_return 0"

definition avs_pio_standby_pins ::
  "avs_board \<Rightarrow> 'w avs_kernel \<Rightarrow> bool \<Rightarrow> avs_pio \<Rightarrow> 'w \<Rightarrow> (avs_pio \<times> 'w) option" where
  "avs_pio_standby_pins b K on s w =
     (if hs_board b then do {
        w \<leftarrow> stpio_set_pin K (avs_format s) 0 w;
        w \<leftarrow> stpio_set_pin K (avs_standby s) (of_bool on) w;
        w \<leftarrow> stpio_set_pin K (avs_mode s) 0 w;
        Some (s, w)
      }
      else do {
        w \<leftarrow> stpio_set_pin K (avs_standby s) (of_bool (ft_stnby s = 0)) w;
        Some (s, w)
      })"

definition avs_pio_standby :: "avs_board \<Rightarrow> 'w avs_kernel \<Rightarrow> int \<Rightarrow> (avs_pio, 'w) avs_op" where
  "avs_pio_standby b K = pio_standby (avs_pio_standby_pins b K)"

definition avs_pio_set_mute :: "avs_board \<Rightarrow> 'w avs_kernel \<Rightarrow> int \<Rightarrow> (avs_pio, 'w) avs_op" where
  "avs_pio_set_mute b K type s w =
     (if type < 0 \<or> type > 1 then avs_return (- AVS_EINVAL) s w
      else
        let s = s\<lparr>t_mute := (if b = SPARK7162 then of_bool (type \<noteq> AVS_MUTE) else of_bool (type = AVS_MUTE))\<rparr> in
        if spark_board b then pin_op (stpio_set_pin K (avs_mute s) (uint (t_mute s)) w) s
        else avs_return 0 s w)"

definition avs_pio_set_mode :: "'w avs_kernel \<Rightarrow> int \<Rightarrow> (avs_pio, 'w) avs_op" where
  "avs_pio_set_mode K val s w =
     (if val = SAA_MODE_RGB then pin_op (stpio_set_pin K (avs_mode s) 1 w) s
      else if val = SAA_MODE_FBAS then pin_op (stpio_set_pin K (avs_mode s) 0 w) s
      else avs_return 0 s w)"

definition avs_pio_set_wss :: "avs_board \<Rightarrow> 'w avs_kernel \<Rightarrow> int \<Rightarrow> (avs_pio, 'w) avs_op" where
  "avs_pio_set_wss b K val s w =
     (if val = SAA_WSS_43F then do {
        w \<leftarrow> (if hs_board b then stpio_set_pin K (avs_standby s) 0 w else Some w);
        pin_op (stpio_set_pin K (avs_format s) 0 w) s
      }
      else if val = SAA_WSS_169F then do {
        w \<leftarrow> (if hs_board b then stpio_set_pin K (avs_standby s) 0 w else Some w);
        pin_op (stpio_set_pin K (avs_format s) 1 w) s
      }
      else if val = SAA_WSS_OFF then
        (if hs_board b then pin_op (stpio_set_pin K (avs_format s) 1 w) s else avs_return 0 s w)
      else avs_return (- AVS_EINVAL) s w)"

definition avs_pio_ops :: "avs_board \<Rightarrow> 'w avs_kernel \<Rightarrow> (avs_pio, 'w) basic_ops" where
  "avs_pio_ops b K =
     \<lparr>bop_set_volume = pio_set_volume, bop_set_mute = avs_pio_set_mute b K, bop_standby = avs_pio_standby b K,
      bop_get_volume = pio_get_volume, bop_get_mute = pio_get_mute,
      bop_set_mode = avs_pio_set_mode K, bop_set_encoder = pio_set_encoder, bop_set_wss = avs_pio_set_wss b K,
      bop_src_sel = avs_pio_src_sel\<rparr>"

definition avs_pio_command :: "avs_board \<Rightarrow> 'w avs_kernel \<Rightarrow> u32 \<Rightarrow> u32 \<Rightarrow> (avs_pio, 'w) avs_op" where
  "avs_pio_command b K = basic_command K (avs_pio_ops b K)"

definition avs_pio_command_kernel :: "avs_board \<Rightarrow> 'w avs_kernel \<Rightarrow> u32 \<Rightarrow> u32 \<Rightarrow> (avs_pio, 'w) avs_op" where
  "avs_pio_command_kernel b K = basic_command_kernel K False (avs_pio_ops b K)"

text \<open>The pins of a board in the order of the requests: mode, format, standby and mute.\<close>

definition avs_pio_request :: "avs_board \<Rightarrow> 'w avs_kernel \<Rightarrow> avs_pio \<Rightarrow> 'w \<Rightarrow> avs_pio \<times> 'w" where
  "avs_pio_request b K s w =
     (if b = SPARK7162 then
        let (m, w) = ak_request_pin K 11 5 ''avs_mode'' w;
            (f, w) = ak_request_pin K 11 4 ''avs_format'' w;
            (y, w) = ak_request_pin K 11 3 ''avs_standby'' w;
            (u, w) = ak_request_pin K 11 2 ''avs_mute'' w in
        (s\<lparr>avs_mode := m, avs_format := f, avs_standby := y, avs_mute := u\<rparr>, w)
      else if b = SPARK then
        let (m, w) = ak_request_pin K 6 0 ''avs_mode'' w;
            (f, w) = ak_request_pin K 6 2 ''avs_format'' w;
            (y, w) = ak_request_pin K 6 1 ''avs_standby'' w;
            (u, w) = ak_request_pin K 2 4 ''avs_mute'' w in
        (s\<lparr>avs_mode := m, avs_format := f, avs_standby := y, avs_mute := u\<rparr>, w)
      else
        let (f, w) = ak_request_pin K 6 5 ''avs0'' w;
            (y, w) = ak_request_pin K 6 6 ''avs1'' w;
            (m, w) = ak_request_pin K 6 4 ''avs2'' w in
        (s\<lparr>avs_mode := m, avs_format := f, avs_standby := y, avs_mute := None\<rparr>, w))"

definition avs_pio_init :: "avs_board \<Rightarrow> 'w avs_kernel \<Rightarrow> (avs_pio, 'w) avs_op" where
  "avs_pio_init b K s w =
     (if \<not> (spark_board b \<or> hs_board b) then avs_return 0 s w
      else
        let (s, w) = avs_pio_request b K s w in
        if avs_mode s = None \<or> avs_format s = None \<or> avs_standby s = None then
          avs_return (-1) s (free_pin K (avs_standby s) (free_pin K (avs_format s) (free_pin K (avs_mode s) w)))
        else if spark_board b \<and> avs_mute s = None then avs_return (-1) s w
        else avs_return 0 s w)"

definition avs_pio_exit :: "'w avs_kernel \<Rightarrow> (avs_pio, 'w) avs_op" where
  "avs_pio_exit K s w =
     avs_return 0 s (free_pin K (avs_mute s) (free_pin K (avs_standby s) (free_pin K (avs_format s)
       (free_pin K (avs_mode s) w))))"

primrec avs_pio_call :: "avs_board \<Rightarrow> 'w avs_kernel \<Rightarrow> avs_call \<Rightarrow> (avs_pio, 'w) avs_op" where
  "avs_pio_call b K (User cmd arg) = avs_pio_command b K cmd arg"
| "avs_pio_call b K (Kernel cmd arg) = avs_pio_command_kernel b K cmd arg"

section \<open>The VIP1 driver\<close>

record vip1_avs = pio_vars +
  scart_tv_sat :: "nat option"
  scart_vcr_det :: "nat option"
  scart_cvbs_rgb :: "nat option"
  scart_169_43 :: "nat option"
  scart_mute :: "nat option"
  scart_standby :: "nat option"

definition vip1_avs_src_sel :: "'w avs_kernel \<Rightarrow> int \<Rightarrow> (vip1_avs, 'w) avs_op" where
  "vip1_avs_src_sel K src s w =
     (if src = SAA_SRC_ENC then pin_op (stpio_set_pin K (scart_tv_sat s) 1 w) s
      else if src = SAA_SRC_SCART then pin_op (stpio_set_pin K (scart_tv_sat s) 0 w) s
      else avs_return 0 s w)"

definition vip1_avs_standby :: "'w avs_kernel \<Rightarrow> int \<Rightarrow> (vip1_avs, 'w) avs_op" where
  "vip1_avs_standby K = pio_standby (\<lambda>on s w. do {
     w \<leftarrow> stpio_set_pin K (scart_standby s) (of_bool (ft_stnby s = 0)) w;
     Some (s, w)
   })"

definition vip1_avs_set_mute :: "'w avs_kernel \<Rightarrow> int \<Rightarrow> (vip1_avs, 'w) avs_op" where
  "vip1_avs_set_mute K type s w =
     (if type < 0 \<or> type > 1 then avs_return (- AVS_EINVAL) s w
      else
        let s = s\<lparr>t_mute := of_bool (type = AVS_MUTE)\<rparr> in
        pin_op (stpio_set_pin K (scart_mute s) (uint (t_mute s)) w) s)"

definition vip1_avs_set_mode :: "'w avs_kernel \<Rightarrow> int \<Rightarrow> (vip1_avs, 'w) avs_op" where
  "vip1_avs_set_mode K vol s w =
     (if vol = SAA_MODE_RGB then pin_op (stpio_set_pin K (scart_cvbs_rgb s) 1 w) s
      else if vol = SAA_MODE_FBAS then pin_op (stpio_set_pin K (scart_cvbs_rgb s) 0 w) s
      else avs_return 0 s w)"

definition vip1_avs_set_wss :: "'w avs_kernel \<Rightarrow> int \<Rightarrow> (vip1_avs, 'w) avs_op" where
  "vip1_avs_set_wss K val s w =
     (if val = SAA_WSS_43F then pin_op (stpio_set_pin K (scart_169_43 s) 0 w) s
      else if val = SAA_WSS_169F then pin_op (stpio_set_pin K (scart_169_43 s) 1 w) s
      else if val = SAA_WSS_OFF then pin_op (stpio_set_pin K (scart_169_43 s) 1 w) s
      else avs_return (- AVS_EINVAL) s w)"

definition vip1_avs_ops :: "'w avs_kernel \<Rightarrow> (vip1_avs, 'w) basic_ops" where
  "vip1_avs_ops K =
     \<lparr>bop_set_volume = pio_set_volume, bop_set_mute = vip1_avs_set_mute K, bop_standby = vip1_avs_standby K,
      bop_get_volume = pio_get_volume, bop_get_mute = pio_get_mute,
      bop_set_mode = vip1_avs_set_mode K, bop_set_encoder = pio_set_encoder, bop_set_wss = vip1_avs_set_wss K,
      bop_src_sel = vip1_avs_src_sel K\<rparr>"

definition vip1_avs_command :: "'w avs_kernel \<Rightarrow> u32 \<Rightarrow> u32 \<Rightarrow> (vip1_avs, 'w) avs_op" where
  "vip1_avs_command K = basic_command K (vip1_avs_ops K)"

definition vip1_avs_command_kernel :: "'w avs_kernel \<Rightarrow> u32 \<Rightarrow> u32 \<Rightarrow> (vip1_avs, 'w) avs_op" where
  "vip1_avs_command_kernel K = basic_command_kernel K False (vip1_avs_ops K)"

definition vip1_avs_init :: "'w avs_kernel \<Rightarrow> (vip1_avs, 'w) avs_op" where
  "vip1_avs_init K s w =
     (let (p1, w) = ak_request_pin K 5 3 ''scart_tv_sat'' w;
          (p2, w) = ak_request_pin K 5 6 ''scart_vcr_det'' w;
          (p3, w) = ak_request_pin K 5 2 ''scart_cvbs_rgb'' w;
          (p4, w) = ak_request_pin K 2 6 ''scart_169_43'' w;
          (p5, w) = ak_request_pin K 2 2 ''scart_mute'' w;
          (p6, w) = ak_request_pin K 2 7 ''scart_standby'' w;
          s = s\<lparr>scart_tv_sat := p1, scart_vcr_det := p2, scart_cvbs_rgb := p3, scart_169_43 := p4,
                scart_mute := p5, scart_standby := p6\<rparr> in
      if None \<in> {p1, p2, p3, p4, p5, p6} then
        avs_return (-1) s (fold (free_pin K) [p1, p2, p3, p4, p5, p6] w)
      else pin_op (stpio_set_pin K p1 1 w) s)"

primrec vip1_avs_call :: "'w avs_kernel \<Rightarrow> avs_call \<Rightarrow> (vip1_avs, 'w) avs_op" where
  "vip1_avs_call K (User cmd arg) = vip1_avs_command K cmd arg"
| "vip1_avs_call K (Kernel cmd arg) = vip1_avs_command_kernel K cmd arg"

section \<open>The VIP2 driver\<close>

abbreviation (input) SCART_MUTE :: nat where "SCART_MUTE \<equiv> 0"
abbreviation (input) SCART_STANDBY :: nat where "SCART_STANDBY \<equiv> 1"
abbreviation (input) SCART_WSS :: nat where "SCART_WSS \<equiv> 2"
abbreviation (input) SCART_CVBS_RGB :: nat where "SCART_CVBS_RGB \<equiv> 3"
abbreviation (input) SCART_TV_SAT :: nat where "SCART_TV_SAT \<equiv> 4"

record vip2_avs = pio_vars +
  fctl :: u8
  srclk :: "nat option"
  lclk :: "nat option"
  sda :: "nat option"

text \<open>The loop shifts out the bits from the highest one down.\<close>

fun hc595_loop :: "'w avs_kernel \<Rightarrow> vip2_avs \<Rightarrow> nat \<Rightarrow> 'w \<Rightarrow> 'w option" where
  "hc595_loop K s 0 w = Some w"
| "hc595_loop K s (Suc i) w = do {
     w \<leftarrow> stpio_set_pin K (srclk s) 0 w;
     w \<leftarrow> stpio_set_pin K (sda s) (if bit (fctl s) i then 1 else 0) w;
     w \<leftarrow> stpio_set_pin K (srclk s) 1 (ak_udelay K 1 w);
     hc595_loop K s i (ak_udelay K 1 w)
   }"

definition set_ctl :: "nat \<Rightarrow> bool \<Rightarrow> u8 \<Rightarrow> u8" where
  "set_ctl ctls state f = (if state then f OR push_bit ctls 1 else f AND NOT (push_bit ctls 1))"

definition vip2_avs_hc595_out :: "'w avs_kernel \<Rightarrow> nat \<Rightarrow> bool \<Rightarrow> vip2_avs \<Rightarrow> 'w \<Rightarrow> (vip2_avs \<times> 'w) option" where
  "vip2_avs_hc595_out K ctls state s w =
     (let s = s\<lparr>fctl := set_ctl ctls state (fctl s)\<rparr> in
      do {
        w \<leftarrow> stpio_set_pin K (sda s) 0 w;
        w \<leftarrow> stpio_set_pin K (srclk s) 0 w;
        w \<leftarrow> hc595_loop K s 8 (ak_udelay K 10 w);
        w \<leftarrow> stpio_set_pin K (lclk s) 0 w;
        w \<leftarrow> stpio_set_pin K (lclk s) 1 (ak_udelay K 1 w);
        Some (s, w)
      })"

definition hc595_op :: "'w avs_kernel \<Rightarrow> nat \<Rightarrow> bool \<Rightarrow> (vip2_avs, 'w) avs_op" where
  "hc595_op K ctls state s w = do { (s, w) \<leftarrow> vip2_avs_hc595_out K ctls state s w; avs_return 0 s w }"

definition vip2_avs_src_sel :: "'w avs_kernel \<Rightarrow> int \<Rightarrow> (vip2_avs, 'w) avs_op" where
  "vip2_avs_src_sel K src s w =
     (if src = SAA_SRC_ENC then hc595_op K SCART_TV_SAT True s w
      else if src = SAA_SRC_SCART then hc595_op K SCART_TV_SAT False s w
      else avs_return 0 s w)"

definition vip2_avs_standby :: "'w avs_kernel \<Rightarrow> int \<Rightarrow> (vip2_avs, 'w) avs_op" where
  "vip2_avs_standby K = pio_standby (\<lambda>on s w. vip2_avs_hc595_out K SCART_STANDBY (ft_stnby s = 0) s w)"

definition vip2_avs_set_mute :: "'w avs_kernel \<Rightarrow> int \<Rightarrow> (vip2_avs, 'w) avs_op" where
  "vip2_avs_set_mute K type s w =
     (if type < 0 \<or> type > 1 then avs_return (- AVS_EINVAL) s w
      else
        let s = s\<lparr>t_mute := of_bool (type = AVS_MUTE)\<rparr> in
        hc595_op K SCART_MUTE (t_mute s \<noteq> 0) s w)"

definition vip2_avs_set_mode :: "'w avs_kernel \<Rightarrow> int \<Rightarrow> (vip2_avs, 'w) avs_op" where
  "vip2_avs_set_mode K rgb s w =
     (if rgb = SAA_MODE_RGB then hc595_op K SCART_CVBS_RGB True s w
      else if rgb = SAA_MODE_FBAS then hc595_op K SCART_CVBS_RGB False s w
      else avs_return 0 s w)"

definition vip2_avs_set_wss :: "'w avs_kernel \<Rightarrow> int \<Rightarrow> (vip2_avs, 'w) avs_op" where
  "vip2_avs_set_wss K wss s w =
     (if wss = SAA_WSS_43F then hc595_op K SCART_WSS False s w
      else if wss = SAA_WSS_169F then hc595_op K SCART_WSS True s w
      else if wss = SAA_WSS_OFF then hc595_op K SCART_WSS True s w
      else avs_return (- AVS_EINVAL) s w)"

definition vip2_avs_ops :: "'w avs_kernel \<Rightarrow> (vip2_avs, 'w) basic_ops" where
  "vip2_avs_ops K =
     \<lparr>bop_set_volume = pio_set_volume, bop_set_mute = vip2_avs_set_mute K, bop_standby = vip2_avs_standby K,
      bop_get_volume = pio_get_volume, bop_get_mute = pio_get_mute,
      bop_set_mode = vip2_avs_set_mode K, bop_set_encoder = pio_set_encoder, bop_set_wss = vip2_avs_set_wss K,
      bop_src_sel = vip2_avs_src_sel K\<rparr>"

definition vip2_avs_command :: "'w avs_kernel \<Rightarrow> u32 \<Rightarrow> u32 \<Rightarrow> (vip2_avs, 'w) avs_op" where
  "vip2_avs_command K = basic_command K (vip2_avs_ops K)"

definition vip2_avs_command_kernel :: "'w avs_kernel \<Rightarrow> u32 \<Rightarrow> u32 \<Rightarrow> (vip2_avs, 'w) avs_op" where
  "vip2_avs_command_kernel K = basic_command_kernel K False (vip2_avs_ops K)"

definition vip2_avs_init :: "'w avs_kernel \<Rightarrow> (vip2_avs, 'w) avs_op" where
  "vip2_avs_init K s w =
     (let (p1, w) = ak_request_pin K 2 5 ''AVS_HC595_SRCLK'' w;
          (p2, w) = ak_request_pin K 2 6 ''AVS_HC595_LCLK'' w;
          (p3, w) = ak_request_pin K 2 7 ''AVS_HC595_SDA'' w;
          s = s\<lparr>srclk := p1, lclk := p2, sda := p3\<rparr> in
      if p1 = None \<or> p2 = None \<or> p3 = None then avs_return (-1) s (fold (free_pin K) [p1, p2, p3] w)
      else hc595_op K SCART_TV_SAT True s w)"

primrec vip2_avs_call :: "'w avs_kernel \<Rightarrow> avs_call \<Rightarrow> (vip2_avs, 'w) avs_op" where
  "vip2_avs_call K (User cmd arg) = vip2_avs_command K cmd arg"
| "vip2_avs_call K (Kernel cmd arg) = vip2_avs_command_kernel K cmd arg"

section \<open>The fake driver and none\<close>

record fake_avs = pio_vars +
  wss_pin :: "nat option"
  vid_pin :: "nat option"

text \<open>A pin of the fake driver; the ADB boards have none.\<close>

definition fake_pin :: "avs_board \<Rightarrow> 'w avs_kernel \<Rightarrow> nat option \<Rightarrow> int \<Rightarrow> 'w \<Rightarrow> 'w option" where
  "fake_pin b K p v w = (if b = ADB_BOX then Some w else stpio_set_pin K p v w)"

definition fake_avs_src_sel :: "int \<Rightarrow> (fake_avs, 'w) avs_op" where
  "fake_avs_src_sel src = avs_return 0"

definition fake_avs_standby :: "avs_board \<Rightarrow> 'w avs_kernel \<Rightarrow> int \<Rightarrow> (fake_avs, 'w) avs_op" where
  "fake_avs_standby b K = pio_standby (\<lambda>on s w. do {
     w \<leftarrow> fake_pin b K (vid_pin s) (uint (ft_stnby s)) w;
     Some (s, w)
   })"

definition fake_avs_set_mute :: "int \<Rightarrow> (fake_avs, 'w) avs_op" where
  "fake_avs_set_mute type s w =
     (if type < 0 \<or> type > 1 then avs_return (- AVS_EINVAL) s w
      else avs_return 0 (s\<lparr>t_mute := of_bool (type = AVS_MUTE)\<rparr>) w)"

definition fake_avs_set_mode :: "int \<Rightarrow> (fake_avs, 'w) avs_op" where
  "fake_avs_set_mode val = avs_return 0"

definition fake_avs_set_wss :: "avs_board \<Rightarrow> 'w avs_kernel \<Rightarrow> int \<Rightarrow> (fake_avs, 'w) avs_op" where
  "fake_avs_set_wss b K val s w =
     (if val = SAA_WSS_43F then pin_op (fake_pin b K (wss_pin s) 0 w) s
      else if val = SAA_WSS_169F then pin_op (fake_pin b K (wss_pin s) 0 w) s
      else if val = SAA_WSS_OFF then pin_op (fake_pin b K (wss_pin s) 1 w) s
      else avs_return (- AVS_EINVAL) s w)"

definition fake_avs_ops :: "avs_board \<Rightarrow> 'w avs_kernel \<Rightarrow> (fake_avs, 'w) basic_ops" where
  "fake_avs_ops b K =
     \<lparr>bop_set_volume = pio_set_volume, bop_set_mute = fake_avs_set_mute, bop_standby = fake_avs_standby b K,
      bop_get_volume = pio_get_volume, bop_get_mute = pio_get_mute,
      bop_set_mode = fake_avs_set_mode, bop_set_encoder = pio_set_encoder, bop_set_wss = fake_avs_set_wss b K,
      bop_src_sel = fake_avs_src_sel\<rparr>"

definition fake_avs_command :: "avs_board \<Rightarrow> 'w avs_kernel \<Rightarrow> u32 \<Rightarrow> u32 \<Rightarrow> (fake_avs, 'w) avs_op" where
  "fake_avs_command b K = basic_command K (fake_avs_ops b K)"

definition fake_avs_command_kernel :: "avs_board \<Rightarrow> 'w avs_kernel \<Rightarrow> u32 \<Rightarrow> u32 \<Rightarrow> (fake_avs, 'w) avs_op" where
  "fake_avs_command_kernel b K = basic_command_kernel K True (fake_avs_ops b K)"

definition fake_avs_init :: "avs_board \<Rightarrow> 'w avs_kernel \<Rightarrow> (fake_avs, 'w) avs_op" where
  "fake_avs_init b K s w =
     (if b = ADB_BOX then avs_return 0 s w
      else
        let (p1, w) = ak_request_pin K 3 4 ''WSS enable'' w;
            (p2, w) = ak_request_pin K 3 3 ''Video enab'' w;
            s = s\<lparr>wss_pin := p1, vid_pin := p2\<rparr> in
        if p1 = None \<or> p2 = None then avs_return 1 s (fold (free_pin K) [p1, p2] w)
        else do {
          w \<leftarrow> stpio_set_pin K p1 1 w;
          pin_op (stpio_set_pin K p2 1 w) s
        })"

primrec fake_avs_call :: "avs_board \<Rightarrow> 'w avs_kernel \<Rightarrow> avs_call \<Rightarrow> (fake_avs, 'w) avs_op" where
  "fake_avs_call b K (User cmd arg) = fake_avs_command b K cmd arg"
| "fake_avs_call b K (Kernel cmd arg) = fake_avs_command_kernel b K cmd arg"

definition avs_none_command :: "u32 \<Rightarrow> u32 \<Rightarrow> ('s, 'w) avs_op" where
  "avs_none_command cmd arg = avs_return 0"

definition avs_none_init :: "('s, 'w) avs_op" where
  "avs_none_init = avs_return 0"

end
