(* ===== verification/Avs_Pins.thy ===== *)
theory Avs_Pins
  imports Avs_Pio
begin
unbundle bit_operations_syntax

text \<open>
  The properties of the drivers that set pins: which of their commands are defined, what they report,
  and that the outputs of the VIP2's shift register are the driver's control byte.
\<close>

section \<open>Drivers whose commands are always defined\<close>

lemma yields_return [simp]: "yields (\<lambda>(r, s, w). I s w) (avs_return r s w) \<longleftrightarrow> I s w"
  by (simp add: avs_return_def)

locale basic_total = avs_user K I for K :: "'w avs_kernel" and I :: "'s \<Rightarrow> 'w \<Rightarrow> bool" +
  fixes ops :: "('s, 'w) basic_ops"
  assumes t_set_volume: "I s w \<Longrightarrow> yields (\<lambda>(r, s, w). I s w) (bop_set_volume ops val s w)"
    and t_set_mute: "I s w \<Longrightarrow> yields (\<lambda>(r, s, w). I s w) (bop_set_mute ops val s w)"
    and t_standby: "I s w \<Longrightarrow> yields (\<lambda>(r, s, w). I s w) (bop_standby ops val s w)"
    and t_set_mode: "I s w \<Longrightarrow> yields (\<lambda>(r, s, w). I s w) (bop_set_mode ops val s w)"
    and t_set_encoder: "I s w \<Longrightarrow> yields (\<lambda>(r, s, w). I s w) (bop_set_encoder ops val s w)"
    and t_set_wss: "I s w \<Longrightarrow> yields (\<lambda>(r, s, w). I s w) (bop_set_wss ops val s w)"
    and t_src_sel: "I s w \<Longrightarrow> yields (\<lambda>(r, s, w). I s w) (bop_src_sel ops val s w)"
begin

lemma basic_set_total: "I s w \<Longrightarrow> yields (\<lambda>(r, s, w). I s w) (basic_set ops cmd val s w)"
  by (simp add: basic_set_def avs_return_def t_set_volume t_set_mute t_standby)

lemma basic_saa_total: "I s w \<Longrightarrow> yields (\<lambda>(r, s, w). I s w) (basic_saa ops cmd val s w)"
  by (simp add: basic_saa_def avs_return_def t_set_mode t_set_encoder t_set_wss t_src_sel)

lemma basic_command_total:
  assumes "I s w"
  shows "yields (\<lambda>(r, s, w). I s w) (basic_command K ops cmd arg s w)"
proof -
  obtain v w1 where fu: "ak_from_user K arg w = (v, w1)" by (cases "ak_from_user K arg w")
  have I1: "I s w1" using from_user [OF assms, of arg] fu by simp
  have put: "yields (\<lambda>(r, s, w). I s w) (let (r, w) = ak_put_user K x arg w in avs_return r s w)" for x
    using put_user [OF assms, of x arg] by (cases "ak_put_user K x arg w") simp
  show ?thesis
    using I1 put assms basic_set_total [OF I1] basic_saa_total [OF I1]
    by (simp add: user_command_def basic_get_def fu split: option.split)
qed

lemma basic_command_kernel_total:
  "I s w \<Longrightarrow> yields (\<lambda>(r, s, w). I s w) (basic_command_kernel K stores ops cmd arg s w)"
  using basic_set_total [of s w] basic_saa_total [of s w] store
  by (simp add: kernel_command_def basic_get_def avs_return_def)

end

locale total_calls =
  fixes call :: "avs_call \<Rightarrow> ('s, 'w) avs_op" and I :: "'s \<Rightarrow> 'w \<Rightarrow> bool"
  assumes call_total: "I s w \<Longrightarrow> yields (\<lambda>(r, s, w). I s w) (call c s w)"
begin

lemma run_total: "I s w \<Longrightarrow> \<exists>s' w'. avs_run call cs s w = Some (s', w') \<and> I s' w'"
proof (induction cs arbitrary: s w)
  case (Cons c cs)
  obtain r s1 w1 where "call c s w = Some (r, s1, w1)" "I s1 w1"
    using call_total [OF Cons.prems, of c] by (auto simp: yields_def)
  then show ?case using Cons.IH [of s1 w1] by simp
qed simp

end

lemma keeps_total: "(\<And>s w. I s w \<Longrightarrow> yields (\<lambda>(r, s, w). I s w) (f s w)) \<Longrightarrow> keeps I f"
  by (rule keepsI) (auto dest: yieldsD)

sublocale basic_total < basic_chip
  by unfold_locales
    (rule keeps_total, erule t_set_volume t_set_mute t_standby t_set_mode t_set_encoder t_set_wss t_src_sel)+

section \<open>The PIO driver\<close>

text \<open>The pins that the commands of a board set are there.\<close>

definition pins_there :: "avs_board \<Rightarrow> avs_pio \<Rightarrow> bool" where
  "pins_there b s \<longleftrightarrow> avs_mode s \<noteq> None \<and> avs_format s \<noteq> None \<and> avs_standby s \<noteq> None \<and>
     (spark_board b \<longrightarrow> avs_mute s \<noteq> None)"

lemma set_pin_yields: "p \<noteq> None \<Longrightarrow> yields (\<lambda>w. True) (stpio_set_pin K p v w)"
  by (auto simp: stpio_set_pin_def)

lemma set_pin_Some [simp]: "stpio_set_pin K (Some n) v w = Some (ak_set_pin K n v w)"
  by (simp add: stpio_set_pin_def)

lemmas avs_pio_op_defs = avs_pio_ops_def pio_set_volume_def avs_pio_set_mute_def avs_pio_standby_def pio_standby_def
  avs_pio_standby_pins_def avs_pio_set_mode_def pio_set_encoder_def avs_pio_set_wss_def avs_pio_src_sel_def
  pin_op_def avs_return_def

interpretation avs_pio_total: basic_total K "\<lambda>s w. pins_there b s" "avs_pio_ops b K"
  for K :: "'w avs_kernel" and b
  by unfold_locales (auto simp: avs_pio_op_defs pins_there_def Let_def)

interpretation avs_pio_calls: total_calls "avs_pio_call b K" "\<lambda>s w. pins_there b s"
  for K :: "'w avs_kernel" and b
proof
  show "yields (\<lambda>(r, s, w). pins_there b s) (avs_pio_call b K c s w)" if "pins_there b s" for s w c
    using avs_pio_total.basic_command_total [OF that] avs_pio_total.basic_command_kernel_total [OF that]
    by (cases c) (simp_all add: avs_pio_command_def avs_pio_command_kernel_def)
qed

lemma avs_pio_init_pins:
  "spark_board b \<or> hs_board b \<Longrightarrow> avs_pio_init b K s w = Some (0, s0, w0) \<Longrightarrow> pins_there b s0"
  by (auto simp: avs_pio_init_def avs_return_def pins_there_def split: prod.splits if_splits)

text \<open>
  The PIO driver: on a board it knows, after a successful initialisation no sequence of calls sets a pin
  through a null pointer. On any other board the initialisation succeeds without a pin, and the first
  command to enter standby does.
\<close>

theorem avs_pio_defined_iff:
  assumes "avs_pio_init b K s w = Some (0, s0, w0)" "ft_stnby s = 0" "avs_standby s = None"
  shows "(\<forall>cs. avs_run (avs_pio_call b K) cs s0 w0 \<noteq> None) \<longleftrightarrow> spark_board b \<or> hs_board b"
proof (cases "spark_board b \<or> hs_board b")
  case True
  then have "pins_there b s0" using assms(1) by (rule avs_pio_init_pins)
  then have "\<exists>s' w'. avs_run (avs_pio_call b K) cs s0 w0 = Some (s', w') \<and> pins_there b s'" for cs
    by (rule avs_pio_calls.run_total)
  then have "\<forall>cs. avs_run (avs_pio_call b K) cs s0 w0 \<noteq> None" by (metis option.distinct(1))
  then show ?thesis using True by (simp only: simp_thms)
next
  case False
  then have "s0 = s" using assms(1) by (auto simp: avs_pio_init_def avs_return_def split: if_splits)
  then have "avs_run (avs_pio_call b K) [Kernel AVSIOSTANDBY 1] s0 w0 = None"
    using assms(2, 3) False
    by (simp add: avs_pio_command_kernel_def kernel_command_def basic_set_def avs_pio_ops_def avs_pio_standby_def
        pio_standby_def avs_pio_standby_pins_def stpio_set_pin_def)
  then show ?thesis using False by blast
qed

definition avs_pio_start :: avs_pio where
  "avs_pio_start = \<lparr>t_mute = 0, t_vol = 0, ft_stnby = 0, avs_mode = None, avs_format = None, avs_standby = None, avs_mute = None\<rparr>"

theorem avs_pio_defined_iff_witness:
  "\<exists>s0 w0. avs_pio_init SPARK bench avs_pio_start [] = Some (0, s0, w0) \<and>
     (\<forall>cs. avs_run (avs_pio_call SPARK bench) cs s0 w0 \<noteq> None)"
proof -
  have "map_option fst (avs_pio_init SPARK bench avs_pio_start []) = Some 0" by code_simp
  then obtain s0 w0 where i: "avs_pio_init SPARK bench avs_pio_start [] = Some (0, s0, w0)" by auto
  have "ft_stnby avs_pio_start = 0" "avs_standby avs_pio_start = None" by (simp_all add: avs_pio_start_def)
  then show ?thesis using avs_pio_defined_iff [OF i] i by simp
qed

section \<open>The shift register of the VIP2\<close>

text \<open>
  The 74HC595: a rising edge of the shift clock takes the data line into the lowest bit of the shift
  register, a rising edge of the latch clock copies the shift register to the outputs.
\<close>

record hc595 =
  hc_clk :: bool
  hc_latch :: bool
  hc_sda :: bool
  hc_shift :: u8
  hc_out :: u8

definition hc595_clk :: "bool \<Rightarrow> hc595 \<Rightarrow> hc595" where
  "hc595_clk v c =
     (if v \<and> \<not> hc_clk c then c\<lparr>hc_clk := True, hc_shift := push_bit 1 (hc_shift c) OR of_bool (hc_sda c)\<rparr>
      else c\<lparr>hc_clk := v\<rparr>)"

definition hc595_latch :: "bool \<Rightarrow> hc595 \<Rightarrow> hc595" where
  "hc595_latch v c =
     (if v \<and> \<not> hc_latch c then c\<lparr>hc_latch := True, hc_out := hc_shift c\<rparr> else c\<lparr>hc_latch := v\<rparr>)"

text \<open>Three pins of the board are wired to the chip, and nothing else reaches it.\<close>

definition hc595_board :: "'w avs_kernel \<Rightarrow> ('w \<Rightarrow> hc595) \<Rightarrow> nat option \<Rightarrow> nat option \<Rightarrow> nat option \<Rightarrow> bool" where
  "hc595_board K chip ps pl pd \<longleftrightarrow>
     (\<forall>n v w. ps = Some n \<longrightarrow> chip (ak_set_pin K n v w) = hc595_clk (v \<noteq> 0) (chip w)) \<and>
     (\<forall>n v w. pl = Some n \<longrightarrow> chip (ak_set_pin K n v w) = hc595_latch (v \<noteq> 0) (chip w)) \<and>
     (\<forall>n v w. pd = Some n \<longrightarrow> chip (ak_set_pin K n v w) = (chip w)\<lparr>hc_sda := v \<noteq> 0\<rparr>) \<and>
     (\<forall>t w. chip (ak_udelay K t w) = chip w) \<and>
     (\<forall>arg w. chip (snd (ak_from_user K arg w)) = chip w) \<and>
     (\<forall>val arg w. chip (snd (ak_put_user K val arg w)) = chip w) \<and>
     (\<forall>arg val w. chip (ak_store K arg val w) = chip w)"

definition wired :: "'w avs_kernel \<Rightarrow> ('w \<Rightarrow> hc595) \<Rightarrow> vip2_avs \<Rightarrow> bool" where
  "wired K chip s \<longleftrightarrow> srclk s \<noteq> None \<and> lclk s \<noteq> None \<and> sda s \<noteq> None \<and> hc595_board K chip (srclk s) (lclk s) (sda s)"

lemma wired_set_pin:
  assumes "wired K chip s"
  shows "yields (\<lambda>w'. chip w' = hc595_clk (v \<noteq> 0) (chip w)) (stpio_set_pin K (srclk s) v w)"
    "yields (\<lambda>w'. chip w' = hc595_latch (v \<noteq> 0) (chip w)) (stpio_set_pin K (lclk s) v w)"
    "yields (\<lambda>w'. chip w' = (chip w)\<lparr>hc_sda := v \<noteq> 0\<rparr>) (stpio_set_pin K (sda s) v w)"
    "chip (ak_udelay K t w) = chip w"
  using assms by (auto simp: wired_def hc595_board_def)

text \<open>One turn of the loop shifts in one bit, \<open>n\<close> turns the lowest \<open>n\<close> bits.\<close>

lemma hc595_turn:
  assumes "wired K chip s"
  shows "yields (\<lambda>w'. hc_shift (chip w') = push_bit 1 (hc_shift (chip w)) OR of_bool (bit (fctl s) i))
    (do { w \<leftarrow> stpio_set_pin K (srclk s) 0 w;
          w \<leftarrow> stpio_set_pin K (sda s) (if bit (fctl s) i then 1 else 0) w;
          w \<leftarrow> stpio_set_pin K (srclk s) 1 (ak_udelay K 1 w);
          Some (ak_udelay K 1 w) })"
  by (rule yields_bind [OF wired_set_pin(1) [OF assms]], rule yields_bind [OF wired_set_pin(3) [OF assms]],
      rule yields_bind [OF wired_set_pin(1) [OF assms]])
    (simp add: wired_set_pin(4) [OF assms] hc595_clk_def)

lemma bit_shift_in:
  "bit (push_bit 1 x OR of_bool y :: u8) m \<longleftrightarrow> (if m = 0 then y else m < 8 \<and> bit x (m - 1))"
  unfolding bit_or_iff bit_push_bit_iff by (cases m) (auto simp: bit_simps dest: bit_imp_le_length)

lemma hc595_loop_shifts:
  assumes "wired K chip s" "n \<le> 8"
  shows "yields (\<lambda>w'. \<forall>j < 8. bit (hc_shift (chip w')) j = (if j < n then bit (fctl s) j else bit (hc_shift (chip w)) (j - n)))
    (hc595_loop K s n w)"
  using assms(2)
proof (induction n arbitrary: w)
  case (Suc i)
  let ?turn = "do { w \<leftarrow> stpio_set_pin K (srclk s) 0 w;
          w \<leftarrow> stpio_set_pin K (sda s) (if bit (fctl s) i then 1 else 0) w;
          w \<leftarrow> stpio_set_pin K (srclk s) 1 (ak_udelay K 1 w);
          Some (ak_udelay K 1 w) }"
  have loop: "hc595_loop K s (Suc i) w = ?turn \<bind> hc595_loop K s i"
    by simp
  show ?case unfolding loop
  proof (rule yields_bind [OF hc595_turn [OF assms(1)]])
    fix w1
    assume sh: "hc_shift (chip w1) = push_bit 1 (hc_shift (chip w)) OR of_bool (bit (fctl s) i)"
    obtain w' where w': "hc595_loop K s i w1 = Some w'"
        "\<forall>j < 8. bit (hc_shift (chip w')) j = (if j < i then bit (fctl s) j else bit (hc_shift (chip w1)) (j - i))"
      using Suc.IH [of w1] Suc.prems by (auto simp: yields_def)
    have "bit (hc_shift (chip w')) j = (if j < Suc i then bit (fctl s) j else bit (hc_shift (chip w)) (j - Suc i))"
      if "j < 8" for j
      using w'(2) that unfolding sh bit_shift_in by (auto simp: less_Suc_eq)
    then show "yields (\<lambda>w'. \<forall>j < 8. bit (hc_shift (chip w')) j =
        (if j < Suc i then bit (fctl s) j else bit (hc_shift (chip w)) (j - Suc i))) (hc595_loop K s i w1)"
      using w'(1) by simp
  qed
qed simp

text \<open>The outputs are the control byte, and its bits say what the driver's variables say.\<close>

definition vip2_inv :: "'w avs_kernel \<Rightarrow> ('w \<Rightarrow> hc595) \<Rightarrow> vip2_avs \<Rightarrow> 'w \<Rightarrow> bool" where
  "vip2_inv K chip s w \<longleftrightarrow> wired K chip s \<and> hc_out (chip w) = fctl s \<and>
     (bit (fctl s) SCART_MUTE \<longleftrightarrow> t_mute s = 1) \<and> (bit (fctl s) SCART_STANDBY \<longleftrightarrow> ft_stnby s = 1) \<and>
     \<not> bit (fctl s) 5 \<and> \<not> bit (fctl s) 6 \<and> \<not> bit (fctl s) 7"

lemma vip2_out:
  assumes "wired K chip s"
  shows "yields (\<lambda>(s', w'). s' = s\<lparr>fctl := set_ctl ctls state (fctl s)\<rparr> \<and> wired K chip s' \<and> hc_out (chip w') = fctl s')
    (vip2_avs_hc595_out K ctls state s w)"
proof -
  define s1 where "s1 = s\<lparr>fctl := set_ctl ctls state (fctl s)\<rparr>"
  have w1: "wired K chip s1" using assms by (simp add: s1_def wired_def)
  have eq: "hc_shift c = fctl s1" if "\<forall>j < 8. bit (hc_shift c) j = (if j < 8 then bit (fctl s1) j else X j)" for c X
    by (rule bit_word_eqI) (use that in simp)
  show ?thesis
    unfolding vip2_avs_hc595_out_def Let_def s1_def [symmetric]
    by (rule yields_bind [OF wired_set_pin(3) [OF w1]], rule yields_bind [OF wired_set_pin(1) [OF w1]],
        rule yields_bind [OF hc595_loop_shifts [OF w1 order_refl]],
        rule yields_bind [OF wired_set_pin(2) [OF w1]], rule yields_bind [OF wired_set_pin(2) [OF w1]])
      (simp add: w1 wired_set_pin(4) [OF w1] hc595_latch_def eq)
qed

lemma bit_set_ctl: "ctls < 8 \<Longrightarrow> bit (set_ctl ctls state f) j \<longleftrightarrow> (if j = ctls then state else bit f j)"
  by (auto simp: set_ctl_def bit_simps dest: bit_imp_le_length)

lemma hc595_op_inv:
  assumes "vip2_inv K chip s w" "ctls < 5" "ctls \<noteq> SCART_MUTE" "ctls \<noteq> SCART_STANDBY"
  shows "yields (\<lambda>(r, s, w). vip2_inv K chip s w) (hc595_op K ctls state s w)"
  unfolding hc595_op_def
  by (rule yields_bind [OF vip2_out]) (use assms in \<open>auto simp: vip2_inv_def avs_return_def bit_set_ctl\<close>)

lemma vip2_set_mute_inv:
  assumes "vip2_inv K chip s w"
  shows "yields (\<lambda>(r, s, w). vip2_inv K chip s w) (vip2_avs_set_mute K type s w)"
proof (cases "type < 0 \<or> type > 1")
  case False
  have "wired K chip (s\<lparr>t_mute := x\<rparr>)" for x using assms by (simp add: vip2_inv_def wired_def)
  then show ?thesis
    unfolding vip2_avs_set_mute_def hc595_op_def Let_def using False
    by (auto intro!: yields_bind [OF vip2_out]) (use assms in \<open>auto simp: vip2_inv_def avs_return_def bit_set_ctl\<close>)
qed (use assms in \<open>simp add: vip2_avs_set_mute_def\<close>)

lemma vip2_standby_inv:
  assumes "vip2_inv K chip s w"
  shows "yields (\<lambda>(r, s, w). vip2_inv K chip s w) (vip2_avs_standby K type s w)"
proof -
  have "yields (\<lambda>(r, s, w). vip2_inv K chip s w)
      (do { (s, w) \<leftarrow> vip2_avs_hc595_out K SCART_STANDBY (v = 1) s w; avs_return 0 (s\<lparr>ft_stnby := v\<rparr>) w })" for v
    by (rule yields_bind [OF vip2_out])
      (use assms in \<open>auto simp: vip2_inv_def avs_return_def bit_set_ctl wired_def\<close>)
  from this [of 1] this [of 0] show ?thesis
    using assms by (auto simp: vip2_avs_standby_def pio_standby_def)
qed

interpretation vip2_total: basic_total K "vip2_inv K chip" "vip2_avs_ops K"
  for K :: "'w avs_kernel" and chip
proof
  show "vip2_inv K chip s (snd (ak_from_user K arg w))" if "vip2_inv K chip s w" for s w arg
    using that by (simp add: vip2_inv_def wired_def hc595_board_def)
  show "vip2_inv K chip s (snd (ak_put_user K val arg w))" if "vip2_inv K chip s w" for s w val arg
    using that by (simp add: vip2_inv_def wired_def hc595_board_def)
  show "vip2_inv K chip s (ak_store K arg val w)" if "vip2_inv K chip s w" for s w val arg
    using that by (simp add: vip2_inv_def wired_def hc595_board_def)
  fix s w val
  assume I: "vip2_inv K chip s w"
  show "yields (\<lambda>(r, s, w). vip2_inv K chip s w) (bop_set_volume (vip2_avs_ops K) val s w)"
    using I by (simp add: vip2_avs_ops_def pio_set_volume_def) (simp add: vip2_inv_def wired_def)
  show "yields (\<lambda>(r, s, w). vip2_inv K chip s w) (bop_set_encoder (vip2_avs_ops K) val s w)"
    using I by (simp add: vip2_avs_ops_def pio_set_encoder_def)
  show "yields (\<lambda>(r, s, w). vip2_inv K chip s w) (bop_set_mute (vip2_avs_ops K) val s w)"
    using I by (simp add: vip2_avs_ops_def vip2_set_mute_inv)
  show "yields (\<lambda>(r, s, w). vip2_inv K chip s w) (bop_standby (vip2_avs_ops K) val s w)"
    using I by (simp add: vip2_avs_ops_def vip2_standby_inv)
  show "yields (\<lambda>(r, s, w). vip2_inv K chip s w) (bop_set_mode (vip2_avs_ops K) val s w)"
    "yields (\<lambda>(r, s, w). vip2_inv K chip s w) (bop_set_wss (vip2_avs_ops K) val s w)"
    "yields (\<lambda>(r, s, w). vip2_inv K chip s w) (bop_src_sel (vip2_avs_ops K) val s w)"
    using I by (simp_all add: vip2_avs_ops_def vip2_avs_set_mode_def vip2_avs_set_wss_def vip2_avs_src_sel_def hc595_op_inv)
qed

interpretation vip2_calls: total_calls "vip2_avs_call K" "vip2_inv K chip"
  for K :: "'w avs_kernel" and chip
proof
  show "yields (\<lambda>(r, s, w). vip2_inv K chip s w) (vip2_avs_call K c s w)" if "vip2_inv K chip s w" for s w c
    using vip2_total.basic_command_total [OF that] vip2_total.basic_command_kernel_total [OF that]
    by (cases c) (simp_all add: vip2_avs_command_def vip2_avs_command_kernel_def)
qed

definition vip2_start :: vip2_avs where
  "vip2_start = \<lparr>t_mute = 0, t_vol = 0, ft_stnby = 0, fctl = 0, srclk = None, lclk = None, sda = None\<rparr>"

lemma vip2_out_state:
  "vip2_avs_hc595_out K ctls state s w = Some (s', w') \<Longrightarrow> s' = s\<lparr>fctl := set_ctl ctls state (fctl s)\<rparr>"
  by (auto simp: vip2_avs_hc595_out_def Let_def bind_eq_Some_conv)

lemma vip2_init_inv:
  assumes "vip2_avs_init K vip2_start w = Some (0, s0, w0)" "hc595_board K chip (srclk s0) (lclk s0) (sda s0)"
  shows "vip2_inv K chip s0 w0"
proof -
  obtain n1 n2 n3 w1 where
    p: "vip2_avs_hc595_out K SCART_TV_SAT True (vip2_start\<lparr>srclk := Some n1, lclk := Some n2, sda := Some n3\<rparr>) w1 = Some (s0, w0)"
    using assms(1)
    by (auto simp: vip2_avs_init_def hc595_op_def avs_return_def bind_eq_Some_conv Let_def
        split: prod.splits if_splits)
  let ?s = "vip2_start\<lparr>srclk := Some n1, lclk := Some n2, sda := Some n3\<rparr>"
  have s0: "s0 = ?s\<lparr>fctl := set_ctl SCART_TV_SAT True (fctl ?s)\<rparr>" using p by (rule vip2_out_state)
  then have "wired K chip ?s" using assms(2) by (simp add: wired_def)
  from yieldsD [OF vip2_out [OF this] p] have "wired K chip s0" "hc_out (chip w0) = fctl s0" by auto
  then show ?thesis by (simp add: vip2_inv_def s0 bit_set_ctl vip2_start_def)
qed

text \<open>A kernel with a 74HC595 on pins 5, 6 and 7.\<close>

definition hc595_bench :: "hc595 avs_kernel" where
  "hc595_bench =
     \<lparr>ak_i2c_send = (\<lambda>client bs w. (-1, w)), ak_i2c_recv = (\<lambda>client w. ((-1, 0), w)),
      ak_from_user = (\<lambda>arg w. (Some (sint arg), w)), ak_put_user = (\<lambda>val arg w. (0, w)),
      ak_store = (\<lambda>arg val w. w), ak_request_pin = (\<lambda>port pin name w. (Some pin, w)), ak_free_pin = (\<lambda>n w. w),
      ak_set_pin = (\<lambda>n v w. if n = 5 then hc595_clk (v \<noteq> 0) w else if n = 6 then hc595_latch (v \<noteq> 0) w
        else w\<lparr>hc_sda := v \<noteq> 0\<rparr>),
      ak_udelay = (\<lambda>n w. w), ak_kzalloc = (\<lambda>w. (None, w)), ak_kfree = (\<lambda>n w. w),
      ak_i2c_attach = (\<lambda>n w. w), ak_i2c_detach = (\<lambda>n w. w), ak_i2c_add_driver = (\<lambda>l w. ((0, []), w)),
      ak_i2c_del_driver = (\<lambda>w. w), ak_misc_register = (\<lambda>w. (0, w)), ak_misc_deregister = (\<lambda>w. w)\<rparr>"

definition hc595_off :: hc595 where
  "hc595_off = \<lparr>hc_clk = False, hc_latch = True, hc_sda = False, hc_shift = 0xA5, hc_out = 0xFF\<rparr>"

text \<open>
  C11. The VIP2: with a 74HC595 on the pins that the initialisation got, every sequence of calls is defined,
  and after it the outputs of the chip are the driver's control byte. Output 0 is set exactly while the
  sound is muted and output 1 exactly in standby; the outputs 5, 6 and 7 (the 12 V of the SCART, the fan
  and the hard disk) are never set.
\<close>

theorem vip2_outputs:
  assumes "vip2_avs_init K vip2_start w = Some (0, s0, w0)" "hc595_board K chip (srclk s0) (lclk s0) (sda s0)"
  shows "\<exists>s' w'. avs_run (vip2_avs_call K) cs s0 w0 = Some (s', w') \<and> hc_out (chip w') = fctl s' \<and>
    (bit (fctl s') SCART_MUTE \<longleftrightarrow> pio_get_mute s' = 1) \<and> (bit (fctl s') SCART_STANDBY \<longleftrightarrow> ft_stnby s' = 1) \<and>
    \<not> bit (fctl s') 5 \<and> \<not> bit (fctl s') 6 \<and> \<not> bit (fctl s') 7"
proof -
  have "vip2_inv K chip s0 w0" using assms by (rule vip2_init_inv)
  then obtain s' w' where "avs_run (vip2_avs_call K) cs s0 w0 = Some (s', w')" "vip2_inv K chip s' w'"
    using vip2_calls.run_total [of K chip s0 w0 cs] by blast
  then show ?thesis by (simp add: vip2_inv_def pio_get_mute_def word_uint_eq_iff)
qed

theorem vip2_outputs_witness:
  "\<exists>s0 w0 s' w'. vip2_avs_init hc595_bench vip2_start hc595_off = Some (0, s0, w0) \<and>
     avs_run (vip2_avs_call hc595_bench) [User AVSIOSMUTE 1] s0 w0 = Some (s', w') \<and> hc_out w' = fctl s'"
proof -
  let ?s = "vip2_start\<lparr>srclk := Some 5, lclk := Some 6, sda := Some 7\<rparr>"
  have "wired hc595_bench (\<lambda>w. w) ?s" by (simp add: wired_def hc595_board_def hc595_bench_def)
  from vip2_out [OF this, of SCART_TV_SAT True hc595_off] obtain s0 w0
    where o: "vip2_avs_hc595_out hc595_bench SCART_TV_SAT True ?s hc595_off = Some (s0, w0)"
      "s0 = ?s\<lparr>fctl := set_ctl SCART_TV_SAT True (fctl ?s)\<rparr>"
    by (auto simp: yields_def)
  have req: "ak_request_pin hc595_bench port pin name w = (Some pin, w)" for port pin name w
    by (simp add: hc595_bench_def)
  have i: "vip2_avs_init hc595_bench vip2_start hc595_off = Some (0, s0, w0)"
    "srclk s0 = Some 5" "lclk s0 = Some 6" "sda s0 = Some 7"
    using o by (simp_all add: vip2_avs_init_def hc595_op_def avs_return_def req)
  have "hc595_board hc595_bench (\<lambda>w. w) (srclk s0) (lclk s0) (sda s0)"
    by (simp add: i hc595_board_def hc595_bench_def)
  from vip2_outputs [OF i(1) this, of "[User AVSIOSMUTE 1]"] show ?thesis using i(1) by blast
qed

section \<open>What the drivers report\<close>

text \<open>
  The volume that the four drivers report is not the one that was set: it is half of what is missing
  to 63, so the loudest volume is read back as 0 and the lowest as 31.
\<close>

theorem pio_volume_readback:
  "do { (r, s', w') \<leftarrow> pio_set_volume vol s w; Some (r, pio_get_volume s') } =
     Some (if 0 \<le> vol \<and> vol \<le> 63 then (0, (63 - vol) div 2) else (- AVS_EINVAL, pio_get_volume s))"
proof -
  have "(63 - vol) div 2 mod 256 = (63 - vol) div 2" if "0 \<le> vol" "vol \<le> 63"
    by (rule mod_pos_pos_trivial) (use that in auto)
  then show ?thesis
    by (auto simp: pio_set_volume_def pio_get_volume_def avs_return_def uint_word_of_int)
qed

end
