(* ===== verification/Avs_Core.thy ===== *)
theory Avs_Core
  imports Avs_Switch Avs_Registers Avs_Ak470x Avs_Cxa2161r Avs_Pins
begin

text \<open>
  The core of the switch driver (\<^verbatim>\<open>avs_core.c\<close>): it chooses one of the drivers by the module parameter,
  probes the I2C bus for it or requests its pins, and hands the commands of the device file and of the
  kernel on to it. The properties span the core and the drivers.

  The module's variables are those of the core and those of every driver. \<open>ak_i2c_add_driver\<close> gives the
  clients for which the I2C core calls the probe function, in their order.
\<close>

section \<open>State\<close>

datatype avs_type = AK4705 | AK4708 | STV6412 | STV6417 | STV6418 | STV6419 | CXA2161R | VIP2_AVS | VIP1_AVS
  | FAKE_AVS | AVS_PIO | SPARK_AVS | SPARK7162_AVS | AVS_NONE

record avs_core =
  devType :: avs_type
  avs_client :: "nat option"
  c_ak4705 :: ak470x
  c_ak4708 :: ak470x
  c_stv6412 :: stv6412
  c_stv6417 :: stv641x
  c_stv6418 :: stv641x
  c_stv6419 :: stv641x
  c_cxa2161r :: cxa2161r
  c_vip2 :: vip2_avs
  c_vip1 :: vip1_avs
  c_fake :: fake_avs
  c_pio :: avs_pio

text \<open>An operation of a driver as one of the module.\<close>

definition on_driver :: "('m \<Rightarrow> 's) \<Rightarrow> (('s \<Rightarrow> 's) \<Rightarrow> 'm \<Rightarrow> 'm) \<Rightarrow> ('s, 'w) avs_op \<Rightarrow> ('m, 'w) avs_op" where
  "on_driver get update f m w = do { (r, s, w) \<leftarrow> f (get m) w; Some (r, update (\<lambda>_. s) m, w) }"

definition normal_i2c :: "avs_board \<Rightarrow> u16" where
  "normal_i2c b =
     (if b \<in> {UFS922, CUBEREVO, VITAMIN_HD5000, CUBEREVO_MINI, CUBEREVO_MINI2, CUBEREVO_9500HD, CUBEREVO_2000HD} then 0x4a
      else if b \<in> {UFC960, FS9000, TF7700, HL101, VIP1_V1, UFS912, UFS913, HS8200, IPBOX9900, IPBOX99, ADB_BOX,
        CUBEREVO_3000HD} then 0x4b
      else if b \<in> {CUBEREVO_MINI_FTA, CUBEREVO_250HD, IPBOX55, HS7110, HS7119, HS7420, HS7429, HS7810A, HS7819,
        ATEMIO520, OPT9600MINI, ARIVALINK200} then 0
      else if b \<in> {HCHS8100, HCHS9000} then 0x48
      else 0x11)"

section \<open>Probing\<close>

text \<open>The result of a driver's initialisation is ignored.\<close>

definition avs_newprobe :: "avs_board \<Rightarrow> 'w avs_kernel \<Rightarrow> nat \<Rightarrow> (avs_core, 'w) avs_op" where
  "avs_newprobe b K client m w =
     (let c = Some client;
          found = (\<lambda>init. do { (r, m, w) \<leftarrow> init m w; avs_return 0 (m\<lparr>avs_client := c\<rparr>) w }) in
      if avs_client m \<noteq> None then avs_return (- AVS_ENODEV) m w
      else case devType m of
        AK4705 \<Rightarrow> found (on_driver c_ak4705 c_ak4705_update (ak470x_init K c))
      | AK4708 \<Rightarrow> found (on_driver c_ak4708 c_ak4708_update (ak470x_init K c))
      | STV6412 \<Rightarrow> found (on_driver c_stv6412 c_stv6412_update (stv6412_init b K c))
      | STV6417 \<Rightarrow> found (on_driver c_stv6417 c_stv6417_update (stv6417_init K c))
      | STV6418 \<Rightarrow> found (on_driver c_stv6418 c_stv6418_update (stv6418_init b K c))
      | STV6419 \<Rightarrow> found (on_driver c_stv6419 c_stv6419_update (stv6419_init K c))
      | CXA2161R \<Rightarrow> found (on_driver c_cxa2161r c_cxa2161r_update (cxa2161r_init K c))
      | FAKE_AVS \<Rightarrow> found (on_driver c_fake c_fake_update (fake_avs_init b K))
      | AVS_NONE \<Rightarrow> found avs_none_init
      | _ \<Rightarrow> avs_return (- AVS_ENODEV) m w)"

definition avs_remove :: "(avs_core, 'w) avs_op" where
  "avs_remove m w = avs_return 0 (m\<lparr>avs_client := None\<rparr>) w"

text \<open>On kernels before 2.6.30 the module allocates the client itself.\<close>

definition avs_attach :: "avs_board \<Rightarrow> 'w avs_kernel \<Rightarrow> (avs_core, 'w) avs_op" where
  "avs_attach b K m w =
     (let (p, w) = ak_kzalloc K w in
      case p of
        None \<Rightarrow> avs_return (- AVS_ENOMEM) m w
      | Some client \<Rightarrow> do {
          (err, m, w) \<leftarrow> avs_newprobe b K client m w;
          if err \<noteq> 0 then avs_return err m (ak_kfree K client w)
          else avs_return 0 m (ak_i2c_attach K client w)
        })"

definition avs_detach :: "'w avs_kernel \<Rightarrow> nat \<Rightarrow> (avs_core, 'w) avs_op" where
  "avs_detach K client m w = do {
     (err, m, w) \<leftarrow> avs_remove m w;
     avs_return err m (ak_kfree K client (ak_i2c_detach K client w))
   }"

section \<open>Commands\<close>

text \<open>The boards on which the switch is not driven over I2C.\<close>

definition no_i2c :: "avs_board \<Rightarrow> bool" where
  "no_i2c b \<longleftrightarrow> b \<in> {VIP1_V2, VIP2, SPARK, SPARK7162, HS7110, HS7119, HS7420, HS7429, HS7810A, HS7819, ATEMIO520,
     OPT9600MINI}"

definition avs_command_ioctl ::
  "avs_board \<Rightarrow> 'w avs_kernel \<Rightarrow> nat option \<Rightarrow> u32 \<Rightarrow> u32 \<Rightarrow> (avs_core, 'w) avs_op" where
  "avs_command_ioctl b K client cmd arg m w =
     (if \<not> no_i2c b \<and> client = None then avs_return (-1) m w
      else case devType m of
        AK4705 \<Rightarrow> on_driver c_ak4705 c_ak4705_update (ak4705_command K client cmd arg) m w
      | AK4708 \<Rightarrow> on_driver c_ak4708 c_ak4708_update (ak4708_command K client cmd arg) m w
      | STV6412 \<Rightarrow> on_driver c_stv6412 c_stv6412_update (stv6412_command b K client cmd arg) m w
      | STV6417 \<Rightarrow> on_driver c_stv6417 c_stv6417_update (stv6417_command K client cmd arg) m w
      | STV6418 \<Rightarrow> on_driver c_stv6418 c_stv6418_update (stv6418_command b K client cmd arg) m w
      | STV6419 \<Rightarrow> on_driver c_stv6419 c_stv6419_update (stv6419_command K client cmd arg) m w
      | CXA2161R \<Rightarrow> on_driver c_cxa2161r c_cxa2161r_update (cxa2161r_command K client cmd arg) m w
      | FAKE_AVS \<Rightarrow> on_driver c_fake c_fake_update (fake_avs_command b K cmd arg) m w
      | AVS_NONE \<Rightarrow> avs_none_command cmd arg m w
      | VIP2_AVS \<Rightarrow> on_driver c_vip2 c_vip2_update (vip2_avs_command K cmd arg) m w
      | VIP1_AVS \<Rightarrow> on_driver c_vip1 c_vip1_update (vip1_avs_command K cmd arg) m w
      | AVS_PIO \<Rightarrow> on_driver c_pio c_pio_update (avs_pio_command b K cmd arg) m w
      | _ \<Rightarrow> avs_return 0 m w)"

definition avs_command_kernel :: "avs_board \<Rightarrow> 'w avs_kernel \<Rightarrow> u32 \<Rightarrow> u32 \<Rightarrow> (avs_core, 'w) avs_op" where
  "avs_command_kernel b K cmd arg m w =
     (let client = avs_client m in
      if no_i2c b then
        (case devType m of
           AVS_PIO \<Rightarrow> on_driver c_pio c_pio_update (avs_pio_command_kernel b K cmd arg) m w
         | VIP2_AVS \<Rightarrow> on_driver c_vip2 c_vip2_update (vip2_avs_command_kernel K cmd arg) m w
         | VIP1_AVS \<Rightarrow> on_driver c_vip1 c_vip1_update (vip1_avs_command_kernel K cmd arg) m w
         | _ \<Rightarrow> avs_return 0 m w)
      else if client = None then avs_return (-1) m w
      else case devType m of
        AK4705 \<Rightarrow> on_driver c_ak4705 c_ak4705_update (ak4705_command_kernel K client cmd arg) m w
      | AK4708 \<Rightarrow> on_driver c_ak4708 c_ak4708_update (ak4708_command_kernel K client cmd arg) m w
      | STV6412 \<Rightarrow> on_driver c_stv6412 c_stv6412_update (stv6412_command_kernel b K client cmd arg) m w
      | STV6417 \<Rightarrow> on_driver c_stv6417 c_stv6417_update (stv6417_command_kernel K client cmd arg) m w
      | STV6418 \<Rightarrow> on_driver c_stv6418 c_stv6418_update (stv6418_command_kernel b K client cmd arg) m w
      | STV6419 \<Rightarrow> on_driver c_stv6419 c_stv6419_update (stv6419_command_kernel K client cmd arg) m w
      | CXA2161R \<Rightarrow> on_driver c_cxa2161r c_cxa2161r_update (cxa2161r_command_kernel K client cmd arg) m w
      | FAKE_AVS \<Rightarrow> on_driver c_fake c_fake_update (fake_avs_command_kernel b K cmd arg) m w
      | AVS_NONE \<Rightarrow> avs_none_command cmd arg m w
      | _ \<Rightarrow> avs_return 0 m w)"

definition avs_ioctl :: "avs_board \<Rightarrow> 'w avs_kernel \<Rightarrow> u32 \<Rightarrow> u32 \<Rightarrow> (avs_core, 'w) avs_op" where
  "avs_ioctl b K cmd arg m w = avs_command_ioctl b K (avs_client m) cmd arg m w"

primrec avs_core_call :: "avs_board \<Rightarrow> 'w avs_kernel \<Rightarrow> avs_call \<Rightarrow> (avs_core, 'w) avs_op" where
  "avs_core_call b K (User cmd arg) = avs_ioctl b K cmd arg"
| "avs_core_call b K (Kernel cmd arg) = avs_command_kernel b K cmd arg"

section \<open>Loading and unloading\<close>

definition avs_types :: "(string \<times> avs_type) list" where
  "avs_types = [(''ak4705'', AK4705), (''ak4708'', AK4708), (''stv6412'', STV6412), (''stv6417'', STV6417),
     (''stv6418'', STV6418), (''stv6419'', STV6419), (''cxa2161r'', CXA2161R), (''vip2_avs'', VIP2_AVS),
     (''vip1_avs'', VIP1_AVS), (''fake_avs'', FAKE_AVS), (''avs_pio'', AVS_PIO), (''avs_none'', AVS_NONE)]"

text \<open>
  The detection. A negative \<^verbatim>\<open>kind\<close> takes the type from the module parameter (\<open>None\<close> if it is a null
  pointer), another one is the number of the type. \<^verbatim>\<open>avs_init\<close> calls it with \<open>-1\<close>.
\<close>

definition avs_kinds :: "avs_type list" where
  "avs_kinds = [AK4705, AK4708, STV6412, STV6417, STV6418, STV6419, CXA2161R, VIP2_AVS, VIP1_AVS, FAKE_AVS, AVS_PIO,
     SPARK_AVS, SPARK7162_AVS, AVS_NONE]"

definition avs_detect :: "string option \<Rightarrow> int \<Rightarrow> avs_core \<Rightarrow> int \<times> avs_core" where
  "avs_detect type kind m =
     (case (if kind < 0
            then (case type of None \<Rightarrow> Some AK4705 | Some name \<Rightarrow> map_of avs_types name)
            else if nat kind < length avs_kinds then Some (avs_kinds ! nat kind) else None) of
        None \<Rightarrow> (- AVS_ENODEV, m)
      | Some k \<Rightarrow> if k \<in> snd ` set avs_types then (0, m\<lparr>devType := k\<rparr>) else (- AVS_ENODEV, m))"

text \<open>The I2C core calls the probe function for each client that it has found.\<close>

fun avs_probe_all :: "avs_board \<Rightarrow> 'w avs_kernel \<Rightarrow> nat list \<Rightarrow> avs_core \<Rightarrow> 'w \<Rightarrow> (avs_core \<times> 'w) option" where
  "avs_probe_all b K [] m w = Some (m, w)"
| "avs_probe_all b K (c # cs) m w = do { (r, m, w) \<leftarrow> avs_newprobe b K c m w; avs_probe_all b K cs m w }"

text \<open>Unregistering the driver removes the client.\<close>

definition avs_del_driver :: "'w avs_kernel \<Rightarrow> avs_core \<Rightarrow> 'w \<Rightarrow> avs_core \<times> 'w" where
  "avs_del_driver K m w = (m\<lparr>avs_client := None\<rparr>, ak_i2c_del_driver K w)"

abbreviation i2c_type :: "avs_type \<Rightarrow> bool" where
  "i2c_type t \<equiv> t \<notin> {FAKE_AVS, AVS_NONE, VIP2_AVS, VIP1_AVS, AVS_PIO}"

definition avs_start_driver :: "avs_board \<Rightarrow> 'w avs_kernel \<Rightarrow> (avs_core, 'w) avs_op" where
  "avs_start_driver b K m w =
     (if b \<in> {CUBEREVO_MINI_FTA, CUBEREVO_250HD} then avs_return 0 m w
      else if i2c_type (devType m) then
        (case ak_i2c_add_driver K [normal_i2c b] w of ((res, clients), w) \<Rightarrow>
           if res \<noteq> 0 then avs_return res m w
           else do {
             (m, w) \<leftarrow> avs_probe_all b K clients m w;
             if avs_client m = None
             then (case avs_del_driver K m w of (m, w) \<Rightarrow> avs_return (- AVS_EIO) m w)
             else avs_return 0 m w
           })
      else if devType m = AVS_PIO then do {
        (r, m, w) \<leftarrow> on_driver c_pio c_pio_update (avs_pio_init b K) m w;
        avs_return (if r \<noteq> 0 then - AVS_EIO else 0) m w
      }
      else if devType m = VIP2_AVS then do {
        (r, m, w) \<leftarrow> on_driver c_vip2 c_vip2_update (vip2_avs_init K) m w;
        avs_return (if r \<noteq> 0 then - AVS_EIO else 0) m w
      }
      else if devType m = VIP1_AVS then do {
        (r, m, w) \<leftarrow> on_driver c_vip1 c_vip1_update (vip1_avs_init K) m w;
        avs_return (if r \<noteq> 0 then - AVS_EIO else 0) m w
      }
      else avs_return 0 m w)"

definition avs_init :: "avs_board \<Rightarrow> 'w avs_kernel \<Rightarrow> string option \<Rightarrow> (avs_core, 'w) avs_op" where
  "avs_init b K type m w =
     (case avs_detect type (-1) m of (err, m) \<Rightarrow>
        if err \<noteq> 0 then avs_return err m w
        else do {
          (r, m, w) \<leftarrow> avs_start_driver b K m w;
          if r \<noteq> 0 then avs_return r m w
          else case ak_misc_register K w of (res, w) \<Rightarrow>
            if res < 0 then avs_return (- AVS_EIO) m w else avs_return 0 m w
        })"

definition avs_exit :: "'w avs_kernel \<Rightarrow> avs_core \<Rightarrow> 'w \<Rightarrow> (avs_core \<times> 'w) option" where
  "avs_exit K m w =
     (case avs_del_driver K m (ak_misc_deregister K w) of (m, w) \<Rightarrow>
        if devType m = AVS_PIO then do {
          (r, m, w) \<leftarrow> on_driver c_pio c_pio_update (avs_pio_exit K) m w;
          Some (m, w)
        }
        else Some (m, w))"

text \<open>The variables of a module that has just been loaded into memory.\<close>

definition avs_core_start :: avs_core where
  "avs_core_start =
     \<lparr>devType = AK4705, avs_client = None, c_ak4705 = ak470x_start, c_ak4708 = ak470x_start,
      c_stv6412 = stv6412_start,
      c_stv6417 = stv641x_start, c_stv6418 = stv641x_start, c_stv6419 = stv641x_start, c_cxa2161r = cxa2161r_start,
      c_vip2 = vip2_start,
      c_vip1 = \<lparr>t_mute = 0, t_vol = 0, ft_stnby = 0, scart_tv_sat = None, scart_vcr_det = None, scart_cvbs_rgb = None,
        scart_169_43 = None, scart_mute = None, scart_standby = None\<rparr>,
      c_fake = \<lparr>t_mute = 0, t_vol = 0, ft_stnby = 0, wss_pin = None, vid_pin = None\<rparr>,
      c_pio = avs_pio_start\<rparr>"

section \<open>Which modules answer\<close>

lemma avs_probe_all_found: "avs_client m \<noteq> None \<Longrightarrow> avs_probe_all b K cs m w = Some (m, w)"
  by (induction cs) (auto simp: avs_newprobe_def avs_return_def)

lemma on_driver_SomeD:
  "on_driver get update f m w = Some (r, m', w') \<Longrightarrow> \<exists>s. f (get m) w = Some (r, s, w') \<and> m' = update (\<lambda>_. s) m"
  by (auto simp: on_driver_def bind_eq_Some_conv)

lemma avs_newprobe_devType: "avs_newprobe b K c m w = Some (r, m', w') \<Longrightarrow> devType m' = devType m"
  by (auto simp: avs_newprobe_def avs_return_def avs_none_init_def bind_eq_Some_conv Let_def split: if_splits avs_type.splits
      dest!: on_driver_SomeD)

lemma avs_probe_all_devType: "avs_probe_all b K cs m w = Some (m', w') \<Longrightarrow> devType m' = devType m"
  by (induction cs arbitrary: m w) (auto simp: bind_eq_Some_conv dest: avs_newprobe_devType)

lemma avs_start_driver_client:
  assumes "avs_start_driver b K m w = Some (0, m', w')" "avs_client m = None"
  shows "devType m' = devType m"
    "avs_client m' = None \<longleftrightarrow> b \<in> {CUBEREVO_MINI_FTA, CUBEREVO_250HD} \<or> \<not> i2c_type (devType m)"
  using assms
  by (auto simp: avs_start_driver_def avs_return_def avs_del_driver_def bind_eq_Some_conv
      split: if_splits prod.splits dest!: on_driver_SomeD dest: avs_probe_all_devType)

lemma unknown_command:
  "scart_command_kernel K stores sops AVSIOSET arg s w = avs_return (- AVS_EINVAL) s w"
  "basic_command_kernel K stores bops AVSIOSET arg s' w = avs_return (- AVS_EINVAL) s' w"
  by (simp_all add: kernel_command_def scart_set_def basic_set_def)

lemma avs_unknown_command:
  assumes "avs_client m \<noteq> None" "\<not> no_i2c b"
  shows "\<exists>r. avs_command_kernel b K AVSIOSET 0 m w = Some (r, m, w) \<and> r \<noteq> -1"
  using assms
  by (cases "devType m")
    (auto simp: avs_command_kernel_def Let_def ak4705_command_kernel_def ak4708_command_kernel_def
      stv6412_command_kernel_def stv6417_command_kernel_def stv6418_command_kernel_def stv6419_command_kernel_def
      cxa2161r_command_kernel_def fake_avs_command_kernel_def avs_none_command_def on_driver_def unknown_command avs_return_def)

text \<open>
  Which loaded modules answer: on a board with the switch on the I2C bus, every command of a module that
  was loaded successfully fails with \<open>-1\<close> exactly if the board is one of the two that register nothing,
  or the type is one that does not use the bus; the types \<open>fake_avs\<close> and \<open>avs_none\<close>, meant for boards
  without a switch, are among these.
\<close>

theorem avs_module_dead_iff:
  assumes "avs_init b K type m w = Some (0, m', w')" "avs_client m = None" "\<not> no_i2c b"
  shows "(\<forall>cmd arg. avs_ioctl b K cmd arg m' w' = Some (-1, m', w') \<and>
      avs_command_kernel b K cmd arg m' w' = Some (-1, m', w')) \<longleftrightarrow>
    b \<in> {CUBEREVO_MINI_FTA, CUBEREVO_250HD} \<or> \<not> i2c_type (devType m')"
proof -
  obtain m1 w1 where s: "avs_start_driver b K m1 w = Some (0, m', w1)" "avs_client m1 = None"
    using assms(1, 2)
    by (auto simp: avs_init_def avs_detect_def avs_return_def bind_eq_Some_conv
        split: if_splits prod.splits option.splits)
  show ?thesis
  proof (cases "avs_client m' = None")
    case True
    then show ?thesis
      using avs_start_driver_client [OF s] assms(3) by (simp add: avs_ioctl_def avs_command_ioctl_def avs_command_kernel_def avs_return_def)
  next
    case False
    have "\<exists>r. avs_command_kernel b K AVSIOSET 0 m' w' = Some (r, m', w') \<and> r \<noteq> -1"
      using False assms(3) by (rule avs_unknown_command)
    then show ?thesis using avs_start_driver_client [OF s] False by fastforce
  qed
qed

theorem avs_module_dead_iff_witness:
  "\<exists>m' w'. avs_init UFS922 bench (Some ''avs_none'') avs_core_start [] = Some (0, m', w') \<and>
     (\<forall>cmd arg. avs_ioctl UFS922 bench cmd arg m' w' = Some (-1, m', w') \<and>
        avs_command_kernel UFS922 bench cmd arg m' w' = Some (-1, m', w'))"
proof -
  have "map_option (\<lambda>(r, m, w). (r, devType m)) (avs_init UFS922 bench (Some ''avs_none'') avs_core_start []) = Some (0, AVS_NONE)"
    by code_simp
  then obtain m' w' where i: "avs_init UFS922 bench (Some ''avs_none'') avs_core_start [] = Some (0, m', w')" "devType m' = AVS_NONE"
    by auto
  have "avs_client avs_core_start = None" "\<not> no_i2c UFS922" by (simp_all add: avs_core_start_def no_i2c_def)
  then show ?thesis using avs_module_dead_iff [OF i(1)] i by simp
qed

text \<open>
  The fake driver is never initialised: its probe function is only called for a driver on the bus. On a
  board without I2C the module loads, and a command to enter standby sets a pin through a null pointer.
\<close>

theorem fake_avs_standby_undefined:
  assumes "avs_init b K (Some ''fake_avs'') m w = Some (0, m', w')" "no_i2c b"
    "vid_pin (c_fake m) = None" "ft_stnby (c_fake m) = 0" "fst (ak_from_user K arg w') = Some 1"
  shows "devType m' = FAKE_AVS \<and> c_fake m' = c_fake m \<and> avs_ioctl b K AVSIOSTANDBY arg m' w' = None"
proof -
  have "m' = m\<lparr>devType := FAKE_AVS\<rparr>"
    using assms(1)
    by (auto simp: avs_init_def avs_detect_def avs_types_def avs_start_driver_def avs_return_def bind_eq_Some_conv
        split: if_splits prod.splits)
  moreover have "b \<noteq> ADB_BOX" using assms(2) by (auto simp: no_i2c_def)
  ultimately show ?thesis
    using assms(2-5)
    by (cases "ak_from_user K arg w'")
      (simp add: avs_ioctl_def avs_command_ioctl_def on_driver_def fake_avs_command_def user_command_def basic_set_def
        fake_avs_ops_def fake_avs_standby_def pio_standby_def fake_pin_def stpio_set_pin_def)
qed

theorem fake_avs_standby_undefined_witness:
  "\<exists>m' w'. avs_init HS7110 bench (Some ''fake_avs'') avs_core_start [] = Some (0, m', w') \<and>
     avs_ioctl HS7110 bench AVSIOSTANDBY 1 m' w' = None"
proof -
  have "map_option fst (avs_init HS7110 bench (Some ''fake_avs'') avs_core_start []) = Some 0" by code_simp
  then obtain m' w' where i: "avs_init HS7110 bench (Some ''fake_avs'') avs_core_start [] = Some (0, m', w')" by auto
  have "no_i2c HS7110" "vid_pin (c_fake avs_core_start) = None" "ft_stnby (c_fake avs_core_start) = 0"
    "fst (ak_from_user bench 1 w') = Some 1"
    by (simp_all add: avs_core_start_def no_i2c_def bench_def)
  then show ?thesis using fake_avs_standby_undefined [OF i] i by simp
qed

section \<open>The STV6412 behind the core\<close>

text \<open>Nothing but messages on the bus reaches the chip, so registering the device does not.\<close>

definition stv6412_core :: "avs_board \<Rightarrow> 'w avs_kernel \<Rightarrow> ('w \<Rightarrow> u8 list option) \<Rightarrow> avs_core \<Rightarrow> 'w \<Rightarrow> bool" where
  "stv6412_core b K chip m w \<longleftrightarrow> devType m = STV6412 \<and> shadows K chip (stv6412_message b) (c_stv6412 m) w"

interpretation stv6412_core_calls: avs_calls "avs_core_call b K" "stv6412_core b K chip"
  for b and K :: "'w avs_kernel" and chip
proof
  show "keeps (stv6412_core b K chip) (avs_core_call b K c)" for c
  proof (rule keepsI)
    fix m w r m' w'
    assume I: "stv6412_core b K chip m w" and call: "avs_core_call b K c m w = Some (r, m', w')"
    have "m' = m \<and> w' = w \<or> (\<exists>s. stv6412_call b K (avs_client m) c (c_stv6412 m) w = Some (r, s, w') \<and> m' = m\<lparr>c_stv6412 := s\<rparr>)"
      using I call
      by (cases c) (auto simp: stv6412_core_def avs_ioctl_def avs_command_ioctl_def avs_command_kernel_def Let_def
          avs_return_def split: if_splits dest!: on_driver_SomeD)
    then show "stv6412_core b K chip m' w'"
      using I keepsD [OF stv6412_calls_shadow.call_keeps [of K chip b "avs_client m" c]] by (auto simp: stv6412_core_def)
  qed
qed

lemma stv6412_probe:
  assumes "avs_probe_all b K cs m w = Some (m', w')" "devType m = STV6412" "avs_client m = None" "avs_client m' \<noteq> None"
  shows "stv6412_core b K chip m' w'"
proof (cases cs)
  case (Cons c cs')
  obtain r s w1 where i: "stv6412_init b K (Some c) (c_stv6412 m) w = Some (r, s, w1)"
    using stv6412_set_total [of b K "Some c"] unfolding stv6412_init_def by (metis not_None_eq prod.exhaust)
  then have "avs_newprobe b K c m w = Some (0, m\<lparr>c_stv6412 := s, avs_client := Some c\<rparr>, w1)"
    using assms(2, 3) by (simp add: avs_newprobe_def on_driver_def avs_return_def)
  then have "m' = m\<lparr>c_stv6412 := s, avs_client := Some c\<rparr>" "w' = w1"
    using assms(1) Cons by (auto simp: avs_probe_all_found)
  then show ?thesis
    using assms(2) stv6412_set_shadows [OF i [unfolded stv6412_init_def]] by (simp add: stv6412_core_def)
qed (use assms in auto)

text \<open>
  C18. The STV6412 through the whole module, on the boards that send it the driver's variables: after the
  module has been loaded for it and any sequence of calls of the device file and of the kernel function
  has run, whatever they returned, either the chip holds the bytes of the driver's variables or the last
  transfer was not acknowledged; on a bus without errors the former.
\<close>

theorem avs_module_stv6412:
  assumes "avs_bus K chip" "\<forall>w. chip (snd (ak_misc_register K w)) = chip w"
    "avs_init b K (Some ''stv6412'') m w = Some (0, m0, w0)" "avs_client m = None"
    "b \<notin> {CUBEREVO_MINI_FTA, CUBEREVO_250HD}" "\<not> stv6412_fixed b"
    "avs_run (avs_core_call b K) cs m0 w0 = Some (m', w')"
  shows "devType m' = STV6412 \<and>
    (if chip w' = None then \<not> avs_acks K else chip w' = Some (0 # stv6412_bytes (stv6412_data (c_stv6412 m'))))"
proof -
  obtain w1 res where s: "avs_start_driver b K (m\<lparr>devType := STV6412\<rparr>) w = Some (0, m0, w1)" "ak_misc_register K w1 = (res, w0)"
    using assms(3)
    by (auto simp: avs_init_def avs_detect_def avs_types_def avs_return_def bind_eq_Some_conv
        split: if_splits prod.splits)
  have "stv6412_core b K chip m0 w1"
    using s(1) assms(4, 5)
    by (auto simp: avs_start_driver_def avs_return_def avs_del_driver_def bind_eq_Some_conv
        split: if_splits prod.splits intro!: stv6412_probe)
  then have "stv6412_core b K chip m0 w0" using spec [OF assms(2), of w1] by (simp add: stv6412_core_def shadows_def in_step_def s(2))
  from stv6412_core_calls.run_keeps [OF this assms(7)] show ?thesis
    using assms(1, 6) by (auto simp: stv6412_core_def shadows_def in_step_def stv6412_message_def)
qed

theorem avs_module_stv6412_witness:
  "\<exists>m0 w0 m' w'. avs_init UFS922 bench (Some ''stv6412'') avs_core_start [] = Some (0, m0, w0) \<and>
     avs_run (avs_core_call UFS922 bench) [User AVSIOSVOL 20, Kernel AVSIOSMUTE 1] m0 w0 = Some (m', w') \<and>
     w' = 0 # stv6412_bytes (stv6412_data (c_stv6412 m'))"
proof -
  have "map_option fst (avs_init UFS922 bench (Some ''stv6412'') avs_core_start []) = Some 0" by code_simp
  then obtain m0 w0 where i: "avs_init UFS922 bench (Some ''stv6412'') avs_core_start [] = Some (0, m0, w0)" by auto
  have "do { (r, m0, w0) \<leftarrow> avs_init UFS922 bench (Some ''stv6412'') avs_core_start [];
      avs_run (avs_core_call UFS922 bench) [User AVSIOSVOL 20, Kernel AVSIOSMUTE 1] m0 w0 } \<noteq> None"
    by code_simp
  then obtain m' w' where run: "avs_run (avs_core_call UFS922 bench) [User AVSIOSVOL 20, Kernel AVSIOSMUTE 1] m0 w0 = Some (m', w')"
    by (auto simp: i)
  have "\<forall>w. Some (snd (ak_misc_register bench w)) = Some w" "avs_client avs_core_start = None" "\<not> stv6412_fixed UFS922"
    by (simp_all add: bench_def avs_core_start_def stv6412_fixed_def)
  then show ?thesis using avs_module_stv6412 [OF bench_bus _ i _ _ _ run] i run by auto
qed

end
