(* ===== verification/Bpamem.thy ===== *)
theory Bpamem
  imports Prelude "HOL-Library.Multiset"
begin

text \<open>
  The memory module (\<^verbatim>\<open>src/bpamem/\<close>): 32 device files, each of which stands for one block of memory of the
  BPA2 allocator. The allocator, the accesses to user memory and the kernel's device functions are
  parameters; \<open>unsigned long\<close> has 32 bits. The semaphore makes the search for a free device atomic; calls
  are taken one after the other. \<open>None\<close> is an access outside the array of devices.
\<close>

section \<open>State\<close>

abbreviation MAX_BPA_ALLOCS :: nat where "MAX_BPA_ALLOCS \<equiv> 32"
abbreviation (input) PAGE_SIZE :: u32 where "PAGE_SIZE \<equiv> 4096"
abbreviation (input) PAGE_SHIFT :: nat where "PAGE_SHIFT \<equiv> 12"
abbreviation (input) BPA_EIO :: int where "BPA_EIO \<equiv> 5"
abbreviation (input) BPA_ENOMEM :: int where "BPA_ENOMEM \<equiv> 12"

record bpamem_dev_private =
  used :: bool
  part :: "nat option"
  phys_addr :: u32
  dev_size :: u32

type_synonym bpamem = "bpamem_dev_private list"

record BPAMemAllocMemData =
  bpa_part :: u32
  mem_size :: u32
  device_num :: u32

record BPAMemMapMemData = BPAMemAllocMemData +
  map_phys_addr :: u32

text \<open>
  The two structures are read from and written to user memory (\<open>None\<close> and \<open>True\<close> are faults). A name of a
  partition is the address of a string.
\<close>

record 'w bpa_kernel =
  bk_get_alloc :: "u32 \<Rightarrow> 'w \<Rightarrow> BPAMemAllocMemData option \<times> 'w"
  bk_put_alloc :: "u32 \<Rightarrow> BPAMemAllocMemData \<Rightarrow> 'w \<Rightarrow> bool \<times> 'w"
  bk_get_map :: "u32 \<Rightarrow> 'w \<Rightarrow> BPAMemMapMemData option \<times> 'w"
  bk_put_map :: "u32 \<Rightarrow> BPAMemMapMemData \<Rightarrow> 'w \<Rightarrow> bool \<times> 'w"
  bpa2_find_part :: "u32 \<Rightarrow> 'w \<Rightarrow> nat option \<times> 'w"
  bpa2_alloc_pages :: "nat \<Rightarrow> u32 \<Rightarrow> 'w \<Rightarrow> u32 \<times> 'w"
  bpa2_free_pages :: "nat option \<Rightarrow> u32 \<Rightarrow> 'w \<Rightarrow> 'w"
  io_remap_pfn_range :: "u32 \<Rightarrow> u32 \<Rightarrow> u32 \<Rightarrow> 'w \<Rightarrow> int \<times> 'w"
  bk_register_region :: "'w \<Rightarrow> int \<times> 'w"
  bk_cdev_add :: "'w \<Rightarrow> int \<times> 'w"
  bk_create_devices :: "'w \<Rightarrow> 'w"
  bk_remove_devices :: "'w \<Rightarrow> 'w"

section \<open>Operations\<close>

definition upd :: "nat \<Rightarrow> (bpamem_dev_private \<Rightarrow> bpamem_dev_private) \<Rightarrow> bpamem \<Rightarrow> bpamem" where
  "upd i f s = s[i := f (s ! i)]"

definition find_next_device :: "bpamem \<Rightarrow> u32 \<times> bpamem" where
  "find_next_device s =
     (case List.find (\<lambda>i. \<not> used (s ! i)) [0..<MAX_BPA_ALLOCS] of
        None \<Rightarrow> (-1, s)
      | Some i \<Rightarrow> (word_of_nat i, upd i (used_update (\<lambda>_. True)) s))"

definition round_pages :: "u32 \<Rightarrow> u32" where
  "round_pages n = (if n mod PAGE_SIZE \<noteq> 0 then (n div PAGE_SIZE + 1) * PAGE_SIZE else n)"

text \<open>The pages of a device are freed with its pointer to the partition as it is.\<close>

definition free_block :: "'w bpa_kernel \<Rightarrow> bpamem_dev_private \<Rightarrow> 'w \<Rightarrow> 'w" where
  "free_block K d w = bpa2_free_pages K (part d) (phys_addr d) w"

definition bpamemio_allocmem :: "'w bpa_kernel \<Rightarrow> u32 \<Rightarrow> bpamem \<Rightarrow> 'w \<Rightarrow> int \<times> bpamem \<times> 'w" where
  "bpamemio_allocmem K in_data s w =
     (let (dev, s) = find_next_device s; i = unat dev; release = upd i (used_update (\<lambda>_. False)) in
      if dev = -1 then (-1, s, w)
      else case bk_get_alloc K in_data w of
        (None, w) \<Rightarrow> (-1, release s, w)
      | (Some data, w) \<Rightarrow>
          let data = data\<lparr>device_num := dev, mem_size := round_pages (mem_size data)\<rparr>;
              (p, w) = bpa2_find_part K (bpa_part data) w;
              s = upd i (part_update (\<lambda>_. p)) s in
          case p of
            None \<Rightarrow> (-1, release s, w)
          | Some p \<Rightarrow>
              let (a, w) = bpa2_alloc_pages K p (mem_size data div PAGE_SIZE) w;
                  s = upd i (phys_addr_update (\<lambda>_. a)) s in
              if a = 0 then (- BPA_ENOMEM, release s, w)
              else
                let s = upd i (dev_size_update (\<lambda>_. mem_size data)) s; (fault, w) = bk_put_alloc K in_data data w in
                if fault then (-1, release (upd i (phys_addr_update (\<lambda>_. 0)) s), free_block K (s ! i) w)
                else (0, s, w))"

definition bpamemio_mapmem :: "'w bpa_kernel \<Rightarrow> u32 \<Rightarrow> bpamem \<Rightarrow> 'w \<Rightarrow> int \<times> bpamem \<times> 'w" where
  "bpamemio_mapmem K in_data s w =
     (let (dev, s) = find_next_device s; i = unat dev; release = upd i (used_update (\<lambda>_. False)) in
      if dev = -1 then (-1, s, w)
      else case bk_get_map K in_data w of
        (None, w) \<Rightarrow> (-1, release s, w)
      | (Some data, w) \<Rightarrow>
          let data = data\<lparr>device_num := dev\<rparr>;
              (p, w) = bpa2_find_part K (bpa_part data) w;
              s = upd i (part_update (\<lambda>_. p)) s in
          if p = None then (-1, release s, w)
          else
            let s = upd i (\<lambda>d. d\<lparr>dev_size := mem_size data, phys_addr := map_phys_addr data\<rparr>) s;
                (fault, w) = bk_put_map K in_data data w in
            if fault then (-1, release (upd i (phys_addr_update (\<lambda>_. 0)) s), free_block K (s ! i) w)
            else (0, s, w))"

definition bpamemio_deallocmem :: "'w bpa_kernel \<Rightarrow> nat \<Rightarrow> bpamem \<Rightarrow> 'w \<Rightarrow> (int \<times> bpamem \<times> 'w) option" where
  "bpamemio_deallocmem K dev s w = do {
     d \<leftarrow> arr_get s dev;
     Some (if used d then (0, s[dev := d\<lparr>phys_addr := 0, used := False\<rparr>], free_block K d w) else (0, s, w))
   }"

definition bpamemio_unmapmem :: "nat \<Rightarrow> bpamem \<Rightarrow> 'w \<Rightarrow> (int \<times> bpamem \<times> 'w) option" where
  "bpamemio_unmapmem dev s w = do {
     d \<leftarrow> arr_get s dev;
     Some (if used d then (0, s[dev := d\<lparr>phys_addr := 0, used := False\<rparr>], w) else (0, s, w))
   }"

abbreviation (input) BPAMEMIO_ALLOCMEM :: u32 where "BPAMEMIO_ALLOCMEM \<equiv> 0xC00C9900"
abbreviation (input) BPAMEMIO_FREEMEM :: u32 where "BPAMEMIO_FREEMEM \<equiv> 0x9901"
abbreviation (input) BPAMEMIO_MAPMEM :: u32 where "BPAMEMIO_MAPMEM \<equiv> 0xC0109902"
abbreviation (input) BPAMEMIO_UNMAPMEM :: u32 where "BPAMEMIO_UNMAPMEM \<equiv> 0x9903"

definition bpamem_ioctl :: "'w bpa_kernel \<Rightarrow> nat \<Rightarrow> u32 \<Rightarrow> u32 \<Rightarrow> bpamem \<Rightarrow> 'w \<Rightarrow> (int \<times> bpamem \<times> 'w) option" where
  "bpamem_ioctl K dev ioctl_num ioctl_param s w =
     (if ioctl_num = BPAMEMIO_ALLOCMEM then Some (bpamemio_allocmem K ioctl_param s w)
      else if ioctl_num = BPAMEMIO_MAPMEM then Some (bpamemio_mapmem K ioctl_param s w)
      else if ioctl_num = BPAMEMIO_FREEMEM then bpamemio_deallocmem K dev s w
      else if ioctl_num = BPAMEMIO_UNMAPMEM then bpamemio_unmapmem dev s w
      else Some (-1, s, w))"

text \<open>
  The mapping: \<open>vm_start\<close>, \<open>vm_end\<close> and \<open>vm_pgoff\<close> are the fields of the area. The flags of the area are
  left out.
\<close>

definition bpamem_mmap :: "'w bpa_kernel \<Rightarrow> nat \<Rightarrow> u32 \<Rightarrow> u32 \<Rightarrow> u32 \<Rightarrow> bpamem \<Rightarrow> 'w \<Rightarrow> (int \<times> 'w) option" where
  "bpamem_mmap K dev vm_start vm_end vm_pgoff s w = do {
     d \<leftarrow> arr_get s dev;
     Some (if used d \<and> phys_addr d = 0 then (-1, w)
       else
         let start = phys_addr d + push_bit PAGE_SHIFT vm_pgoff;
             (r, w) = io_remap_pfn_range K vm_start (drop_bit PAGE_SHIFT start) (vm_end - vm_start) w in
         if r \<noteq> 0 then (- BPA_EIO, w) else (0, w))
   }"

section \<open>Loading and unloading\<close>

definition bpamem_init :: "'w bpa_kernel \<Rightarrow> bpamem \<Rightarrow> 'w \<Rightarrow> int \<times> bpamem \<times> 'w" where
  "bpamem_init K s w =
     (let s = map (\<lambda>d. d\<lparr>used := False, phys_addr := 0\<rparr>) s; (result, w) = bk_register_region K w in
      if result < 0 then (result, s, w)
      else
        let (r, w) = bk_cdev_add K w in
        if r < 0 then (-1, s, w) else (result, s, bk_create_devices K w))"

fun dealloc_all :: "'w bpa_kernel \<Rightarrow> nat list \<Rightarrow> bpamem \<Rightarrow> 'w \<Rightarrow> (bpamem \<times> 'w) option" where
  "dealloc_all K [] s w = Some (s, w)"
| "dealloc_all K (i # is) s w = do { (r, s, w) \<leftarrow> bpamemio_deallocmem K i s w; dealloc_all K is s w }"

definition bpamem_exit :: "'w bpa_kernel \<Rightarrow> bpamem \<Rightarrow> 'w \<Rightarrow> (bpamem \<times> 'w) option" where
  "bpamem_exit K s w = do {
     (s, w) \<leftarrow> dealloc_all K [0..<MAX_BPA_ALLOCS] s w;
     Some (s, bk_remove_devices K w)
   }"

text \<open>Calls on the device files, one after the other.\<close>

datatype bpa_call = Ioctl nat u32 u32 | Mmap nat u32 u32 u32

primrec bpa_step :: "'w bpa_kernel \<Rightarrow> bpa_call \<Rightarrow> bpamem \<Rightarrow> 'w \<Rightarrow> (bpamem \<times> 'w) option" where
  "bpa_step K (Ioctl dev num param) s w = map_option snd (bpamem_ioctl K dev num param s w)"
| "bpa_step K (Mmap dev a e off) s w = map_option (\<lambda>(r, w). (s, w)) (bpamem_mmap K dev a e off s w)"

fun bpa_run :: "'w bpa_kernel \<Rightarrow> bpa_call list \<Rightarrow> bpamem \<Rightarrow> 'w \<Rightarrow> (bpamem \<times> 'w) option" where
  "bpa_run K [] s w = Some (s, w)"
| "bpa_run K (c # cs) s w = do { (s, w) \<leftarrow> bpa_step K c s w; bpa_run K cs s w }"

section \<open>Devices\<close>

lemma find_next_device_None: "\<forall>i < MAX_BPA_ALLOCS. used (s ! i) \<Longrightarrow> find_next_device s = (-1, s)"
proof -
  assume "\<forall>i < MAX_BPA_ALLOCS. used (s ! i)"
  then have "List.find (\<lambda>i. \<not> used (s ! i)) [0..<MAX_BPA_ALLOCS] = None" by (simp add: find_None_iff)
  then show ?thesis by (simp add: find_next_device_def)
qed

lemma find_next_device_full: "find_next_device s = (-1, s') \<Longrightarrow> \<forall>i < MAX_BPA_ALLOCS. used (s ! i)"
proof (rule ccontr)
  assume f: "find_next_device s = (-1, s')" and "\<not> (\<forall>i < MAX_BPA_ALLOCS. used (s ! i))"
  then obtain i where i: "List.find (\<lambda>i. \<not> used (s ! i)) [0..<MAX_BPA_ALLOCS] = Some i" "i < MAX_BPA_ALLOCS"
    by (cases "List.find (\<lambda>i. \<not> used (s ! i)) [0..<MAX_BPA_ALLOCS]") (auto simp: find_None_iff find_Some_iff)
  then have "unat (word_of_nat i :: u32) = unat (- 1 :: u32)" using f by (simp add: find_next_device_def)
  then show False using i(2) by (simp add: unat_of_nat unsigned_minus_1_eq_mask mask_eq_exp_minus_1)
qed

lemma find_next_device_Some:
  assumes "find_next_device s = (dev, s')" "dev \<noteq> -1"
  shows "\<exists>i < MAX_BPA_ALLOCS. unat dev = i \<and> \<not> used (s ! i) \<and> (\<forall>j < i. used (s ! j)) \<and>
    s' = upd i (used_update (\<lambda>_. True)) s"
proof -
  obtain i where f: "List.find (\<lambda>i. \<not> used (s ! i)) [0..<MAX_BPA_ALLOCS] = Some i"
    and d: "dev = word_of_nat i" "s' = upd i (used_update (\<lambda>_. True)) s"
    using assms by (auto simp: find_next_device_def split: option.splits)
  from f have i: "i < MAX_BPA_ALLOCS" "\<not> used (s ! i)" "\<forall>j < i. used (s ! j)"
    by (auto simp: find_Some_iff)
  then show ?thesis using d by (auto simp: unat_of_nat)
qed

text \<open>A device that is not used has no address.\<close>

definition bpa_inv :: "bpamem \<Rightarrow> bool" where
  "bpa_inv s \<longleftrightarrow> length s = MAX_BPA_ALLOCS \<and> (\<forall>d \<in> set s. \<not> used d \<longrightarrow> phys_addr d = 0)"

lemma bpa_inv_update: "bpa_inv s \<Longrightarrow> used d \<or> phys_addr d = 0 \<Longrightarrow> bpa_inv (s[i := d])"
  by (auto simp: bpa_inv_def dest!: set_update_subset_insert [THEN subsetD])

lemma bpa_inv_nth: "bpa_inv s \<Longrightarrow> i < MAX_BPA_ALLOCS \<Longrightarrow> \<not> used (s ! i) \<Longrightarrow> phys_addr (s ! i) = 0"
  by (simp add: bpa_inv_def)

text \<open>The blocks of the devices in use, and the laws of the allocator: \<open>live\<close> are the blocks handed out.\<close>

definition block :: "bpamem_dev_private \<Rightarrow> (nat option \<times> u32) multiset" where
  "block d = (if used d then {#(part d, phys_addr d)#} else {#})"

definition blocks :: "bpamem \<Rightarrow> (nat option \<times> u32) multiset" where
  "blocks s = sum_list (map block s)"

definition bpa2_laws :: "'w bpa_kernel \<Rightarrow> ('w \<Rightarrow> (nat option \<times> u32) multiset) \<Rightarrow> bool" where
  "bpa2_laws K live \<longleftrightarrow>
     (\<forall>p n w. live (snd (bpa2_alloc_pages K p n w)) =
        live w + (if fst (bpa2_alloc_pages K p n w) = 0 then {#} else {#(Some p, fst (bpa2_alloc_pages K p n w))#})) \<and>
     (\<forall>p a w. live (bpa2_free_pages K p a w) = live w - {#(p, a)#}) \<and>
     (\<forall>p w. live (snd (bk_get_alloc K p w)) = live w) \<and>
     (\<forall>p d w. live (snd (bk_put_alloc K p d w)) = live w) \<and>
     (\<forall>p w. live (snd (bk_get_map K p w)) = live w) \<and>
     (\<forall>p d w. live (snd (bk_put_map K p d w)) = live w) \<and>
     (\<forall>p w. live (snd (bpa2_find_part K p w)) = live w) \<and>
     (\<forall>a n l w. live (snd (io_remap_pfn_range K a n l w)) = live w) \<and>
     (\<forall>w. live (snd (bk_register_region K w)) = live w) \<and> (\<forall>w. live (snd (bk_cdev_add K w)) = live w) \<and>
     (\<forall>w. live (bk_create_devices K w) = live w) \<and> (\<forall>w. live (bk_remove_devices K w) = live w)"

lemma sum_list_map_update:
  fixes f :: "'a \<Rightarrow> 'b::comm_monoid_add"
  shows "i < length xs \<Longrightarrow> sum_list (map f (xs[i := x])) + f (xs ! i) = sum_list (map f xs) + f x"
proof (induction xs arbitrary: i)
  case (Cons y ys)
  then show ?case by (cases i) (simp_all add: ac_simps)
qed simp

lemma blocks_update: "i < length s \<Longrightarrow> blocks (s[i := d]) + block (s ! i) = blocks s + block d"
  unfolding blocks_def by (rule sum_list_map_update)

lemma bpa2_lawsD:
  assumes "bpa2_laws K live"
  shows "bpa2_alloc_pages K q n w = (a, w') \<Longrightarrow> live w' = live w + (if a = 0 then {#} else {#(Some q, a)#})"
    "live (bpa2_free_pages K q' a' w) = live w - {#(q', a')#}"
    "bk_get_alloc K p w = (x, w') \<Longrightarrow> live w' = live w" "bk_put_alloc K p d w = (y, w') \<Longrightarrow> live w' = live w"
    "bk_get_map K p w = (z, w') \<Longrightarrow> live w' = live w" "bk_put_map K p d' w = (y, w') \<Longrightarrow> live w' = live w"
    "bpa2_find_part K p w = (v, w') \<Longrightarrow> live w' = live w"
    "io_remap_pfn_range K p n l w = (r, w') \<Longrightarrow> live w' = live w"
    "bk_register_region K w = (r, w') \<Longrightarrow> live w' = live w" "bk_cdev_add K w = (r, w') \<Longrightarrow> live w' = live w"
    "live (bk_create_devices K w) = live w" "live (bk_remove_devices K w) = live w"
  using assms unfolding bpa2_laws_def by (metis fst_conv snd_conv)+

lemmas bpa2_frame = bpa2_lawsD(3-12)

text \<open>
  What an allocation does: either nothing is free, or the first free device is overwritten; it is in use
  exactly on success, and then stands for the one block that was handed out.
\<close>

lemma allocmem_result:
  assumes "bpamemio_allocmem K p s w = (r, s', w')" "bpa_inv s"
  shows "(r = -1 \<and> s' = s \<and> w' = w \<and> (\<forall>i < MAX_BPA_ALLOCS. used (s ! i))) \<or>
    (\<exists>i < MAX_BPA_ALLOCS. \<exists>d. \<not> used (s ! i) \<and> (\<forall>j < i. used (s ! j)) \<and> s' = s[i := d] \<and>
       (used d \<longleftrightarrow> r = 0) \<and> (\<not> used d \<longrightarrow> phys_addr d = 0) \<and>
       (r = 0 \<longrightarrow> phys_addr d \<noteq> 0 \<and> part d \<noteq> None \<and>
          (\<exists>data w1. bk_get_alloc K p w = (Some data, w1) \<and> dev_size d = round_pages (mem_size data))) \<and>
       (\<forall>live. bpa2_laws K live \<longrightarrow> live w' = live w + block d))"
proof -
  obtain dev s1 where f: "find_next_device s = (dev, s1)" by (cases "find_next_device s")
  show ?thesis
  proof (cases "dev = -1")
    case True
    have "s1 = s" using f True find_next_device_None [OF find_next_device_full] by force
    then show ?thesis using assms(1) f True find_next_device_full by (auto simp: bpamemio_allocmem_def)
  next
    case False
    then obtain i where i: "i < MAX_BPA_ALLOCS" "unat dev = i" "\<not> used (s ! i)" "\<forall>j < i. used (s ! j)"
        "s1 = upd i (used_update (\<lambda>_. True)) s"
      using find_next_device_Some [OF f] by blast
    have len: "length s = MAX_BPA_ALLOCS" "phys_addr (s ! i) = 0" using assms(2) i by (auto simp: bpa_inv_def)
    show ?thesis
      using assms(1) False i len
      by (intro disjI2 exI [of _ i] conjI, simp, intro exI [of _ "s' ! i"])
        (auto simp: bpamemio_allocmem_def f upd_def Let_def block_def free_block_def bpa2_lawsD
          split: prod.splits option.splits if_splits)
  qed
qed

lemma mapmem_result:
  assumes "bpamemio_mapmem K p s w = (r, s', w')" "bpa_inv s"
  shows "(r = -1 \<and> s' = s) \<or>
    (\<exists>i < MAX_BPA_ALLOCS. \<exists>d. \<not> used (s ! i) \<and> (\<forall>j < i. used (s ! j)) \<and> s' = s[i := d] \<and>
       (used d \<longleftrightarrow> r = 0) \<and> (\<not> used d \<longrightarrow> phys_addr d = 0) \<and>
       (r = 0 \<longrightarrow> (\<exists>data w1. bk_get_map K p w = (Some data, w1) \<and> phys_addr d = map_phys_addr data \<and>
          part d = fst (bpa2_find_part K (bpa_part data) w1))))"
proof -
  obtain dev s1 where f: "find_next_device s = (dev, s1)" by (cases "find_next_device s")
  show ?thesis
  proof (cases "dev = -1")
    case True
    have "s1 = s" using f True find_next_device_None [OF find_next_device_full] by force
    then show ?thesis using assms(1) f True by (auto simp: bpamemio_mapmem_def)
  next
    case False
    then obtain i where i: "i < MAX_BPA_ALLOCS" "unat dev = i" "\<not> used (s ! i)" "\<forall>j < i. used (s ! j)"
        "s1 = upd i (used_update (\<lambda>_. True)) s"
      using find_next_device_Some [OF f] by blast
    have len: "length s = MAX_BPA_ALLOCS" "phys_addr (s ! i) = 0" using assms(2) i by (auto simp: bpa_inv_def)
    show ?thesis
      using assms(1) False i len
      by (intro disjI2 exI [of _ i] conjI, simp, intro exI [of _ "s' ! i"])
        (auto simp: bpamemio_mapmem_def f upd_def Let_def split: prod.splits option.splits if_splits)
  qed
qed

lemma bpa_ioctl_inv: "bpamem_ioctl K dev num p s w = Some (r, s', w') \<Longrightarrow> bpa_inv s \<Longrightarrow> bpa_inv s'"
  by (auto simp: bpamem_ioctl_def bpamemio_deallocmem_def bpamemio_unmapmem_def bind_eq_Some_conv bpa_inv_update
      split: if_splits dest!: allocmem_result mapmem_result)

lemma bpa_step_inv: "bpa_step K c s w = Some (s', w') \<Longrightarrow> bpa_inv s \<Longrightarrow> bpa_inv s'"
  by (cases c) (auto dest: bpa_ioctl_inv)

lemma bpa_run_inv: "bpa_run K cs s w = Some (s', w') \<Longrightarrow> bpa_inv s \<Longrightarrow> bpa_inv s'"
  by (induction cs arbitrary: s w) (auto simp: bind_eq_Some_conv dest: bpa_step_inv)

lemma bpa_init_inv: "bpamem_init K s w = (r, s', w') \<Longrightarrow> length s = MAX_BPA_ALLOCS \<Longrightarrow> bpa_inv s' \<and> blocks s' = {#}"
  by (auto simp: bpamem_init_def bpa_inv_def blocks_def block_def Let_def comp_def sum_list_0 split: prod.splits if_splits)

text \<open>
  C32. Mapping an unused device: after the module has been loaded and any sequence of calls, the mapping of
  a device that is not in use is not refused: it maps the physical pages from the page offset of the
  request on (its low 20 bits), whatever memory that is.
\<close>

theorem bpamem_mmap_unused:
  assumes "length s = MAX_BPA_ALLOCS" "bpamem_init K s w = (r, s0, w0)" "bpa_run K cs s0 w0 = Some (s', w')"
    "dev < MAX_BPA_ALLOCS" "\<not> used (s' ! dev)"
  shows "bpamem_mmap K dev vm_start vm_end vm_pgoff s' w' =
    Some (let (r, w) = io_remap_pfn_range K vm_start (take_bit 20 vm_pgoff) (vm_end - vm_start) w' in
      (if r \<noteq> 0 then - BPA_EIO else 0, w))"
proof -
  have inv: "bpa_inv s'" using bpa_run_inv [OF assms(3)] bpa_init_inv [OF assms(2, 1)] by blast
  then have "arr_get s' dev = Some (s' ! dev)" "phys_addr (s' ! dev) = 0"
    using assms(4, 5) by (auto simp: arr_get_def bpa_inv_def)
  moreover have "drop_bit 12 (push_bit 12 vm_pgoff) = take_bit 20 vm_pgoff"
    by (rule bit_word_eqI) (auto simp: bit_simps)
  ultimately show ?thesis
    using assms(5) by (simp add: bpamem_mmap_def) (simp split: prod.splits)
qed

section \<open>Blocks\<close>

text \<open>
  \<^verbatim>\<open>MAPMEM\<close> makes a device stand for memory that was not allocated; the other calls handle blocks of the
  allocator. Of these, \<^verbatim>\<open>UNMAPMEM\<close> gives up the block of a device in use without freeing it:
  \<open>lost_blocks\<close> collects what a sequence of calls loses in this way.
\<close>

primrec is_mapmem :: "bpa_call \<Rightarrow> bool" where
  "is_mapmem (Ioctl dev num param) \<longleftrightarrow> num = BPAMEMIO_MAPMEM"
| "is_mapmem (Mmap dev a e off) \<longleftrightarrow> False"

primrec lost_by :: "bpa_call \<Rightarrow> bpamem \<Rightarrow> (nat option \<times> u32) multiset" where
  "lost_by (Ioctl dev num param) s = (if num = BPAMEMIO_UNMAPMEM \<and> dev < length s then block (s ! dev) else {#})"
| "lost_by (Mmap dev a e off) s = {#}"

fun lost_blocks :: "'w bpa_kernel \<Rightarrow> bpa_call list \<Rightarrow> bpamem \<Rightarrow> 'w \<Rightarrow> (nat option \<times> u32) multiset" where
  "lost_blocks K [] s w = {#}"
| "lost_blocks K (c # cs) s w =
     lost_by c s + (case bpa_step K c s w of None \<Rightarrow> {#} | Some (s, w) \<Rightarrow> lost_blocks K cs s w)"

lemma dealloc_blocks:
  assumes "bpa2_laws K live" "live w = B + blocks s" "bpamemio_deallocmem K i s w = Some (r, s', w')"
  shows "live w' = B + blocks s'" "\<not> used (s' ! i)" "\<forall>j. j \<noteq> i \<longrightarrow> s' ! j = s ! j" "length s' = length s"
proof -
  have i: "i < length s" using assms(3) by (auto simp: bpamemio_deallocmem_def arr_simps bind_eq_Some_conv)
  show "live w' = B + blocks s'"
  proof (cases "used (s ! i)")
    case True
    then have s': "s' = s[i := (s ! i)\<lparr>phys_addr := 0, used := False\<rparr>]" "w' = free_block K (s ! i) w"
      using assms(3) i by (simp_all add: bpamemio_deallocmem_def arr_get_def)
    have "blocks s = blocks s' + {#(part (s ! i), phys_addr (s ! i))#}"
      using blocks_update [OF i, of "(s ! i)\<lparr>phys_addr := 0, used := False\<rparr>"] True by (simp add: s' block_def)
    then show ?thesis using assms(2) bpa2_lawsD(2) [OF assms(1)] by (simp add: s' free_block_def)
  qed (use assms i in \<open>simp add: bpamemio_deallocmem_def arr_get_def\<close>)
  show "\<not> used (s' ! i)" "\<forall>j. j \<noteq> i \<longrightarrow> s' ! j = s ! j" "length s' = length s"
    using assms(3) i by (auto simp: bpamemio_deallocmem_def arr_get_def split: if_splits)
qed

lemma alloc_blocks:
  assumes "bpa2_laws K live" "live w = B + blocks s" "bpa_inv s" "bpamemio_allocmem K p s w = (r, s', w')"
  shows "live w' = B + blocks s'"
proof -
  have "blocks (s[i := d]) = blocks s + block d" if "i < MAX_BPA_ALLOCS" "\<not> used (s ! i)" for i d
    using blocks_update [of i s d] that assms(3) by (simp add: block_def bpa_inv_def)
  then show ?thesis using allocmem_result [OF assms(4, 3)] assms(1, 2) by (auto simp: add.assoc)
qed

lemma unmap_blocks:
  assumes "live w = B + blocks s" "bpamemio_unmapmem i s w = Some (r, s', w')"
  shows "live w' = B + block (s ! i) + blocks s'"
proof -
  have i: "i < length s" using assms(2) by (auto simp: bpamemio_unmapmem_def arr_simps bind_eq_Some_conv)
  show ?thesis
  proof (cases "used (s ! i)")
    case True
    then have s': "s' = s[i := (s ! i)\<lparr>phys_addr := 0, used := False\<rparr>]" "w' = w"
      using assms(2) i by (simp_all add: bpamemio_unmapmem_def arr_get_def)
    have "blocks s = blocks s' + block (s ! i)"
      using blocks_update [OF i, of "(s ! i)\<lparr>phys_addr := 0, used := False\<rparr>"] by (simp add: s' block_def)
    then show ?thesis using assms(1) by (simp add: s' ac_simps)
  qed (use assms i in \<open>simp add: bpamemio_unmapmem_def arr_get_def block_def\<close>)
qed

lemma step_blocks:
  assumes "bpa2_laws K live" "live w = B + blocks s" "bpa_inv s" "\<not> is_mapmem c" "bpa_step K c s w = Some (s', w')"
  shows "live w' = B + lost_by c s + blocks s'"
proof (cases c)
  case (Ioctl dev num p)
  have "dev < length s" if "bpamemio_unmapmem dev s w = Some (r, s', w')" for r
    using that by (auto simp: bpamemio_unmapmem_def arr_simps bind_eq_Some_conv)
  then show ?thesis
    using assms(4, 5) alloc_blocks [OF assms(1-3)] dealloc_blocks(1) [OF assms(1, 2)] unmap_blocks [of live w B s, OF assms(2)] assms(2) Ioctl
    by (auto simp: bpamem_ioctl_def split: if_splits)
next
  case (Mmap dev a e off)
  then show ?thesis
    using assms(2, 5)
    by (auto simp: bpamem_mmap_def bind_eq_Some_conv Let_def bpa2_lawsD(8) [OF assms(1)] split: prod.splits if_splits)
qed

lemma run_blocks:
  "bpa2_laws K live \<Longrightarrow> live w = B + blocks s \<Longrightarrow> bpa_inv s \<Longrightarrow> \<forall>c \<in> set cs. \<not> is_mapmem c \<Longrightarrow>
     bpa_run K cs s w = Some (s', w') \<Longrightarrow> live w' = B + lost_blocks K cs s w + blocks s'"
proof (induction cs arbitrary: s w B)
  case (Cons c cs)
  then obtain s1 w1 where c: "bpa_step K c s w = Some (s1, w1)" "bpa_run K cs s1 w1 = Some (s', w')"
    by (auto simp: bind_eq_Some_conv)
  have "live w1 = B + lost_by c s + blocks s1" by (rule step_blocks [OF Cons.prems(1-3) _ c(1)]) (use Cons.prems in simp)
  from Cons.IH [OF Cons.prems(1) this bpa_step_inv [OF c(1) Cons.prems(3)]] Cons.prems(4) c
  show ?case by (simp add: add.assoc)
qed simp

lemma no_unmap_no_loss:
  "\<forall>c \<in> set cs. \<forall>dev param. c \<noteq> Ioctl dev BPAMEMIO_UNMAPMEM param \<Longrightarrow> lost_blocks K cs s w = {#}"
proof (induction cs arbitrary: s w)
  case (Cons c cs)
  have "lost_by c s = {#}" using Cons.prems by (cases c) auto
  then show ?case using Cons by (auto split: option.splits)
qed simp

lemma lost_blocks_snoc:
  "lost_blocks K (cs @ [c]) s w =
     lost_blocks K cs s w + (case bpa_run K cs s w of None \<Rightarrow> {#} | Some (s', w') \<Rightarrow> lost_by c s')"
  by (induction cs arbitrary: s w) (auto split: option.splits)

text \<open>Unloading frees the blocks of all devices.\<close>

lemma dealloc_all_blocks:
  assumes "bpa2_laws K live"
  shows "live w = B + blocks s \<Longrightarrow> \<forall>i \<in> set is. i < length s \<Longrightarrow>
    \<exists>s' w'. dealloc_all K is s w = Some (s', w') \<and> live w' = B + blocks s' \<and> length s' = length s \<and>
      (\<forall>i < length s. i \<in> set is \<or> \<not> used (s ! i) \<longrightarrow> \<not> used (s' ! i))"
proof (induction "is" arbitrary: s w)
  case (Cons i "is")
  obtain r s1 w1 where d: "bpamemio_deallocmem K i s w = Some (r, s1, w1)"
    using Cons.prems(2) by (fastforce simp: bpamemio_deallocmem_def arr_get_def)
  note d1 = dealloc_blocks [OF assms Cons.prems(1) d]
  obtain s' w' where "dealloc_all K is s1 w1 = Some (s', w')" "live w' = B + blocks s'" "length s' = length s1"
      "\<forall>i < length s1. i \<in> set is \<or> \<not> used (s1 ! i) \<longrightarrow> \<not> used (s' ! i)"
    using Cons.IH [OF d1(1)] Cons.prems(2) d1(4) by auto
  moreover have "\<not> used (s' ! j)" if "j < length s" "j \<in> set (i # is) \<or> \<not> used (s ! j)" for j
    using that calculation(4) d1(2-4) by (cases "j = i") auto
  ultimately show ?case using d d1(4) by simp
qed simp

text \<open>
  C12. The blocks are accounted for: from the loading of the module over any sequence of calls without
  \<^verbatim>\<open>MAPMEM\<close>, whatever fails in them, the blocks that the allocator has handed out are those from before,
  those of the devices in use and those that \<^verbatim>\<open>UNMAPMEM\<close> took from a device in use; unloading the module
  frees all but the last ones. A client that does not call \<^verbatim>\<open>UNMAPMEM\<close> loses nothing.
\<close>

theorem bpamem_blocks_accounted:
  assumes "bpa2_laws K live" "length s = MAX_BPA_ALLOCS" "bpamem_init K s w = (r, s0, w0)"
    "\<forall>c \<in> set cs. \<not> is_mapmem c" "bpa_run K cs s0 w0 = Some (s', w')" "L = lost_blocks K cs s0 w0"
  shows "live w' = live w + L + blocks s' \<and> (\<exists>s'' w''. bpamem_exit K s' w' = Some (s'', w'') \<and> live w'' = live w + L) \<and>
    ((\<forall>c \<in> set cs. \<forall>dev param. c \<noteq> Ioctl dev BPAMEMIO_UNMAPMEM param) \<longrightarrow> L = {#})"
proof (intro conjI)
  have init: "bpa_inv s0" "blocks s0 = {#}" using bpa_init_inv [OF assms(3, 2)] by auto
  have "live w0 = live w"
    using assms(3) by (auto simp: bpamem_init_def Let_def bpa2_lawsD [OF assms(1)] split: prod.splits if_splits)
  then show l: "live w' = live w + L + blocks s'"
    unfolding assms(6) by (intro run_blocks [OF assms(1) _ init(1) assms(4, 5)]) (simp add: init)
  have len: "length s' = MAX_BPA_ALLOCS" using bpa_run_inv [OF assms(5) init(1)] by (simp add: bpa_inv_def)
  obtain s'' w'' where d: "dealloc_all K [0..<MAX_BPA_ALLOCS] s' w' = Some (s'', w'')" "live w'' = live w + L + blocks s''"
      "length s'' = length s'" "\<forall>i < length s'. \<not> used (s'' ! i)"
    using dealloc_all_blocks [OF assms(1) l, of "[0..<MAX_BPA_ALLOCS]"] len by auto
  have "map block s'' = replicate (length s'') {#}"
    by (rule nth_equalityI) (use d(3, 4) in \<open>auto simp: block_def\<close>)
  moreover have "sum_list (replicate n {#}) = {#}" for n by (induction n) simp_all
  ultimately have "blocks s'' = {#}" by (simp add: blocks_def)
  then show "\<exists>s'' w''. bpamem_exit K s' w' = Some (s'', w'') \<and> live w'' = live w + L"
    using d(1, 2) by (simp add: bpamem_exit_def bpa2_lawsD(12) [OF assms(1)])
  show "(\<forall>c \<in> set cs. \<forall>dev param. c \<noteq> Ioctl dev BPAMEMIO_UNMAPMEM param) \<longrightarrow> L = {#}"
    unfolding assms(6) by (rule impI) (erule no_unmap_no_loss)
qed

section \<open>A kernel\<close>

text \<open>
  An allocator to evaluate the module on: the world is the next free address and the blocks handed out.
  Every request names the partition 1; the memory to map is at \<open>0x1000\<close>.
\<close>

definition bpa_bench :: "(u32 \<times> (nat option \<times> u32) multiset) bpa_kernel" where
  "bpa_bench =
     \<lparr>bk_get_alloc = (\<lambda>p w. (Some \<lparr>bpa_part = 0, mem_size = p, device_num = 0\<rparr>, w)),
      bk_put_alloc = (\<lambda>p d w. (False, w)),
      bk_get_map = (\<lambda>p w. (Some \<lparr>bpa_part = 0, mem_size = p, device_num = 0, map_phys_addr = 0x1000\<rparr>, w)),
      bk_put_map = (\<lambda>p d w. (False, w)),
      bpa2_find_part = (\<lambda>n w. (Some 1, w)),
      bpa2_alloc_pages = (\<lambda>p n (a, l). (a, (a + n * 4096, l + (if a = 0 then {#} else {#(Some p, a)#})))),
      bpa2_free_pages = (\<lambda>p a (n, l). (n, l - {#(p, a)#})),
      io_remap_pfn_range = (\<lambda>a n l w. (0, w)), bk_register_region = (\<lambda>w. (0, w)), bk_cdev_add = (\<lambda>w. (0, w)),
      bk_create_devices = (\<lambda>w. w), bk_remove_devices = (\<lambda>w. w)\<rparr>"

definition bpa_start :: bpamem where
  "bpa_start = replicate MAX_BPA_ALLOCS \<lparr>used = False, part = None, phys_addr = 0, dev_size = 0\<rparr>"

lemma bpa_bench_laws: "bpa2_laws bpa_bench snd"
  by (simp add: bpa2_laws_def bpa_bench_def split: prod.split)

lemma bpa_bench_init: "bpamem_init bpa_bench bpa_start w = (0, bpa_start, w)"
  by (simp add: bpamem_init_def bpa_bench_def bpa_start_def)

text \<open>Two blocks are allocated, of which the first is freed and the second is lost.\<close>

theorem bpamem_blocks_accounted_witness:
  "\<exists>s' w'. bpa_run bpa_bench [Ioctl 0 BPAMEMIO_ALLOCMEM 5000, Ioctl 0 BPAMEMIO_ALLOCMEM 1, Ioctl 0 BPAMEMIO_FREEMEM 0,
         Ioctl 1 BPAMEMIO_UNMAPMEM 0] bpa_start (0x8000, {#}) = Some (s', w') \<and>
     (\<exists>s'' w''. bpamem_exit bpa_bench s' w' = Some (s'', w'') \<and> snd w'' = {#(Some 1, 0xA000)#})"
proof -
  let ?cs = "[Ioctl 0 BPAMEMIO_ALLOCMEM 5000, Ioctl 0 BPAMEMIO_ALLOCMEM 1, Ioctl 0 BPAMEMIO_FREEMEM 0, Ioctl 1 BPAMEMIO_UNMAPMEM 0]"
  have "bpa_run bpa_bench ?cs bpa_start (0x8000, {#}) \<noteq> None" by code_simp
  then obtain s' w' where run: "bpa_run bpa_bench ?cs bpa_start (0x8000, {#}) = Some (s', w')" by auto
  have "map_option (\<lambda>(s, w). (length s, used (s ! 1), part (s ! 1), phys_addr (s ! 1)))
      (bpa_run bpa_bench (butlast ?cs) bpa_start (0x8000, {#})) = Some (32, True, Some 1, 0xA000)" by code_simp
  then have "lost_blocks bpa_bench (butlast ?cs @ [last ?cs]) bpa_start (0x8000, {#}) = {#(Some 1, 0xA000)#}"
    unfolding lost_blocks_snoc by (subst no_unmap_no_loss) (auto simp: block_def simp del: bpa_run.simps)
  then have "lost_blocks bpa_bench ?cs bpa_start (0x8000, {#}) = {#(Some 1, 0xA000)#}"
    by (simp del: lost_blocks.simps)
  moreover have "length bpa_start = MAX_BPA_ALLOCS" "\<forall>c \<in> set ?cs. \<not> is_mapmem c" by (simp_all add: bpa_start_def)
  ultimately show ?thesis
    using bpamem_blocks_accounted [OF bpa_bench_laws _ bpa_bench_init _ run refl] run by auto
qed

theorem bpamem_mmap_unused_witness:
  "bpamem_mmap bpa_bench 3 0 0x2000 0x50000 bpa_start (0x8000, {#}) = Some (0, (0x8000, {#}))"
proof -
  let ?w = "(0x8000, {#}) :: u32 \<times> (nat option \<times> u32) multiset"
  have "length bpa_start = MAX_BPA_ALLOCS" "bpa_run bpa_bench [] bpa_start ?w = Some (bpa_start, ?w)"
    "3 < MAX_BPA_ALLOCS" "\<not> used (bpa_start ! 3)"
    by (simp_all add: bpa_start_def)
  from bpamem_mmap_unused [OF this(1) bpa_bench_init this(2-4), of 0 "0x2000" "0x50000"]
  show ?thesis by (simp add: bpa_bench_def)
qed

section \<open>Single calls\<close>

text \<open>
  A successful allocation: it takes the first device that is not in use, changes no other one, and gives
  it a block of the requested size rounded up to whole pages. It fails before anything else exactly if
  all 32 devices are in use.
\<close>

theorem bpamem_alloc_first_free:
  assumes "bpa_inv s" "bpamemio_allocmem K p s w = (r, s', w')"
  shows "(r = 0 \<longrightarrow> (\<exists>i < MAX_BPA_ALLOCS. \<exists>d data w1. \<not> used (s ! i) \<and> (\<forall>j < i. used (s ! j)) \<and> s' = s[i := d] \<and> used d \<and>
      phys_addr d \<noteq> 0 \<and> bk_get_alloc K p w = (Some data, w1) \<and> dev_size d = round_pages (mem_size data))) \<and>
    ((\<forall>i < MAX_BPA_ALLOCS. used (s ! i)) \<longrightarrow> r = -1 \<and> s' = s \<and> w' = w)"
  using allocmem_result [OF assms(2, 1)] by auto

text \<open>
  Rounding to whole pages: the result is a multiple of the page size; a request up to \<open>0xFFFFF000\<close> grows by
  less than a page, a larger one becomes 0.
\<close>

theorem round_pages_bounds:
  "uint (round_pages n) =
    (if uint n \<le> 0xFFFFF000 then (uint n + 4095) div 4096 * 4096 else 0)"
proof -
  have n: "0 \<le> uint n" "uint n < 4294967296" using uint_lt2p [of n] by simp_all
  have m: "n mod 4096 = 0 \<longleftrightarrow> uint n mod 4096 = 0" by (simp add: word_uint_eq_iff uint_mod)
  have r: "uint ((n div 4096 + 1) * 4096) = (uint n div 4096 + 1) * 4096 mod 4294967296"
    by (simp add: uint_word_ariths uint_div mod_simps)
  show ?thesis
  proof (cases "uint n mod 4096 = 0")
    case True
    then obtain q where q: "uint n = 4096 * q" by auto
    then show ?thesis using n m by (simp add: round_pages_def)
  next
    case False
    define q k where "q = uint n div 4096" and "k = uint n mod 4096"
    have qk: "uint n = 4096 * q + k" "0 < k" "k < 4096" "0 \<le> q" "q \<le> 1048575"
      using False n by (simp_all add: q_def k_def pos_imp_zdiv_nonneg_iff pos_mod_bound pos_mod_sign order.not_eq_order_implies_strict)
    have up: "(uint n + 4095) div 4096 = q + 1" using qk by simp
    have "uint (round_pages n) = (q + 1) * 4096 mod 4294967296"
      using False m r by (simp add: round_pages_def q_def)
    also have "\<dots> = (if uint n \<le> 0xFFFFF000 then (q + 1) * 4096 else 0)"
    proof (cases "q = 1048575")
      case False
      then show ?thesis using qk by simp
    qed (use qk in simp)
    finally show ?thesis unfolding up .
  qed
qed

text \<open>
  Releasing a mapped device frees memory that was never allocated: after a successful \<^verbatim>\<open>MAPMEM\<close> the command
  \<^verbatim>\<open>FREEMEM\<close> on that device gives the address chosen by the caller to the allocator.
\<close>

theorem bpamem_free_foreign:
  assumes "bpa_inv s" "bpamemio_mapmem K p s w = (0, s', w')"
  shows "\<exists>i < MAX_BPA_ALLOCS. \<exists>data w1 s''. bk_get_map K p w = (Some data, w1) \<and> \<not> used (s ! i) \<and>
    bpamem_ioctl K i BPAMEMIO_FREEMEM arg s' w' =
      Some (0, s'', bpa2_free_pages K (fst (bpa2_find_part K (bpa_part data) w1)) (map_phys_addr data) w')"
proof -
  obtain i d data w1 where *: "i < MAX_BPA_ALLOCS" "\<not> used (s ! i)" "s' = s[i := d]" "used d"
      "bk_get_map K p w = (Some data, w1)" "phys_addr d = map_phys_addr data"
      "part d = fst (bpa2_find_part K (bpa_part data) w1)"
    using mapmem_result [OF assms(2, 1)] by auto
  moreover have "i < length s'" "s' ! i = d" using assms(1) * by (simp_all add: bpa_inv_def)
  ultimately show ?thesis
    by (intro exI [of _ i] conjI exI [of _ data] exI [of _ w1])
      (auto simp: bpamem_ioctl_def bpamemio_deallocmem_def arr_get_def free_block_def)
qed

theorem bpamem_free_foreign_witness:
  "\<exists>s' w' i s''. bpamemio_mapmem bpa_bench 0 bpa_start (0, {#(Some 1, 0x1000)#}) = (0, s', w') \<and>
     bpamem_ioctl bpa_bench i BPAMEMIO_FREEMEM 0 s' w' = Some (0, s'', (0, {#}))"
proof -
  have "fst (bpamemio_mapmem bpa_bench 0 bpa_start (0, {#(Some 1, 0x1000)#})) = 0"
    "snd (snd (bpamemio_mapmem bpa_bench 0 bpa_start (0, {#(Some 1, 0x1000)#}))) = (0, {#(Some 1, 0x1000)#})"
    by code_simp+
  then obtain s' where m: "bpamemio_mapmem bpa_bench 0 bpa_start (0, {#(Some 1, 0x1000)#}) = (0, s', (0, {#(Some 1, 0x1000)#}))"
    by (metis prod.collapse)
  have "bpa_inv bpa_start" by (simp add: bpa_inv_def bpa_start_def)
  from bpamem_free_foreign [OF this m, of 0] show ?thesis using m by (auto simp: bpa_bench_def)
qed

end
