(* ===== verification/Rfmod.thy ===== *)
theory Rfmod
  imports Prelude
begin
unbundle bit_operations_syntax

text \<open>
  The driver of the RF modulator (\<^verbatim>\<open>src/rfmod/\<close>): the chip XXX74T1 (\<^verbatim>\<open>74t1.c\<close>) and the module (\<^verbatim>\<open>rfmod_core.c\<close>).
  The I2C core, user memory and the character device are parameters. Debug output is left out; \<^verbatim>\<open>int\<close>
  is \<open>int\<close>, and the one sum that can leave its 32 bits is wrapped.
\<close>

section \<open>State\<close>

text \<open>The four bytes to send to the chip (\<^verbatim>\<open>byte[0]\<close> to \<^verbatim>\<open>byte[3]\<close>), and the variables of the module.\<close>

record rfmod =
  rf_c1 :: u8
  rf_c2 :: u8
  rf_pb1 :: u8
  rf_pb2 :: u8
  base_video_carrier :: int
  rfmod_client :: "nat option"

record 'w rf_kernel =
  rk_send :: "nat option \<Rightarrow> u8 list \<Rightarrow> 'w \<Rightarrow> int \<times> 'w"
  rk_recv :: "nat option \<Rightarrow> 'w \<Rightarrow> (int \<times> u8) \<times> 'w"
  rk_msleep :: "nat \<Rightarrow> 'w \<Rightarrow> 'w"
  rk_from_user :: "u32 \<Rightarrow> 'w \<Rightarrow> int option \<times> 'w"
  rk_add_driver :: "u16 list \<Rightarrow> 'w \<Rightarrow> (int \<times> nat list) \<times> 'w"
  rk_del_driver :: "'w \<Rightarrow> 'w"
  rk_register_chrdev :: "'w \<Rightarrow> int \<times> 'w"
  rk_unregister_chrdev :: "'w \<Rightarrow> 'w"

type_synonym 'w rf_op = "rfmod \<Rightarrow> 'w \<Rightarrow> int \<times> rfmod \<times> 'w"

abbreviation (input) RF_EIO :: int where "RF_EIO \<equiv> 5"
abbreviation (input) RF_EFAULT :: int where "RF_EFAULT \<equiv> 14"
abbreviation (input) RF_ENODEV :: int where "RF_ENODEV \<equiv> 19"
abbreviation (input) RF_EREMOTEIO :: int where "RF_EREMOTEIO \<equiv> 121"

abbreviation (input) BIT74T1_SO :: u8 where "BIT74T1_SO \<equiv> 0x20"
abbreviation (input) BIT74T1_PS :: u8 where "BIT74T1_PS \<equiv> 0x08"
abbreviation (input) BIT74T1_X3 :: u8 where "BIT74T1_X3 \<equiv> 0x04"
abbreviation (input) BIT74T1_X2 :: u8 where "BIT74T1_X2 \<equiv> 0x02"
abbreviation (input) BIT74T1_PWC :: u8 where "BIT74T1_PWC \<equiv> 0x80"
abbreviation (input) BIT74T1_OSC :: u8 where "BIT74T1_OSC \<equiv> 0x40"
abbreviation (input) BIT74T1_ATT :: u8 where "BIT74T1_ATT \<equiv> 0x20"
abbreviation (input) BIT74T1_SFD1 :: u8 where "BIT74T1_SFD1 \<equiv> 0x10"
abbreviation (input) BIT74T1_SFD0 :: u8 where "BIT74T1_SFD0 \<equiv> 0x08"
abbreviation (input) BIT74T1_TPEN :: u8 where "BIT74T1_TPEN \<equiv> 0x40"

section \<open>The chip\<close>

definition xxx_74t1_read :: "'w rf_kernel \<Rightarrow> nat option \<Rightarrow> 'w \<Rightarrow> u8 \<times> 'w" where
  "xxx_74t1_read K client w = (let ((n, b), w) = rk_recv K client w in (if n \<noteq> 1 then -1 else b, w))"

definition xxx_74t1_write_2bytes :: "'w rf_kernel \<Rightarrow> nat option \<Rightarrow> u8 \<Rightarrow> u8 \<Rightarrow> 'w \<Rightarrow> int \<times> 'w" where
  "xxx_74t1_write_2bytes K client byte1 byte2 w =
     (let (err, w) = rk_send K client [byte1, byte2] w in (if err \<noteq> 2 then - RF_EREMOTEIO else 0, w))"

definition write_c :: "'w rf_kernel \<Rightarrow> nat option \<Rightarrow> rfmod \<Rightarrow> 'w \<Rightarrow> int \<times> 'w" where
  "write_c K client s w = xxx_74t1_write_2bytes K client (rf_c1 s) (rf_c2 s) w"

definition write_pb :: "'w rf_kernel \<Rightarrow> nat option \<Rightarrow> rfmod \<Rightarrow> 'w \<Rightarrow> int \<times> 'w" where
  "write_pb K client s w = xxx_74t1_write_2bytes K client (rf_pb1 s) (rf_pb2 s) w"

text \<open>\<open>N\<close> is shifted arithmetically and cut to a byte; the status is read and only printed.\<close>

definition carrier_bytes :: "int \<Rightarrow> rfmod \<Rightarrow> rfmod" where
  "carrier_bytes N s = s\<lparr>rf_pb1 := (rf_pb1 s AND BIT74T1_TPEN) OR word_of_int (drop_bit 6 N),
     rf_pb2 := word_of_int (push_bit 2 (N AND 0x3f)), rf_c1 := rf_c1 s AND NOT (BIT74T1_X3 + BIT74T1_X2)\<rparr>"

definition xxx_74t1_set_video_carrier_freq :: "'w rf_kernel \<Rightarrow> nat option \<Rightarrow> int \<Rightarrow> 'w rf_op" where
  "xxx_74t1_set_video_carrier_freq K client N s w =
     (let s = carrier_bytes N s;
          (res, w) = write_pb K client s w;
          w = rk_msleep K 300 w;
          (res', w) = write_c K client s w;
          (status, w) = xxx_74t1_read K client w in
      (res OR res', s, w))"

definition conv_chan_2_freq :: "int \<Rightarrow> int" where
  "conv_chan_2_freq channel = (channel - 21) * 8000 + 471250"

definition xxx_74t1_calc_N_from_freq :: "int \<Rightarrow> int" where
  "xxx_74t1_calc_N_from_freq freq =
     (if freq < 471250 \<or> freq > 855250 then -1 else push_bit 2 freq div 1000)"

definition xxx_74t1_calc_N_from_channel :: "int \<Rightarrow> rfmod \<Rightarrow> int \<times> rfmod" where
  "xxx_74t1_calc_N_from_channel channel s =
     (let channel = (if channel < 21 then 21 else channel); channel = (if channel > 69 then 69 else channel);
          freq = conv_chan_2_freq channel; N = xxx_74t1_calc_N_from_freq freq in
      (if N < 0 then 2365 else N, s\<lparr>base_video_carrier := freq\<rparr>))"

definition set_audiocarrier_bits :: "int \<Rightarrow> rfmod \<Rightarrow> rfmod" where
  "set_audiocarrier_bits audiocarrier s =
     s\<lparr>rf_c2 := (rf_c2 s AND NOT (BIT74T1_SFD1 + BIT74T1_SFD0)) OR word_of_int (push_bit 3 (audiocarrier AND 3))\<rparr>"

definition xxx_74t1_set_channel :: "'w rf_kernel \<Rightarrow> nat option \<Rightarrow> int \<Rightarrow> 'w rf_op" where
  "xxx_74t1_set_channel K client channel s w =
     (let (N, s) = xxx_74t1_calc_N_from_channel channel s in xxx_74t1_set_video_carrier_freq K client N s w)"

definition xxx_74t1_set_testmode :: "'w rf_kernel \<Rightarrow> nat option \<Rightarrow> int \<Rightarrow> 'w rf_op" where
  "xxx_74t1_set_testmode K client testmode s w =
     (let s = s\<lparr>rf_pb1 := (if testmode \<noteq> 0 then rf_pb1 s OR BIT74T1_TPEN else rf_pb1 s AND NOT BIT74T1_TPEN)\<rparr>;
          (r, w) = write_pb K client s w in
      (r, s, w))"

definition xxx_74t1_set_audioenable :: "'w rf_kernel \<Rightarrow> nat option \<Rightarrow> int \<Rightarrow> 'w rf_op" where
  "xxx_74t1_set_audioenable K client enable s w =
     (let s = s\<lparr>rf_c1 := (if enable \<noteq> 0 then rf_c1 s AND NOT BIT74T1_SO else rf_c1 s OR BIT74T1_SO)\<rparr>;
          (r, w) = write_c K client s w in
      (r, s, w))"

definition xxx_74t1_set_audiocarrier :: "'w rf_kernel \<Rightarrow> nat option \<Rightarrow> int \<Rightarrow> 'w rf_op" where
  "xxx_74t1_set_audiocarrier K client audiocarrier s w =
     (let s = set_audiocarrier_bits audiocarrier s; (r, w) = write_c K client s w in (r, s, w))"

definition xxx_74t1_finetune :: "'w rf_kernel \<Rightarrow> nat option \<Rightarrow> int \<Rightarrow> 'w rf_op" where
  "xxx_74t1_finetune K client finetune s w =
     (let N = xxx_74t1_calc_N_from_freq (base_video_carrier s);
          (N, s) = (if N < 0 then xxx_74t1_calc_N_from_channel 36 s else (N, s));
          NewN = signed_take_bit 31 (N + finetune) in
      xxx_74t1_set_video_carrier_freq K client NewN s w)"

definition xxx_74t1_set_standby :: "'w rf_kernel \<Rightarrow> nat option \<Rightarrow> int \<Rightarrow> 'w rf_op" where
  "xxx_74t1_set_standby K client standby s w =
     (if standby \<noteq> 0 then
        let s = s\<lparr>rf_c2 := (rf_c2 s AND NOT BIT74T1_OSC) OR BIT74T1_ATT, rf_c1 := rf_c1 s OR BIT74T1_SO\<rparr>;
            (r, w) = write_c K client s w in
        (r, s, w)
      else
        let s = s\<lparr>rf_c2 := (rf_c2 s OR BIT74T1_OSC) AND NOT BIT74T1_ATT, rf_c1 := rf_c1 s AND NOT BIT74T1_SO\<rparr>;
            (r, w) = write_c K client s w;
            (r', w) = write_pb K client s w in
        (r OR r', s, rk_msleep K 300 w))"

text \<open>
  The \<^verbatim>\<open>switch\<close> of the commands, and the two entry points, which are the same. Every other command succeeds and
  does nothing.
\<close>

definition xxx_74t1_command :: "'w rf_kernel \<Rightarrow> nat option \<Rightarrow> u32 \<Rightarrow> int \<Rightarrow> 'w rf_op" where
  "xxx_74t1_command K client cmd val s w =
     (if cmd = 0 then xxx_74t1_set_channel K client val s w
      else if cmd = 1 then xxx_74t1_set_testmode K client val s w
      else if cmd = 2 then xxx_74t1_set_audioenable K client val s w
      else if cmd = 3 then xxx_74t1_set_audiocarrier K client val s w
      else if cmd = 4 then xxx_74t1_finetune K client val s w
      else if cmd = 5 then xxx_74t1_set_standby K client val s w
      else (0, s, w))"

definition xxx_74t1_ioctl :: "'w rf_kernel \<Rightarrow> nat option \<Rightarrow> u32 \<Rightarrow> u32 \<Rightarrow> 'w rf_op" where
  "xxx_74t1_ioctl K client cmd arg s w =
     (case rk_from_user K arg w of
        (None, w) \<Rightarrow> (- RF_EFAULT, s, w)
      | (Some val, w) \<Rightarrow> xxx_74t1_command K client cmd val s w)"

definition xxx_74t1_init :: "'w rf_kernel \<Rightarrow> nat option \<Rightarrow> 'w rf_op" where
  "xxx_74t1_init K client s w =
     (let s = s\<lparr>rf_c1 := (0x80 OR BIT74T1_SO OR BIT74T1_PS) AND NOT BIT74T1_X3 AND NOT BIT74T1_X2,
                rf_c2 := BIT74T1_PWC OR BIT74T1_ATT, rf_pb1 := 0, rf_pb2 := 0\<rparr>;
          s = set_audiocarrier_bits 1 s;
          (res, w) = write_c K client s w;
          (N, s) = xxx_74t1_calc_N_from_channel 36 s in
      xxx_74t1_set_video_carrier_freq K client N s w)"

section \<open>The module\<close>

text \<open>There is one type, so the selection by the type is a single case.\<close>

definition rfmod_newprobe :: "'w rf_kernel \<Rightarrow> nat \<Rightarrow> 'w rf_op" where
  "rfmod_newprobe K client s w =
     (if rfmod_client s \<noteq> None then (- RF_ENODEV, s, w)
      else let (r, s, w) = xxx_74t1_init K (Some client) s w in (0, s\<lparr>rfmod_client := Some client\<rparr>, w))"

definition rfmod_remove :: "rfmod \<Rightarrow> rfmod" where
  "rfmod_remove s = s\<lparr>rfmod_client := None\<rparr>"

definition rfmod_ioctl :: "'w rf_kernel \<Rightarrow> u32 \<Rightarrow> u32 \<Rightarrow> 'w rf_op" where
  "rfmod_ioctl K cmd arg s w = xxx_74t1_ioctl K (rfmod_client s) cmd arg s w"

definition rfmod_detect :: "string option \<Rightarrow> int \<Rightarrow> int" where
  "rfmod_detect type kind =
     (let kind = (if kind < 0 then (if type = None \<or> type = Some ''74t1'' then Some 0 else None) else Some kind) in
      if kind = Some 0 then 0 else - RF_ENODEV)"

fun rfmod_probe_all :: "'w rf_kernel \<Rightarrow> nat list \<Rightarrow> rfmod \<Rightarrow> 'w \<Rightarrow> rfmod \<times> 'w" where
  "rfmod_probe_all K [] s w = (s, w)"
| "rfmod_probe_all K (c # cs) s w = (let (r, s, w) = rfmod_newprobe K c s w in rfmod_probe_all K cs s w)"

definition rfmod_init :: "'w rf_kernel \<Rightarrow> string option \<Rightarrow> 'w rf_op" where
  "rfmod_init K type s w =
     (let err = rfmod_detect type (-1) in
      if err \<noteq> 0 then (err, s, w)
      else case rk_add_driver K [0x65] w of ((res, clients), w) \<Rightarrow>
        if res \<noteq> 0 then (res, s, w)
        else
          let (s, w) = rfmod_probe_all K clients s w in
          if rfmod_client s = None then (- RF_EIO, rfmod_remove s, rk_del_driver K w)
          else case rk_register_chrdev K w of (r, w) \<Rightarrow>
            if r < 0 then (- RF_EIO, rfmod_remove s, rk_del_driver K w) else (0, s, w))"

definition rfmod_exit :: "'w rf_kernel \<Rightarrow> rfmod \<Rightarrow> 'w \<Rightarrow> rfmod \<times> 'w" where
  "rfmod_exit K s w = (rfmod_remove s, rk_del_driver K (rk_unregister_chrdev K w))"

text \<open>Commands with the values that have been read for them, one after the other.\<close>

fun rfmod_run :: "'w rf_kernel \<Rightarrow> (u32 \<times> int) list \<Rightarrow> rfmod \<Rightarrow> 'w \<Rightarrow> rfmod \<times> 'w" where
  "rfmod_run K [] s w = (s, w)"
| "rfmod_run K ((cmd, val) # cs) s w =
     (let (r, s, w) = xxx_74t1_command K (rfmod_client s) cmd val s w in rfmod_run K cs s w)"

section \<open>Channels\<close>

text \<open>The divider that the two port bytes hold; the carrier is a quarter of it in MHz.\<close>

definition divider :: "rfmod \<Rightarrow> int" where
  "divider s = uint (rf_pb1 s AND 0x3f) * 64 + uint (rf_pb2 s) div 4"

definition clamp_channel :: "int \<Rightarrow> int" where
  "clamp_channel ch = max 21 (min 69 ch)"

lemma calc_N_from_channel:
  "xxx_74t1_calc_N_from_channel ch s =
     (1885 + 32 * (clamp_channel ch - 21), s\<lparr>base_video_carrier := 471250 + 8000 * (clamp_channel ch - 21)\<rparr>)"
proof -
  define c where "c = clamp_channel ch"
  have c: "21 \<le> c" "c \<le> 69" "(if (if ch < 21 then 21 else ch) > 69 then 69 else (if ch < 21 then 21 else ch)) = c"
    by (auto simp: c_def clamp_channel_def)
  have "push_bit 2 (conv_chan_2_freq c) div 1000 = 1885 + 32 * (c - 21)"
  proof -
    have "push_bit 2 (conv_chan_2_freq c) = 1000 * (1885 + 32 * (c - 21))"
      by (simp add: conv_chan_2_freq_def push_bit_eq_mult)
    then show ?thesis by simp
  qed
  then show ?thesis
    unfolding xxx_74t1_calc_N_from_channel_def Let_def c(3) c_def [symmetric] xxx_74t1_calc_N_from_freq_def
    using c(1, 2) by (simp add: conv_chan_2_freq_def)
qed

text \<open>The bytes hold the low twelve bits of \<open>N\<close>; its bits 12 and 13 go to \<^verbatim>\<open>TPEN\<close> and to the marker of the byte.\<close>

lemma rf_masks: "(3 :: u8) = mask 2" "(0x3f :: u8) = mask 6" "(0x3f :: int) = mask 6"
  by (simp_all add: mask_numeral)

lemma bit_TPEN: "bit (0x40 :: nat) n \<longleftrightarrow> n = 6" "bit (0x40 :: int) n \<longleftrightarrow> n = 6"
  using bit_exp_iff [of 6 n, where ?'a = nat] bit_exp_iff [of 6 n, where ?'a = int] by (simp_all add: eq_commute)

lemma carrier_bits:
  "bit (rf_pb1 (carrier_bytes N s)) 6 \<longleftrightarrow> bit (rf_pb1 s) 6 \<or> bit N 12"
  "bit (rf_pb1 (carrier_bytes N s)) 7 \<longleftrightarrow> bit N 13"
  "bit (rf_c1 (carrier_bytes N s)) 7 = bit (rf_c1 s) 7"
  unfolding carrier_bytes_def by (simp_all add: bit_simps bit_TPEN)

lemma carrier_low_bits: "rf_pb2 (carrier_bytes N s) AND 3 = 0"
  unfolding carrier_bytes_def rf_masks by (rule bit_word_eqI) (simp add: bit_simps)

lemma carrier_divider: "divider (carrier_bytes N s) = take_bit 12 N"
proof -
  have "rf_pb1 (carrier_bytes N s) AND 0x3f = word_of_int (take_bit 6 (drop_bit 6 N))"
    unfolding carrier_bytes_def rf_masks by (rule bit_word_eqI) (auto simp: bit_simps bit_TPEN)
  then have hi: "uint (rf_pb1 (carrier_bytes N s) AND 0x3f) = N div 64 mod 64"
    by (simp add: uint_word_of_int take_bit_eq_mod drop_bit_eq_div)
  have "N AND 0x3f = N mod 64" unfolding rf_masks by (simp add: take_bit_eq_mask [symmetric] take_bit_eq_mod)
  then have "rf_pb2 (carrier_bytes N s) = word_of_int (N mod 64 * 4)"
    by (simp add: carrier_bytes_def push_bit_eq_mult)
  also have "uint (word_of_int (N mod 64 * 4) :: u8) = N mod 64 * 4"
    unfolding uint_word_of_int using pos_mod_bound [of 64 N] by (intro mod_pos_pos_trivial) simp_all
  finally have "uint (rf_pb2 (carrier_bytes N s)) = N mod 64 * 4" .
  then show ?thesis
    using zmod_zmult2_eq [of 64 N 64] by (simp add: divider_def hi take_bit_eq_mod)
qed

text \<open>
  C27. Setting a channel: whatever the state and the result of the transfers, the divider in the bytes is that
  of the video carrier of the channel (471.25 MHz for channel 21 and 8 MHz for each further one; a channel
  outside 21 to 69 is taken to the next one inside), the test pattern stays as it is, and the first byte is
  marked as a port byte.
\<close>

theorem rfmod_set_channel:
  "case xxx_74t1_set_channel K client ch s w of (r, s', w') \<Rightarrow>
     250 * divider s' = 471250 + 8000 * (clamp_channel ch - 21) \<and> base_video_carrier s' = 250 * divider s' \<and>
     (bit (rf_pb1 s') 6 \<longleftrightarrow> bit (rf_pb1 s) 6) \<and> \<not> bit (rf_pb1 s') 7 \<and> rf_pb2 s' AND 3 = 0"
proof -
  define N where "N = 1885 + 32 * (clamp_channel ch - 21)"
  let ?s = "s\<lparr>base_video_carrier := 471250 + 8000 * (clamp_channel ch - 21)\<rparr>"
  have N: "1885 \<le> N" "N \<le> 3421" by (auto simp: N_def clamp_channel_def)
  have "take_bit 12 N = N" "\<not> bit N 12" "\<not> bit N 13"
    using N by (simp_all add: take_bit_eq_mod bit_iff_odd)
  moreover have "fst (snd (xxx_74t1_set_channel K client ch s w)) = carrier_bytes N ?s"
    by (simp add: xxx_74t1_set_channel_def calc_N_from_channel xxx_74t1_set_video_carrier_freq_def N_def Let_def split: prod.split)
  ultimately show ?thesis
    by (auto simp: carrier_divider carrier_bits carrier_low_bits N_def split: prod.split)
      (simp_all add: carrier_bytes_def)
qed

section \<open>The bytes in the chip\<close>

text \<open>
  The chip takes two bytes as its control bytes if the first one has its highest bit set, and as its port
  bytes otherwise; nothing else changes them.
\<close>

type_synonym rf_chip = "u8 \<times> u8 \<times> u8 \<times> u8"

fun receive :: "u8 \<Rightarrow> u8 \<Rightarrow> rf_chip \<Rightarrow> rf_chip" where
  "receive a b (c1, c2, p1, p2) = (if bit a 7 then (a, b, p1, p2) else (c1, c2, a, b))"

definition rf_bus :: "'w rf_kernel \<Rightarrow> ('w \<Rightarrow> rf_chip) \<Rightarrow> bool" where
  "rf_bus K chip \<longleftrightarrow>
     (\<forall>client a b w. chip (snd (rk_send K client [a, b] w)) = receive a b (chip w)) \<and>
     (\<forall>client w. chip (snd (rk_recv K client w)) = chip w) \<and> (\<forall>n w. chip (rk_msleep K n w) = chip w)"

definition rf_bytes :: "rfmod \<Rightarrow> rf_chip" where
  "rf_bytes s = (rf_c1 s, rf_c2 s, rf_pb1 s, rf_pb2 s)"

lemma rf_write:
  assumes "rf_bus K chip"
  shows "chip (snd (write_c K client s w)) = receive (rf_c1 s) (rf_c2 s) (chip w)"
    "chip (snd (write_pb K client s w)) = receive (rf_pb1 s) (rf_pb2 s) (chip w)"
    "chip (snd (xxx_74t1_read K client w)) = chip w" "chip (rk_msleep K n w) = chip w"
  using assms by (simp_all add: rf_bus_def write_c_def write_pb_def xxx_74t1_write_2bytes_def xxx_74t1_read_def
      case_prod_beta)

text \<open>The bytes are in the chip, each pair has its marker, and the base carrier is that of a channel.\<close>

definition rf_inv :: "('w \<Rightarrow> rf_chip) \<Rightarrow> rfmod \<Rightarrow> 'w \<Rightarrow> bool" where
  "rf_inv chip s w \<longleftrightarrow> chip w = rf_bytes s \<and> bit (rf_c1 s) 7 \<and> \<not> bit (rf_pb1 s) 7 \<and>
     (\<exists>ch. 21 \<le> ch \<and> ch \<le> 69 \<and> base_video_carrier s = 471250 + 8000 * (ch - 21))"

text \<open>
  A carrier is programmed exactly if bit 13 of \<open>N\<close> is clear; otherwise the port bytes are taken for control
  bytes, which the control bytes that follow overwrite.
\<close>

lemma carrier_chip:
  assumes "rf_bus K chip" "bit (rf_c1 s) 7" "chip w = (c1, c2, p1, p2)"
    "xxx_74t1_set_video_carrier_freq K client N s w = (r, s', w')"
  shows "s' = carrier_bytes N s"
    "chip w' = (if bit N 13 then (rf_c1 s', rf_c2 s', p1, p2) else rf_bytes s')"
proof -
  show s': "s' = carrier_bytes N s"
    using assms(4) by (auto simp: xxx_74t1_set_video_carrier_freq_def Let_def case_prod_beta)
  have "chip w' = receive (rf_c1 s') (rf_c2 s') (receive (rf_pb1 s') (rf_pb2 s') (chip w))"
    using assms(4) by (auto simp: xxx_74t1_set_video_carrier_freq_def Let_def case_prod_beta rf_write [OF assms(1)])
  then show "chip w' = (if bit N 13 then (rf_c1 s', rf_c2 s', p1, p2) else rf_bytes s')"
    using assms(2) by (simp add: s' assms(3) carrier_bits rf_bytes_def)
qed

lemma bit_13_range: "0 \<le> N \<Longrightarrow> N < 8192 \<Longrightarrow> \<not> bit (N :: int) 13"
  by (simp add: bit_iff_odd)

lemma calc_N_of_channel:
  "21 \<le> ch \<Longrightarrow> ch \<le> 69 \<Longrightarrow> xxx_74t1_calc_N_from_freq (471250 + 8000 * (ch - 21)) = 1885 + 32 * (ch - 21)"
proof -
  assume ch: "21 \<le> ch" "ch \<le> 69"
  have "push_bit 2 (471250 + 8000 * (ch - 21)) = 1000 * (1885 + 32 * (ch - 21))" by (simp add: push_bit_eq_mult)
  then show ?thesis using ch by (simp add: xxx_74t1_calc_N_from_freq_def)
qed

lemma set_carrier_inv:
  assumes "rf_bus K chip" "rf_inv chip s w" "0 \<le> N" "N < 8192" "xxx_74t1_set_video_carrier_freq K client N s w = (r, s', w')"
  shows "rf_inv chip s' w'"
proof -
  have N: "\<not> bit N 13" using assms(3, 4) by (rule bit_13_range)
  have c: "bit (rf_c1 s) 7" "chip w = (rf_c1 s, rf_c2 s, rf_pb1 s, rf_pb2 s)"
    using assms(2) by (simp_all add: rf_inv_def rf_bytes_def)
  have s': "s' = carrier_bytes N s" by (rule carrier_chip(1) [OF assms(1) c assms(5)])
  have "chip w' = rf_bytes s'" using carrier_chip(2) [OF assms(1) c assms(5)] N by simp
  then show ?thesis using assms(2) N by (simp add: rf_inv_def s' carrier_bits) (simp add: carrier_bytes_def)
qed

lemma set_channel_inv:
  assumes "rf_bus K chip" "rf_inv chip s w" "xxx_74t1_set_channel K client ch s w = (r, s', w')"
  shows "rf_inv chip s' w'"
proof -
  let ?s = "s\<lparr>base_video_carrier := 471250 + 8000 * (clamp_channel ch - 21)\<rparr>"
  have ch: "21 \<le> clamp_channel ch" "clamp_channel ch \<le> 69" by (simp_all add: clamp_channel_def)
  then have "rf_inv chip ?s w" using assms(2) by (auto simp: rf_inv_def rf_bytes_def)
  moreover have "xxx_74t1_set_video_carrier_freq K client (1885 + 32 * (clamp_channel ch - 21)) ?s w = (r, s', w')"
    using assms(3) by (simp add: xxx_74t1_set_channel_def calc_N_from_channel)
  moreover have "0 \<le> 1885 + 32 * (clamp_channel ch - 21)" "1885 + 32 * (clamp_channel ch - 21) < 8192"
    using ch by simp_all
  ultimately show ?thesis by (metis set_carrier_inv [OF assms(1)])
qed

lemma finetune_eq:
  assumes "rf_inv chip s w"
  shows "\<exists>N. 1885 \<le> N \<and> N \<le> 3421 \<and> 250 * N = base_video_carrier s \<and>
    xxx_74t1_finetune K client v s w = xxx_74t1_set_video_carrier_freq K client (signed_take_bit 31 (N + v)) s w"
proof -
  obtain ch where ch: "21 \<le> ch" "ch \<le> 69" "base_video_carrier s = 471250 + 8000 * (ch - 21)"
    using assms by (auto simp: rf_inv_def)
  have "xxx_74t1_calc_N_from_freq (base_video_carrier s) = 1885 + 32 * (ch - 21)"
    unfolding ch(3) using ch(1, 2) by (rule calc_N_of_channel)
  then show ?thesis
    using ch by (intro exI [of _ "1885 + 32 * (ch - 21)"]) (simp add: xxx_74t1_finetune_def Let_def)
qed

lemma finetune_inv:
  assumes "rf_bus K chip" "rf_inv chip s w" "-1885 \<le> v" "v \<le> 4770" "xxx_74t1_finetune K client v s w = (r, s', w')"
  shows "rf_inv chip s' w'"
proof -
  obtain N where N: "1885 \<le> N" "N \<le> 3421"
      "xxx_74t1_finetune K client v s w = xxx_74t1_set_video_carrier_freq K client (signed_take_bit 31 (N + v)) s w"
    using finetune_eq [OF assms(2)] by blast
  have "signed_take_bit 31 (N + v) = N + v"
    using N assms(3, 4) by (intro signed_take_bit_int_eq_self) auto
  then have "xxx_74t1_set_video_carrier_freq K client (N + v) s w = (r, s', w')" using N(3) assms(5) by simp
  then show ?thesis using N assms(3, 4) by (intro set_carrier_inv [OF assms(1, 2), of "N + v"]) auto
qed

lemma rf_other_commands_inv:
  assumes "rf_bus K chip" "rf_inv chip s w"
  shows "xxx_74t1_set_testmode K client v s w = (r, s', w') \<Longrightarrow> rf_inv chip s' w'"
    "xxx_74t1_set_audioenable K client v s w = (r, s', w') \<Longrightarrow> rf_inv chip s' w'"
    "xxx_74t1_set_audiocarrier K client v s w = (r, s', w') \<Longrightarrow> rf_inv chip s' w'"
    "xxx_74t1_set_standby K client v s w = (r, s', w') \<Longrightarrow> rf_inv chip s' w'"
  using assms(2)
  by (auto simp: xxx_74t1_set_testmode_def xxx_74t1_set_audioenable_def xxx_74t1_set_audiocarrier_def
      xxx_74t1_set_standby_def set_audiocarrier_bits_def Let_def case_prod_beta rf_inv_def rf_bytes_def
      rf_write [OF assms(1)] bit_simps split: if_splits)

definition tame :: "u32 \<times> int \<Rightarrow> bool" where
  "tame c \<longleftrightarrow> fst c = 4 \<longrightarrow> -1885 \<le> snd c \<and> snd c \<le> 4770"

lemma rf_command_inv:
  assumes "rf_bus K chip" "rf_inv chip s w" "tame (cmd, val)" "xxx_74t1_command K client cmd val s w = (r, s', w')"
  shows "rf_inv chip s' w'"
  using assms(2-4) set_channel_inv [OF assms(1, 2)] finetune_inv [OF assms(1, 2)] rf_other_commands_inv [OF assms(1, 2)]
  by (auto simp: xxx_74t1_command_def tame_def split: if_splits)

lemma rf_run_inv:
  "rf_bus K chip \<Longrightarrow> rf_inv chip s w \<Longrightarrow> \<forall>c \<in> set cs. tame c \<Longrightarrow> rfmod_run K cs s w = (s', w') \<Longrightarrow> rf_inv chip s' w'"
proof (induction cs arbitrary: s w)
  case (Cons c cs)
  obtain cmd val where c: "c = (cmd, val)" by (cases c)
  obtain r s1 w1 where *: "xxx_74t1_command K (rfmod_client s) cmd val s w = (r, s1, w1)"
    by (cases "xxx_74t1_command K (rfmod_client s) cmd val s w")
  then have "rf_inv chip s1 w1" using rf_command_inv [OF Cons.prems(1, 2)] Cons.prems(3) c by auto
  then show ?case using Cons * by (simp add: c)
qed simp

lemma rf_init_inv:
  assumes "rf_bus K chip" "xxx_74t1_init K client s w = (r, s', w')"
  shows "rf_inv chip s' w'"
proof -
  define s1 where "s1 = set_audiocarrier_bits 1
    (s\<lparr>rf_c1 := (0x80 OR BIT74T1_SO OR BIT74T1_PS) AND NOT BIT74T1_X3 AND NOT BIT74T1_X2,
       rf_c2 := BIT74T1_PWC OR BIT74T1_ATT, rf_pb1 := 0, rf_pb2 := 0\<rparr>)"
  define s2 where "s2 = s1\<lparr>base_video_carrier := 591250\<rparr>"
  define w1 where "w1 = snd (write_c K client s1 w)"
  have run: "xxx_74t1_set_video_carrier_freq K client 2365 s2 w1 = (r, s', w')"
    using assms(2)
    by (simp add: xxx_74t1_init_def s1_def s2_def w1_def calc_N_from_channel clamp_channel_def Let_def case_prod_beta)
  have c: "bit (rf_c1 s2) 7" by (simp add: s2_def s1_def set_audiocarrier_bits_def)
  obtain a where a: "chip w1 = a" "\<exists>c1 c2 p1 p2. a = (c1, c2, p1, p2)" by (cases "chip w1") auto
  then obtain c1 c2 p1 p2 where "chip w1 = (c1, c2, p1, p2)" by blast
  note carrier = carrier_chip [OF assms(1) c this run]
  have "\<not> bit (2365 :: int) 13" by (rule bit_13_range) simp_all
  then show ?thesis
    using carrier c
    by (auto simp: rf_inv_def carrier_bits) (auto simp: carrier_bytes_def s2_def intro!: exI [of _ 36])
qed

text \<open>
  C26. The chip and the driver agree: after the initialisation and any sequence of commands, with fine tuning
  within -1885 to 4770 steps, the four bytes in the chip are those of the driver, the first of each pair with
  the marker of its pair.
\<close>

theorem rfmod_chip_agrees:
  assumes "rf_bus K chip" "xxx_74t1_init K client s w = (r, s0, w0)" "\<forall>c \<in> set cs. tame c"
    "rfmod_run K cs s0 w0 = (s', w')"
  shows "chip w' = rf_bytes s' \<and> bit (rf_c1 s') 7 \<and> \<not> bit (rf_pb1 s') 7"
  using rf_run_inv [OF assms(1) rf_init_inv [OF assms(1, 2)] assms(3, 4)] by (simp add: rf_inv_def)

text \<open>
  Fine tuning out of range: from a state in which the chip and the driver agree, a step to a divider with
  bit 13 set (from 5827 steps up on channel 36, say, or below zero) leaves the port bytes of the chip, and
  with them the carrier, as they are, while the driver keeps the new bytes, with the marker of the control
  bytes in the first, and reports success if the transfers do.
\<close>

theorem rfmod_finetune_lost:
  assumes "rf_bus K chip" "rf_inv chip s w" "xxx_74t1_finetune K client v s w = (r, s', w')"
    "bit (base_video_carrier s div 250 + v) 13"
  shows "chip w' = (rf_c1 s', rf_c2 s', rf_pb1 s, rf_pb2 s) \<and> bit (rf_pb1 s') 7"
proof -
  obtain N where N: "1885 \<le> N" "N \<le> 3421" "250 * N = base_video_carrier s"
      "xxx_74t1_finetune K client v s w = xxx_74t1_set_video_carrier_freq K client (signed_take_bit 31 (N + v)) s w"
    using finetune_eq [OF assms(2)] by blast
  have "base_video_carrier s div 250 = N" unfolding N(3) [symmetric] by simp
  then have bit: "bit (signed_take_bit 31 (N + v)) 13" using assms(4) by (simp add: bit_signed_take_bit_iff)
  have c: "bit (rf_c1 s) 7" "chip w = (rf_c1 s, rf_c2 s, rf_pb1 s, rf_pb2 s)"
    using assms(2) by (simp_all add: rf_inv_def rf_bytes_def)
  have "xxx_74t1_set_video_carrier_freq K client (signed_take_bit 31 (N + v)) s w = (r, s', w')"
    using N(4) assms(3) by simp
  note carrier = carrier_chip [OF assms(1) c this]
  then show ?thesis using bit by (simp add: carrier_bits)
qed

section \<open>Sound\<close>

text \<open>
  Sound that was switched off is on again after standby: leaving standby starts the sound oscillator,
  the carrier and the other settings are as before.
\<close>

theorem rfmod_standby_enables_sound:
  "case xxx_74t1_set_audioenable K client 0 s w of (r1, s1, w1) \<Rightarrow>
   case xxx_74t1_set_standby K client 1 s1 w1 of (r2, s2, w2) \<Rightarrow>
   case xxx_74t1_set_standby K client 0 s2 w2 of (r3, s3, w3) \<Rightarrow>
     rf_c1 s1 AND BIT74T1_SO \<noteq> 0 \<and> rf_c1 s3 AND BIT74T1_SO = 0 \<and> divider s3 = divider s"
proof -
  have "(x OR BIT74T1_SO) AND BIT74T1_SO = BIT74T1_SO" "y AND NOT BIT74T1_SO AND BIT74T1_SO = 0" for x y
    by (rule bit_word_eqI; auto simp: bit_simps)+
  then show ?thesis
    by (simp add: xxx_74t1_set_audioenable_def xxx_74t1_set_standby_def Let_def case_prod_beta divider_def and.assoc)
qed

section \<open>A kernel\<close>

text \<open>A bus with the chip on it; the world is the four bytes.\<close>

definition rf_bench :: "rf_chip rf_kernel" where
  "rf_bench =
     \<lparr>rk_send = (\<lambda>client bs w. (int (length bs), (case bs of [a, b] \<Rightarrow> receive a b w | _ \<Rightarrow> w))),
      rk_recv = (\<lambda>client w. ((1, 0), w)), rk_msleep = (\<lambda>n w. w), rk_from_user = (\<lambda>arg w. (Some (sint arg), w)),
      rk_add_driver = (\<lambda>l w. ((0, [0]), w)), rk_del_driver = (\<lambda>w. w), rk_register_chrdev = (\<lambda>w. (0, w)),
      rk_unregister_chrdev = (\<lambda>w. w)\<rparr>"

definition rf_start :: rfmod where
  "rf_start = \<lparr>rf_c1 = 0, rf_c2 = 0, rf_pb1 = 0, rf_pb2 = 0, base_video_carrier = 0, rfmod_client = None\<rparr>"

lemma rf_bench_bus: "rf_bus rf_bench (\<lambda>w. w)"
  by (simp add: rf_bus_def rf_bench_def)

theorem rfmod_chip_agrees_witness:
  "\<exists>r s0 w0 s' w'. xxx_74t1_init rf_bench None rf_start (0, 0, 0, 0) = (r, s0, w0) \<and>
     rfmod_run rf_bench [(0, 40), (4, 3), (5, 0)] s0 w0 = (s', w') \<and> w' = rf_bytes s'"
proof -
  obtain r s0 w0 where i: "xxx_74t1_init rf_bench None rf_start (0, 0, 0, 0) = (r, s0, w0)"
    by (cases "xxx_74t1_init rf_bench None rf_start (0, 0, 0, 0)")
  obtain s' w' where run: "rfmod_run rf_bench [(0, 40), (4, 3), (5, 0)] s0 w0 = (s', w')"
    by (cases "rfmod_run rf_bench [(0, 40), (4, 3), (5, 0)] s0 w0")
  have "\<forall>c \<in> set [(0, 40), (4, 3), (5, 0)]. tame c" by (simp add: tame_def)
  from rfmod_chip_agrees [OF rf_bench_bus i this run] show ?thesis using i run by blast
qed

theorem rfmod_finetune_lost_witness:
  "\<exists>s w r s' w'. xxx_74t1_finetune rf_bench None 6000 s w = (r, s', w') \<and> bit (rf_pb1 s') 7 \<and>
     w' = (rf_c1 s', rf_c2 s', rf_pb1 s, rf_pb2 s)"
proof -
  obtain r s w where i: "xxx_74t1_init rf_bench None rf_start (0, 0, 0, 0) = (r, s, w)"
    by (cases "xxx_74t1_init rf_bench None rf_start (0, 0, 0, 0)")
  have "base_video_carrier (fst (snd (xxx_74t1_init rf_bench None rf_start (0, 0, 0, 0)))) = 591250" by code_simp
  then have bit: "bit (base_video_carrier s div 250 + 6000) 13" by (simp add: i)
  obtain r' s' w' where f: "xxx_74t1_finetune rf_bench None 6000 s w = (r', s', w')"
    by (cases "xxx_74t1_finetune rf_bench None 6000 s w")
  show ?thesis
    using rfmod_finetune_lost [OF rf_bench_bus rf_init_inv [OF rf_bench_bus i] f bit] f by blast
qed

end
