(* ===== verification/Starci.thy ===== *)
theory Starci
  imports Prelude
begin

text \<open>
  The controller of the common interface on the boards with a StarCI2Win chip
  (\<^verbatim>\<open>src/cic/starci2win/starci2win.c\<close>): two slots for modules, whose memory is reached through windows of
  the processor's bus, behind a chip that is set over I2C. The operations are the ones the driver
  registers with the kernel's DVB code, and the two functions that route the streams.

  \<^item> C's \<^verbatim>\<open>int\<close> is \<open>int\<close>; the bit operations on negative error codes are those of two's complement, and a
    byte of a message takes the low eight bits.
  \<^item> \<open>None\<close> is undefined behaviour: an access through a null pointer or outside a window.
  \<^item> The I2C bus, the windows, pins and registers belong to the kernel, a record of functions over a world.
  \<^item> Debug output is left out.
\<close>

section \<open>Boards and state\<close>

text \<open>The preprocessor symbols for which the file declares the values of the chip's registers.\<close>

datatype ci_board = TF7700 | FS9000 | HS8200 | HS7110 | HS7119 | HS7420 | HS7429 | HS7810A | HS7819
  | OPT9600 | OPT9600PRIMA | HCHS8100
  | CUBEREVO | CUBEREVO_MINI | CUBEREVO_MINI2 | CUBEREVO_250HD | CUBEREVO_9500HD | CUBEREVO_2000HD
  | CUBEREVO_MINI_FTA | CUBEREVO_3000HD

definition cubebox :: "ci_board \<Rightarrow> bool" where
  "cubebox b \<longleftrightarrow> b \<in> {CUBEREVO, CUBEREVO_MINI, CUBEREVO_MINI2, CUBEREVO_250HD, CUBEREVO_9500HD, CUBEREVO_2000HD,
     CUBEREVO_MINI_FTA, CUBEREVO_3000HD}"

text \<open>The boards of the HS7 series, which the conditions of the source list together.\<close>

abbreviation HS7 :: "ci_board set" where
  "HS7 \<equiv> {HS7110, HS7119, HS7420, HS7429, HS7810A, HS7819}"

abbreviation (input) MODA_CTRL_REG :: int where "MODA_CTRL_REG \<equiv> 0x00"
abbreviation (input) MODB_CTRL_REG :: int where "MODB_CTRL_REG \<equiv> 0x09"
abbreviation (input) TWIN_MODE_CTRL_REG :: int where "TWIN_MODE_CTRL_REG \<equiv> 0x11"
abbreviation (input) DEST_SEL_REG :: int where "DEST_SEL_REG \<equiv> 0x17"

abbreviation (input) SLOTSTATUS_NONE :: int where "SLOTSTATUS_NONE \<equiv> 1"
abbreviation (input) SLOTSTATUS_PRESENT :: int where "SLOTSTATUS_PRESENT \<equiv> 2"
abbreviation (input) SLOTSTATUS_RESET :: int where "SLOTSTATUS_RESET \<equiv> 4"
abbreviation (input) SLOTSTATUS_READY :: int where "SLOTSTATUS_READY \<equiv> 8"

abbreviation (input) CAM_PRESENT :: int where "CAM_PRESENT \<equiv> 1"
abbreviation (input) CAM_READY :: int where "CAM_READY \<equiv> 2"

abbreviation (input) CI_EREMOTEIO :: int where "CI_EREMOTEIO \<equiv> 121"

definition default_values :: "ci_board \<Rightarrow> u8 list" where
  "default_values b =
     (if b = TF7700 then
        [0x00,
         0x02, 0x00, 0x01, 0x00, 0x00, 0x33, 0x00, 0x00,
         0x00, 0x02, 0x00, 0x01, 0x00, 0x00, 0x33, 0x00,
         0x00, 0x80, 0x00, 0x00, 0x00, 0x00, 0x00, 0x02,
         0x80, 0x00, 0x00, 0x00, 0x00, 0x00, 0x03, 0x00]
      else if cubebox b then
        [0x00,
         0x00, 0x00, 0x01, 0x00, 0x00, 0x33, 0x00, 0x00,
         0x00, 0x00, 0x00, 0x01, 0x00, 0x01, 0x33, 0x00,
         0x02, 0x9a, 0x00, 0x00, 0x00, 0x00, 0x00, 0x01,
         0xc0, 0x00, 0x00, 0x00, 0x00, 0x02, 0x03, 0x00]
      else
        [0x00,
         0x00, 0x00, 0x02, 0x00, 0x00, 0x44, 0x00, 0x00,
         0x00, 0x00, 0x00, 0x02, 0x00, 0x02, 0x44, 0x00,
         0x00, 0x80, 0x00, 0x00, 0x00, 0x00, 0x00, 0x01,
         0x00, 0x00, 0x00, 0x03, 0x06, 0x00, 0x03, 0x01])"

text \<open>
  The kernel. \<open>ck_i2c_write\<close> is \<^verbatim>\<open>i2c_transfer\<close> of one message to a device of an adapter, \<open>ck_i2c_read\<close> that of a
  message with the number of a register and a message that reads one byte; both give the result of the
  call, which is the number of messages if it succeeds. Adapters and pins are numbers (\<open>None\<close> is a null
  pointer), addresses are words.
\<close>

record 'w ci_kernel =
  ck_i2c_get_adapter :: "int \<Rightarrow> 'w \<Rightarrow> nat option \<times> 'w"
  ck_i2c_write :: "nat \<Rightarrow> int \<Rightarrow> u8 list \<Rightarrow> 'w \<Rightarrow> int \<times> 'w"
  ck_i2c_read :: "nat \<Rightarrow> int \<Rightarrow> u8 \<Rightarrow> 'w \<Rightarrow> (int \<times> u8) \<times> 'w"
  ck_msleep :: "nat \<Rightarrow> 'w \<Rightarrow> 'w"
  ck_ioremap :: "u32 \<Rightarrow> u32 \<Rightarrow> 'w \<Rightarrow> u32 \<times> 'w"
  ck_iounmap :: "u32 \<Rightarrow> 'w \<Rightarrow> 'w"
  ck_outl :: "u32 \<Rightarrow> u32 \<Rightarrow> 'w \<Rightarrow> 'w"
  ck_readb :: "u32 \<Rightarrow> 'w \<Rightarrow> u8 \<times> 'w"
  ck_readw :: "u32 \<Rightarrow> 'w \<Rightarrow> u16 \<times> 'w"
  ck_writeb :: "u8 \<Rightarrow> u32 \<Rightarrow> 'w \<Rightarrow> 'w"
  ck_writew :: "u16 \<Rightarrow> u32 \<Rightarrow> 'w \<Rightarrow> 'w"
  ck_request_pin :: "nat \<Rightarrow> nat \<Rightarrow> string \<Rightarrow> 'w \<Rightarrow> nat option \<times> 'w"
  ck_set_pin :: "nat \<Rightarrow> int \<Rightarrow> 'w \<Rightarrow> 'w"
  ck_ca_init :: "int \<Rightarrow> int \<Rightarrow> 'w \<Rightarrow> int \<times> 'w"

text \<open>The variables of the file: \<^verbatim>\<open>struct dvb_ca_state\<close> and the static ones.\<close>

record dvb_ca_state =
  i2c :: "nat option"
  i2c_addr :: int
  module_status :: "int list"
  cic_enable_pin :: "nat option"
  module_A_pin :: "nat option"
  module_B_pin :: "nat option"
  reg_config :: u32
  reg_buffer :: u32
  reg_sysconfig :: u32
  slot_membase :: "u32 list"
  extmoduldetect :: int

type_synonym 'w ci_op = "dvb_ca_state \<Rightarrow> 'w \<Rightarrow> (int \<times> dvb_ca_state \<times> 'w) option"

definition ci_return :: "int \<Rightarrow> 'w ci_op" where
  "ci_return r s w = Some (r, s, w)"

definition ci_set_pin :: "'w ci_kernel \<Rightarrow> nat option \<Rightarrow> int \<Rightarrow> 'w \<Rightarrow> 'w option" where
  "ci_set_pin K p v w = (case p of None \<Rightarrow> None | Some n \<Rightarrow> Some (ck_set_pin K n v w))"

section \<open>Registers\<close>

definition starci_writeregN :: "'w ci_kernel \<Rightarrow> dvb_ca_state \<Rightarrow> u8 list \<Rightarrow> 'w \<Rightarrow> (int \<times> 'w) option" where
  "starci_writeregN K s data w = do {
     a \<leftarrow> i2c s;
     let (ret, w) = ck_i2c_write K a (i2c_addr s) data w;
     Some (if ret \<noteq> 1 then - CI_EREMOTEIO else ret, w)
   }"

definition starci_writereg :: "'w ci_kernel \<Rightarrow> dvb_ca_state \<Rightarrow> int \<Rightarrow> int \<Rightarrow> 'w \<Rightarrow> (int \<times> 'w) option" where
  "starci_writereg K s reg data w = do {
     a \<leftarrow> i2c s;
     let (err, w) = ck_i2c_write K a (i2c_addr s) [word_of_int reg, word_of_int data] w;
     Some (if err \<noteq> 1 then - CI_EREMOTEIO else 0, w)
   }"

text \<open>A failing transfer gives the result of the call, which the callers take for the byte.\<close>

definition starci_readreg :: "'w ci_kernel \<Rightarrow> dvb_ca_state \<Rightarrow> int \<Rightarrow> 'w \<Rightarrow> (int \<times> 'w) option" where
  "starci_readreg K s reg w = do {
     a \<leftarrow> i2c s;
     let ((ret, b), w) = ck_i2c_read K a (i2c_addr s) (word_of_int reg) w;
     Some (if ret \<noteq> 2 then ret else uint b, w)
   }"

text \<open>The control register of a slot.\<close>

definition ctrlReg :: "int \<Rightarrow> int" where
  "ctrlReg slot = (if slot = 0 then MODA_CTRL_REG else MODB_CTRL_REG)"

abbreviation bad_slot :: "int \<Rightarrow> bool" where
  "bad_slot slot \<equiv> slot < 0 \<or> slot > 1"

section \<open>Routing\<close>

text \<open>\<open>source\<close> is the value that the pointer of the caller points to, before and after the call.\<close>

definition getCiSource :: "ci_board \<Rightarrow> 'w ci_kernel \<Rightarrow> int \<Rightarrow> int \<Rightarrow> dvb_ca_state \<Rightarrow> 'w \<Rightarrow> (int \<times> 'w) option" where
  "getCiSource b K slot source s w =
     (if b \<in> {HS8200} \<union> HS7 then Some (source, w)
      else do {
        (val, w) \<leftarrow> starci_readreg K s TWIN_MODE_CTRL_REG w;
        let crossed = val AND 0x20 \<noteq> 0;
        Some (if slot = 0 then (if b = TF7700 then (if crossed then 1 else 0) else (if crossed then 0 else 1))
              else if slot = 1 then (if b = TF7700 then (if crossed then 0 else 1) else (if crossed then 1 else 0))
              else source, w)
      })"

definition setCiSource :: "ci_board \<Rightarrow> 'w ci_kernel \<Rightarrow> int \<Rightarrow> int \<Rightarrow> dvb_ca_state \<Rightarrow> 'w \<Rightarrow> (int \<times> 'w) option" where
  "setCiSource b K slot source s w =
     (if slot < 0 \<or> slot > 1 \<or> source < 0 \<or> source > 1 then Some (-1, w)
      else if cubebox b then
        (if slot = 0 then starci_writereg K s TWIN_MODE_CTRL_REG 0x82 w
         else starci_writereg K s TWIN_MODE_CTRL_REG 0xa2 w)
      else do {
        (val, w) \<leftarrow> starci_readreg K s TWIN_MODE_CTRL_REG w;
        let val = (if slot \<noteq> source
                   then (if b \<in> {TF7700, HS8200, FS9000} then val OR 0x20 else val AND NOT 0x20)
                   else (if b \<in> {TF7700, HS8200, FS9000} then val AND NOT 0x20 else val OR 0x20));
        starci_writereg K s TWIN_MODE_CTRL_REG val w
      })"

text \<open>The bits of the destination register that select a slot and the other one.\<close>

definition activationMask :: "int \<Rightarrow> int" where
  "activationMask slot = (if slot = 0 then 0x02 else 0x04)"

definition deactivationMask :: "int \<Rightarrow> int" where
  "deactivationMask slot = (if slot = 0 then 0x04 else 0x02)"

function dest_loop :: "'w ci_kernel \<Rightarrow> dvb_ca_state \<Rightarrow> int \<Rightarrow> nat \<Rightarrow> int \<Rightarrow> 'w \<Rightarrow> 'w option" where
  "dest_loop K s slot loop result w =
     (if result AND activationMask slot = 0 then do {
        (_, w) \<leftarrow> starci_writereg K s DEST_SEL_REG
          ((result AND NOT (deactivationMask slot)) OR activationMask slot) w;
        (result, w) \<leftarrow> starci_readreg K s DEST_SEL_REG (if loop > 0 then ck_msleep K 10 w else w);
        if loop + 1 \<ge> 10 then Some w else dest_loop K s slot (loop + 1) result w
      }
      else Some w)"
  by pat_completeness auto
termination
  by (relation "measure (\<lambda>(K, s, slot, loop, result, w). 10 - loop)") auto

declare dest_loop.simps [simp del]

definition setDestination :: "'w ci_kernel \<Rightarrow> int \<Rightarrow> dvb_ca_state \<Rightarrow> 'w \<Rightarrow> 'w option" where
  "setDestination K slot s w =
     (if bad_slot slot then Some w
      else do { (result, w) \<leftarrow> starci_readreg K s DEST_SEL_REG w; dest_loop K s slot 0 result w })"

section \<open>The memory of a module\<close>

text \<open>
  The window of a slot has \<^verbatim>\<open>0x1000\<close> bytes. Some boards access it through a pointer to bytes, the others
  through a pointer to 16-bit words.
\<close>

definition byte_access :: "ci_board \<Rightarrow> bool" where
  "byte_access b \<longleftrightarrow> b \<in> {FS9000, HS8200} \<union> HS7"

definition mem_offset :: "ci_board \<Rightarrow> int \<Rightarrow> u32 option" where
  "mem_offset b address =
     (if byte_access b
      then (if 0 \<le> address \<and> address < 0x1000 then Some (word_of_int address) else None)
      else (if 0 \<le> address \<and> 2 * address < 0x1000 then Some (word_of_int (2 * address)) else None))"

definition slot_address :: "ci_board \<Rightarrow> dvb_ca_state \<Rightarrow> int \<Rightarrow> int \<Rightarrow> u32 option" where
  "slot_address b s slot address = do {
     base \<leftarrow> arr_get (slot_membase s) (nat slot);
     off \<leftarrow> mem_offset b address;
     if base = 0 then None else Some (base + off)
   }"

definition slot_read :: "ci_board \<Rightarrow> 'w ci_kernel \<Rightarrow> dvb_ca_state \<Rightarrow> int \<Rightarrow> int \<Rightarrow> 'w \<Rightarrow> (int \<times> 'w) option" where
  "slot_read b K s slot address w = do {
     p \<leftarrow> slot_address b s slot address;
     Some (if byte_access b then (let (v, w) = ck_readb K p w in (uint v AND 0xFF, w))
           else (let (v, w) = ck_readw K p w in (uint v AND 0xFF, w)))
   }"

definition slot_write :: "ci_board \<Rightarrow> 'w ci_kernel \<Rightarrow> dvb_ca_state \<Rightarrow> int \<Rightarrow> int \<Rightarrow> u8 \<Rightarrow> 'w \<Rightarrow> 'w option" where
  "slot_write b K s slot address value w = do {
     p \<leftarrow> slot_address b s slot address;
     Some (if byte_access b then ck_writeb K value p w else ck_writew K (ucast value) p w)
   }"

text \<open>Bits 2 and 3 of the control register choose the memory: 0 the attribute memory, bit 2 the registers.\<close>

definition select_attribute :: "'w ci_kernel \<Rightarrow> dvb_ca_state \<Rightarrow> int \<Rightarrow> 'w \<Rightarrow> 'w option" where
  "select_attribute K s slot w = do {
     (result, w) \<leftarrow> starci_readreg K s (ctrlReg slot) w;
     w \<leftarrow> (if result AND 0xC \<noteq> 0
          then map_option snd (starci_writereg K s (ctrlReg slot) (result AND NOT 0xC) w) else Some w);
     setDestination K slot s w
   }"

definition select_control :: "'w ci_kernel \<Rightarrow> dvb_ca_state \<Rightarrow> int \<Rightarrow> 'w \<Rightarrow> 'w option" where
  "select_control K s slot w = do {
     (result, w) \<leftarrow> starci_readreg K s (ctrlReg slot) w;
     w \<leftarrow> (if result AND 0x4 = 0
          then map_option snd (starci_writereg K s (ctrlReg slot) ((result AND NOT 0xC) OR 0x4) w) else Some w);
     setDestination K slot s w
   }"

definition starci_read_attribute_mem :: "ci_board \<Rightarrow> 'w ci_kernel \<Rightarrow> int \<Rightarrow> int \<Rightarrow> 'w ci_op" where
  "starci_read_attribute_mem b K slot address s w =
     (if bad_slot slot then ci_return (-1) s w
      else do {
        w \<leftarrow> select_attribute K s slot w;
        (res, w) \<leftarrow> slot_read b K s slot address w;
        ci_return res s w
      })"

definition starci_write_attribute_mem :: "ci_board \<Rightarrow> 'w ci_kernel \<Rightarrow> int \<Rightarrow> int \<Rightarrow> u8 \<Rightarrow> 'w ci_op" where
  "starci_write_attribute_mem b K slot address value s w =
     (if bad_slot slot then ci_return (-1) s w
      else do {
        w \<leftarrow> select_attribute K s slot w;
        w \<leftarrow> slot_write b K s slot address value w;
        ci_return 0 s w
      })"

definition starci_read_cam_control :: "ci_board \<Rightarrow> 'w ci_kernel \<Rightarrow> int \<Rightarrow> u8 \<Rightarrow> 'w ci_op" where
  "starci_read_cam_control b K slot address s w =
     (if bad_slot slot then ci_return (-1) s w
      else do {
        w \<leftarrow> select_control K s slot w;
        (res, w) \<leftarrow> slot_read b K s slot (uint address) w;
        ci_return res s w
      })"

definition starci_write_cam_control :: "ci_board \<Rightarrow> 'w ci_kernel \<Rightarrow> int \<Rightarrow> u8 \<Rightarrow> u8 \<Rightarrow> 'w ci_op" where
  "starci_write_cam_control b K slot address value s w =
     (if bad_slot slot then ci_return (-1) s w
      else do {
        w \<leftarrow> select_control K s slot w;
        w \<leftarrow> slot_write b K s slot (uint address) value w;
        w \<leftarrow> (if extmoduldetect s = 1 \<and> value = 8 \<and> address = 1
             then slot_write b K s slot (uint address) 0 w else Some w);
        ci_return 0 s w
      })"

section \<open>The slots\<close>

definition set_status :: "int \<Rightarrow> int \<Rightarrow> dvb_ca_state \<Rightarrow> dvb_ca_state" where
  "set_status slot v s = s\<lparr>module_status := (module_status s)[nat slot := v]\<rparr>"

definition power_pin :: "ci_board \<Rightarrow> 'w ci_kernel \<Rightarrow> dvb_ca_state \<Rightarrow> int \<Rightarrow> int \<Rightarrow> 'w \<Rightarrow> 'w option" where
  "power_pin b K s slot v w =
     (if b \<in> {HS8200, FS9000}
      then ci_set_pin K (if slot = 0 then module_A_pin s else module_B_pin s) v w else Some w)"

definition status_result :: "int \<Rightarrow> int" where
  "status_result st =
     (if st \<noteq> SLOTSTATUS_NONE then CAM_PRESENT else 0) OR (if st AND SLOTSTATUS_READY \<noteq> 0 then CAM_READY else 0)"

definition starci_poll_slot_status :: "ci_board \<Rightarrow> 'w ci_kernel \<Rightarrow> int \<Rightarrow> int \<Rightarrow> 'w ci_op" where
  "starci_poll_slot_status b K slot open s w =
     (if bad_slot slot then ci_return 0 s w
      else do {
        (result, w) \<leftarrow> starci_readreg K s (ctrlReg slot) w;
        st \<leftarrow> arr_get (module_status s) (nat slot);
        (s, w) \<leftarrow> (if result AND 0x01 \<noteq> 0 then
             (if st AND SLOTSTATUS_RESET \<noteq> 0 then do {
                (result, s, w) \<leftarrow> starci_read_attribute_mem b K slot 0 s w;
                Some (if result = 0x1d then set_status slot SLOTSTATUS_READY s else s, w)
              }
              else if st AND SLOTSTATUS_NONE \<noteq> 0 then do {
                w \<leftarrow> power_pin b K s slot 1 w;
                Some (set_status slot SLOTSTATUS_PRESENT s, w)
              }
              else Some (s, w))
           else
             (if st AND SLOTSTATUS_NONE = 0 then do {
                w \<leftarrow> power_pin b K s slot 0 w;
                Some (set_status slot SLOTSTATUS_NONE s, w)
              }
              else Some (s, w)));
        st \<leftarrow> arr_get (module_status s) (nat slot);
        ci_return (status_result st) s w
      })"

text \<open>The length of a reset in milliseconds.\<close>

definition reset_time :: "ci_board \<Rightarrow> nat" where
  "reset_time b = (if b \<in> {HS8200, FS9000} \<union> HS7 then 200 else 60)"

definition starci_slot_reset :: "ci_board \<Rightarrow> 'w ci_kernel \<Rightarrow> int \<Rightarrow> 'w ci_op" where
  "starci_slot_reset b K slot s w =
     (if bad_slot slot then ci_return (-1) s w
      else do {
        _ \<leftarrow> arr_get (module_status s) (nat slot);
        let s = set_status slot SLOTSTATUS_RESET s;
        (result, w) \<leftarrow> starci_readreg K s (ctrlReg slot) w;
        w \<leftarrow> (if result AND 0x01 = 0 then Some w
             else if cubebox b then do {
               (_, w) \<leftarrow> starci_writereg K s (ctrlReg slot) 0x80 w;
               (_, w) \<leftarrow> starci_readreg K s (ctrlReg slot) (ck_msleep K 200 w);
               (_, w) \<leftarrow> starci_writereg K s (ctrlReg slot) 0x00 w;
               Some w
             }
             else do {
               (result, w) \<leftarrow> starci_readreg K s (ctrlReg slot) w;
               (_, w) \<leftarrow> starci_writereg K s (ctrlReg slot) (result OR 0x80) w;
               (_, w) \<leftarrow> starci_writereg K s DEST_SEL_REG 0x0 w;
               (result, w) \<leftarrow> starci_readreg K s (ctrlReg slot) (ck_msleep K (reset_time b) w);
               (_, w) \<leftarrow> starci_writereg K s (ctrlReg slot) (result AND NOT 0x80) w;
               Some w
             });
        ci_return 0 s w
      })"

definition starci_slot_shutdown :: "int \<Rightarrow> 'w ci_op" where
  "starci_slot_shutdown slot s w = ci_return 0 s w"

definition ts_value :: "ci_board \<Rightarrow> int" where
  "ts_value b = (if b \<notin> {HS8200, FS9000} \<union> HS7 \<and> \<not> cubebox b then 0x23 else 0x21)"

definition starci_slot_ts_enable :: "ci_board \<Rightarrow> 'w ci_kernel \<Rightarrow> int \<Rightarrow> 'w ci_op" where
  "starci_slot_ts_enable b K slot s w =
     (if bad_slot slot then ci_return (-1) s w
      else do {
        (_, w) \<leftarrow> starci_readreg K s (ctrlReg slot) w;
        (_, w) \<leftarrow> starci_writereg K s (ctrlReg slot) (ts_value b) w;
        (result, w) \<leftarrow> starci_readreg K s (ctrlReg slot) w;
        (_, w) \<leftarrow> starci_writereg K s (ctrlReg slot) (result OR 0x40) w;
        (_, w) \<leftarrow> starci_readreg K s (ctrlReg slot) w;
        ci_return 0 s w
      })"

section \<open>Initialisation\<close>

text \<open>A list of registers of the bus to write, in their order.\<close>

definition ctrl_outls :: "'w ci_kernel \<Rightarrow> (u32 \<times> u32) list \<Rightarrow> 'w \<Rightarrow> 'w" where
  "ctrl_outls K vs w = fold (\<lambda>(v, a). ck_outl K v a) vs w"

abbreviation (input) EMI_LCK :: u32 where "EMI_LCK \<equiv> 0x20"
abbreviation (input) EMI_GEN_CFG :: u32 where "EMI_GEN_CFG \<equiv> 0x28"
abbreviation (input) EMI_FLASH_CLK_SEL :: u32 where "EMI_FLASH_CLK_SEL \<equiv> 0x50"
abbreviation (input) EMI_CLK_EN :: u32 where "EMI_CLK_EN \<equiv> 0x68"
abbreviation (input) EMIBank1 :: u32 where "EMIBank1 \<equiv> 0x140"
abbreviation (input) EMIBank2 :: u32 where "EMIBank2 \<equiv> 0x180"
abbreviation (input) EMIBank3 :: u32 where "EMIBank3 \<equiv> 0x1C0"

text \<open>The fields of the first three configuration words of a bank of the bus.\<close>

definition emi_data0 :: u32 where
  "emi_data0 = push_bit 26 0 OR push_bit 25 0 OR push_bit 20 30 OR push_bit 15 12 OR push_bit 11 50
     OR push_bit 9 3 OR push_bit 7 1 OR push_bit 5 2 OR push_bit 3 2 OR push_bit 0 1"

definition emi_data1 :: u32 where
  "emi_data1 = push_bit 31 1 OR push_bit 24 100 OR push_bit 20 0 OR push_bit 16 0 OR push_bit 12 10
     OR push_bit 8 10 OR push_bit 4 10 OR push_bit 0 10"

definition emi_config :: "ci_board \<Rightarrow> u32 \<Rightarrow> (u32 \<times> u32) list" where
  "emi_config b cfg =
     (if b \<in> {HS8200, FS9000} \<union> HS7 then [] else [(0, cfg + EMI_LCK), (0, cfg + EMI_GEN_CFG)]) @
     (if b = FS9000 then
        [(0x8486d9, cfg + EMIBank1), (0x9d220000, cfg + EMIBank1 + 0x8), (0x9d220000, cfg + EMIBank1 + 0x10),
         (0x8, cfg + EMIBank1 + 0x18)]
      else if b \<in> {HS8200} \<union> HS7 then
        [(0x8486d9, cfg + EMIBank3), (0x9d220000, cfg + EMIBank3 + 0x10), (0x8, cfg + EMIBank3 + 0x18),
         (0, cfg + EMI_GEN_CFG)]
      else
        [(emi_data0, cfg + EMIBank2), (emi_data1, cfg + EMIBank2 + 0x8), (emi_data1, cfg + EMIBank2 + 0x10),
         (0, cfg + EMIBank2 + 0x18), (if cubebox b then 2 else 0, cfg + EMI_FLASH_CLK_SEL)]) @
     (if b \<in> {HS8200, FS9000, HS7110, HS7119, HS7810A, HS7819} then [] else [(1, cfg + EMI_CLK_EN)])"

text \<open>The pin that resets the chip.\<close>

definition toggle_enable :: "'w ci_kernel \<Rightarrow> dvb_ca_state \<Rightarrow> 'w \<Rightarrow> 'w option" where
  "toggle_enable K s w = do {
     w \<leftarrow> ci_set_pin K (cic_enable_pin s) 1 w;
     w \<leftarrow> ci_set_pin K (cic_enable_pin s) 0 (ck_msleep K 250 w);
     Some (ck_msleep K 250 w)
   }"

definition power_off :: "'w ci_kernel \<Rightarrow> dvb_ca_state \<Rightarrow> 'w \<Rightarrow> 'w option" where
  "power_off K s w = do { w \<leftarrow> ci_set_pin K (module_A_pin s) 0 w; ci_set_pin K (module_B_pin s) 0 w }"

definition clkb_settings :: "(u32 \<times> u32) list" where
  "clkb_settings = [(0x0000c0de, 0xfe000010), (0x00000008, 0xfe0000b4), (0x0000c1a0, 0xfe000010)]"

definition request_pins ::
  "ci_board \<Rightarrow> 'w ci_kernel \<Rightarrow> dvb_ca_state \<Rightarrow> 'w \<Rightarrow> (dvb_ca_state \<times> 'w) option" where
  "request_pins b K s w =
     (if b = FS9000 then do {
        let (p, w) = ck_request_pin K 3 6 ''StarCI'' w;
        let s = s\<lparr>cic_enable_pin := p\<rparr>;
        w \<leftarrow> toggle_enable K s w;
        let (a, w) = ck_request_pin K 1 2 ''StarCI_ModA'' w;
        let (c, w) = ck_request_pin K 2 7 ''StarCI_ModB'' w;
        let s = s\<lparr>module_A_pin := a, module_B_pin := c\<rparr>;
        w \<leftarrow> power_off K s w;
        Some (s, w)
      }
      else if b = HS8200 then do {
        let w = ctrl_outls K (clkb_settings @ [(0x1c, reg_sysconfig s + 0x160)]) w;
        let (a, w) = ck_request_pin K 11 0 ''StarCI_ModA'' w;
        let (c, w) = ck_request_pin K 11 1 ''StarCI_ModB'' w;
        let (p, w) = ck_request_pin K 15 1 ''StarCI'' w;
        let s = s\<lparr>module_A_pin := a, module_B_pin := c, cic_enable_pin := p\<rparr>;
        w \<leftarrow> toggle_enable K s w;
        w \<leftarrow> power_off K s w;
        Some (s, w)
      }
      else if b \<in> HS7 then do {
        let w = ctrl_outls K clkb_settings w;
        let (p, w) = ck_request_pin K 6 2 ''StarCI_RST'' w;
        let s = s\<lparr>cic_enable_pin := p\<rparr>;
        w \<leftarrow> toggle_enable K s w;
        Some (s, w)
      }
      else Some (s, w))"

text \<open>The chip is reset, gets its values and is locked.\<close>

definition init_chip :: "ci_board \<Rightarrow> 'w ci_kernel \<Rightarrow> dvb_ca_state \<Rightarrow> 'w \<Rightarrow> 'w option" where
  "init_chip b K s w = do {
     (_, w) \<leftarrow> starci_writereg K s 0x1f 0x80 w;
     (_, w) \<leftarrow> starci_writeregN K s (default_values b) w;
     (_, w) \<leftarrow> starci_writereg K s 0x1f 0x01 w;
     (_, w) \<leftarrow> starci_writereg K s 0x18 (if b \<in> {HS8200, FS9000} \<union> HS7 \<or> cubebox b then 0x21 else 0x01) w;
     Some w
   }"

definition membase :: "ci_board \<Rightarrow> nat \<Rightarrow> u32" where
  "membase b slot =
     (if slot = 0 then
        (if b = FS9000 then 0xa2000000 else if b = HS8200 then 0x06800000 else if b \<in> HS7 then 0x06000000
         else if cubebox b then 0x3000000 else if b = HCHS8100 then 0xa2000000 else 0xa3000000)
      else
        (if b = TF7700 then 0xa3400000 else if b = FS9000 then 0xa2010000 else if b = HS8200 then 0x06810000
         else if b \<in> HS7 then 0x06010000 else if cubebox b then 0x3010000 else if b = HCHS8100 then 0xa2010000
         else 0xa3010000))"

definition map_emi :: "ci_board \<Rightarrow> 'w ci_kernel \<Rightarrow> dvb_ca_state \<Rightarrow> 'w \<Rightarrow> dvb_ca_state \<times> 'w" where
  "map_emi b K s w =
     (if b \<in> {HS8200} \<union> HS7 then
        (let (cfg, w) = ck_ioremap K 0xfe700000 0x7ff w; (sys, w) = ck_ioremap K 0xFE001000 0x200 w in
         (s\<lparr>reg_config := cfg, reg_sysconfig := sys\<rparr>, w))
      else
        (let (cfg, w) = ck_ioremap K 0x1A100000 0x7ff w; (buf, w) = ck_ioremap K 0x1A100800 0x40 w in
         (s\<lparr>reg_config := cfg, reg_buffer := buf\<rparr>, w)))"

definition map_slots :: "ci_board \<Rightarrow> 'w ci_kernel \<Rightarrow> 'w ci_op" where
  "map_slots b K s w =
     (let (m0, w) = ck_ioremap K (membase b 0) 0x1000 w; s = s\<lparr>slot_membase := (slot_membase s)[0 := m0]\<rparr> in
      if m0 = 0 then ci_return 1 s w
      else
        let (m1, w) = ck_ioremap K (membase b 1) 0x1000 w; s = s\<lparr>slot_membase := (slot_membase s)[1 := m1]\<rparr> in
        if m1 = 0 then ci_return 1 s (ck_iounmap K m0 w)
        else
          let w = (if b \<in> {HS8200, FS9000} \<union> HS7 then w else ck_outl K 0x1F (reg_config s + EMI_LCK) w);
              (r, w) = ck_ca_init K 0 (if b \<in> {CUBEREVO_250HD, CUBEREVO_2000HD, CUBEREVO_MINI_FTA} then 1 else 2) w in
          ci_return r s w)"

text \<open>The adapter and the address of the chip.\<close>

definition i2c_number :: "ci_board \<Rightarrow> int" where
  "i2c_number b = (if b \<in> {FS9000, HS8200, HCHS8100} then 2 else if b \<in> HS7 then 1 else 0)"

definition i2c_address :: "ci_board \<Rightarrow> int" where
  "i2c_address b = (if b \<in> HS7 then 0x43 else 0x40)"

definition init_ci_controller :: "ci_board \<Rightarrow> 'w ci_kernel \<Rightarrow> 'w ci_op" where
  "init_ci_controller b K s w =
     (let (a, w) = ck_i2c_get_adapter K (i2c_number b) w;
          s = s\<lparr>i2c := a, i2c_addr := i2c_address b, module_status := [SLOTSTATUS_NONE, SLOTSTATUS_NONE]\<rparr>;
          (s, w) = map_emi b K s w in
      do {
        (s, w) \<leftarrow> request_pins b K s w;
        w \<leftarrow> init_chip b K s w;
        map_slots b K s (ctrl_outls K (emi_config b (reg_config s)) w)
      })"

text \<open>The variables of a module that has just been loaded; the window pointers are null.\<close>

definition starci_start :: dvb_ca_state where
  "starci_start = \<lparr>i2c = None, i2c_addr = 0, module_status = [0, 0], cic_enable_pin = None, module_A_pin = None,
     module_B_pin = None, reg_config = 0, reg_buffer = 0, reg_sysconfig = 0, slot_membase = [0, 0], extmoduldetect = 0\<rparr>"

text \<open>The calls of the kernel and of the routing interface.\<close>

datatype ci_call = Poll int int | Reset int | ReadAttr int int | WriteAttr int int u8 | ReadCtrl int u8
  | WriteCtrl int u8 u8 | Shutdown int | TsEnable int | GetSource int int | SetSource int int

primrec starci_call :: "ci_board \<Rightarrow> 'w ci_kernel \<Rightarrow> ci_call \<Rightarrow> 'w ci_op" where
  "starci_call b K (Poll slot open) s w = starci_poll_slot_status b K slot open s w"
| "starci_call b K (Reset slot) s w = starci_slot_reset b K slot s w"
| "starci_call b K (ReadAttr slot a) s w = starci_read_attribute_mem b K slot a s w"
| "starci_call b K (WriteAttr slot a v) s w = starci_write_attribute_mem b K slot a v s w"
| "starci_call b K (ReadCtrl slot a) s w = starci_read_cam_control b K slot a s w"
| "starci_call b K (WriteCtrl slot a v) s w = starci_write_cam_control b K slot a v s w"
| "starci_call b K (Shutdown slot) s w = starci_slot_shutdown slot s w"
| "starci_call b K (TsEnable slot) s w = starci_slot_ts_enable b K slot s w"
| "starci_call b K (GetSource slot src) s w =
     map_option (\<lambda>(r, w). (r, s, w)) (getCiSource b K slot src s w)"
| "starci_call b K (SetSource slot src) s w =
     map_option (\<lambda>(r, w). (r, s, w)) (setCiSource b K slot src s w)"

primrec starci_run :: "ci_board \<Rightarrow> 'w ci_kernel \<Rightarrow> ci_call list \<Rightarrow> dvb_ca_state \<Rightarrow> 'w \<Rightarrow> (dvb_ca_state \<times> 'w) option" where
  "starci_run b K [] s w = Some (s, w)"
| "starci_run b K (c # cs) s w = do { (r, s, w) \<leftarrow> starci_call b K c s w; starci_run b K cs s w }"

end
