(* ===== verification/Starci_Chip.thy ===== *)
theory Starci_Chip
  imports Starci
begin

text \<open>
  The registers of the StarCI2Win chip, as the driver relies on them, and what the driver does with them:
  memory is accessed only while the chip connects the right slot in the right mode, and the routing of the
  streams that is set is compared with the one that is read back.
\<close>

section \<open>The chip\<close>

text \<open>
  Equal registers, as far as the driver relies on them: the two control registers, the routing and the
  destination. Bit 0 of a control register tells whether a module is in the slot; it may change at any time.
\<close>

definition same_regs :: "(u8 \<Rightarrow> u8) \<Rightarrow> (u8 \<Rightarrow> u8) \<Rightarrow> bool" where
  "same_regs f g \<longleftrightarrow> f 0 AND NOT 1 = g 0 AND NOT 1 \<and> f 9 AND NOT 1 = g 9 AND NOT 1 \<and> f 0x11 = g 0x11 \<and> f 0x17 = g 0x17"

lemma same_regs_refl [simp]: "same_regs f f"
  by (simp add: same_regs_def)

lemma same_regs_sym: "same_regs f g \<Longrightarrow> same_regs g f"
  by (simp add: same_regs_def)

lemma same_regs_trans [trans]: "same_regs f g \<Longrightarrow> same_regs g h \<Longrightarrow> same_regs f h"
  by (simp add: same_regs_def)

text \<open>
  The chip at an address of a bus: registers are read as they are, and a message with a register and a value
  writes it; a message with 33 bytes writes all of them from 0 on. A reset (bit 7 of register \<^verbatim>\<open>0x1f\<close>) may
  change every register. Nothing else the driver does changes them.
\<close>

definition starci_chip :: "'w ci_kernel \<Rightarrow> nat \<Rightarrow> int \<Rightarrow> ('w \<Rightarrow> u8 \<Rightarrow> u8) \<Rightarrow> bool" where
  "starci_chip K a d regs \<longleftrightarrow>
     (\<forall>r w. \<exists>w'. ck_i2c_read K a d r w = ((2, regs w r), w') \<and> same_regs (regs w') (regs w)) \<and>
     (\<forall>r v w. (r = 0x1f \<longrightarrow> \<not> bit v 7) \<longrightarrow>
        (\<exists>w'. ck_i2c_write K a d [r, v] w = (1, w') \<and> same_regs (regs w') ((regs w)(r := v)))) \<and>
     (\<forall>vs w. length vs = 32 \<longrightarrow>
        (\<exists>w'. ck_i2c_write K a d (0 # vs) w = (1, w') \<and>
           same_regs (regs w') (\<lambda>r. if unat r < 32 then vs ! unat r else regs w r))) \<and>
     (\<forall>n w. same_regs (regs (ck_msleep K n w)) (regs w)) \<and>
     (\<forall>p w. same_regs (regs (snd (ck_readb K p w))) (regs w)) \<and>
     (\<forall>p w. same_regs (regs (snd (ck_readw K p w))) (regs w)) \<and>
     (\<forall>v p w. same_regs (regs (ck_writeb K v p w)) (regs w)) \<and>
     (\<forall>v p w. same_regs (regs (ck_writew K v p w)) (regs w)) \<and>
     (\<forall>v p w. same_regs (regs (ck_outl K v p w)) (regs w)) \<and>
     (\<forall>n v w. same_regs (regs (ck_set_pin K n v w)) (regs w)) \<and>
     (\<forall>p n w. same_regs (regs (snd (ck_ioremap K p n w))) (regs w)) \<and>
     (\<forall>p w. same_regs (regs (ck_iounmap K p w)) (regs w)) \<and>
     (\<forall>f n w. same_regs (regs (snd (ck_ca_init K f n w))) (regs w))"

text \<open>The driver talks to the chip.\<close>

definition connected :: "'w ci_kernel \<Rightarrow> ('w \<Rightarrow> u8 \<Rightarrow> u8) \<Rightarrow> dvb_ca_state \<Rightarrow> bool" where
  "connected K regs s \<longleftrightarrow> (\<exists>a. i2c s = Some a \<and> starci_chip K a (i2c_addr s) regs)"

lemma chip_read:
  "starci_chip K a d regs \<Longrightarrow> \<exists>w'. ck_i2c_read K a d r w = ((2, regs w r), w') \<and> same_regs (regs w') (regs w)"
  unfolding starci_chip_def by (elim conjE) blast

lemma chip_write:
  "starci_chip K a d regs \<Longrightarrow> r = 0x1f \<longrightarrow> \<not> bit v 7 \<Longrightarrow>
     \<exists>w'. ck_i2c_write K a d [r, v] w = (1, w') \<and> same_regs (regs w') ((regs w)(r := v))"
  unfolding starci_chip_def by (elim conjE) blast

lemma chip_block:
  "starci_chip K a d regs \<Longrightarrow> length vs = 32 \<Longrightarrow>
     \<exists>w'. ck_i2c_write K a d (0 # vs) w = (1, w') \<and>
       same_regs (regs w') (\<lambda>r. if unat r < 32 then vs ! unat r else regs w r)"
  unfolding starci_chip_def by (elim conjE) blast

lemma readreg_yields:
  assumes "connected K regs s"
  shows "yields (\<lambda>(v, w'). v = uint (regs w (word_of_int r)) \<and> same_regs (regs w') (regs w)) (starci_readreg K s r w)"
proof -
  obtain a where a: "i2c s = Some a" "starci_chip K a (i2c_addr s) regs" using assms by (auto simp: connected_def)
  then show ?thesis using chip_read [OF a(2), of "word_of_int r" w] by (auto simp: starci_readreg_def)
qed

lemma writereg_yields:
  assumes "connected K regs s" "word_of_int r = (0x1f :: u8) \<longrightarrow> \<not> bit (word_of_int x :: u8) 7"
  shows "yields (\<lambda>(v, w'). v = 0 \<and> same_regs (regs w') ((regs w)(word_of_int r := word_of_int x))) (starci_writereg K s r x w)"
proof -
  obtain a where a: "i2c s = Some a" "starci_chip K a (i2c_addr s) regs" using assms by (auto simp: connected_def)
  then show ?thesis using chip_write [OF a(2) assms(2), of w] by (auto simp: starci_writereg_def)
qed

lemma sleep_same: "connected K regs s \<Longrightarrow> same_regs (regs (ck_msleep K n w)) (regs w)"
  by (auto simp: connected_def starci_chip_def)

definition ctrl :: "int \<Rightarrow> u8" where "ctrl slot = (if slot = 0 then 0 else 9)"

definition sel_bit :: "int \<Rightarrow> nat" where "sel_bit slot = (if slot = 0 then 1 else 2)"

text \<open>
  The destination register connects exactly one slot; bits 2 and 3 of the control register choose the memory
  of the module. \<open>chip_ok\<close>: never both slots are connected, and the reserved mode is never chosen.
\<close>

definition selected :: "(u8 \<Rightarrow> u8) \<Rightarrow> int \<Rightarrow> bool" where
  "selected f slot \<longleftrightarrow> bit (f 0x17) (sel_bit slot) \<and> \<not> bit (f 0x17) (3 - sel_bit slot)"

definition attribute_mode :: "(u8 \<Rightarrow> u8) \<Rightarrow> int \<Rightarrow> bool" where
  "attribute_mode f slot \<longleftrightarrow> \<not> bit (f (ctrl slot)) 2 \<and> \<not> bit (f (ctrl slot)) 3"

definition control_mode :: "(u8 \<Rightarrow> u8) \<Rightarrow> int \<Rightarrow> bool" where
  "control_mode f slot \<longleftrightarrow> bit (f (ctrl slot)) 2 \<and> \<not> bit (f (ctrl slot)) 3"

definition chip_ok :: "(u8 \<Rightarrow> u8) \<Rightarrow> bool" where
  "chip_ok f \<longleftrightarrow> \<not> (bit (f 0x17) 1 \<and> bit (f 0x17) 2) \<and> \<not> bit (f 0) 3 \<and> \<not> bit (f 9) 3"

text \<open>
  The destination register after a slot has been selected.
\<close>

definition dest_sel :: "int \<Rightarrow> u8 \<Rightarrow> u8" where
  "dest_sel slot v =
     (if bit v (sel_bit slot) then v else word_of_int ((uint v AND NOT (deactivationMask slot)) OR activationMask slot))"

lemma bit_and_2: "uint (v :: u8) AND 2 = 0 \<longleftrightarrow> \<not> bit v 1"
  using and_exp_eq_0_iff_not_bit [of "uint v" 1] by (simp add: bit_uint_iff)

lemma bit_and_4: "uint (v :: u8) AND 4 = 0 \<longleftrightarrow> \<not> bit v 2"
  using and_exp_eq_0_iff_not_bit [of "uint v" 2] by (simp add: bit_uint_iff)

lemma bit_and_1: "uint (v :: u8) AND 1 = 0 \<longleftrightarrow> \<not> bit v 0"
  using and_exp_eq_0_iff_not_bit [of "uint v" 0] by (simp add: bit_uint_iff)

lemma bit_and_32: "uint (v :: u8) AND 32 = 0 \<longleftrightarrow> \<not> bit v 5"
  using and_exp_eq_0_iff_not_bit [of "uint v" 5] by (simp add: bit_uint_iff)

lemma and_activationMask: "uint (v :: u8) AND activationMask slot = 0 \<longleftrightarrow> \<not> bit v (sel_bit slot)"
  by (simp add: activationMask_def sel_bit_def bit_and_2 bit_and_4)

lemma bit_numeral_2_4: "bit (2 :: int) n \<longleftrightarrow> n = 1" "bit (4 :: int) n \<longleftrightarrow> n = 2"
  using bit_exp_iff [where ?'a = int, of 1 n] bit_exp_iff [where ?'a = int, of 2 n] by (auto simp: possible_bit_def)

lemma bit_dest_sel:
  "bit (dest_sel slot v) n \<longleftrightarrow>
     (if bit v (sel_bit slot) then bit v n
      else n = sel_bit slot \<or> n \<noteq> 3 - sel_bit slot \<and> bit v n)"
  by (auto simp: dest_sel_def sel_bit_def activationMask_def deactivationMask_def bit_word_of_int_iff bit_simps bit_numeral_2_4
      dest: bit_imp_le_length)

lemma dest_loop_done: "bit v (sel_bit slot) \<Longrightarrow> dest_loop K s slot n (uint (v :: u8)) w = Some w"
  by (subst dest_loop.simps) (simp add: and_activationMask)

lemma setDestination_yields:
  assumes c: "connected K regs s" and slot: "\<not> bad_slot slot"
  shows "yields (\<lambda>w'. same_regs (regs w') ((regs w)(0x17 := dest_sel slot (regs w 0x17)))) (setDestination K slot s w)"
proof -
  have loop: "yields (\<lambda>w'. same_regs (regs w') ((regs w)(0x17 := dest_sel slot (regs w 0x17))))
      (dest_loop K s slot 0 (uint (regs w 0x17)) w1)" if w1: "same_regs (regs w1) (regs w)" for w1
  proof (cases "bit (regs w 0x17) (sel_bit slot)")
    case False
    let ?v = "dest_sel slot (regs w 0x17)"
    have eq: "word_of_int ((uint (regs w 0x17) AND NOT (deactivationMask slot)) OR activationMask slot) = ?v"
      using False by (simp add: dest_sel_def)
    obtain w2 where w2: "starci_writereg K s DEST_SEL_REG
          ((uint (regs w 0x17) AND NOT (deactivationMask slot)) OR activationMask slot) w1 = Some (0, w2)"
        "same_regs (regs w2) ((regs w1)(0x17 := ?v))"
      using writereg_yields [OF c, of DEST_SEL_REG
          "(uint (regs w 0x17) AND NOT (deactivationMask slot)) OR activationMask slot" w1] eq
      by (auto simp: yields_def)
    obtain v w3 where w3: "starci_readreg K s DEST_SEL_REG w2 = Some (v, w3)" "v = uint (regs w2 0x17)"
        "same_regs (regs w3) (regs w2)"
      using readreg_yields [OF c, of w2 DEST_SEL_REG] by (auto simp: yields_def)
    have "same_regs (regs w3) ((regs w)(0x17 := ?v))" "regs w2 0x17 = ?v"
      using w1 w2(2) w3(3) by (auto simp: same_regs_def)
    then show ?thesis using False w2(1) w3
      by (subst dest_loop.simps) (simp add: and_activationMask dest_loop_done bit_dest_sel)
  next
    case True
    then show ?thesis using w1 by (simp add: dest_sel_def dest_loop_done)
  qed
  show ?thesis
    unfolding setDestination_def using slot
    by simp (rule yields_bind [OF readreg_yields [OF c]], use loop in auto)
qed

lemma same_regs_bits:
  "same_regs f g \<Longrightarrow> 0 < n \<Longrightarrow> bit (f (ctrl slot)) n = bit (g (ctrl slot)) n"
  "same_regs f g \<Longrightarrow> f 0x17 = g 0x17"
  "same_regs f g \<Longrightarrow> f 0x11 = g 0x11"
proof -
  have "bit x n = bit y n" if "x AND NOT 1 = y AND NOT 1" "0 < n" for x y :: u8
  proof -
    have "bit (x AND NOT 1) n = bit (y AND NOT 1) n" using that(1) by simp
    then show ?thesis using that(2) by (auto simp: bit_simps dest: bit_imp_le_length)
  qed
  from this [of "f 0" "g 0"] this [of "f 9" "g 9"]
  show "same_regs f g \<Longrightarrow> 0 < n \<Longrightarrow> bit (f (ctrl slot)) n = bit (g (ctrl slot)) n"
    by (simp add: same_regs_def ctrl_def)
qed (auto simp: same_regs_def)

lemma same_regs_ok: "same_regs f g \<Longrightarrow> chip_ok f = chip_ok g"
  using same_regs_bits(1) [of f g 3 0] same_regs_bits(1) [of f g 3 1] same_regs_bits(2) [of f g]
  by (auto simp: chip_ok_def ctrl_def)

lemma same_regs_selected: "same_regs f g \<Longrightarrow> selected f slot = selected g slot"
  by (simp add: selected_def same_regs_bits(2))

lemma same_regs_mode:
  "same_regs f g \<Longrightarrow> attribute_mode f slot = attribute_mode g slot"
  "same_regs f g \<Longrightarrow> control_mode f slot = control_mode g slot"
  using same_regs_bits(1) [of f g 2 slot] same_regs_bits(1) [of f g 3 slot]
  by (auto simp: attribute_mode_def control_mode_def)

lemmas same_regs_eq = same_regs_ok same_regs_selected same_regs_mode

lemma dest_sel_selects:
  "chip_ok f \<Longrightarrow> selected (f(0x17 := dest_sel slot (f 0x17))) slot"
  "chip_ok f \<Longrightarrow> chip_ok (f(0x17 := dest_sel slot (f 0x17)))"
  by (auto simp: chip_ok_def selected_def bit_dest_sel sel_bit_def split: if_splits)

lemma bit_u8_less: "bit (v :: u8) n \<Longrightarrow> n < 8"
  using bit_imp_le_length [of v n] by simp

lemma bit_12: "bit (12 :: int) n \<longleftrightarrow> n = 2 \<or> n = 3"
  by (auto simp: bit_numeral_rec bit_1_iff split: nat.splits)

lemma bit_clear_mode_NOT: "bit (word_of_int (uint (v :: u8) AND NOT 12) :: u8) n \<longleftrightarrow> bit v n \<and> n \<noteq> 2 \<and> n \<noteq> 3"
  by (auto simp: bit_word_of_int_iff bit_simps bit_12 dest: bit_u8_less)

lemma bit_io_mode_NOT: "bit (word_of_int ((uint (v :: u8) AND NOT 12) OR 4) :: u8) n \<longleftrightarrow> n = 2 \<or> bit v n \<and> n \<noteq> 3"
  by (auto simp: bit_word_of_int_iff bit_simps bit_12 bit_numeral_2_4 dest: bit_u8_less)

text \<open>The simplifier writes \<^verbatim>\<open>~0xC\<close> as \<open>- 13\<close>.\<close>

lemma bit_clear_mode: "bit (word_of_int (uint (v :: u8) AND - 13) :: u8) n \<longleftrightarrow> bit v n \<and> n \<noteq> 2 \<and> n \<noteq> 3"
  using bit_clear_mode_NOT [of v n] by simp

lemma bit_io_mode: "bit (word_of_int (uint (v :: u8) AND - 13 OR 4) :: u8) n \<longleftrightarrow> n = 2 \<or> bit v n \<and> n \<noteq> 3"
  using bit_io_mode_NOT [of v n] by simp

lemma and_12: "uint (v :: u8) AND 12 = 0 \<longleftrightarrow> \<not> bit v 2 \<and> \<not> bit v 3"
proof -
  have b: "bit (uint v AND 12) n \<longleftrightarrow> bit v n \<and> (n = 2 \<or> n = 3)" for n
    by (auto simp: bit_and_iff bit_12 bit_uint_iff)
  have "uint v AND 12 = 0 \<longleftrightarrow> (\<forall>n. \<not> bit (uint v AND 12) n)"
    by (simp only: bit_eq_iff [of "uint v AND 12" 0] bit_0_eq) simp
  then show ?thesis by (auto simp: b)
qed

lemma yields_mono: "yields Q m \<Longrightarrow> (\<And>x. Q x \<Longrightarrow> P x) \<Longrightarrow> yields P m"
  by (auto simp: yields_def)

lemma chip_ok_ctrl: "chip_ok f \<Longrightarrow> \<not> bit v 3 \<Longrightarrow> chip_ok (f(ctrl slot := v))"
  by (auto simp: chip_ok_def ctrl_def)

lemma ctrl_neq [simp]: "ctrl slot \<noteq> 0x17" "ctrl slot \<noteq> 0x11" "ctrl slot \<noteq> 0x1f"
  by (auto simp: ctrl_def)

lemma mode_upd [simp]:
  "attribute_mode (f(0x17 := v)) slot = attribute_mode f slot"
  "control_mode (f(0x17 := v)) slot = control_mode f slot"
  "attribute_mode (f(ctrl slot := v)) slot \<longleftrightarrow> \<not> bit v 2 \<and> \<not> bit v 3"
  "control_mode (f(ctrl slot := v)) slot \<longleftrightarrow> bit v 2 \<and> \<not> bit v 3"
  by (auto simp: attribute_mode_def control_mode_def)

lemma word_ctrlReg [simp]: "word_of_int (ctrlReg slot) = ctrl slot"
  by (simp add: ctrlReg_def ctrl_def)

lemma read_ctrl:
  "connected K regs s \<Longrightarrow>
     \<exists>w1. starci_readreg K s (ctrlReg slot) w = Some (uint (regs w (ctrl slot)), w1) \<and> same_regs (regs w1) (regs w)"
  using readreg_yields [of K regs s w "ctrlReg slot"] by (auto simp: yields_def)

text \<open>Writing a control register and selecting a slot afterwards.\<close>

lemma write_ctrl_yields:
  assumes "connected K regs s" "chip_ok (regs w)" "\<not> bit (word_of_int v :: u8) 3"
  shows "yields (\<lambda>w'. chip_ok (regs w') \<and> same_regs (regs w') ((regs w)(ctrl slot := word_of_int v)))
    (map_option snd (starci_writereg K s (ctrlReg slot) v w))"
  using writereg_yields [OF assms(1), of "ctrlReg slot" v w] chip_ok_ctrl [OF assms(2, 3), of slot]
  by (auto simp: yields_def same_regs_ok)

lemma select_slot_yields:
  assumes "connected K regs s" "\<not> bad_slot slot" "chip_ok (regs w)"
  shows "yields (\<lambda>w'. chip_ok (regs w') \<and> selected (regs w') slot \<and>
      attribute_mode (regs w') slot = attribute_mode (regs w) slot \<and>
      control_mode (regs w') slot = control_mode (regs w) slot) (setDestination K slot s w)"
  by (rule yields_mono [OF setDestination_yields [OF assms(1, 2)]])
    (use dest_sel_selects [OF assms(3)] in \<open>simp add: same_regs_eq\<close>)

lemma select_attribute_yields:
  assumes c: "connected K regs s" and slot: "\<not> bad_slot slot" and ok: "chip_ok (regs w)"
  shows "yields (\<lambda>w'. chip_ok (regs w') \<and> selected (regs w') slot \<and> attribute_mode (regs w') slot) (select_attribute K s slot w)"
proof -
  have mode: "yields (\<lambda>w2. chip_ok (regs w2) \<and> attribute_mode (regs w2) slot)
      (if uint (regs w (ctrl slot)) AND 0xC \<noteq> 0
       then map_option snd (starci_writereg K s (ctrlReg slot) (uint (regs w (ctrl slot)) AND NOT 0xC) w1) else Some w1)"
    if w1: "same_regs (regs w1) (regs w)" for w1
  proof (cases "attribute_mode (regs w) slot")
    case True
    then show ?thesis using w1 ok by (simp add: and_12 attribute_mode_def) (simp add: same_regs_eq attribute_mode_def [symmetric])
  next
    case False
    then have "uint (regs w (ctrl slot)) AND 12 \<noteq> 0" by (auto simp: and_12 attribute_mode_def)
    then show ?thesis
      using w1 ok by (auto simp: same_regs_eq bit_clear_mode intro!: yields_mono [OF write_ctrl_yields [OF c]])
  qed
  obtain w1 where r: "starci_readreg K s (ctrlReg slot) w = Some (uint (regs w (ctrl slot)), w1)" "same_regs (regs w1) (regs w)"
    using read_ctrl [OF c] by blast
  show ?thesis
    unfolding select_attribute_def r(1) Option.bind.bind_lunit prod.case
    by (rule yields_bind [OF mode [OF r(2)]], rule yields_mono [OF select_slot_yields [OF c slot]]) auto
qed

lemma select_control_yields:
  assumes c: "connected K regs s" and slot: "\<not> bad_slot slot" and ok: "chip_ok (regs w)"
  shows "yields (\<lambda>w'. chip_ok (regs w') \<and> selected (regs w') slot \<and> control_mode (regs w') slot) (select_control K s slot w)"
proof -
  have mode: "yields (\<lambda>w2. chip_ok (regs w2) \<and> control_mode (regs w2) slot)
      (if uint (regs w (ctrl slot)) AND 0x4 = 0
       then map_option snd (starci_writereg K s (ctrlReg slot) ((uint (regs w (ctrl slot)) AND NOT 0xC) OR 0x4) w1) else Some w1)"
    if w1: "same_regs (regs w1) (regs w)" for w1
  proof (cases "bit (regs w (ctrl slot)) 2")
    case True
    then have "control_mode (regs w) slot" using ok by (auto simp: chip_ok_def control_mode_def ctrl_def)
    then show ?thesis using w1 ok True by (simp add: bit_and_4 same_regs_eq)
  next
    case False
    then show ?thesis
      using w1 ok by (auto simp: bit_and_4 same_regs_eq bit_io_mode intro!: yields_mono [OF write_ctrl_yields [OF c]])
  qed
  obtain w1 where r: "starci_readreg K s (ctrlReg slot) w = Some (uint (regs w (ctrl slot)), w1)" "same_regs (regs w1) (regs w)"
    using read_ctrl [OF c] by blast
  show ?thesis
    unfolding select_control_def r(1) Option.bind.bind_lunit prod.case
    by (rule yields_bind [OF mode [OF r(2)]], rule yields_mono [OF select_slot_yields [OF c slot]]) auto
qed

text \<open>The accesses, once the slot is selected.\<close>

lemma access_eq:
  assumes "\<not> bad_slot slot"
  shows "select_attribute K s slot w = Some w1 \<Longrightarrow>
      starci_read_attribute_mem b K slot address s w = map_option (\<lambda>(v, w). (v, s, w)) (slot_read b K s slot address w1)"
    "select_attribute K s slot w = Some w1 \<Longrightarrow>
      starci_write_attribute_mem b K slot address value s w = map_option (\<lambda>w. (0, s, w)) (slot_write b K s slot address value w1)"
    "select_control K s slot w = Some w1 \<Longrightarrow>
      starci_read_cam_control b K slot a s w = map_option (\<lambda>(v, w). (v, s, w)) (slot_read b K s slot (uint a) w1)"
    "select_control K s slot w = Some w1 \<Longrightarrow>
      starci_write_cam_control b K slot a value s w =
        map_option (\<lambda>w. (0, s, w))
          (slot_write b K s slot (uint a) value w1 \<bind>
            (\<lambda>w. if extmoduldetect s = 1 \<and> value = 8 \<and> a = 1 then slot_write b K s slot (uint a) 0 w else Some w))"
  using assms
  by (auto simp: starci_read_attribute_mem_def starci_write_attribute_mem_def starci_read_cam_control_def
      starci_write_cam_control_def ci_return_def split: prod.splits option.splits Option.bind_split)

text \<open>
  C15. Every access to the memory of a module takes place while the chip connects that slot and no other one,
  in the mode for attribute memory or in the mode for the module's registers: on a chip as above the
  four access operations are exactly the access to the window, made in such a state.
\<close>

theorem starci_accesses_selected_slot:
  assumes "connected K regs s" "chip_ok (regs w)" "\<not> bad_slot slot"
  shows "\<exists>w1 w2.
      selected (regs w1) slot \<and> attribute_mode (regs w1) slot \<and>
      starci_read_attribute_mem b K slot address s w = map_option (\<lambda>(v, w). (v, s, w)) (slot_read b K s slot address w1) \<and>
      starci_write_attribute_mem b K slot address value s w = map_option (\<lambda>w. (0, s, w)) (slot_write b K s slot address value w1) \<and>
      selected (regs w2) slot \<and> control_mode (regs w2) slot \<and>
      starci_read_cam_control b K slot a s w = map_option (\<lambda>(v, w). (v, s, w)) (slot_read b K s slot (uint a) w2) \<and>
      starci_write_cam_control b K slot a value s w =
        map_option (\<lambda>w. (0, s, w))
          (slot_write b K s slot (uint a) value w2 \<bind>
            (\<lambda>w. if extmoduldetect s = 1 \<and> value = 8 \<and> a = 1 then slot_write b K s slot (uint a) 0 w else Some w))"
proof -
  obtain w1 w2 where "select_attribute K s slot w = Some w1" "selected (regs w1) slot" "attribute_mode (regs w1) slot"
      "select_control K s slot w = Some w2" "selected (regs w2) slot" "control_mode (regs w2) slot"
    using select_attribute_yields [OF assms(1, 3, 2)] select_control_yields [OF assms(1, 3, 2)]
    by (auto simp: yields_def)
  then show ?thesis by (intro exI [of _ w1] exI [of _ w2]) (simp add: access_eq [OF assms(3)])
qed

lemma frame_same:
  assumes "connected K regs s"
  shows "same_regs (regs (ck_msleep K n w)) (regs w)" "same_regs (regs (snd (ck_readb K p w))) (regs w)"
    "same_regs (regs (snd (ck_readw K p w))) (regs w)" "same_regs (regs (ck_writeb K v p w)) (regs w)"
    "same_regs (regs (ck_writew K v' p w)) (regs w)" "same_regs (regs (ck_outl K x p w)) (regs w)"
    "same_regs (regs (ck_set_pin K n i w)) (regs w)" "same_regs (regs (snd (ck_ioremap K p q w))) (regs w)"
    "same_regs (regs (ck_iounmap K p w)) (regs w)" "same_regs (regs (snd (ck_ca_init K f i w))) (regs w)"
  using assms unfolding connected_def starci_chip_def by (elim exE conjE, simp)+

lemma slot_read_same:
  assumes "connected K regs s" "slot_read b K s slot a w = Some (v, w')"
  shows "same_regs (regs w') (regs w)"
proof -
  obtain p where "w' = (if byte_access b then snd (ck_readb K p w) else snd (ck_readw K p w))"
    using assms(2) by (cases "byte_access b") (auto simp: slot_read_def bind_eq_Some_conv case_prod_beta)
  then show ?thesis using frame_same [OF assms(1)] by simp
qed

lemma slot_write_same:
  "connected K regs s \<Longrightarrow> slot_write b K s slot a v w = Some w' \<Longrightarrow> same_regs (regs w') (regs w)"
  using frame_same [of K regs s] by (auto simp: slot_write_def bind_eq_Some_conv)

lemma power_pin_same:
  "connected K regs s \<Longrightarrow> power_pin b K s slot v w = Some w' \<Longrightarrow> same_regs (regs w') (regs w)"
  using frame_same [of K regs s] by (auto simp: power_pin_def ci_set_pin_def split: if_splits option.splits)

text \<open>Register accesses keep the condition on the chip.\<close>

lemma chip_ok_bit3: "chip_ok f \<Longrightarrow> \<not> bit (f (ctrl slot)) 3"
  by (simp add: chip_ok_def ctrl_def)

lemma read_chip_ok:
  "connected K regs s \<Longrightarrow> chip_ok (regs w) \<Longrightarrow>
     yields (\<lambda>(v, w'). chip_ok (regs w') \<and> \<not> bit v 3) (starci_readreg K s (ctrlReg slot) w)"
  using read_ctrl [of K regs s slot w] by (auto simp: same_regs_ok bit_uint_iff chip_ok_bit3)

lemma write_chip_ok:
  "connected K regs s \<Longrightarrow> chip_ok (regs w) \<Longrightarrow> \<not> bit v 3 \<Longrightarrow>
     yields (\<lambda>(e, w'). chip_ok (regs w')) (starci_writereg K s (ctrlReg slot) v w)"
  using writereg_yields [of K regs s "ctrlReg slot" v w] chip_ok_ctrl [of "regs w" "word_of_int v" slot]
  by (auto simp: yields_def same_regs_ok bit_word_of_int_iff)

lemma write_dest_ok:
  "connected K regs s \<Longrightarrow> chip_ok (regs w) \<Longrightarrow>
     yields (\<lambda>(e, w'). chip_ok (regs w')) (starci_writereg K s DEST_SEL_REG 0 w)"
  using writereg_yields [of K regs s DEST_SEL_REG 0 w] by (auto simp: yields_def same_regs_ok) (simp add: chip_ok_def)

lemma msleep_chip_ok: "connected K regs s \<Longrightarrow> chip_ok (regs w) \<Longrightarrow> chip_ok (regs (ck_msleep K n w))"
  using frame_same(1) [of K regs s n w] by (simp add: same_regs_ok)

text \<open>
  The invariant: the status words have one of the four values, and the chip is in a state as above.
\<close>

definition wf_status :: "dvb_ca_state \<Rightarrow> bool" where
  "wf_status s \<longleftrightarrow> length (module_status s) = 2 \<and> set (module_status s) \<subseteq> {1, 2, 4, 8}"

definition starci_inv :: "'w ci_kernel \<Rightarrow> ('w \<Rightarrow> u8 \<Rightarrow> u8) \<Rightarrow> dvb_ca_state \<Rightarrow> 'w \<Rightarrow> bool" where
  "starci_inv K regs s w \<longleftrightarrow> connected K regs s \<and> wf_status s \<and> chip_ok (regs w)"

lemma set_status_simps [simp]:
  "connected K regs (set_status slot v s) = connected K regs s"
  "i2c (set_status slot v s) = i2c s" "i2c_addr (set_status slot v s) = i2c_addr s"
  "module_status (set_status slot v s) = (module_status s)[nat slot := v]"
  "slot_membase (set_status slot v s) = slot_membase s"
  by (simp_all add: set_status_def connected_def)

lemma wf_set_status: "wf_status s \<Longrightarrow> v \<in> {1, 2, 4, 8} \<Longrightarrow> wf_status (set_status slot v s)"
  by (auto simp: wf_status_def dest: set_update_subset_insert [THEN subsetD])

lemma reset_yields:
  assumes "starci_inv K regs s w" "\<not> bad_slot slot"
  shows "yields (\<lambda>(r, s', w'). r = 0 \<and> s' = set_status slot SLOTSTATUS_RESET s \<and> chip_ok (regs w')) (starci_slot_reset b K slot s w)"
proof -
  have c: "connected K regs (set_status slot SLOTSTATUS_RESET s)" and ok: "chip_ok (regs w)"
    using assms(1) by (simp_all add: starci_inv_def)
  have st: "arr_get (module_status s) (nat slot) = Some (module_status s ! nat slot)"
    using assms by (auto simp: starci_inv_def wf_status_def arr_get_def)
  show ?thesis
    unfolding starci_slot_reset_def st Let_def
    by (use assms(2) in simp, rule yields_bind [OF read_chip_ok [OF c ok]], clarify, rule yields_bind [where Q = "\<lambda>w. chip_ok (regs w)"])
      (auto simp: ci_return_def bit_or_iff bit_and_iff intro!: yields_bind [OF read_chip_ok [OF c]] yields_bind [OF write_chip_ok [OF c]]
        yields_bind [OF write_dest_ok [OF c]] msleep_chip_ok [OF c])
qed

lemma ts_enable_yields:
  assumes "starci_inv K regs s w" "\<not> bad_slot slot"
  shows "yields (\<lambda>(r, s', w'). r = 0 \<and> s' = s \<and> chip_ok (regs w')) (starci_slot_ts_enable b K slot s w)"
proof -
  have c: "connected K regs s" and ok: "chip_ok (regs w)" using assms(1) by (simp_all add: starci_inv_def)
  have "\<not> bit (ts_value b) 3" by (simp add: ts_value_def)
  then show ?thesis
    unfolding starci_slot_ts_enable_def using assms(2) ok
    by (auto simp: ci_return_def bit_or_iff intro!: yields_bind [OF read_chip_ok [OF c]] yields_bind [OF write_chip_ok [OF c]])
qed

text \<open>Routing.\<close>

lemma read_twin:
  "connected K regs s \<Longrightarrow>
     \<exists>w1. starci_readreg K s TWIN_MODE_CTRL_REG w = Some (uint (regs w 0x11), w1) \<and> same_regs (regs w1) (regs w)"
  using readreg_yields [of K regs s w TWIN_MODE_CTRL_REG] by (auto simp: yields_def)

lemma write_twin:
  "connected K regs s \<Longrightarrow>
     \<exists>w1. starci_writereg K s TWIN_MODE_CTRL_REG v w = Some (0, w1) \<and> same_regs (regs w1) ((regs w)(0x11 := word_of_int v))"
  using writereg_yields [of K regs s TWIN_MODE_CTRL_REG v w] by (auto simp: yields_def)

text \<open>Whether the streams are crossed.\<close>

definition crossed :: "ci_board \<Rightarrow> int \<Rightarrow> int \<Rightarrow> bool" where
  "crossed b slot source \<longleftrightarrow>
     (if cubebox b then slot \<noteq> 0 else (slot \<noteq> source) = (b \<in> {TF7700, HS8200, FS9000}))"

lemma bit_32: "bit (32 :: int) n \<longleftrightarrow> n = 5"
  using bit_exp_iff [where ?'a = int, of 5 n] by (auto simp: possible_bit_def)

lemma setCiSource_yields:
  assumes c: "connected K regs s" and args: "slot \<in> {0, 1}" "source \<in> {0, 1}"
  shows "\<exists>v w'. setCiSource b K slot source s w = Some (0, w') \<and> same_regs (regs w') ((regs w)(0x11 := v)) \<and>
    bit v 5 = crossed b slot source"
proof (cases "cubebox b")
  case True
  define val :: int where "val = (if slot = 0 then 0x82 else 0xa2)"
  obtain w2 where w2: "starci_writereg K s TWIN_MODE_CTRL_REG val w = Some (0, w2)"
      "same_regs (regs w2) ((regs w)(0x11 := word_of_int val))"
    using write_twin [OF c] by blast
  have "setCiSource b K slot source s w = starci_writereg K s TWIN_MODE_CTRL_REG val w"
    using args True by (auto simp: setCiSource_def val_def)
  moreover have "bit (word_of_int val :: u8) 5 = crossed b slot source"
    using True by (simp add: val_def crossed_def)
  ultimately show ?thesis using w2 by auto
next
  case False
  define val where "val = (if crossed b slot source then uint (regs w 0x11) OR 0x20 else uint (regs w 0x11) AND NOT 0x20)"
  obtain w1 where w1: "starci_readreg K s TWIN_MODE_CTRL_REG w = Some (uint (regs w 0x11), w1)" "same_regs (regs w1) (regs w)"
    using read_twin [OF c] by blast
  obtain w2 where w2: "starci_writereg K s TWIN_MODE_CTRL_REG val w1 = Some (0, w2)"
      "same_regs (regs w2) ((regs w1)(0x11 := word_of_int val))"
    using write_twin [OF c] by blast
  have "setCiSource b K slot source s w = starci_writereg K s TWIN_MODE_CTRL_REG val w1"
    using args False by (auto simp: setCiSource_def w1(1) val_def crossed_def)
  moreover have "same_regs (regs w2) ((regs w)(0x11 := word_of_int val))"
    using w1(2) w2(2) by (simp add: same_regs_def)
  moreover have "bit (word_of_int val :: u8) 5 = crossed b slot source"
    by (auto simp: val_def bit_word_of_int_iff bit_simps)
  ultimately show ?thesis using w2(1) by auto
qed

lemma getCiSource_eq:
  "connected K regs s \<Longrightarrow> slot \<in> {0, 1} \<Longrightarrow> b \<notin> {HS8200} \<union> HS7 \<Longrightarrow>
     map_option fst (getCiSource b K slot source s w) =
       Some (if (slot = 0) = (bit (regs w 0x11) 5 = (b = TF7700)) then 1 else 0)"
  using read_twin [of K regs s w] by (auto simp: getCiSource_def bit_and_32)

text \<open>
  Setting the tuner of a slot and reading it back, on every board. Slot and tuner are read back as they
  were set on the TF7700, the HCHS8100 and the OPT9600; on the FS9000 the two functions take the bit the
  opposite way, so that the other tuner is reported; on the Cuberevo boards the tuner is ignored and 1 is
  reported; on the HS boards nothing is reported. The other slot gets the other tuner.
\<close>

theorem starci_source_readback:
  assumes "connected K regs s" "slot \<in> {0, 1}" "source \<in> {0, 1}"
  shows "\<exists>w'. setCiSource b K slot source s w = Some (0, w') \<and>
    map_option fst (getCiSource b K slot old s w') =
      Some (if b \<in> {HS8200} \<union> HS7 then old else if cubebox b then 1 else if b = FS9000 then 1 - source else source) \<and>
    (b \<notin> {HS8200} \<union> HS7 \<longrightarrow>
     map_option fst (getCiSource b K (1 - slot) old s w') =
      Some (if cubebox b then 0 else if b = FS9000 then source else 1 - source))"
proof -
  obtain v w' where "setCiSource b K slot source s w = Some (0, w')" "same_regs (regs w') ((regs w)(0x11 := v))"
      "bit v 5 = crossed b slot source"
    using setCiSource_yields [OF assms] by blast
  moreover from this(2) have "regs w' 0x11 = v" by (simp add: same_regs_def)
  ultimately show ?thesis
    using assms getCiSource_eq [OF assms(1), of slot b old w'] getCiSource_eq [OF assms(1), of "1 - slot" b old w']
    by (auto simp: crossed_def cubebox_def getCiSource_def)
qed

end
