(* ===== verification/Starci_Slots.thy ===== *)
theory Starci_Slots
  imports Starci_Chip
begin

text \<open>
  The slots of the common interface. The driver's status words implement a machine with four states per
  slot; every call keeps the invariant, from the initialisation on; which accesses are defined; a module
  that answers becomes ready; what happens on a bus that does not answer. At the end a concrete chip, on
  which the properties are evaluated.
\<close>

section \<open>Slots\<close>

datatype slot_state = Empty | Present | Resetting | Ready

primrec status_code :: "slot_state \<Rightarrow> int" where
  "status_code Empty = SLOTSTATUS_NONE"
| "status_code Present = SLOTSTATUS_PRESENT"
| "status_code Resetting = SLOTSTATUS_RESET"
| "status_code Ready = SLOTSTATUS_READY"

primrec poll_answer :: "slot_state \<Rightarrow> int" where
  "poll_answer Empty = 0"
| "poll_answer Present = CAM_PRESENT"
| "poll_answer Resetting = CAM_PRESENT"
| "poll_answer Ready = CAM_PRESENT + CAM_READY"

definition poll_slot :: "bool \<Rightarrow> bool \<Rightarrow> slot_state \<Rightarrow> slot_state" where
  "poll_slot detected answering st =
     (if \<not> detected then Empty
      else case st of Empty \<Rightarrow> Present | Resetting \<Rightarrow> (if answering then Ready else Resetting) | _ \<Rightarrow> st)"

text \<open>
  The states of the two slots, as the status words encode them.
\<close>

definition slots :: "dvb_ca_state \<Rightarrow> nat \<Rightarrow> slot_state" where
  "slots s i = (let st = module_status s ! i in
     if st = 1 then Empty else if st = 2 then Present else if st = 4 then Resetting else Ready)"

lemma status_codeD: "wf_status s \<Longrightarrow> i < 2 \<Longrightarrow> module_status s ! i = status_code (slots s i)"
proof -
  assume "wf_status s" "i < 2"
  then have "module_status s ! i \<in> {1, 2, 4, 8}" 
    using subsetD [of "set (module_status s)" "{1, 2, 4, 8}", OF _ nth_mem] by (simp add: wf_status_def)
  then show ?thesis by (auto simp: slots_def Let_def)
qed

lemma slots_set_status:
  "wf_status s \<Longrightarrow> \<not> bad_slot slot \<Longrightarrow> slots (set_status slot (status_code v) s) = (slots s)(nat slot := v)"
  by (rule ext) (cases v; auto simp: slots_def wf_status_def nth_list_update)

lemma set_status_id: "set_status slot (module_status s ! nat slot) s = s"
  by (simp add: set_status_def)

text \<open>A module answers with the first byte of its card information.\<close>

definition answering :: "ci_board \<Rightarrow> 'w ci_kernel \<Rightarrow> ('w \<Rightarrow> u8 \<Rightarrow> u8) \<Rightarrow> u32 list \<Rightarrow> (nat \<Rightarrow> bool) \<Rightarrow> bool" where
  "answering b K regs base cam \<longleftrightarrow>
     (\<forall>s slot w v w'. slot_membase s = base \<longrightarrow> slot \<in> {0, 1} \<longrightarrow> selected (regs w) slot \<longrightarrow> attribute_mode (regs w) slot \<longrightarrow>
        slot_read b K s slot 0 w = Some (v, w') \<longrightarrow> (v = 0x1d \<longleftrightarrow> cam (nat slot)))"

lemma poll_refines:
  assumes inv: "starci_inv K regs s w" and slot: "\<not> bad_slot slot"
    and res: "starci_poll_slot_status b K slot open s w = Some (r, s', w')"
  shows "\<exists>st. s' = set_status slot (status_code st) s \<and> r = poll_answer st \<and> chip_ok (regs w') \<and>
    (\<forall>cam. answering b K regs (slot_membase s) cam \<longrightarrow>
       st = poll_slot (bit (regs w (ctrl slot)) 0) (cam (nat slot)) (slots s (nat slot)))"
proof -
  have c: "connected K regs s" and wf: "wf_status s" and ok: "chip_ok (regs w)"
    using inv by (simp_all add: starci_inv_def)
  have i: "nat slot < 2" using slot by auto
  obtain w1 where w1: "starci_readreg K s (ctrlReg slot) w = Some (uint (regs w (ctrl slot)), w1)" "same_regs (regs w1) (regs w)"
    using read_ctrl [OF c] by blast
  have ok1: "chip_ok (regs w1)" using ok w1(2) by (simp add: same_regs_ok)
  have get: "arr_get (module_status s) (nat slot) = Some (status_code (slots s (nat slot)))"
    using wf i by (simp add: arr_get_def status_codeD wf_status_def)
  have id: "set_status slot (status_code (slots s (nat slot))) s = s"
    using status_codeD [OF wf i] set_status_id [of slot s] by simp
  have attr: "s2 = s" "chip_ok (regs w2)" "\<forall>cam. answering b K regs (slot_membase s) cam \<longrightarrow> cam (nat slot) = (result = 0x1d)"
    if "starci_read_attribute_mem b K slot 0 s w1 = Some (result, s2, w2)" for result s2 w2
  proof -
    obtain w3 where w3: "select_attribute K s slot w1 = Some w3" "chip_ok (regs w3)" "selected (regs w3) slot" "attribute_mode (regs w3) slot"
      using select_attribute_yields [OF c slot ok1] by (auto simp: yields_def)
    have v: "slot_read b K s slot 0 w3 = Some (result, w2)" "s2 = s"
      using that access_eq(1) [OF slot w3(1)] by auto
    show "s2 = s" by (rule v)
    show "chip_ok (regs w2)" using slot_read_same [OF c v(1)] w3(2) by (simp add: same_regs_ok)
    have "slot \<in> {0, 1}" using slot by auto
    then show "\<forall>cam. answering b K regs (slot_membase s) cam \<longrightarrow> cam (nat slot) = (result = 0x1d)"
      using v(1) w3(3, 4) unfolding answering_def by blast
  qed
  have pin: "power_pin b K s slot v w1 = Some w2 \<Longrightarrow> chip_ok (regs w2)" for v w2
    using power_pin_same [OF c] ok1 same_regs_ok by blast
  have fin: "arr_get ((module_status s)[nat slot := v]) (nat slot) = Some v" for v
    using wf i by (simp add: arr_get_def wf_status_def)
  note poll = starci_poll_slot_status_def w1(1) bit_and_1 poll_slot_def ci_return_def status_result_def get
  show ?thesis
  proof (cases "slots s (nat slot) = Resetting \<and> bit (regs w (ctrl slot)) 0")
    case True
    then obtain x where x: "starci_read_attribute_mem b K slot 0 s w1 = Some x"
      using res slot by (auto simp: poll bind_eq_Some_conv)
    then obtain result w2 where x': "x = (result, s, w2)" "chip_ok (regs w2)"
        "\<forall>cam. answering b K regs (slot_membase s) cam \<longrightarrow> cam (nat slot) = (result = 0x1d)"
      using attr by (cases x) auto
    define st where "st = (if result = 0x1d then Ready else Resetting)"
    have "s' = set_status slot (status_code st) s \<and> r = poll_answer st \<and> chip_ok (regs w')"
      using res slot True x x'(1, 2) id get by (auto simp: st_def poll fin split: if_splits)
    moreover have "st = poll_slot (bit (regs w (ctrl slot)) 0) (cam (nat slot)) (slots s (nat slot))"
      if "answering b K regs (slot_membase s) cam" for cam
      using x'(3) that True by (simp add: st_def poll_slot_def)
    ultimately show ?thesis by blast
  next
    case False
    define st where "st = poll_slot (bit (regs w (ctrl slot)) 0) False (slots s (nat slot))"
    have "s' = set_status slot (status_code st) s \<and> r = poll_answer st \<and> chip_ok (regs w')"
      using False res slot id ok1 unfolding st_def
      by (cases "slots s (nat slot)"; cases "bit (regs w (ctrl slot)) 0")
        (auto simp: poll bind_eq_Some_conv fin dest: pin)
    moreover have "poll_slot (bit (regs w (ctrl slot)) 0) x (slots s (nat slot)) = st" for x
      using False by (auto simp: st_def poll_slot_def split: slot_state.splits)
    ultimately show ?thesis by auto
  qed
qed

text \<open>The abstract machine.\<close>

primrec slots_step :: "ci_call \<Rightarrow> (nat \<Rightarrow> bool) \<Rightarrow> (nat \<Rightarrow> bool) \<Rightarrow> (nat \<Rightarrow> slot_state) \<Rightarrow> nat \<Rightarrow> slot_state" where
  "slots_step (Poll slot open) detected cam f =
     (if bad_slot slot then f else f(nat slot := poll_slot (detected (nat slot)) (cam (nat slot)) (f (nat slot))))"
| "slots_step (Reset slot) detected cam f = (if bad_slot slot then f else f(nat slot := Resetting))"
| "slots_step (ReadAttr slot a) detected cam f = f"
| "slots_step (WriteAttr slot a v) detected cam f = f"
| "slots_step (ReadCtrl slot a') detected cam f = f"
| "slots_step (WriteCtrl slot a' v) detected cam f = f"
| "slots_step (Shutdown slot) detected cam f = f"
| "slots_step (TsEnable slot) detected cam f = f"
| "slots_step (GetSource slot src) detected cam f = f"
| "slots_step (SetSource slot src) detected cam f = f"

lemma access_keeps:
  assumes inv: "starci_inv K regs s w" and slot: "\<not> bad_slot slot"
  shows "starci_read_attribute_mem b K slot a s w = Some (r, s', w') \<Longrightarrow> s' = s \<and> chip_ok (regs w')"
    "starci_write_attribute_mem b K slot a v s w = Some (r, s', w') \<Longrightarrow> s' = s \<and> chip_ok (regs w')"
    "starci_read_cam_control b K slot a' s w = Some (r, s', w') \<Longrightarrow> s' = s \<and> chip_ok (regs w')"
    "starci_write_cam_control b K slot a' v s w = Some (r, s', w') \<Longrightarrow> s' = s \<and> chip_ok (regs w')"
proof -
  have c: "connected K regs s" and ok: "chip_ok (regs w)" using inv by (simp_all add: starci_inv_def)
  obtain w1 w2 where sel: "select_attribute K s slot w = Some w1" "chip_ok (regs w1)"
      "select_control K s slot w = Some w2" "chip_ok (regs w2)"
    using select_attribute_yields [OF c slot ok] select_control_yields [OF c slot ok] by (auto simp: yields_def)
  have rd: "slot_read b K s slot x w1 = Some (y, w3) \<Longrightarrow> chip_ok (regs w1) \<Longrightarrow> chip_ok (regs w3)" for x w1 y w3
    using slot_read_same [OF c] same_regs_ok by blast
  have wr: "slot_write b K s slot x y w1 = Some w3 \<Longrightarrow> chip_ok (regs w1) \<Longrightarrow> chip_ok (regs w3)" for x w1 y w3
    using slot_write_same [OF c] same_regs_ok by blast
  show "starci_read_attribute_mem b K slot a s w = Some (r, s', w') \<Longrightarrow> s' = s \<and> chip_ok (regs w')"
    "starci_write_attribute_mem b K slot a v s w = Some (r, s', w') \<Longrightarrow> s' = s \<and> chip_ok (regs w')"
    "starci_read_cam_control b K slot a' s w = Some (r, s', w') \<Longrightarrow> s' = s \<and> chip_ok (regs w')"
    using sel rd wr by (auto simp: access_eq [OF slot])
  show "starci_write_cam_control b K slot a' v s w = Some (r, s', w') \<Longrightarrow> s' = s \<and> chip_ok (regs w')"
    using sel wr by (auto simp: access_eq [OF slot] bind_eq_Some_conv split: if_splits)
qed

lemma source_keeps:
  assumes "starci_inv K regs s w"
  shows "getCiSource b K slot src s w = Some (r, w') \<Longrightarrow> chip_ok (regs w')"
    "setCiSource b K slot src s w = Some (r, w') \<Longrightarrow> chip_ok (regs w')"
proof -
  have c: "connected K regs s" and ok: "chip_ok (regs w)" using assms by (simp_all add: starci_inv_def)
  show "getCiSource b K slot src s w = Some (r, w') \<Longrightarrow> chip_ok (regs w')"
    using read_twin [OF c, of w] ok by (auto simp: getCiSource_def same_regs_ok Let_def split: if_splits)
  have upd: "chip_ok (f(0x11 := v)) = chip_ok f" for f v by (simp add: chip_ok_def)
  show "setCiSource b K slot src s w = Some (r, w') \<Longrightarrow> chip_ok (regs w')"
  proof (cases "slot \<in> {0, 1} \<and> src \<in> {0, 1}")
    case True
    then show "setCiSource b K slot src s w = Some (r, w') \<Longrightarrow> chip_ok (regs w')"
      using setCiSource_yields [OF c, of slot src b w] ok by (auto simp: same_regs_ok upd)
  next
    case False
    then have "slot < 0 \<or> slot > 1 \<or> src < 0 \<or> src > 1" by simp presburger
    then show "setCiSource b K slot src s w = Some (r, w') \<Longrightarrow> chip_ok (regs w')"
      using ok by (simp add: setCiSource_def)
  qed
qed

text \<open>Every call changes the slots as the abstract machine and keeps the invariant.\<close>

lemma starci_call_refines:
  assumes inv: "starci_inv K regs s w" and res: "starci_call b K c s w = Some (r, s', w')"
  shows "starci_inv K regs s' w' \<and> slot_membase s' = slot_membase s \<and>
    (\<forall>cam. answering b K regs (slot_membase s) cam \<longrightarrow>
       slots s' = slots_step c (\<lambda>i. bit (regs w (ctrl (int i))) 0) cam (slots s)) \<and>
    (\<forall>slot open. c = Poll slot open \<and> \<not> bad_slot slot \<longrightarrow> r = poll_answer (slots s' (nat slot)))"
proof -
  have c: "connected K regs s" and wf: "wf_status s" and ok: "chip_ok (regs w)"
    using inv by (simp_all add: starci_inv_def)
  note bad = starci_poll_slot_status_def starci_slot_reset_def starci_read_attribute_mem_def starci_write_attribute_mem_def
    starci_read_cam_control_def starci_write_cam_control_def starci_slot_ts_enable_def ci_return_def
  have other: ?thesis if "s' = s" "chip_ok (regs w')" "\<And>cam d. slots_step c d cam (slots s) = slots s"
      "\<And>slot open. c = Poll slot open \<Longrightarrow> bad_slot slot"
    using that inv by (auto simp: starci_inv_def)
  have code: "status_code st \<in> {1, 2, 4, 8}" for st by (cases st) auto
  show ?thesis
  proof (cases c)
    case (Poll slot opn)
    show ?thesis
    proof (cases "bad_slot slot")
      case True
      then show ?thesis using Poll res ok by (intro other) (auto simp: bad)
    next
      case False
      then obtain st where "s' = set_status slot (status_code st) s" "r = poll_answer st" "chip_ok (regs w')"
          "\<forall>cam. answering b K regs (slot_membase s) cam \<longrightarrow>
             st = poll_slot (bit (regs w (ctrl slot)) 0) (cam (nat slot)) (slots s (nat slot))"
        using poll_refines [OF inv False res [unfolded Poll starci_call.simps]] by blast
      then show ?thesis
        using Poll False c wf wf_set_status [OF wf code] slots_set_status [OF wf False]
        by (simp add: starci_inv_def)
    qed
  next
    case (Reset slot)
    show ?thesis
    proof (cases "bad_slot slot")
      case True
      then show ?thesis using Reset res ok by (intro other) (auto simp: bad)
    next
      case False
      then have "s' = set_status slot SLOTSTATUS_RESET s" "chip_ok (regs w')"
        using reset_yields [OF inv False, of b] res Reset by (auto simp: yields_def)
      then show ?thesis
        using Reset False c wf_set_status [OF wf code [of Resetting]] slots_set_status [OF wf False, of Resetting]
        by (simp add: starci_inv_def)
    qed
  next
    case (ReadAttr slot a)
    then show ?thesis using res ok access_keeps(1) [OF inv] by (cases "bad_slot slot") (intro other; auto simp: bad)+
  next
    case (WriteAttr slot a v)
    then show ?thesis using res ok access_keeps(2) [OF inv] by (cases "bad_slot slot") (intro other; auto simp: bad)+
  next
    case (ReadCtrl slot a)
    then show ?thesis using res ok access_keeps(3) [OF inv] by (cases "bad_slot slot") (intro other; auto simp: bad)+
  next
    case (WriteCtrl slot a v)
    then show ?thesis using res ok access_keeps(4) [OF inv] by (cases "bad_slot slot") (intro other; auto simp: bad)+
  next
    case (TsEnable slot)
    then show ?thesis using res ok ts_enable_yields [OF inv, of slot b] by (cases "bad_slot slot") (intro other; auto simp: bad yields_def)+
  qed (use res c wf ok source_keeps [OF inv] in \<open>auto simp: starci_slot_shutdown_def ci_return_def starci_inv_def\<close>)
qed

text \<open>
  C14. The driver implements the machine of the slots: whatever the call, the status words change as the
  abstract machine says, with the detection bit as the chip has it at the call; a poll reports the new state.
\<close>

theorem starci_refines_slots:
  assumes "starci_inv K regs s w" "answering b K regs (slot_membase s) cam"
    "starci_call b K c s w = Some (r, s', w')"
  shows "slots s' = slots_step c (\<lambda>i. bit (regs w (ctrl (int i))) 0) cam (slots s) \<and>
    (\<forall>slot open. c = Poll slot open \<and> \<not> bad_slot slot \<longrightarrow> r = poll_answer (slots s' (nat slot)))"
  using starci_call_refines [OF assms(1, 3)] assms(2) by blast

section \<open>Sequences of calls\<close>

locale ci_calls =
  fixes call :: "'c \<Rightarrow> 's \<Rightarrow> 'w \<Rightarrow> (int \<times> 's \<times> 'w) option" and I :: "'s \<Rightarrow> 'w \<Rightarrow> bool"
    and run :: "'c list \<Rightarrow> 's \<Rightarrow> 'w \<Rightarrow> ('s \<times> 'w) option"
  assumes call_keeps: "I s w \<Longrightarrow> call c s w = Some (r, s', w') \<Longrightarrow> I s' w'"
    and run_Nil: "run [] s w = Some (s, w)"
    and run_Cons: "run (c # cs) s w = call c s w \<bind> (\<lambda>(r, s, w). run cs s w)"
begin

lemma run_keeps: "I s w \<Longrightarrow> run cs s w = Some (s', w') \<Longrightarrow> I s' w'"
proof (induction cs arbitrary: s w)
  case (Cons c cs)
  then obtain r s1 w1 where "call c s w = Some (r, s1, w1)" "run cs s1 w1 = Some (s', w')"
    by (auto simp: run_Cons bind_eq_Some_conv)
  then show ?case using Cons.IH call_keeps [OF Cons.prems(1)] by blast
qed (simp add: run_Nil)

lemma run_append: "run (cs @ ds) s w = run cs s w \<bind> (\<lambda>(s, w). run ds s w)"
  by (induction cs arbitrary: s w) (auto simp: run_Nil run_Cons Option.bind_assoc case_prod_beta intro!: Option.bind_cong)

end

interpretation starci_calls: ci_calls "starci_call b K" "starci_inv K regs" "starci_run b K"
  for b :: ci_board and K :: "'w ci_kernel" and regs
  by unfold_locales (simp_all add: starci_call_refines [THEN conjunct1])

section \<open>Initialisation\<close>

lemma ctrl_outls_same:
  "connected K regs s \<Longrightarrow> same_regs (regs (ctrl_outls K vs w)) (regs w)"
proof (induction vs arbitrary: w)
  case (Cons v vs)
  have "same_regs (regs (ctrl_outls K vs (ck_outl K (fst v) (snd v) w))) (regs (ck_outl K (fst v) (snd v) w))"
    by (rule Cons.IH [OF Cons.prems])
  then show ?case
    using frame_same(6) [OF Cons.prems, of "fst v" "snd v" w] same_regs_trans by (auto simp: ctrl_outls_def case_prod_beta)
qed (simp add: ctrl_outls_def)

lemma default_values_ok:
  "\<exists>vs. default_values b = 0 # vs \<and> length vs = 32 \<and> (\<forall>f. chip_ok (\<lambda>r. if unat r < 32 then vs ! unat r else f r))"
  by (auto simp: default_values_def chip_ok_def)

lemma init_chip_ok:
  assumes c: "connected K regs s"
  shows "yields (\<lambda>w'. chip_ok (regs w')) (init_chip b K s w)"
proof -
  obtain a where a: "i2c s = Some a" "starci_chip K a (i2c_addr s) regs" using c by (auto simp: connected_def)
  obtain vs where vs: "default_values b = 0 # vs" "length vs = 32" "\<And>f. chip_ok (\<lambda>r. if unat r < 32 then vs ! unat r else f r)"
    using default_values_ok by blast
  have block: "yields (\<lambda>(r, w'). chip_ok (regs w')) (starci_writeregN K s (default_values b) w)" for w
    using chip_block [OF a(2) vs(2), of w] vs by (auto simp: starci_writeregN_def a(1) same_regs_ok)
  have upd: "chip_ok (f(0x1f := v)) = chip_ok f" "chip_ok (f(0x18 := v)) = chip_ok f" for f v
    by (simp_all add: chip_ok_def)
  have lock: "yields (\<lambda>(r, w'). chip_ok (regs w')) (starci_writereg K s 0x1f 1 w)" if "chip_ok (regs w)" for w
    using that by (auto simp: same_regs_ok upd intro!: yields_mono [OF writereg_yields [OF c]])
  have power: "yields (\<lambda>(r, w'). chip_ok (regs w')) (starci_writereg K s 0x18 v w)" if "chip_ok (regs w)" for v w
    using that by (auto simp: same_regs_ok upd intro!: yields_mono [OF writereg_yields [OF c]])
  have reset: "yields (\<lambda>_. True) (starci_writereg K s 0x1f 0x80 w)" for w
    by (auto simp: starci_writereg_def a(1) yields_def split: prod.splits)
  show ?thesis
    unfolding init_chip_def
    by (rule yields_bind [OF reset], clarify, rule yields_bind [OF block], clarify, rule yields_bind [OF lock], assumption,
        clarify, rule yields_bind [OF power], assumption, clarsimp)
qed

lemma map_slots_ok:
  assumes c: "connected K regs s" and "chip_ok (regs w)" "map_slots b K s w = Some (r, s', w')"
  shows "connected K regs s' \<and> module_status s' = module_status s \<and> chip_ok (regs w')"
proof -
  have "connected K regs (s\<lparr>slot_membase := x\<rparr>)" for x using c by (simp add: connected_def)
  then show ?thesis
    using assms(2, 3)
    by (auto simp: map_slots_def ci_return_def Let_def case_prod_beta frame_same [OF c, THEN same_regs_ok] split: if_splits)
qed

lemma init_ci_controller_inv:
  assumes adapter: "ck_i2c_get_adapter K (i2c_number b) w = (Some a, w1)" and chip: "starci_chip K a (i2c_address b) regs"
    and res: "init_ci_controller b K s w = Some (r, s', w')"
  shows "starci_inv K regs s' w'"
proof -
  let ?s = "s\<lparr>i2c := Some a, i2c_addr := i2c_address b, module_status := [SLOTSTATUS_NONE, SLOTSTATUS_NONE]\<rparr>"
  obtain s1 w2 where emi: "map_emi b K ?s w1 = (s1, w2)" by (cases "map_emi b K ?s w1")
  then have s1: "i2c s1 = Some a" "i2c_addr s1 = i2c_address b" "module_status s1 = [1, 1]"
    by (auto simp: map_emi_def split: if_splits prod.splits)
  have "do {
        (s, w) \<leftarrow> request_pins b K s1 w2;
        w \<leftarrow> init_chip b K s w;
        map_slots b K s (ctrl_outls K (emi_config b (reg_config s)) w)
      } = Some (r, s', w')"
    using res emi by (simp add: init_ci_controller_def adapter)
  then obtain s2 w3 w4 where req: "request_pins b K s1 w2 = Some (s2, w3)" and ini: "init_chip b K s2 w3 = Some w4"
      and slots: "map_slots b K s2 (ctrl_outls K (emi_config b (reg_config s2)) w4) = Some (r, s', w')"
    by (auto simp: bind_eq_Some_conv)
  have s2: "i2c s2 = i2c s1" "i2c_addr s2 = i2c_addr s1" "module_status s2 = module_status s1"
    using req by (auto simp: request_pins_def Let_def bind_eq_Some_conv case_prod_beta split: if_splits)
  then have c: "connected K regs s2" using s1 chip by (simp add: connected_def)
  then have "chip_ok (regs (ctrl_outls K (emi_config b (reg_config s2)) w4))"
    using yieldsD [OF init_chip_ok [OF c] ini] same_regs_ok [OF ctrl_outls_same [OF c]] by blast
  then show ?thesis
    using map_slots_ok [OF c _ slots] s1 s2 by (simp add: starci_inv_def wf_status_def)
qed

text \<open>
  C24. After the initialisation and any sequence of calls, never both slots are connected, no slot is in the
  reserved mode, and each status word has one of its four values.
\<close>

theorem starci_reachable:
  assumes "ck_i2c_get_adapter K (i2c_number b) w = (Some a, w1)" "starci_chip K a (i2c_address b) regs"
    "init_ci_controller b K s w = Some (r, s1, w2)" "starci_run b K cs s1 w2 = Some (s2, w3)"
  shows "chip_ok (regs w3) \<and> length (module_status s2) = 2 \<and> set (module_status s2) \<subseteq> {1, 2, 4, 8}"
  using starci_calls.run_keeps [OF init_ci_controller_inv [OF assms(1-3)] assms(4)]
  by (simp add: starci_inv_def wf_status_def)

section \<open>Which accesses are defined\<close>

lemma reg_total:
  "i2c s \<noteq> None \<Longrightarrow> yields (\<lambda>_. True) (starci_readreg K s r w)"
  "i2c s \<noteq> None \<Longrightarrow> yields (\<lambda>_. True) (starci_writereg K s r v w)"
  "i2c s \<noteq> None \<Longrightarrow> yields (\<lambda>_. True) (map_option snd (starci_writereg K s r v w))"
  by (auto simp: starci_readreg_def starci_writereg_def yields_def case_prod_beta)

lemma dest_loop_total: "i2c s \<noteq> None \<Longrightarrow> yields (\<lambda>_. True) (dest_loop K s slot n result w)"
proof (induction "10 - n" arbitrary: n result w rule: less_induct)
  case less
  have more: "yields (\<lambda>_. True) (if n + 1 \<ge> 10 then Some w' else dest_loop K s slot (n + 1) result' w')" for result' w'
    using less.hyps [of "n + 1"] less.prems by auto
  show ?case
    unfolding dest_loop.simps [of K s slot n result w]
    by (auto intro!: yields_bind [OF reg_total(2) [OF less.prems]] yields_bind [OF reg_total(1) [OF less.prems]] more [simplified])
qed

lemma select_total:
  assumes "i2c s \<noteq> None"
  shows "yields (\<lambda>_. True) (select_attribute K s slot w)" "yields (\<lambda>_. True) (select_control K s slot w)"
proof -
  have "yields (\<lambda>_. True) (setDestination K slot s w)" for w
    unfolding setDestination_def
    by (auto intro!: yields_bind [OF reg_total(1) [OF assms]] dest_loop_total [OF assms])
  then show "yields (\<lambda>_. True) (select_attribute K s slot w)" "yields (\<lambda>_. True) (select_control K s slot w)"
    unfolding select_attribute_def select_control_def
    by (auto intro!: yields_bind [OF reg_total(1) [OF assms]] yields_bind [OF reg_total(3) [OF assms]])
qed

lemma select_None: "i2c s = None \<Longrightarrow> select_attribute K s slot w = None" "i2c s = None \<Longrightarrow> select_control K s slot w = None"
  by (simp_all add: select_attribute_def select_control_def starci_readreg_def)

lemma slot_access_None_iff:
  "slot_read b K s slot a w = None \<longleftrightarrow> slot_address b s slot a = None"
  "slot_write b K s slot a v w = None \<longleftrightarrow> slot_address b s slot a = None"
  by (auto simp: slot_read_def slot_write_def bind_eq_None_conv)

definition in_window :: "ci_board \<Rightarrow> int \<Rightarrow> bool" where
  "in_window b address \<longleftrightarrow> 0 \<le> address \<and> address < (if byte_access b then 0x1000 else 0x800)"

lemma slot_address_None_iff:
  "\<not> bad_slot slot \<Longrightarrow> length (slot_membase s) = 2 \<Longrightarrow>
     slot_address b s slot address \<noteq> None \<longleftrightarrow> slot_membase s ! nat slot \<noteq> 0 \<and> in_window b address"
  by (auto simp: slot_address_def arr_get_def mem_offset_def in_window_def bind_eq_None_conv)

lemma in_window_u8: "in_window b (uint (a :: u8))"
  using uint_lt2p [of a] by (auto simp: in_window_def)

text \<open>
  C36. Exactly which accesses are defined: the adapter and the window must exist and the address lie in the
  window. On boards that access it as 16-bit words only the lower half of the addresses does, although the
  address of the attribute memory comes from the module. The loop that selects the slot always returns.
\<close>

theorem starci_access_defined_iff:
  assumes slot: "\<not> bad_slot slot" and "length (slot_membase s) = 2"
  shows "(starci_read_attribute_mem b K slot address s w \<noteq> None \<longleftrightarrow>
      i2c s \<noteq> None \<and> slot_membase s ! nat slot \<noteq> 0 \<and> in_window b address) \<and>
    (starci_write_attribute_mem b K slot address v s w \<noteq> None \<longleftrightarrow>
      i2c s \<noteq> None \<and> slot_membase s ! nat slot \<noteq> 0 \<and> in_window b address) \<and>
    (starci_read_cam_control b K slot a s w \<noteq> None \<longleftrightarrow> i2c s \<noteq> None \<and> slot_membase s ! nat slot \<noteq> 0) \<and>
    (starci_write_cam_control b K slot a v s w \<noteq> None \<longleftrightarrow> i2c s \<noteq> None \<and> slot_membase s ! nat slot \<noteq> 0)"
proof (cases "i2c s = None")
  case True
  then show ?thesis
    using slot by (simp add: starci_read_attribute_mem_def starci_write_attribute_mem_def starci_read_cam_control_def
        starci_write_cam_control_def select_None)
next
  case False
  then obtain w1 w2 where sel: "select_attribute K s slot w = Some w1" "select_control K s slot w = Some w2"
    using select_total [of s K slot w] by (auto simp: yields_def)
  have wr: "slot_write b K s slot x y w = None \<longleftrightarrow> slot_address b s slot x = None"
    and rd: "slot_read b K s slot x w = None \<longleftrightarrow> slot_address b s slot x = None" for x y w
    by (rule slot_access_None_iff)+
  have adr: "slot_address b s slot x = None \<longleftrightarrow> \<not> (slot_membase s ! nat slot \<noteq> 0 \<and> in_window b x)" for x
    using slot_address_None_iff [OF assms] by blast
  show ?thesis
    using False adr [of "uint a"] in_window_u8 [of b a]
    by (auto simp: access_eq(1, 2) [OF slot sel(1)] access_eq(3, 4) [OF slot sel(2)] rd wr adr bind_eq_None_conv
        simp del: not_None_eq)
qed

section \<open>A module becomes ready\<close>

text \<open>
  The windows of the slots exist, and so do the power pins on the boards that have them.
\<close>

definition mapped :: "dvb_ca_state \<Rightarrow> bool" where
  "mapped s \<longleftrightarrow> length (slot_membase s) = 2 \<and> 0 \<notin> set (slot_membase s)"

definition powered :: "ci_board \<Rightarrow> dvb_ca_state \<Rightarrow> bool" where
  "powered b s \<longleftrightarrow> (b \<in> {HS8200, FS9000} \<longrightarrow> module_A_pin s \<noteq> None \<and> module_B_pin s \<noteq> None)"

lemma set_status_mapped [simp]:
  "mapped (set_status slot v s) = mapped s" "powered b (set_status slot v s) = powered b s"
  by (simp_all add: mapped_def powered_def set_status_def)

lemma power_pin_total: "powered b s \<Longrightarrow> yields (\<lambda>_. True) (power_pin b K s slot v w)"
  by (auto simp: power_pin_def powered_def ci_set_pin_def yields_def)

lemma poll_total:
  assumes i2c: "i2c s \<noteq> None" and st: "length (module_status s) = 2" and ok: "mapped s" "powered b s" and slot: "\<not> bad_slot slot"
  shows "yields (\<lambda>_. True) (starci_poll_slot_status b K slot open s w)"
proof -
  have i: "nat slot < 2" using slot by auto
  then have base: "slot_membase s ! nat slot \<noteq> 0" using ok(1) by (metis mapped_def nth_mem)
  have get: "arr_get xs (nat slot) = Some (xs ! nat slot)" if "length xs = 2" for xs :: "int list"
    using that i by (simp add: arr_get_def)
  have attr: "yields (\<lambda>(r, s', w'). s' = s) (starci_read_attribute_mem b K slot 0 s w)" for w
  proof -
    have "starci_read_attribute_mem b K slot 0 s w \<noteq> None"
      using starci_access_defined_iff [OF slot, of s b K 0 w 0 0] ok(1) i2c base by (simp add: mapped_def in_window_def)
    then show ?thesis
      using slot by (auto simp: yields_def starci_read_attribute_mem_def ci_return_def bind_eq_Some_conv)
  qed
  show ?thesis
    unfolding starci_poll_slot_status_def using slot st
    by (auto simp: get ci_return_def intro!: yields_bind [OF reg_total(1) [OF i2c]] yields_bind [OF attr] yields_bind [OF power_pin_total [OF ok(2)]]
      yields_bind [where Q = "\<lambda>(s', w'). length (module_status s') = 2"])
qed

lemma inv_set_status:
  "starci_inv K regs s w \<Longrightarrow> chip_ok (regs w') \<Longrightarrow> starci_inv K regs (set_status slot (status_code st) s) w'"
  using wf_set_status [of s "status_code st" slot] by (cases st) (auto simp: starci_inv_def)

lemma poll_step:
  assumes inv: "starci_inv K regs s w" and ok: "mapped s" "powered b s" and slot: "\<not> bad_slot slot"
    and cam: "answering b K regs (slot_membase s) cam"
    and st: "st = poll_slot (bit (regs w (ctrl slot)) 0) (cam (nat slot)) (slots s (nat slot))"
  shows "\<exists>w'. starci_poll_slot_status b K slot open s w =
      Some (poll_answer st, set_status slot (status_code st) s, w') \<and> starci_inv K regs (set_status slot (status_code st) s) w'"
proof -
  obtain r s' w' where poll: "starci_poll_slot_status b K slot open s w = Some (r, s', w')"
    using poll_total [of s b slot K "open" w] inv ok slot
    by (auto simp: yields_def starci_inv_def connected_def wf_status_def)
  from poll_refines [OF inv slot this] cam st
  have "s' = set_status slot (status_code st) s" "r = poll_answer st" "chip_ok (regs w')" by auto
  then show ?thesis using poll inv_set_status [OF inv] by simp
qed

text \<open>
  C19. A module that stays in its slot and answers becomes ready: a poll, a reset and a second poll all return,
  and the slot is ready whatever its state was before, while the other slot keeps its state.
\<close>

theorem starci_module_ready:
  assumes inv: "starci_inv K regs s w" and ok: "mapped s" "powered b s" and slot: "\<not> bad_slot slot"
    and cam: "answering b K regs (slot_membase s) cam" "cam (nat slot)" and det: "\<And>w. bit (regs w (ctrl slot)) 0"
  shows "\<exists>s' w'. starci_run b K [Poll slot x, Reset slot, Poll slot y] s w = Some (s', w') \<and>
    slots s' = (slots s)(nat slot := Ready)"
proof -
  define s1 where "s1 = set_status slot (status_code (poll_slot True True (slots s (nat slot)))) s"
  obtain r w1 where poll1: "starci_poll_slot_status b K slot x s w = Some (r, s1, w1)" and inv1: "starci_inv K regs s1 w1"
    using poll_step [OF inv ok slot cam(1) refl, of x] det cam(2) by (auto simp: s1_def)
  define s2 where "s2 = set_status slot (status_code Resetting) s1"
  obtain w2 where reset: "starci_slot_reset b K slot s1 w1 = Some (0, s2, w2)" and ok2: "chip_ok (regs w2)"
    using reset_yields [OF inv1 slot, of b] by (auto simp: yields_def s2_def)
  have inv2: "starci_inv K regs s2 w2" unfolding s2_def by (rule inv_set_status [OF inv1 ok2])
  have ok2: "mapped s2" "powered b s2" "answering b K regs (slot_membase s2) cam" using ok cam(1) by (simp_all add: s1_def s2_def)
  have slots2: "slots s2 = (slots s)(nat slot := Resetting)"
  proof -
    have wf: "wf_status s" "wf_status s1" using inv inv1 by (simp_all add: starci_inv_def)
    have "slots s1 = (slots s)(nat slot := poll_slot True True (slots s (nat slot)))"
      unfolding s1_def by (rule slots_set_status [OF wf(1) slot])
    moreover have "slots s2 = (slots s1)(nat slot := Resetting)"
      unfolding s2_def by (rule slots_set_status [OF wf(2) slot])
    ultimately show ?thesis by simp
  qed
  obtain r' w3 where poll2: "starci_poll_slot_status b K slot y s2 w2 = Some (r', set_status slot (status_code Ready) s2, w3)"
    using poll_step [OF inv2 ok2(1, 2) slot ok2(3) refl, of y] det cam(2) by (auto simp: slots2 poll_slot_def)
  have "slots (set_status slot (status_code Ready) s2) = (slots s)(nat slot := Ready)"
    using slots_set_status [OF _ slot, of s2 Ready] inv2 by (simp add: slots2 starci_inv_def)
  then show ?thesis using poll1 reset poll2 by simp
qed

section \<open>A bus that does not answer\<close>

text \<open>
  On a bus that fails every transfer with the result \<open>e\<close>, an empty slot is reported as occupied if \<open>e\<close> is odd,
  such as \<open>- EREMOTEIO\<close>: the error code is taken for the register.
\<close>

theorem starci_poll_dead_bus:
  assumes "i2c s = Some a" "\<And>r w. fst (fst (ck_i2c_read K a (i2c_addr s) r w)) = e" "e \<noteq> 2"
    "module_status s = [SLOTSTATUS_NONE, SLOTSTATUS_NONE]" "powered b s" "\<not> bad_slot slot"
  shows "\<exists>s' w'. starci_poll_slot_status b K slot open s w = Some (if odd e then CAM_PRESENT else 0, s', w')"
proof -
  obtain x w1 where "ck_i2c_read K a (i2c_addr s) (word_of_int (ctrlReg slot)) w = ((e, x), w1)"
    using assms(2) [of "word_of_int (ctrlReg slot)" w] by (metis prod.collapse)
  then have rd: "starci_readreg K s (ctrlReg slot) w = Some (e, w1)" using assms(1, 3) by (simp add: starci_readreg_def)
  have i: "nat slot = 0 \<or> nat slot = 1" using assms(6) by auto
  obtain w2 where pin: "power_pin b K s slot 1 w1 = Some w2"
    using power_pin_total [OF assms(5), of K slot 1 w1] by (auto simp: yields_def)
  have get: "arr_get (module_status s) (nat slot) = Some 1" using assms(4) i by (auto simp: arr_get_def)
  have upd: "arr_get ((module_status s)[nat slot := 2]) (nat slot) = Some 2" using assms(4) i by (auto simp: arr_get_def)
  show ?thesis
  proof (cases "odd e")
    case True
    then have "e AND 1 = 1" by (simp add: and_one_eq odd_iff_mod_2_eq_one)
    then show ?thesis
      using True pin upd assms(6) by (simp add: starci_poll_slot_status_def rd get ci_return_def status_result_def)
  next
    case False
    then have "e AND 1 = 0" by (simp add: and_one_eq)
    then show ?thesis
      using False assms(6) by (simp add: starci_poll_slot_status_def rd get ci_return_def status_result_def)
  qed
qed

section \<open>A concrete chip\<close>

text \<open>
  A world is what has been written to the registers of a chip. Both slots hold a module that answers, so that
  bit 0 of the control registers reads as 1.
\<close>

type_synonym ci_world = "u8 \<Rightarrow> u8"

definition ci_bench_regs :: "ci_world \<Rightarrow> u8 \<Rightarrow> u8" where
  "ci_bench_regs w r = (if r = 0 \<or> r = 9 then w r OR 1 else w r)"

definition ci_bench :: "ci_world ci_kernel" where
  "ci_bench = \<lparr>
     ck_i2c_get_adapter = (\<lambda>n w. (Some 0, w)),
     ck_i2c_write = (\<lambda>a d data w. (1,
       if length data = 2 then w(data ! 0 := data ! 1)
       else (\<lambda>r. if Suc (unat r) < length data then data ! Suc (unat r) else w r))),
     ck_i2c_read = (\<lambda>a d r w. ((2, ci_bench_regs w r), w)),
     ck_msleep = (\<lambda>n w. w),
     ck_ioremap = (\<lambda>p n w. (p, w)),
     ck_iounmap = (\<lambda>p w. w),
     ck_outl = (\<lambda>v p w. w),
     ck_readb = (\<lambda>p w. (0x1d, w)),
     ck_readw = (\<lambda>p w. (0x1d, w)),
     ck_writeb = (\<lambda>v p w. w),
     ck_writew = (\<lambda>v p w. w),
     ck_request_pin = (\<lambda>p q n w. (Some 0, w)),
     ck_set_pin = (\<lambda>n v w. w),
     ck_ca_init = (\<lambda>f n w. (0, w))\<rparr>"

lemma or_1_and_not_1: "(v OR 1) AND NOT 1 = v AND NOT (1 :: u8)"
  by (rule bit_word_eqI) (auto simp: bit_simps)

lemma ci_bench_chip: "starci_chip ci_bench a d ci_bench_regs"
proof -
  have two: "same_regs (ci_bench_regs (w(r := v))) ((ci_bench_regs w)(r := v))" for w r v
    unfolding same_regs_def ci_bench_regs_def using or_1_and_not_1 [of v] by auto
  have block: "same_regs (ci_bench_regs (\<lambda>r. if unat r < 32 then vs ! unat r else w r))
      (\<lambda>r. if unat r < 32 then vs ! unat r else ci_bench_regs w r)" for w and vs :: "u8 list"
    unfolding same_regs_def ci_bench_regs_def using or_1_and_not_1 by simp
  show ?thesis
    unfolding starci_chip_def using two block by (simp add: ci_bench_def cong: if_cong)
qed

definition ci_bench_state :: "ci_board \<Rightarrow> dvb_ca_state" where
  "ci_bench_state b = starci_start\<lparr>i2c := Some 0, i2c_addr := i2c_address b, module_status := [1, 1],
     slot_membase := [membase b 0, membase b 1]\<rparr>"

abbreviation ci_zero :: ci_world where "ci_zero \<equiv> (\<lambda>r. 0)"

lemma ci_bench_inv: "starci_inv ci_bench ci_bench_regs (ci_bench_state b) ci_zero"
  using ci_bench_chip by (simp add: ci_bench_regs_def starci_inv_def connected_def wf_status_def chip_ok_def ci_bench_state_def)

lemma ci_bench_slots [simp]:
  "length (slot_membase (ci_bench_state b)) = 2" "slot_membase (ci_bench_state b) ! 0 \<noteq> 0"
  "i2c (ci_bench_state b) = Some 0"
  by (auto simp: ci_bench_state_def membase_def)

lemma ci_bench_connected: "connected ci_bench ci_bench_regs (ci_bench_state b)"
  using ci_bench_inv by (simp add: starci_inv_def)

lemma ci_bench_answering: "answering b ci_bench ci_bench_regs base (\<lambda>i. True)"
  by (auto simp: answering_def slot_read_def ci_bench_def bind_eq_Some_conv split: if_splits)

theorem starci_accesses_selected_slot_witness:
  "\<exists>w1. selected (ci_bench_regs w1) 1 \<and> attribute_mode (ci_bench_regs w1) 1 \<and>
     starci_read_attribute_mem TF7700 ci_bench 1 0 (ci_bench_state TF7700) ci_zero =
       map_option (\<lambda>(v, w). (v, ci_bench_state TF7700, w)) (slot_read TF7700 ci_bench (ci_bench_state TF7700) 1 0 w1)"
  using starci_accesses_selected_slot [OF ci_bench_connected [of TF7700], of ci_zero 1 TF7700 0 0 0] 
  by (auto simp: chip_ok_def ci_bench_regs_def)

theorem starci_source_readback_witness:
  "\<exists>w'. setCiSource FS9000 ci_bench 0 1 (ci_bench_state FS9000) ci_zero = Some (0, w') \<and>
     map_option fst (getCiSource FS9000 ci_bench 0 0 (ci_bench_state FS9000) w') = Some 0"
  using starci_source_readback [OF ci_bench_connected [of FS9000], of 0 1 FS9000 ci_zero 0] by (auto simp: cubebox_def)

theorem starci_refines_slots_witness:
  "\<exists>r s' w'. starci_call TF7700 ci_bench (Poll 0 0) (ci_bench_state TF7700) ci_zero = Some (r, s', w') \<and>
     slots s' 0 = Present \<and> r = CAM_PRESENT"
proof -
  have ok: "mapped (ci_bench_state TF7700)" "powered TF7700 (ci_bench_state TF7700)"
    by (simp_all add: mapped_def powered_def ci_bench_state_def starci_start_def membase_def)
  then obtain r s' w' where call: "starci_call TF7700 ci_bench (Poll 0 0) (ci_bench_state TF7700) ci_zero = Some (r, s', w')"
    using poll_total [of "ci_bench_state TF7700" TF7700 0 ci_bench 0 ci_zero]
    by (auto simp: yields_def ci_bench_state_def)
  have "slots (ci_bench_state TF7700) 0 = Empty" by (simp add: slots_def ci_bench_state_def)
  then show ?thesis
    using starci_refines_slots [OF ci_bench_inv ci_bench_answering call] call
    by (auto simp: ctrl_def poll_slot_def ci_bench_regs_def)
qed

theorem starci_access_defined_iff_witness:
  "starci_read_attribute_mem TF7700 ci_bench 0 0x7ff (ci_bench_state TF7700) ci_zero \<noteq> None \<and>
   starci_read_attribute_mem TF7700 ci_bench 0 0x800 (ci_bench_state TF7700) ci_zero = None \<and>
   starci_read_attribute_mem FS9000 ci_bench 0 0x800 (ci_bench_state FS9000) ci_zero \<noteq> None"
  using starci_access_defined_iff [of 0 "ci_bench_state TF7700" TF7700 ci_bench "0x7ff" ci_zero 0 0]
    starci_access_defined_iff [of 0 "ci_bench_state TF7700" TF7700 ci_bench "0x800" ci_zero 0 0]
    starci_access_defined_iff [of 0 "ci_bench_state FS9000" FS9000 ci_bench "0x800" ci_zero 0 0]
  by (simp add: in_window_def byte_access_def del: not_None_eq)

lemma ci_bench_ready: "mapped (ci_bench_state b)" "b \<notin> {HS8200, FS9000} \<Longrightarrow> powered b (ci_bench_state b)"
  by (auto simp: mapped_def powered_def ci_bench_state_def membase_def)

theorem starci_module_ready_witness:
  "\<exists>s' w'. starci_run TF7700 ci_bench [Poll 1 0, Reset 1, Poll 1 0] (ci_bench_state TF7700) ci_zero = Some (s', w') \<and>
     slots s' 0 = Empty \<and> slots s' 1 = Ready"
proof -
  have "bit (ci_bench_regs w (ctrl 1)) 0" for w by (simp add: ci_bench_regs_def ctrl_def bit_or_iff)
  then obtain s' w' where "starci_run TF7700 ci_bench [Poll 1 0, Reset 1, Poll 1 0] (ci_bench_state TF7700) ci_zero = Some (s', w')"
      "slots s' = (slots (ci_bench_state TF7700))(1 := Ready)"
    using starci_module_ready [OF ci_bench_inv ci_bench_ready(1) ci_bench_ready(2) [of TF7700] _ ci_bench_answering, where slot = 1 and x = 0 and y = 0] by auto
  moreover have "slots (ci_bench_state TF7700) 0 = Empty" by (simp add: slots_def ci_bench_state_def)
  ultimately show ?thesis by simp
qed

theorem starci_poll_dead_bus_witness:
  "\<exists>s' w'. starci_poll_slot_status TF7700 (ci_bench\<lparr>ck_i2c_read := (\<lambda>a d r w. ((- CI_EREMOTEIO, 0), w))\<rparr>) 0 0
     (ci_bench_state TF7700) ci_zero = Some (CAM_PRESENT, s', w')"
  using starci_poll_dead_bus [of "ci_bench_state TF7700" 0 "ci_bench\<lparr>ck_i2c_read := (\<lambda>a d r w. ((- CI_EREMOTEIO, 0), w))\<rparr>"
      "- CI_EREMOTEIO" TF7700 0 0 ci_zero] ci_bench_ready(2) [of TF7700]
  by (simp add: ci_bench_state_def)

theorem starci_reachable_witness:
  "\<exists>r s1 w2 s2 w3. init_ci_controller TF7700 ci_bench starci_start ci_zero = Some (r, s1, w2) \<and>
     starci_run TF7700 ci_bench [Reset 0] s1 w2 = Some (s2, w3) \<and> chip_ok (ci_bench_regs w3)"
proof -
  have adapter: "ck_i2c_get_adapter ci_bench (i2c_number TF7700) ci_zero = (Some 0, ci_zero)" by (simp add: ci_bench_def)
  have con: "connected ci_bench ci_bench_regs s" if "i2c s = Some 0" for s using that ci_bench_chip by (simp add: connected_def)
  obtain r s1 w2 where init: "init_ci_controller TF7700 ci_bench starci_start ci_zero = Some (r, s1, w2)"
  proof -
    define s0 where "s0 = starci_start\<lparr>i2c := Some 0, i2c_addr := i2c_address TF7700, module_status := [1, 1],
      reg_config := 0x1A100000, reg_buffer := 0x1A100800\<rparr>"
    have emi: "map_emi TF7700 ci_bench (starci_start\<lparr>i2c := Some 0, i2c_addr := i2c_address TF7700, module_status := [1, 1]\<rparr>) ci_zero =
        (s0, ci_zero)" by (simp add: map_emi_def ci_bench_def s0_def)
    have pins: "request_pins TF7700 ci_bench s0 ci_zero = Some (s0, ci_zero)" by (simp add: request_pins_def)
    obtain w where chip: "init_chip TF7700 ci_bench s0 ci_zero = Some w"
      using init_chip_ok [OF con [of s0], of TF7700 ci_zero] by (auto simp: yields_def s0_def)
    have "\<exists>x. map_slots TF7700 ci_bench s0 w = Some x" for w
      by (auto simp: map_slots_def ci_return_def Let_def case_prod_beta)
    then have "\<exists>x. init_ci_controller TF7700 ci_bench starci_start ci_zero = Some x"
      unfolding init_ci_controller_def adapter Let_def prod.case emi pins chip Option.bind.bind_lunit .
    then show thesis using that by auto
  qed
  have "starci_inv ci_bench ci_bench_regs s1 w2" by (rule init_ci_controller_inv [OF adapter ci_bench_chip init])
  then obtain s2 w3 where run: "starci_run TF7700 ci_bench [Reset 0] s1 w2 = Some (s2, w3)"
    using reset_yields [of ci_bench ci_bench_regs s1 w2 0 TF7700] by (auto simp: yields_def)
  show ?thesis using starci_reachable [OF adapter ci_bench_chip init run] init run by blast
qed

end
