(* ===== verification/Nuvoton.thy ===== *)
theory Nuvoton
  imports Prelude
begin

unbundle bit_operations_syntax

text \<open>
  The front panel of the boards with a Nuvoton front processor, which is reached over a serial line
  (\<^verbatim>\<open>src/frontcontroller/nuvoton/\<close>): from \<^verbatim>\<open>nuvoton_main.c\<close> the three ring buffers, the interrupt handler and the
  thread that takes the packets apart, from \<^verbatim>\<open>nuvoton_file.c\<close> the commands and the device files.

  \<^item> \<open>None\<close> is undefined behaviour (an access outside an array or through a null pointer) or a loop without end.
  \<^item> The registers of the serial line, sleeping, waiting and memory belong to the kernel, a record of functions.
    Where the driver delays or waits, the kernel gets the whole state, because the interrupt handler and
    the thread run meanwhile. \<^verbatim>\<open>udelay(0)\<close> in the handler is left out.
  \<^item> Releasing memory is left out: what is released is not used again. So is debug output, with it \<^verbatim>\<open>dumpData\<close> and \<^verbatim>\<open>dumpValues\<close>.
\<close>

section \<open>Boards, state and kernel\<close>

datatype fp_board = FS9000 | HS9510 | HS8200 | HS7110 | HS7119 | HS7420 | HS7429 | HS7810A | HS7819

abbreviation (input) SOP :: u8 where "SOP \<equiv> 0x02"
abbreviation (input) EOP :: u8 where "EOP \<equiv> 0x03"

abbreviation (input) EVENT_BTN :: u8 where "EVENT_BTN \<equiv> 0x51"
abbreviation (input) EVENT_RC :: u8 where "EVENT_RC \<equiv> 0x63"
abbreviation (input) EVENT_ANSWER_GETTIME :: u8 where "EVENT_ANSWER_GETTIME \<equiv> 0x15"
abbreviation (input) EVENT_ANSWER_WAKEUP_REASON :: u8 where "EVENT_ANSWER_WAKEUP_REASON \<equiv> 0x81"
abbreviation (input) EVENT_ANSWER_FRONTINFO :: u8 where "EVENT_ANSWER_FRONTINFO \<equiv> 0xd4"
abbreviation (input) EVENT_ANSWER_E9 :: u8 where "EVENT_ANSWER_E9 \<equiv> 0xe9"
abbreviation (input) EVENT_ANSWER_F9 :: u8 where "EVENT_ANSWER_F9 \<equiv> 0xf9"

abbreviation (input) DATA_BTN_EVENT :: nat where "DATA_BTN_EVENT \<equiv> 2"
abbreviation (input) cPackageSizeRC :: nat where "cPackageSizeRC \<equiv> 7"
abbreviation (input) cPackageSizeFP :: nat where "cPackageSizeFP \<equiv> 5"
abbreviation (input) cGetTimeSize :: nat where "cGetTimeSize \<equiv> 9"
abbreviation (input) cGetWakeupReasonSize :: nat where "cGetWakeupReasonSize \<equiv> 5"
abbreviation (input) cGetFrontInfoSize :: nat where "cGetFrontInfoSize \<equiv> 8"
abbreviation (input) cGetE9Size :: nat where "cGetE9Size \<equiv> 13"
abbreviation (input) cGetF9Size :: nat where "cGetF9Size \<equiv> 13"

abbreviation (input) BUFFERSIZE :: nat where "BUFFERSIZE \<equiv> 256"

definition cMinimumSize :: "fp_board \<Rightarrow> int" where
  "cMinimumSize b = (if b \<in> {HS8200, FS9000, HS9510} then 4 else 5)"

text \<open>
  A ring buffer with its two positions: \<open>rstart\<close> (\<^verbatim>\<open>...BufferStart\<close>), where the next byte is put, and \<open>rend\<close>
  (\<^verbatim>\<open>...BufferEnd\<close>), where the oldest one is.
\<close>

record fp_ring =
  rbuf :: "u8 list"
  rstart :: nat
  rend :: nat

text \<open>\<open>fp_file\<close> is the file that holds the minor device (\<open>None\<close> for a null pointer).\<close>

record tFrontPanelOpen =
  fp_file :: "nat option"
  fp_read :: nat

record saved_data_s =
  ld_length :: nat
  ld_data :: "u8 list"
  ld_brightness :: int
  ld_display_on :: int
  ld_buf :: "u8 list"

record 'w nuvoton =
  RCVBuffer :: fp_ring
  KeyBuffer :: fp_ring
  OutBuffer :: fp_ring
  expectEventData :: u8
  expectEventId :: u8
  dataReady :: int
  dataflag :: int
  errorOccured :: int
  ioctl_data :: "u8 list"
  wakeup_time :: "u8 list"
  FrontPanelOpen :: "tFrontPanelOpen list"
  lastdata :: saved_data_s
  fp_mode :: int
  fp_world :: 'w

datatype fp_queue = Wq | Rx_wq | Ack_wq

datatype fp_sem = Write_sem | Open_sem nat

text \<open>
  \<open>fk_wait_key\<close> is \<^verbatim>\<open>wait_event_interruptible\<close> for a key, \<open>fk_wait_ack\<close> the wait for an answer with a time limit,
  both with their results; \<open>fk_kmalloc\<close> gives an array with arbitrary contents; \<open>fk_sema_init\<close> sets a semaphore to 1;
  \<open>fk_mtd_read\<close> reads bytes of the flash memory at an offset (\<open>None\<close> if there is no device or not all bytes are read).
  \<open>fp_mode\<close> is the static variable \<^verbatim>\<open>mode\<close> of \<^verbatim>\<open>NUVOTONdev_ioctl\<close>.
\<close>

record 'w fp_kernel =
  fk_get :: "u32 \<Rightarrow> 'w \<Rightarrow> u32 \<times> 'w"
  fk_put :: "u32 \<Rightarrow> u32 \<Rightarrow> 'w \<Rightarrow> 'w"
  fk_getb :: "u32 \<Rightarrow> 'w \<Rightarrow> u8 \<times> 'w"
  fk_putb :: "u32 \<Rightarrow> u8 \<Rightarrow> 'w \<Rightarrow> 'w"
  fk_wake_up :: "fp_queue \<Rightarrow> 'w \<Rightarrow> 'w"
  fk_kmalloc :: "nat \<Rightarrow> 'w \<Rightarrow> u8 list option \<times> 'w"
  fk_udelay :: "nat \<Rightarrow> 'w nuvoton \<Rightarrow> 'w nuvoton"
  fk_msleep :: "nat \<Rightarrow> 'w nuvoton \<Rightarrow> 'w nuvoton"
  fk_wait_ack :: "'w nuvoton \<Rightarrow> int \<times> 'w nuvoton"
  fk_wait_key :: "'w nuvoton \<Rightarrow> int \<times> 'w nuvoton"
  fk_down :: "fp_sem \<Rightarrow> 'w nuvoton \<Rightarrow> int \<times> 'w nuvoton"
  fk_up :: "fp_sem \<Rightarrow> 'w \<Rightarrow> 'w"
  fk_sema_init :: "fp_sem \<Rightarrow> 'w \<Rightarrow> 'w"
  fk_mtd_read :: "nat \<Rightarrow> nat \<Rightarrow> 'w \<Rightarrow> u8 list option \<times> 'w"
  fk_copy_to_user :: "u32 \<Rightarrow> u8 list \<Rightarrow> 'w \<Rightarrow> 'w"
  fk_copy_from_user :: "u32 \<Rightarrow> nat \<Rightarrow> 'w \<Rightarrow> u8 list"

abbreviation (input) FP_ERESTARTSYS :: int where "FP_ERESTARTSYS \<equiv> 512"
abbreviation (input) FP_EINVAL :: int where "FP_EINVAL \<equiv> 22"
abbreviation (input) FP_EFAULT :: int where "FP_EFAULT \<equiv> 14"
abbreviation (input) FP_ETIMEDOUT :: int where "FP_ETIMEDOUT \<equiv> 110"
abbreviation (input) FP_EUSERS :: int where "FP_EUSERS \<equiv> 87"
abbreviation (input) FP_EOPNOTSUPP :: int where "FP_EOPNOTSUPP \<equiv> 95"
abbreviation (input) FP_ENOMEM :: int where "FP_ENOMEM \<equiv> 12"

section \<open>The serial line\<close>

definition ASCXBaseAddress :: "fp_board \<Rightarrow> u32" where
  "ASCXBaseAddress b =
     (if b = HS8200 then 0xfd033000
      else if b \<in> {HS7110, HS7420, HS7429, HS7810A, HS7819} then 0xfd034000
      else if b = HS7119 then 0xfd031000 else 0xb8032000)"

abbreviation (input) ASC_TX_BUFF :: u32 where "ASC_TX_BUFF \<equiv> 0x04"
abbreviation (input) ASC_RX_BUFF :: u32 where "ASC_RX_BUFF \<equiv> 0x08"
abbreviation (input) ASC_INT_EN :: u32 where "ASC_INT_EN \<equiv> 0x10"
abbreviation (input) ASC_INT_STA :: u32 where "ASC_INT_STA \<equiv> 0x14"
abbreviation (input) ASC_INT_STA_RBF :: u32 where "ASC_INT_STA_RBF \<equiv> 0x01"
abbreviation (input) ASC_INT_STA_THE :: u32 where "ASC_INT_STA_THE \<equiv> 0x04"

text \<open>Registers of the serial line, by their offset.\<close>

definition asc_get :: "fp_board \<Rightarrow> 'w fp_kernel \<Rightarrow> u32 \<Rightarrow> 'w nuvoton \<Rightarrow> u32 \<times> 'w nuvoton" where
  "asc_get b K r s = (let (v, w) = fk_get K (ASCXBaseAddress b + r) (fp_world s) in (v, s\<lparr>fp_world := w\<rparr>))"

definition asc_put :: "fp_board \<Rightarrow> 'w fp_kernel \<Rightarrow> u32 \<Rightarrow> u32 \<Rightarrow> 'w nuvoton \<Rightarrow> 'w nuvoton" where
  "asc_put b K r v s = s\<lparr>fp_world := fk_put K (ASCXBaseAddress b + r) v (fp_world s)\<rparr>"

definition asc_getb :: "fp_board \<Rightarrow> 'w fp_kernel \<Rightarrow> u32 \<Rightarrow> 'w nuvoton \<Rightarrow> u8 \<times> 'w nuvoton" where
  "asc_getb b K r s = (let (v, w) = fk_getb K (ASCXBaseAddress b + r) (fp_world s) in (v, s\<lparr>fp_world := w\<rparr>))"

definition asc_putb :: "fp_board \<Rightarrow> 'w fp_kernel \<Rightarrow> u32 \<Rightarrow> u8 \<Rightarrow> 'w nuvoton \<Rightarrow> 'w nuvoton" where
  "asc_putb b K r v s = s\<lparr>fp_world := fk_putb K (ASCXBaseAddress b + r) v (fp_world s)\<rparr>"

definition wake_up :: "'w fp_kernel \<Rightarrow> fp_queue \<Rightarrow> 'w nuvoton \<Rightarrow> 'w nuvoton" where
  "wake_up K q s = s\<lparr>fp_world := fk_wake_up K q (fp_world s)\<rparr>"

text \<open>Putting a byte into a ring buffer, as the code does for its three buffers.\<close>

definition ring_put :: "u8 \<Rightarrow> fp_ring \<Rightarrow> fp_ring option" where
  "ring_put c r = do {
     buf \<leftarrow> arr_set (rbuf r) (rstart r) c;
     Some (r\<lparr>rbuf := buf, rstart := (rstart r + 1) mod BUFFERSIZE\<rparr>)
   }"

definition nuvoton_putc :: "fp_board \<Rightarrow> 'w fp_kernel \<Rightarrow> u8 \<Rightarrow> 'w nuvoton \<Rightarrow> 'w nuvoton option" where
  "nuvoton_putc b K data s = do {
     out \<leftarrow> ring_put data (OutBuffer s);
     let (en, s) = asc_get b K ASC_INT_EN (s\<lparr>OutBuffer := out\<rparr>);
     Some (if en AND ASC_INT_STA_THE = 0
           then (let (en, s) = asc_get b K ASC_INT_EN s in asc_put b K ASC_INT_EN (en OR ASC_INT_STA_THE) s)
           else s)
   }"

definition ack_sem_up :: "'w fp_kernel \<Rightarrow> 'w nuvoton \<Rightarrow> 'w nuvoton" where
  "ack_sem_up K s = wake_up K Ack_wq (s\<lparr>dataReady := 1\<rparr>)"

definition ack_sem_down :: "'w fp_kernel \<Rightarrow> 'w nuvoton \<Rightarrow> int \<times> 'w nuvoton" where
  "ack_sem_down K s =
     (let (err, s) = fk_wait_ack K (s\<lparr>dataReady := 0\<rparr>) in
      if err = - FP_ERESTARTSYS then (err, s) else (0, s\<lparr>dataflag := dataReady s\<rparr>))"

section \<open>Packets\<close>

text \<open>The next position of the loops over a ring buffer.\<close>

definition ring_next :: "nat \<Rightarrow> nat" where
  "ring_next j = (if j + 1 \<ge> BUFFERSIZE then 0 else j + 1)"

text \<open>The search for the end of a packet. The loop ends when it comes to the start position.\<close>

partial_function (option) getLen_loop :: "fp_ring \<Rightarrow> int \<Rightarrow> int \<Rightarrow> nat \<Rightarrow> int option" where
  "getLen_loop r expectedLen i j = do {
     c \<leftarrow> arr_get (rbuf r) j;
     if c = EOP \<and> (expectedLen = -1 \<or> i = expectedLen - 1) then Some (i + 1)
     else
       let j = ring_next j in
       if j = rstart r then Some 0 else getLen_loop r expectedLen (i + 1) j
   }"

definition getLen :: "int \<Rightarrow> fp_ring \<Rightarrow> int option" where
  "getLen expectedLen r = getLen_loop r expectedLen 0 (rend r)"

text \<open>Waiting for a key; \<open>False\<close> if a signal ended it.\<close>

partial_function (option) wait_key :: "'w fp_kernel \<Rightarrow> 'w nuvoton \<Rightarrow> (bool \<times> 'w nuvoton) option" where
  "wait_key K s =
     (if rstart (KeyBuffer s) = rend (KeyBuffer s) then
        case fk_wait_key K s of (r, s) \<Rightarrow> if r \<noteq> 0 then Some (False, s) else wait_key K s
      else Some (True, s))"

text \<open>The size of the packet at the end position, by its event.\<close>

definition key_size :: "fp_ring \<Rightarrow> nat option" where
  "key_size r = map_option
     (\<lambda>c. if c = EVENT_BTN then cPackageSizeFP else if c = EVENT_RC then cPackageSizeRC else 0)
     (arr_get (rbuf r) ((rend r + DATA_BTN_EVENT) mod BUFFERSIZE))"

text \<open>Copying \<open>n\<close> bytes from position \<open>j\<close> to \<open>data + i\<close>, at most to the start position.\<close>

fun ring_copy :: "fp_ring \<Rightarrow> nat \<Rightarrow> nat \<Rightarrow> nat \<Rightarrow> u8 list \<Rightarrow> u8 list option" where
  "ring_copy r 0 i j data = Some data"
| "ring_copy r (Suc n) i j data = do {
     c \<leftarrow> arr_get (rbuf r) j;
     data \<leftarrow> arr_set data i c;
     let j = ring_next j;
     if j = rstart r then Some data else ring_copy r n (i + 1) j data
   }"

definition getRCData :: "'w fp_kernel \<Rightarrow> u8 list \<Rightarrow> 'w nuvoton \<Rightarrow> ((u8 list \<times> nat) \<times> 'w nuvoton) option" where
  "getRCData K data s = do {
     (ok, s) \<leftarrow> wait_key K s;
     if \<not> ok then Some ((data, 0), s)
     else do {
       len \<leftarrow> key_size (KeyBuffer s);
       if len = 0 then Some ((data, 0), s)
       else do {
         data \<leftarrow> ring_copy (KeyBuffer s) len 0 (rend (KeyBuffer s)) data;
         Some ((data, len), s\<lparr>KeyBuffer := (KeyBuffer s)\<lparr>rend := (rend (KeyBuffer s) + len) mod BUFFERSIZE\<rparr>\<rparr>)
       }
     }
   }"

definition copyData :: "u8 list \<Rightarrow> nat \<Rightarrow> 'w nuvoton \<Rightarrow> 'w nuvoton option" where
  "copyData data len s = map_option (\<lambda>d. s\<lparr>ioctl_data := d\<rparr>) (arr_copy (ioctl_data s) 0 data 0 len)"

definition handleCopyData :: "'w fp_kernel \<Rightarrow> nat \<Rightarrow> 'w nuvoton \<Rightarrow> 'w nuvoton option" where
  "handleCopyData K len s = do {
     let (p, w) = fk_kmalloc K (len - 4) (fp_world s);
     data \<leftarrow> p;
     data \<leftarrow> ring_copy (RCVBuffer s) (len - 4) 0 ((rend (RCVBuffer s) + 3) mod BUFFERSIZE) data;
     copyData data (len - 4) (s\<lparr>fp_world := w\<rparr>)
   }"

definition rcv_skip :: "nat \<Rightarrow> 'w nuvoton \<Rightarrow> 'w nuvoton" where
  "rcv_skip n s = s\<lparr>RCVBuffer := (RCVBuffer s)\<lparr>rend := (rend (RCVBuffer s) + n) mod BUFFERSIZE\<rparr>\<rparr>"

fun copy_key :: "fp_ring \<Rightarrow> nat list \<Rightarrow> fp_ring \<Rightarrow> fp_ring option" where
  "copy_key rcv [] key = Some key"
| "copy_key rcv (i # is) key = do {
     c \<leftarrow> arr_get (rbuf rcv) ((rend rcv + i) mod BUFFERSIZE);
     buf \<leftarrow> arr_set (rbuf key) (rstart key mod BUFFERSIZE) c;
     copy_key rcv is (key\<lparr>rbuf := buf, rstart := (rstart key + 1) mod BUFFERSIZE\<rparr>)
   }"

definition key_event :: "'w fp_kernel \<Rightarrow> nat \<Rightarrow> 'w nuvoton \<Rightarrow> 'w nuvoton option" where
  "key_event K sizelen s = do {
     len \<leftarrow> getLen (int sizelen) (RCVBuffer s);
     if len = 0 \<or> len < int sizelen then Some s
     else do {
       key \<leftarrow> copy_key (RCVBuffer s) [0..<sizelen] (KeyBuffer s);
       Some (rcv_skip sizelen (wake_up K Wq (s\<lparr>KeyBuffer := key\<rparr>)))
     }
   }"

definition rsp_common :: "'w fp_kernel \<Rightarrow> nat \<Rightarrow> 'w nuvoton \<Rightarrow> 'w nuvoton option" where
  "rsp_common K sizelen s = do {
     len \<leftarrow> getLen (int sizelen) (RCVBuffer s);
     if len = 0 \<or> len < int sizelen then Some s
     else do {
       s \<leftarrow> handleCopyData K (nat len) s;
       Some (rcv_skip sizelen (ack_sem_up K (s\<lparr>errorOccured := 0\<rparr>)))
     }
   }"

definition handle_event :: "'w fp_kernel \<Rightarrow> 'w nuvoton \<Rightarrow> 'w nuvoton option" where
  "handle_event K s =
     (let e = expectEventData s in
      if e = EVENT_BTN then key_event K cPackageSizeFP s
      else if e = EVENT_RC then key_event K cPackageSizeRC s
      else if e = EVENT_ANSWER_GETTIME then rsp_common K cGetTimeSize s
      else if e = EVENT_ANSWER_WAKEUP_REASON then rsp_common K cGetWakeupReasonSize s
      else if e = EVENT_ANSWER_FRONTINFO then rsp_common K cGetFrontInfoSize s
      else if e = EVENT_ANSWER_E9 then rsp_common K cGetE9Size s
      else if e = EVENT_ANSWER_F9 then rsp_common K cGetF9Size s
      else Some (s\<lparr>RCVBuffer := (RCVBuffer s)\<lparr>rend := rstart (RCVBuffer s)\<rparr>\<rparr>))"

definition processResponse :: "fp_board \<Rightarrow> 'w fp_kernel \<Rightarrow> 'w nuvoton \<Rightarrow> 'w nuvoton option" where
  "processResponse b K s = do {
     len \<leftarrow> getLen (-1) (RCVBuffer s);
     if len < cMinimumSize b then Some s
     else do {
       s \<leftarrow> (if expectEventId s \<noteq> 0 then do {
              e \<leftarrow> arr_get (rbuf (RCVBuffer s)) ((rend (RCVBuffer s) + DATA_BTN_EVENT) mod BUFFERSIZE);
              Some (s\<lparr>expectEventData := e, expectEventId := 0\<rparr>)
            }
            else Some s);
       s \<leftarrow> (if expectEventData s \<noteq> 0 then handle_event K s else Some s);
       Some (s\<lparr>expectEventId := 1, expectEventData := 0\<rparr>)
     }
   }"

text \<open>
  One round of the thread: it waits until there are bytes, and then calls \<open>processResponse\<close> as long as there are
  some, so that it calls it whenever there are bytes.
\<close>

definition nuvotonTask_step :: "fp_board \<Rightarrow> 'w fp_kernel \<Rightarrow> 'w nuvoton \<Rightarrow> 'w nuvoton option" where
  "nuvotonTask_step b K s =
     (if rstart (RCVBuffer s) \<noteq> rend (RCVBuffer s) then processResponse b K s else Some s)"

section \<open>The interrupt handler\<close>

partial_function (option) fp_rx_loop ::
  "fp_board \<Rightarrow> 'w fp_kernel \<Rightarrow> bool \<Rightarrow> 'w nuvoton \<Rightarrow> (bool \<times> 'w nuvoton) option" where
  "fp_rx_loop b K dataArrived s = (case asc_get b K ASC_INT_STA s of (sta, s) \<Rightarrow>
     if sta AND ASC_INT_STA_RBF \<noteq> 0 then
       case asc_getb b K ASC_RX_BUFF s of (c, s) \<Rightarrow> do {
         rcv \<leftarrow> ring_put c (RCVBuffer s);
         fp_rx_loop b K True (s\<lparr>RCVBuffer := rcv\<rparr>)
       }
     else Some (dataArrived, s))"

text \<open>The condition of the second loop reads the two registers in turn.\<close>

definition tx_ready :: "fp_board \<Rightarrow> 'w fp_kernel \<Rightarrow> 'w nuvoton \<Rightarrow> bool \<times> 'w nuvoton" where
  "tx_ready b K s =
     (case asc_get b K ASC_INT_STA s of (sta, s) \<Rightarrow>
      if sta AND ASC_INT_STA_THE = 0 then (False, s)
      else case asc_get b K ASC_INT_EN s of (en, s) \<Rightarrow>
        (en AND ASC_INT_STA_THE \<noteq> 0 \<and> rstart (OutBuffer s) \<noteq> rend (OutBuffer s), s))"

partial_function (option) fp_tx_loop ::
  "fp_board \<Rightarrow> 'w fp_kernel \<Rightarrow> 'w nuvoton \<Rightarrow> 'w nuvoton option" where
  "fp_tx_loop b K s = (case tx_ready b K s of (ready, s) \<Rightarrow>
     if ready then do {
       c \<leftarrow> arr_get (rbuf (OutBuffer s)) (rend (OutBuffer s));
       let s = asc_putb b K ASC_TX_BUFF c s;
       fp_tx_loop b K (s\<lparr>OutBuffer := (OutBuffer s)\<lparr>rend := (rend (OutBuffer s) + 1) mod BUFFERSIZE\<rparr>\<rparr>)
     }
     else Some s)"

definition fp_tx_disable :: "fp_board \<Rightarrow> 'w fp_kernel \<Rightarrow> 'w nuvoton \<Rightarrow> 'w nuvoton" where
  "fp_tx_disable b K s =
     (if rstart (OutBuffer s) = rend (OutBuffer s) then
        (case asc_get b K ASC_INT_EN s of (en, s) \<Rightarrow>
         if en AND ASC_INT_STA_THE \<noteq> 0 then
           (case asc_get b K ASC_INT_EN s of (en, s) \<Rightarrow> asc_put b K ASC_INT_EN (en AND NOT ASC_INT_STA_THE) s)
         else s)
      else s)"

definition FP_interrupt :: "fp_board \<Rightarrow> 'w fp_kernel \<Rightarrow> 'w nuvoton \<Rightarrow> 'w nuvoton option" where
  "FP_interrupt b K s = do {
     (dataArrived, s) \<leftarrow> fp_rx_loop b K False s;
     s \<leftarrow> fp_tx_loop b K (if dataArrived then wake_up K Rx_wq s else s);
     Some (fp_tx_disable b K s)
   }"

section \<open>Commands\<close>

text \<open>A command queues its bytes, one by one, with a delay before each.\<close>

fun putc_all :: "fp_board \<Rightarrow> 'w fp_kernel \<Rightarrow> u8 list \<Rightarrow> 'w nuvoton \<Rightarrow> 'w nuvoton option" where
  "putc_all b K [] s = Some s"
| "putc_all b K (c # cs) s = do { s \<leftarrow> nuvoton_putc b K c (fk_udelay K 1 s); putc_all b K cs s }"

definition nuvotonWriteCommand ::
  "fp_board \<Rightarrow> 'w fp_kernel \<Rightarrow> u8 list \<Rightarrow> bool \<Rightarrow> 'w nuvoton \<Rightarrow> (int \<times> 'w nuvoton) option" where
  "nuvotonWriteCommand b K buffer needAck s = do {
     s \<leftarrow> putc_all b K buffer s;
     Some (if needAck
           then (let (r, s) = ack_sem_down K s in if r \<noteq> 0 then (- FP_ERESTARTSYS, s) else (0, s))
           else (0, s))
   }"

definition MAX_LED :: "fp_board \<Rightarrow> int" where
  "MAX_LED b = (if b \<in> {HS9510, HS7420, HS7429, HS7810A, HS7819} then 3 else if b \<in> {FS9000, HS8200} then 255 else 1)"

definition MAX_BRIGHT :: "fp_board \<Rightarrow> int" where
  "MAX_BRIGHT b = (if b \<in> {FS9000, HS8200} then 31 else 7)"

definition nuvotonSetLED :: "fp_board \<Rightarrow> 'w fp_kernel \<Rightarrow> int \<Rightarrow> int \<Rightarrow> 'w nuvoton \<Rightarrow> (int \<times> 'w nuvoton) option" where
  "nuvotonSetLED b K which level s =
     (if b = HS7110 then Some (- FP_EINVAL, s)
      else if which < 1 \<or> which > MAX_LED b then Some (- FP_EINVAL, s)
      else if level < 0 \<or> level > MAX_BRIGHT b then Some (- FP_EINVAL, s)
      else nuvotonWriteCommand b K
        [SOP, 0x93, word_of_int which, word_of_int level, if which = 1 then 8 else 0, EOP] False s)"

definition set_brightness :: "int \<Rightarrow> 'w nuvoton \<Rightarrow> 'w nuvoton" where
  "set_brightness level s = s\<lparr>lastdata := (lastdata s)\<lparr>ld_brightness := level\<rparr>\<rparr>"

definition led_level :: "int \<Rightarrow> int" where
  "led_level level = (if level = 7 then 10 else if level = 6 then 8 else if level = 5 then 6 else level)"

definition nuvotonSetBrightness :: "fp_board \<Rightarrow> 'w fp_kernel \<Rightarrow> int \<Rightarrow> 'w nuvoton \<Rightarrow> (int \<times> 'w nuvoton) option" where
  "nuvotonSetBrightness b K level s =
     (if b = HS7110 then Some (- FP_EFAULT, s)
      else if level < 0 \<or> level > 7 then Some (- FP_EINVAL, s)
      else if b \<in> {HS7119, HS7810A, HS7819} then
        map_option (\<lambda>(r, s). (r, set_brightness (led_level level) s))
          (nuvotonWriteCommand b K [SOP, 0x23, 0x03, word_of_int (led_level level), 0x02, EOP] False s)
      else
        map_option (\<lambda>(r, s). (r, set_brightness level s))
          (nuvotonWriteCommand b K [SOP, 0xd2, 0x00, word_of_int level, EOP] False s))"

text \<open>The times are arrays of the caller: day, hour, minute, second.\<close>

definition nuvotonSetStandby :: "fp_board \<Rightarrow> 'w fp_kernel \<Rightarrow> u8 list \<Rightarrow> 'w nuvoton \<Rightarrow> (int \<times> 'w nuvoton) option" where
  "nuvotonSetStandby b K wtime s = do {
     t \<leftarrow> arr_slice wtime 0 4;
     (_, s) \<leftarrow> nuvotonWriteCommand b K ([SOP, 0x74] @ t @ [EOP]) False s;
     nuvotonWriteCommand b K [SOP, 0x31, 0x01, EOP] False s
   }"

definition nuvotonSetTime :: "fp_board \<Rightarrow> 'w fp_kernel \<Rightarrow> u8 list \<Rightarrow> 'w nuvoton \<Rightarrow> (int \<times> 'w nuvoton) option" where
  "nuvotonSetTime b K time s = do {
     t \<leftarrow> arr_slice time 0 5;
     nuvotonWriteCommand b K ([SOP, 0x15] @ t @ [EOP]) False s
   }"

definition nuvotonGetTime ::
  "fp_board \<Rightarrow> 'w fp_kernel \<Rightarrow> u8 list \<Rightarrow> 'w nuvoton \<Rightarrow> ((int \<times> u8 list) \<times> 'w nuvoton) option" where
  "nuvotonGetTime b K time s = do {
     (res, s) \<leftarrow> nuvotonWriteCommand b K [SOP, 0x10, EOP] True (s\<lparr>errorOccured := 0\<rparr>);
     if errorOccured s = 1 then
       Some ((- FP_ETIMEDOUT, time), s\<lparr>ioctl_data := replicate (length (ioctl_data s)) 0\<rparr>)
     else do {
       time \<leftarrow> arr_copy time 0 (ioctl_data s) 0 5;
       Some ((res, time), s)
     }
   }"

definition nuvotonSetWakeUpTime :: "fp_board \<Rightarrow> 'w fp_kernel \<Rightarrow> u8 list \<Rightarrow> 'w nuvoton \<Rightarrow> (int \<times> 'w nuvoton) option" where
  "nuvotonSetWakeUpTime b K wtime s = do {
     t \<leftarrow> arr_slice wtime 0 4;
     (res, s) \<leftarrow> nuvotonWriteCommand b K ([SOP, 0x74] @ t @ [EOP]) False s;
     wake \<leftarrow> arr_copy (wakeup_time s) 0 wtime 0 4;
     wake \<leftarrow> arr_set wake 4 0;
     Some (res, s\<lparr>wakeup_time := wake\<rparr>)
   }"

definition nuvotonGetWakeUpTime :: "u8 list \<Rightarrow> 'w nuvoton \<Rightarrow> u8 list option" where
  "nuvotonGetWakeUpTime time s = do {
     time \<leftarrow> arr_copy time 0 (wakeup_time s) 0 4;
     arr_set time 4 0
   }"

text \<open>\<^verbatim>\<open>char\<close> is signed. The result is the new value of the caller's variable.\<close>

definition nuvotonGetWakeUpMode :: "fp_board \<Rightarrow> 'w fp_kernel \<Rightarrow> 'w nuvoton \<Rightarrow> ((int \<times> int) \<times> 'w nuvoton) option" where
  "nuvotonGetWakeUpMode b K s = do {
     (res, s) \<leftarrow> nuvotonWriteCommand b K [SOP, 0x80, EOP] True (s\<lparr>errorOccured := 0\<rparr>);
     if errorOccured s = 1 then
       Some ((- FP_ETIMEDOUT, -1), s\<lparr>ioctl_data := replicate (length (ioctl_data s)) 0\<rparr>)
     else do {
       c \<leftarrow> arr_get (ioctl_data s) 0;
       Some ((res, sint c + 1), s)
     }
   }"

definition nuvotonSetTimeFormat :: "fp_board \<Rightarrow> 'w fp_kernel \<Rightarrow> u8 \<Rightarrow> 'w nuvoton \<Rightarrow> (int \<times> 'w nuvoton) option" where
  "nuvotonSetTimeFormat b K format s = nuvotonWriteCommand b K [SOP, 0x11, format, EOP] False s"

section \<open>Device files\<close>

abbreviation (input) FRONTPANEL_MINOR_RC :: nat where "FRONTPANEL_MINOR_RC \<equiv> 1"

definition NUVOTONdev_open :: "'w fp_kernel \<Rightarrow> nat \<Rightarrow> nat \<Rightarrow> 'w nuvoton \<Rightarrow> (int \<times> 'w nuvoton) option" where
  "NUVOTONdev_open K minor filp s =
     (case fk_down K Write_sem s of (r, s) \<Rightarrow>
      if r \<noteq> 0 then Some (- FP_ERESTARTSYS, s)
      else do {
        p \<leftarrow> arr_get (FrontPanelOpen s) minor;
        let s' = s\<lparr>fp_world := fk_up K Write_sem (fp_world s)\<rparr>;
        Some (if fp_file p \<noteq> None then (- FP_EUSERS, s')
              else (0, s'\<lparr>FrontPanelOpen := (FrontPanelOpen s)[minor := \<lparr>fp_file = Some filp, fp_read = 0\<rparr>]\<rparr>))
      })"

definition NUVOTONdev_close :: "nat \<Rightarrow> 'w nuvoton \<Rightarrow> (int \<times> 'w nuvoton) option" where
  "NUVOTONdev_close minor s = do {
     p \<leftarrow> arr_get (FrontPanelOpen s) minor;
     Some (if fp_file p = None then (- FP_EUSERS, s)
           else (0, s\<lparr>FrontPanelOpen := (FrontPanelOpen s)[minor := \<lparr>fp_file = None, fp_read = 0\<rparr>]\<rparr>))
   }"

text \<open>The search for the minor device of a file: the last one that matches.\<close>

definition find_minor :: "nat \<Rightarrow> 'w nuvoton \<Rightarrow> nat option" where
  "find_minor filp s =
     fold (\<lambda>i m. if fp_file (FrontPanelOpen s ! i) = Some filp then Some i else m) [0..<length (FrontPanelOpen s)] None"

definition NUVOTONdev_read ::
  "'w fp_kernel \<Rightarrow> nat \<Rightarrow> u32 \<Rightarrow> nat \<Rightarrow> 'w nuvoton \<Rightarrow> (int \<times> 'w nuvoton) option" where
  "NUVOTONdev_read K filp buff len s =
     (if len = 0 then Some (0, s)
      else case find_minor filp s of
        None \<Rightarrow> Some (- FP_EUSERS, s)
      | Some minor \<Rightarrow>
          if minor = FRONTPANEL_MINOR_RC then do {
            ((data, size'), s) \<leftarrow> getRCData K (replicate 20 0) s;
            if size' > 0 then
              (case fk_down K (Open_sem minor) s of (r, s) \<Rightarrow>
               if r \<noteq> 0 then Some (- FP_ERESTARTSYS, s)
               else Some (int size',
                 s\<lparr>fp_world := fk_up K (Open_sem minor) (fk_copy_to_user K buff (take size' data) (fp_world s))\<rparr>))
            else Some (0, s)
          }
          else
            (case fk_down K (Open_sem minor) s of (r, s) \<Rightarrow>
             if r \<noteq> 0 then Some (- FP_ERESTARTSYS, s)
             else do {
               p \<leftarrow> arr_get (FrontPanelOpen s) minor;
               if fp_read p = ld_length (lastdata s) then
                 Some (0, s\<lparr>FrontPanelOpen := (FrontPanelOpen s)[minor := p\<lparr>fp_read := 0\<rparr>],
                           fp_world := fk_up K (Open_sem minor) (fp_world s)\<rparr>)
               else do {
                 let len = min (min len (ld_length (lastdata s))) 16;
                 bytes \<leftarrow> arr_slice (ld_data (lastdata s)) 0 len;
                 Some (int len, s\<lparr>FrontPanelOpen := (FrontPanelOpen s)[minor := p\<lparr>fp_read := len\<rparr>],
                           fp_world := fk_up K (Open_sem minor) (fk_copy_to_user K buff bytes (fp_world s))\<rparr>)
               }
             }))"

end
