(* ===== verification/Nuvoton_Led.thy ===== *)
theory Nuvoton_Led
  imports Nuvoton
begin

unbundle bit_operations_syntax

text \<open>
  The display of the boards with four seven-segment digits: text, icons and writing to the device file. Texts are arrays
  of the caller with a length, which the code does not compare with the size of the array.
\<close>

section \<open>Texts on the display\<close>

datatype led_board = LED_7119 | LED_7810A | LED_7819

primrec fp_board_of :: "led_board \<Rightarrow> fp_board" where
  "fp_board_of LED_7119 = HS7119"
| "fp_board_of LED_7810A = HS7810A"
| "fp_board_of LED_7819 = HS7819"

definition seg_fonts :: "u8 list" where
  "seg_fonts =
    [0x00, 0x06, 0x22, 0x5c, 0x6d, 0x52, 0x7d, 0x02, 0x39, 0x0f, 0x76, 0x46, 0x0c, 0x40, 0x08, 0x52,
     0x3f, 0x06, 0x5b, 0x4f, 0x66, 0x6d, 0x7d, 0x07, 0x7f, 0x6f, 0x10, 0x0c, 0x58, 0x48, 0x4c, 0x53,
     0x7b, 0x77, 0x7c, 0x39, 0x5e, 0x79, 0x71, 0x3d, 0x76, 0x06, 0x1e, 0x7a, 0x38, 0x55, 0x37, 0x3f,
     0x73, 0x67, 0x77, 0x6d, 0x78, 0x3e, 0x3e, 0x7e, 0x76, 0x66, 0x5b, 0x39, 0x64, 0x0f, 0x23, 0x08,
     0x20, 0x5f, 0x7c, 0x58, 0x5e, 0x7b, 0x71, 0x6f, 0x74, 0x04, 0x0e, 0x78, 0x38, 0x55, 0x54, 0x5c,
     0x73, 0x67, 0x50, 0x6d, 0x78, 0x1c, 0x1c, 0x1c, 0x76, 0x6e, 0x5b, 0x39, 0x06, 0x0f, 0x40, 0x5c]"

abbreviation (input) PERIOD :: u8 where "PERIOD \<equiv> 0x2e"
abbreviation (input) COLON :: u8 where "COLON \<equiv> 0x3a"
abbreviation (input) SPACE :: u8 where "SPACE \<equiv> 0x20"

text \<open>The segments of a character; a character below the space has a negative index.\<close>

definition segments :: "u8 \<Rightarrow> u8 option" where
  "segments c = (if c < 0x20 then None else arr_get seg_fonts (unat c - 0x20))"

text \<open>The characters from \<open>i\<close> to \<open>n\<close> (inclusive) move one place to the front.\<close>

fun shift_left :: "nat list \<Rightarrow> u8 list \<Rightarrow> u8 list option" where
  "shift_left [] buf = Some buf"
| "shift_left (i # is) buf = do { c \<leftarrow> arr_get buf i; buf \<leftarrow> arr_set buf (i - 1) c; shift_left is buf }"

text \<open>The segments of the first characters are added to the marks of periods and colon.\<close>

fun add_segments :: "nat list \<Rightarrow> u8 list \<Rightarrow> u8 list \<Rightarrow> u8 list option" where
  "add_segments [] bBuf cmd = Some cmd"
| "add_segments (i # is) bBuf cmd = do {
     c \<leftarrow> arr_get bBuf i;
     f \<leftarrow> segments c;
     m \<leftarrow> arr_get cmd (i + 2);
     cmd \<leftarrow> arr_set cmd (i + 2) (m OR f);
     add_segments is bBuf cmd
   }"

definition save_text :: "u8 list \<Rightarrow> nat \<Rightarrow> u8 list \<Rightarrow> 'w nuvoton \<Rightarrow> 'w nuvoton option" where
  "save_text aBuf len cmd s = do {
     d \<leftarrow> arr_copy (ld_data (lastdata s)) 0 aBuf 0 len;
     Some (s\<lparr>lastdata := (lastdata s)\<lparr>ld_data := d, ld_buf := cmd, ld_length := len\<rparr>\<rparr>)
   }"

text \<open>\<open>junk\<close> is the array \<^verbatim>\<open>bBuf[5]\<close>, which is not initialised.\<close>

definition write_7119 :: "'w fp_kernel \<Rightarrow> u8 list \<Rightarrow> u8 list \<Rightarrow> nat \<Rightarrow> 'w nuvoton \<Rightarrow> (int \<times> 'w nuvoton) option" where
  "write_7119 K junk aBuf len s = do {
     bBuf \<leftarrow> arr_copy junk 0 aBuf 0 len;
     c \<leftarrow> arr_get aBuf 2;
     (cmd, bBuf) \<leftarrow> (if c = COLON then map_option (Pair ((replicate 7 0)[3 := 0x80])) (shift_left [3..<len + 1] bBuf)
                     else Some (replicate 7 0, bBuf));
     cmd \<leftarrow> add_segments [0..<min len 4] bBuf cmd;
     let cmd = cmd[0 := SOP, 1 := 0x24, 6 := EOP];
     (res, s) \<leftarrow> nuvotonWriteCommand HS7119 K cmd False s;
     s \<leftarrow> save_text aBuf len cmd s;
     Some (res, s)
   }"

text \<open>The state of the evaluation of a text on the other two boards: the command, the characters, their number.\<close>

type_synonym led_text = "u8 list \<times> u8 list \<times> nat"

definition drop_char :: "nat \<Rightarrow> u8 list \<Rightarrow> led_text \<Rightarrow> led_text option" where
  "drop_char i cmd t = (case t of (_, buf, n) \<Rightarrow> map_option (\<lambda>buf. (cmd, buf, n - 1)) (shift_left [i..<n + 1] buf))"

definition third_char :: "u8 \<Rightarrow> nat \<Rightarrow> led_text \<Rightarrow> led_text option" where
  "third_char mark pos t = (case t of (cmd, buf, n) \<Rightarrow> do {
     c \<leftarrow> arr_get buf 2;
     if c = mark then drop_char 3 (cmd[pos := 0x80]) t else Some t
   })"

definition period_3 :: "led_text \<Rightarrow> led_text option" where
  "period_3 t = (case t of (cmd, buf, n) \<Rightarrow> do {
     c \<leftarrow> arr_get buf 2;
     d \<leftarrow> arr_get buf 3;
     if c = PERIOD then Some (cmd[4 := 0x80], buf[2 := SPACE], n)
     else if d = PERIOD then
       (if n > 4 then drop_char 4 (cmd[4 := 0x80]) t else Some (cmd[4 := 0x80], buf[3 := SPACE], n))
     else Some t
   })"

definition period_4 :: "led_text \<Rightarrow> led_text option" where
  "period_4 t = (case t of (cmd, buf, n) \<Rightarrow> do {
     c \<leftarrow> arr_get buf 3;
     d \<leftarrow> arr_get buf 4;
     if c = PERIOD then
       (if n > 4 then drop_char 3 (cmd[5 := 0x80]) (cmd, buf[3 := SPACE], n) else Some (cmd[5 := 0x80], buf[3 := SPACE], n))
     else if d = PERIOD then (if n > 4 then drop_char 5 (cmd[5 := 0x80]) t else Some (cmd[5 := 0x80], buf, n))
     else Some t
   })"

fun led_chars :: "nat list \<Rightarrow> u8 list \<Rightarrow> u8 list \<Rightarrow> u8 list option" where
  "led_chars [] bBuf cmd = Some cmd"
| "led_chars (i # is) bBuf cmd = do {
     c \<leftarrow> arr_get bBuf i;
     m \<leftarrow> arr_get cmd (i + 2);
     v \<leftarrow> (if c < 0x20 then Some (m AND 0x80) else map_option (\<lambda>f. m OR f) (segments c));
     led_chars is bBuf (cmd[i + 2 := v])
   }"

definition led_command :: "u8 list \<Rightarrow> nat \<Rightarrow> u8 list option" where
  "led_command aBuf len = do {
     buf \<leftarrow> arr_copy (replicate 9 0) 0 aBuf 0 len;
     buf \<leftarrow> arr_set buf len 0;
     t \<leftarrow> third_char PERIOD 2 (replicate 7 0, buf, len);
     t \<leftarrow> third_char COLON 3 t;
     t \<leftarrow> period_3 t;
     (cmd, buf, n) \<leftarrow> period_4 t;
     cmd \<leftarrow> led_chars [0..<4] buf cmd;
     let cmd = fold (\<lambda>i cmd. cmd[i + 2 := cmd ! (i + 2) AND 0x80]) [min n 4..<4] cmd;
     Some (cmd[0 := SOP, 1 := 0x24, 6 := EOP])
   }"

definition write_78xx :: "led_board \<Rightarrow> 'w fp_kernel \<Rightarrow> u8 list \<Rightarrow> nat \<Rightarrow> 'w nuvoton \<Rightarrow> (int \<times> 'w nuvoton) option" where
  "write_78xx l K aBuf len s = do {
     let len = min len 8;
     d \<leftarrow> arr_copy (ld_data (lastdata s)) 0 aBuf 0 len;
     cmd \<leftarrow> led_command aBuf len;
     (res, s) \<leftarrow> nuvotonWriteCommand (fp_board_of l) K cmd False (s\<lparr>lastdata := (lastdata s)\<lparr>ld_data := d\<rparr>\<rparr>);
     Some (res, s\<lparr>lastdata := (lastdata s)\<lparr>ld_buf := cmd, ld_length := len\<rparr>\<rparr>)
   }"

definition nuvotonWriteString ::
  "led_board \<Rightarrow> 'w fp_kernel \<Rightarrow> u8 list \<Rightarrow> u8 list \<Rightarrow> nat \<Rightarrow> 'w nuvoton \<Rightarrow> (int \<times> 'w nuvoton) option" where
  "nuvotonWriteString l K junk aBuf len s =
     (if l = LED_7119 then write_7119 K junk aBuf len s else write_78xx l K aBuf len s)"

section \<open>Icons\<close>

abbreviation (input) ICON_COLON :: int where "ICON_COLON \<equiv> 1"
abbreviation (input) ICON_PERIOD1 :: int where "ICON_PERIOD1 \<equiv> 2"
abbreviation (input) ICON_PERIOD2 :: int where "ICON_PERIOD2 \<equiv> 3"

definition ICON_MAX :: "led_board \<Rightarrow> int" where
  "ICON_MAX l = (if l = LED_7119 then 2 else 5)"

text \<open>The byte of the last command that holds an icon.\<close>

definition icon_byte :: "led_board \<Rightarrow> int \<Rightarrow> nat" where
  "icon_byte l which = (if l = LED_7119 \<or> which = ICON_COLON then 3 else if which = ICON_PERIOD1 then 2
     else if which = ICON_PERIOD2 then 4 else 5)"

definition nuvotonSetIcon :: "led_board \<Rightarrow> 'w fp_kernel \<Rightarrow> int \<Rightarrow> int \<Rightarrow> 'w nuvoton \<Rightarrow> (int \<times> 'w nuvoton) option" where
  "nuvotonSetIcon l K which on s =
     (if which < 1 \<or> which > ICON_MAX l - 1 then Some (- FP_EINVAL, s)
      else do {
        v \<leftarrow> arr_get (ld_buf (lastdata s)) (icon_byte l which);
        buf \<leftarrow> arr_set (ld_buf (lastdata s)) (icon_byte l which) (if on \<noteq> 0 then v OR 0x80 else v AND 0x7f);
        cmd \<leftarrow> arr_slice buf 0 7;
        nuvotonWriteCommand (fp_board_of l) K cmd False (s\<lparr>lastdata := (lastdata s)\<lparr>ld_buf := buf\<rparr>\<rparr>)
      })"

definition nuvotonSetDisplayOnOff :: "led_board \<Rightarrow> 'w fp_kernel \<Rightarrow> u8 \<Rightarrow> 'w nuvoton \<Rightarrow> (int \<times> 'w nuvoton) option" where
  "nuvotonSetDisplayOnOff l K level s =
     nuvotonWriteCommand (fp_board_of l) K
       [SOP, 0x23, 0x03, if level \<noteq> 0 then word_of_int (ld_brightness (lastdata s)) else 0, 0x02, EOP] False s"

section \<open>Writing to the device file\<close>

abbreviation (input) DISP_SIZE :: nat where "DISP_SIZE \<equiv> 4"

text \<open>The number of marks that take no place: the loop goes on for one more character with each period it finds.\<close>

function count_periods :: "u8 list \<Rightarrow> nat \<Rightarrow> nat \<Rightarrow> nat option" where
  "count_periods kernel_buf pos corr =
     (if pos < 6 + corr then
        (if pos < length kernel_buf
         then count_periods kernel_buf (pos + 1) (if kernel_buf ! pos = PERIOD then corr + 1 else corr) else None)
      else Some corr)"
  by pat_completeness auto
termination
  by (relation "measure (\<lambda>(kb, pos, corr). length kb - pos)") auto

declare count_periods.simps [simp del]

definition scroll_corr :: "led_board \<Rightarrow> u8 list \<Rightarrow> nat option" where
  "scroll_corr l kernel_buf = do {
     c \<leftarrow> arr_get kernel_buf 2;
     let corr = (if c = COLON then 1 else 0);
     if l = LED_7119 then Some corr
     else do {
       two \<leftarrow> (if c = PERIOD then map_option (\<lambda>d. if d = COLON then 2 else 0) (arr_get kernel_buf 3) else Some 0);
       count_periods kernel_buf (2 + (corr + two)) (corr + two)
     }
   }"

definition clear_display :: "led_board \<Rightarrow> 'w fp_kernel \<Rightarrow> u8 list \<Rightarrow> 'w nuvoton \<Rightarrow> 'w nuvoton option" where
  "clear_display l K junk s = map_option snd (nuvotonWriteString l K junk (replicate 12 SPACE) DISP_SIZE s)"

fun scroll :: "led_board \<Rightarrow> 'w fp_kernel \<Rightarrow> u8 list \<Rightarrow> u8 list \<Rightarrow> nat \<Rightarrow> nat list \<Rightarrow> 'w nuvoton \<Rightarrow> 'w nuvoton option" where
  "scroll l K junk buf n [] s = Some s"
| "scroll l K junk buf n (pos # ps) s = do {
     (_, s) \<leftarrow> nuvotonWriteString l K junk (drop pos buf) n s;
     scroll l K junk buf n ps (fk_msleep K 300 s)
   }"

definition show_text ::
  "led_board \<Rightarrow> 'w fp_kernel \<Rightarrow> u8 list \<Rightarrow> u8 list \<Rightarrow> nat \<Rightarrow> nat \<Rightarrow> 'w nuvoton \<Rightarrow> (int \<times> 'w nuvoton) option" where
  "show_text l K junk kernel_buf llen corr s =
     (if llen \<le> DISP_SIZE + corr then nuvotonWriteString l K junk kernel_buf llen s
      else do {
        buf \<leftarrow> arr_copy (replicate 64 SPACE) 3 kernel_buf 0 llen;
        buf \<leftarrow> arr_set buf (llen + 3 + DISP_SIZE + corr) 0;
        s \<leftarrow> scroll l K junk buf (DISP_SIZE + corr) [0..<llen + 3] s;
        s \<leftarrow> clear_display l K junk s;
        nuvotonWriteString l K junk (drop 3 buf) (DISP_SIZE + corr) s
      })"

text \<open>\<open>text\<close> are the bytes of the user, of which \<^verbatim>\<open>copy_from_user\<close> copies \<open>len\<close> bytes.\<close>

definition NUVOTONdev_write ::
  "led_board \<Rightarrow> 'w fp_kernel \<Rightarrow> u8 list \<Rightarrow> nat \<Rightarrow> u32 \<Rightarrow> nat \<Rightarrow> 'w nuvoton \<Rightarrow> (int \<times> 'w nuvoton) option" where
  "NUVOTONdev_write l K junk filp buff len s =
     (if len = 0 then Some (0, s)
      else case find_minor filp s of
        None \<Rightarrow> Some (-1, s)
      | Some minor \<Rightarrow>
          if minor = FRONTPANEL_MINOR_RC then Some (- FP_EOPNOTSUPP, s)
          else case fk_kmalloc K len (fp_world s) of
            (None, w) \<Rightarrow> Some (- FP_ENOMEM, s\<lparr>fp_world := w\<rparr>)
          | (Some _, w) \<Rightarrow>
              let kernel_buf = fk_copy_from_user K buff len w in
              (case fk_down K Write_sem (s\<lparr>fp_world := w\<rparr>) of (r, s) \<Rightarrow>
               if r \<noteq> 0 then Some (- FP_ERESTARTSYS, s)
               else do {
                 corr \<leftarrow> scroll_corr l kernel_buf;
                 last \<leftarrow> arr_get kernel_buf (len - 1);
                 let llen = (if last = 0x0a then min len 64 - 1 else min len 64);
                 (res, s) \<leftarrow> show_text l K junk kernel_buf llen corr s;
                 Some (if res < 0 then res else int len, s\<lparr>fp_world := fk_up K Write_sem (fp_world s)\<rparr>)
               }))"

end
