(* ===== verification/Nuvoton_Ioctl.thy ===== *)
theory Nuvoton_Ioctl
  imports Nuvoton_Led
begin

unbundle bit_operations_syntax

text \<open>
  Initialisation and the ioctls of the boards with four digits. The caller's memory, which the code accesses through the
  pointer it gets, is an array of bytes, passed in and out; copying to it succeeds. It holds either
  the structure \<^verbatim>\<open>vfd_ioctl_data\<close> (a start address, 64 bytes of data and a length) or
  \<^verbatim>\<open>nuvoton_ioctl_data\<close>, with integers in little-endian order.
  The shadow registers, which these boards do not use, and the offset to Greenwich time, which only
  the proc files use, are left out.
\<close>

section \<open>Initialisation\<close>

definition init_commands :: "(u8 list \<times> bool) list" where
  "init_commands =
    [([SOP, 0x40, EOP], False),
     ([SOP, 0x31, 0x02, EOP], False),
     ([SOP, 0x23, 0x03, 0x0a, 0x02, EOP], True),
     ([SOP, 0xa5, 0x01, 0x02, 0xf9, 0x10, 0x0b, EOP], True),
     ([SOP, 0x11, 0x81, EOP], True),
     ([SOP, 0x72, 0xff, 0xff, EOP], False),
     ([SOP, 0x93, 0x01, 0x00, 0x08, EOP], False),
     ([SOP, 0x93, 0x02, 0x03, 0x00, EOP], False)]"

text \<open>The commands are sent one after the other, some with a sleep behind.\<close>

fun send_commands :: "led_board \<Rightarrow> 'w fp_kernel \<Rightarrow> (u8 list \<times> bool) list \<Rightarrow> 'w nuvoton \<Rightarrow> 'w nuvoton option" where
  "send_commands l K [] s = Some s"
| "send_commands l K ((cmd, sleep) # cs) s = do {
     (_, s) \<leftarrow> nuvotonWriteCommand (fp_board_of l) K cmd False s;
     send_commands l K cs (if sleep then fk_msleep K 1 s else s)
   }"

fun set_icons :: "led_board \<Rightarrow> 'w fp_kernel \<Rightarrow> int \<Rightarrow> nat list \<Rightarrow> 'w nuvoton \<Rightarrow> (int \<times> 'w nuvoton) option" where
  "set_icons l K on [] s = Some (0, s)"
| "set_icons l K on (i # is) s = do {
     (res, s) \<leftarrow> nuvotonSetIcon l K (int i) on s;
     (res', s) \<leftarrow> set_icons l K on is s;
     Some (res OR res', s)
   }"

definition nuvoton_init_func :: "led_board \<Rightarrow> 'w fp_kernel \<Rightarrow> u8 list \<Rightarrow> 'w nuvoton \<Rightarrow> (int \<times> 'w nuvoton) option" where
  "nuvoton_init_func l K junk s = do {
     let s = s\<lparr>lastdata := (lastdata s)\<lparr>ld_display_on := 1, ld_brightness := 7\<rparr>, fp_world := fk_sema_init K Write_sem (fp_world s)\<rparr>;
     s \<leftarrow> send_commands l K init_commands s;
     (_, s) \<leftarrow> set_icons l K 0 [1..<nat (ICON_MAX l)] s;
     (_, s) \<leftarrow> nuvotonWriteString l K junk [0x2d, 0x2d, 0x2d, 0x2d, 0] 4 s;
     wake \<leftarrow> arr_copy (wakeup_time s) 0 [0x9e, 0x8b, 0, 0, 0] 0 5;
     Some (0, s\<lparr>wakeup_time := wake\<rparr>)
   }"

section \<open>Version of the boot loader and test of the line\<close>

definition bcd :: "u8 \<Rightarrow> u32" where
  "bcd b = ucast (drop_bit 4 (b AND 0xf0)) * 10 + ucast (b AND 0x0f)"

definition nuvotonGetVersion :: "'w fp_kernel \<Rightarrow> 'w nuvoton \<Rightarrow> (int \<times> (u32 \<times> u32) option) \<times> 'w nuvoton" where
  "nuvotonGetVersion K s =
     (case fk_mtd_read K 0x430 8 (fp_world s) of
        (None, w) \<Rightarrow> ((-1, None), s\<lparr>fp_world := w\<rparr>)
      | (Some buf, w) \<Rightarrow>
          ((0, Some (fold (\<lambda>i d. d * 100 + bcd (buf ! i)) [7, 6, 5] 0, fold (\<lambda>i d. push_bit 8 d + ucast (buf ! i)) [0, 1, 2, 3] 0)),
           s\<lparr>fp_world := w\<rparr>))"

text \<open>\<^verbatim>\<open>sizeof(data)\<close> is that of a pointer.\<close>

definition nuvotonVfdTest :: "fp_board \<Rightarrow> 'w fp_kernel \<Rightarrow> u8 list \<Rightarrow> 'w nuvoton \<Rightarrow> ((int \<times> u8 list) \<times> 'w nuvoton) option" where
  "nuvotonVfdTest b K data s = do {
     n \<leftarrow> arr_get data 0;
     buffer \<leftarrow> (if sint n < 0 then None else arr_copy ((replicate 18 0)[0 := SOP]) 1 data 1 (unat n));
     buffer \<leftarrow> arr_set buffer (unat n + 1) EOP;
     (res, s) \<leftarrow> nuvotonWriteCommand b K (take (unat n + 2) buffer) True (s\<lparr>ioctl_data := replicate 9 0, errorOccured := 0\<rparr>);
     if errorOccured s = 1 then do {
       data \<leftarrow> arr_copy data 1 (replicate 9 0) 0 9;
       data \<leftarrow> arr_set data 0 (word_of_int (- FP_ETIMEDOUT));
       Some ((- FP_ETIMEDOUT, data), s)
     }
     else if dataflag s = 0 then map_option (\<lambda>data. ((res, data), s)) (arr_copy data 0 (replicate 4 0) 0 4)
     else map_option (\<lambda>data. ((res, data), s)) (arr_copy data 0 ([0, 1] @ ioctl_data s) 0 11)
   }"

section \<open>The ioctls\<close>

abbreviation (input) VFDDISPLAYCHARS :: u32 where "VFDDISPLAYCHARS \<equiv> 0xc0425a00"
abbreviation (input) VFDBRIGHTNESS :: u32 where "VFDBRIGHTNESS \<equiv> 0xc0425a03"
abbreviation (input) VFDDISPLAYWRITEONOFF :: u32 where "VFDDISPLAYWRITEONOFF \<equiv> 0xc0425a05"
abbreviation (input) VFDDRIVERINIT :: u32 where "VFDDRIVERINIT \<equiv> 0xc0425a08"
abbreviation (input) VFDICONDISPLAYONOFF :: u32 where "VFDICONDISPLAYONOFF \<equiv> 0xc0425a0a"
abbreviation (input) VFDTEST :: u32 where "VFDTEST \<equiv> 0xc0425af0"
abbreviation (input) VFDSETPOWERONTIME :: u32 where "VFDSETPOWERONTIME \<equiv> 0xc0425af6"
abbreviation (input) VFDGETVERSION :: u32 where "VFDGETVERSION \<equiv> 0xc0425af7"
abbreviation (input) VFDGETWAKEUPMODE :: u32 where "VFDGETWAKEUPMODE \<equiv> 0xc0425af9"
abbreviation (input) VFDGETTIME :: u32 where "VFDGETTIME \<equiv> 0xc0425afa"
abbreviation (input) VFDSETTIME :: u32 where "VFDSETTIME \<equiv> 0xc0425afb"
abbreviation (input) VFDSTANDBY :: u32 where "VFDSTANDBY \<equiv> 0xc0425afc"
abbreviation (input) VFDSETLED :: u32 where "VFDSETLED \<equiv> 0xc0425afe"
abbreviation (input) VFDSETMODE :: u32 where "VFDSETMODE \<equiv> 0xc0425aff"
abbreviation (input) VFDGETWAKEUPTIME :: u32 where "VFDGETWAKEUPTIME \<equiv> 0xc0425b03"
abbreviation (input) VFDSETTIMEFORMAT :: u32 where "VFDSETTIMEFORMAT \<equiv> 0xc0425b04"

definition user_int :: "u8 list \<Rightarrow> nat \<Rightarrow> int option" where
  "user_int arg i = map_option (\<lambda>bs. sint (word_rcat (rev bs) :: u32)) (arr_slice arg i 4)"

definition u32_bytes :: "u32 \<Rightarrow> u8 list" where
  "u32_bytes v = map (\<lambda>i. ucast (drop_bit (8 * i) v)) [0..<4]"

definition user_byte :: "u8 list \<Rightarrow> nat \<Rightarrow> int option" where
  "user_byte arg i = map_option uint (arr_get arg i)"

definition ioctl_icon :: "led_board \<Rightarrow> 'w fp_kernel \<Rightarrow> u8 list \<Rightarrow> 'w nuvoton \<Rightarrow> (int \<times> 'w nuvoton) option" where
  "ioctl_icon l K arg s = do {
     icon_nr \<leftarrow> (if fp_mode s = 0 then user_byte arg 1 else user_int arg 0);
     on \<leftarrow> (if fp_mode s = 0 then user_byte arg 5 else user_int arg 4);
     let on = (if on \<noteq> 0 then 1 else 0);
     if icon_nr = ICON_MAX l then set_icons l K on [1..<nat (ICON_MAX l)] s
     else nuvotonSetIcon l K icon_nr on s
   }"

definition ioctl_chars :: "led_board \<Rightarrow> 'w fp_kernel \<Rightarrow> u8 list \<Rightarrow> u8 list \<Rightarrow> 'w nuvoton \<Rightarrow> ((int \<times> u8 list) \<times> 'w nuvoton) option" where
  "ioctl_chars l K junk arg s =
     (if fp_mode s = 0 then do {
        n \<leftarrow> arr_get arg 65;
        arg \<leftarrow> arr_set arg (1 + unat n) 0;
        n \<leftarrow> arr_get arg 65;
        (res, s) \<leftarrow> nuvotonWriteString l K junk (drop 1 arg) (unat n) s;
        Some ((res, arg), s)
      }
      else Some ((0, arg), s\<lparr>fp_mode := 0\<rparr>))"

text \<open>The mode goes back to that of the vfd driver after some of the commands.\<close>

definition vfd_mode :: "u8 list \<Rightarrow> int \<times> 'w nuvoton \<Rightarrow> (int \<times> u8 list) \<times> 'w nuvoton" where
  "vfd_mode arg r = (case r of (res, s) \<Rightarrow> ((res, arg), s\<lparr>fp_mode := 0\<rparr>))"

definition keep_mode :: "u8 list \<Rightarrow> int \<times> 'w nuvoton \<Rightarrow> (int \<times> u8 list) \<times> 'w nuvoton" where
  "keep_mode arg r = (case r of (res, s) \<Rightarrow> ((res, arg), s))"

definition ioctl_command ::
  "led_board \<Rightarrow> 'w fp_kernel \<Rightarrow> u8 list \<Rightarrow> u32 \<times> u32 \<Rightarrow> u32 \<Rightarrow> u8 list \<Rightarrow> 'w nuvoton \<Rightarrow> ((int \<times> u8 list) \<times> 'w nuvoton) option" where
  "ioctl_command l K junk version cmd arg s = (let b = fp_board_of l in
     if cmd = VFDSETMODE then map_option (\<lambda>m. ((0, arg), s\<lparr>fp_mode := m\<rparr>)) (user_int arg 0)
     else if cmd = VFDSETLED then do {
       which \<leftarrow> user_int arg 0;
       level \<leftarrow> user_int arg 4;
       map_option (keep_mode arg) (nuvotonSetLED b K which level s)
     }
     else if cmd = VFDBRIGHTNESS then do {
       level \<leftarrow> (if fp_mode s = 0 then user_byte arg 0 else user_int arg 0);
       map_option (vfd_mode arg) (nuvotonSetBrightness b K (min 7 (max 0 level)) s)
     }
     else if cmd = VFDDRIVERINIT then map_option (vfd_mode arg) (nuvoton_init_func l K junk s)
     else if cmd = VFDICONDISPLAYONOFF then map_option (vfd_mode arg) (ioctl_icon l K arg s)
     else if cmd = VFDSTANDBY then do {
       s \<leftarrow> clear_display l K junk s;
       map_option (keep_mode arg) (nuvotonSetStandby b K arg s)
     }
     else if cmd = VFDSETPOWERONTIME then map_option (keep_mode arg) (nuvotonSetWakeUpTime b K arg s)
     else if cmd = VFDGETWAKEUPTIME then map_option (\<lambda>arg. ((0, arg), s)) (arr_copy arg 0 (wakeup_time s) 0 5)
     else if cmd = VFDSETTIME then map_option (keep_mode arg) (nuvotonSetTime b K arg s)
     else if cmd = VFDGETTIME then do {
       ((res, _), s) \<leftarrow> nuvotonGetTime b K (replicate 5 0) s;
       map_option (\<lambda>arg. ((res, arg), s)) (arr_copy arg 0 (ioctl_data s) 0 5)
     }
     else if cmd = VFDGETWAKEUPMODE then do {
       ((res, mode), s) \<leftarrow> nuvotonGetWakeUpMode b K s;
       map_option (\<lambda>arg. ((res, arg), s)) (arr_set arg 0 (word_of_int mode))
     }
     else if cmd = VFDDISPLAYCHARS then ioctl_chars l K junk arg s
     else if cmd = VFDDISPLAYWRITEONOFF then do {
       c \<leftarrow> arr_get arg 0;
       map_option (vfd_mode arg) (nuvotonSetDisplayOnOff l K c s)
     }
     else if cmd = VFDSETTIMEFORMAT then do {
       c \<leftarrow> arr_get arg 0;
       let c = (if c \<noteq> 0 then 1 else c) OR 0x80;
       arg \<leftarrow> arr_set arg 0 c;
       map_option (vfd_mode arg) (nuvotonSetTimeFormat b K c s)
     }
     else if cmd = VFDGETVERSION then
       (case nuvotonGetVersion K s of ((res, v), s) \<Rightarrow>
        case (case v of None \<Rightarrow> version | Some v \<Rightarrow> v) of (d0, d1) \<Rightarrow>
        map_option (\<lambda>arg. ((res, arg), s\<lparr>fp_mode := 0\<rparr>)) (arr_copy arg 0 (u32_bytes d0 @ u32_bytes d1) 0 8))
     else if cmd = VFDTEST then
       map_option (\<lambda>(r, s). (r, s\<lparr>fp_mode := 0\<rparr>)) (nuvotonVfdTest b K arg s)
     else Some ((0, arg), s\<lparr>fp_mode := 0\<rparr>))"

text \<open>\<open>version\<close> are the two words of the stack that the version is read into.\<close>

definition NUVOTONdev_ioctl ::
  "led_board \<Rightarrow> 'w fp_kernel \<Rightarrow> u8 list \<Rightarrow> u32 \<times> u32 \<Rightarrow> u32 \<Rightarrow> u8 list \<Rightarrow> 'w nuvoton \<Rightarrow> ((int \<times> u8 list) \<times> 'w nuvoton) option" where
  "NUVOTONdev_ioctl l K junk version cmd arg s =
     (case fk_down K Write_sem s of (r, s) \<Rightarrow>
      if r \<noteq> 0 then Some ((- FP_ERESTARTSYS, arg), s)
      else map_option (\<lambda>(r, s). (r, s\<lparr>fp_world := fk_up K Write_sem (fp_world s)\<rparr>)) (ioctl_command l K junk version cmd arg s))"

end
