(* ===== verification/Nuvoton_Ring.thy ===== *)
theory Nuvoton_Ring
  imports Nuvoton
begin

unbundle bit_operations_syntax

text \<open>
  The ring buffers of the front panel as bounded queues (the locale \<open>bounded_fifo\<close>, interpreted on \<open>ring_put\<close>), and what one
  round of the thread does with the bytes that wait: \<open>next_packet\<close> says it on the bytes alone, and
  \<open>processResponse_next\<close> that the code does it.
\<close>

section \<open>The ring buffers as queues\<close>

definition ring_ok :: "fp_ring \<Rightarrow> bool" where
  "ring_ok r \<longleftrightarrow> length (rbuf r) = BUFFERSIZE \<and> rstart r < BUFFERSIZE \<and> rend r < BUFFERSIZE"

definition pending :: "fp_ring \<Rightarrow> nat" where
  "pending r = (rstart r + BUFFERSIZE - rend r) mod BUFFERSIZE"

definition contents :: "fp_ring \<Rightarrow> u8 list" where
  "contents r = map (\<lambda>k. rbuf r ! ((rend r + k) mod BUFFERSIZE)) [0..<pending r]"

lemma length_contents [simp]: "length (contents r) = pending r"
  by (simp add: contents_def)

lemma nth_contents: "k < pending r \<Longrightarrow> contents r ! k = rbuf r ! ((rend r + k) mod BUFFERSIZE)"
  by (simp add: contents_def)

lemma mod_256: "x < 512 \<Longrightarrow> x mod 256 = (if x < 256 then x else x - 256)" for x :: nat
  using mod_if [of x 256] by simp

lemma pending_cases:
  "ring_ok r \<Longrightarrow> pending r = (if rend r \<le> rstart r then rstart r - rend r else rstart r + BUFFERSIZE - rend r)"
  unfolding ring_ok_def pending_def by (subst mod_256) auto

lemma position_cases:
  "ring_ok r \<Longrightarrow> k \<le> BUFFERSIZE \<Longrightarrow>
     (rend r + k) mod BUFFERSIZE = (if rend r + k < BUFFERSIZE then rend r + k else rend r + k - BUFFERSIZE)"
  unfolding ring_ok_def by (subst mod_256) auto

lemma pending_less: "pending r < BUFFERSIZE"
  by (simp add: pending_def)

lemma rstart_eq: "ring_ok r \<Longrightarrow> rstart r = (rend r + pending r) mod BUFFERSIZE"
  using pending_less [of r] by (simp add: position_cases) (auto simp: pending_cases ring_ok_def split: if_splits)

lemma position_start_iff:
  "ring_ok r \<Longrightarrow> k \<le> pending r \<Longrightarrow> (rend r + k) mod BUFFERSIZE = rstart r \<longleftrightarrow> k = pending r"
  using pending_less [of r] by (simp add: position_cases) (auto simp: pending_cases ring_ok_def split: if_splits)

lemma position_neq:
  "ring_ok r \<Longrightarrow> k < pending r \<Longrightarrow> (rend r + k) mod BUFFERSIZE \<noteq> rstart r"
  by (simp add: position_start_iff)

lemma empty_iff: "ring_ok r \<Longrightarrow> rstart r = rend r \<longleftrightarrow> contents r = []"
  by (auto simp: pending_cases ring_ok_def simp flip: length_0_conv)

lemma next_position: "ring_next ((e + k) mod 256) = Suc (e + k) mod 256"
  using mod_less_divisor [of 256 "e + k"] by (auto simp: mod_Suc ring_next_def)

text \<open>A byte put into a full buffer makes it empty.\<close>

lemma ring_put_contents:
  assumes "ring_ok r"
  obtains r' where "ring_put c r = Some r'" "ring_ok r'" "rend r' = rend r"
    "contents r' = (if pending r = 255 then [] else contents r @ [c])"
proof
  define r' where "r' = r\<lparr>rbuf := (rbuf r)[rstart r := c], rstart := (rstart r + 1) mod BUFFERSIZE\<rparr>"
  show "ring_put c r = Some r'" using assms by (simp add: ring_put_def r'_def arr_set_def ring_ok_def)
  show "ring_ok r'" "rend r' = rend r" using assms by (simp_all add: r'_def ring_ok_def)
  have n: "pending r' = (if pending r = 255 then 0 else Suc (pending r))"
    using assms pending_cases [OF \<open>ring_ok r'\<close>] pending_cases [OF assms] mod_256 [of "rstart r + 1"]
    by (auto simp: r'_def ring_ok_def split: if_splits)
  have "contents r' = contents r @ [c]" if "pending r \<noteq> 255"
  proof (rule nth_equalityI)
    show "length (contents r') = length (contents r @ [c])" using n that by simp
    fix k assume "k < length (contents r')"
    then have k: "k \<le> pending r" using n that by simp
    then have "contents r' ! k = (rbuf r)[rstart r := c] ! ((rend r + k) mod BUFFERSIZE)"
      using n that by (simp add: nth_contents r'_def)
    moreover have "\<dots> = (if k = pending r then c else contents r ! k)"
      using position_start_iff [OF assms k] k assms by (auto simp: nth_list_update nth_contents ring_ok_def)
    ultimately show "contents r' ! k = (contents r @ [c]) ! k" using k by (simp add: nth_append)
  qed
  then show "contents r' = (if pending r = 255 then [] else contents r @ [c])"
    using n by (auto simp flip: length_0_conv)
qed

lemma ring_skip_contents:
  assumes "ring_ok r" "n \<le> pending r"
  shows "contents (r\<lparr>rend := (rend r + n) mod BUFFERSIZE\<rparr>) = drop n (contents r)"
    "ring_ok (r\<lparr>rend := (rend r + n) mod BUFFERSIZE\<rparr>)"
proof -
  let ?r = "r\<lparr>rend := (rend r + n) mod BUFFERSIZE\<rparr>"
  show ok: "ring_ok ?r" using assms by (simp add: ring_ok_def)
  have p: "pending ?r = pending r - n"
    using assms pending_cases [OF ok] pending_cases [OF assms(1)] pending_less [of r] position_cases [OF assms(1), of n]
    by (auto simp: ring_ok_def split: if_splits)
  show "contents ?r = drop n (contents r)"
    by (rule nth_equalityI) (auto simp: p nth_contents mod_add_left_eq add.assoc)
qed

lemma ring_discard_contents:
  "ring_ok r \<Longrightarrow> contents (r\<lparr>rend := rstart r\<rparr>) = [] \<and> ring_ok (r\<lparr>rend := rstart r\<rparr>)"
  by (simp add: contents_def pending_def ring_ok_def)

section \<open>Searching and copying\<close>

text \<open>The number of bytes up to the first end mark, or 0.\<close>

definition first_eop :: "u8 list \<Rightarrow> nat" where
  "first_eop q = (if EOP \<in> set q then Suc (length (takeWhile (\<lambda>c. c \<noteq> EOP) q)) else 0)"

lemma ring_get:
  "ring_ok r \<Longrightarrow> k < pending r \<Longrightarrow> arr_get (rbuf r) ((rend r + k) mod BUFFERSIZE) = Some (contents r ! k)"
  by (simp add: arr_get_def ring_ok_def nth_contents)

fun scan :: "int \<Rightarrow> nat \<Rightarrow> u8 list \<Rightarrow> int" where
  "scan e i [] = 0"
| "scan e i (c # cs) = (if c = EOP \<and> (e = -1 \<or> int i = e - 1) then int i + 1 else scan e (Suc i) cs)"

lemma getLen_loop_scan:
  assumes "ring_ok r" "k < pending r"
  shows "getLen_loop r e (int k) ((rend r + k) mod BUFFERSIZE) = Some (scan e k (drop k (contents r)))"
  using assms
proof (induction "pending r - k" arbitrary: k)
  case (Suc d)
  have drop: "drop k (contents r) = contents r ! k # drop (Suc k) (contents r)"
    using Suc.prems by (simp add: Cons_nth_drop_Suc)
  have "getLen_loop r e (int k + 1) ((rend r + Suc k) mod BUFFERSIZE) = Some (scan e (Suc k) (drop (Suc k) (contents r)))"
    if "Suc k < pending r"
    using Suc.hyps(1) [of "Suc k"] Suc.hyps(2) Suc.prems that by (simp add: ac_simps)
  moreover have "(rend r + Suc k) mod BUFFERSIZE = rstart r \<longleftrightarrow> Suc k = pending r"
    using position_start_iff Suc.prems by (metis Suc_leI)
  ultimately show ?case
    using Suc.prems by (subst getLen_loop.simps) (auto simp: ring_get next_position drop Let_def)
qed simp

lemma scan_first: "scan (-1) i q = (if EOP \<in> set q then int (i + first_eop q) else 0)"
  by (induction q arbitrary: i) (auto simp: first_eop_def)

lemma scan_size:
  "e = int n \<Longrightarrow> scan e i q = (if i < n \<and> n \<le> i + length q \<and> q ! (n - 1 - i) = EOP then int n else 0)"
proof (induction q arbitrary: i)
  case (Cons c q)
  have "(c # q) ! (n - 1 - i) = q ! (n - 1 - Suc i)" if "n \<noteq> Suc i" "i < n"
    using that by (simp add: nth_Cons')
  then show ?case using Cons by (cases "n = Suc i") auto
qed auto

lemma getLen_first: "ring_ok r \<Longrightarrow> contents r \<noteq> [] \<Longrightarrow> getLen (-1) r = Some (int (first_eop (contents r)))"
  using getLen_loop_scan [of r 0 "-1"] by (auto simp: getLen_def scan_first first_eop_def ring_ok_def simp flip: length_0_conv)

lemma getLen_size:
  "ring_ok r \<Longrightarrow> contents r \<noteq> [] \<Longrightarrow> 0 < n \<Longrightarrow>
     getLen (int n) r = Some (if n \<le> pending r \<and> contents r ! (n - 1) = EOP then int n else 0)"
  using getLen_loop_scan [of r 0 "int n"] by (auto simp: getLen_def scan_size ring_ok_def simp flip: length_0_conv)

lemma ring_copy_contents:
  "ring_ok r \<Longrightarrow> k + n \<le> pending r \<Longrightarrow> i + n \<le> length data \<Longrightarrow>
     ring_copy r n i ((rend r + k) mod BUFFERSIZE) data =
       Some (take i data @ take n (drop k (contents r)) @ drop (i + n) data)"
proof (induction n arbitrary: i k data)
  case (Suc n)
  let ?d = "data[i := contents r ! k]"
  have get: "arr_get (rbuf r) ((rend r + k) mod BUFFERSIZE) = Some (contents r ! k)" using Suc.prems by (simp add: ring_get)
  have drop: "drop k (contents r) = contents r ! k # drop (Suc k) (contents r)"
    using Suc.prems by (simp add: Cons_nth_drop_Suc)
  have "take (Suc i) ?d = take i data @ [contents r ! k]" "drop (Suc i + n) ?d = drop (Suc i + n) data"
    using Suc.prems by (simp_all add: take_Suc_conv_app_nth)
  moreover have "ring_copy r n (Suc i) ((rend r + Suc k) mod BUFFERSIZE) ?d =
      Some (take (Suc i) ?d @ take n (drop (Suc k) (contents r)) @ drop (Suc i + n) ?d)"
    using Suc.IH [of "Suc k" "Suc i" ?d] Suc.prems by simp
  ultimately have "ring_copy r n (Suc i) ((rend r + Suc k) mod BUFFERSIZE) ?d =
      Some (take i data @ take (Suc n) (drop k (contents r)) @ drop (i + Suc n) data)"
    by (simp add: drop)
  moreover have "(rend r + Suc k) mod BUFFERSIZE = rstart r \<longleftrightarrow> Suc k = pending r"
    using position_start_iff [of r "Suc k"] Suc.prems by simp
  moreover have "n = 0" if "Suc k = pending r" using that Suc.prems by simp
  ultimately show ?case
    using Suc.prems by (cases n) (auto simp: get arr_set_def next_position Let_def simp del: take_Suc)
qed simp

section \<open>Putting several bytes\<close>

primrec put_list :: "('a \<Rightarrow> 'r \<Rightarrow> 'r option) \<Rightarrow> 'a list \<Rightarrow> 'r \<Rightarrow> 'r option" where
  "put_list put [] r = Some r"
| "put_list put (c # cs) r = put c r \<bind> put_list put cs"

text \<open>A queue of limited capacity, and what its clients rely on.\<close>

locale bounded_fifo =
  fixes ok :: "'r \<Rightarrow> bool" and items :: "'r \<Rightarrow> 'a list" and put :: "'a \<Rightarrow> 'r \<Rightarrow> 'r option" and capacity :: nat
  assumes put_appends: "ok r \<Longrightarrow> length (items r) < capacity \<Longrightarrow> \<exists>r'. put c r = Some r' \<and> ok r' \<and> items r' = items r @ [c]"
begin

lemma put_list_appends:
  "ok r \<Longrightarrow> length (items r) + length cs \<le> capacity \<Longrightarrow>
     \<exists>r'. put_list put cs r = Some r' \<and> ok r' \<and> items r' = items r @ cs"
proof (induction cs arbitrary: r)
  case (Cons c cs)
  obtain r1 where r1: "put c r = Some r1" "ok r1" "items r1 = items r @ [c]"
    using put_appends [OF Cons.prems(1), of c] Cons.prems(2) by auto
  then obtain r2 where "put_list put cs r1 = Some r2" "ok r2" "items r2 = items r1 @ cs"
    using Cons.IH [OF r1(2)] Cons.prems(2) by auto
  with r1 show ?case by simp
qed simp

end

interpretation ring_fifo: bounded_fifo ring_ok contents ring_put "BUFFERSIZE - 1"
proof
  fix r c
  assume "ring_ok r" "length (contents r) < BUFFERSIZE - 1"
  then show "\<exists>r'. ring_put c r = Some r' \<and> ring_ok r' \<and> contents r' = contents r @ [c]"
    by (elim ring_put_contents [of r c]) auto
qed

lemma copy_key_puts:
  "ring_ok rcv \<Longrightarrow> ring_ok key \<Longrightarrow> \<forall>i \<in> set is. i < pending rcv \<Longrightarrow>
     copy_key rcv is key = put_list ring_put (map ((!) (contents rcv)) is) key"
proof (induction "is" arbitrary: key)
  case (Cons i "is")
  obtain key' where put: "ring_put (contents rcv ! i) key = Some key'" "ring_ok key'"
    using ring_put_contents [OF Cons.prems(2)] by blast
  moreover have "copy_key rcv (i # is) key = copy_key rcv is key'"
    using put Cons.prems by (auto simp: ring_get ring_put_def arr_set_def ring_ok_def split: if_splits)
  ultimately show ?case using Cons.IH [OF Cons.prems(1), of key'] Cons.prems(3) by simp
qed simp

lemma copy_key_contents:
  "ring_ok rcv \<Longrightarrow> ring_ok key \<Longrightarrow> \<forall>i \<in> set is. i < pending rcv \<Longrightarrow> pending key + length is < BUFFERSIZE \<Longrightarrow>
     \<exists>key'. copy_key rcv is key = Some key' \<and> ring_ok key' \<and> contents key' = contents key @ map ((!) (contents rcv)) is"
  using ring_fifo.put_list_appends [of key "map ((!) (contents rcv)) is"] by (simp add: copy_key_puts)

section \<open>The packets in the receive buffer\<close>

definition packet_size :: "u8 \<Rightarrow> nat option" where
  "packet_size e =
     (if e = EVENT_BTN then Some cPackageSizeFP else if e = EVENT_RC then Some cPackageSizeRC
      else if e = EVENT_ANSWER_GETTIME then Some cGetTimeSize
      else if e = EVENT_ANSWER_WAKEUP_REASON then Some cGetWakeupReasonSize
      else if e = EVENT_ANSWER_FRONTINFO then Some cGetFrontInfoSize
      else if e = EVENT_ANSWER_E9 then Some cGetE9Size else if e = EVENT_ANSWER_F9 then Some cGetF9Size else None)"

definition key_packet :: "u8 list \<Rightarrow> bool" where
  "key_packet p \<longleftrightarrow> p ! 2 = EVENT_BTN \<or> p ! 2 = EVENT_RC"

text \<open>What the thread does with the bytes that wait: nothing yet, take a packet, or throw all away.\<close>

datatype outcome = Wait | Take nat | Discard

definition next_packet :: "fp_board \<Rightarrow> u8 list \<Rightarrow> outcome" where
  "next_packet b q =
     (if int (first_eop q) < cMinimumSize b \<or> q ! 2 = 0 then Wait
      else case packet_size (q ! 2) of None \<Rightarrow> Discard
        | Some n \<Rightarrow> if n \<le> length q \<and> q ! (n - 1) = EOP then Take n else Wait)"

definition fp_ok :: "'w nuvoton \<Rightarrow> bool" where
  "fp_ok s \<longleftrightarrow> ring_ok (RCVBuffer s) \<and> ring_ok (KeyBuffer s) \<and> ring_ok (OutBuffer s) \<and>
     expectEventId s = 1 \<and> errorOccured s = 0 \<and> length (ioctl_data s) = 9"

definition received :: "'w nuvoton \<Rightarrow> u8 list" where "received s = contents (RCVBuffer s)"
definition keys :: "'w nuvoton \<Rightarrow> u8 list" where "keys s = contents (KeyBuffer s)"
definition queued :: "'w nuvoton \<Rightarrow> u8 list" where "queued s = contents (OutBuffer s)"

lemmas queue_defs = received_def keys_def queued_def

text \<open>Allocations succeed.\<close>

definition fp_memory :: "'w fp_kernel \<Rightarrow> bool" where
  "fp_memory K \<longleftrightarrow> (\<forall>n w. \<exists>xs w'. fk_kmalloc K n w = (Some xs, w') \<and> length xs = n)"

text \<open>An answer in \<open>ioctl_data\<close>.\<close>

definition put_answer :: "u8 list \<Rightarrow> u8 list \<Rightarrow> u8 list" where
  "put_answer p d = (if key_packet p then d else (let a = take (length p - 4) (drop 3 p) in a @ drop (length a) d))"

definition taken :: "u8 list \<Rightarrow> 'w nuvoton \<Rightarrow> 'w nuvoton \<Rightarrow> bool" where
  "taken p s s' \<longleftrightarrow>
     keys s' = keys s @ (if key_packet p then p else []) \<and> ioctl_data s' = put_answer p (ioctl_data s) \<and>
     (\<not> key_packet p \<longrightarrow> dataReady s' = 1)"

lemma packet_size_range: "packet_size e = Some n \<Longrightarrow> 5 \<le> n \<and> n \<le> 13"
  by (auto simp: packet_size_def split: if_splits)

lemma first_eop_le: "first_eop q \<le> length q"
  by (induction q) (auto simp: first_eop_def split: if_splits)

lemma key_event_takes:
  assumes ok: "ring_ok (RCVBuffer s)" "ring_ok (KeyBuffer s)" "length (ioctl_data s) = 9"
    and q: "received s = q" "q \<noteq> []" and n: "0 < n" "pending (KeyBuffer s) + n < BUFFERSIZE"
  shows "\<exists>s'. key_event K n s = Some s' \<and> ring_ok (RCVBuffer s') \<and> ring_ok (KeyBuffer s') \<and>
    OutBuffer s' = OutBuffer s \<and> ioctl_data s' = ioctl_data s \<and> errorOccured s' = errorOccured s \<and>
    (if n \<le> length q \<and> q ! (n - 1) = EOP then received s' = drop n q \<and> keys s' = keys s @ take n q else s' = s)"
proof -
  have len: "length q = pending (RCVBuffer s)" using q by (auto simp: queue_defs)
  note rings = ok(1, 2)
  have get: "getLen (int n) (RCVBuffer s) = Some (if n \<le> length q \<and> q ! (n - 1) = EOP then int n else 0)"
    using getLen_size [OF rings(1) _ n(1)] q len by (auto simp: queue_defs)
  show ?thesis
  proof (cases "n \<le> length q \<and> q ! (n - 1) = EOP")
    case True
    then obtain key where key: "copy_key (RCVBuffer s) [0..<n] (KeyBuffer s) = Some key" "ring_ok key"
        "contents key = keys s @ map ((!) q) [0..<n]"
      using copy_key_contents [OF rings, of "[0..<n]"] n q len by (auto simp: queue_defs)
    have "map ((!) q) [0..<n] = take n q" using True by (auto intro!: nth_equalityI)
    with key True get ring_skip_contents [OF rings(1), of n] len q n show ?thesis
      by (simp add: key_event_def rcv_skip_def wake_up_def queue_defs)
  qed (use get n rings in \<open>auto simp: key_event_def\<close>)
qed

lemma rsp_common_takes:
  assumes ring: "ring_ok (RCVBuffer s)" "length (ioctl_data s) = 9" and K: "fp_memory K"
    and q: "received s = q" "q \<noteq> []" and n: "5 \<le> n" "n \<le> 13"
  shows "\<exists>s'. rsp_common K n s = Some s' \<and> ring_ok (RCVBuffer s') \<and> KeyBuffer s' = KeyBuffer s \<and>
    OutBuffer s' = OutBuffer s \<and>
    (if n \<le> length q \<and> q ! (n - 1) = EOP
     then received s' = drop n q \<and> dataReady s' = 1 \<and> errorOccured s' = 0 \<and>
       ioctl_data s' = take (n - 4) (drop 3 q) @ drop (n - 4) (ioctl_data s)
     else s' = s)"
proof -
  have len: "length q = pending (RCVBuffer s)" using q by (auto simp: queue_defs)
  have get: "getLen (int n) (RCVBuffer s) = Some (if n \<le> length q \<and> q ! (n - 1) = EOP then int n else 0)"
    using getLen_size [OF ring(1), of n] q len n by (auto simp: queue_defs)
  obtain xs w' where m: "fk_kmalloc K (n - 4) (fp_world s) = (Some xs, w')" "length xs = n - 4"
    using K unfolding fp_memory_def by blast
  show ?thesis
  proof (cases "n \<le> length q \<and> q ! (n - 1) = EOP")
    case True
    then have "3 + (n - 4) \<le> pending (RCVBuffer s)" using n len by auto
    then have "ring_copy (RCVBuffer s) (n - 4) 0 ((rend (RCVBuffer s) + 3) mod BUFFERSIZE) xs =
        Some (take (n - 4) (drop 3 q))"
      using ring_copy_contents [OF ring(1), of 3 "n - 4" 0 xs] n m(2) q len by (simp add: queue_defs)
    moreover have "length (take (n - 4) (drop 3 q)) = n - 4" using True n by auto
    ultimately have "handleCopyData K n s =
        Some (s\<lparr>fp_world := w', ioctl_data := take (n - 4) (drop 3 q) @ drop (n - 4) (ioctl_data s)\<rparr>)"
      using m n ring(2) by (simp add: handleCopyData_def copyData_def arr_copy_def)
    with True get ring_skip_contents [OF ring(1), of n] len q n show ?thesis
      by (simp add: rsp_common_def rcv_skip_def ack_sem_up_def wake_up_def queue_defs)
  qed (use get n ring in \<open>auto simp: rsp_common_def\<close>)
qed

lemma handle_event_size:
  "handle_event K s = (case packet_size (expectEventData s) of
     Some n \<Rightarrow> if expectEventData s = EVENT_BTN \<or> expectEventData s = EVENT_RC then key_event K n s else rsp_common K n s
   | None \<Rightarrow> Some (s\<lparr>RCVBuffer := (RCVBuffer s)\<lparr>rend := rstart (RCVBuffer s)\<rparr>\<rparr>))"
  by (simp add: handle_event_def packet_size_def Let_def)

lemma handle_event_takes:
  assumes ok: "ring_ok (RCVBuffer s)" "ring_ok (KeyBuffer s)" "length (ioctl_data s) = 9" "errorOccured s = 0"
    and K: "fp_memory K" and q: "received s = q" "2 < length q" "expectEventData s = q ! 2" and room: "pending (KeyBuffer s) + 7 < BUFFERSIZE"
  shows "\<exists>s'. handle_event K s = Some s' \<and> ring_ok (RCVBuffer s') \<and> ring_ok (KeyBuffer s') \<and>
    OutBuffer s' = OutBuffer s \<and> length (ioctl_data s') = 9 \<and> errorOccured s' = 0 \<and>
    (case packet_size (q ! 2) of
       None \<Rightarrow> received s' = [] \<and> KeyBuffer s' = KeyBuffer s \<and> ioctl_data s' = ioctl_data s
     | Some n \<Rightarrow> if n \<le> length q \<and> q ! (n - 1) = EOP then received s' = drop n q \<and> taken (take n q) s s' else s' = s)"
proof -
  let ?P = "\<lambda>n s'. ring_ok (RCVBuffer s') \<and> ring_ok (KeyBuffer s') \<and> OutBuffer s' = OutBuffer s \<and> length (ioctl_data s') = 9 \<and>
     errorOccured s' = 0 \<and> (if n \<le> length q \<and> q ! (n - 1) = EOP then received s' = drop n q \<and> taken (take n q) s s' else s' = s)"
  have ne: "q \<noteq> []" using q by auto
  have key: "\<exists>s'. key_event K n s = Some s' \<and> ?P n s'" if "n = 5 \<and> q ! 2 = EVENT_BTN \<or> n = 7 \<and> q ! 2 = EVENT_RC" for n
    using key_event_takes [OF ok(1-3) q(1) ne, of n K] that room ok
    by (auto simp: taken_def key_packet_def put_answer_def split: if_splits)
  have rsp: "\<exists>s'. rsp_common K n s = Some s' \<and> ?P n s'" if "5 \<le> n" "n \<le> 13" "q ! 2 \<noteq> EVENT_BTN" "q ! 2 \<noteq> EVENT_RC" for n
    using rsp_common_takes [OF ok(1, 3) K q(1) ne that(1, 2)] that ok
    by (auto simp: taken_def key_packet_def put_answer_def min_def keys_def Let_def drop_take split: if_splits)
  show ?thesis
  proof (cases "packet_size (q ! 2)")
    case None
    then show ?thesis using ring_discard_contents [OF ok(1)] ok by (simp add: handle_event_size q(3) queue_defs)
  next
    case (Some n)
    show ?thesis
    proof (cases "q ! 2 = EVENT_BTN \<or> q ! 2 = EVENT_RC")
      case True
      moreover from this Some have "n = 5 \<and> q ! 2 = EVENT_BTN \<or> n = 7 \<and> q ! 2 = EVENT_RC"
        by (auto simp: packet_size_def)
      ultimately show ?thesis using key [of n] Some by (auto simp: handle_event_size q(3))
    next
      case False
      then show ?thesis using rsp [of n] packet_size_range [OF Some] Some by (auto simp: handle_event_size q(3))
    qed
  qed
qed

lemma processResponse_next:
  assumes ok: "fp_ok s" and K: "fp_memory K" and q: "received s = q" "q \<noteq> []"
    and room: "pending (KeyBuffer s) + 7 < BUFFERSIZE"
  shows "\<exists>s'. processResponse b K s = Some s' \<and> fp_ok s' \<and> OutBuffer s' = OutBuffer s \<and>
    (case next_packet b q of
       Wait \<Rightarrow> RCVBuffer s' = RCVBuffer s \<and> keys s' = keys s \<and> ioctl_data s' = ioctl_data s
     | Take n \<Rightarrow> received s' = drop n q \<and> taken (take n q) s s'
     | Discard \<Rightarrow> received s' = [] \<and> keys s' = keys s \<and> ioctl_data s' = ioctl_data s)"
proof -
  have ring: "ring_ok (RCVBuffer s)" "ring_ok (KeyBuffer s)" "length (ioctl_data s) = 9" "errorOccured s = 0"
    using ok by (simp_all add: fp_ok_def)
  have len: "length q = pending (RCVBuffer s)" using q by (auto simp: queue_defs)
  have first: "getLen (-1) (RCVBuffer s) = Some (int (first_eop q))"
    using getLen_first [OF ring(1)] q by (simp add: queue_defs)
  show ?thesis
  proof (cases "int (first_eop q) < cMinimumSize b")
    case True
    then show ?thesis using first ok by (simp add: processResponse_def next_packet_def)
  next
    case False
    then have l: "2 < length q" using first_eop_le [of q] by (auto simp: cMinimumSize_def split: if_splits)
    have ev: "arr_get (rbuf (RCVBuffer s)) ((rend (RCVBuffer s) + 2) mod BUFFERSIZE) = Some (q ! 2)"
      using ring_get [OF ring(1), of 2] l len q by (simp add: queue_defs)
    let ?s = "s\<lparr>expectEventData := q ! 2, expectEventId := 0\<rparr>"
    have "ring_ok (RCVBuffer ?s)" "ring_ok (KeyBuffer ?s)" "length (ioctl_data ?s) = 9" "errorOccured ?s = 0" "received ?s = q"
        "expectEventData ?s = q ! 2" "pending (KeyBuffer ?s) + 7 < BUFFERSIZE"
      using ring q room by (simp_all add: received_def)
    from handle_event_takes [OF this(1-4) K this(5) l this(6, 7)]
    obtain s' where h: "handle_event K ?s = Some s'" "ring_ok (RCVBuffer s')" "ring_ok (KeyBuffer s')"
        "OutBuffer s' = OutBuffer s" "length (ioctl_data s') = 9" "errorOccured s' = 0"
      and out: "case packet_size (q ! 2) of
           None \<Rightarrow> received s' = [] \<and> KeyBuffer s' = KeyBuffer ?s \<and> ioctl_data s' = ioctl_data ?s
         | Some n \<Rightarrow> if n \<le> length q \<and> q ! (n - 1) = EOP then received s' = drop n q \<and> taken (take n q) ?s s' else s' = ?s"
      by (elim exE conjE) (rule that; (assumption | simp))
    from h out show ?thesis
      using False first ev ok
      by (auto simp: processResponse_def next_packet_def fp_ok_def queue_defs taken_def split: option.splits if_splits)
  qed
qed

end
