(* ===== verification/Nuvoton_Packets.thy ===== *)
theory Nuvoton_Packets
  imports Nuvoton_Ring
begin

unbundle bit_operations_syntax

text \<open>
  The interrupt handler on the serial line (\<open>asc_line\<close> is what the hardware is expected to do), and the runs of handler,
  thread and readers together, with the packets they carry: \<open>panel_run\<close> is the step relation, \<open>panel_inv\<close> its invariant.
\<close>

section \<open>The serial line\<close>

text \<open>
  The serial interface of the board: \<open>rx\<close> are the bytes that wait in the receiver, \<open>tx\<close> the bytes sent so far,
  \<open>en\<close> the register that enables the interrupts, \<open>ready\<close> whether the transmitter takes a byte. Waking up a thread and
  allocating memory, which succeeds, leave them as they are.
\<close>

definition asc_line ::
  "fp_board \<Rightarrow> 'w fp_kernel \<Rightarrow> ('w \<Rightarrow> u8 list) \<Rightarrow> ('w \<Rightarrow> u8 list) \<Rightarrow> ('w \<Rightarrow> u32) \<Rightarrow> ('w \<Rightarrow> bool) \<Rightarrow> bool" where
  "asc_line b K rx tx en ready \<longleftrightarrow>
     (let A = ASCXBaseAddress b;
          same = (\<lambda>w w'. rx w' = rx w \<and> tx w' = tx w \<and> en w' = en w \<and> ready w' = ready w) in
      (\<forall>w. \<exists>v w'. fk_get K (A + ASC_INT_STA) w = (v, w') \<and> (bit v 0 \<longleftrightarrow> rx w \<noteq> []) \<and> (bit v 2 \<longleftrightarrow> ready w) \<and> same w w') \<and>
      (\<forall>w. \<exists>w'. fk_get K (A + ASC_INT_EN) w = (en w, w') \<and> same w w') \<and>
      (\<forall>w c cs. rx w = c # cs \<longrightarrow> (\<exists>w'. fk_getb K (A + ASC_RX_BUFF) w = (c, w') \<and>
         rx w' = cs \<and> tx w' = tx w \<and> en w' = en w \<and> ready w' = ready w)) \<and>
      (\<forall>w c. ready w \<longrightarrow> (let w' = fk_putb K (A + ASC_TX_BUFF) c w in
         rx w' = rx w \<and> tx w' = tx w @ [c] \<and> en w' = en w)) \<and>
      (\<forall>w v. let w' = fk_put K (A + ASC_INT_EN) v w in rx w' = rx w \<and> tx w' = tx w \<and> en w' = v \<and> ready w' = ready w) \<and>
      (\<forall>q w. same w (fk_wake_up K q w)) \<and>
      (\<forall>n w. \<exists>xs w'. fk_kmalloc K n w = (Some xs, w') \<and> length xs = n \<and> same w w'))"

text \<open>Putting bytes into a queue that becomes empty when it is full.\<close>

definition put_all :: "u8 list \<Rightarrow> u8 list \<Rightarrow> u8 list" where
  "put_all q cs = foldl (\<lambda>q c. if length q = 255 then [] else q @ [c]) q cs"

lemma put_all_append: "length q + length cs < BUFFERSIZE \<Longrightarrow> put_all q cs = q @ cs"
  by (induction cs arbitrary: q) (auto simp: put_all_def)

lemma put_all_eq:
  "length q < BUFFERSIZE \<Longrightarrow> put_all q cs = drop (BUFFERSIZE * ((length q + length cs) div BUFFERSIZE)) (q @ cs)"
proof (induction cs arbitrary: q)
  case (Cons c cs)
  show ?case
  proof (cases "length q = 255")
    case True
    then have "(length q + length (c # cs)) div 256 = Suc (length cs div 256)" by simp
    moreover have "put_all q (c # cs) = put_all [] cs" using True by (simp add: put_all_def)
    ultimately show ?thesis using Cons.IH [of "[]"] True by simp
  next
    case False
    then have "put_all q (c # cs) = put_all (q @ [c]) cs" by (simp add: put_all_def)
    then show ?thesis using Cons.IH [of "q @ [c]"] Cons.prems False by simp
  qed
qed (simp add: put_all_def)

lemma and_1_u32: "v AND 1 = 0 \<longleftrightarrow> \<not> bit (v :: u32) 0"
  using and_exp_eq_0_iff_not_bit [of v 0] by simp

lemma and_4_u32: "v AND 4 = 0 \<longleftrightarrow> \<not> bit (v :: u32) 2"
  using and_exp_eq_0_iff_not_bit [of v 2] by simp

lemma line_status:
  assumes "asc_line b K rx tx en ready"
  obtains v w' where "asc_get b K ASC_INT_STA s = (v, s\<lparr>fp_world := w'\<rparr>)"
    "bit v 0 \<longleftrightarrow> rx (fp_world s) \<noteq> []" "bit v 2 \<longleftrightarrow> ready (fp_world s)"
    "rx w' = rx (fp_world s)" "tx w' = tx (fp_world s)" "en w' = en (fp_world s)" "ready w' = ready (fp_world s)"
proof -
  obtain v w' where "fk_get K (ASCXBaseAddress b + ASC_INT_STA) (fp_world s) = (v, w')"
      "bit v 0 \<longleftrightarrow> rx (fp_world s) \<noteq> []" "bit v 2 \<longleftrightarrow> ready (fp_world s)"
      "rx w' = rx (fp_world s)" "tx w' = tx (fp_world s)" "en w' = en (fp_world s)" "ready w' = ready (fp_world s)"
    using assms(1) [unfolded asc_line_def Let_def, THEN conjunct1, THEN spec, of "fp_world s"] by (elim exE conjE) (rule that)
  then show thesis by (intro that [of v w']) (simp_all add: asc_get_def)
qed

lemma line_enable:
  assumes "asc_line b K rx tx en ready"
  obtains w' where "asc_get b K ASC_INT_EN s = (en (fp_world s), s\<lparr>fp_world := w'\<rparr>)"
    "rx w' = rx (fp_world s)" "tx w' = tx (fp_world s)" "en w' = en (fp_world s)" "ready w' = ready (fp_world s)"
proof -
  obtain w' where "fk_get K (ASCXBaseAddress b + ASC_INT_EN) (fp_world s) = (en (fp_world s), w')"
      "rx w' = rx (fp_world s)" "tx w' = tx (fp_world s)" "en w' = en (fp_world s)" "ready w' = ready (fp_world s)"
    using assms(1) [unfolded asc_line_def Let_def, THEN conjunct2, THEN conjunct1, THEN spec, of "fp_world s"] by (elim exE conjE) (rule that)
  then show thesis by (intro that [of w']) (simp_all add: asc_get_def)
qed

lemma line_set_enable:
  assumes "asc_line b K rx tx en ready"
  obtains w' where "asc_put b K ASC_INT_EN v s = s\<lparr>fp_world := w'\<rparr>"
    "rx w' = rx (fp_world s)" "tx w' = tx (fp_world s)" "en w' = v" "ready w' = ready (fp_world s)"
  using assms that [of "fk_put K (ASCXBaseAddress b + ASC_INT_EN) v (fp_world s)"]
  unfolding asc_line_def Let_def asc_put_def by simp

lemma asc_byte:
  assumes "asc_line b K rx tx en ready" "rx (fp_world s) = c # cs"
  obtains w' where "asc_getb b K ASC_RX_BUFF s = (c, s\<lparr>fp_world := w'\<rparr>)"
    "rx w' = cs" "tx w' = tx (fp_world s)" "en w' = en (fp_world s)" "ready w' = ready (fp_world s)"
proof -
  obtain w' where "fk_getb K (ASCXBaseAddress b + ASC_RX_BUFF) (fp_world s) = (c, w')"
      "rx w' = cs" "tx w' = tx (fp_world s)" "en w' = en (fp_world s)" "ready w' = ready (fp_world s)"
    using assms(1) [unfolded asc_line_def Let_def, THEN conjunct2, THEN conjunct2, THEN conjunct1, rule_format, of "fp_world s", OF assms(2)]
    by (elim exE conjE) (rule that)
  then show thesis by (intro that [of w']) (simp_all add: asc_getb_def)
qed

lemma asc_send:
  assumes "asc_line b K rx tx en ready" "ready (fp_world s)"
  obtains w' where "asc_putb b K ASC_TX_BUFF c s = s\<lparr>fp_world := w'\<rparr>"
    "rx w' = rx (fp_world s)" "tx w' = tx (fp_world s) @ [c]" "en w' = en (fp_world s)"
  using assms that [of "fk_putb K (ASCXBaseAddress b + ASC_TX_BUFF) c (fp_world s)"]
  unfolding asc_line_def Let_def asc_putb_def by simp

lemma line_wake:
  assumes "asc_line b K rx tx en ready"
  obtains w' where "wake_up K q s = s\<lparr>fp_world := w'\<rparr>"
    "rx w' = rx (fp_world s)" "tx w' = tx (fp_world s)" "en w' = en (fp_world s)" "ready w' = ready (fp_world s)"
  using assms that [of "fk_wake_up K q (fp_world s)"]
  unfolding asc_line_def Let_def wake_up_def by simp

lemma line_memory: "asc_line b K rx tx en ready \<Longrightarrow> fp_memory K"
  unfolding asc_line_def Let_def fp_memory_def by meson

lemma rx_loop_takes:
  assumes line: "asc_line b K rx tx en ready"
  shows "ring_ok (RCVBuffer s) \<Longrightarrow> \<exists>r w'. fp_rx_loop b K d s = Some (d \<or> rx (fp_world s) \<noteq> [], s\<lparr>RCVBuffer := r, fp_world := w'\<rparr>) \<and>
    ring_ok r \<and> contents r = put_all (contents (RCVBuffer s)) (rx (fp_world s)) \<and>
    rx w' = [] \<and> tx w' = tx (fp_world s) \<and> en w' = en (fp_world s) \<and> ready w' = ready (fp_world s)"
proof (induction "rx (fp_world s)" arbitrary: s d)
  case Nil
  obtain v w1 where st: "asc_get b K ASC_INT_STA s = (v, s\<lparr>fp_world := w1\<rparr>)" "\<not> bit v 0" "rx w1 = []"
      "tx w1 = tx (fp_world s)" "en w1 = en (fp_world s)" "ready w1 = ready (fp_world s)"
    using line_status [OF line, of s] Nil(1) by metis
  then have "fp_rx_loop b K d s = Some (d, s\<lparr>fp_world := w1\<rparr>)"
    by (subst fp_rx_loop.simps) (simp add: and_1_u32)
  then show ?case using st Nil by (intro exI [of _ "RCVBuffer s"] exI [of _ w1]) (simp add: put_all_def)
next
  case (Cons c cs)
  have bytes: "rx (fp_world s) = c # cs" using Cons.hyps(2) by simp
  obtain v w1 where st: "asc_get b K ASC_INT_STA s = (v, s\<lparr>fp_world := w1\<rparr>)" "bit v 0" "rx w1 = c # cs"
      "tx w1 = tx (fp_world s)" "en w1 = en (fp_world s)" "ready w1 = ready (fp_world s)"
    using line_status [OF line, of s] bytes by (metis list.distinct(1))
  obtain w2 where get: "asc_getb b K ASC_RX_BUFF (s\<lparr>fp_world := w1\<rparr>) = (c, s\<lparr>fp_world := w2\<rparr>)" "rx w2 = cs"
      "tx w2 = tx (fp_world s)" "en w2 = en (fp_world s)" "ready w2 = ready (fp_world s)"
    using asc_byte [OF line, of "s\<lparr>fp_world := w1\<rparr>" c cs] st by (simp; blast)
  obtain r where put: "ring_put c (RCVBuffer s) = Some r" "ring_ok r"
      "contents r = (if pending (RCVBuffer s) = 255 then [] else contents (RCVBuffer s) @ [c])"
    using ring_put_contents [OF Cons.prems, of c] by blast
  let ?s = "s\<lparr>fp_world := w2, RCVBuffer := r\<rparr>"
  obtain r' w' where IH: "fp_rx_loop b K True ?s = Some (True, ?s\<lparr>RCVBuffer := r', fp_world := w'\<rparr>)" "ring_ok r'"
      "contents r' = put_all (contents r) cs" "rx w' = []" "tx w' = tx w2" "en w' = en w2" "ready w' = ready w2"
    using Cons.hyps(1) [of ?s True] get(2) put(2) by (simp add: exI) blast
  have "fp_rx_loop b K d s = fp_rx_loop b K True ?s"
    using st get put by (subst fp_rx_loop.simps) (simp add: and_1_u32)
  moreover have "put_all (contents (RCVBuffer s)) (rx (fp_world s)) = put_all (contents r) cs"
    using put(3) by (simp add: put_all_def bytes)
  ultimately show ?case using IH get by (intro exI [of _ r'] exI [of _ w']) (simp add: bytes)
qed

lemma tx_ready_line:
  assumes line: "asc_line b K rx tx en ready"
  obtains w' where "tx_ready b K s =
      (ready (fp_world s) \<and> bit (en (fp_world s)) 2 \<and> rstart (OutBuffer s) \<noteq> rend (OutBuffer s), s\<lparr>fp_world := w'\<rparr>)"
    "rx w' = rx (fp_world s)" "tx w' = tx (fp_world s)" "en w' = en (fp_world s)" "ready w' = ready (fp_world s)"
proof -
  obtain v w1 where st: "asc_get b K ASC_INT_STA s = (v, s\<lparr>fp_world := w1\<rparr>)" "bit v 2 \<longleftrightarrow> ready (fp_world s)"
      "rx w1 = rx (fp_world s)" "tx w1 = tx (fp_world s)" "en w1 = en (fp_world s)" "ready w1 = ready (fp_world s)"
    using line_status [OF line, of s] by metis
  obtain w2 where "asc_get b K ASC_INT_EN (s\<lparr>fp_world := w1\<rparr>) = (en w1, s\<lparr>fp_world := w2\<rparr>)"
      "rx w2 = rx w1" "tx w2 = tx w1" "en w2 = en w1" "ready w2 = ready w1"
    using line_enable [OF line, of "s\<lparr>fp_world := w1\<rparr>"] by (simp; blast)
  note e = this
  show thesis
  proof (cases "bit v 2")
    case True
    with st e show thesis by (intro that [of w2]) (simp_all add: tx_ready_def and_4_u32)
  next
    case False
    with st e show thesis by (intro that [of w1]) (simp_all add: tx_ready_def and_4_u32)
  qed
qed

lemma out_loop_sends:
  assumes line: "asc_line b K rx tx en ready"
  shows "ring_ok (OutBuffer s) \<Longrightarrow> \<exists>r w' n. fp_tx_loop b K s = Some (s\<lparr>OutBuffer := r, fp_world := w'\<rparr>) \<and>
    ring_ok r \<and> n \<le> length (contents (OutBuffer s)) \<and> contents r = drop n (contents (OutBuffer s)) \<and>
    tx w' = tx (fp_world s) @ take n (contents (OutBuffer s)) \<and> rx w' = rx (fp_world s) \<and> en w' = en (fp_world s) \<and>
    (ready (fp_world s) \<and> bit (en (fp_world s)) 2 \<and> contents (OutBuffer s) \<noteq> [] \<longrightarrow> 0 < n)"
proof (induction "pending (OutBuffer s)" arbitrary: s rule: less_induct)
  case less
  let ?q = "contents (OutBuffer s)"
  obtain w1 where rdy: "tx_ready b K s = (ready (fp_world s) \<and> bit (en (fp_world s)) 2 \<and> ?q \<noteq> [], s\<lparr>fp_world := w1\<rparr>)"
      "rx w1 = rx (fp_world s)" "tx w1 = tx (fp_world s)" "en w1 = en (fp_world s)" "ready w1 = ready (fp_world s)"
    using tx_ready_line [OF line, of s] unfolding empty_iff [OF less.prems] by blast
  show ?case
  proof (cases "ready (fp_world s) \<and> bit (en (fp_world s)) 2 \<and> ?q \<noteq> []")
    case False
    then have "fp_tx_loop b K s = Some (s\<lparr>fp_world := w1\<rparr>)" using rdy by (subst fp_tx_loop.simps) auto
    then show ?thesis
      using False rdy less.prems by (intro exI [of _ "OutBuffer s"] exI [of _ w1] exI [of _ 0]) auto
  next
    case True
    then have p: "0 < pending (OutBuffer s)" by (simp flip: length_contents)
    then have q: "?q = ?q ! 0 # drop 1 ?q" by (metis Cons_nth_drop_Suc One_nat_def drop0 length_contents)
    have get: "arr_get (rbuf (OutBuffer s)) (rend (OutBuffer s)) = Some (?q ! 0)"
      using ring_get [OF less.prems p] less.prems by (simp add: ring_ok_def)
    obtain w2 where send: "asc_putb b K ASC_TX_BUFF (?q ! 0) (s\<lparr>fp_world := w1\<rparr>) = s\<lparr>fp_world := w2\<rparr>"
        "rx w2 = rx w1" "tx w2 = tx w1 @ [?q ! 0]" "en w2 = en w1"
      using asc_send [OF line, of "s\<lparr>fp_world := w1\<rparr>" "?q ! 0"] True rdy by (simp; blast)
    define r1 where "r1 = (OutBuffer s)\<lparr>rend := (rend (OutBuffer s) + 1) mod BUFFERSIZE\<rparr>"
    define s1 where "s1 = s\<lparr>fp_world := w2, OutBuffer := r1\<rparr>"
    have s1: "OutBuffer s1 = r1" "fp_world s1 = w2" by (simp_all add: s1_def)
    have skip: "contents r1 = drop 1 ?q" "ring_ok r1" using ring_skip_contents [OF less.prems, of 1] p by (auto simp: r1_def)
    then have "pending r1 < pending (OutBuffer s)" using p by (simp flip: length_contents)
    from less.hyps [of s1, unfolded s1, OF this skip(2), unfolded skip(1)]
    obtain r w' n where IH: "fp_tx_loop b K s1 = Some (s1\<lparr>OutBuffer := r, fp_world := w'\<rparr>)" "ring_ok r"
        "n \<le> length (drop 1 ?q)" "contents r = drop n (drop 1 ?q)" "tx w' = tx w2 @ take n (drop 1 ?q)" "rx w' = rx w2" "en w' = en w2"
      by (elim exE conjE) (rule that)
    have "fp_tx_loop b K s = fp_tx_loop b K s1"
      using rdy True get send by (subst fp_tx_loop.simps) (simp add: s1_def r1_def)
    moreover have "take (Suc n) ?q = ?q ! 0 # take n (drop 1 ?q)" by (subst q) simp
    ultimately show ?thesis
      using IH send rdy p by (intro exI [of _ r] exI [of _ w'] exI [of _ "Suc n"]) (auto simp: s1_def)
  qed
qed

lemma tx_disable_line:
  assumes line: "asc_line b K rx tx en ready" and ok: "ring_ok (OutBuffer s)"
  obtains w' where "fp_tx_disable b K s = s\<lparr>fp_world := w'\<rparr>" "rx w' = rx (fp_world s)" "tx w' = tx (fp_world s)"
    "ready w' = ready (fp_world s)" "queued s = [] \<longrightarrow> \<not> bit (en w') 2" "queued s \<noteq> [] \<longrightarrow> en w' = en (fp_world s)"
proof (cases "queued s = []")
  case False
  then have "fp_tx_disable b K s = s" using empty_iff [OF ok] by (simp add: fp_tx_disable_def queued_def)
  then show thesis using False by (intro that [of "fp_world s"]) simp_all
next
  case True
  obtain w1 where e1: "asc_get b K ASC_INT_EN s = (en (fp_world s), s\<lparr>fp_world := w1\<rparr>)"
      "rx w1 = rx (fp_world s)" "tx w1 = tx (fp_world s)" "en w1 = en (fp_world s)" "ready w1 = ready (fp_world s)"
    using line_enable [OF line, of s] by blast
  obtain w2 where e2: "asc_get b K ASC_INT_EN (s\<lparr>fp_world := w1\<rparr>) = (en w1, s\<lparr>fp_world := w2\<rparr>)"
      "rx w2 = rx w1" "tx w2 = tx w1" "en w2 = en w1" "ready w2 = ready w1"
    using line_enable [OF line, of "s\<lparr>fp_world := w1\<rparr>"] by (simp; blast)
  obtain w3 where e3: "asc_put b K ASC_INT_EN (en w1 AND NOT 4) (s\<lparr>fp_world := w2\<rparr>) = s\<lparr>fp_world := w3\<rparr>"
      "rx w3 = rx w2" "tx w3 = tx w2" "en w3 = en w1 AND NOT 4" "ready w3 = ready w2"
    using line_set_enable [OF line, of "en w1 AND NOT 4" "s\<lparr>fp_world := w2\<rparr>"] by (simp; blast)
  have "\<not> bit (en w1 AND NOT (4 :: u32)) 2" using and_4_u32 [of 4] by (simp add: bit_and_iff bit_not_iff)
  moreover have empty: "rstart (OutBuffer s) = rend (OutBuffer s)" using True empty_iff [OF ok] by (simp add: queued_def)
  moreover note e1 e2 e3
  ultimately have "fp_tx_disable b K s = s\<lparr>fp_world := if bit (en (fp_world s)) 2 then w3 else w1\<rparr>"
      "\<not> bit (en (if bit (en (fp_world s)) 2 then w3 else w1)) 2"
    by (simp_all add: fp_tx_disable_def and_4_u32)
  then show thesis using True e1 e2 e3 by (intro that) auto
qed

text \<open>One run of the interrupt handler.\<close>

definition others_same :: "'w nuvoton \<Rightarrow> 'w nuvoton \<Rightarrow> bool" where
  "others_same s s' \<longleftrightarrow> KeyBuffer s' = KeyBuffer s \<and> ioctl_data s' = ioctl_data s \<and> errorOccured s' = errorOccured s \<and>
     dataReady s' = dataReady s \<and> lastdata s' = lastdata s \<and> wakeup_time s' = wakeup_time s"

lemma interrupt_line:
  assumes line: "asc_line b K rx tx en ready" and ok: "fp_ok s"
  obtains s' n where "FP_interrupt b K s = Some s'" "fp_ok s'" "others_same s s'"
    "received s' = put_all (received s) (rx (fp_world s))" "rx (fp_world s') = []"
    "n \<le> length (queued s)" "queued s' = drop n (queued s)" "tx (fp_world s') = tx (fp_world s) @ take n (queued s)"
    "ready (fp_world s) \<and> bit (en (fp_world s)) 2 \<and> queued s \<noteq> [] \<longrightarrow> 0 < n"
    "queued s' = [] \<longrightarrow> \<not> bit (en (fp_world s')) 2" "queued s' \<noteq> [] \<longrightarrow> en (fp_world s') = en (fp_world s)"
proof -
  have rings: "ring_ok (RCVBuffer s)" "ring_ok (OutBuffer s)" using ok by (simp_all add: fp_ok_def)
  obtain r w1 where rcv: "fp_rx_loop b K False s = Some (rx (fp_world s) \<noteq> [], s\<lparr>RCVBuffer := r, fp_world := w1\<rparr>)"
      "ring_ok r" "contents r = put_all (received s) (rx (fp_world s))" "rx w1 = []" "tx w1 = tx (fp_world s)"
      "en w1 = en (fp_world s)" "ready w1 = ready (fp_world s)"
    using rx_loop_takes [OF line rings(1), of False] by (simp add: received_def; blast)
  let ?s1 = "s\<lparr>RCVBuffer := r, fp_world := w1\<rparr>"
  obtain w0 where w0: "wake_up K Rx_wq ?s1 = ?s1\<lparr>fp_world := w0\<rparr>" "rx w0 = rx w1" "tx w0 = tx w1" "en w0 = en w1" "ready w0 = ready w1"
    using line_wake [OF line, of Rx_wq ?s1] by (simp; blast)
  define w2 where "w2 = (if rx (fp_world s) \<noteq> [] then w0 else w1)"
  have wake: "(if rx (fp_world s) \<noteq> [] then wake_up K Rx_wq ?s1 else ?s1) = ?s1\<lparr>fp_world := w2\<rparr>"
      "rx w2 = rx w1" "tx w2 = tx w1" "en w2 = en w1" "ready w2 = ready w1"
    using w0 by (simp_all add: w2_def)
  let ?s2 = "?s1\<lparr>fp_world := w2\<rparr>"
  obtain o' w3 n where out: "fp_tx_loop b K ?s2 = Some (?s2\<lparr>OutBuffer := o', fp_world := w3\<rparr>)" "ring_ok o'"
      "n \<le> length (queued s)" "contents o' = drop n (queued s)" "tx w3 = tx w2 @ take n (queued s)" "rx w3 = rx w2" "en w3 = en w2"
      "ready w2 \<and> bit (en w2) 2 \<and> queued s \<noteq> [] \<longrightarrow> 0 < n"
    using out_loop_sends [OF line, of ?s2] rings(2) by (simp add: queued_def; blast)
  let ?s3 = "?s2\<lparr>OutBuffer := o', fp_world := w3\<rparr>"
  obtain w4 where dis: "fp_tx_disable b K ?s3 = ?s3\<lparr>fp_world := w4\<rparr>" "rx w4 = rx w3" "tx w4 = tx w3"
      "queued ?s3 = [] \<longrightarrow> \<not> bit (en w4) 2" "queued ?s3 \<noteq> [] \<longrightarrow> en w4 = en w3"
    using tx_disable_line [OF line, of ?s3] out(2) by (simp; blast)
  show thesis
  proof (rule that [of "?s3\<lparr>fp_world := w4\<rparr>" n])
    show "FP_interrupt b K s = Some (?s3\<lparr>fp_world := w4\<rparr>)"
      using rcv(1) wake(1) out(1) dis(1) by (simp add: FP_interrupt_def)
  qed (use ok rcv wake out dis in \<open>simp_all add: fp_ok_def others_same_def queue_defs\<close>)
qed

definition same_line :: "('w \<Rightarrow> u8 list) \<Rightarrow> ('w \<Rightarrow> u8 list) \<Rightarrow> ('w \<Rightarrow> u32) \<Rightarrow> 'w nuvoton \<Rightarrow> 'w nuvoton \<Rightarrow> bool" where
  "same_line rx tx en s s' \<longleftrightarrow> rx (fp_world s') = rx (fp_world s) \<and> tx (fp_world s') = tx (fp_world s) \<and>
     en (fp_world s') = en (fp_world s)"

lemma same_line_refl: "fp_world s' = fp_world s \<Longrightarrow> same_line rx tx en s s'"
  by (simp add: same_line_def)

lemma same_line_wake: "asc_line b K rx tx en ready \<Longrightarrow> same_line rx tx en s (wake_up K q s)"
  unfolding asc_line_def Let_def same_line_def wake_up_def by simp

lemma processResponse_line:
  assumes line: "asc_line b K rx tx en ready" and res: "processResponse b K s = Some s'"
  shows "same_line rx tx en s s'"
proof -
  have wake: "same_line rx tx en s (wake_up K q s)" for q s using same_line_wake [OF line] .
  have key: "same_line rx tx en s s'" if "key_event K n s = Some s'" for n s s'
    using that wake by (fastforce simp: key_event_def bind_eq_Some_conv rcv_skip_def same_line_def split: if_splits)
  have mem: "same_line rx tx en s (s\<lparr>fp_world := w'\<rparr>)" if "fk_kmalloc K n (fp_world s) = (p, w')" for n p w' s
    using line [unfolded asc_line_def Let_def] that by (simp add: same_line_def) (metis prod.inject)
  have rsp: "same_line rx tx en s s'" if "rsp_common K n s = Some s'" for n s s'
    using that wake mem
    by (fastforce simp: rsp_common_def handleCopyData_def copyData_def ack_sem_up_def bind_eq_Some_conv rcv_skip_def same_line_def
        split: if_splits prod.splits)
  have "same_line rx tx en s s'" if "handle_event K s = Some s'" for s s'
    using that key rsp by (auto simp: handle_event_size same_line_def split: option.splits if_splits)
  then show ?thesis
    using res by (fastforce simp: processResponse_def bind_eq_Some_conv same_line_def split: if_splits)
qed

section \<open>Packets in order\<close>

text \<open>A packet with a known event, of the size of that event, with its end mark at the end and no end mark too early.\<close>

definition good_packet :: "fp_board \<Rightarrow> u8 list \<Rightarrow> bool" where
  "good_packet b p \<longleftrightarrow> next_packet b p = Take (length p)"

lemma good_packetD:
  assumes "good_packet b p"
  shows "packet_size (p ! 2) = Some (length p)" "cMinimumSize b \<le> int (first_eop p)" "p ! 2 \<noteq> 0"
    "p ! (length p - 1) = EOP" "5 \<le> length p" "length p \<le> 13"
proof -
  show size: "packet_size (p ! 2) = Some (length p)" "cMinimumSize b \<le> int (first_eop p)" "p ! 2 \<noteq> 0" "p ! (length p - 1) = EOP"
    using assms by (auto simp: good_packet_def next_packet_def split: if_splits option.splits)
  show "5 \<le> length p" "length p \<le> 13" using packet_size_range [OF size(1)] by auto
qed

lemma first_eop_append: "first_eop (p @ r) = (if EOP \<in> set p then first_eop p else if EOP \<in> set r then length p + first_eop r else 0)"
  by (induction p) (auto simp: first_eop_def)

lemma cMinimumSize_ge: "4 \<le> cMinimumSize b" "cMinimumSize b \<le> 5"
  by (simp_all add: cMinimumSize_def)

lemma next_packet_good: "good_packet b p \<Longrightarrow> next_packet b (p @ r) = Take (length p)"
proof -
  assume good: "good_packet b p"
  note g = good_packetD [OF this]
  have "EOP \<in> set p" using g(2) cMinimumSize_ge [of b] by (auto simp: first_eop_def split: if_splits)
  then have "first_eop (p @ r) = first_eop p" by (simp add: first_eop_append)
  then show ?thesis using g by (auto simp: next_packet_def nth_append)
qed

lemma next_packet_part:
  assumes "good_packet b (q @ r)" "r \<noteq> []"
  shows "next_packet b q = Wait"
proof (cases "int (first_eop q) < cMinimumSize b")
  case False
  then have "2 < length q" using first_eop_le [of q] cMinimumSize_ge [of b] by linarith
  then have "q ! 2 = (q @ r) ! 2" by (simp add: nth_append)
  then show ?thesis using good_packetD(1) [OF assms(1)] assms(2) by (simp add: next_packet_def)
qed (simp add: next_packet_def)

lemma getRCData_takes:
  assumes ok: "fp_ok s" and p: "keys s = p @ r" "key_packet p" "good_packet b p"
  shows "\<exists>key. getRCData K (replicate 20 0) s = Some ((p @ replicate (20 - length p) 0, length p), s\<lparr>KeyBuffer := key\<rparr>) \<and>
    ring_ok key \<and> contents key = r"
proof -
  note g = good_packetD [OF p(3)]
  have ring: "ring_ok (KeyBuffer s)" using ok by (simp add: fp_ok_def)
  have len: "pending (KeyBuffer s) = length p + length r" using arg_cong [OF p(1), of length] by (simp add: keys_def)
  have "keys s \<noteq> []" using p(1) g(5) by auto
  then have "rstart (KeyBuffer s) \<noteq> rend (KeyBuffer s)" using empty_iff [OF ring] by (simp add: keys_def)
  then have wait: "wait_key K s = Some (True, s)" by (subst wait_key.simps) simp
  have "arr_get (rbuf (KeyBuffer s)) ((rend (KeyBuffer s) + 2) mod BUFFERSIZE) = Some (p ! 2)"
    using ring_get [OF ring, of 2] len g(5) p(1) by (simp add: keys_def nth_append)
  then have size: "key_size (KeyBuffer s) = Some (length p)"
    using p(2) g(1) by (auto simp: key_size_def key_packet_def packet_size_def)
  have copy: "ring_copy (KeyBuffer s) (length p) 0 (rend (KeyBuffer s)) (replicate 20 0) = Some (p @ replicate (20 - length p) 0)"
    using ring_copy_contents [OF ring, of 0 "length p" 0 "replicate 20 0"] len g(6) p(1) ring
    by (simp add: keys_def ring_ok_def)
  have "contents ((KeyBuffer s)\<lparr>rend := (rend (KeyBuffer s) + length p) mod BUFFERSIZE\<rparr>) = r"
      "ring_ok ((KeyBuffer s)\<lparr>rend := (rend (KeyBuffer s) + length p) mod BUFFERSIZE\<rparr>)"
    using ring_skip_contents [OF ring, of "length p"] len p(1) by (simp_all add: keys_def)
  with wait size copy g(5) show ?thesis
    by (auto simp: getRCData_def)
qed

text \<open>
  Runs of the driver: bytes arrive, the interrupt handler runs, the thread runs, a reader takes a packet. \<open>inp\<close> are
  the bytes that have arrived, \<open>out\<close> the packets that have been read. Neither buffer overflows.
\<close>

inductive panel_run :: "fp_board \<Rightarrow> 'w fp_kernel \<Rightarrow> ('w \<Rightarrow> u8 list) \<Rightarrow> 'w nuvoton \<Rightarrow> u8 list \<Rightarrow> u8 list list \<Rightarrow> 'w nuvoton \<Rightarrow> bool"
  for b K rx s0 where
  start: "panel_run b K rx s0 [] [] s0"
| arrive: "panel_run b K rx s0 inp out s \<Longrightarrow> rx w' = rx (fp_world s) @ cs \<Longrightarrow>
    panel_run b K rx s0 (inp @ cs) out (s\<lparr>fp_world := w'\<rparr>)"
| irq: "panel_run b K rx s0 inp out s \<Longrightarrow> pending (RCVBuffer s) + length (rx (fp_world s)) < BUFFERSIZE \<Longrightarrow>
    FP_interrupt b K s = Some s' \<Longrightarrow> panel_run b K rx s0 inp out s'"
| task: "panel_run b K rx s0 inp out s \<Longrightarrow> pending (KeyBuffer s) + 7 < BUFFERSIZE \<Longrightarrow>
    nuvotonTask_step b K s = Some s' \<Longrightarrow> panel_run b K rx s0 inp out s'"
| reader: "panel_run b K rx s0 inp out s \<Longrightarrow> rstart (KeyBuffer s) \<noteq> rend (KeyBuffer s) \<Longrightarrow>
    getRCData K (replicate 20 0) s = Some ((data, n), s') \<Longrightarrow> panel_run b K rx s0 inp (out @ [take n data]) s'"

definition answers :: "u8 list list \<Rightarrow> u8 list \<Rightarrow> u8 list" where
  "answers ps d = foldl (\<lambda>d p. put_answer p d) d ps"

definition panel_inv ::
  "fp_board \<Rightarrow> ('w \<Rightarrow> u8 list) \<Rightarrow> u8 list list \<Rightarrow> u8 list \<Rightarrow> u8 list \<Rightarrow> u8 list list \<Rightarrow> 'w nuvoton \<Rightarrow> bool" where
  "panel_inv b rx ps d inp out s \<longleftrightarrow> fp_ok s \<and>
     (\<exists>k \<le> length ps. \<exists>kp. inp = concat (take k ps) @ received s @ rx (fp_world s) \<and> keys s = concat kp \<and>
        out @ kp = filter key_packet (take k ps) \<and> ioctl_data s = answers (take k ps) d)"

lemma panel_task_inv:
  assumes line: "asc_line b K rx tx en ready" and good: "\<forall>p \<in> set ps. good_packet b p" and later: "inp @ rest = concat ps"
    and inv: "panel_inv b rx ps d inp out s" and room: "pending (KeyBuffer s) + 7 < BUFFERSIZE"
    and res: "nuvotonTask_step b K s = Some s'"
  shows "panel_inv b rx ps d inp out s'"
proof (cases "received s = []")
  case True
  then have "rstart (RCVBuffer s) = rend (RCVBuffer s)" using inv empty_iff [of "RCVBuffer s"] by (simp add: panel_inv_def fp_ok_def received_def)
  then show ?thesis using res inv by (simp add: nuvotonTask_step_def)
next
  case False
  from inv obtain k kp where ok: "fp_ok s" and k: "k \<le> length ps" "inp = concat (take k ps) @ received s @ rx (fp_world s)"
      "keys s = concat kp" "out @ kp = filter key_packet (take k ps)" "ioctl_data s = answers (take k ps) d"
    unfolding panel_inv_def by blast
  have "rstart (RCVBuffer s) \<noteq> rend (RCVBuffer s)" using False ok empty_iff [of "RCVBuffer s"] by (simp add: fp_ok_def received_def)
  then have res: "processResponse b K s = Some s'" using res by (simp add: nuvotonTask_step_def)
  have same: "rx (fp_world s') = rx (fp_world s)" using processResponse_line [OF line res] by (simp add: same_line_def)
  have "concat (take k ps) @ received s @ rx (fp_world s) @ rest = concat (take k ps) @ concat (drop k ps)"
    using later k(2) by (simp flip: concat_append)
  then have rst: "received s @ rx (fp_world s) @ rest = concat (drop k ps)" by simp
  with False have lt: "k < length ps" by (cases "k = length ps") (use k(1) in auto)
  define p where "p = ps ! k"
  have drop: "drop k ps = p # drop (Suc k) ps" and take: "take (Suc k) ps = take k ps @ [p]"
    using lt by (simp_all add: p_def Cons_nth_drop_Suc take_Suc_conv_app_nth)
  have p: "good_packet b p" using good lt by (simp add: p_def)
  note next_s = processResponse_next [OF ok line_memory [OF line] refl False room, of b, unfolded res]
  show ?thesis
  proof (cases "length p \<le> length (received s)")
    case True
    then obtain r where r: "received s = p @ r"
      using rst drop by (auto simp: append_eq_append_conv2)
    then have s': "fp_ok s'" "received s' = r" "taken p s s'" using next_s by (simp_all add: next_packet_good [OF p])
    define kp' where "kp' = kp @ (if key_packet p then [p] else [])"
    have "Suc k \<le> length ps" "inp = concat (take (Suc k) ps) @ received s' @ rx (fp_world s')" "keys s' = concat kp'"
        "out @ kp' = filter key_packet (take (Suc k) ps)" "ioctl_data s' = answers (take (Suc k) ps) d"
      using lt k s' r same by (auto simp: take taken_def kp'_def answers_def simp flip: append_assoc)
    then show ?thesis using s'(1) unfolding panel_inv_def by blast
  next
    case short: False
    then obtain r where "p = received s @ r" "r \<noteq> []"
      using rst drop by (auto simp: append_eq_append_conv2)
    then have "next_packet b (received s) = Wait" using next_packet_part p by blast
    then show ?thesis using next_s k same unfolding panel_inv_def received_def by auto
  qed
qed

lemma panel_read_inv:
  assumes good: "\<forall>p \<in> set ps. good_packet b p" and inv: "panel_inv b rx ps d inp out s"
    and ne: "rstart (KeyBuffer s) \<noteq> rend (KeyBuffer s)" and res: "getRCData K (replicate 20 0) s = Some ((data, n), s')"
  shows "panel_inv b rx ps d inp (out @ [take n data]) s'"
proof -
  from inv obtain k kp where ok: "fp_ok s" and k: "k \<le> length ps" "inp = concat (take k ps) @ received s @ rx (fp_world s)"
      "keys s = concat kp" "out @ kp = filter key_packet (take k ps)" "ioctl_data s = answers (take k ps) d"
    unfolding panel_inv_def by blast
  have "keys s \<noteq> []" using ne ok empty_iff [of "KeyBuffer s"] by (simp add: fp_ok_def keys_def)
  then obtain p kp' where kp: "kp = p # kp'" using k(3) by (cases kp) auto
  then have "p \<in> set (filter key_packet (take k ps))" using k(4) by (metis in_set_conv_decomp)
  then have p: "key_packet p" "good_packet b p" using good by (auto dest: in_set_takeD)
  obtain key where key: "getRCData K (replicate 20 0) s = Some ((p @ replicate (20 - length p) 0, length p), s\<lparr>KeyBuffer := key\<rparr>)"
      "ring_ok key" "contents key = concat kp'"
    using getRCData_takes [OF ok _ p, of "concat kp'" K] k(3) kp by auto
  then have "s' = s\<lparr>KeyBuffer := key\<rparr>" "take n data = p" using res by auto
  then show ?thesis
    using k kp key ok unfolding panel_inv_def by (intro conjI exI [of _ k] exI [of _ kp']) (auto simp: fp_ok_def queue_defs)
qed

lemma panel_run_inv:
  assumes line: "asc_line b K rx tx en ready" and good: "\<forall>p \<in> set ps. good_packet b p"
    and s0: "fp_ok s0" "received s0 = []" "keys s0 = []" "rx (fp_world s0) = []"
    and run: "panel_run b K rx s0 inp out s"
  shows "inp @ rest = concat ps \<Longrightarrow> panel_inv b rx ps (ioctl_data s0) inp out s"
  using run
proof (induction arbitrary: rest)
  case start
  then show ?case using s0 by (auto simp: panel_inv_def answers_def intro!: exI [of _ 0])
next
  case (arrive inp out s w' cs)
  then have "panel_inv b rx ps (ioctl_data s0) inp out s" by simp
  then show ?case using arrive.hyps(2) by (auto simp: panel_inv_def fp_ok_def queue_defs)
next
  case (irq inp out s s')
  then have inv: "panel_inv b rx ps (ioctl_data s0) inp out s" by simp
  then have ok: "fp_ok s" by (simp add: panel_inv_def)
  obtain s'' where "FP_interrupt b K s = Some s''" "fp_ok s''" "others_same s s''"
      "received s'' = put_all (received s) (rx (fp_world s))" "rx (fp_world s'') = []"
    using interrupt_line [OF line ok] by metis
  moreover have "put_all (received s) (rx (fp_world s)) = received s @ rx (fp_world s)"
    using irq.hyps(2) by (intro put_all_append) (simp add: received_def)
  ultimately show ?case using inv irq.hyps(3) by (auto simp: panel_inv_def others_same_def keys_def)
next
  case (task inp out s s')
  then show ?case using panel_task_inv [OF line good task.prems _ task.hyps(2, 3)] by blast
next
  case (reader inp out s data n s')
  then show ?case using panel_read_inv [OF good _ reader.hyps(2, 3)] by blast
qed

text \<open>
  C7. Packets arrive whole and in order, however the arrival of bytes, the interrupt handler, the thread and the
  readers of keys are interleaved, as long as the buffers do not overflow: at every moment the bytes
  received are some whole packets that have been taken, followed by what waits in the buffer and in the
  receiver; the packets read are the key packets among those taken, but for the ones that still wait for a
  reader; the answer shown is the one of the last answer packet.
\<close>

theorem nuvoton_packets_in_order:
  assumes "asc_line b K rx tx en ready" "fp_ok s0" "received s0 = []" "keys s0 = []" "rx (fp_world s0) = []"
    and "panel_run b K rx s0 inp out s" "inp @ rest = concat ps" "\<forall>p \<in> set ps. good_packet b p"
  shows "\<exists>k \<le> length ps. \<exists>kp. inp = concat (take k ps) @ received s @ rx (fp_world s) \<and> keys s = concat kp \<and>
    out @ kp = filter key_packet (take k ps) \<and> ioctl_data s = answers (take k ps) (ioctl_data s0)"
  using panel_run_inv [OF assms(1, 8) assms(2-6) assms(7)] by (auto simp: panel_inv_def)

fun task_run :: "fp_board \<Rightarrow> 'w fp_kernel \<Rightarrow> nat \<Rightarrow> 'w nuvoton \<Rightarrow> 'w nuvoton option" where
  "task_run b K 0 s = Some s"
| "task_run b K (Suc n) s = nuvotonTask_step b K s \<bind> task_run b K n"

text \<open>
  C20. The thread gets through: when whole packets wait in the buffer and there is room for the keys among them,
  one round for each packet empties the buffer and hands over every packet.
\<close>

theorem nuvoton_packets_processed:
  assumes "asc_line b K rx tx en ready" "fp_ok s" "received s = concat ps" "\<forall>p \<in> set ps. good_packet b p"
    "length (keys s) + length (concat (filter key_packet ps)) + 7 < BUFFERSIZE"
  shows "\<exists>s'. task_run b K (length ps) s = Some s' \<and> received s' = [] \<and>
    keys s' = keys s @ concat (filter key_packet ps) \<and> ioctl_data s' = answers ps (ioctl_data s)"
  using assms(2-5)
proof (induction ps arbitrary: s)
  case (Cons p ps)
  have p: "good_packet b p" using Cons.prems by simp
  have ne: "received s \<noteq> []" using Cons.prems(2) good_packetD(5) [OF p] by auto
  then have "rstart (RCVBuffer s) \<noteq> rend (RCVBuffer s)"
    using Cons.prems(1) empty_iff [of "RCVBuffer s"] by (simp add: fp_ok_def received_def)
  moreover obtain s' where "processResponse b K s = Some s'" and s': "fp_ok s'" "received s' = concat ps" "taken p s s'"
    using processResponse_next [OF Cons.prems(1) line_memory [OF assms(1)] refl ne, of b] Cons.prems(2, 4)
    by (auto simp: next_packet_good [OF p] keys_def)
  ultimately have step: "nuvotonTask_step b K s = Some s'" by (simp add: nuvotonTask_step_def)
  have "length (keys s') + length (concat (filter key_packet ps)) + 7 < BUFFERSIZE"
    using Cons.prems(4) s'(3) by (auto simp: taken_def split: if_splits)
  then obtain s'' where "task_run b K (length ps) s' = Some s''" "received s'' = []"
      "keys s'' = keys s' @ concat (filter key_packet ps)" "ioctl_data s'' = answers ps (ioctl_data s')"
    using Cons.IH [OF s'(1, 2)] Cons.prems(3) by auto
  with step s'(3) show ?case by (auto simp: taken_def answers_def)
qed (simp add: answers_def)

section \<open>Bytes that block the receiver\<close>

definition doomed :: "fp_board \<Rightarrow> u8 list \<Rightarrow> bool" where
  "doomed b q \<longleftrightarrow> 0 < first_eop q \<and> int (first_eop q) < cMinimumSize b \<or>
     2 < length q \<and> (q ! 2 = 0 \<or> (case packet_size (q ! 2) of None \<Rightarrow> False | Some n \<Rightarrow> n \<le> length q \<and> q ! (n - 1) \<noteq> EOP))"

lemma first_eop_pos: "0 < first_eop q \<longleftrightarrow> EOP \<in> set q"
  by (simp add: first_eop_def)

lemma doomed_waits: "doomed b q \<Longrightarrow> next_packet b (q @ r) = Wait"
proof -
  assume d: "doomed b q"
  have "(q @ r) ! 2 = q ! 2" if "2 < length q" using that by (simp add: nth_append)
  moreover have "(q @ r) ! (n - 1) = q ! (n - 1)" if "packet_size (q ! 2) = Some n" "n \<le> length q" for n
    using that packet_size_range [OF that(1)] by (auto simp: nth_append)
  moreover have "first_eop (q @ r) = first_eop q" if "0 < first_eop q" using that by (simp add: first_eop_append first_eop_pos)
  ultimately show ?thesis
    using d by (auto simp: doomed_def next_packet_def split: option.splits if_splits)
qed

lemma doomed_or_goes_on:
  assumes "\<not> doomed b q"
  shows "\<exists>r. length r \<le> 13 \<and> next_packet b (q @ r) \<noteq> Wait"
proof -
  have first: "first_eop q = 0 \<or> cMinimumSize b \<le> int (first_eop q)" using assms by (auto simp: doomed_def)
  define fill :: "nat \<Rightarrow> u8 list" where "fill n = replicate n 1 @ [EOP]" for n
  have first_fill: "cMinimumSize b \<le> int (first_eop (q @ fill n))" if "5 \<le> length q + Suc n" for n
    using first that cMinimumSize_ge [of b]
    by (auto simp: first_eop_append first_eop_pos fill_def) (auto simp: first_eop_def)
  consider "length q \<le> 2" | (none) "2 < length q" "packet_size (q ! 2) = None"
    | (some) n where "2 < length q" "packet_size (q ! 2) = Some n" by fastforce
  then show ?thesis
  proof cases
    case 1
    then have "(q @ fill 12) ! 2 = 1" by (auto simp: nth_append fill_def)
    then have "next_packet b (q @ fill 12) = Discard" using first_fill [of 12] by (simp add: next_packet_def packet_size_def)
    then show ?thesis by (intro exI [of _ "fill 12"]) (simp add: fill_def)
  next
    case none
    then have "(q @ fill 12) ! 2 = q ! 2" "q ! 2 \<noteq> 0" using assms by (auto simp: nth_append doomed_def)
    then have "next_packet b (q @ fill 12) = Discard" using first_fill [of 12] none by (simp add: next_packet_def)
    then show ?thesis by (intro exI [of _ "fill 12"]) (simp add: fill_def)
  next
    case (some n)
    note range = packet_size_range [OF some(2)]
    have ev: "(q @ r) ! 2 = q ! 2" for r using some by (simp add: nth_append)
    have nz: "q ! 2 \<noteq> 0" using assms some by (auto simp: doomed_def)
    show ?thesis
    proof (cases "n \<le> length q")
      case True
      then have e: "q ! (n - 1) = EOP" using assms some by (auto simp: doomed_def)
      then have "EOP \<in> set q" using True range by (metis Suc_le_eq Suc_pred' diff_less less_le_trans nth_mem numeral_eq_Suc zero_less_Suc zero_less_one)
      then have "cMinimumSize b \<le> int (first_eop q)" using first by (auto simp: first_eop_pos [symmetric])
      then show ?thesis using True e nz some by (intro exI [of _ "[]"]) (simp add: next_packet_def)
    next
      case False
      define m where "m = n - 1 - length q"
      have "length (q @ fill m) = n" "(q @ fill m) ! (n - 1) = EOP" "5 \<le> length q + Suc m" "length (fill m) \<le> 13"
        using False range by (auto simp: fill_def m_def nth_append)
      then show ?thesis using first_fill [of m] ev [of "fill m"] nz some by (intro exI [of _ "fill m"]) (simp add: next_packet_def)
    qed
  qed
qed

text \<open>A ring buffer with given contents.\<close>

definition ring_of :: "u8 list \<Rightarrow> fp_ring" where
  "ring_of q = \<lparr>rbuf = q @ replicate (BUFFERSIZE - length q) 0, rstart = length q, rend = 0\<rparr>"

lemma ring_of: "length q < BUFFERSIZE \<Longrightarrow> ring_ok (ring_of q) \<and> contents (ring_of q) = q"
  by (auto simp: ring_ok_def ring_of_def contents_def pending_def nth_append intro!: nth_equalityI)

lemma stuck_step:
  assumes "asc_line b K rx tx en ready" "doomed b q" "q \<noteq> []" "fp_ok s" "received s = q @ r"
    "pending (KeyBuffer s) + 7 < BUFFERSIZE"
  shows "\<exists>s'. nuvotonTask_step b K s = Some s' \<and> fp_ok s' \<and> RCVBuffer s' = RCVBuffer s"
proof (cases "rstart (RCVBuffer s) \<noteq> rend (RCVBuffer s)")
  case True
  then show ?thesis
    using processResponse_next [of s K, OF assms(4) line_memory [OF assms(1)] assms(5) _ assms(6), of b] assms(3)
      doomed_waits [OF assms(2), of r] by (auto simp: nuvotonTask_step_def)
qed (use assms(4) in \<open>simp add: nuvotonTask_step_def\<close>)

lemma getRCData_rcv:
  assumes "fp_ok s" "rstart (KeyBuffer s) \<noteq> rend (KeyBuffer s)" "getRCData K d s = Some (x, s')"
  shows "fp_ok s'" "RCVBuffer s' = RCVBuffer s"
proof -
  have "wait_key K s = Some (True, s)" using assms(2) by (subst wait_key.simps) simp
  then show "fp_ok s'" "RCVBuffer s' = RCVBuffer s"
    using assms(1, 3) by (auto simp: getRCData_def bind_eq_Some_conv fp_ok_def ring_ok_def split: if_splits)
qed

text \<open>In a run without overflow the blocking bytes stay at the head of the buffer.\<close>

lemma panel_run_stuck:
  assumes "asc_line b K rx tx en ready" "doomed b q" "q \<noteq> []" "fp_ok s" "received s = q"
    and "panel_run b K rx s inp out s'"
  shows "fp_ok s' \<and> (\<exists>r. received s' = q @ r)"
  using assms(6)
proof induction
  case start
  then show ?case using assms(4, 5) by simp
next
  case (arrive inp out s w' cs)
  then show ?case by (simp add: fp_ok_def received_def)
next
  case (irq inp out s s')
  then have ok: "fp_ok s" by simp
  obtain s'' where "FP_interrupt b K s = Some s''" "fp_ok s''" "received s'' = put_all (received s) (rx (fp_world s))"
    using interrupt_line [OF assms(1) ok] by metis
  moreover have "put_all (received s) (rx (fp_world s)) = received s @ rx (fp_world s)"
    using irq.hyps(2) by (intro put_all_append) (simp add: received_def)
  ultimately show ?case using irq by auto
next
  case (task inp out s s')
  then obtain r where "fp_ok s" "received s = q @ r" by blast
  from stuck_step [OF assms(1-3) this task.hyps(2)] show ?case using task.hyps(3) \<open>received s = q @ r\<close> by (auto simp: received_def)
next
  case (reader inp out s data n s')
  then show ?case using getRCData_rcv [OF _ reader.hyps(2, 3)] by (auto simp: received_def)
qed

lemma going_step:
  assumes "asc_line b K rx tx en ready" "next_packet b q \<noteq> Wait" "q \<noteq> []" "fp_ok s" "received s = q"
    "length (keys s) + 7 < BUFFERSIZE"
  shows "\<exists>s'. nuvotonTask_step b K s = Some s' \<and> length (received s') < length q"
proof -
  have "rstart (RCVBuffer s) \<noteq> rend (RCVBuffer s)"
    using assms(3-5) empty_iff [of "RCVBuffer s"] by (auto simp: fp_ok_def received_def)
  moreover have "pending (KeyBuffer s) + 7 < BUFFERSIZE" using assms(6) by (simp add: keys_def)
  moreover have "0 < n" if "next_packet b q = Take n" for n
    using that by (auto simp: next_packet_def split: option.splits if_splits dest: packet_size_range)
  ultimately show ?thesis
    using processResponse_next [OF assms(4) line_memory [OF assms(1)] assms(5, 3), of b] assms(2, 3)
    by (cases "next_packet b q") (auto simp: nuvotonTask_step_def)
qed

text \<open>
  C33. Exactly which bytes at the head of the receive buffer block the driver: an end mark that comes before the
  smallest packet is complete, the event 0, or a known event without an end mark at its place. After them
  no key and no answer gets through in any run in which no buffer overflows, whatever arrives: the thread
  returns and leaves the buffer as it is. (When 256 bytes have come the buffer overflows, and the blocking
  bytes are lost with all others, see \<open>nuvoton_receive_overflow\<close>.) After any other bytes at most 13 more can
  come upon which the thread takes bytes from the buffer.
\<close>

theorem nuvoton_receiver_stuck_iff:
  assumes "asc_line b K rx tx en ready" "fp_ok s" "received s = q" "q \<noteq> []"
  shows "if doomed b q
    then \<forall>inp out s'. panel_run b K rx s inp out s' \<longrightarrow>
      (\<exists>r. received s' = q @ r \<and> (length (keys s') + 7 < BUFFERSIZE \<longrightarrow>
         (\<exists>s''. nuvotonTask_step b K s' = Some s'' \<and> RCVBuffer s'' = RCVBuffer s')))
    else \<exists>r. length r \<le> 13 \<and> (\<forall>s'. fp_ok s' \<and> received s' = q @ r \<and> length (keys s') + 7 < BUFFERSIZE \<longrightarrow>
      (\<exists>s''. nuvotonTask_step b K s' = Some s'' \<and> length (received s'') < length (q @ r)))"
proof (cases "doomed b q")
  case True
  show ?thesis
    unfolding if_P [OF True]
  proof (intro allI impI)
    fix inp out s'
    assume "panel_run b K rx s inp out s'"
    from panel_run_stuck [OF assms(1) True assms(4, 2, 3) this] obtain r where "fp_ok s'" "received s' = q @ r" by blast
    then show "\<exists>r. received s' = q @ r \<and> (length (keys s') + 7 < BUFFERSIZE \<longrightarrow>
         (\<exists>s''. nuvotonTask_step b K s' = Some s'' \<and> RCVBuffer s'' = RCVBuffer s'))"
      using stuck_step [OF assms(1) True assms(4)] by (auto simp: keys_def)
  qed
next
  case False
  then obtain r where r: "length r \<le> 13" "next_packet b (q @ r) \<noteq> Wait" using doomed_or_goes_on by blast
  have "q @ r \<noteq> []" using assms(4) by simp
  from r(1) going_step [OF assms(1) r(2) this] show ?thesis unfolding if_not_P [OF False] by blast
qed

end
