(* ===== verification/Nuvoton_Send.thy ===== *)
theory Nuvoton_Send
  imports Nuvoton_Packets
begin

unbundle bit_operations_syntax

text \<open>
  Commands to the front processor. \<open>fp_delays\<close> says that nothing but the interrupt handler runs on the buffers while the
  driver delays between two bytes. At the end the overflow of the receive buffer and a machine for the examples.
\<close>

section \<open>Sending\<close>

text \<open>
  While the driver delays, the interrupt handler runs any number of times; between its runs bytes may arrive and the
  transmitter may become ready.
\<close>

inductive irqs :: "fp_board \<Rightarrow> 'w fp_kernel \<Rightarrow> ('w \<Rightarrow> u8 list) \<Rightarrow> ('w \<Rightarrow> u32) \<Rightarrow> 'w nuvoton \<Rightarrow> 'w nuvoton \<Rightarrow> bool"
  for b K tx en s where
  none: "irqs b K tx en s s"
| more: "irqs b K tx en s s' \<Longrightarrow> tx w' = tx (fp_world s') \<Longrightarrow> en w' = en (fp_world s') \<Longrightarrow>
    FP_interrupt b K (s'\<lparr>fp_world := w'\<rparr>) = Some s'' \<Longrightarrow> irqs b K tx en s s''"

definition fp_delays :: "fp_board \<Rightarrow> 'w fp_kernel \<Rightarrow> ('w \<Rightarrow> u8 list) \<Rightarrow> ('w \<Rightarrow> u32) \<Rightarrow> bool" where
  "fp_delays b K tx en \<longleftrightarrow> (\<forall>n s. irqs b K tx en s (fk_udelay K n s))"

text \<open>As long as bytes wait, the interrupt of the transmitter is enabled.\<close>

definition tx_armed :: "('w \<Rightarrow> u32) \<Rightarrow> 'w nuvoton \<Rightarrow> bool" where
  "tx_armed en s \<longleftrightarrow> (queued s \<noteq> [] \<longrightarrow> bit (en (fp_world s)) 2)"

lemma fp_ok_world [simp]: "fp_ok (s\<lparr>fp_world := w\<rparr>) = fp_ok s"
  by (simp add: fp_ok_def)

lemma queued_world [simp]: "queued (s\<lparr>fp_world := w\<rparr>) = queued s"
  by (simp add: queued_def)

lemma irqs_conserve:
  assumes line: "asc_line b K rx tx en ready" and ok: "fp_ok s" "tx_armed en s" and irqs: "irqs b K tx en s s'"
  shows "fp_ok s' \<and> tx_armed en s' \<and> others_same s s' \<and> length (queued s') \<le> length (queued s) \<and>
    tx (fp_world s') @ queued s' = tx (fp_world s) @ queued s"
  using irqs
proof induction
  case none
  show ?case using ok by (simp add: others_same_def)
next
  case (more s' w' s'')
  let ?t = "s'\<lparr>fp_world := w'\<rparr>"
  from more.IH have "fp_ok ?t" by simp
  then obtain t n where t: "FP_interrupt b K ?t = Some t" "fp_ok t" "others_same ?t t"
      "n \<le> length (queued ?t)" "queued t = drop n (queued ?t)" "tx (fp_world t) = tx (fp_world ?t) @ take n (queued ?t)"
      "queued t \<noteq> [] \<longrightarrow> en (fp_world t) = en (fp_world ?t)"
    using interrupt_line [OF line, of ?t] by metis
  then have "s'' = t" using more.hyps(4) by simp
  with t more.IH more.hyps(2, 3) show ?case by (auto simp: tx_armed_def others_same_def)
qed

lemma putc_queues:
  assumes line: "asc_line b K rx tx en ready" and ok: "fp_ok s" and room: "length (queued s) < BUFFERSIZE - 1"
  obtains s' where "nuvoton_putc b K c s = Some s'" "fp_ok s'" "others_same s s'" "queued s' = queued s @ [c]"
    "tx (fp_world s') = tx (fp_world s)" "tx_armed en s'"
proof -
  obtain r where r: "ring_put c (OutBuffer s) = Some r" "ring_ok r" "contents r = queued s @ [c]"
    using ring_fifo.put_appends [of "OutBuffer s" c] ok room by (auto simp: fp_ok_def queued_def)
  let ?s = "s\<lparr>OutBuffer := r\<rparr>"
  obtain w1 where "asc_get b K ASC_INT_EN ?s = (en (fp_world ?s), ?s\<lparr>fp_world := w1\<rparr>)"
      "tx w1 = tx (fp_world ?s)" "en w1 = en (fp_world ?s)"
    by (rule line_enable [OF line, of ?s])
  then have e1: "asc_get b K ASC_INT_EN ?s = (en (fp_world s), ?s\<lparr>fp_world := w1\<rparr>)"
      "tx w1 = tx (fp_world s)" "en w1 = en (fp_world s)"
    by simp_all
  let ?s1 = "?s\<lparr>fp_world := w1\<rparr>"
  obtain w2 where "asc_get b K ASC_INT_EN ?s1 = (en (fp_world ?s1), ?s1\<lparr>fp_world := w2\<rparr>)" "tx w2 = tx (fp_world ?s1)"
    by (rule line_enable [OF line, of ?s1])
  then have e2: "asc_get b K ASC_INT_EN ?s1 = (en w1, ?s\<lparr>fp_world := w2\<rparr>)" "tx w2 = tx w1" by simp_all
  let ?s2 = "?s\<lparr>fp_world := w2\<rparr>"
  obtain w3 where "asc_put b K ASC_INT_EN (en w1 OR 4) ?s2 = ?s2\<lparr>fp_world := w3\<rparr>" "tx w3 = tx (fp_world ?s2)" "en w3 = en w1 OR 4"
    by (rule line_set_enable [OF line, of "en w1 OR 4" ?s2])
  then have e3: "asc_put b K ASC_INT_EN (en w1 OR 4) ?s2 = ?s\<lparr>fp_world := w3\<rparr>" "tx w3 = tx w2" "en w3 = en w1 OR 4" by simp_all
  define w where "w = (if bit (en (fp_world s)) 2 then w1 else w3)"
  have "bit (4 :: u32) 2" using and_4_u32 [of 4] by simp
  then have "bit (en w) 2" using e1 e3 by (simp add: w_def bit_or_iff)
  moreover have "nuvoton_putc b K c s = Some (?s\<lparr>fp_world := w\<rparr>)"
    using r e1 e2 e3 by (simp add: nuvoton_putc_def and_4_u32 w_def)
  moreover have "tx w = tx (fp_world s)" using e1 e2 e3 by (simp add: w_def)
  ultimately show thesis
    using ok r by (intro that [of "?s\<lparr>fp_world := w\<rparr>"]) (simp_all add: fp_ok_def others_same_def queued_def tx_armed_def)
qed

lemma putc_all_queues:
  assumes line: "asc_line b K rx tx en ready" and delays: "fp_delays b K tx en"
  shows "fp_ok s \<Longrightarrow> tx_armed en s \<Longrightarrow> length (queued s) + length cs < BUFFERSIZE \<Longrightarrow>
    \<exists>s'. putc_all b K cs s = Some s' \<and> fp_ok s' \<and> tx_armed en s' \<and> others_same s s' \<and>
      length (queued s') \<le> length (queued s) + length cs \<and>
      tx (fp_world s') @ queued s' = tx (fp_world s) @ queued s @ cs"
proof (induction cs arbitrary: s)
  case (Cons c cs)
  let ?s = "fk_udelay K 1 s"
  have d: "fp_ok ?s" "others_same s ?s" "length (queued ?s) \<le> length (queued s)"
      "tx (fp_world ?s) @ queued ?s = tx (fp_world s) @ queued s"
    using irqs_conserve [OF line Cons.prems(1, 2), of ?s] delays by (simp_all add: fp_delays_def)
  then obtain s1 where s1: "nuvoton_putc b K c ?s = Some s1" "fp_ok s1" "others_same ?s s1" "queued s1 = queued ?s @ [c]"
      "tx (fp_world s1) = tx (fp_world ?s)" "tx_armed en s1"
    using putc_queues [OF line d(1), of c] Cons.prems(3) by auto
  then obtain s2 where "putc_all b K cs s1 = Some s2" "fp_ok s2" "tx_armed en s2" "others_same s1 s2"
      "length (queued s2) \<le> length (queued s1) + length cs" "tx (fp_world s2) @ queued s2 = tx (fp_world s1) @ queued s1 @ cs"
    using Cons.IH [OF s1(2, 6)] Cons.prems(3) d(3) by auto
  with s1 d show ?case by (auto simp: others_same_def)
qed (simp add: others_same_def)

text \<open>The interrupt handler runs \<open>n\<close> times, each time after the hardware has gone on by \<open>h\<close>.\<close>

fun irq_rounds :: "fp_board \<Rightarrow> 'w fp_kernel \<Rightarrow> ('w \<Rightarrow> 'w) \<Rightarrow> nat \<Rightarrow> 'w nuvoton \<Rightarrow> 'w nuvoton option" where
  "irq_rounds b K h 0 s = Some s"
| "irq_rounds b K h (Suc n) s = FP_interrupt b K (s\<lparr>fp_world := h (fp_world s)\<rparr>) \<bind> irq_rounds b K h n"

lemma irq_rounds_send:
  assumes line: "asc_line b K rx tx en ready"
    and h: "\<And>w. ready (h w) \<and> tx (h w) = tx w \<and> en (h w) = en w"
  shows "fp_ok s \<Longrightarrow> tx_armed en s \<Longrightarrow> length (queued s) \<le> n \<Longrightarrow> 0 < n \<Longrightarrow>
    \<exists>s'. irq_rounds b K h n s = Some s' \<and> queued s' = [] \<and> tx (fp_world s') = tx (fp_world s) @ queued s \<and>
      \<not> bit (en (fp_world s')) 2 \<and> fp_ok s' \<and> others_same s s'"
proof (induction n arbitrary: s)
  case (Suc n)
  let ?t = "s\<lparr>fp_world := h (fp_world s)\<rparr>"
  have ok: "fp_ok ?t" using Suc.prems by simp
  obtain t m where t: "FP_interrupt b K ?t = Some t" "fp_ok t" "others_same ?t t"
      "m \<le> length (queued s)" "queued t = drop m (queued s)" "tx (fp_world t) = tx (fp_world s) @ take m (queued s)"
      "queued s \<noteq> [] \<longrightarrow> 0 < m" "queued t = [] \<longrightarrow> \<not> bit (en (fp_world t)) 2" "queued t \<noteq> [] \<longrightarrow> en (fp_world t) = en (fp_world s)"
    by (rule interrupt_line [OF line ok]) (use h Suc.prems(2) in \<open>auto simp: tx_armed_def\<close>)
  then have armed: "tx_armed en t" using Suc.prems(2) by (auto simp: tx_armed_def)
  show ?case
  proof (cases "n = 0")
    case True
    then have "queued t = []" using t(5, 7) Suc.prems(3) by (cases "queued s") auto
    then show ?thesis using True t by (auto simp: others_same_def)
  next
    case False
    have "length (queued t) \<le> n" using t(5, 7) Suc.prems(3) by (cases "queued s") auto
    then obtain s' where "irq_rounds b K h n t = Some s'" "queued s' = []" "tx (fp_world s') = tx (fp_world t) @ queued t"
        "\<not> bit (en (fp_world s')) 2" "fp_ok s'" "others_same t s'"
      using Suc.IH [OF t(2) armed] False by auto
    then show ?thesis using t by (auto simp: others_same_def)
  qed
qed simp

text \<open>
  C8. A command goes out completely and in order: with room in the output buffer, \<open>nuvotonWriteCommand\<close> returns, and
  when the interrupt handler has run as often as there are bytes, whatever it did during the delays, the
  line has got the bytes that waited before and then those of the command, nothing waits any more, and the
  interrupt of the transmitter is off.
\<close>

theorem nuvoton_command_sent:
  assumes "asc_line b K rx tx en ready" "fp_delays b K tx en" "\<And>w. ready (h w) \<and> tx (h w) = tx w \<and> en (h w) = en w"
    "fp_ok s" "tx_armed en s" "length (queued s) + length cs < BUFFERSIZE" "length (queued s) + length cs \<le> n" "0 < n"
  shows "\<exists>s1 s2. nuvotonWriteCommand b K cs False s = Some (0, s1) \<and> irq_rounds b K h n s1 = Some s2 \<and>
    tx (fp_world s2) = tx (fp_world s) @ queued s @ cs \<and> queued s2 = [] \<and> \<not> bit (en (fp_world s2)) 2 \<and>
    keys s2 = keys s"
proof -
  obtain s1 where s1: "putc_all b K cs s = Some s1" "fp_ok s1" "tx_armed en s1" "others_same s s1"
      "length (queued s1) \<le> length (queued s) + length cs" "tx (fp_world s1) @ queued s1 = tx (fp_world s) @ queued s @ cs"
    using putc_all_queues [OF assms(1, 2, 4-6)] by blast
  then obtain s2 where "irq_rounds b K h n s1 = Some s2" "queued s2 = []" "tx (fp_world s2) = tx (fp_world s1) @ queued s1"
      "\<not> bit (en (fp_world s2)) 2" "others_same s1 s2"
    using irq_rounds_send [OF assms(1, 3) s1(2, 3), of n] assms(7, 8) by auto
  with s1 show ?thesis by (auto simp: nuvotonWriteCommand_def others_same_def keys_def)
qed

text \<open>
  C35. Asking for the time always reports success, whether or not the front processor has answered: after a wait in
  which the answers \<open>ps\<close> have come, the result is 0 and the time is what is then in \<open>ioctl_data\<close>. With an answer
  that is the time in it; without one, when the wait ran into its time limit, it is the data of an
  earlier answer, whichever that was.
\<close>

theorem nuvoton_get_time:
  assumes "asc_line b K rx tx en ready" "fp_delays b K tx en" "fp_ok s" "tx_armed en s" "length (queued s) + 3 < BUFFERSIZE"
    "length time = 5" "err \<noteq> - FP_ERESTARTSYS"
    "\<And>t. fst (fk_wait_ack K t) = err \<and> ioctl_data (snd (fk_wait_ack K t)) = answers ps (ioctl_data t) \<and>
       errorOccured (snd (fk_wait_ack K t)) = errorOccured t"
    "\<forall>p \<in> set ps. good_packet b p"
  shows "\<exists>s'. nuvotonGetTime b K time s = Some ((0, take 5 (answers ps (ioctl_data s))), s')"
proof -
  have s0: "s\<lparr>errorOccured := 0\<rparr> = s" using assms(3) by (simp add: fp_ok_def)
  obtain s1 where s1: "putc_all b K [SOP, 0x10, EOP] s = Some s1" "fp_ok s1" "others_same s s1"
    using putc_all_queues [OF assms(1-4), of "[SOP, 0x10, EOP]"] assms(5) by auto
  obtain s2 where s2: "fk_wait_ack K (s1\<lparr>dataReady := 0\<rparr>) = (err, s2)" "ioctl_data s2 = answers ps (ioctl_data s)" "errorOccured s2 = 0"
    using assms(8) [of "s1\<lparr>dataReady := 0\<rparr>"] s1 by (cases "fk_wait_ack K (s1\<lparr>dataReady := 0\<rparr>)") (auto simp: others_same_def fp_ok_def)
  have "length (answers ps d) = 9" if "length d = 9" for d
    using assms(9) that
  proof (induction ps arbitrary: d)
    case (Cons p ps)
    have "length (put_answer p d) = 9"
      using good_packetD(6) [of b p] Cons.prems by (auto simp: put_answer_def Let_def)
    then show ?case using Cons by (simp add: answers_def)
  qed (simp add: answers_def)
  then have "length (ioctl_data s2) = 9" using s2(2) assms(3) by (simp add: fp_ok_def)
  with s0 s1(1) s2 assms(6, 7) show ?thesis
    by (simp add: nuvotonGetTime_def nuvotonWriteCommand_def ack_sem_down_def arr_copy_def)
qed

section \<open>Overflow and device files\<close>

text \<open>
  The interrupt handler always returns and takes every byte that waits in the receiver; each time the buffer
  fills up, all that waits in it is lost.
\<close>

theorem nuvoton_receive_overflow:
  assumes "asc_line b K rx tx en ready" "fp_ok s"
  shows "\<exists>s'. FP_interrupt b K s = Some s' \<and> rx (fp_world s') = [] \<and> keys s' = keys s \<and>
    received s' = drop (BUFFERSIZE * ((length (received s) + length (rx (fp_world s))) div BUFFERSIZE)) (received s @ rx (fp_world s))"
proof -
  obtain s' where "FP_interrupt b K s = Some s'" "others_same s s'" "received s' = put_all (received s) (rx (fp_world s))"
      "rx (fp_world s') = []"
    using interrupt_line [OF assms] by metis
  then show ?thesis
    using put_all_eq [of "received s" "rx (fp_world s)"] pending_less [of "RCVBuffer s"]
    by (simp add: received_def keys_def others_same_def)
qed

text \<open>The minor number of a device file is not tested.\<close>

lemma nuvoton_open_None_iff:
  assumes "length (FrontPanelOpen (snd (fk_down K Write_sem s))) = 2" "fst (fk_down K Write_sem s) = 0"
  shows "NUVOTONdev_open K minor filp s = None \<longleftrightarrow> 2 \<le> minor"
  using assms by (auto simp: NUVOTONdev_open_def arr_get_def bind_eq_None_conv Let_def split: prod.splits)

section \<open>A machine\<close>

record fp_bench =
  fb_rx :: "u8 list"
  fb_tx :: "u8 list"
  fb_en :: u32
  fb_sem :: nat

definition bench_panel :: "fp_board \<Rightarrow> fp_bench fp_kernel" where
  "bench_panel b = \<lparr>
     fk_get = (\<lambda>a w. if a = ASCXBaseAddress b + ASC_INT_STA then ((if fb_rx w = [] then 4 else 5), w)
       else if a = ASCXBaseAddress b + ASC_INT_EN then (fb_en w, w) else (0, w)),
     fk_put = (\<lambda>a v w. if a = ASCXBaseAddress b + ASC_INT_EN then w\<lparr>fb_en := v\<rparr> else w),
     fk_getb = (\<lambda>a w. case fb_rx w of [] \<Rightarrow> (0, w) | c # cs \<Rightarrow> (c, w\<lparr>fb_rx := cs\<rparr>)),
     fk_putb = (\<lambda>a c w. w\<lparr>fb_tx := fb_tx w @ [c]\<rparr>),
     fk_wake_up = (\<lambda>q w. w),
     fk_kmalloc = (\<lambda>n w. (Some (replicate n 0), w)),
     fk_udelay = (\<lambda>n s. s),
     fk_msleep = (\<lambda>n s. s),
     fk_wait_ack = (\<lambda>s. (0, s)),
     fk_wait_key = (\<lambda>s. (1, s)),
     fk_down = (\<lambda>q s. (0, s\<lparr>fp_world := (fp_world s)\<lparr>fb_sem := fb_sem (fp_world s) - 1\<rparr>\<rparr>)),
     fk_up = (\<lambda>q w. w\<lparr>fb_sem := fb_sem w + 1\<rparr>),
     fk_sema_init = (\<lambda>q w. w\<lparr>fb_sem := 1\<rparr>),
     fk_mtd_read = (\<lambda>i n w. (Some (replicate n 0), w)),
     fk_copy_to_user = (\<lambda>a bs w. w),
     fk_copy_from_user = (\<lambda>a n w. replicate n 0)\<rparr>"

lemma bench_line: "asc_line b (bench_panel b) fb_rx fb_tx fb_en (\<lambda>w. True)"
proof -
  have "bit (4 :: u32) 2" "bit (5 :: u32) 2" "bit (5 :: u32) 0" "\<not> bit (4 :: u32) 0" by simp_all
  then show ?thesis by (simp add: asc_line_def bench_panel_def)
qed

lemma bench_delays: "fp_delays b (bench_panel b) fb_tx fb_en"
  by (simp add: fp_delays_def bench_panel_def irqs.none)

definition bench_start :: "fp_bench nuvoton" where
  "bench_start = \<lparr>RCVBuffer = ring_of [], KeyBuffer = ring_of [], OutBuffer = ring_of [], expectEventData = 0, expectEventId = 1,
     dataReady = 0, dataflag = 0, errorOccured = 0, ioctl_data = replicate 9 0, wakeup_time = replicate 5 0,
     FrontPanelOpen = replicate 2 \<lparr>fp_file = None, fp_read = 0\<rparr>,
     lastdata = \<lparr>ld_length = 0, ld_data = replicate 128 0, ld_brightness = 7, ld_display_on = 1, ld_buf = replicate 7 0\<rparr>, fp_mode = 0,
     fp_world = \<lparr>fb_rx = [], fb_tx = [], fb_en = 0, fb_sem = 1\<rparr>\<rparr>"

definition bench_with :: "u8 list \<Rightarrow> u8 list \<Rightarrow> fp_bench nuvoton" where
  "bench_with rcv bytes = bench_start\<lparr>RCVBuffer := ring_of rcv, fp_world := \<lparr>fb_rx = bytes, fb_tx = [], fb_en = 0, fb_sem = 1\<rparr>\<rparr>"

lemma bench_with:
  assumes "length rcv < BUFFERSIZE"
  shows "fp_ok (bench_with rcv bytes)" "received (bench_with rcv bytes) = rcv" "keys (bench_with rcv bytes) = []"
    "queued (bench_with rcv bytes) = []" "tx_armed fb_en (bench_with rcv bytes)" "fb_rx (fp_world (bench_with rcv bytes)) = bytes"
    "fb_tx (fp_world (bench_with rcv bytes)) = []" "ioctl_data (bench_with rcv bytes) = replicate 9 0"
  using ring_of [OF assms] ring_of [of "[]"]
  by (simp_all add: bench_with_def bench_start_def fp_ok_def queue_defs tx_armed_def)

text \<open>A key of the front panel, a key of the remote control and an answer with the time.\<close>

abbreviation key_bytes :: "u8 list" where "key_bytes \<equiv> [0, SOP, EVENT_BTN, 0x10, EOP]"
abbreviation rc_bytes :: "u8 list" where "rc_bytes \<equiv> [0, SOP, EVENT_RC, 0x10, 0x20, 0x30, EOP]"
abbreviation time_bytes :: "u8 list" where "time_bytes \<equiv> [0, SOP, EVENT_ANSWER_GETTIME, 0xdc, 0xd8, 12, 30, 59, EOP]"

lemma sample_packets:
  "good_packet HS7810A key_bytes" "good_packet HS7810A rc_bytes" "good_packet HS7810A time_bytes"
  "key_packet key_bytes" "key_packet rc_bytes" "\<not> key_packet time_bytes"
  by (simp_all add: good_packet_def next_packet_def first_eop_def packet_size_def cMinimumSize_def key_packet_def)

theorem nuvoton_packets_in_order_witness:
  "\<exists>s. panel_run HS7810A (bench_panel HS7810A) fb_rx (bench_with [] []) (key_bytes @ take 3 time_bytes) [] s \<and> received s \<noteq> [] \<and>
     (\<exists>k \<le> length [key_bytes, time_bytes]. \<exists>kp. key_bytes @ take 3 time_bytes = concat (take k [key_bytes, time_bytes]) @ received s @ fb_rx (fp_world s) \<and>
        keys s = concat kp \<and> [] @ kp = filter key_packet (take k [key_bytes, time_bytes]) \<and>
        ioctl_data s = answers (take k [key_bytes, time_bytes]) (replicate 9 0))"
proof -
  let ?b = HS7810A
  let ?K = "bench_panel HS7810A"
  let ?w = "\<lparr>fb_rx = key_bytes @ take 3 time_bytes, fb_tx = [], fb_en = 0, fb_sem = 1\<rparr>"
  let ?init = "bench_with [] []"
  let ?s = "?init\<lparr>fp_world := ?w\<rparr>"
  note start = bench_with [of "[]" "[]", simplified]
  have arr: "panel_run ?b ?K fb_rx ?init ([] @ (key_bytes @ take 3 time_bytes)) [] ?s"
    by (rule panel_run.arrive [OF panel_run.start]) (simp add: start)
  obtain s1 where s1: "FP_interrupt ?b ?K ?s = Some s1" "others_same ?s s1"
      "received s1 = put_all (received ?s) (fb_rx (fp_world ?s))"
    using interrupt_line [OF bench_line [of ?b], of ?s] start(1) by (metis fp_ok_world)
  have len: "pending (RCVBuffer ?s) = 0" "received ?s = []" "keys ?s = []"
    using start by (simp_all add: queue_defs flip: length_contents)
  have run: "panel_run ?b ?K fb_rx ?init (key_bytes @ take 3 time_bytes) [] s1"
    using panel_run.irq [OF arr _ s1(1)] len by simp
  have "received s1 \<noteq> []" using s1(3) len by (simp add: put_all_def)
  moreover have "\<exists>k \<le> length [key_bytes, time_bytes]. \<exists>kp. key_bytes @ take 3 time_bytes = concat (take k [key_bytes, time_bytes]) @ received s1 @ fb_rx (fp_world s1) \<and>
        keys s1 = concat kp \<and> [] @ kp = filter key_packet (take k [key_bytes, time_bytes]) \<and>
        ioctl_data s1 = answers (take k [key_bytes, time_bytes]) (ioctl_data ?init)"
    by (rule nuvoton_packets_in_order [OF bench_line start(1-3) start(6) run, of "drop 3 time_bytes"])
      (simp_all add: sample_packets)
  ultimately show ?thesis using run start(8) by (intro exI [of _ s1]) simp
qed

theorem nuvoton_packets_processed_witness:
  "\<exists>s'. task_run HS7810A (bench_panel HS7810A) 3 (bench_with (key_bytes @ time_bytes @ rc_bytes) []) = Some s' \<and> received s' = [] \<and>
     keys s' = key_bytes @ rc_bytes \<and> take 5 (ioctl_data s') = [0xdc, 0xd8, 12, 30, 59]"
  using nuvoton_packets_processed [OF bench_line [of HS7810A], of "bench_with (key_bytes @ time_bytes @ rc_bytes) []"
      "[key_bytes, time_bytes, rc_bytes]"] bench_with [of "key_bytes @ time_bytes @ rc_bytes" "[]"]
  by (auto simp: sample_packets answers_def put_answer_def numeral_eq_Suc)

text \<open>A key packet whose end mark comes too early.\<close>

theorem nuvoton_receiver_stuck_iff_witness:
  "doomed HS7810A [0, SOP, EVENT_BTN, EOP, EOP] \<and>
   (\<exists>t'. nuvotonTask_step HS7810A (bench_panel HS7810A) (bench_with [0, SOP, EVENT_BTN, EOP, EOP] []) = Some t' \<and>
      RCVBuffer t' = RCVBuffer (bench_with [0, SOP, EVENT_BTN, EOP, EOP] []))"
proof -
  let ?q = "[0, SOP, EVENT_BTN, EOP, EOP] :: u8 list"
  let ?s = "bench_with ?q []"
  have d: "doomed HS7810A ?q" by (simp add: doomed_def first_eop_def cMinimumSize_def)
  have "received ?s = ?q" "keys ?s = []" using bench_with [of ?q "[]"] by simp_all
  then show ?thesis
    using nuvoton_receiver_stuck_iff [OF bench_line [of HS7810A] bench_with(1) [of ?q "[]"], of ?q] d
      panel_run.start [of HS7810A "bench_panel HS7810A" fb_rx ?s] by fastforce
qed

theorem nuvoton_command_sent_witness:
  "\<exists>s1 s2. nuvotonWriteCommand HS7119 (bench_panel HS7119) [SOP, 0x10, EOP] False (bench_with [] []) = Some (0, s1) \<and>
     irq_rounds HS7119 (bench_panel HS7119) id 3 s1 = Some s2 \<and> fb_tx (fp_world s2) = [SOP, 0x10, EOP] \<and> queued s2 = [] \<and>
     \<not> bit (fb_en (fp_world s2)) 2 \<and> keys s2 = []"
  using nuvoton_command_sent [OF bench_line [of HS7119] bench_delays, of id "bench_with [] []" "[SOP, 0x10, EOP]" 3]
    bench_with [of "[]" "[]"] by simp

theorem nuvoton_get_time_witness:
  "\<exists>s'. nuvotonGetTime HS7119 (bench_panel HS7119) [1, 2, 3, 4, 5] (bench_with [] []) = Some ((0, [0, 0, 0, 0, 0]), s')"
  using nuvoton_get_time [OF bench_line [of HS7119] bench_delays, of "bench_with [] []" "[1, 2, 3, 4, 5]" 0 "[]"]
    bench_with [of "[]" "[]"] by (simp add: answers_def bench_panel_def numeral_eq_Suc)

theorem nuvoton_receive_overflow_witness:
  "\<exists>s'. FP_interrupt FS9000 (bench_panel FS9000) (bench_with (replicate 255 7) [1, 2]) = Some s' \<and> received s' = [2]"
  using nuvoton_receive_overflow [OF bench_line [of FS9000] bench_with(1), of "replicate 255 7" "[1, 2]"]
    bench_with [of "replicate 255 7" "[1, 2]"] by auto

end
