(* ===== verification/Nuvoton_Display.thy ===== *)
theory Nuvoton_Display
  imports Nuvoton_Led Nuvoton_Send
begin

unbundle bit_operations_syntax

text \<open>
  Which texts the boards with four digits can show without leaving an array, and what the line gets for a time of day.
\<close>

section \<open>Which texts can be shown\<close>

definition led_ok :: "'w nuvoton \<Rightarrow> bool" where
  "led_ok s \<longleftrightarrow> ring_ok (OutBuffer s) \<and> length (ld_data (lastdata s)) = 128"

text \<open>What runs while the driver delays, sleeps or waits for the semaphore keeps the shape of the buffers.\<close>

definition led_env :: "'w fp_kernel \<Rightarrow> bool" where
  "led_env K \<longleftrightarrow> (\<forall>n s. led_ok s \<longrightarrow> led_ok (fk_udelay K n s) \<and> led_ok (fk_msleep K n s)) \<and>
     (\<forall>q s. led_ok s \<longrightarrow> led_ok (snd (fk_down K q s)))"

definition printable :: "u8 \<Rightarrow> bool" where
  "printable c \<longleftrightarrow> 0x20 \<le> c \<and> c < 0x80"

lemma segments_None_iff: "segments c = None \<longleftrightarrow> \<not> printable c"
proof -
  have "length seg_fonts = 96" by (simp add: seg_fonts_def)
  moreover have "unat c - 32 < 96 \<longleftrightarrow> c < 0x80" if "\<not> c < 0x20"
    using that by (auto simp: word_less_nat_alt)
  ultimately show ?thesis by (auto simp: segments_def printable_def arr_get_def not_less)
qed

lemma putc_keeps:
  assumes "led_ok s"
  shows "\<exists>s'. nuvoton_putc b K c s = Some s' \<and> led_ok s'"
proof -
  obtain r where "ring_put c (OutBuffer s) = Some r" "ring_ok r"
    using ring_put_contents [of "OutBuffer s" c] assms unfolding led_ok_def by blast
  then show ?thesis
    using assms by (auto simp: nuvoton_putc_def led_ok_def asc_get_def asc_put_def Let_def split: prod.splits)
qed

lemma putc_all_keeps: "led_env K \<Longrightarrow> led_ok s \<Longrightarrow> \<exists>s'. putc_all b K cs s = Some s' \<and> led_ok s'"
proof (induction cs arbitrary: s)
  case (Cons c cs)
  then have "led_ok (fk_udelay K 1 s)" by (simp add: led_env_def)
  then obtain s1 where "nuvoton_putc b K c (fk_udelay K 1 s) = Some s1" "led_ok s1" using putc_keeps by blast
  then show ?case using Cons by simp
qed simp

lemma write_command_keeps:
  "led_env K \<Longrightarrow> led_ok s \<Longrightarrow> \<exists>s'. nuvotonWriteCommand b K cs False s = Some (0, s') \<and> led_ok s'"
  using putc_all_keeps [of K s b cs] by (auto simp: nuvotonWriteCommand_def)

text \<open>The characters that the HS7119 shows: after a colon at the third place they move up, and an uninitialised one follows.\<close>

definition shown_7119 :: "u8 list \<Rightarrow> u8 list \<Rightarrow> nat \<Rightarrow> nat \<Rightarrow> u8" where
  "shown_7119 junk a len i =
     (if a ! 2 = COLON \<and> 2 \<le> i then (if i + 1 < len then a ! (i + 1) else junk ! (i + 1)) else a ! i)"

lemma shift_left_eq:
  "1 \<le> i \<Longrightarrow> shift_left [i..<n] buf = (if n \<le> length buf \<or> n \<le> i
     then Some (map (\<lambda>k. if i - 1 \<le> k \<and> k < n - 1 then buf ! (k + 1) else buf ! k) [0..<length buf]) else None)"
proof (induction "n - i" arbitrary: i buf)
  case 0
  then have "[i..<n] = []" "n \<le> i" by auto
  then show ?case using 0 by (auto intro!: nth_equalityI)
next
  case (Suc d)
  then have upt: "[i..<n] = i # [Suc i..<n]" by (simp add: upt_conv_Cons)
  show ?case
  proof (cases "i < length buf")
    case False
    moreover from this Suc.hyps(2) have "\<not> n \<le> length buf" "\<not> n \<le> i" by auto
    ultimately show ?thesis by (simp add: upt arr_get_def)
  next
    case True
    let ?b = "buf[i - 1 := buf ! i]"
    have "map (\<lambda>k. if i \<le> k \<and> k < n - 1 then ?b ! (k + 1) else ?b ! k) [0..<length buf] =
        map (\<lambda>k. if i - 1 \<le> k \<and> k < n - 1 then buf ! (k + 1) else buf ! k) [0..<length buf]"
      using Suc.prems Suc.hyps(2) True by (auto simp: nth_list_update)
    then show ?thesis
      using Suc.hyps(1) [of "Suc i" ?b] Suc.hyps(2) Suc.prems True by (auto simp: upt arr_get_def arr_set_def)
  qed
qed

lemma add_segments_None_iff:
  "length cmd = 7 \<Longrightarrow> \<forall>i \<in> set is. i < length bBuf \<and> i < 5 \<Longrightarrow>
     (add_segments is bBuf cmd = None \<longleftrightarrow> (\<exists>i \<in> set is. \<not> printable (bBuf ! i)))"
proof (induction "is" arbitrary: cmd)
  case (Cons i "is")
  then show ?case
    by (cases "segments (bBuf ! i)") (auto simp: arr_get_def arr_set_def segments_None_iff [symmetric])
qed simp

text \<open>
  Exactly which texts the HS7119 can show without leaving an array. A text of five characters, such as a time of
  day with its colon, reads behind the buffer; more characters, which the ioctl passes on, are written
  behind it; a character that is not printable, or the uninitialised one that moves up behind a colon,
  reads outside the table of segments.
\<close>

theorem nuvoton_7119_defined_iff:
  assumes "led_env K" "led_ok s" "length junk = 5" "len \<le> length a" "2 < length a" "length a \<le> 128"
  shows "nuvotonWriteString LED_7119 K junk a len s \<noteq> None \<longleftrightarrow>
    len \<le> 5 \<and> (a ! 2 = COLON \<longrightarrow> len < 5) \<and> (\<forall>i < min len 4. printable (shown_7119 junk a len i))"
proof (cases "len \<le> 5")
  case False
  then show ?thesis using assms(3) by (simp add: nuvotonWriteString_def write_7119_def arr_copy_def)
next
  case True
  define b0 where "b0 = take len a @ drop len junk"
  have copy: "arr_copy junk 0 a 0 len = Some b0" using True assms by (simp add: b0_def arr_copy_def)
  have len0: "length b0 = 5" using True assms by (simp add: b0_def)
  have get: "arr_get a 2 = Some (a ! 2)" using assms by (simp add: arr_get_def)
  define b1 where "b1 = (if a ! 2 = COLON then map (\<lambda>k. if 2 \<le> k \<and> k < len then b0 ! (k + 1) else b0 ! k) [0..<5] else b0)"
  have b1: "length b1 = 5" using len0 by (simp add: b1_def)
  have shift: "shift_left [3..<Suc len] b0 = (if len < 5 then Some b1 else None)" if "a ! 2 = COLON"
    using shift_left_eq [of 3 "len + 1" b0] that True len0 by (auto simp: b1_def)
  have show1: "b1 ! i = shown_7119 junk a len i" if "i < len" "a ! 2 = COLON \<longrightarrow> len < 5" for i
  proof -
    have "junk ! len = junk ! Suc i" if "\<not> Suc i < len"
    proof -
      have "len = Suc i" using that \<open>i < len\<close> by linarith
      then show ?thesis by simp
    qed
    then show ?thesis using that True assms(3, 4) by (auto simp: b1_def b0_def shown_7119_def nth_append)
  qed
  define cmd where "cmd = (if a ! 2 = COLON then (replicate 7 0)[3 := 0x80] else replicate 7 (0 :: u8))"
  define fin where "fin cmd = (let cmd = cmd[0 := SOP, 1 := 0x24, 6 := EOP] in
      nuvotonWriteCommand HS7119 K cmd False s \<bind> (\<lambda>(res, s). save_text a len cmd s \<bind> (\<lambda>s. Some (res, s))))" for cmd
  have fin: "fin cmd \<noteq> None" for cmd
    using write_command_keeps [OF assms(1, 2), of HS7119 "cmd[0 := SOP, 1 := 0x24, 6 := EOP]"] assms(4, 6)
    by (auto simp: fin_def save_text_def arr_copy_def led_ok_def)
  have "write_7119 K junk a len s =
      (if a ! 2 = COLON \<and> \<not> len < 5 then None else add_segments [0..<min len 4] b1 cmd \<bind> fin)"
  proof (cases "a ! 2 = COLON")
    case True
    then show ?thesis
      unfolding write_7119_def fin_def copy get using shift by (cases "len < 5") (simp_all add: cmd_def del: upt_Suc)
  next
    case False
    then show ?thesis unfolding write_7119_def fin_def copy get by (simp add: cmd_def b1_def)
  qed
  then have "write_7119 K junk a len s \<noteq> None \<longleftrightarrow>
      (a ! 2 = COLON \<longrightarrow> len < 5) \<and> add_segments [0..<min len 4] b1 cmd \<noteq> None"
    using fin by (cases "add_segments [0..<min len 4] b1 cmd") simp_all
  also have "\<dots> \<longleftrightarrow> (a ! 2 = COLON \<longrightarrow> len < 5) \<and> (\<forall>i < min len 4. printable (shown_7119 junk a len i))"
    using add_segments_None_iff [of cmd "[0..<min len 4]" b1] b1 show1 by (auto simp: Ball_def cmd_def)
  finally show ?thesis using True by (simp add: nuvotonWriteString_def)
qed

lemma write_7119_keeps:
  assumes "led_env K" "led_ok s" "length junk = 5" "len \<le> 4" "len \<le> length a" "2 < length a" "length a \<le> 128"
    "\<forall>c \<in> set (take 4 a). printable c" "a ! 2 \<noteq> COLON"
  shows "\<exists>s'. nuvotonWriteString LED_7119 K junk a len s = Some (0, s') \<and> led_ok s'"
proof -
  have "printable (a ! i)" if "i < len" for i
    using that assms(4, 5, 8) nth_mem [of i "take 4 a"] by simp
  then have "nuvotonWriteString LED_7119 K junk a len s \<noteq> None"
    using nuvoton_7119_defined_iff [OF assms(1-3, 5-7)] assms(4, 9) by (simp add: shown_7119_def)
  moreover have "r = 0 \<and> led_ok s'" if "nuvotonWriteString LED_7119 K junk a len s = Some (r, s')" for r s'
  proof -
    have "res = 0 \<and> led_ok t" if "nuvotonWriteCommand HS7119 K cmd False s = Some (res, t)" for cmd res t
      using write_command_keeps [OF assms(1, 2), of HS7119 cmd] that by auto
    then show ?thesis
      using that assms(5, 7)
      by (fastforce simp: nuvotonWriteString_def write_7119_def bind_eq_Some_conv save_text_def Let_def led_ok_def arr_copy_def split: if_splits)
  qed
  ultimately show ?thesis by auto
qed

lemma scroll_keeps:
  assumes "led_env K" "length junk = 5" "length buf = 64" "\<forall>c \<in> set (take (m + 4) buf). printable c \<and> c \<noteq> COLON" "m + 4 \<le> 64"
  shows "led_ok s \<Longrightarrow> \<forall>p \<in> set ps. p \<le> m \<Longrightarrow> \<exists>s'. scroll LED_7119 K junk buf 4 ps s = Some s' \<and> led_ok s'"
proof (induction ps arbitrary: s)
  case (Cons p ps)
  have chars: "printable c \<and> c \<noteq> COLON" if "c \<in> set (take 4 (drop p buf))" for c
  proof -
    have "set (take 4 (drop p buf)) \<subseteq> set (take (m + 4) buf)"
      using set_take_subset_set_take [of "p + 4" "m + 4" buf] set_drop_subset [of p "take (p + 4) buf"] Cons.prems(2)
      by (auto simp: take_drop add.commute)
    then show ?thesis using that assms(4) by blast
  qed
  have "buf ! (p + 2) \<in> set (take 4 (drop p buf))"
    using nth_mem [of 2 "take 4 (drop p buf)"] Cons.prems(2) assms(3, 5) by auto
  moreover have "length (drop p buf) \<le> 128" "4 \<le> 64 - p" using assms(3) Cons.prems(2) assms(5) by auto
  ultimately obtain s1 where "nuvotonWriteString LED_7119 K junk (drop p buf) 4 s = Some (0, s1)" "led_ok s1"
    using write_7119_keeps [OF assms(1) Cons.prems(1) assms(2), of 4 "drop p buf"] chars Cons.prems(2) assms(3, 5) by auto
  moreover from this have "led_ok (fk_msleep K 300 s1)" using assms(1) by (simp add: led_env_def)
  ultimately show ?case using Cons.IH Cons.prems(2) by simp
qed simp

lemma show_text_7119:
  assumes K: "led_env K" "led_ok s" "length junk = 5" and llen: "llen \<le> length kb" "llen \<le> 64" and "2 < length kb" "length kb \<le> 128"
    and chars: "\<forall>c \<in> set kb. printable c \<and> c \<noteq> COLON"
  shows "show_text LED_7119 K junk kb llen 0 s \<noteq> None \<longleftrightarrow> llen \<le> 56"
proof (cases "llen \<le> 4")
  case True
  have "\<forall>c \<in> set (take 4 kb). printable c" "kb ! 2 \<noteq> COLON" using chars assms(6) by (auto dest: in_set_takeD)
  then show ?thesis
    using write_7119_keeps [OF K True llen(1) assms(6, 7)] True by (auto simp: show_text_def)
next
  case False
  show ?thesis
  proof (cases "llen \<le> 56")
    case small: True
    define buf where "buf = (replicate 3 SPACE @ take llen kb @ replicate (61 - llen) SPACE)[llen + 7 := 0]"
    have len: "length buf = 64" using small llen by (simp add: buf_def)
    have copy: "arr_copy (replicate 64 SPACE) 3 kb 0 llen \<bind> (\<lambda>buf. arr_set buf (llen + 3 + 4 + 0) 0) = Some buf"
      using small llen by (simp add: arr_copy_def arr_set_def buf_def add.commute)
    have "take (llen + 7) buf = replicate 3 SPACE @ take llen kb @ replicate 4 SPACE" using small llen by (simp add: buf_def min_def)
    moreover have "printable SPACE" by (simp add: printable_def)
    ultimately have ok: "\<forall>c \<in> set (take (llen + 3 + 4) buf). printable c \<and> c \<noteq> COLON" using chars by (auto simp: add.assoc dest: in_set_takeD)
    obtain s1 where s1: "scroll LED_7119 K junk buf 4 [0..<llen + 3] s = Some s1" "led_ok s1"
      using scroll_keeps [OF K(1, 3) len ok _ K(2), of "[0..<llen + 3]"] small by auto
    obtain s2 where s2: "clear_display LED_7119 K junk s1 = Some s2" "led_ok s2"
      using write_7119_keeps [OF K(1) s1(2) K(3), of 4 "replicate 12 SPACE"] by (auto simp: clear_display_def printable_def)
    obtain x where "nuvotonWriteString LED_7119 K junk (drop 3 buf) 4 s2 = Some x"
      using scroll_keeps [OF K(1, 3) len ok _ s2(2), of "[3]"] small by (auto simp: bind_eq_Some_conv)
    with copy s1 s2 small False show ?thesis by (auto simp: show_text_def bind_eq_Some_conv)
  next
    case large: False
    then show ?thesis using False llen
      by (auto simp: show_text_def arr_copy_def arr_set_def bind_eq_None_conv split: if_splits)
  qed
qed

definition file_open :: "nat \<Rightarrow> 'w nuvoton \<Rightarrow> bool" where
  "file_open filp s \<longleftrightarrow> find_minor filp s = Some 0"

text \<open>
  C34. Writing to the display of the HS7119. A text of printable characters without a colon is shown, scrolled if it is longer
  than the display, exactly if it has at least three and at most 56 characters: a shorter one reads
  behind the copy of the text, a longer one is written behind the local buffer of 64 characters.
\<close>

theorem nuvoton_write_7119_defined_iff:
  assumes K: "led_env K" and s: "led_ok s" "file_open filp s" "length junk = 5"
    and mem: "fk_kmalloc K len (fp_world s) = (Some xs, w)" and user: "fk_copy_from_user K buff len w = kb"
    and down: "fst (fk_down K Write_sem (s\<lparr>fp_world := w\<rparr>)) = 0"
    and kb: "length kb = len" "0 < len" "len \<le> 128" "\<forall>c \<in> set kb. printable c \<and> c \<noteq> COLON"
  shows "NUVOTONdev_write LED_7119 K junk filp buff len s \<noteq> None \<longleftrightarrow> 3 \<le> len \<and> len \<le> 56"
proof -
  obtain s1 where s1: "fk_down K Write_sem (s\<lparr>fp_world := w\<rparr>) = (0, s1)" using down by (metis prod.collapse)
  have "led_ok (s\<lparr>fp_world := w\<rparr>)" using s(1) by (simp add: led_ok_def)
  then have ok: "led_ok s1" using K s1 unfolding led_env_def by (metis snd_conv)
  have "len - 1 < length kb" using kb by simp
  then have "printable (kb ! (len - 1))" using kb(4) nth_mem by blast
  then have last: "arr_get kb (len - 1) = Some (kb ! (len - 1))" "kb ! (len - 1) \<noteq> 0x0a"
    using \<open>len - 1 < length kb\<close> by (auto simp: arr_get_def printable_def)
  have corr: "scroll_corr LED_7119 kb = (if 3 \<le> len then Some 0 else None)"
    using kb(1, 4) nth_mem [of 2 kb] by (auto simp: scroll_corr_def arr_get_def)
  have "NUVOTONdev_write LED_7119 K junk filp buff len s \<noteq> None \<longleftrightarrow>
      3 \<le> len \<and> show_text LED_7119 K junk kb (min len 64) 0 s1 \<noteq> None"
    using s(2) mem user s1 last corr kb(2)
    by (cases "show_text LED_7119 K junk kb (min len 64) 0 s1")
      (auto simp: NUVOTONdev_write_def file_open_def Let_def)
  also have "\<dots> \<longleftrightarrow> 3 \<le> len \<and> len \<le> 56"
    using show_text_7119 [OF K ok s(3), of "min len 64" kb] kb by auto
  finally show ?thesis .
qed

section \<open>The boards with periods\<close>

definition ascii :: "u8 list \<Rightarrow> bool" where
  "ascii cs \<longleftrightarrow> (\<forall>c \<in> set cs. c < 0x80)"

text \<open>The state of the evaluation of a text: the arrays have their sizes and the number of characters fits.\<close>

definition text_ok :: "led_text \<Rightarrow> bool" where
  "text_ok t = (case t of (cmd, buf, n) \<Rightarrow> length cmd = 7 \<and> length buf = 9 \<and> n \<le> 8 \<and> ascii buf)"

lemma ascii_update: "ascii cs \<Longrightarrow> c < 0x80 \<Longrightarrow> ascii (cs[i := c])"
  unfolding ascii_def using set_update_subset_insert [of cs i c] by blast

lemma ascii_nth: "ascii cs \<Longrightarrow> i < length cs \<Longrightarrow> cs ! i < 0x80"
  unfolding ascii_def by simp

lemma shift_left_ascii:
  "ascii buf \<Longrightarrow> length buf = 9 \<Longrightarrow> \<forall>i \<in> set is. i < 9 \<Longrightarrow> \<exists>buf'. shift_left is buf = Some buf' \<and> ascii buf' \<and> length buf' = 9"
proof (induction "is" arbitrary: buf)
  case (Cons i "is")
  then show ?case using ascii_update [OF _ ascii_nth] by (auto simp: arr_get_def arr_set_def)
qed simp

lemma drop_char_ok:
  assumes "text_ok t" "length cmd = 7"
  shows "\<exists>t'. drop_char i cmd t = Some t' \<and> text_ok t'"
proof -
  obtain c buf n where t: "t = (c, buf, n)" by (cases t)
  then have "\<exists>buf'. shift_left [i..<n + 1] buf = Some buf' \<and> ascii buf' \<and> length buf' = 9"
    using assms(1) by (intro shift_left_ascii) (auto simp: text_ok_def)
  then show ?thesis using t assms by (auto simp: drop_char_def text_ok_def)
qed

lemma third_char_ok: "text_ok t \<Longrightarrow> \<exists>t'. third_char m i t = Some t' \<and> text_ok t'"
  using drop_char_ok [of t] by (cases t) (auto simp: third_char_def arr_get_def text_ok_def)

lemma period_3_ok: "text_ok t \<Longrightarrow> \<exists>t'. period_3 t = Some t' \<and> text_ok t'"
  using drop_char_ok [of t] ascii_update by (cases t) (auto simp: period_3_def arr_get_def text_ok_def)

lemma period_4_ok:
  assumes "text_ok t"
  shows "\<exists>t'. period_4 t = Some t' \<and> text_ok t'"
proof -
  obtain cmd buf n where t: "t = (cmd, buf, n)" by (cases t)
  have "text_ok (cmd, buf[3 := SPACE], n)" using assms t ascii_update by (auto simp: text_ok_def)
  then show ?thesis using drop_char_ok [of t] drop_char_ok [of "(cmd, buf[3 := SPACE], n)"] assms t
    by (auto simp: period_4_def arr_get_def text_ok_def)
qed

lemma led_chars_ok:
  "ascii buf \<Longrightarrow> length buf = 9 \<Longrightarrow> length cmd = 7 \<Longrightarrow> \<forall>i \<in> set is. i < 4 \<Longrightarrow>
     \<exists>cmd'. led_chars is buf cmd = Some cmd' \<and> length cmd' = 7"
proof (induction "is" arbitrary: cmd)
  case (Cons i "is")
  then have "buf ! i < 0x80" by (intro ascii_nth) auto
  then have "\<exists>f. segments (buf ! i) = Some f" if "\<not> buf ! i < 0x20"
    using that segments_None_iff [of "buf ! i"] by (auto simp: printable_def)
  then show ?case using Cons by (fastforce simp: arr_get_def)
qed simp

lemma led_command_ok:
  assumes "len \<le> 8" "len \<le> length a" "ascii (take len a)"
  shows "\<exists>cmd. led_command a len = Some cmd \<and> length cmd = 7"
proof -
  let ?b = "take len a @ replicate (9 - len) 0"
  have copy: "arr_copy (replicate 9 0) 0 a 0 len = Some ?b" "arr_set ?b len 0 = Some ?b"
    using assms by (auto simp: arr_copy_def arr_set_def list_update_append intro!: nth_equalityI simp: nth_list_update)
  have "text_ok (replicate 7 0, ?b, len)" using assms by (auto simp: text_ok_def ascii_def)
  then obtain t1 where t1: "third_char PERIOD 2 (replicate 7 0, ?b, len) = Some t1" "text_ok t1" using third_char_ok by blast
  obtain t2 where t2: "third_char COLON 3 t1 = Some t2" "text_ok t2" using third_char_ok [OF t1(2)] by blast
  obtain t3 where t3: "period_3 t2 = Some t3" "text_ok t3" using period_3_ok [OF t2(2)] by blast
  obtain cmd buf n where t4: "period_4 t3 = Some (cmd, buf, n)" "text_ok (cmd, buf, n)" using period_4_ok [OF t3(2)] by (metis prod_cases3)
  obtain cmd' where "led_chars [0..<4] buf cmd = Some cmd'" "length cmd' = 7"
    using led_chars_ok [of buf cmd "[0..<4]"] t4(2) by (auto simp: text_ok_def)
  moreover have "length (fold (\<lambda>i cmd. cmd[i + 2 := cmd ! (i + 2) AND 0x80]) is xs) = length xs" for "is" :: "nat list" and xs :: "u8 list"
    by (induction "is" arbitrary: xs) simp_all
  ultimately show ?thesis
    using copy t1(1) t2(1) t3(1) t4(1) by (simp add: led_command_def Let_def)
qed

text \<open>The segments of a printable character.\<close>

definition glyph :: "u8 \<Rightarrow> u8" where
  "glyph c = seg_fonts ! (unat c - 32)"

lemma segments_glyph: "printable c \<Longrightarrow> segments c = Some (glyph c)"
  using segments_None_iff [of c] by (auto simp: segments_def glyph_def arr_get_def split: if_splits)

definition plain :: "u8 \<Rightarrow> bool" where
  "plain c \<longleftrightarrow> printable c \<and> c \<noteq> PERIOD \<and> c \<noteq> COLON"

lemma led_command_time:
  assumes "plain a" "plain b" "plain c" "plain d"
  shows "led_command ([a, b, COLON, c, d] @ r) 5 = Some [SOP, 0x24, glyph a, 0x80 OR glyph b, glyph c, glyph d, EOP]"
proof -
  have "[0..<4 :: nat] = [0, 1, 2, 3]" "[3..<6 :: nat] = [3, 4, 5]" by (simp_all add: upt_rec)
  moreover have "\<not> x < 0x20" "segments x = Some (glyph x)" if "plain x" for x
    using that segments_glyph [of x] by (auto simp: plain_def printable_def)
  moreover have "(COLON = PERIOD) = False" "(0 = PERIOD) = False" "(0 = COLON) = False" by simp_all
  ultimately show ?thesis using assms
    by (simp add: led_command_def arr_copy_def arr_set_def arr_get_def third_char_def drop_char_def period_3_def period_4_def
        plain_def numeral_eq_Suc Let_def)
qed

text \<open>
  On the HS7810A and the HS7819 every text of ASCII characters can be shown, whatever marks it holds: no array is left and the
  command is sent.
\<close>

theorem nuvoton_78xx_total:
  assumes "led_env K" "led_ok s" "l \<noteq> LED_7119" "min len 8 \<le> length a" "ascii (take 8 a)"
  shows "\<exists>s'. nuvotonWriteString l K junk a len s = Some (0, s') \<and> led_ok s'"
proof -
  let ?n = "min len 8"
  have "ascii (take ?n a)" using assms(5) set_take_subset_set_take [of ?n 8 a] by (auto simp: ascii_def)
  then obtain cmd where "led_command a ?n = Some cmd" using led_command_ok [of ?n a] assms(4) by auto
  moreover have arr_copy_ok: "\<exists>d. arr_copy (ld_data (lastdata s)) 0 a 0 ?n = Some d \<and> length d = 128"
    using assms(2, 4) by (simp add: led_ok_def arr_copy_def min_def)
  then obtain d where d: "arr_copy (ld_data (lastdata s)) 0 a 0 ?n = Some d" "length d = 128"
    using arr_copy_ok by blast
  moreover from this have "led_ok (s\<lparr>lastdata := (lastdata s)\<lparr>ld_data := d\<rparr>\<rparr>)" using assms(2) by (simp add: led_ok_def)
  then obtain s' where "nuvotonWriteCommand (fp_board_of l) K cmd False (s\<lparr>lastdata := (lastdata s)\<lparr>ld_data := d\<rparr>\<rparr>) = Some (0, s')" "led_ok s'"
    using write_command_keeps [OF assms(1)] by blast
  ultimately show ?thesis using assms(3) by (simp add: nuvotonWriteString_def write_78xx_def led_ok_def)
qed

text \<open>
  C21. A time of day on the HS7810A and the HS7819: of a text with a colon at the third place the line gets the command with the
  segments of the four other characters, the colon switched on at the second digit, after all that
  waited before it.
\<close>

theorem nuvoton_time_shown:
  assumes "asc_line (fp_board_of l) K rx tx en ready" "fp_delays (fp_board_of l) K tx en"
    "\<And>w. ready (h w) \<and> tx (h w) = tx w \<and> en (h w) = en w"
    "fp_ok s" "tx_armed en s" "length (ld_data (lastdata s)) = 128" "length (queued s) + 7 < BUFFERSIZE" "length (queued s) + 7 \<le> n"
    "l \<noteq> LED_7119" "plain a" "plain b" "plain c" "plain d"
  shows "\<exists>s1 s2. nuvotonWriteString l K junk ([a, b, COLON, c, d] @ r) 5 s = Some (0, s1) \<and>
    irq_rounds (fp_board_of l) K h n s1 = Some s2 \<and> queued s2 = [] \<and>
    tx (fp_world s2) = tx (fp_world s) @ queued s @ [SOP, 0x24, glyph a, 0x80 OR glyph b, glyph c, glyph d, EOP]"
proof -
  let ?cmd = "[SOP, 0x24, glyph a, 0x80 OR glyph b, glyph c, glyph d, EOP]"
  let ?text = "[a, b, COLON, c, d] @ r"
  obtain d' where d': "arr_copy (ld_data (lastdata s)) 0 ?text 0 5 = Some d'" using assms(6) by (auto simp: arr_copy_def)
  let ?s = "s\<lparr>lastdata := (lastdata s)\<lparr>ld_data := d'\<rparr>\<rparr>"
  have s: "fp_ok ?s" "tx_armed en ?s" "queued ?s = queued s" using assms(4, 5) by (simp_all add: fp_ok_def tx_armed_def queued_def)
  obtain s1 where s1: "putc_all (fp_board_of l) K ?cmd ?s = Some s1" "fp_ok s1" "tx_armed en s1"
      "length (queued s1) \<le> length (queued s) + 7" "tx (fp_world s1) @ queued s1 = tx (fp_world s) @ queued s @ ?cmd"
    using putc_all_queues [OF assms(1, 2) s(1, 2), of ?cmd] s(3) assms(7) by auto
  define s2 where "s2 = s1\<lparr>lastdata := (lastdata s1)\<lparr>ld_buf := ?cmd, ld_length := 5\<rparr>\<rparr>"
  have "nuvotonWriteString l K junk ?text 5 s = Some (0, s2)"
    using assms(9) d' s1(1) led_command_time [OF assms(10-13), of r]
    by (simp add: nuvotonWriteString_def write_78xx_def nuvotonWriteCommand_def s2_def del: putc_all.simps)
  moreover have "fp_ok s2" "tx_armed en s2" "queued s2 = queued s1" "fp_world s2 = fp_world s1"
    using s1(2, 3) by (simp_all add: s2_def fp_ok_def tx_armed_def queued_def)
  ultimately show ?thesis
    using irq_rounds_send [OF assms(1, 3), of s2 n] s1(4, 5) assms(8) by auto
qed

section \<open>A machine\<close>

lemma bench_led: "led_env (bench_panel b)" "led_ok (bench_with [] [])"
  using ring_of [of "[]"] by (simp_all add: led_env_def bench_panel_def led_ok_def bench_with_def bench_start_def)

text \<open>A file on the first minor device, with a user who writes the text \<open>bs\<close>.\<close>

definition bench_text :: "u8 list \<Rightarrow> fp_bench fp_kernel" where
  "bench_text bs = (bench_panel HS7119)\<lparr>fk_copy_from_user := (\<lambda>a n w. take n bs)\<rparr>"

definition bench_file :: "fp_bench nuvoton" where
  "bench_file = (bench_with [] [])\<lparr>FrontPanelOpen := [\<lparr>fp_file = Some 7, fp_read = 0\<rparr>, \<lparr>fp_file = None, fp_read = 0\<rparr>]\<rparr>"

lemma bench_text:
  "fk_kmalloc (bench_text bs) n w = (Some (replicate n 0), w)" "fk_copy_from_user (bench_text bs) a n w = take n bs"
  "fst (fk_down (bench_text bs) q s) = 0"
  by (simp_all add: bench_text_def bench_panel_def)

theorem nuvoton_write_7119_defined_iff_witness:
  "NUVOTONdev_write LED_7119 (bench_text (replicate 56 0x41)) (replicate 5 0) 7 0 56 bench_file \<noteq> None \<and>
   NUVOTONdev_write LED_7119 (bench_text (replicate 57 0x41)) (replicate 5 0) 7 0 57 bench_file = None"
proof -
  have "led_env (bench_text bs)" "led_ok bench_file" for bs
    using bench_led by (simp_all add: led_env_def bench_text_def bench_panel_def bench_file_def led_ok_def)
  moreover have "file_open 7 bench_file" by (simp add: file_open_def find_minor_def bench_file_def upt_rec)
  ultimately show ?thesis
    using nuvoton_write_7119_defined_iff [of "bench_text (replicate 56 0x41)" bench_file 7 "replicate 5 0" 56 "replicate 56 0"
        "fp_world bench_file" 0 "replicate 56 0x41"]
      nuvoton_write_7119_defined_iff [of "bench_text (replicate 57 0x41)" bench_file 7 "replicate 5 0" 57 "replicate 57 0"
        "fp_world bench_file" 0 "replicate 57 0x41"]
    by (simp add: bench_text printable_def del: not_None_eq not_Some_eq)
qed

theorem nuvoton_time_shown_witness:
  "\<exists>s1 s2. nuvotonWriteString LED_7810A (bench_panel HS7810A) [] [0x31, 0x32, COLON, 0x35, 0x39] 5 (bench_with [] []) = Some (0, s1) \<and>
     irq_rounds HS7810A (bench_panel HS7810A) id 7 s1 = Some s2 \<and> queued s2 = [] \<and>
     fb_tx (fp_world s2) = [SOP, 0x24, 0x06, 0xdb, 0x6d, 0x6f, EOP]"
  using nuvoton_time_shown [where l = LED_7810A and K = "bench_panel HS7810A" and rx = fb_rx and tx = fb_tx and en = fb_en and
      ready = "\<lambda>w. True" and h = id and s = "bench_with [] []" and n = 7 and
      a = "0x31" and b = "0x32" and c = "0x35" and d = "0x39" and junk = "[]" and r = "[]"]
    bench_with [of "[]" "[]"] bench_line [of HS7810A] bench_delays [of HS7810A] bench_led(2)
  by (simp add: led_ok_def plain_def printable_def glyph_def seg_fonts_def)

end
