(* ===== verification/Nuvoton_Init.thy ===== *)
theory Nuvoton_Init
  imports Nuvoton_Ioctl Nuvoton_Display
begin

unbundle bit_operations_syntax

text \<open>
  The ioctls and the initialisation of the boards with four digits: \<open>panel_wf\<close> is what every ioctl keeps, \<open>panel_env\<close> what the
  rest of the system is expected to keep meanwhile.
\<close>

section \<open>Every ioctl keeps the state well-formed\<close>

text \<open>\<open>cnt\<close> is the value of the semaphore \<^verbatim>\<open>write_sem\<close>, \<open>m\<close> the mode.\<close>

definition panel_wf :: "('w \<Rightarrow> nat) \<Rightarrow> nat \<Rightarrow> int \<Rightarrow> 'w nuvoton \<Rightarrow> bool" where
  "panel_wf cnt n m s \<longleftrightarrow> ring_ok (OutBuffer s) \<and> length (ld_data (lastdata s)) = 128 \<and> length (ld_buf (lastdata s)) = 7 \<and>
     length (ioctl_data s) = 9 \<and> length (wakeup_time s) = 5 \<and> fp_mode s = m \<and> cnt (fp_world s) = n"

text \<open>What runs while the driver delays or sleeps keeps the sizes of the buffers, the mode and the semaphore.\<close>

definition panel_env :: "('w \<Rightarrow> nat) \<Rightarrow> 'w fp_kernel \<Rightarrow> bool" where
  "panel_env cnt K \<longleftrightarrow>
     (\<forall>n m s i. panel_wf cnt n m s \<longrightarrow> panel_wf cnt n m (fk_udelay K i s) \<and> panel_wf cnt n m (fk_msleep K i s) \<and>
        panel_wf cnt n m (snd (fk_wait_ack K s))) \<and>
     (\<forall>m s. panel_wf cnt 1 m s \<longrightarrow> panel_wf cnt (if fst (fk_down K Write_sem s) = 0 then 0 else 1) m (snd (fk_down K Write_sem s))) \<and>
     (\<forall>a w. cnt (snd (fk_get K a w)) = cnt w) \<and> (\<forall>a v w. cnt (fk_put K a v w) = cnt w) \<and>
     (\<forall>w. cnt (fk_up K Write_sem w) = cnt w + 1) \<and> (\<forall>w. cnt (fk_sema_init K Write_sem w) = 1) \<and>
     (\<forall>i n w. cnt (snd (fk_mtd_read K i n w)) = cnt w)"

lemma panel_wf_updates [simp]:
  "panel_wf cnt n m (s\<lparr>errorOccured := e\<rparr>) = panel_wf cnt n m s"
  "panel_wf cnt n m (s\<lparr>dataReady := e\<rparr>) = panel_wf cnt n m s"
  "panel_wf cnt n m (s\<lparr>dataflag := e\<rparr>) = panel_wf cnt n m s"
  by (simp_all add: panel_wf_def)

lemma putc_wf:
  assumes "panel_env cnt K" "panel_wf cnt n m s"
  shows "yields (panel_wf cnt n m) (nuvoton_putc b K c s)"
proof -
  obtain r where "ring_put c (OutBuffer s) = Some r" "ring_ok r"
    using ring_put_contents [of "OutBuffer s" c] assms(2) unfolding panel_wf_def by blast
  moreover have "cnt w' = cnt w" if "fk_get K a w = (v, w')" for a w v w'
    using assms(1) that unfolding panel_env_def by (metis snd_conv)
  moreover have "cnt (fk_put K a v w) = cnt w" for a v w using assms(1) by (simp add: panel_env_def)
  ultimately show ?thesis
    using assms(2) by (auto simp: nuvoton_putc_def yields_def panel_wf_def asc_get_def asc_put_def Let_def split: prod.splits)
qed

lemma putc_all_wf: "panel_env cnt K \<Longrightarrow> panel_wf cnt n m s \<Longrightarrow> yields (panel_wf cnt n m) (putc_all b K cs s)"
proof (induction cs arbitrary: s)
  case (Cons c cs)
  then have "panel_wf cnt n m (fk_udelay K 1 s)" by (simp add: panel_env_def)
  then show ?case using Cons by (auto intro!: yields_bind [OF putc_wf])
qed simp

abbreviation result_wf :: "('w \<Rightarrow> nat) \<Rightarrow> nat \<Rightarrow> int \<Rightarrow> 'a \<times> 'w nuvoton \<Rightarrow> bool" where
  "result_wf cnt n m r \<equiv> panel_wf cnt n m (snd r)"

lemma ack_wf:
  assumes "panel_env cnt K" "panel_wf cnt n m s"
  shows "panel_wf cnt n m (snd (ack_sem_down K s))"
proof -
  have "panel_wf cnt n m (snd (fk_wait_ack K (s\<lparr>dataReady := 0\<rparr>)))" using assms by (simp add: panel_env_def)
  then show ?thesis by (auto simp: ack_sem_down_def Let_def split: prod.splits)
qed

lemma command_wf:
  assumes "panel_env cnt K" "panel_wf cnt n m s"
  shows "yields (result_wf cnt n m) (nuvotonWriteCommand b K cs ack s)"
proof -
  have "panel_wf cnt n m t'" if "panel_wf cnt n m t" "ack_sem_down K t = (r, t')" for t r t'
    using ack_wf [OF assms(1) that(1)] that(2) by simp
  then show ?thesis
    unfolding nuvotonWriteCommand_def
    by (intro yields_bind [OF putc_all_wf [OF assms]]) (auto simp: Let_def split: prod.splits)
qed

lemma command_wf_result:
  assumes "panel_env cnt K" "panel_wf cnt n m s" "nuvotonWriteCommand b K cs ack s = Some (r, s')"
  shows "panel_wf cnt n m s'"
  using command_wf [OF assms(1, 2)] assms(3) by (metis snd_conv yieldsD)

lemma yields_map_option: "yields P (map_option f x) = yields (\<lambda>y. P (f y)) x"
  by (cases x) (simp_all add: yields_def)

lemma arr_copy_yields:
  "d + n \<le> length xs \<Longrightarrow> i + n \<le> length ys \<Longrightarrow> yields (\<lambda>zs. length zs = length xs) (arr_copy xs d ys i n)"
  by (auto simp: arr_copy_def yields_def)

lemma arr_get_yields: "i < length xs \<Longrightarrow> yields (\<lambda>x. x = xs ! i) (arr_get xs i)"
  by (simp add: arr_get_def)

lemma arr_set_yields: "i < length xs \<Longrightarrow> yields (\<lambda>ys. ys = xs[i := v]) (arr_set xs i v)"
  by (simp add: arr_set_def)

lemma arr_slice_yields: "i + n \<le> length xs \<Longrightarrow> yields (\<lambda>ys. ys = take n (drop i xs)) (arr_slice xs i n)"
  by (simp add: arr_slice_def)

lemma string_wf:
  assumes "panel_env cnt K" "panel_wf cnt n m s" "l \<noteq> LED_7119" "min len 8 \<le> length a" "ascii (take (min len 8) a)"
  shows "yields (result_wf cnt n m) (nuvotonWriteString l K junk a len s)"
proof -
  let ?n = "min len 8"
  have "ascii (take ?n a)" using assms(5) .
  then obtain cmd where cmd: "led_command a ?n = Some cmd" "length cmd = 7" using led_command_ok [of ?n a] assms(4) by auto
  have "\<exists>d. arr_copy (ld_data (lastdata s)) 0 a 0 ?n = Some d \<and> length d = 128"
    using assms(2, 4) by (simp add: panel_wf_def arr_copy_def min_def)
  then obtain d where d: "arr_copy (ld_data (lastdata s)) 0 a 0 ?n = Some d" "length d = 128" by blast
  have "panel_wf cnt n m (s\<lparr>lastdata := (lastdata s)\<lparr>ld_data := d\<rparr>\<rparr>)" using assms(2) d(2) by (simp add: panel_wf_def)
  from command_wf [OF assms(1) this, of "fp_board_of l" cmd False] show ?thesis
    using assms(3) cmd d by (auto simp: nuvotonWriteString_def write_78xx_def yields_def panel_wf_def)
qed

lemma clear_display_wf:
  "panel_env cnt K \<Longrightarrow> panel_wf cnt n m s \<Longrightarrow> l \<noteq> LED_7119 \<Longrightarrow> yields (panel_wf cnt n m) (clear_display l K junk s)"
  using string_wf [of cnt K n m s l 4 "replicate 12 SPACE" junk]
  by (simp add: clear_display_def yields_map_option ascii_def)

lemma icon_byte_less: "icon_byte l which < 7"
  by (simp add: icon_byte_def)

lemma icon_wf:
  assumes "panel_env cnt K" "panel_wf cnt n m s"
  shows "yields (result_wf cnt n m) (nuvotonSetIcon l K which on s)"
proof (cases "which < 1 \<or> which > ICON_MAX l - 1")
  case True
  then show ?thesis using assms(2) by (simp add: nuvotonSetIcon_def)
next
  case False
  have len: "length (ld_buf (lastdata s)) = 7" using assms(2) by (simp add: panel_wf_def)
  have "panel_wf cnt n m (s\<lparr>lastdata := (lastdata s)\<lparr>ld_buf := (ld_buf (lastdata s))[i := v]\<rparr>\<rparr>)" for i v
    using assms(2) by (simp add: panel_wf_def)
  from command_wf [OF assms(1) this] show ?thesis
    using False len icon_byte_less [of l which] by (simp add: nuvotonSetIcon_def arr_get_def arr_set_def arr_slice_def)
qed

lemma icons_wf: "panel_env cnt K \<Longrightarrow> panel_wf cnt n m s \<Longrightarrow> yields (result_wf cnt n m) (set_icons l K on is s)"
proof (induction "is" arbitrary: s)
  case (Cons i "is")
  have "yields (result_wf cnt n m) (set_icons l K on is t \<bind> (\<lambda>(r', t). Some (r OR r', t)))" if "panel_wf cnt n m t" for t r
    by (rule yields_bind [OF Cons.IH [OF Cons.prems(1) that]]) auto
  then show ?case
    unfolding set_icons.simps by (intro yields_bind [OF icon_wf [OF Cons.prems]]) auto
qed simp

lemma send_commands_wf: "panel_env cnt K \<Longrightarrow> panel_wf cnt n m s \<Longrightarrow> yields (panel_wf cnt n m) (send_commands l K cs s)"
proof (induction cs arbitrary: s)
  case (Cons c cs)
  obtain cmd sleep where c: "c = (cmd, sleep)" by (cases c)
  have "panel_wf cnt n m (fk_msleep K 1 t)" if "panel_wf cnt n m t" for t using Cons.prems(1) that by (simp add: panel_env_def)
  then have "yields (panel_wf cnt n m) (send_commands l K cs (if sleep then fk_msleep K 1 t else t))" if "panel_wf cnt n m t" for t
    using Cons.IH [OF Cons.prems(1)] that by simp
  then show ?case
    unfolding c send_commands.simps by (intro yields_bind [OF command_wf [OF Cons.prems]]) auto
qed simp

lemma init_wf:
  assumes "panel_env cnt K" "panel_wf cnt n m s" "l \<noteq> LED_7119"
  shows "yields (result_wf cnt 1 m) (nuvoton_init_func l K junk s)"
proof -
  let ?s = "s\<lparr>lastdata := (lastdata s)\<lparr>ld_display_on := 1, ld_brightness := 7\<rparr>, fp_world := fk_sema_init K Write_sem (fp_world s)\<rparr>"
  let ?rest = "\<lambda>s. arr_copy (wakeup_time s) 0 [0x9e, 0x8b, 0, 0, 0] 0 5 \<bind> (\<lambda>wake. Some (0, s\<lparr>wakeup_time := wake\<rparr>))"
  have s: "panel_wf cnt 1 m ?s" using assms(1, 2) by (simp add: panel_wf_def panel_env_def)
  have rest: "yields (result_wf cnt 1 m) (?rest t)" if "panel_wf cnt 1 m t" for t
    using that by (auto simp: yields_def panel_wf_def arr_copy_def)
  have "ascii (take (min 4 8) [0x2d, 0x2d, 0x2d, 0x2d, 0])" by (simp add: ascii_def)
  then have dashes: "yields (result_wf cnt 1 m) (nuvotonWriteString l K junk [0x2d, 0x2d, 0x2d, 0x2d, 0] 4 t \<bind> (\<lambda>(_, s). ?rest s))"
    if "panel_wf cnt 1 m t" for t
    using rest by (intro yields_bind [OF string_wf [OF assms(1) that assms(3)]]) auto
  have icons: "yields (result_wf cnt 1 m) (set_icons l K 0 [1..<nat (ICON_MAX l)] t \<bind>
      (\<lambda>(_, s). nuvotonWriteString l K junk [0x2d, 0x2d, 0x2d, 0x2d, 0] 4 s \<bind> (\<lambda>(_, s). ?rest s)))" if "panel_wf cnt 1 m t" for t
    using dashes by (intro yields_bind [OF icons_wf [OF assms(1) that]]) auto
  show ?thesis
    unfolding nuvoton_init_func_def Let_def by (intro yields_bind [OF send_commands_wf [OF assms(1) s]] icons)
qed

lemma set_commands_wf:
  assumes "panel_env cnt K" "panel_wf cnt n m s"
  shows "yields (result_wf cnt n m) (nuvotonSetLED b K which level s)"
    and "yields (result_wf cnt n m) (nuvotonSetBrightness b K level s)"
    and "yields (result_wf cnt n m) (nuvotonSetDisplayOnOff l K c s)"
    and "yields (result_wf cnt n m) (nuvotonSetTimeFormat b K c s)"
    and "5 \<le> length time \<Longrightarrow> yields (result_wf cnt n m) (nuvotonSetTime b K time s)"
  using command_wf [OF assms] assms(2)
  by (auto simp: nuvotonSetLED_def nuvotonSetBrightness_def nuvotonSetDisplayOnOff_def nuvotonSetTimeFormat_def nuvotonSetTime_def
      yields_map_option set_brightness_def arr_slice_def panel_wf_def split_beta)

lemma standby_wf:
  assumes "panel_env cnt K" "panel_wf cnt n m s" "4 \<le> length time"
  shows "yields (result_wf cnt n m) (nuvotonSetStandby b K time s)"
proof -
  have "arr_slice time 0 4 = Some (take 4 time)" using assms(3) by (simp add: arr_slice_def)
  then show ?thesis
    using command_wf [OF assms(1)] assms(2) unfolding nuvotonSetStandby_def
    by (auto intro!: yields_bind [OF command_wf [OF assms(1, 2)]])
qed

lemma wakeup_time_wf:
  assumes "panel_env cnt K" "panel_wf cnt n m s" "4 \<le> length time"
  shows "yields (result_wf cnt n m) (nuvotonSetWakeUpTime b K time s)"
proof -
  have "arr_slice time 0 4 = Some (take 4 time)" using assms(3) by (simp add: arr_slice_def)
  moreover have "yields (result_wf cnt n m) (arr_copy (wakeup_time t) 0 time 0 4 \<bind> (\<lambda>w. arr_set w 4 0 \<bind> (\<lambda>w. Some (r, t\<lparr>wakeup_time := w\<rparr>))))"
    if "panel_wf cnt n m t" for t and r :: int
    using that assms(3) by (auto simp: panel_wf_def yields_def arr_copy_def arr_set_def)
  ultimately show ?thesis
    unfolding nuvotonSetWakeUpTime_def by (auto intro!: yields_bind [OF command_wf [OF assms(1, 2)]])
qed

lemma ask_wf:
  assumes "panel_env cnt K" "panel_wf cnt n m s"
  shows "length time = 5 \<Longrightarrow> yields (result_wf cnt n m) (nuvotonGetTime b K time s)"
    and "yields (result_wf cnt n m) (nuvotonGetWakeUpMode b K s)"
proof -
  have s: "panel_wf cnt n m (s\<lparr>errorOccured := 0\<rparr>)" using assms(2) by simp
  note ask = yields_bind [OF command_wf [OF assms(1) s]]
  show "yields (result_wf cnt n m) (nuvotonGetTime b K time s)" if "length time = 5"
    unfolding nuvotonGetTime_def using that
    by (intro ask) (auto simp: panel_wf_def yields_def arr_copy_def)
  show "yields (result_wf cnt n m) (nuvotonGetWakeUpMode b K s)"
    unfolding nuvotonGetWakeUpMode_def by (intro ask) (auto simp: panel_wf_def yields_def arr_get_def)
qed

lemma small_sint: "unat (c :: u8) \<le> 16 \<Longrightarrow> \<not> sint c < 0"
proof -
  assume "unat c \<le> 16"
  moreover have "uint c = int (unat c)" by (simp only: uint_nat)
  ultimately have "0 \<le> uint c" "uint c < 128" by linarith+
  then have "signed_take_bit 7 (uint c) = uint c" by (intro signed_take_bit_int_eq_self order_trans [OF _ uint_ge_0]) simp_all
  then have "sint c = uint c" by (simp add: sint_uint)
  then show ?thesis by simp
qed

lemma vfd_test_wf:
  assumes "panel_env cnt K" "panel_wf cnt n m s" "17 \<le> length data" "unat (data ! 0) \<le> 16"
  shows "yields (\<lambda>r. result_wf cnt n m r \<and> length (snd (fst r)) = length data) (nuvotonVfdTest b K data s)"
proof -
  let ?n = "unat (data ! 0)"
  have s: "panel_wf cnt n m (s\<lparr>ioctl_data := replicate 9 0, errorOccured := 0\<rparr>)" using assms(2) by (simp add: panel_wf_def)
  note ask = yields_bind [OF command_wf [OF assms(1) s]]
  have "\<not> sint (data ! 0) < 0" using assms(4) by (rule small_sint)
  moreover have "yields (\<lambda>zs. length zs = length ((replicate 18 (0 :: u8))[0 := SOP])) (arr_copy ((replicate 18 0)[0 := SOP]) 1 data 1 ?n)"
    using assms(3, 4) by (intro arr_copy_yields) simp_all
  then obtain buf where "arr_copy ((replicate 18 0)[0 := SOP]) 1 data 1 ?n = Some buf" "length buf = 18"
    unfolding yields_def by auto
  moreover have "arr_get data 0 = Some (data ! 0)" using assms(3) by (auto simp: arr_get_def)
  moreover have "yields (\<lambda>r. result_wf cnt n m r \<and> length (snd (fst r)) = length data)
      (if errorOccured t = 1 then arr_copy data 1 (replicate 9 0) 0 9 \<bind>
         (\<lambda>data. arr_set data 0 (word_of_int (- FP_ETIMEDOUT)) \<bind> (\<lambda>data. Some ((- FP_ETIMEDOUT, data), t)))
       else if dataflag t = 0 then map_option (\<lambda>data. ((res, data), t)) (arr_copy data 0 (replicate 4 0) 0 4)
       else map_option (\<lambda>data. ((res, data), t)) (arr_copy data 0 ([0, 1] @ ioctl_data t) 0 11))" if "panel_wf cnt n m t" for t res
    using that assms(3) by (auto simp: panel_wf_def yields_def arr_copy_def arr_set_def)
  ultimately show ?thesis
    unfolding nuvotonVfdTest_def using assms(4)
    by (simp add: arr_set_def) (rule ask, clarsimp)
qed

definition mode_kept :: "u32 set" where
  "mode_kept = {VFDSETLED, VFDSTANDBY, VFDSETPOWERONTIME, VFDGETWAKEUPTIME, VFDSETTIME, VFDGETTIME, VFDGETWAKEUPMODE}"

definition next_mode :: "u32 \<Rightarrow> u8 list \<Rightarrow> int \<Rightarrow> int" where
  "next_mode cmd arg m = (if cmd = VFDSETMODE then the (user_int arg 0) else if cmd \<in> mode_kept then m else 0)"

text \<open>
  The structure of the caller, of which only two commands trust the contents: for a text (in the mode of the vfd
  driver) the number of characters, of which at most eight are shown, and for a test the number of bytes.
\<close>

definition arg_ok :: "int \<Rightarrow> u32 \<Rightarrow> u8 list \<Rightarrow> bool" where
  "arg_ok m cmd arg \<longleftrightarrow> 66 \<le> length arg \<and>
     (cmd = VFDDISPLAYCHARS \<and> m = 0 \<longrightarrow> unat (arg ! 65) \<le> 64 \<and> ascii (take (min (unat (arg ! 65)) 8) (drop 1 arg))) \<and>
     (cmd = VFDTEST \<longrightarrow> unat (arg ! 0) \<le> 16)"

abbreviation ioctl_wf :: "('w \<Rightarrow> nat) \<Rightarrow> nat \<Rightarrow> int \<Rightarrow> u8 list \<Rightarrow> (int \<times> u8 list) \<times> 'w nuvoton \<Rightarrow> bool" where
  "ioctl_wf cnt n m arg r \<equiv> panel_wf cnt n m (snd r) \<and> length (snd (fst r)) = length arg"

lemma user_int_Some: "i + 4 \<le> length arg \<Longrightarrow> \<exists>v. user_int arg i = Some v"
  by (simp add: user_int_def arr_slice_def)

lemma user_byte_Some: "i < length arg \<Longrightarrow> \<exists>v. user_byte arg i = Some v"
  by (simp add: user_byte_def arr_get_def)

lemma yields_keep: "yields (result_wf cnt n m) x \<Longrightarrow> yields (ioctl_wf cnt n m arg) (map_option (keep_mode arg) x)"
  by (auto simp: yields_def keep_mode_def)

lemma yields_vfd: "yields (result_wf cnt n m) x \<Longrightarrow> yields (ioctl_wf cnt n 0 arg) (map_option (vfd_mode arg) x)"
  by (auto simp: yields_def vfd_mode_def panel_wf_def)

lemma icon_ioctl_wf:
  assumes "panel_env cnt K" "panel_wf cnt n m s" "66 \<le> length arg"
  shows "yields (result_wf cnt n m) (ioctl_icon l K arg s)"
proof -
  obtain a b c d where "user_byte arg 1 = Some a" "user_byte arg 5 = Some b" "user_int arg 0 = Some c" "user_int arg 4 = Some d"
    using user_byte_Some [of 1 arg] user_byte_Some [of 5 arg] user_int_Some [of 0 arg] user_int_Some [of 4 arg] assms(3) by auto
  then show ?thesis using icon_wf [OF assms(1, 2)] icons_wf [OF assms(1, 2)] by (simp add: ioctl_icon_def Let_def)
qed

lemma chars_ioctl_wf:
  assumes "panel_env cnt K" "panel_wf cnt n m s" "l \<noteq> LED_7119" "arg_ok m VFDDISPLAYCHARS arg"
  shows "yields (ioctl_wf cnt n 0 arg) (ioctl_chars l K junk arg s)"
proof (cases "fp_mode s = 0")
  case False
  then show ?thesis using assms(2) by (simp add: ioctl_chars_def panel_wf_def)
next
  case True
  let ?n = "unat (arg ! 65)"
  let ?arg = "arg[1 + ?n := 0]"
  have m: "m = 0" using True assms(2) by (simp add: panel_wf_def)
  then have arg: "66 \<le> length arg" "?n \<le> 64" "ascii (take (min ?n 8) (drop 1 arg))" using assms(4) by (simp_all add: arg_ok_def)
  have "arr_get arg 65 = Some (arg ! 65)" "arr_set arg (1 + ?n) 0 = Some ?arg" "arr_get ?arg 65 = Some (?arg ! 65)"
    using arg by (simp_all add: arr_get_def arr_set_def)
  moreover have "ascii (take (min (unat (?arg ! 65)) 8) (drop 1 ?arg))"
  proof (cases "?n = 64")
    case False
    have "take (min ?n 8) (drop 1 ?arg) = take (min ?n 8) (drop 1 arg)" by (simp add: drop_update_swap take_update_cancel)
    moreover have "?arg ! 65 = arg ! 65" using False by simp
    ultimately show ?thesis using arg(3) by simp
  next
    case True
    then have "?arg ! 65 = 0" using arg(1) by simp
    then show ?thesis by (simp only: unat_0) (simp add: ascii_def)
  qed
  then have "yields (result_wf cnt n m) (nuvotonWriteString l K junk (drop 1 ?arg) (unat (?arg ! 65)) s)"
    using arg by (intro string_wf [OF assms(1-3)]) simp_all
  ultimately show ?thesis using True m by (auto simp: ioctl_chars_def yields_def)
qed

lemma version_wf:
  assumes "panel_env cnt K" "panel_wf cnt n m s"
  shows "panel_wf cnt n m (snd (nuvotonGetVersion K s))"
proof -
  have "cnt (snd (fk_mtd_read K 0x430 8 (fp_world s))) = cnt (fp_world s)" using assms(1) by (simp add: panel_env_def)
  then show ?thesis using assms(2) by (auto simp: nuvotonGetVersion_def panel_wf_def split: prod.splits option.splits)
qed

lemmas ioctl_defs = ioctl_command_def next_mode_def mode_kept_def

abbreviation step_wf :: "('w \<Rightarrow> nat) \<Rightarrow> nat \<Rightarrow> int \<Rightarrow> u32 \<Rightarrow> u8 list \<Rightarrow> (int \<times> u8 list) \<times> 'w nuvoton \<Rightarrow> bool" where
  "step_wf cnt n m cmd arg \<equiv> ioctl_wf cnt (if cmd = VFDDRIVERINIT then 1 else n) (next_mode cmd arg m) arg"

lemma ioctl_settings_wf:
  assumes "panel_env cnt K" "panel_wf cnt n m s" "l \<noteq> LED_7119" "66 \<le> length arg"
    and cmd: "cmd \<in> {VFDSETMODE, VFDSETLED, VFDBRIGHTNESS, VFDDRIVERINIT, VFDICONDISPLAYONOFF, VFDDISPLAYWRITEONOFF, VFDSETTIMEFORMAT}"
  shows "yields (step_wf cnt n m cmd arg) (ioctl_command l K junk v cmd arg s)"
proof -
  have ne: "0 < length arg" using assms(4) by linarith
  obtain a c d where args: "user_int arg 0 = Some c" "user_int arg 4 = Some d" "user_byte arg 0 = Some a"
    using user_int_Some [of 0 arg] user_int_Some [of 4 arg] user_byte_Some [OF ne] assms(4) by auto
  have first: "arr_get arg 0 = Some (arg ! 0)" "arr_set arg 0 c = Some (arg[0 := c])" for c
    using ne by (auto simp: arr_get_def arr_set_def)
  have format: "yields (ioctl_wf cnt n 0 arg) (map_option (vfd_mode (arg[0 := c])) x)" if "yields (result_wf cnt n m) x" for x c
    using yields_vfd [OF that, of "arg[0 := c]"] by simp
  note sets = set_commands_wf [OF assms(1, 2)]
  from cmd consider "cmd = VFDSETMODE" | "cmd = VFDSETLED" | "cmd = VFDBRIGHTNESS" | "cmd = VFDDRIVERINIT" | "cmd = VFDICONDISPLAYONOFF"
    | "cmd = VFDDISPLAYWRITEONOFF" | "cmd = VFDSETTIMEFORMAT" by blast
  then show ?thesis
  proof cases
    case 1
    then show ?thesis using assms(2) args by (simp add: ioctl_defs panel_wf_def)
  next
    case 2
    then show ?thesis using args yields_keep [OF sets(1)] by (simp add: ioctl_defs)
  next
    case 3
    then show ?thesis using args yields_vfd [OF sets(2)] by (simp add: ioctl_defs)
  next
    case 4
    then show ?thesis using yields_vfd [OF init_wf [OF assms(1-3)]] by (simp add: ioctl_defs)
  next
    case 5
    then show ?thesis using yields_vfd [OF icon_ioctl_wf [OF assms(1, 2, 4)]] by (simp add: ioctl_defs)
  next
    case 6
    then show ?thesis using first yields_vfd [OF sets(3)] by (simp add: ioctl_defs)
  next
    case 7
    then show ?thesis using first format [OF sets(4)] by (simp add: ioctl_defs Let_def)
  qed
qed

lemma ioctl_times_wf:
  assumes "panel_env cnt K" "panel_wf cnt n m s" "l \<noteq> LED_7119" "66 \<le> length arg"
    and cmd: "cmd \<in> {VFDSTANDBY, VFDSETPOWERONTIME, VFDGETWAKEUPTIME, VFDSETTIME, VFDGETTIME, VFDGETWAKEUPMODE}"
  shows "yields (step_wf cnt n m cmd arg) (ioctl_command l K junk v cmd arg s)"
proof -
  have len: "4 \<le> length arg" "5 \<le> length arg" "0 < length arg" using assms(4) by linarith+
  have wake: "length (wakeup_time s) = 5" using assms(2) by (simp add: panel_wf_def)
  from cmd consider "cmd = VFDSTANDBY" | "cmd = VFDSETPOWERONTIME" | "cmd = VFDGETWAKEUPTIME" | "cmd = VFDSETTIME" | "cmd = VFDGETTIME"
    | "cmd = VFDGETWAKEUPMODE" by blast
  then show ?thesis
  proof cases
    case 1
    obtain t where "clear_display l K junk s = Some t" "panel_wf cnt n m t"
      using clear_display_wf [OF assms(1-3)] unfolding yields_def by blast
    then show ?thesis using yields_keep [OF standby_wf [OF assms(1) _ len(1)]] 1 by (simp add: ioctl_defs)
  next
    case 2
    then show ?thesis using yields_keep [OF wakeup_time_wf [OF assms(1, 2) len(1)]] by (simp add: ioctl_defs)
  next
    case 3
    then show ?thesis using assms(2) len(2) wake by (simp add: ioctl_defs arr_copy_def)
  next
    case 4
    then show ?thesis using yields_keep [OF set_commands_wf(5) [OF assms(1, 2) len(2)]] by (simp add: ioctl_defs)
  next
    case 5
    obtain r t where "nuvotonGetTime (fp_board_of l) K (replicate 5 0) s = Some (r, t)" "panel_wf cnt n m t"
      using ask_wf(1) [OF assms(1, 2), of "replicate 5 0" "fp_board_of l"] by (auto simp: yields_def)
    moreover from this have "length (ioctl_data t) = 9" by (simp add: panel_wf_def)
    ultimately show ?thesis using 5 len(2) by (cases r) (simp add: ioctl_defs arr_copy_def)
  next
    case 6
    obtain r t where "nuvotonGetWakeUpMode (fp_board_of l) K s = Some (r, t)" "panel_wf cnt n m t"
      using ask_wf(2) [OF assms(1, 2), of "fp_board_of l"] by (auto simp: yields_def)
    then show ?thesis using 6 len(3) by (cases r) (simp add: ioctl_defs arr_set_def)
  qed
qed

lemma ioctl_version_wf:
  assumes "panel_env cnt K" "panel_wf cnt n m s" "66 \<le> length arg"
  shows "yields (ioctl_wf cnt n 0 arg) (ioctl_command l K junk v VFDGETVERSION arg s)"
proof -
  obtain res w t where v: "nuvotonGetVersion K s = ((res, w), t)" by (metis prod.collapse)
  then have "panel_wf cnt n m t" using version_wf [OF assms(1, 2)] by simp
  then have "panel_wf cnt n 0 (t\<lparr>fp_mode := 0\<rparr>)" by (simp add: panel_wf_def)
  moreover have "yields (\<lambda>zs. length zs = length arg) (arr_copy arg 0 (u32_bytes d0 @ u32_bytes d1) 0 8)" for d0 d1
    using assms(3) by (intro arr_copy_yields) (simp_all add: u32_bytes_def)
  ultimately show ?thesis using v by (simp add: ioctl_command_def yields_map_option split: prod.split)
qed

lemma ioctl_command_wf:
  assumes "panel_env cnt K" "panel_wf cnt n m s" "l \<noteq> LED_7119" "arg_ok m cmd arg"
  shows "yields (step_wf cnt n m cmd arg) (ioctl_command l K junk v cmd arg s)"
proof -
  have len: "66 \<le> length arg" using assms(4) by (simp add: arg_ok_def)
  consider "cmd \<in> {VFDSETMODE, VFDSETLED, VFDBRIGHTNESS, VFDDRIVERINIT, VFDICONDISPLAYONOFF, VFDDISPLAYWRITEONOFF, VFDSETTIMEFORMAT}"
    | "cmd \<in> {VFDSTANDBY, VFDSETPOWERONTIME, VFDGETWAKEUPTIME, VFDSETTIME, VFDGETTIME, VFDGETWAKEUPMODE}"
    | "cmd = VFDDISPLAYCHARS" | "cmd = VFDGETVERSION" | "cmd = VFDTEST"
    | "cmd \<notin> {VFDSETMODE, VFDSETLED, VFDBRIGHTNESS, VFDDRIVERINIT, VFDICONDISPLAYONOFF, VFDDISPLAYWRITEONOFF, VFDSETTIMEFORMAT,
        VFDSTANDBY, VFDSETPOWERONTIME, VFDGETWAKEUPTIME, VFDSETTIME, VFDGETTIME, VFDGETWAKEUPMODE, VFDDISPLAYCHARS, VFDGETVERSION, VFDTEST}"
    by blast
  then show ?thesis
  proof cases
    case 1
    then show ?thesis by (rule ioctl_settings_wf [OF assms(1-3) len])
  next
    case 2
    then show ?thesis by (rule ioctl_times_wf [OF assms(1-3) len])
  next
    case 3
    then show ?thesis using chars_ioctl_wf [OF assms(1-3)] assms(4) by (simp add: ioctl_defs)
  next
    case 4
    then show ?thesis using ioctl_version_wf [OF assms(1, 2) len] by (simp add: next_mode_def mode_kept_def)
  next
    case 5
    then have "17 \<le> length arg" "unat (arg ! 0) \<le> 16" using assms(4) len by (simp_all add: arg_ok_def)
    from vfd_test_wf [OF assms(1, 2) this, of "fp_board_of l"] show ?thesis
      using 5 by (auto simp: ioctl_defs yields_def panel_wf_def)
  next
    case 6
    then show ?thesis using assms(2) by (simp add: ioctl_defs panel_wf_def)
  qed
qed

text \<open>
  C22. On the HS7810A and the HS7819 every ioctl is defined if the caller's structure of 66 bytes is readable and writable, the length of a
  text to show is at most 64 with ASCII characters in the part that is shown, and a test of the line has at most 16
  bytes: no array is left, the buffers keep their sizes, and the semaphore is free again, except that \<^verbatim>\<open>VFDDRIVERINIT\<close> initialises the semaphore that
  the ioctl holds, so that afterwards two threads get it. The mode that the user sets lasts until the next command that
  is not one of \<open>mode_kept\<close>.
\<close>

theorem nuvoton_ioctl_wf:
  assumes "panel_env cnt K" "panel_wf cnt 1 m s" "fst (fk_down K Write_sem s) = 0" "l \<noteq> LED_7119" "arg_ok m cmd arg"
  shows "\<exists>r arg' s'. NUVOTONdev_ioctl l K junk v cmd arg s = Some ((r, arg'), s') \<and> length arg' = length arg \<and>
    panel_wf cnt (if cmd = VFDDRIVERINIT then 2 else 1) (next_mode cmd arg m) s'"
proof -
  obtain t where t: "fk_down K Write_sem s = (0, t)" using assms(3) by (metis prod.collapse)
  have "panel_wf cnt 0 m t"
    using assms(1) [unfolded panel_env_def] assms(2) t by (metis fst_conv snd_conv)
  then obtain r arg' u where u: "ioctl_command l K junk v cmd arg t = Some ((r, arg'), u)" "length arg' = length arg"
      "panel_wf cnt (if cmd = VFDDRIVERINIT then 1 else 0) (next_mode cmd arg m) u"
    using ioctl_command_wf [OF assms(1) _ assms(4, 5), of 0 t junk v] unfolding yields_def by auto
  moreover have "cnt (fk_up K Write_sem w) = cnt w + 1" for w using assms(1) by (simp add: panel_env_def)
  ultimately show ?thesis using t by (auto simp: NUVOTONdev_ioctl_def panel_wf_def)
qed

text \<open>The length of a test is not compared with the buffer of 18 bytes.\<close>

lemma nuvoton_test_overflow: "data \<noteq> [] \<Longrightarrow> 16 < unat (data ! 0) \<Longrightarrow> nuvotonVfdTest b K data s = None"
  by (auto simp: nuvotonVfdTest_def arr_get_def arr_copy_def arr_set_def bind_eq_None_conv split: if_splits)

section \<open>What the initialisation sends\<close>

text \<open>
  While the driver sleeps, the interrupt handler and the thread run any number of times, in any order; between their
  runs bytes may arrive and the transmitter may become ready. Neither of them sends a byte that does not wait in
  \<open>OutBuffer\<close>, and the thread leaves the transmit side alone, whatever has been received.
\<close>

inductive panel_steps :: "fp_board \<Rightarrow> 'w fp_kernel \<Rightarrow> ('w \<Rightarrow> u8 list) \<Rightarrow> ('w \<Rightarrow> u32) \<Rightarrow> 'w nuvoton \<Rightarrow> 'w nuvoton \<Rightarrow> bool"
  for b K tx en s where
  none: "panel_steps b K tx en s s"
| handler: "panel_steps b K tx en s s' \<Longrightarrow> tx w' = tx (fp_world s') \<Longrightarrow> en w' = en (fp_world s') \<Longrightarrow>
    FP_interrupt b K (s'\<lparr>fp_world := w'\<rparr>) = Some s'' \<Longrightarrow> panel_steps b K tx en s s''"
| thread: "panel_steps b K tx en s s' \<Longrightarrow> tx w' = tx (fp_world s') \<Longrightarrow> en w' = en (fp_world s') \<Longrightarrow>
    nuvotonTask_step b K (s'\<lparr>fp_world := w'\<rparr>) = Some s'' \<Longrightarrow> panel_steps b K tx en s s''"

definition sender_same :: "'w nuvoton \<Rightarrow> 'w nuvoton \<Rightarrow> bool" where
  "sender_same s s' \<longleftrightarrow> OutBuffer s' = OutBuffer s \<and> lastdata s' = lastdata s \<and> wakeup_time s' = wakeup_time s"

lemma copy_key_ring: "copy_key rcv is key = Some key' \<Longrightarrow> ring_ok key \<Longrightarrow> ring_ok key'"
proof (induction "is" arbitrary: key)
  case (Cons i "is")
  obtain c buf where "arr_set (rbuf key) (rstart key mod BUFFERSIZE) c = Some buf"
      "copy_key rcv is (key\<lparr>rbuf := buf, rstart := (rstart key + 1) mod BUFFERSIZE\<rparr>) = Some key'"
    using Cons.prems(1) by (auto simp: bind_eq_Some_conv)
  then show ?case
    using Cons.IH [of "key\<lparr>rbuf := buf, rstart := (rstart key + 1) mod BUFFERSIZE\<rparr>"] Cons.prems(2)
    by (auto simp: ring_ok_def arr_set_def split: if_splits)
qed simp

text \<open>What the thread keeps, for whatever bytes wait.\<close>

definition thread_ok :: "'w nuvoton \<Rightarrow> bool" where
  "thread_ok s \<longleftrightarrow> ring_ok (RCVBuffer s) \<and> ring_ok (KeyBuffer s) \<and> errorOccured s = 0 \<and> length (ioctl_data s) = 9"

lemma key_event_keeps: "key_event K n s = Some s' \<Longrightarrow> thread_ok s \<Longrightarrow> thread_ok s' \<and> sender_same s s'"
  using copy_key_ring [of "RCVBuffer s" "[0..<n]" "KeyBuffer s"]
  by (auto simp: key_event_def bind_eq_Some_conv rcv_skip_def wake_up_def thread_ok_def sender_same_def ring_ok_def split: if_splits)

lemma rsp_common_keeps: "rsp_common K n s = Some s' \<Longrightarrow> thread_ok s \<Longrightarrow> thread_ok s' \<and> sender_same s s'"
  by (auto simp: rsp_common_def handleCopyData_def copyData_def ack_sem_up_def wake_up_def rcv_skip_def bind_eq_Some_conv
      arr_copy_def thread_ok_def sender_same_def ring_ok_def Let_def split: if_splits prod.splits)

lemma handle_event_keeps: "handle_event K s = Some s' \<Longrightarrow> thread_ok s \<Longrightarrow> thread_ok s' \<and> sender_same s s'"
  using key_event_keeps [of K _ s s'] rsp_common_keeps [of K _ s s']
  by (auto simp: handle_event_size thread_ok_def sender_same_def ring_ok_def split: option.splits if_splits)

lemma thread_keeps:
  assumes "fp_ok s" "nuvotonTask_step b K s = Some s'"
  shows "fp_ok s' \<and> sender_same s s'"
proof (cases "rstart (RCVBuffer s) = rend (RCVBuffer s)")
  case True
  then show ?thesis using assms by (simp add: nuvotonTask_step_def sender_same_def)
next
  case False
  then have res: "processResponse b K s = Some s'" using assms(2) by (simp add: nuvotonTask_step_def)
  have ok: "thread_ok (s\<lparr>expectEventData := e, expectEventId := 0\<rparr>)" "expectEventId s = 1" "ring_ok (OutBuffer s)" for e
    using assms(1) by (simp_all add: fp_ok_def thread_ok_def)
  then have "thread_ok s' \<and> sender_same s s' \<and> expectEventId s' = 1"
    using res handle_event_keeps [OF _ ok(1), of K]
    by (fastforce simp: processResponse_def bind_eq_Some_conv sender_same_def thread_ok_def split: if_splits)
  then show ?thesis using ok(3) by (simp add: fp_ok_def thread_ok_def sender_same_def)
qed

lemma panel_steps_conserve:
  assumes line: "asc_line b K rx tx en ready" and ok: "fp_ok s" "tx_armed en s" and steps: "panel_steps b K tx en s s'"
  shows "fp_ok s' \<and> tx_armed en s' \<and> lastdata s' = lastdata s \<and> wakeup_time s' = wakeup_time s \<and>
    length (queued s') \<le> length (queued s) \<and> tx (fp_world s') @ queued s' = tx (fp_world s) @ queued s"
  using steps
proof induction
  case none
  show ?case using ok by simp
next
  case (handler s' w' s'')
  let ?t = "s'\<lparr>fp_world := w'\<rparr>"
  have "irqs b K tx en ?t s''" using irqs.more [OF irqs.none, of tx w' ?t en b K s''] handler.hyps by simp
  moreover have "fp_ok ?t" "tx_armed en ?t" using handler by (simp_all add: tx_armed_def)
  ultimately show ?case using irqs_conserve [OF line, of ?t s''] handler by (auto simp: others_same_def)
next
  case (thread s' w' s'')
  let ?t = "s'\<lparr>fp_world := w'\<rparr>"
  have "fp_ok ?t" using thread.IH by simp
  note keeps = thread_keeps [OF this thread.hyps(4)]
  have "same_line rx tx en ?t s''"
    using processResponse_line [OF line, of ?t s''] thread.hyps(4) by (auto simp: nuvotonTask_step_def same_line_refl split: if_splits)
  then show ?case using thread keeps by (auto simp: same_line_def sender_same_def tx_armed_def queued_def)
qed

definition fp_sleeps :: "fp_board \<Rightarrow> 'w fp_kernel \<Rightarrow> ('w \<Rightarrow> u8 list) \<Rightarrow> ('w \<Rightarrow> u32) \<Rightarrow> bool" where
  "fp_sleeps b K tx en \<longleftrightarrow> (\<forall>n s. panel_steps b K tx en s (fk_msleep K n s))"

text \<open>From \<open>s\<close> to \<open>s'\<close> the bytes \<open>bs\<close> have been sent or wait behind those before.\<close>

definition sends :: "('w \<Rightarrow> u8 list) \<Rightarrow> ('w \<Rightarrow> u32) \<Rightarrow> u8 list \<Rightarrow> 'w nuvoton \<Rightarrow> 'w nuvoton \<Rightarrow> bool" where
  "sends tx en bs s s' \<longleftrightarrow> fp_ok s' \<and> tx_armed en s' \<and> wakeup_time s' = wakeup_time s \<and>
     length (ld_data (lastdata s')) = length (ld_data (lastdata s)) \<and>
     length (queued s') \<le> length (queued s) + length bs \<and> tx (fp_world s') @ queued s' = tx (fp_world s) @ queued s @ bs"

lemma sends_trans:
  assumes "sends tx en bs s t" "sends tx en cs t u"
  shows "sends tx en (bs @ cs) s u"
  using assms by (auto simp: sends_def)

lemma command_sends:
  assumes "asc_line b K rx tx en ready" "fp_delays b K tx en" "fp_ok s" "tx_armed en s" "length (queued s) + length cs < BUFFERSIZE"
  shows "\<exists>s'. nuvotonWriteCommand b K cs False s = Some (0, s') \<and> sends tx en cs s s' \<and> lastdata s' = lastdata s"
  using putc_all_queues [OF assms] by (auto simp: nuvotonWriteCommand_def sends_def others_same_def)

lemma send_commands_sends:
  assumes line: "asc_line (fp_board_of l) K rx tx en ready" "fp_delays (fp_board_of l) K tx en" "fp_sleeps (fp_board_of l) K tx en"
  shows "fp_ok s \<Longrightarrow> tx_armed en s \<Longrightarrow> length (queued s) + length (concat (map fst cs)) < BUFFERSIZE \<Longrightarrow>
    \<exists>s'. send_commands l K cs s = Some s' \<and> sends tx en (concat (map fst cs)) s s' \<and> lastdata s' = lastdata s"
proof (induction cs arbitrary: s)
  case Nil
  then show ?case by (simp add: sends_def)
next
  case (Cons c cs)
  obtain cmd sleep where c: "c = (cmd, sleep)" by (cases c)
  obtain t where t: "nuvotonWriteCommand (fp_board_of l) K cmd False s = Some (0, t)" "sends tx en cmd s t" "lastdata t = lastdata s"
    using command_sends [OF line(1, 2) Cons.prems(1, 2), of cmd] Cons.prems(3) c by auto
  let ?t = "if sleep then fk_msleep K 1 t else t"
  have "panel_steps (fp_board_of l) K tx en t (fk_msleep K 1 t)" using line(3) by (simp add: fp_sleeps_def)
  then have sleep: "sends tx en [] t ?t \<and> lastdata ?t = lastdata t"
    using panel_steps_conserve [OF line(1), of t] t(2) by (simp add: sends_def)
  then have "sends tx en cmd s ?t" using sends_trans [OF t(2)] by fastforce
  moreover from this obtain u where "send_commands l K cs ?t = Some u" "sends tx en (concat (map fst cs)) ?t u" "lastdata u = lastdata ?t"
    using Cons.IH [of ?t] Cons.prems(3) c by (auto simp: sends_def)
  ultimately show ?case using t sleep c sends_trans by fastforce
qed

lemma icons_send:
  assumes line: "asc_line (fp_board_of l) K rx tx en ready" "fp_delays (fp_board_of l) K tx en"
  shows "fp_ok s \<Longrightarrow> tx_armed en s \<Longrightarrow> ld_buf (lastdata s) = replicate 7 0 \<Longrightarrow> \<forall>i \<in> set is. 0 < i \<and> int i < ICON_MAX l \<Longrightarrow>
    length (queued s) + 7 * length is < BUFFERSIZE \<Longrightarrow>
    \<exists>s'. set_icons l K 0 is s = Some (0, s') \<and> sends tx en (replicate (7 * length is) 0) s s' \<and> lastdata s' = lastdata s"
proof (induction "is" arbitrary: s)
  case Nil
  then show ?case by (simp add: sends_def)
next
  case (Cons i "is")
  let ?i = "icon_byte l (int i)"
  have zero: "(replicate 7 (0 :: u8))[k := 0] = replicate 7 0" for k
    by (cases "k < 7") (simp_all add: list_update_same_conv list_update_beyond)
  have "(lastdata s)\<lparr>ld_buf := replicate 7 0\<rparr> = lastdata s" using Cons.prems(3) by (cases "lastdata s") simp
  then have same: "s\<lparr>lastdata := (lastdata s)\<lparr>ld_buf := replicate 7 0\<rparr>\<rparr> = s" by (cases s) simp
  have "nuvotonSetIcon l K (int i) 0 s = nuvotonWriteCommand (fp_board_of l) K (replicate 7 0) False s"
    using Cons.prems(3, 4) icon_byte_less [of l "int i"] zero [of ?i] by (simp add: nuvotonSetIcon_def arr_get_def arr_set_def arr_slice_def same)
  moreover obtain t where t: "nuvotonWriteCommand (fp_board_of l) K (replicate 7 0) False s = Some (0, t)"
      "sends tx en (replicate 7 0) s t" "lastdata t = lastdata s"
    using command_sends [OF line Cons.prems(1, 2), of "replicate 7 0"] Cons.prems(5) by auto
  moreover from t obtain u where "set_icons l K 0 is t = Some (0, u)" "sends tx en (replicate (7 * length is) 0) t u" "lastdata u = lastdata t"
    using Cons.IH [of t] Cons.prems(3-5) by (auto simp: sends_def)
  ultimately show ?case using sends_trans [OF t(2)] by (fastforce simp: replicate_add [symmetric])
qed

lemma dashes_7119:
  assumes "length junk = 5"
  shows "write_7119 K junk [0x2d, 0x2d, 0x2d, 0x2d, 0] 4 s =
    nuvotonWriteCommand HS7119 K [SOP, 0x24, 0x40, 0x40, 0x40, 0x40, EOP] False s \<bind>
      (\<lambda>(res, s). save_text [0x2d, 0x2d, 0x2d, 0x2d, 0] 4 [SOP, 0x24, 0x40, 0x40, 0x40, 0x40, EOP] s \<bind> (\<lambda>s. Some (res, s)))"
proof -
  obtain a b c d e where junk: "junk = [a, b, c, d, e]" using assms by (auto simp: numeral_eq_Suc length_Suc_conv)
  have "[0..<4 :: nat] = [0, 1, 2, 3]" by (simp add: upt_rec)
  moreover have "segments 0x2d = Some 0x40" by (simp add: segments_def seg_fonts_def arr_get_def)
  moreover have "replicate 7 (0 :: u8) = [0, 0, 0, 0, 0, 0, 0]" by (simp add: numeral_eq_Suc)
  ultimately show ?thesis by (simp add: write_7119_def junk arr_copy_def arr_get_def arr_set_def Let_def)
qed

lemma dashes_78xx: "led_command [0x2d, 0x2d, 0x2d, 0x2d, 0] 4 = Some [SOP, 0x24, 0x40, 0x40, 0x40, 0x40, EOP]"
proof -
  have "[0..<4 :: nat] = [0, 1, 2, 3]" by (simp add: upt_rec)
  moreover have "segments 0x2d = Some 0x40" by (simp add: segments_def seg_fonts_def arr_get_def)
  moreover have "replicate 7 (0 :: u8) = [0, 0, 0, 0, 0, 0, 0]" "replicate 9 (0 :: u8) = [0, 0, 0, 0, 0, 0, 0, 0, 0]"
    by (simp_all add: numeral_eq_Suc)
  ultimately show ?thesis
    by (simp add: led_command_def arr_copy_def arr_set_def arr_get_def third_char_def period_3_def period_4_def Let_def)
qed

lemma dashes_send:
  assumes "asc_line (fp_board_of l) K rx tx en ready" "fp_delays (fp_board_of l) K tx en" "fp_ok s" "tx_armed en s"
    "length (queued s) + 7 < BUFFERSIZE" "length (ld_data (lastdata s)) = 128" "length junk = 5"
  shows "\<exists>s'. nuvotonWriteString l K junk [0x2d, 0x2d, 0x2d, 0x2d, 0] 4 s = Some (0, s') \<and>
    sends tx en [SOP, 0x24, 0x40, 0x40, 0x40, 0x40, EOP] s s'"
proof -
  let ?cmd = "[SOP, 0x24, 0x40, 0x40, 0x40, 0x40, EOP]"
  obtain d where d: "arr_copy (ld_data (lastdata s)) 0 [0x2d, 0x2d, 0x2d, 0x2d, 0] 0 4 = Some d" "length d = 128"
    using assms(6) by (simp add: arr_copy_def)
  have ok: "sends tx en bs s (t\<lparr>lastdata := x\<rparr>)" if "sends tx en bs s t" "length (ld_data x) = 128" for bs t x
    using that assms(6) by (simp add: sends_def fp_ok_def tx_armed_def queue_defs)
  show ?thesis
  proof (cases "l = LED_7119")
    case True
    then obtain t where "nuvotonWriteCommand HS7119 K ?cmd False s = Some (0, t)" "sends tx en ?cmd s t" "lastdata t = lastdata s"
      using command_sends [OF assms(1-4), of ?cmd] assms(5) by auto
    then show ?thesis
      using True dashes_7119 [OF assms(7), of K s] d ok by (simp add: nuvotonWriteString_def save_text_def)
  next
    case False
    let ?s = "s\<lparr>lastdata := (lastdata s)\<lparr>ld_data := d\<rparr>\<rparr>"
    have "fp_ok ?s" "tx_armed en ?s" "length (queued ?s) + length ?cmd < BUFFERSIZE"
      using assms(3-5) by (simp_all add: fp_ok_def tx_armed_def queue_defs)
    from command_sends [OF assms(1, 2) this] obtain t where t: "nuvotonWriteCommand (fp_board_of l) K ?cmd False ?s = Some (0, t)"
      "sends tx en ?cmd ?s t" "lastdata t = lastdata ?s" by blast
    moreover have "sends tx en ?cmd s t" using t(2) d(2) assms(6) by (simp add: sends_def queued_def)
    ultimately show ?thesis
      using False d dashes_78xx ok by (simp add: nuvotonWriteString_def write_78xx_def)
  qed
qed

text \<open>
  C23. What the line gets when a board with four digits (HS7119, HS7810A, HS7819) loads the driver, byte for byte: eight
  commands (the boot is over, standby does not switch the power off, the brightness, the code of the remote control, the
  clock of 24 hours, no time to wake up, and the two LEDs), then for each icon seven zero bytes, because the icons are
  switched off in a copy of the last text that is not yet there, then four dashes. All of it fits into the buffer, which
  is empty before, and is sent in order, also if the interrupt handler and the thread run in any order while the driver sleeps.
\<close>

theorem nuvoton_init_sends:
  assumes line: "asc_line (fp_board_of l) K rx tx en ready" "fp_delays (fp_board_of l) K tx en" "fp_sleeps (fp_board_of l) K tx en"
    and sema: "\<And>w. tx (fk_sema_init K Write_sem w) = tx w \<and> en (fk_sema_init K Write_sem w) = en w"
    and s: "fp_ok s" "queued s = []" "ld_buf (lastdata s) = replicate 7 0" "length (ld_data (lastdata s)) = 128" "length (wakeup_time s) = 5"
    and junk: "length junk = 5"
  shows "\<exists>s'. nuvoton_init_func l K junk s = Some (0, s') \<and> tx (fp_world s') @ queued s' = tx (fp_world s) @
    [SOP, 0x40, EOP,  SOP, 0x31, 0x02, EOP,  SOP, 0x23, 0x03, 0x0a, 0x02, EOP,
     SOP, 0xa5, 0x01, 0x02, 0xf9, 0x10, 0x0b, EOP,  SOP, 0x11, 0x81, EOP,  SOP, 0x72, 0xff, 0xff, EOP,
     SOP, 0x93, 0x01, 0x00, 0x08, EOP,  SOP, 0x93, 0x02, 0x03, 0x00, EOP] @
    replicate (7 * (nat (ICON_MAX l) - 1)) 0 @ [SOP, 0x24, 0x40, 0x40, 0x40, 0x40, EOP]"
proof -
  let ?bs = "concat (map fst init_commands)" and ?is = "[1..<nat (ICON_MAX l)]" and ?cmd = "[SOP, 0x24, 0x40, 0x40, 0x40, 0x40, EOP]"
  let ?s = "s\<lparr>lastdata := (lastdata s)\<lparr>ld_display_on := 1, ld_brightness := 7\<rparr>, fp_world := fk_sema_init K Write_sem (fp_world s)\<rparr>"
  have ok: "fp_ok ?s" "tx_armed en ?s" "queued ?s = []" "tx (fp_world ?s) = tx (fp_world s)"
    using s(1, 2) sema by (simp_all add: fp_ok_def tx_armed_def queued_def)
  have len: "length ?bs = 42" "length ?is \<le> 4" by (simp_all add: init_commands_def ICON_MAX_def)
  obtain t where t: "send_commands l K init_commands ?s = Some t" "sends tx en ?bs ?s t" "lastdata t = lastdata ?s"
    using send_commands_sends [OF line ok(1, 2), of init_commands] ok(3) len(1) by auto
  have icons: "\<forall>i \<in> set ?is. 0 < i \<and> int i < ICON_MAX l" by (auto simp: ICON_MAX_def)
  have "fp_ok t" "tx_armed en t" "length (queued t) \<le> 42" using t(2) ok(3) len(1) by (auto simp: sends_def)
  then obtain u where u: "set_icons l K 0 ?is t = Some (0, u)" "sends tx en (replicate (7 * length ?is) 0) t u" "lastdata u = lastdata t"
    using icons_send [OF line(1, 2) _ _ _ icons, of t] t(3) s(3) len(2) by auto
  have "fp_ok u" "tx_armed en u" "length (queued u) + 7 < BUFFERSIZE" "length (ld_data (lastdata u)) = 128"
    using u(2, 3) t(3) \<open>length (queued t) \<le> 42\<close> len(2) s(4) by (auto simp: sends_def)
  then obtain v where v: "nuvotonWriteString l K junk [0x2d, 0x2d, 0x2d, 0x2d, 0] 4 u = Some (0, v)" "sends tx en ?cmd u v"
    using dashes_send [OF line(1, 2) _ _ _ _ junk] by blast
  have all: "sends tx en ((?bs @ replicate (7 * length ?is) 0) @ ?cmd) ?s v" using sends_trans [OF sends_trans [OF t(2) u(2)] v(2)] .
  then have "length (wakeup_time v) = 5" using s(5) by (simp add: sends_def)
  then have "nuvoton_init_func l K junk s = Some (0, v\<lparr>wakeup_time := [0x9e, 0x8b, 0, 0, 0]\<rparr>)"
    using t(1) u(1) v(1) by (simp add: nuvoton_init_func_def arr_copy_def)
  moreover have "tx (fp_world v) @ queued v = tx (fp_world s) @ ?bs @ replicate (7 * length ?is) 0 @ ?cmd"
    using all ok(3, 4) by (simp add: sends_def)
  moreover have "?bs = [SOP, 0x40, EOP,  SOP, 0x31, 0x02, EOP,  SOP, 0x23, 0x03, 0x0a, 0x02, EOP,
     SOP, 0xa5, 0x01, 0x02, 0xf9, 0x10, 0x0b, EOP,  SOP, 0x11, 0x81, EOP,  SOP, 0x72, 0xff, 0xff, EOP,
     SOP, 0x93, 0x01, 0x00, 0x08, EOP,  SOP, 0x93, 0x02, 0x03, 0x00, EOP]"
    by (simp add: init_commands_def)
  ultimately show ?thesis by (simp add: queued_def)
qed

section \<open>A machine\<close>

lemma bench_env: "panel_env fb_sem (bench_panel b)"
  by (simp add: panel_env_def panel_wf_def bench_panel_def)

lemma bench_wf: "panel_wf fb_sem 1 0 (bench_with [] [])"
  using ring_of [of "[]"] by (simp add: panel_wf_def bench_with_def bench_start_def)

lemma bench_sleeps: "fp_sleeps b (bench_panel b) fb_tx fb_en"
  by (simp add: fp_sleeps_def bench_panel_def panel_steps.none)

theorem nuvoton_ioctl_wf_witness:
  "\<exists>r arg' s'. NUVOTONdev_ioctl LED_7810A (bench_panel HS7810A) [] (0, 0) VFDDRIVERINIT (replicate 66 0) (bench_with [] []) = Some ((r, arg'), s') \<and>
     fb_sem (fp_world s') = 2"
  using nuvoton_ioctl_wf [OF bench_env [of HS7810A] bench_wf, of LED_7810A VFDDRIVERINIT "replicate 66 0" "[]" "(0, 0)"]
  by (auto simp: arg_ok_def ascii_def bench_panel_def panel_wf_def)

theorem nuvoton_init_sends_witness:
  "\<exists>s'. nuvoton_init_func LED_7119 (bench_panel HS7119) (replicate 5 0) (bench_with [] []) = Some (0, s') \<and>
     fb_tx (fp_world s') @ queued s' = [SOP, 0x40, EOP,  SOP, 0x31, 0x02, EOP,  SOP, 0x23, 0x03, 0x0a, 0x02, EOP,
       SOP, 0xa5, 0x01, 0x02, 0xf9, 0x10, 0x0b, EOP,  SOP, 0x11, 0x81, EOP,  SOP, 0x72, 0xff, 0xff, EOP,
       SOP, 0x93, 0x01, 0x00, 0x08, EOP,  SOP, 0x93, 0x02, 0x03, 0x00, EOP] @ replicate 7 0 @ [SOP, 0x24, 0x40, 0x40, 0x40, 0x40, EOP]"
proof -
  have "fb_tx (fk_sema_init (bench_panel HS7119) Write_sem w) = fb_tx w \<and> fb_en (fk_sema_init (bench_panel HS7119) Write_sem w) = fb_en w" for w
    by (simp add: bench_panel_def)
  moreover have "ld_buf (lastdata (bench_with [] [])) = replicate 7 0" "length (ld_data (lastdata (bench_with [] []))) = 128"
      "length (wakeup_time (bench_with [] [])) = 5"
    by (simp_all add: bench_with_def bench_start_def)
  ultimately show ?thesis
    using nuvoton_init_sends [where l = LED_7119 and K = "bench_panel HS7119" and rx = fb_rx and tx = fb_tx and en = fb_en and
      ready = "\<lambda>w. True" and s = "bench_with [] []" and junk = "replicate 5 0"] bench_with [of "[]" "[]"] bench_line [of HS7119]
      bench_delays [of HS7119] bench_sleeps [of HS7119] by (simp add: ICON_MAX_def)
qed

end
