(* ===== verification/Spec2Isabelle.thy ===== *)
theory Spec2Isabelle
  imports Atr Sci_IO Cec_Bus Cec_IO Avs_Core Bpamem Rfmod Starci_Slots Nuvoton_Init
begin

text \<open>
  A verification development of seven drivers of the set-top box driver tree: the smart card reader
  (\<^verbatim>\<open>src/smartcard/\<close>), the HDMI CEC driver (\<^verbatim>\<open>src/cec/\<close>), the audio and video switch (\<^verbatim>\<open>src/avs/\<close>),
  the memory device (\<^verbatim>\<open>src/bpamem/\<close>), the RF modulator (\<^verbatim>\<open>src/rfmod/\<close>), the common interface
  controller (\<^verbatim>\<open>src/cic/starci2win/\<close>) and the front panel of the boards with a Nuvoton processor
  (\<^verbatim>\<open>src/frontcontroller/nuvoton/\<close>).

  \<^bold>\<open>The program.\<close> The tree holds one kernel module per device of the box. Most of its lines are
  vendored (wireless drivers, the STMicroelectronics display, demultiplexer and multicom code). The
  modules do not call each other except where noted; each has its own state, its own interrupt
  handler and its own device or proc files.

  The smart card reader has one control block per slot. A thread watches the card detect pin; when a
  card is inserted the user resets it through an ioctl, the interrupt handler collects the answer to
  reset, \<^verbatim>\<open>atr.c\<close> parses it, and the baud rate and the times follow from it (\<^verbatim>\<open>sci_params.c\<close>). Then
  read and write exchange bytes with the card through two buffers that the interrupt handler fills
  and empties.

  The CEC driver has one line, shared by all devices on the HDMI cable. The interrupt handler
  (\<^verbatim>\<open>cec_worker.c\<close>) receives and sends frames of at most 16 bytes, byte by byte, over the registers of
  \<^verbatim>\<open>cec_internal.c\<close>; a thread starts each transmission. \<^verbatim>\<open>cec_opcodes.c\<close> evaluates the messages,
  answers them and finds a free logical address by pinging. In the active mode keys go to an input
  device (\<^verbatim>\<open>cec_rc.c\<close>) and commands come from proc files (\<^verbatim>\<open>cec_proc.c\<close>); in the passive mode the
  messages go to the reader of a device file through a ring buffer (\<^verbatim>\<open>cec_dev.c\<close>).

  The switch connects the decoder, the recorder's and the television's SCART sockets. \<^verbatim>\<open>avs_core.c\<close> finds
  the driver by the name given as module parameter and hands it the commands, which come from a device
  file or from the kernel. Six drivers keep a shadow copy of the registers of an I2C chip, change it and
  send it (\<^verbatim>\<open>stv6412.c\<close>, \<^verbatim>\<open>stv6417.c\<close>, \<^verbatim>\<open>stv6418.c\<close>, \<^verbatim>\<open>stv6419.c\<close>, \<^verbatim>\<open>ak4705.c\<close>/\<^verbatim>\<open>ak4708.c\<close>, \<^verbatim>\<open>cxa2161r.c\<close>); the others
  set pins (\<^verbatim>\<open>avs_pio.c\<close>, \<^verbatim>\<open>vip1_avs.c\<close>, \<^verbatim>\<open>fake_avs.c\<close>), one of them through a shift register
  (\<^verbatim>\<open>vip2_avs.c\<close>), or do nothing (\<^verbatim>\<open>avs_none.c\<close>).

  The memory device hands out up to 32 blocks of the board's physical memory, each as a device that the
  user maps. The RF modulator keeps four bytes that it sends to its chip in pairs.

  The common interface has two slots for modules behind the StarCI2Win chip. The kernel's DVB code calls the
  operations of \<^verbatim>\<open>starci2win.c\<close>: it polls the slots, resets a module that has been inserted, and reads and
  writes its attribute memory and its registers. Each access sets the chip over I2C to connect the slot and
  to choose the memory, and then reads or writes a window of the bus.

  The front panel is a processor of its own behind a serial line. Commands are put into a ring buffer that the
  interrupt handler sends; what it receives goes into a second one, from which a thread takes the packets
  apart: keys of the panel and of the remote control go into a third buffer, which the user reads, and
  answers to the driver that waits for them. Text is written to a device file and shown on the display.

  \<^bold>\<open>Modelling.\<close> The static variables of a driver are a record, C structs are records and enums are
  datatypes, integers have their C widths as words (\<^verbatim>\<open>unsigned long\<close> has 32 bits), and every function
  is a HOL function with the state passed through. \<open>None\<close> is undefined behaviour (an access outside
  an array, a division by zero, an undefined shift) or a wait that never ends, so that statements
  about definedness are exact statements about memory safety and termination. Preprocessor symbols are
  fields of a configuration. The kernel, the hardware and user memory are parameters: a record of
  functions over a world of any type, with what a property relies on as a named hypothesis
  (\<open>sleep_ok\<close>; \<open>uart\<close>, the registers of the serial controller over its two FIFOs of 16 bytes and the overrun flag, of
  which nothing moves on the line while a handler runs; \<open>delay_ok\<close>, \<open>cec_bus\<close>; \<open>avs_bus\<close>, an I2C bus on which a message has arrived if
  the transfer reports its full length, and of whose chip nothing is known after a failed one; \<open>hc595_board\<close>, pins wired to a shift register, \<open>bpa2_laws\<close>, an allocator that gives free addresses, \<open>rf_bus\<close>, \<open>starci_chip\<close>, the registers of the
  StarCI2Win, and \<open>answering\<close>, which modules show the first byte of their description; \<open>asc_line\<close>, the registers of a serial
  line, \<open>fp_delays\<close>, only interrupts run during a delay, \<open>fp_sleeps\<close>, only the interrupt handler and the thread of the front
  panel (\<open>panel_steps\<close>) run during a sleep, \<open>led_env\<close> and \<open>panel_env\<close>, nothing else changes the sizes of buffers). Functions that sleep or delay hand the whole state to the
  kernel, because interrupts and other threads run meanwhile.

  \<^bold>\<open>Theories.\<close>
  \<^item> \<open>Prelude\<close>: words, checked arrays and divisions, \<open>pred_option\<close> rules for sequences of fallible
    steps; the interfaces \<open>line_code\<close> (an involutive code of bytes) and \<open>wait_loop\<close> (a loop that
    pauses until a condition ends, which returns exactly if it ends after finitely many pauses).
  \<^item> \<open>Atr\<close>: \<^verbatim>\<open>atr.c\<close>, the parser \<open>ATR_InitFromArray\<close>, its printer \<open>ATR_GetRaw\<close> and the parameter tables.
    The parser and the printer are inverse; exactly when the parser leaves its arrays.
  \<^item> \<open>Sci_Types\<close>: \<^verbatim>\<open>sci.h\<close> and the chip headers, the control block, the kernel, the invariant \<open>wf_drv\<close>,
    the interface \<open>hw_op\<close> of the operations that only touch the hardware.
  \<^item> \<open>Sci_Machine\<close>: a concrete machine on which properties are evaluated.
  \<^item> \<open>Sci_Reg\<close>: registers, voltage, clock and reset; the divider of the clock, and its errors.
  \<^item> \<open>Sci_Irq\<close>: the interrupt handlers (\<open>sci_irq0_rx_tx_handler\<close>, \<open>sci_irq1_rx_tx_handler\<close>, \<open>red_read\<close>).
  \<^item> \<open>Sci_Line\<close>: the handlers against an abstract serial line (\<open>line_step\<close>): one run of a handler is one
    step of the line, whatever the FIFOs hold (bursts of sixteen and of eight bytes, an overrun), and with the FIFO
    emptying at any pace between the interrupts the runs send the whole transmit buffer.
  \<^item> \<open>Sci_Params\<close>: \<^verbatim>\<open>sci_params.c\<close>; setting and reading back, the divisions by zero, the search for a
    frequency.
  \<^item> \<open>Sci_Init\<close>: card detection, initialisation and shutdown; when shutdown returns.
  \<^item> \<open>Sci_Dev\<close>: the device operations, the evaluation of the answer to reset, the module.
  \<^item> \<open>Sci_Drv\<close>: every operation keeps the invariant; the driver as the step relation \<open>drv_step\<close> and its
    reachable states.
  \<^item> \<open>Sci_IO\<close>: read, write, poll, open and the ioctls end to end.
  \<^item> \<open>Cec_Types\<close>, \<open>Cec_Machine\<close>: the state of the CEC driver, the kernel, the invariant \<open>wf_cec\<close>, the
    interface \<open>cec_world_op\<close>; a concrete machine.
  \<^item> \<open>Cec_Line\<close>: \<^verbatim>\<open>cec_internal.c\<close>, \<open>sendMessageWithRetry\<close> and the thread (\<open>cec_task_step\<close>) of
    \<^verbatim>\<open>cec_worker.c\<close>. A buffer argument is a \<open>msg_buf\<close>, which tells the static buffers from a
    caller's array, because the code passes the send buffer to functions that overwrite it.
  \<^item> \<open>Cec_Ring\<close>: the ring buffer of \<^verbatim>\<open>cec_dev.c\<close>, the interface \<open>byte_queue\<close> it implements for
    messages that fit in one piece, and what happens without room or when a message wraps around.
  \<^item> \<open>Cec_Opcodes\<close>: \<^verbatim>\<open>cec_opcodes.c\<close> with the event counters and \<open>input_inject\<close>.
  \<^item> \<open>Cec_Irq\<close>, \<open>Cec_Dev\<close>: \<open>cec_interrupt\<close>; the device file, the proc files, the input device, the module.
  \<^item> \<open>Cec_Drv\<close>: every operation keeps \<open>wf_cec\<close>; which are always defined; the driver as a state machine
    (\<open>cec_do\<close>, \<open>cec_reachable\<close>); the search for a logical address.
  \<^item> \<open>Cec_Bus\<close>: the controller on the line (\<open>cec_bus\<close>); receiving, sending and repeating frames as
    sequences of interrupts.
  \<^item> \<open>Cec_IO\<close>: the names of messages, keys, and writing to the device file.
  \<^item> \<open>Avs_Types\<close>, \<open>Avs_Command\<close>: boards, the kernel, \<^verbatim>\<open>tools.c\<close>; the switches over the commands, which the
    drivers share but for the operations they call (\<open>scart_ops\<close>, \<open>basic_ops\<close>), and the interface of the
    predicates that every command keeps.
  \<^item> \<open>Avs_Stv6412\<close>: the driver, the shadow copy and the chip (on the boards that do not send a fixed message), exactly which commands read outside a table.
  \<^item> \<open>Avs_Switch\<close>: an abstract switch with mute and standby, which \<open>Avs_Stv6412\<close> implements; both command
    interfaces agree; an unmute during standby is lost.
  \<^item> \<open>Avs_Stv641x\<close>, \<open>Avs_Registers\<close>: the three drivers over an array of registers; settings are read back
    on one of them and never reach the chip on the two others.
  \<^item> \<open>Avs_Ak470x\<close>, \<open>Avs_Cxa2161r\<close>: which settings are read back as they were made, and which are not.
  \<^item> \<open>Avs_Pio\<close>, \<open>Avs_Pins\<close>: the drivers over pins, and the shift register that shows the control bits.
  \<^item> \<open>Avs_Core\<close>: the core; exactly which modules fail every command; a whole module with the STV6412.
  \<^item> \<open>Bpamem\<close>: the blocks that the allocator has given are those of the devices and those that \<^verbatim>\<open>UNMAPMEM\<close> has lost
    (\<open>lost_blocks\<close>); what is mapped.
  \<^item> \<open>Rfmod\<close>: the divider of a channel, the chip holds what the driver remembers, where they part.
  \<^item> \<open>Starci\<close>: \<^verbatim>\<open>starci2win.c\<close>. \<open>Starci_Chip\<close>: what every operation does to the registers of the chip; each
    access is made with its slot connected; routing the streams and reading the route back.
  \<^item> \<open>Starci_Slots\<close>: the slots as a state machine (\<open>slots_step\<close>), which every call implements; sequences of calls
    (the interface \<open>ci_calls\<close>); exactly which accesses are defined; a module becomes ready; a dead bus.

  \<^item> \<open>Nuvoton\<close>: \<^verbatim>\<open>nuvoton_main.c\<close> and the commands and device files of \<^verbatim>\<open>nuvoton_file.c\<close>. \<open>Nuvoton_Ring\<close>: the buffers as
    bounded queues (the interface \<open>bounded_fifo\<close>), what one round of the thread does with the bytes that wait.
  \<^item> \<open>Nuvoton_Packets\<close>: runs of the interrupt handler, the thread and the readers (\<open>panel_run\<close>): every packet is taken
    once and in order; which bytes block the receiver until the buffer overflows. \<open>Nuvoton_Send\<close>: commands reach the line; answers that do not
    come; overflow.
  \<^item> \<open>Nuvoton_Led\<close>, \<open>Nuvoton_Display\<close>: the boards with four digits; which texts they show without leaving an array, and
    what the line gets for a time of day.
  \<^item> \<open>Nuvoton_Ioctl\<close>, \<open>Nuvoton_Init\<close>: the initialisation and the ioctls of these boards; every ioctl keeps the buffers and
    frees the semaphore but one, for the arguments \<open>arg_ok\<close> of each; the bytes that the initialisation sends.

  \<^bold>\<open>Loops.\<close> Loops over buffers are recursive functions with their termination proofs. The wait loops of
  the drivers are partial functions into \<open>option\<close>, without fuel; \<open>send_wait\<close> counts down from 100 as the
  code does. Statements that an operation returns are proved as such (\<open>\<exists>d. ... = Some d\<close>, or an exact
  condition for \<open>None\<close>).

  \<^bold>\<open>Not modelled.\<close> Debug output (except the strings built for it in \<^verbatim>\<open>parseMessage\<close>); memory barriers and
  reorderings; preemption inside one operation other than at its sleeps and delays; tests for null
  pointers that the callers exclude. Of the tree: the front panel controllers of other boards, and of the Nuvoton ones the texts, icons and ioctls of the other displays
  and the proc files; the controllers of the common interface on other boards; the vendored drivers, the frontends and the demultiplexer, which are
  register sequences of chips and firmware without documentation in the tree, or glue to the kernel.
\<close>

end
